(* ===== verification/Prelude.thy ===== *)
theory Prelude
  imports Main
begin

text \<open>
  Shared vocabulary of the development: identifiers and instants, the HTTP exceptions of
  the services as an error datatype, results and outcomes (a result together with the
  state after the call), table operations (a repository table is the list of its rows in
  table order), the comparator-driven stable sort of JavaScript arrays, and the lemma
  collections the component theories add to.
\<close>

named_theorems row_simps "selection and update of table rows"
named_theorems outcome_simps "unfolding of results and outcomes"

subsection \<open>Identifiers, instants and errors\<close>

type_synonym uuid = string
type_synonym instant = int \<comment> \<open>a Date: milliseconds since the epoch (UTC)\<close>

datatype http_error =
    BadRequest string
  | Unauthorized string
  | Forbidden string
  | NotFound string
  | Conflict string
  | Unprocessable string
  | TooManyRequests string
  | ServerError string

type_synonym 'a result = "http_error + 'a"
type_synonym ('s, 'a) outcome = "'a result \<times> 's"

definition is_ok :: "'a result \<Rightarrow> bool" where
  "is_ok r = (case r of Inl _ \<Rightarrow> False | Inr _ \<Rightarrow> True)"

lemma is_ok_simps [simp, outcome_simps]: "is_ok (Inr x)" "\<not> is_ok (Inl e)"
  by (simp_all add: is_ok_def)

text \<open>A database transaction: the state of a failed body is rolled back.\<close>

definition transaction :: "('s \<Rightarrow> ('s, 'a) outcome) \<Rightarrow> 's \<Rightarrow> ('s, 'a) outcome" where
  "transaction body s = (case body s of (Inl e, _) \<Rightarrow> (Inl e, s) | (Inr x, s') \<Rightarrow> (Inr x, s'))"

lemma transaction_Inr [outcome_simps]:
  "transaction body s = (Inr x, s') \<longleftrightarrow> body s = (Inr x, s')"
  by (auto simp: transaction_def split: prod.splits sum.splits)

lemma transaction_Inl [outcome_simps]:
  "transaction body s = (Inl e, s') \<longleftrightarrow> (\<exists>t. body s = (Inl e, t)) \<and> s' = s"
  by (auto simp: transaction_def split: prod.splits sum.splits)

text \<open>JavaScript truthiness of an optional string: absent and empty are both falsy.\<close>

fun truthy :: "string option \<Rightarrow> bool" where
  "truthy None = False"
| "truthy (Some s) = (s \<noteq> [])"

subsection \<open>Tables\<close>

text \<open>
  \<open>find_row p t\<close> is the first row that satisfies \<open>p\<close> (\<open>findOne\<close>), \<open>update_rows p f t\<close>
  rewrites every row that satisfies \<open>p\<close> (\<open>update(criteria, patch)\<close>), \<open>save_row\<close> replaces the
  row with the same key or appends a new one (\<open>save\<close>), \<open>delete_rows\<close> removes rows.
\<close>

definition find_row :: "('r \<Rightarrow> bool) \<Rightarrow> 'r list \<Rightarrow> 'r option" where
  "find_row p t = List.find p t"

definition update_rows :: "('r \<Rightarrow> bool) \<Rightarrow> ('r \<Rightarrow> 'r) \<Rightarrow> 'r list \<Rightarrow> 'r list" where
  "update_rows p f t = map (\<lambda>r. if p r then f r else r) t"

definition delete_rows :: "('r \<Rightarrow> bool) \<Rightarrow> 'r list \<Rightarrow> 'r list" where
  "delete_rows p t = filter (\<lambda>r. \<not> p r) t"

definition save_row :: "('r \<Rightarrow> 'k) \<Rightarrow> 'r \<Rightarrow> 'r list \<Rightarrow> 'r list" where
  "save_row key r t =
     (if key r \<in> key ` set t then map (\<lambda>x. if key x = key r then r else x) t else t @ [r])"

lemma find_row_SomeD [row_simps]: "find_row p t = Some r \<Longrightarrow> r \<in> set t \<and> p r"
  by (auto simp: find_row_def find_Some_iff)

lemma find_row_None_iff [row_simps]: "find_row p t = None \<longleftrightarrow> (\<forall>r \<in> set t. \<not> p r)"
  by (auto simp: find_row_def find_None_iff)

lemma find_row_simps [simp]:
  "find_row p [] = None"
  "find_row p (r # t) = (if p r then Some r else find_row p t)"
  by (simp_all add: find_row_def)

lemma find_row_unique:
  "distinct (map key t) \<Longrightarrow> r \<in> set t \<Longrightarrow> find_row (\<lambda>x. key x = key r) t = Some r"
  by (induction t) force+

lemma find_row_append:
  "find_row p (xs @ ys) = (case find_row p xs of Some r \<Rightarrow> Some r | None \<Rightarrow> find_row p ys)"
  by (induction xs) auto

lemma key_absentD: "k \<notin> key ` set t \<Longrightarrow> x \<in> set t \<Longrightarrow> key x \<noteq> k"
  by blast

lemma update_rows_simps [simp]:
  "update_rows p f [] = []"
  "update_rows p f (r # t) = (if p r then f r else r) # update_rows p f t"
  by (simp_all add: update_rows_def)

lemma length_update_rows [simp]: "length (update_rows p f t) = length t"
  by (simp add: update_rows_def)

lemma in_update_rows [row_simps]:
  "r \<in> set (update_rows p f t) \<longleftrightarrow> (\<exists>x \<in> set t. r = (if p x then f x else x))"
  by (auto simp: update_rows_def)

lemma update_rows_keys:
  "(\<And>r. key (f r) = key r) \<Longrightarrow> map key (update_rows p f t) = map key t"
  by (induction t) auto

lemma image_set_update:
  "(\<And>r. key (f r) = key r) \<Longrightarrow> key ` set (update_rows p f t) = key ` set t"
  using update_rows_keys [of key f p t] by (metis set_map)

lemma find_row_update_rows:
  assumes "\<And>r. q (f r) = q r"
  shows "find_row q (update_rows p f t) =
    map_option (\<lambda>r. if p r then f r else r) (find_row q t)"
  using assms by (induction t) auto

lemma in_delete_rows [row_simps]: "r \<in> set (delete_rows p t) \<longleftrightarrow> r \<in> set t \<and> \<not> p r"
  by (auto simp: delete_rows_def)

lemma save_row_new: "key r \<notin> key ` set t \<Longrightarrow> save_row key r t = t @ [r]"
  by (simp add: save_row_def)

lemma save_row_existing:
  "key r \<in> key ` set t \<Longrightarrow>
   save_row key r t = update_rows (\<lambda>x. key x = key r) (\<lambda>_. r) t"
  by (simp add: save_row_def update_rows_def)

lemma in_save_row [row_simps]:
  "x \<in> set (save_row key r t) \<longleftrightarrow> x = r \<or> (x \<in> set t \<and> key x \<noteq> key r)"
  by (auto simp: save_row_def image_iff split: if_splits)

lemma save_row_keys_distinct:
  assumes "distinct (map key t)"
  shows "distinct (map key (save_row key r t))"
proof (cases "key r \<in> key ` set t")
  case True
  have "map key (map (\<lambda>x. if key x = key r then r else x) t) = map key t"
    by (induction t) auto
  with True assms show ?thesis by (simp add: save_row_def del: map_map)
next
  case False
  with assms show ?thesis by (simp add: save_row_def)
qed

lemma find_row_save_row_same: "find_row (\<lambda>x. key x = key r) (save_row key r t) = Some r"
proof (cases "key r \<in> key ` set t")
  case True
  then have "find_row (\<lambda>x. key x = key r) (map (\<lambda>x. if key x = key r then r else x) t) = Some r"
    by (induction t) auto
  with True show ?thesis by (simp add: save_row_def)
next
  case False
  then have "find_row (\<lambda>x. key x = key r) t = None"
    unfolding find_row_None_iff by (metis image_eqI)
  with False show ?thesis by (simp add: save_row_def find_row_append)
qed

lemma find_row_save_row_other:
  assumes "k \<noteq> key r"
  shows "find_row (\<lambda>x. key x = k) (save_row key r t) = find_row (\<lambda>x. key x = k) t"
proof (cases "key r \<in> key ` set t")
  case True
  have "find_row (\<lambda>x. key x = k) (map (\<lambda>x. if key x = key r then r else x) t) =
      find_row (\<lambda>x. key x = k) t"
    using assms by (induction t) auto
  with True show ?thesis by (simp add: save_row_def)
next
  case False
  with assms show ?thesis by (simp add: save_row_def find_row_append split: option.split)
qed

text \<open>
  The interface of a keyed table, as the services use a repository: what a lookup by key
  returns after a save and after a removal.
\<close>

locale keyed_table =
  fixes key :: "'r \<Rightarrow> 'k"
    and get :: "'k \<Rightarrow> 't \<Rightarrow> 'r option"
    and put :: "'r \<Rightarrow> 't \<Rightarrow> 't"
    and drop_key :: "'k \<Rightarrow> 't \<Rightarrow> 't"
    and empty :: 't
  assumes get_empty: "get k empty = None"
    and get_put: "get k (put r t) = (if k = key r then Some r else get k t)"
    and get_drop: "get k (drop_key k' t) = (if k = k' then None else get k t)"
begin

lemma get_put_same [simp]: "get (key r) (put r t) = Some r"
  by (simp add: get_put)

lemma get_put_other: "k \<noteq> key r \<Longrightarrow> get k (put r t) = get k t"
  by (simp add: get_put)

lemma put_overwrites: "key r = key r' \<Longrightarrow> get k (put r (put r' t)) = get k (put r t)"
  by (simp add: get_put)

lemma put_commute:
  "key r \<noteq> key r' \<Longrightarrow> get k (put r (put r' t)) = get k (put r' (put r t))"
  by (simp add: get_put)

lemma drop_put: "get k (drop_key (key r) (put r t)) = get k (drop_key (key r) t)"
  by (simp add: get_put get_drop)

lemma puts_frame:
  "k \<notin> key ` set rs \<Longrightarrow> get k (fold put rs t) = get k t"
  by (induction rs arbitrary: t) (auto simp: get_put)

end

lemma find_row_delete_rows:
  "find_row (\<lambda>x. key x = k) (delete_rows (\<lambda>x. key x = k') t) =
   (if k = k' then None else find_row (\<lambda>x. key x = k) t)"
  by (induction t) (auto simp: delete_rows_def)

interpretation row_table: keyed_table key
  "\<lambda>k. find_row (\<lambda>x. key x = k)" "save_row key" "\<lambda>k. delete_rows (\<lambda>x. key x = k)" "[]"
  for key :: "'r \<Rightarrow> 'k"
  by unfold_locales
    (auto simp: find_row_save_row_same find_row_save_row_other find_row_delete_rows)

subsection \<open>Stable sorting with a comparator\<close>

text \<open>
  \<open>Array.prototype.sort\<close> with a comparator is stable; a negative or zero value keeps the
  order of the two elements. Insertion sort from the right is the executable reference.
\<close>

fun insert_by :: "('a \<Rightarrow> 'a \<Rightarrow> int) \<Rightarrow> 'a \<Rightarrow> 'a list \<Rightarrow> 'a list" where
  "insert_by cmp x [] = [x]"
| "insert_by cmp x (y # ys) = (if cmp x y \<le> 0 then x # y # ys else y # insert_by cmp x ys)"

fun sort_by :: "('a \<Rightarrow> 'a \<Rightarrow> int) \<Rightarrow> 'a list \<Rightarrow> 'a list" where
  "sort_by cmp [] = []"
| "sort_by cmp (x # xs) = insert_by cmp x (sort_by cmp xs)"

lemma set_insert_by [simp]: "set (insert_by cmp x ys) = insert x (set ys)"
  by (induction ys) auto

lemma set_sort_by [simp]: "set (sort_by cmp xs) = set xs"
  by (induction xs) auto

lemma length_insert_by [simp]: "length (insert_by cmp x ys) = Suc (length ys)"
  by (induction ys) auto

lemma length_sort_by [simp]: "length (sort_by cmp xs) = length xs"
  by (induction xs) auto

lemma sum_list_insert_by:
  fixes f :: "'a \<Rightarrow> 'b::comm_monoid_add"
  shows "sum_list (map f (insert_by cmp x ys)) = f x + sum_list (map f ys)"
  by (induction ys) (auto simp: algebra_simps)

lemma sum_list_sort_by [simp]:
  fixes f :: "'a \<Rightarrow> 'b::comm_monoid_add"
  shows "sum_list (map f (sort_by cmp xs)) = sum_list (map f xs)"
  by (induction xs) (auto simp: sum_list_insert_by)

definition comparator :: "('a \<Rightarrow> 'a \<Rightarrow> int) \<Rightarrow> bool" where
  "comparator cmp \<longleftrightarrow>
     (\<forall>x y. cmp x y \<le> 0 \<or> cmp y x \<le> 0) \<and>
     (\<forall>x y z. cmp x y \<le> 0 \<longrightarrow> cmp y z \<le> 0 \<longrightarrow> cmp x z \<le> 0)"

lemma sorted_insert_by:
  assumes "comparator cmp" "sorted_wrt (\<lambda>x y. cmp x y \<le> 0) ys"
  shows "sorted_wrt (\<lambda>x y. cmp x y \<le> 0) (insert_by cmp x ys)"
  using assms(2)
proof (induction ys)
  case Nil
  then show ?case by simp
next
  case (Cons y ys)
  show ?case
  proof (cases "cmp x y \<le> 0")
    case True
    with Cons.prems assms(1) show ?thesis by (fastforce simp: comparator_def)
  next
    case False
    with assms(1) have "cmp y x \<le> 0" by (auto simp: comparator_def)
    with False Cons show ?thesis by auto
  qed
qed

lemma sorted_sort_by:
  "comparator cmp \<Longrightarrow> sorted_wrt (\<lambda>x y. cmp x y \<le> 0) (sort_by cmp xs)"
  by (induction xs) (auto simp: sorted_insert_by)

subsection \<open>Folds and lists\<close>

lemma list_all_filterI: "(\<And>x. x \<in> set xs \<Longrightarrow> p x) \<Longrightarrow> filter p xs = xs"
  by (induction xs) auto

lemma take_Suc_length_gt: "length (take (Suc n) xs) > n \<longleftrightarrow> length xs > n"
  by auto

lemma count_filter_mono:
  "(\<And>x. x \<in> set xs \<Longrightarrow> p x \<Longrightarrow> q x) \<Longrightarrow> length (filter p xs) \<le> length (filter q xs)"
  by (induction xs) (auto simp: le_SucI)

lemma same_key_length:
  assumes "distinct (map key xs)" "\<And>x y. x \<in> set xs \<Longrightarrow> y \<in> set xs \<Longrightarrow> key x = key y"
  shows "length xs \<le> 1"
proof (rule ccontr)
  assume "\<not> length xs \<le> 1"
  then obtain a b ys where "xs = a # b # ys" by (cases xs; cases "tl xs") auto
  with assms show False by auto
qed

subsection \<open>Updating a batch of rows\<close>

text \<open>
  Writing the rows of a batch back one after the other is the same as one pass over the
  table, as long as the keys are distinct: the queue processors rest on this.
\<close>

lemma update_rows_key_set:
  assumes "key r = key e"
  shows "key ` set (update_rows (\<lambda>x. key x = key e) (\<lambda>_. r) t) = key ` set t"
  using assms by (induction t) auto

lemma fold_row_absent:
  "k \<notin> key ` set es \<Longrightarrow> key x = k \<Longrightarrow>
   fold (\<lambda>e x. if key x = key e then g e else x) es x = x"
  by (induction es arbitrary: x) auto

lemma fold_row_present:
  assumes "distinct (map key es)" "e \<in> set es" "key x = key e" "\<And>e. key (g e) = key e"
  shows "fold (\<lambda>e x. if key x = key e then g e else x) es x = g e"
  using assms(1-3)
proof (induction es arbitrary: x)
  case (Cons a es)
  show ?case
  proof (cases "e = a")
    case True
    then have "key e \<notin> key ` set es" using Cons.prems(1) by simp
    then show ?thesis using True Cons.prems(3) fold_row_absent [of "key e" key es "g e" g] assms(4)
      by simp
  next
    case False
    then have "e \<in> set es" using Cons.prems(2) by simp
    moreover from this have "key e \<noteq> key a"
      using Cons.prems(1) by (metis distinct.simps(2) image_eqI list.simps(9) set_map)
    ultimately have "e \<in> set es" "key e \<noteq> key a" by blast+
    then show ?thesis using Cons by auto
  qed
qed simp

lemma fold_update_rows_map:
  "fold (\<lambda>e. update_rows (\<lambda>x. key x = key e) (\<lambda>_. g e)) es t =
   map (\<lambda>x. fold (\<lambda>e x. if key x = key e then g e else x) es x) t"
  by (induction es arbitrary: t) (simp_all add: update_rows_def comp_def)

lemma fold_update_rows:
  assumes "distinct (map key t)" "distinct es" "set es \<subseteq> set t" "\<And>e. key (g e) = key e"
  shows "fold (\<lambda>e. update_rows (\<lambda>x. key x = key e) (\<lambda>_. g e)) es t =
    map (\<lambda>x. if x \<in> set es then g x else x) t"
  unfolding fold_update_rows_map
proof (rule map_cong [OF refl])
  fix x assume x: "x \<in> set t"
  have inj: "inj_on key (set t)" using assms(1) by (simp add: distinct_map)
  then have d: "distinct (map key es)"
    using assms(2,3) by (auto simp: distinct_map intro: inj_on_subset)
  show "fold (\<lambda>e x. if key x = key e then g e else x) es x = (if x \<in> set es then g x else x)"
  proof (cases "x \<in> set es")
    case True
    then show ?thesis using fold_row_present [OF d True refl assms(4)] by simp
  next
    case False
    then have "key x \<notin> key ` set es" using inj x assms(3) by (auto simp: inj_on_def)
    then show ?thesis using False fold_row_absent [of "key x" key es x g] by simp
  qed
qed

lemma save_row_existing_update:
  "r \<in> set t \<Longrightarrow> key (g r) = key r \<Longrightarrow>
   save_row key (g r) t = update_rows (\<lambda>x. key x = key r) (\<lambda>_. g r) t"
  by (subst save_row_existing) auto

lemma distinct_insert_by: "distinct (insert_by cmp x ys) \<longleftrightarrow> x \<notin> set ys \<and> distinct ys"
  by (induction ys) auto

lemma distinct_sort_by [simp]: "distinct (sort_by cmp xs) \<longleftrightarrow> distinct xs"
  by (induction xs) (auto simp: distinct_insert_by)

subsection \<open>Decimal numerals\<close>

text \<open>The string of an integer, as template literals and \<open>String(n)\<close> print it.\<close>

definition digit_char :: "nat \<Rightarrow> char" where
  "digit_char d = char_of (48 + d)"

fun nat_string :: "nat \<Rightarrow> string" where
  "nat_string n = (if n < 10 then [digit_char n] else nat_string (n div 10) @ [digit_char (n mod 10)])"

declare nat_string.simps [simp del]

definition int_string :: "int \<Rightarrow> string" where
  "int_string n = (if n < 0 then ''-'' @ nat_string (nat (- n)) else nat_string (nat n))"

lemma nat_string_nonempty [simp]: "nat_string n \<noteq> []"
  by (subst nat_string.simps) simp

definition char_digit :: "char \<Rightarrow> nat" where
  "char_digit c = of_char c - 48"

definition nat_of_string :: "string \<Rightarrow> nat" where
  "nat_of_string = foldl (\<lambda>acc c. acc * 10 + char_digit c) 0"

lemma char_digit_digit [simp]: "d < 10 \<Longrightarrow> char_digit (digit_char d) = d"
  by (simp add: char_digit_def digit_char_def)

lemma nat_of_nat_string [simp]: "nat_of_string (nat_string n) = n"
proof (induction n rule: nat_string.induct)
  case (1 n)
  show ?case
  proof (cases "n < 10")
    case True
    then show ?thesis by (simp add: nat_string.simps [of n] nat_of_string_def)
  next
    case False
    have "nat_of_string (nat_string n) = nat_of_string (nat_string (n div 10)) * 10 + n mod 10"
      using False by (simp add: nat_string.simps [of n] nat_of_string_def)
    also have "\<dots> = n" using 1 False by simp
    finally show ?thesis .
  qed
qed

lemma nat_string_inject [simp]: "nat_string a = nat_string b \<longleftrightarrow> a = b"
  by (metis nat_of_nat_string)

subsection \<open>Splitting strings\<close>

text \<open>\<open>s.split(sep)\<close> for a separator of one character, and \<open>s.startsWith(p)\<close>.\<close>

fun split_on :: "'a \<Rightarrow> 'a list \<Rightarrow> 'a list list" where
  "split_on sep [] = [[]]"
| "split_on sep (c # r) =
     (if c = sep then [] # split_on sep r
      else (case split_on sep r of [] \<Rightarrow> [[c]] | w # ws \<Rightarrow> (c # w) # ws))"

lemma split_on_nonempty [simp]: "split_on sep s \<noteq> []"
  by (cases s) (auto split: list.split)

lemma split_on_plain: "sep \<notin> set s \<Longrightarrow> split_on sep s = [s]"
  by (induction s) auto

lemma split_on_append: "sep \<notin> set s \<Longrightarrow> split_on sep (s @ sep # r) = s # split_on sep r"
  by (induction s) auto

fun starts_with :: "string \<Rightarrow> string \<Rightarrow> bool" where
  "starts_with [] s = True"
| "starts_with (p # ps) [] = False"
| "starts_with (p # ps) (c # cs) = (p = c \<and> starts_with ps cs)"

lemma starts_with_iff: "starts_with p s \<longleftrightarrow> take (length p) s = p"
  by (induction p s rule: starts_with.induct) auto

lemma starts_with_append [simp]: "starts_with p (p @ s)"
  by (simp add: starts_with_iff)

end
