(* ===== verification/JsNumber.thy ===== *)
theory JsNumber
  imports Prelude Complex_Main
begin

text \<open>
  JavaScript numbers. A number is the rational value of an IEEE 754 binary64 double; every
  arithmetic operation rounds the exact result to the nearest double, ties to even
  (\<open>fl\<close>). NaN, the infinities, the sign of zero and overflow beyond 2^1024 are not
  represented: the services guard their divisions and their amounts are far smaller.
  The lemmas show that \<open>fl\<close> returns a nearest double, is exact on doubles, monotone, and
  has an absolute error bound; \<open>toFixed\<close>, \<open>Math.round\<close>, \<open>Math.floor\<close> and \<open>Math.ceil\<close>
  follow the language definition.
\<close>

type_synonym num = rat

subsection \<open>Binary exponents\<close>

fun bitlen_nat :: "nat \<Rightarrow> nat" where
  "bitlen_nat n = (if n = 0 then 0 else Suc (bitlen_nat (n div 2)))"

declare bitlen_nat.simps [simp del]

lemma bitlen_nat_0 [simp]: "bitlen_nat 0 = 0"
  by (simp add: bitlen_nat.simps)

lemma bitlen_nat_upper: "n < 2 ^ bitlen_nat n"
proof (induction n rule: bitlen_nat.induct)
  case (1 n)
  show ?case
  proof (cases "n = 0")
    case False
    with 1 have "n div 2 < 2 ^ bitlen_nat (n div 2)" by simp
    then have "n < 2 * 2 ^ bitlen_nat (n div 2)" by simp
    with False show ?thesis by (simp add: bitlen_nat.simps [of n])
  qed simp
qed

lemma bitlen_nat_lower: "0 < n \<Longrightarrow> 2 ^ (bitlen_nat n - 1) \<le> n"
proof (induction n rule: bitlen_nat.induct)
  case (1 n)
  show ?case
  proof (cases "n div 2 = 0")
    case True
    then have "bitlen_nat n = 1" using 1(2) by (simp add: bitlen_nat.simps [of n])
    then show ?thesis using 1(2) by simp
  next
    case False
    with 1 have ih: "2 ^ (bitlen_nat (n div 2) - 1) \<le> n div 2" by simp
    from False have b: "bitlen_nat (n div 2) = Suc (bitlen_nat (n div 2) - 1)"
      by (simp add: bitlen_nat.simps [of "n div 2"])
    then have "(2::nat) ^ bitlen_nat (n div 2) = 2 * 2 ^ (bitlen_nat (n div 2) - 1)"
      by (metis power_Suc)
    with ih 1(2) show ?thesis by (simp add: bitlen_nat.simps [of n])
  qed
qed

lemma pow2_le_of_nat: "2 ^ k \<le> n \<Longrightarrow> (2::rat) ^ k \<le> of_nat n"
  by (metis of_nat_le_iff of_nat_numeral of_nat_power)

definition expo :: "rat \<Rightarrow> int" where
  "expo x = (if 1 \<le> x then int (bitlen_nat (nat \<lfloor>x\<rfloor>)) - 1
             else - int (bitlen_nat (nat (\<lceil>1 / x\<rceil> - 1))))"

lemma expo_bounds:
  assumes "0 < x"
  shows "2 powi expo x \<le> x" and "x < 2 powi (expo x + 1)"
proof -
  have "2 powi expo x \<le> x \<and> x < 2 powi (expo x + 1)"
  proof (cases "1 \<le> x")
    case True
    define n where "n = nat \<lfloor>x\<rfloor>"
    have n: "0 < n" "of_nat n \<le> x" "x < of_nat n + 1"
      using True by (simp_all add: n_def) linarith?
    define b where "b = bitlen_nat n - 1"
    have b: "bitlen_nat n = Suc b"
      using n(1) by (simp add: b_def bitlen_nat.simps [of n])
    have e: "expo x = int b" "expo x + 1 = int (Suc b)"
      using True b by (simp_all add: expo_def n_def)
    have "(2::rat) ^ b \<le> of_nat n"
      by (rule pow2_le_of_nat) (use bitlen_nat_lower [OF n(1)] in \<open>simp add: b_def\<close>)
    moreover have "Suc n \<le> 2 ^ Suc b"
      using bitlen_nat_upper [of n] by (simp add: b)
    then have "(of_nat n + 1 :: rat) \<le> 2 ^ Suc b"
      by (metis of_nat_Suc of_nat_le_iff of_nat_numeral of_nat_power add.commute)
    ultimately show ?thesis
      unfolding e(2) unfolding e(1) power_int_of_nat using n(2,3) by (intro conjI) linarith+
  next
    case False
    define m where "m = nat (\<lceil>1 / x\<rceil> - 1)"
    have gt: "1 < 1 / x" using False assms by simp
    then have c: "1 < \<lceil>1 / x\<rceil>" by linarith
    have m: "0 < m" "of_nat m < 1 / x" "1 / x \<le> of_nat m + 1"
      using c by (auto simp: m_def) linarith+
    define k where "k = bitlen_nat m - 1"
    have k: "bitlen_nat m = Suc k"
      using m(1) by (simp add: k_def bitlen_nat.simps [of m])
    have e: "expo x = - int (Suc k)" "expo x + 1 = - int k"
      using False k by (simp_all add: expo_def m_def)
    have "(2::rat) ^ k \<le> of_nat m"
      by (rule pow2_le_of_nat) (use bitlen_nat_lower [OF m(1)] in \<open>simp add: k_def\<close>)
    with m(2) have lo: "2 ^ k < 1 / x" by (rule order.strict_trans1 [rotated])
    have "Suc m \<le> 2 ^ Suc k"
      using bitlen_nat_upper [of m] by (simp add: k)
    then have "(of_nat m + 1 :: rat) \<le> 2 ^ Suc k"
      by (metis of_nat_Suc of_nat_le_iff of_nat_numeral of_nat_power add.commute)
    then have hi: "1 / x \<le> 2 ^ Suc k" using m(3) by simp
    have "inverse (2 ^ Suc k) \<le> x"
      using hi assms by (simp add: field_simps del: power_Suc)
    moreover have "x < inverse (2 ^ k)"
      using lo assms by (simp add: field_simps)
    ultimately show ?thesis
      unfolding e(2) unfolding e(1) power_int_minus power_int_of_nat by simp
  qed
  then show "2 powi expo x \<le> x" and "x < 2 powi (expo x + 1)" by simp_all
qed

subsection \<open>Rounding to the nearest integer and to the nearest double\<close>

definition rne :: "rat \<Rightarrow> int" where
  "rne x = (let f = \<lfloor>x\<rfloor>; d = x - of_int f in
     if d < 1 / 2 then f else if 1 / 2 < d then f + 1 else if even f then f else f + 1)"

lemma rne_error: "\<bar>of_int (rne x) - x\<bar> \<le> 1 / 2"
  unfolding rne_def Let_def by (auto simp: abs_if) linarith+

lemma rne_of_int [simp]: "rne (of_int n) = n"
  by (simp add: rne_def)

lemma rne_nearest: "\<bar>of_int (rne x) - x\<bar> \<le> \<bar>of_int n - x\<bar>"
proof (cases "rne x = n")
  case False
  then have "1 \<le> \<bar>rne x - n\<bar>" by linarith
  then have "1 \<le> \<bar>of_int (rne x) - (of_int n :: rat)\<bar>"
    by (metis of_int_1 of_int_abs of_int_diff of_int_le_iff)
  with rne_error [of x] show ?thesis by linarith
qed simp

definition ulp_exp :: "rat \<Rightarrow> int" where
  "ulp_exp x = max (expo \<bar>x\<bar> - 52) (-1074)"

definition fl :: "rat \<Rightarrow> rat" where
  "fl x = (if x = 0 then 0
           else let u = 2 powi ulp_exp x in of_int (rne (x / u)) * u)"

definition is_double :: "rat \<Rightarrow> bool" where
  "is_double x \<longleftrightarrow> (\<exists>m k. \<bar>m\<bar> \<le> 2 ^ 53 \<and> -1074 \<le> k \<and> x = of_int m * 2 powi k)"

lemma fl_0 [simp]: "fl 0 = 0"
  by (simp add: fl_def)

lemma powi_le_mono: "a \<le> b \<Longrightarrow> (2::rat) powi a \<le> 2 powi b"
  by (simp add: power_int_increasing)

lemma abs_scale:
  fixes u :: rat
  assumes "0 < u"
  shows "\<bar>a * u - x\<bar> = u * \<bar>a - x / u\<bar>"
proof -
  have "a * u - x = u * (a - x / u)" using assms by (simp add: field_simps)
  then show ?thesis using assms by (simp add: abs_mult)
qed

lemma fl_nearest_multiple:
  assumes "x \<noteq> 0"
  shows "\<bar>fl x - x\<bar> \<le> \<bar>of_int n * 2 powi ulp_exp x - x\<bar>"
proof -
  define u where "u = (2::rat) powi ulp_exp x"
  have u: "0 < u" by (simp add: u_def)
  have scale: "\<bar>of_int k * u - x\<bar> = u * \<bar>of_int k - x / u\<bar>" for k
    using u by (rule abs_scale)
  have "\<bar>fl x - x\<bar> = \<bar>of_int (rne (x / u)) * u - x\<bar>"
    using assms by (simp add: fl_def u_def Let_def)
  also have "\<dots> \<le> \<bar>of_int n * u - x\<bar>"
    unfolding scale using rne_nearest u by (simp add: mult_left_mono)
  finally show ?thesis by (simp add: u_def)
qed

lemma multiple_of_powi:
  assumes "e \<le> k"
  shows "\<exists>n. of_int m * (2::rat) powi k = of_int n * 2 powi e"
proof -
  have "(2::rat) powi k = 2 powi (k - e) * 2 powi e"
    by (simp add: power_int_diff)
  also have "(2::rat) powi (k - e) = of_int (2 ^ nat (k - e))"
    using assms by (simp add: power_int_def)
  finally have "of_int m * (2::rat) powi k = of_int (m * 2 ^ nat (k - e)) * 2 powi e"
    by simp
  then show ?thesis by blast
qed

theorem fl_nearest:
  assumes "is_double d"
  shows "\<bar>fl x - x\<bar> \<le> \<bar>d - x\<bar>"
proof (cases "x = 0")
  case False
  from assms obtain m k where m: "\<bar>m\<bar> \<le> 2 ^ 53" and k: "-1074 \<le> k"
    and d: "d = of_int m * 2 powi k" by (auto simp: is_double_def)
  define e where "e = expo \<bar>x\<bar>"
  have ex: "2 powi e \<le> \<bar>x\<bar>" using expo_bounds(1) [of "\<bar>x\<bar>"] False by (simp add: e_def)
  show ?thesis
  proof (cases "ulp_exp x \<le> k")
    case True
    then obtain n where "d = of_int n * 2 powi ulp_exp x"
      using multiple_of_powi d by blast
    then show ?thesis using fl_nearest_multiple [OF False] by simp
  next
    case kless: False
    then have ue: "ulp_exp x = e - 52" and ke: "k \<le> e - 53"
      using k by (auto simp: ulp_exp_def e_def)
    have "\<bar>d\<bar> = of_int \<bar>m\<bar> * 2 powi k" by (simp add: d abs_mult)
    also have "\<dots> \<le> of_int (2 ^ 53) * 2 powi (e - 53)"
      using m powi_le_mono [OF ke] by (intro mult_mono) (simp_all only: of_int_le_iff, simp_all)
    also have "of_int (2 ^ 53) * (2::rat) powi (e - 53) = 2 powi (53 + (e - 53))"
      by (subst power_int_add) simp_all
    finally have de: "\<bar>d\<bar> \<le> 2 powi e" by simp
    have "\<exists>n. sgn x * 2 powi e = of_int n * 2 powi ulp_exp x"
    proof -
      have "\<exists>n. of_int 1 * (2::rat) powi e = of_int n * 2 powi ulp_exp x"
        by (rule multiple_of_powi) (simp add: ue)
      then obtain n where n: "(2::rat) powi e = of_int n * 2 powi ulp_exp x" by auto
      have "sgn x * 2 powi e = of_int (if 0 < x then n else - n) * 2 powi ulp_exp x"
        using False n by (auto simp: sgn_if)
      then show ?thesis by blast
    qed
    then obtain n where n: "sgn x * 2 powi e = of_int n * 2 powi ulp_exp x" by auto
    have "\<bar>fl x - x\<bar> \<le> \<bar>sgn x * 2 powi e - x\<bar>"
      unfolding n by (rule fl_nearest_multiple [OF False])
    also have "\<dots> = \<bar>x\<bar> - 2 powi e"
      using ex False by (auto simp: sgn_if abs_if split: if_splits)
    also have "\<dots> \<le> \<bar>d - x\<bar>" using de by linarith
    finally show ?thesis .
  qed
qed simp

lemma fl_is_double: "is_double (fl x)"
proof (cases "x = 0")
  case True
  have "is_double 0" unfolding is_double_def by (intro exI [of _ 0]) simp
  with True show ?thesis by simp
next
  case False
  define u where "u = (2::rat) powi ulp_exp x"
  have u: "0 < u" by (simp add: u_def)
  have "\<bar>x\<bar> < 2 powi (expo \<bar>x\<bar> + 1)" using expo_bounds(2) [of "\<bar>x\<bar>"] False by simp
  also have "\<dots> \<le> 2 powi (53 + ulp_exp x)"
    by (rule powi_le_mono) (simp add: ulp_exp_def)
  also have "\<dots> = 2 ^ 53 * u" by (subst power_int_add) (simp_all add: u_def)
  finally have "\<bar>x / u\<bar> < of_int (2 ^ 53)" using u by (simp add: field_simps)
  then have "\<bar>of_int (rne (x / u)) :: rat\<bar> < of_int (2 ^ 53) + 1"
    using rne_error [of "x / u"] by linarith
  then have "of_int \<bar>rne (x / u)\<bar> < (of_int (2 ^ 53 + 1) :: rat)" by simp
  then have "\<bar>rne (x / u)\<bar> < 2 ^ 53 + 1" by (simp only: of_int_less_iff)
  then have "\<bar>rne (x / u)\<bar> \<le> 2 ^ 53" by simp
  moreover have "-1074 \<le> ulp_exp x" by (simp add: ulp_exp_def)
  moreover have "fl x = of_int (rne (x / u)) * 2 powi ulp_exp x"
    using False by (simp add: fl_def u_def Let_def)
  ultimately show ?thesis unfolding is_double_def by blast
qed

lemma fl_double [simp]: "is_double x \<Longrightarrow> fl x = x"
  using fl_nearest [of x x] by simp

lemma fl_idem [simp]: "fl (fl x) = fl x"
  by (simp add: fl_is_double)

theorem fl_mono:
  assumes "x \<le> y"
  shows "fl x \<le> fl y"
proof (rule ccontr)
  assume less: "\<not> fl x \<le> fl y"
  have nx: "\<bar>fl x - x\<bar> \<le> \<bar>fl y - x\<bar>" by (rule fl_nearest [OF fl_is_double])
  have ny: "\<bar>fl y - y\<bar> \<le> \<bar>fl x - y\<bar>" by (rule fl_nearest [OF fl_is_double])
  have "x = y" using less nx ny assms by (auto simp: abs_if split: if_splits)
  with less show False by simp
qed

lemma fl_nonneg: "0 \<le> x \<Longrightarrow> 0 \<le> fl x"
  using fl_mono [of 0 x] by simp

lemma is_double_int: "\<bar>n\<bar> \<le> 2 ^ 53 \<Longrightarrow> is_double (of_int n)"
  unfolding is_double_def by (intro exI [of _ n] exI [of _ 0]) simp

lemma fl_int: "\<bar>n\<bar> \<le> 2 ^ 53 \<Longrightarrow> fl (of_int n) = of_int n"
  by (simp add: is_double_int)

lemma fl_int_le: "x \<le> of_int n \<Longrightarrow> \<bar>n\<bar> \<le> 2 ^ 53 \<Longrightarrow> fl x \<le> of_int n"
  using fl_mono [of x "of_int n"] by (simp add: fl_int)

lemma fl_int_ge: "of_int n \<le> x \<Longrightarrow> \<bar>n\<bar> \<le> 2 ^ 53 \<Longrightarrow> of_int n \<le> fl x"
  using fl_mono [of "of_int n" x] by (simp add: fl_int)

lemma fl_error:
  assumes "\<bar>x\<bar> \<le> 2 ^ n"
  shows "\<bar>fl x - x\<bar> \<le> 2 powi (int n - 53)"
proof (cases "x = 0")
  case False
  define u where "u = (2::rat) powi ulp_exp x"
  have u: "0 < u" by (simp add: u_def)
  have "2 powi expo \<bar>x\<bar> \<le> (2::rat) powi int n"
    using expo_bounds(1) [of "\<bar>x\<bar>"] False assms by (simp add: power_int_of_nat)
  then have "expo \<bar>x\<bar> \<le> int n"
    using power_int_strict_increasing [of "int n" "expo \<bar>x\<bar>" "2::rat"] by force
  then have "u \<le> 2 powi (int n - 52)" unfolding u_def
    by (intro powi_le_mono) (simp add: ulp_exp_def)
  also have "\<dots> = 2 * 2 powi (int n - 53)"
    using power_int_add [of "2::rat" 1 "int n - 53"] by simp
  finally have half: "u / 2 \<le> 2 powi (int n - 53)" by simp
  have "\<bar>fl x - x\<bar> = u * \<bar>of_int (rne (x / u)) - x / u\<bar>"
    using False abs_scale [OF u] by (simp add: fl_def u_def [symmetric] Let_def)
  also have "\<dots> \<le> u * (1 / 2)"
    using rne_error u by (intro mult_left_mono) auto
  finally show ?thesis using half by simp
qed simp

subsection \<open>The arithmetic of the language\<close>

definition js_add :: "num \<Rightarrow> num \<Rightarrow> num" where "js_add x y = fl (x + y)"
definition js_sub :: "num \<Rightarrow> num \<Rightarrow> num" where "js_sub x y = fl (x - y)"
definition js_mul :: "num \<Rightarrow> num \<Rightarrow> num" where "js_mul x y = fl (x * y)"
definition js_div :: "num \<Rightarrow> num \<Rightarrow> num" where "js_div x y = fl (x / y)"

definition js_int :: "int \<Rightarrow> num" where
  "js_int n = fl (of_int n)" \<comment> \<open>an integer value as a number\<close>

definition js_lit :: "int \<Rightarrow> int \<Rightarrow> num" where
  "js_lit n d = fl (of_int n / of_int d)" \<comment> \<open>a decimal literal n/d\<close>

definition js_round :: "num \<Rightarrow> int" where "js_round x = \<lfloor>x + 1 / 2\<rfloor>"

text \<open>
  \<open>toFixed f\<close>: the integer n with n / 10^f closest to the exact value of the number, the
  larger one of two; a negative number is the negation of the positive one.
\<close>

definition to_fixed :: "nat \<Rightarrow> num \<Rightarrow> int" where
  "to_fixed f x = (if 0 \<le> x then \<lfloor>x * 10 ^ f + 1 / 2\<rfloor> else - \<lfloor>- x * 10 ^ f + 1 / 2\<rfloor>)"

definition num_to_fixed :: "nat \<Rightarrow> num \<Rightarrow> num" where
  "num_to_fixed f x = fl (of_int (to_fixed f x) / 10 ^ f)" \<comment> \<open>Number(x.toFixed(f))\<close>

lemma to_fixed_mono_nonneg: "0 \<le> x \<Longrightarrow> x \<le> y \<Longrightarrow> to_fixed f x \<le> to_fixed f y"
  by (auto simp: to_fixed_def intro!: floor_mono)

lemma to_fixed_nonneg: "0 \<le> x \<Longrightarrow> 0 \<le> to_fixed f x"
proof -
  assume "0 \<le> x"
  then have "0 \<le> x * 10 ^ f" by simp
  then show ?thesis using \<open>0 \<le> x\<close> by (simp add: to_fixed_def)
qed

lemma num_to_fixed_mono:
  "0 \<le> x \<Longrightarrow> x \<le> y \<Longrightarrow> num_to_fixed f x \<le> num_to_fixed f y"
  unfolding num_to_fixed_def
  by (intro fl_mono divide_right_mono) (simp_all add: to_fixed_mono_nonneg)

lemma num_to_fixed_nonneg: "0 \<le> x \<Longrightarrow> 0 \<le> num_to_fixed f x"
  unfolding num_to_fixed_def by (intro fl_nonneg) (simp add: to_fixed_nonneg)

lemma to_fixed_half [simp]: "to_fixed f 0 = 0"
proof -
  have "\<lfloor>1 / 2 :: rat\<rfloor> = 0" by (simp add: floor_unique)
  then show ?thesis by (simp add: to_fixed_def)
qed

lemma num_to_fixed_0 [simp]: "num_to_fixed f 0 = 0"
  by (simp add: num_to_fixed_def to_fixed_half)

lemma to_fixed_near:
  assumes "0 \<le> x" "\<bar>x - of_int n / 10 ^ f\<bar> < 1 / (2 * 10 ^ f)"
  shows "to_fixed f x = n"
proof -
  define p where "p = (10::rat) ^ f"
  have p: "0 < p" by (simp add: p_def)
  have eq: "x * p - of_int n = p * (x - of_int n / p)"
    using p by (simp add: field_simps)
  have "\<bar>x * p - of_int n\<bar> = p * \<bar>x - of_int n / p\<bar>"
    unfolding eq using p by (simp add: abs_mult)
  also have "\<dots> < p * (1 / (2 * p))"
    using assms(2) p by (intro mult_strict_left_mono) (simp_all add: p_def)
  also have "\<dots> = 1 / 2" using p by simp
  finally have "\<bar>x * p - of_int n\<bar> < 1 / 2" .
  then have "\<lfloor>x * p + 1 / 2\<rfloor> = n" by linarith
  then show ?thesis using assms(1) by (simp add: to_fixed_def p_def)
qed

text \<open>An amount with two decimals, as the numeric(10,2) columns hold it.\<close>

definition cents :: "int \<Rightarrow> num" where
  "cents k = fl (of_int k / 100)"

definition is_amount :: "num \<Rightarrow> bool" where
  "is_amount x \<longleftrightarrow> (\<exists>k. 0 \<le> k \<and> k < 10 ^ 10 \<and> x = cents k)"

lemma cents_0 [simp]: "cents 0 = 0"
  by (simp add: cents_def)

lemma cents_nonneg: "0 \<le> k \<Longrightarrow> 0 \<le> cents k"
  by (simp add: cents_def fl_nonneg)

lemma cents_mono: "j \<le> k \<Longrightarrow> cents j \<le> cents k"
  by (simp add: cents_def fl_mono divide_right_mono)

lemma num_to_fixed_2_cents: "num_to_fixed 2 x = cents (to_fixed 2 x)"
  by (simp add: num_to_fixed_def cents_def)

lemma cents_error:
  assumes "0 \<le> k" "k < 10 ^ 10"
  shows "\<bar>cents k - of_int k / 100\<bar> \<le> 1 / 10 ^ 7"
proof -
  have "(of_int k :: rat) < of_int (10 ^ 10)" using assms(2) by (simp only: of_int_less_iff)
  then have "\<bar>of_int k / 100\<bar> \<le> (2::rat) ^ 27"
    using assms(1) by simp
  from fl_error [OF this] have "\<bar>cents k - of_int k / 100\<bar> \<le> 2 powi (int 27 - 53)"
    by (simp only: cents_def)
  also have "\<dots> = 1 / 2 ^ 26" by (simp add: power_int_def field_simps)
  also have "\<dots> \<le> (1::rat) / 10 ^ 7" by simp
  finally show ?thesis .
qed

lemma cents_to_fixed:
  assumes "0 \<le> k" "k < 10 ^ 10"
  shows "to_fixed 2 (cents k) = k"
  using cents_error [OF assms] cents_nonneg [OF assms(1)]
  by (intro to_fixed_near) (simp_all, linarith?)

lemma num_to_fixed_cents:
  "0 \<le> k \<Longrightarrow> k < 10 ^ 10 \<Longrightarrow> num_to_fixed 2 (cents k) = cents k"
  by (simp only: num_to_fixed_2_cents cents_to_fixed)

text \<open>The string \<open>x.toFixed f\<close> for at least one fraction digit.\<close>

definition to_fixed_string :: "nat \<Rightarrow> num \<Rightarrow> string" where
  "to_fixed_string f x =
     (let n = nat \<bar>to_fixed f x\<bar>; frac = nat_string (n mod 10 ^ f)
      in (if x < 0 then ''-'' else []) @ nat_string (n div 10 ^ f) @ ''.'' @
         replicate (f - length frac) (CHR ''0'') @ frac)"

lemma to_fixed_string_sample: "to_fixed_string 1 (51 / 2) = ''25.5'' \<and> to_fixed_string 2 (-1 / 2) = ''-0.50''"
  by code_simp

end
