(* ===== verification/JsTime.thy ===== *)
theory JsTime
  imports Prelude JsNumber
begin

text \<open>
  The part of the JavaScript Date interface the services use, in UTC: an instant is its
  number of milliseconds since the epoch, a day has 86 400 000 of them. The setters carry
  (hour 24 is hour 0 of the next day), as the language definition says.
\<close>

definition ms_per_second :: int where "ms_per_second = 1000"
definition ms_per_minute :: int where "ms_per_minute = 60000"
definition ms_per_hour :: int where "ms_per_hour = 3600000"
definition ms_per_day :: int where "ms_per_day = 86400000"

lemmas ms_units = ms_per_second_def ms_per_minute_def ms_per_hour_def ms_per_day_def

definition utc_day_start :: "instant \<Rightarrow> instant" where
  "utc_day_start t = t - t mod ms_per_day"

definition get_utc_hours :: "instant \<Rightarrow> int" where
  "get_utc_hours t = t mod ms_per_day div ms_per_hour"

definition get_utc_day :: "instant \<Rightarrow> int" where
  "get_utc_day t = (t div ms_per_day + 4) mod 7" \<comment> \<open>0 is Sunday; 1970-01-01 was a Thursday\<close>

definition set_utc_hours :: "int \<Rightarrow> instant \<Rightarrow> instant" where
  "set_utc_hours h t = utc_day_start t + h * ms_per_hour + t mod ms_per_hour"

definition set_utc_hours4 :: "int \<Rightarrow> int \<Rightarrow> int \<Rightarrow> int \<Rightarrow> instant \<Rightarrow> instant" where
  "set_utc_hours4 h m s ms t =
     utc_day_start t + h * ms_per_hour + m * ms_per_minute + s * ms_per_second + ms"

definition set_utc_minutes3 :: "int \<Rightarrow> int \<Rightarrow> int \<Rightarrow> instant \<Rightarrow> instant" where
  "set_utc_minutes3 m s ms t =
     t - t mod ms_per_hour + m * ms_per_minute + s * ms_per_second + ms"

lemma mod_hour_of_day: "t mod ms_per_day mod ms_per_hour = t mod ms_per_hour"
  by (simp add: ms_units mod_mod_cancel)

lemma get_utc_hours_bounds: "0 \<le> get_utc_hours t" "get_utc_hours t < 24"
  unfolding get_utc_hours_def ms_units by (simp_all add: pos_imp_zdiv_nonneg_iff)

lemma get_utc_day_bounds: "0 \<le> get_utc_day t" "get_utc_day t < 7"
  by (simp_all add: get_utc_day_def)

lemma set_utc_minutes3_zero: "set_utc_minutes3 0 0 0 t = t - t mod ms_per_hour"
  by (simp add: set_utc_minutes3_def)

lemma hour_split: "t mod ms_per_day = get_utc_hours t * ms_per_hour + t mod ms_per_hour"
  using mult_div_mod_eq [of ms_per_hour "t mod ms_per_day"]
  by (simp add: get_utc_hours_def mod_hour_of_day mult.commute)

text \<open>The start of the clock hour after \<open>t\<close>, as the pricing loop computes it.\<close>

definition next_full_hour :: "instant \<Rightarrow> instant" where
  "next_full_hour t = (let h = set_utc_minutes3 0 0 0 t in set_utc_hours (get_utc_hours h + 1) h)"

lemma next_full_hour_eq: "next_full_hour t = t - t mod ms_per_hour + ms_per_hour"
proof -
  define h where "h = t - t mod ms_per_hour"
  have h0: "h mod ms_per_hour = 0" by (simp add: h_def ms_units)
  have "next_full_hour t = utc_day_start h + (get_utc_hours h + 1) * ms_per_hour"
    by (simp add: next_full_hour_def set_utc_minutes3_zero h_def [symmetric]
      set_utc_hours_def h0 Let_def)
  also have "\<dots> = h + ms_per_hour"
    using hour_split [of h] h0 by (simp add: utc_day_start_def algebra_simps)
  finally show ?thesis by (simp add: h_def)
qed

lemma next_full_hour_gt: "t < next_full_hour t"
  by (simp add: next_full_hour_eq ms_units)

lemma next_full_hour_le: "next_full_hour t \<le> t + ms_per_hour"
  by (simp add: next_full_hour_eq ms_units)

lemma next_full_hour_aligned: "next_full_hour t mod ms_per_hour = 0"
  by (simp add: next_full_hour_eq ms_units)

lemma hour_constant:
  assumes "t \<le> u" "u < next_full_hour t"
  shows "get_utc_hours u = get_utc_hours t" and "get_utc_day u = get_utc_day t"
proof -
  have "u div ms_per_hour = t div ms_per_hour"
    using assms unfolding next_full_hour_eq ms_units by (auto simp: minus_mod_eq_mult_div)
  moreover have "x mod ms_per_day div ms_per_hour = x div ms_per_hour mod 24" for x
    by (simp add: ms_units zmod_zmult2_eq [of 24 x 3600000, simplified])
  moreover have "x div ms_per_day = x div ms_per_hour div 24" for x
    by (simp add: ms_units zdiv_zmult2_eq [of 24 x 3600000, simplified])
  ultimately show "get_utc_hours u = get_utc_hours t" "get_utc_day u = get_utc_day t"
    by (simp_all add: get_utc_hours_def get_utc_day_def)
qed

text \<open>A span of milliseconds as a number of hours, \<open>ms / (1000 * 60 * 60)\<close>.\<close>

definition hours_of_ms :: "int \<Rightarrow> num" where
  "hours_of_ms d = js_div (js_int d) (js_int ms_per_hour)"

lemma hours_of_ms_nonneg: "0 \<le> d \<Longrightarrow> 0 \<le> hours_of_ms d"
  by (simp add: hours_of_ms_def js_div_def js_int_def ms_units fl_nonneg)

lemma hours_of_ms_mono: "d \<le> e \<Longrightarrow> hours_of_ms d \<le> hours_of_ms e"
  unfolding hours_of_ms_def js_div_def js_int_def ms_units
  by (intro fl_mono divide_right_mono fl_nonneg) simp_all

lemma hours_of_ms_whole:
  assumes "\<bar>h\<bar> \<le> 2 ^ 31"
  shows "hours_of_ms (h * ms_per_hour) = of_int h"
proof -
  have b: "\<bar>h * 3600000\<bar> \<le> (2::int) ^ 53" using assms by simp
  have "fl (of_int (h * 3600000)) = (of_int (h * 3600000) :: rat)"
    using b by (rule fl_int)
  moreover have "fl (of_int 3600000) = (of_int 3600000 :: rat)"
    by (rule fl_int) simp
  moreover have "fl (of_int h) = (of_int h :: rat)"
    using assms by (intro fl_int) simp
  ultimately show ?thesis
    by (simp add: hours_of_ms_def js_div_def js_int_def ms_units)
qed

subsection \<open>Calendar dates and toISOString\<close>

text \<open>
  The proleptic Gregorian calendar of the language definition, with the year counted from
  March inside an era of 400 years: \<open>civil_of_days\<close> gives year, month (1 to 12) and day of
  a day number, \<open>days_of_civil\<close> the day number of a date (Date.UTC).
\<close>

definition civil_of_days :: "int \<Rightarrow> int \<times> int \<times> int" where
  "civil_of_days n =
     (let z = n + 719468; era = z div 146097; doe = z mod 146097;
          yoe = (doe - doe div 1460 + doe div 36524 - doe div 146096) div 365;
          doy = doe - (365 * yoe + yoe div 4 - yoe div 100);
          mp = (5 * doy + 2) div 153;
          d = doy - (153 * mp + 2) div 5 + 1;
          m = (if mp < 10 then mp + 3 else mp - 9)
      in (yoe + era * 400 + (if m \<le> 2 then 1 else 0), m, d))"

definition days_of_civil :: "int \<Rightarrow> int \<Rightarrow> int \<Rightarrow> int" where
  "days_of_civil y m d =
     (let y' = (if m \<le> 2 then y - 1 else y); era = y' div 400; yoe = y' mod 400;
          doy = (153 * (if m > 2 then m - 3 else m + 9) + 2) div 5 + d - 1;
          doe = yoe * 365 + yoe div 4 - yoe div 100 + doy
      in era * 146097 + doe - 719468)"

definition get_utc_full_year :: "instant \<Rightarrow> int" where
  "get_utc_full_year t = fst (civil_of_days (t div ms_per_day))"

definition get_utc_month :: "instant \<Rightarrow> int" where
  "get_utc_month t = fst (snd (civil_of_days (t div ms_per_day))) - 1" \<comment> \<open>0 is January\<close>

definition get_utc_date :: "instant \<Rightarrow> int" where
  "get_utc_date t = snd (snd (civil_of_days (t div ms_per_day)))"

definition pad_start :: "nat \<Rightarrow> char \<Rightarrow> string \<Rightarrow> string" where
  "pad_start n c s = replicate (n - length s) c @ s"

definition pad_number :: "nat \<Rightarrow> int \<Rightarrow> string" where
  "pad_number k n = pad_start k (CHR ''0'') (int_string n)"

definition iso_year :: "int \<Rightarrow> string" where
  "iso_year y = (if 0 \<le> y \<and> y \<le> 9999 then pad_number 4 y
                 else (if y < 0 then ''-'' else ''+'') @ pad_number 6 \<bar>y\<bar>)"

definition iso_date :: "instant \<Rightarrow> string" where
  "iso_date t = iso_year (get_utc_full_year t) @ ''-'' @ pad_number 2 (get_utc_month t + 1) @ ''-'' @
     pad_number 2 (get_utc_date t)"

definition to_iso :: "instant \<Rightarrow> string" where
  "to_iso t = iso_date t @ ''T'' @ pad_number 2 (get_utc_hours t) @ '':'' @
     pad_number 2 (t mod ms_per_hour div ms_per_minute) @ '':'' @
     pad_number 2 (t mod ms_per_minute div ms_per_second) @ ''.'' @
     pad_number 3 (t mod ms_per_second) @ ''Z''"

lemma to_iso_sample: "to_iso 1700000000000 = ''2023-11-14T22:13:20.000Z''"
  by code_simp

end
