(* ===== verification/Json.thy ===== *)
theory Json
  imports JsNumber
begin

text \<open>
  JSON values, as the jsonb columns, request bodies and event payloads carry them: an
  object is the list of its properties in insertion order. Field lookup and truthiness
  follow the language.
\<close>

datatype json =
    JNull
  | JBool bool
  | JNum num
  | JStr string
  | JArr "json list"
  | JObj "(string \<times> json) list"

fun json_field :: "json \<Rightarrow> string \<Rightarrow> json option" where
  "json_field (JObj ps) k = map_of ps k"
| "json_field _ k = None"

definition json_string :: "json option \<Rightarrow> string option" where
  "json_string j = (case j of Some (JStr s) \<Rightarrow> Some s | _ \<Rightarrow> None)"

definition json_of_option :: "string option \<Rightarrow> json" where
  "json_of_option s = (case s of None \<Rightarrow> JNull | Some x \<Rightarrow> JStr x)"

lemma json_string_of_option [simp]: "json_string (Some (json_of_option s)) = s"
  by (simp add: json_string_def json_of_option_def split: option.split)

end
