(* ===== verification/Delivery.thy ===== *)
theory Delivery
  imports Json JsTime
begin

text \<open>
  Reliable delivery: the retry helpers (backend/src/utils/retry-backoff.ts), the Stellar RPC
  wrapper (backend/src/stellar), the transactional outbox (backend/src/outbox) and the
  webhook queue (backend/src/webhooks). The network is a parameter: an RPC call or an HTTP
  post is a function of the request and the number of the attempt. Ciphers and digests are
  parameters too.
\<close>

subsection \<open>Retry helpers\<close>

definition retry_delay_seconds :: "int \<Rightarrow> int" where
  "retry_delay_seconds attempts = 2 ^ nat (max (attempts - 1) 0)"

definition calculate_next_retry_at :: "int \<Rightarrow> instant \<Rightarrow> instant" where
  "calculate_next_retry_at attempts now = now + retry_delay_seconds attempts * 1000"

definition is_dead_letter :: "int \<Rightarrow> int \<Rightarrow> bool" where
  "is_dead_letter attempts maxAttempts \<longleftrightarrow> attempts \<ge> maxAttempts"

subsection \<open>Stellar RPC\<close>

record retry_policy =
  rp_maxRetries :: nat
  rp_baseDelayMs :: int

text \<open>
  \<open>operation attempt\<close> is the reply of the attempt with that number (from 1): \<open>Inl\<close> the
  message of the rejection. The loop returns the first success, or the error of the last
  attempt, together with the delays it slept.
\<close>

fun stellar_retry_loop ::
  "(nat \<Rightarrow> string + 'a) \<Rightarrow> int \<Rightarrow> nat \<Rightarrow> nat \<Rightarrow> (string + 'a) \<times> int list" where
  "stellar_retry_loop operation baseDelayMs attempt 0 =
     (case operation attempt of Inr v \<Rightarrow> (Inr v, []) | Inl e \<Rightarrow> (Inl e, []))"
| "stellar_retry_loop operation baseDelayMs attempt (Suc left) =
     (case operation attempt of
        Inr v \<Rightarrow> (Inr v, [])
      | Inl e \<Rightarrow>
        (let delayMs = baseDelayMs * 2 ^ (attempt - 1);
             rest = stellar_retry_loop operation baseDelayMs (Suc attempt) left
         in (fst rest, delayMs # snd rest)))"

definition with_stellar_retry ::
  "string \<Rightarrow> (nat \<Rightarrow> string + 'a) \<Rightarrow> retry_policy \<Rightarrow> (string + 'a) \<times> int list" where
  "with_stellar_retry operationName operation policy =
     (case stellar_retry_loop operation (rp_baseDelayMs policy) 1 (rp_maxRetries policy) of
        (Inr v, ds) \<Rightarrow> (Inr v, ds)
      | (Inl e, ds) \<Rightarrow> (Inl (operationName @ '' failed after '' @ nat_string (rp_maxRetries policy + 1) @
                           '' attempt(s): '' @ e), ds))"

record stellar_env =
  st_getTransaction :: "string \<Rightarrow> nat \<Rightarrow> string + string" \<comment> \<open>hash, attempt: error or status\<close>
  st_retryPolicy :: retry_policy

definition verify_transaction :: "stellar_env \<Rightarrow> string \<Rightarrow> string + string" where
  "verify_transaction st txHash =
     (case fst (with_stellar_retry ''verifyTransaction'' (st_getTransaction st txHash)
                  (st_retryPolicy st)) of
        Inl e \<Rightarrow> Inl (''Failed to verify transaction: '' @ e)
      | Inr status \<Rightarrow> Inr status)"

definition publish_payment_event :: "stellar_env \<Rightarrow> string \<Rightarrow> json \<Rightarrow> string + unit" where
  "publish_payment_event st eventType payload =
     (case json_string (json_field payload ''stellarTxHash'') of
        None \<Rightarrow> Inr ()
      | Some h \<Rightarrow>
        if h = [] then Inr ()
        else (case verify_transaction st h of
                Inl e \<Rightarrow> Inl e
              | Inr status \<Rightarrow>
                if status \<noteq> [] \<and> status \<notin> {''SUCCESS'', ''PENDING''}
                then Inl (''Stellar transaction '' @ h @ '' status is '' @ status)
                else Inr ()))"

subsection \<open>Outbox\<close>

datatype outbox_status = OutboxPending | OutboxSent | OutboxFailed

datatype outbox_event_type = STELLAR_ESCROW_CREATE | STELLAR_BOOKING_CONFIRMED

fun outbox_event_name :: "outbox_event_type \<Rightarrow> string" where
  "outbox_event_name STELLAR_ESCROW_CREATE = ''stellar.escrow.create''"
| "outbox_event_name STELLAR_BOOKING_CONFIRMED = ''stellar.booking.confirmed''"

record outbox_event =
  ob_id :: uuid
  ob_eventType :: string
  ob_payload :: json
  ob_status :: outbox_status
  ob_retryCount :: int
  ob_createdAt :: instant
  ob_nextRetryAt :: "instant option"
  ob_processedAt :: "instant option"

definition MAX_OUTBOX_ATTEMPTS :: int where "MAX_OUTBOX_ATTEMPTS = 5"

definition outbox_create ::
  "uuid \<Rightarrow> instant \<Rightarrow> outbox_event_type \<Rightarrow> json \<Rightarrow> outbox_event list \<Rightarrow> outbox_event list" where
  "outbox_create newId now eventType payload tbl =
     save_row ob_id \<lparr>ob_id = newId, ob_eventType = outbox_event_name eventType,
       ob_payload = payload, ob_status = OutboxPending, ob_retryCount = 0,
       ob_createdAt = now, ob_nextRetryAt = None, ob_processedAt = None\<rparr> tbl"

definition outbox_due :: "instant \<Rightarrow> outbox_event \<Rightarrow> bool" where
  "outbox_due now e \<longleftrightarrow> ob_status e = OutboxPending \<and>
     (case ob_nextRetryAt e of None \<Rightarrow> True | Some t \<Rightarrow> t \<le> now)"

definition outbox_fail :: "instant \<Rightarrow> outbox_event \<Rightarrow> outbox_event" where
  "outbox_fail now e =
     (let attempts = ob_retryCount e + 1; isDead = is_dead_letter attempts MAX_OUTBOX_ATTEMPTS
      in e\<lparr>ob_retryCount := attempts,
           ob_status := (if isDead then OutboxFailed else OutboxPending),
           ob_nextRetryAt := (if isDead then ob_nextRetryAt e
                              else Some (calculate_next_retry_at attempts now)),
           ob_processedAt := (if isDead then Some now else None)\<rparr>)"

definition outbox_publish ::
  "stellar_env \<Rightarrow> instant \<Rightarrow> outbox_event \<Rightarrow> outbox_event list \<Rightarrow> outbox_event list" where
  "outbox_publish st now e tbl =
     (case publish_payment_event st (ob_eventType e) (ob_payload e) of
        Inr _ \<Rightarrow> save_row ob_id (e\<lparr>ob_status := OutboxSent, ob_processedAt := Some now\<rparr>) tbl
      | Inl _ \<Rightarrow> update_rows (\<lambda>x. ob_id x = ob_id e) (\<lambda>_. outbox_fail now e) tbl)"

definition outbox_batch :: "instant \<Rightarrow> nat \<Rightarrow> outbox_event list \<Rightarrow> outbox_event list" where
  "outbox_batch now limit tbl =
     take limit (sort_by (\<lambda>a b. ob_createdAt a - ob_createdAt b) (filter (outbox_due now) tbl))"

definition process_pending ::
  "stellar_env \<Rightarrow> instant \<Rightarrow> nat \<Rightarrow> outbox_event list \<Rightarrow> outbox_event list" where
  "process_pending st now limit tbl =
     fold (outbox_publish st now) (outbox_batch now limit tbl) tbl"

subsection \<open>Webhooks\<close>

datatype webhook_status = WhPending | WhDelivered | WhFailed | WhDead

record webhook_subscription =
  ws_id :: uuid
  ws_url :: string
  ws_secretHash :: string
  ws_encryptedSecret :: string
  ws_eventTypes :: "string list"
  ws_isActive :: bool

record webhook_delivery =
  wd_id :: uuid
  wd_subscriptionId :: uuid
  wd_eventType :: string
  wd_payload :: json
  wd_status :: webhook_status
  wd_attempts :: int
  wd_nextRetryAt :: instant
  wd_responseCode :: "int option"
  wd_lastError :: "string option"
  wd_createdAt :: instant

record webhook_state =
  wh_subscriptions :: "webhook_subscription list"
  wh_deliveries :: "webhook_delivery list"

record create_subscription_dto =
  cs_url :: string
  cs_eventTypes :: "string list"
  cs_secret :: "string option"
  cs_isActive :: "bool option"

text \<open>What the queue uses of the outside: the digest, the cipher and the HTTP client.\<close>

record webhook_env =
  we_hash :: "string \<Rightarrow> string"
  we_encrypt :: "string \<Rightarrow> string"
  we_decrypt :: "string \<Rightarrow> string option" \<comment> \<open>None: the decipher throws\<close>
  we_hmac :: "string \<Rightarrow> string \<Rightarrow> string"
  we_stringify :: "json \<Rightarrow> string"
  we_post :: "string \<Rightarrow> webhook_delivery \<Rightarrow> string \<Rightarrow> string + int" \<comment> \<open>error or status code\<close>

definition MAX_WEBHOOK_ATTEMPTS :: int where "MAX_WEBHOOK_ATTEMPTS = 8"

definition create_subscription ::
  "webhook_env \<Rightarrow> uuid \<Rightarrow> string \<Rightarrow> create_subscription_dto \<Rightarrow> webhook_state
   \<Rightarrow> (uuid \<times> string \<times> string list \<times> bool \<times> string) \<times> webhook_state" where
  "create_subscription env newId random dto s =
     (let secret = (if truthy (cs_secret dto) then the (cs_secret dto) else random);
          isActive = (case cs_isActive dto of Some b \<Rightarrow> b | None \<Rightarrow> True);
          sub = \<lparr>ws_id = newId, ws_url = cs_url dto, ws_secretHash = we_hash env secret,
                 ws_encryptedSecret = we_encrypt env secret, ws_eventTypes = cs_eventTypes dto,
                 ws_isActive = isActive\<rparr>
      in ((ws_id sub, ws_url sub, ws_eventTypes sub, ws_isActive sub, secret),
          s\<lparr>wh_subscriptions := save_row ws_id sub (wh_subscriptions s)\<rparr>))"

definition event_payload :: "string \<Rightarrow> json \<Rightarrow> string \<Rightarrow> json" where
  "event_payload eventType payload createdAt =
     JObj [(''eventType'', JStr eventType), (''data'', payload), (''createdAt'', JStr createdAt)]"

definition subscribed :: "string \<Rightarrow> webhook_subscription \<Rightarrow> bool" where
  "subscribed eventType s \<longleftrightarrow> ws_isActive s \<and> eventType \<in> set (ws_eventTypes s)"

text \<open>\<open>newId\<close> supplies the generated key of each delivery.\<close>

definition enqueue ::
  "(nat \<Rightarrow> uuid) \<Rightarrow> instant \<Rightarrow> string \<Rightarrow> json
   \<Rightarrow> webhook_state \<Rightarrow> webhook_state" where
  "enqueue newId now eventType payload s =
     (let subs = filter (subscribed eventType) (wh_subscriptions s)
      in if subs = [] then s
         else s\<lparr>wh_deliveries := wh_deliveries s @
           map (\<lambda>(n, sub). \<lparr>wd_id = newId n, wd_subscriptionId = ws_id sub,
                  wd_eventType = eventType,
                  wd_payload = event_payload eventType payload (to_iso now),
                  wd_status = WhPending, wd_attempts = 0, wd_nextRetryAt = now,
                  wd_responseCode = None, wd_lastError = None, wd_createdAt = now\<rparr>)
             (zip [0..<length subs] subs)\<rparr>)"

definition generate_signature :: "webhook_env \<Rightarrow> string \<Rightarrow> json \<Rightarrow> string" where
  "generate_signature env secret payload = ''sha256='' @ we_hmac env secret (we_stringify env payload)"

definition verify_signature :: "webhook_env \<Rightarrow> string \<Rightarrow> json \<Rightarrow> string \<Rightarrow> bool" where
  "verify_signature env secret payload signature \<longleftrightarrow> generate_signature env secret payload = signature"

definition mark_for_retry ::
  "instant \<Rightarrow> int \<Rightarrow> int option \<Rightarrow> string \<Rightarrow> webhook_delivery \<Rightarrow> webhook_delivery" where
  "mark_for_retry now attempts responseCode lastError d =
     (let isDead = is_dead_letter attempts MAX_WEBHOOK_ATTEMPTS
      in d\<lparr>wd_attempts := attempts,
           wd_responseCode := (case responseCode of None \<Rightarrow> wd_responseCode d | Some c \<Rightarrow> Some c),
           wd_lastError := Some lastError,
           wd_status := (if isDead then WhDead else WhFailed),
           wd_nextRetryAt := (if isDead then wd_nextRetryAt d
                              else calculate_next_retry_at attempts now)\<rparr>)"

definition mark_delivered :: "int \<Rightarrow> int \<Rightarrow> webhook_delivery \<Rightarrow> webhook_delivery" where
  "mark_delivered attempts code d =
     d\<lparr>wd_attempts := attempts, wd_status := WhDelivered, wd_responseCode := Some code,
       wd_lastError := None\<rparr>"

text \<open>
  One delivery with the subscription it was joined with. The secret is deciphered before
  the try block: if that throws, the exception leaves \<open>processReady\<close>.
\<close>

definition deliver ::
  "webhook_env \<Rightarrow> instant \<Rightarrow> webhook_delivery \<times> webhook_subscription \<Rightarrow> webhook_delivery list
   \<Rightarrow> (webhook_delivery list, unit) outcome" where
  "deliver env now ds tbl =
     (case ds of (d, sub) \<Rightarrow>
       (let attempts = wd_attempts d + 1 in
        case we_decrypt env (ws_encryptedSecret sub) of
          None \<Rightarrow> (Inl (ServerError ''Unsupported state or unable to authenticate data''), tbl)
        | Some secret \<Rightarrow>
          (let signature = generate_signature env secret (wd_payload d);
               d' = (case we_post env (ws_url sub) d signature of
                       Inr status \<Rightarrow>
                         if 200 \<le> status \<and> status < 300 then mark_delivered attempts status d
                         else mark_for_retry now attempts (Some status) (''HTTP '' @ int_string status) d
                     | Inl msg \<Rightarrow> mark_for_retry now attempts None msg d)
           in (Inr (), update_rows (\<lambda>x. wd_id x = wd_id d) (\<lambda>_. d') tbl))))"

fun deliver_all ::
  "webhook_env \<Rightarrow> instant \<Rightarrow> (webhook_delivery \<times> webhook_subscription) list
   \<Rightarrow> webhook_delivery list \<Rightarrow> (webhook_delivery list, unit) outcome" where
  "deliver_all env now [] tbl = (Inr (), tbl)"
| "deliver_all env now (ds # rest) tbl =
     (case deliver env now ds tbl of
        (Inl e, tbl') \<Rightarrow> (Inl e, tbl')
      | (Inr _, tbl') \<Rightarrow> deliver_all env now rest tbl')"

definition delivery_due :: "instant \<Rightarrow> webhook_delivery \<Rightarrow> bool" where
  "delivery_due now d \<longleftrightarrow> wd_status d \<in> {WhPending, WhFailed} \<and> wd_nextRetryAt d \<le> now"

definition ready_batch ::
  "instant \<Rightarrow> nat \<Rightarrow> webhook_state \<Rightarrow> (webhook_delivery \<times> webhook_subscription) list" where
  "ready_batch now limit s =
     take limit (sort_by (\<lambda>a b. wd_nextRetryAt (fst a) - wd_nextRetryAt (fst b))
       (List.map_filter (\<lambda>d. if delivery_due now d
            then map_option (\<lambda>sub. (d, sub))
                   (find_row (\<lambda>x. ws_id x = wd_subscriptionId d) (wh_subscriptions s))
            else None) (wh_deliveries s)))"

definition process_ready ::
  "webhook_env \<Rightarrow> instant \<Rightarrow> nat \<Rightarrow> webhook_state \<Rightarrow> (webhook_state, unit) outcome" where
  "process_ready env now limit s =
     (case deliver_all env now (ready_batch now limit s) (wh_deliveries s) of
        (r, tbl) \<Rightarrow> (r, s\<lparr>wh_deliveries := tbl\<rparr>))"

end
