(* ===== verification/Entities.thy ===== *)
theory Entities
  imports Pricing Delivery
begin

text \<open>
  The entities of the booking side of the backend and the database state the booking
  services work on: workspaces, maintenance windows, bookings, cancellation policies,
  users, and next to them the price rules, the outbox, the webhook tables and the log of
  the notifications sent. A table is the list of its rows in table order; a query without
  an order returns rows in that order. Rows with a deletion time are invisible to queries.
\<close>

subsection \<open>Users\<close>

datatype user_role = ADMIN | MEMBER | STAFF

fun role_name :: "user_role \<Rightarrow> string" where
  "role_name ADMIN = ''admin''"
| "role_name MEMBER = ''member''"
| "role_name STAFF = ''staff''"

record user =
  u_id :: uuid
  u_firstName :: "string option"
  u_lastName :: "string option"
  u_email :: string
  u_passwordHash :: string
  u_role :: user_role
  u_stellarPublicKey :: "string option"
  u_otp :: "string option"
  u_otpExpiry :: "instant option"
  u_otpAttempts :: int
  u_otpInvalidatedAt :: "instant option"
  u_otpResendCount :: int
  u_isVerified :: bool
  u_isActive :: bool
  u_profilePicture :: "string option"
  u_profilePictureUrls :: json
  u_profilePicturePublicId :: "string option"
  u_totpEnabled :: bool
  u_totpSecret :: "string option"
  u_backupCodes :: "string list option"
  u_createdAt :: instant
  u_deletedAt :: "instant option"

subsection \<open>Workspaces\<close>

datatype workspace_type =
  HOT_DESK | DEDICATED_DESK | PRIVATE_OFFICE | MEETING_ROOM | VIRTUAL | HYBRID

datatype workspace_availability = AVAILABLE | UNAVAILABLE

datatype capacity_type = SHARED | EXCLUSIVE

record amenity =
  am_id :: uuid
  am_name :: string
  am_icon :: "string option"
  am_category :: "string option"
  am_deletedAt :: "instant option"

record workspace =
  w_id :: uuid
  w_name :: string
  w_type :: workspace_type
  w_capacity :: int
  w_pricePerHour :: num
  w_availability :: workspace_availability
  w_capacityType :: capacity_type
  w_description :: "string option"
  w_amenities :: "uuid list"
  w_hubId :: "uuid option"
  w_isActive :: bool
  w_createdAt :: instant
  w_deletedAt :: "instant option"

record maintenance_window =
  mw_id :: uuid
  mw_workspaceId :: uuid
  mw_startTime :: instant
  mw_endTime :: instant
  mw_reason :: "string option"

subsection \<open>Bookings\<close>

datatype booking_status = PENDING | CONFIRMED | CANCELLED | COMPLETED

record booking =
  bk_id :: uuid
  bk_workspaceId :: uuid
  bk_userId :: uuid
  bk_startTime :: instant
  bk_endTime :: instant
  bk_status :: booking_status
  bk_totalAmount :: num
  bk_stellarTxHash :: "string option"
  bk_hubId :: "uuid option"
  bk_recurrenceRule :: "string option"
  bk_seriesId :: "uuid option"
  bk_instanceIndex :: "int option"
  bk_refundAmount :: "num option"
  bk_appliedRateSnapshot :: "rate_snapshot option"
  bk_createdAt :: instant
  bk_deletedAt :: "instant option"

record cancellation_policy =
  cp_id :: uuid
  cp_workspaceType :: workspace_type
  cp_fullRefundHoursBefore :: int
  cp_partialRefundPercent :: int
  cp_partialRefundHoursBefore :: int

record notification =
  nt_room :: "uuid option" \<comment> \<open>None: to all clients\<close>
  nt_event :: string
  nt_data :: json

record db =
  db_workspaces :: "workspace list"
  db_windows :: "maintenance_window list"
  db_bookings :: "booking list"
  db_policies :: "cancellation_policy list"
  db_rules :: "price_rule list"
  db_users :: "user list"
  db_amenities :: "amenity list"
  db_outbox :: "outbox_event list"
  db_webhooks :: webhook_state
  db_notifications :: "notification list"
  db_cache :: "(string \<times> json) list" \<comment> \<open>the shared cache, key to value\<close>

subsection \<open>Lookups that skip deleted rows\<close>

definition find_workspace :: "db \<Rightarrow> uuid \<Rightarrow> workspace option" where
  "find_workspace d i = find_row (\<lambda>w. w_id w = i \<and> w_deletedAt w = None) (db_workspaces d)"

definition find_booking :: "db \<Rightarrow> uuid \<Rightarrow> booking option" where
  "find_booking d i = find_row (\<lambda>b. bk_id b = i \<and> bk_deletedAt b = None) (db_bookings d)"

definition find_user :: "db \<Rightarrow> uuid \<Rightarrow> user option" where
  "find_user d i = find_row (\<lambda>u. u_id u = i \<and> u_deletedAt u = None) (db_users d)"

definition send_to_user :: "uuid \<Rightarrow> string \<Rightarrow> json \<Rightarrow> db \<Rightarrow> db" where
  "send_to_user userId event payload d =
     d\<lparr>db_notifications := db_notifications d @
        [\<lparr>nt_room = Some userId, nt_event = event, nt_data = payload\<rparr>]\<rparr>"

definition send_to_all :: "string \<Rightarrow> json \<Rightarrow> db \<Rightarrow> db" where
  "send_to_all event payload d =
     d\<lparr>db_notifications := db_notifications d @
        [\<lparr>nt_room = None, nt_event = event, nt_data = payload\<rparr>]\<rparr>"

definition save_booking :: "booking \<Rightarrow> db \<Rightarrow> db" where
  "save_booking b d = d\<lparr>db_bookings := save_row bk_id b (db_bookings d)\<rparr>"

subsection \<open>The dashboard cache\<close>

definition invalidate_dashboard_cache :: "db \<Rightarrow> db" where
  "invalidate_dashboard_cache d =
     d\<lparr>db_cache := filter (\<lambda>kv. fst kv \<notin> {''dashboard:stats'', ''dashboard:growth'',
                                       ''dashboard:admin-stats''}) (db_cache d)\<rparr>"

lemma invalidate_dashboard_cache_frame [simp]:
  "db_bookings (invalidate_dashboard_cache d) = db_bookings d"
  "db_workspaces (invalidate_dashboard_cache d) = db_workspaces d"
  "db_windows (invalidate_dashboard_cache d) = db_windows d"
  "db_outbox (invalidate_dashboard_cache d) = db_outbox d"
  "db_users (invalidate_dashboard_cache d) = db_users d"
  "db_policies (invalidate_dashboard_cache d) = db_policies d"
  "db_rules (invalidate_dashboard_cache d) = db_rules d"
  by (simp_all add: invalidate_dashboard_cache_def)

subsection \<open>JSON of the entities\<close>

text \<open>
  What \<open>JSON.stringify\<close> makes of an entity with its loaded relations: every column, since
  no column is excluded from serialisation. Dates print as \<open>toISOString\<close>.
\<close>

definition json_of_option_with :: "('a \<Rightarrow> json) \<Rightarrow> 'a option \<Rightarrow> json" where
  "json_of_option_with f x = (case x of None \<Rightarrow> JNull | Some y \<Rightarrow> f y)"

definition json_date :: "instant \<Rightarrow> json" where "json_date t = JStr (to_iso t)"
definition json_int :: "int \<Rightarrow> json" where "json_int n = JNum (of_int n)"

definition user_json :: "user \<Rightarrow> json" where
  "user_json u = JObj [
     (''id'', JStr (u_id u)), (''firstName'', json_of_option (u_firstName u)),
     (''lastName'', json_of_option (u_lastName u)), (''email'', JStr (u_email u)),
     (''passwordHash'', JStr (u_passwordHash u)), (''role'', JStr (role_name (u_role u))),
     (''stellarPublicKey'', json_of_option (u_stellarPublicKey u)),
     (''otp'', json_of_option (u_otp u)),
     (''otpExpiry'', json_of_option_with json_date (u_otpExpiry u)),
     (''otpAttempts'', json_int (u_otpAttempts u)),
     (''otpInvalidatedAt'', json_of_option_with json_date (u_otpInvalidatedAt u)),
     (''otpResendCount'', json_int (u_otpResendCount u)),
     (''isVerified'', JBool (u_isVerified u)), (''isActive'', JBool (u_isActive u)),
     (''profilePicture'', json_of_option (u_profilePicture u)),
     (''profilePictureUrls'', u_profilePictureUrls u),
     (''profilePicturePublicId'', json_of_option (u_profilePicturePublicId u)),
     (''totpEnabled'', JBool (u_totpEnabled u)), (''totpSecret'', json_of_option (u_totpSecret u)),
     (''backupCodes'', json_of_option_with (\<lambda>cs. JArr (map JStr cs)) (u_backupCodes u)),
     (''createdAt'', json_date (u_createdAt u)),
     (''deletedAt'', json_of_option_with json_date (u_deletedAt u))]"

fun workspace_type_name :: "workspace_type \<Rightarrow> string" where
  "workspace_type_name HOT_DESK = ''HotDesk''"
| "workspace_type_name DEDICATED_DESK = ''DedicatedDesk''"
| "workspace_type_name PRIVATE_OFFICE = ''PrivateOffice''"
| "workspace_type_name MEETING_ROOM = ''MeetingRoom''"
| "workspace_type_name VIRTUAL = ''Virtual''"
| "workspace_type_name HYBRID = ''Hybrid''"

fun workspace_availability_name :: "workspace_availability \<Rightarrow> string" where
  "workspace_availability_name AVAILABLE = ''Available''"
| "workspace_availability_name UNAVAILABLE = ''Unavailable''"

fun capacity_type_name :: "capacity_type \<Rightarrow> string" where
  "capacity_type_name SHARED = ''Shared''"
| "capacity_type_name EXCLUSIVE = ''Exclusive''"

fun booking_status_name :: "booking_status \<Rightarrow> string" where
  "booking_status_name PENDING = ''Pending''"
| "booking_status_name CONFIRMED = ''Confirmed''"
| "booking_status_name CANCELLED = ''Cancelled''"
| "booking_status_name COMPLETED = ''Completed''"

definition workspace_json :: "workspace \<Rightarrow> json" where
  "workspace_json w = JObj [
     (''id'', JStr (w_id w)), (''name'', JStr (w_name w)),
     (''type'', JStr (workspace_type_name (w_type w))), (''capacity'', json_int (w_capacity w)),
     (''pricePerHour'', JNum (w_pricePerHour w)),
     (''availability'', JStr (workspace_availability_name (w_availability w))),
     (''capacityType'', JStr (capacity_type_name (w_capacityType w))),
     (''description'', json_of_option (w_description w)),
     (''hubId'', json_of_option (w_hubId w)), (''isActive'', JBool (w_isActive w)),
     (''createdAt'', json_date (w_createdAt w)),
     (''deletedAt'', json_of_option_with json_date (w_deletedAt w))]"

definition snapshot_json :: "rate_snapshot \<Rightarrow> json" where
  "snapshot_json s = JObj [
     (''segments'', JArr (map (\<lambda>g. JObj [(''ruleId'', JStr (seg_ruleId g)),
        (''label'', JStr (seg_label g)), (''startTime'', json_date (seg_startTime g)),
        (''endTime'', json_date (seg_endTime g)), (''hours'', JNum (seg_hours g)),
        (''ratePerHour'', JNum (seg_ratePerHour g)),
        (''segmentCost'', JNum (seg_segmentCost g))]) (snap_segments s))),
     (''totalAmount'', JNum (snap_totalAmount s)), (''userTier'', JStr (snap_userTier s)),
     (''tierDiscount'', JNum (snap_tierDiscount s)),
     (''calculatedAt'', json_date (snap_calculatedAt s))]"

text \<open>A booking together with the relations a query loaded: workspace and user.\<close>

record booking_view =
  bv_booking :: booking
  bv_workspace :: "workspace option"
  bv_user :: "user option"

definition load_booking :: "db \<Rightarrow> booking \<Rightarrow> booking_view" where
  "load_booking d b = \<lparr>bv_booking = b, bv_workspace = find_workspace d (bk_workspaceId b),
     bv_user = find_user d (bk_userId b)\<rparr>"

definition booking_json :: "booking_view \<Rightarrow> json" where
  "booking_json v = (let b = bv_booking v in JObj [
     (''id'', JStr (bk_id b)), (''workspaceId'', JStr (bk_workspaceId b)),
     (''workspace'', json_of_option_with workspace_json (bv_workspace v)),
     (''userId'', JStr (bk_userId b)),
     (''user'', json_of_option_with user_json (bv_user v)),
     (''startTime'', json_date (bk_startTime b)), (''endTime'', json_date (bk_endTime b)),
     (''status'', JStr (booking_status_name (bk_status b))),
     (''totalAmount'', JNum (bk_totalAmount b)),
     (''stellarTxHash'', json_of_option (bk_stellarTxHash b)),
     (''hubId'', json_of_option (bk_hubId b)),
     (''recurrenceRule'', json_of_option (bk_recurrenceRule b)),
     (''seriesId'', json_of_option (bk_seriesId b)),
     (''instanceIndex'', json_of_option_with json_int (bk_instanceIndex b)),
     (''refundAmount'', json_of_option_with JNum (bk_refundAmount b)),
     (''appliedRateSnapshot'', json_of_option_with snapshot_json (bk_appliedRateSnapshot b)),
     (''createdAt'', json_date (bk_createdAt b)),
     (''deletedAt'', json_of_option_with json_date (bk_deletedAt b))])"

lemma send_to_user_frame [simp]:
  "db_bookings (send_to_user u e j d) = db_bookings d"
  "db_workspaces (send_to_user u e j d) = db_workspaces d"
  "db_windows (send_to_user u e j d) = db_windows d"
  "db_outbox (send_to_user u e j d) = db_outbox d"
  "db_users (send_to_user u e j d) = db_users d"
  "db_policies (send_to_user u e j d) = db_policies d"
  "db_rules (send_to_user u e j d) = db_rules d"
  by (simp_all add: send_to_user_def)

lemma save_booking_frame [simp]:
  "db_bookings (save_booking b d) = save_row bk_id b (db_bookings d)"
  "db_workspaces (save_booking b d) = db_workspaces d"
  "db_windows (save_booking b d) = db_windows d"
  "db_outbox (save_booking b d) = db_outbox d"
  "db_users (save_booking b d) = db_users d"
  "db_policies (save_booking b d) = db_policies d"
  "db_rules (save_booking b d) = db_rules d"
  by (simp_all add: save_booking_def)

end
