(* ===== verification/Text_Codecs.thy ===== *)
theory Text_Codecs
  imports Json
begin

text \<open>
  The text codecs of the language and of the Node runtime that the services use: base64
  (\<open>Buffer\<close>), JSON string quoting and \<open>JSON.parse\<close>. A string is its UTF-8 bytes. The
  theorems are the round trips: decoding an encoded byte string and parsing a quoted string
  give it back.
\<close>

abbreviation byte :: "char \<Rightarrow> nat" where "byte \<equiv> of_char"

lemma byte_less [simp]: "byte c < 256"
  by (cases c) (simp add: of_char_def)

subsection \<open>Base64\<close>

definition b64_alphabet :: string where
  "b64_alphabet = ''ABCDEFGHIJKLMNOPQRSTUVWXYZabcdefghijklmnopqrstuvwxyz0123456789+/''"

definition b64_char :: "nat \<Rightarrow> char" where "b64_char n = b64_alphabet ! n"

definition b64_index :: "char \<Rightarrow> nat option" where
  "b64_index c =
     (if 65 \<le> byte c \<and> byte c \<le> 90 then Some (byte c - 65)
      else if 97 \<le> byte c \<and> byte c \<le> 122 then Some (byte c - 71)
      else if 48 \<le> byte c \<and> byte c \<le> 57 then Some (byte c + 4)
      else if c = CHR ''+'' \<or> c = CHR ''-'' then Some 62
      else if c = CHR ''/'' \<or> c = CHR ''_'' then Some 63
      else None)"

fun b64_sextets :: "nat list \<Rightarrow> nat list" where
  "b64_sextets (a # b # c # r) =
     a div 4 # (a mod 4 * 16 + b div 16) # (b mod 16 * 4 + c div 64) # (c mod 64) # b64_sextets r"
| "b64_sextets [a, b] = [a div 4, a mod 4 * 16 + b div 16, b mod 16 * 4]"
| "b64_sextets [a] = [a div 4, a mod 4 * 16]"
| "b64_sextets [] = []"

definition b64_pad :: "nat \<Rightarrow> string" where
  "b64_pad n = replicate ((3 - n mod 3) mod 3) (CHR ''='')"

definition b64_encode :: "string \<Rightarrow> string" where \<comment> \<open>Buffer.from(s).toString('base64')\<close>
  "b64_encode s = map b64_char (b64_sextets (map byte s)) @ b64_pad (length s)"

fun b64_bytes :: "nat list \<Rightarrow> nat list" where
  "b64_bytes (p # q # r # s # t) =
     (p * 4 + q div 16) # (q mod 16 * 16 + r div 4) # (r mod 4 * 64 + s) # b64_bytes t"
| "b64_bytes [p, q, r] = [p * 4 + q div 16, q mod 16 * 16 + r div 4]"
| "b64_bytes [p, q] = [p * 4 + q div 16]"
| "b64_bytes _ = []"

text \<open>The decoder of the runtime stops at the padding, skips characters outside the alphabet and
  accepts both alphabets.\<close>

definition b64_decode :: "string \<Rightarrow> string" where \<comment> \<open>Buffer.from(s, 'base64')\<close>
  "b64_decode s =
     map char_of (b64_bytes (List.map_filter b64_index (takeWhile (\<lambda>c. c \<noteq> CHR ''='') s)))"

lemma b64_sextets_less: "\<forall>x \<in> set bs. x < 256 \<Longrightarrow> x \<in> set (b64_sextets bs) \<Longrightarrow> x < 64"
  by (induction bs rule: b64_sextets.induct) auto

lemma b64_bytes_sextets: "\<forall>x \<in> set bs. x < 256 \<Longrightarrow> b64_bytes (b64_sextets bs) = bs"
  by (induction bs rule: b64_sextets.induct) auto

lemma b64_alphabet_table:
  "list_all (\<lambda>n. b64_index (b64_char n) = Some n \<and> b64_char n \<noteq> CHR ''='') [0..<64]"
  by (simp add: b64_char_def b64_alphabet_def b64_index_def upt_rec)

lemma b64_index_char: "n < 64 \<Longrightarrow> b64_index (b64_char n) = Some n \<and> b64_char n \<noteq> CHR ''=''"
  using b64_alphabet_table by (simp add: list_all_iff)

lemma map_filter_b64: "\<forall>n \<in> set ns. n < 64 \<Longrightarrow> List.map_filter b64_index (map b64_char ns) = ns"
  by (induction ns) (simp_all add: b64_index_char List.map_filter_simps)

lemma takeWhile_b64:
  "\<forall>n \<in> set ns. n < 64 \<Longrightarrow>
   takeWhile (\<lambda>c. c \<noteq> CHR ''='') (map b64_char ns @ replicate k (CHR ''='')) = map b64_char ns"
  by (induction ns) (auto simp: b64_index_char takeWhile_eq_Nil_iff hd_replicate)

lemma b64_decode_padded:
  assumes "x = map b64_char (b64_sextets (map byte s)) @ replicate k (CHR ''='')"
  shows "b64_decode x = s"
proof -
  have b: "\<forall>x \<in> set (map byte s). x < 256" by auto
  then have "\<forall>n \<in> set (b64_sextets (map byte s)). n < 64" using b64_sextets_less by blast
  then show ?thesis
    by (simp add: b64_decode_def assms takeWhile_b64 map_filter_b64 b64_bytes_sextets [OF b] comp_def)
qed

theorem b64_roundtrip: "b64_decode (b64_encode s) = s"
  by (rule b64_decode_padded [where k = "(3 - length s mod 3) mod 3"]) (simp add: b64_encode_def b64_pad_def)

subsection \<open>JSON strings\<close>

definition hex_digit :: "nat \<Rightarrow> char" where
  "hex_digit n = (if n < 10 then char_of (48 + n) else char_of (87 + n))"

definition hex_value :: "char \<Rightarrow> nat option" where
  "hex_value c =
     (if 48 \<le> byte c \<and> byte c \<le> 57 then Some (byte c - 48)
      else if 97 \<le> byte c \<and> byte c \<le> 102 then Some (byte c - 87)
      else if 65 \<le> byte c \<and> byte c \<le> 70 then Some (byte c - 55)
      else None)"

definition json_escape :: "char \<Rightarrow> string" where
  "json_escape c =
     (if c = CHR 0x22 then [CHR 0x5C, CHR 0x22]
      else if c = CHR 0x5C then [CHR 0x5C, CHR 0x5C]
      else if c = CHR 0x08 then [CHR 0x5C, CHR ''b'']
      else if c = CHR 0x09 then [CHR 0x5C, CHR ''t'']
      else if c = CHR 0x0A then [CHR 0x5C, CHR ''n'']
      else if c = CHR 0x0C then [CHR 0x5C, CHR ''f'']
      else if c = CHR 0x0D then [CHR 0x5C, CHR ''r'']
      else if byte c < 32
      then [CHR 0x5C] @ ''u00'' @ [hex_digit (byte c div 16), hex_digit (byte c mod 16)]
      else [c])"

definition json_quote :: "string \<Rightarrow> string" where
  "json_quote s = CHR 0x22 # concat (map json_escape s) @ [CHR 0x22]"

definition utf8 :: "nat \<Rightarrow> string" where
  "utf8 n = map char_of
     (if n < 128 then [n]
      else if n < 2048 then [192 + n div 64, 128 + n mod 64]
      else if n < 65536 then [224 + n div 4096, 128 + n div 64 mod 64, 128 + n mod 64]
      else [240 + n div 262144, 128 + n div 4096 mod 64, 128 + n div 64 mod 64, 128 + n mod 64])"

fun hex4 :: "string \<Rightarrow> (nat \<times> string) option" where
  "hex4 (a # b # c # d # r) =
     (case (hex_value a, hex_value b, hex_value c, hex_value d) of
        (Some w, Some x, Some y, Some z) \<Rightarrow> Some (w * 4096 + x * 256 + y * 16 + z, r)
      | _ \<Rightarrow> None)"
| "hex4 _ = None"

definition low_surrogate :: "string \<Rightarrow> (nat \<times> string) option" where
  "low_surrogate s = (case s of
     a # b # r \<Rightarrow> if a = CHR 0x5C \<and> b = CHR ''u'' then
         (case hex4 r of Some (n, r') \<Rightarrow> if 56320 \<le> n \<and> n < 57344 then Some (n, r') else None
          | None \<Rightarrow> None)
       else None
   | _ \<Rightarrow> None)"

definition json_unicode :: "string \<Rightarrow> (string \<times> string) option" where
  "json_unicode r = (case hex4 r of
     None \<Rightarrow> None
   | Some (n, r1) \<Rightarrow>
     if 55296 \<le> n \<and> n < 56320
     then (case low_surrogate r1 of
             Some (m, r2) \<Rightarrow> Some (utf8 (65536 + (n - 55296) * 1024 + (m - 56320)), r2)
           | None \<Rightarrow> Some (utf8 n, r1))
     else Some (utf8 n, r1))"

definition json_simple_escape :: "char \<Rightarrow> char option" where
  "json_simple_escape e =
     (if e = CHR 0x22 \<or> e = CHR 0x5C \<or> e = CHR ''/'' then Some e
      else if e = CHR ''b'' then Some (CHR 0x08)
      else if e = CHR ''t'' then Some (CHR 0x09)
      else if e = CHR ''n'' then Some (CHR 0x0A)
      else if e = CHR ''f'' then Some (CHR 0x0C)
      else if e = CHR ''r'' then Some (CHR 0x0D)
      else None)"

text \<open>The rest of a string literal after its opening quote: the string and what follows. The
  fuel is the length of the input, each step reads at least one character.\<close>

fun parse_string :: "nat \<Rightarrow> string \<Rightarrow> (string \<times> string) option" where
  "parse_string (Suc n) (c # r) =
     (if c = CHR 0x22 then Some ([], r)
      else if c = CHR 0x5C then
        (case r of
           [] \<Rightarrow> None
         | e # r1 \<Rightarrow>
           (case (if e = CHR ''u'' then json_unicode r1
                  else map_option (\<lambda>x. ([x], r1)) (json_simple_escape e)) of
              None \<Rightarrow> None
            | Some (x, r2) \<Rightarrow> map_option (\<lambda>(s, t). (x @ s, t)) (parse_string n r2)))
      else if byte c < 32 then None
      else map_option (\<lambda>(s, t). (c # s, t)) (parse_string n r))"
| "parse_string _ _ = None"

lemma byte_char_of [simp]: "n < 256 \<Longrightarrow> byte (char_of n) = n"
  by simp

lemma hex_value_digit: "n < 16 \<Longrightarrow> hex_value (hex_digit n) = Some n"
  by (auto simp: hex_value_def hex_digit_def)

lemma json_unicode_small:
  assumes "n < 128"
  shows "json_unicode (''00'' @ [hex_digit (n div 16), hex_digit (n mod 16)] @ r) = Some ([char_of n], r)"
proof -
  have "hex_value (CHR ''0'') = Some 0" by (simp add: hex_value_def)
  then have "hex4 (''00'' @ [hex_digit (n div 16), hex_digit (n mod 16)] @ r) = Some (n, r)"
    using assms by (simp add: hex_value_digit)
  then show ?thesis using assms by (simp add: json_unicode_def utf8_def)
qed

lemma parse_string_escape:
  "parse_string (Suc n) (json_escape c @ r) = map_option (\<lambda>(s, t). (c # s, t)) (parse_string n r)"
proof -
  have "c \<noteq> CHR 0x22 \<and> c \<noteq> CHR 0x5C" if "byte c < 32" using that by auto
  then show ?thesis
    using json_unicode_small [of "byte c" r]
    by (simp add: json_escape_def json_simple_escape_def)
qed

lemma json_escape_length: "1 \<le> length (json_escape c)"
  by (simp add: json_escape_def)

lemma parse_string_quoted:
  "length s < n \<Longrightarrow> parse_string n (concat (map json_escape s) @ CHR 0x22 # r) = Some (s, r)"
proof (induction s arbitrary: n)
  case Nil
  then show ?case by (cases n) auto
next
  case (Cons c s)
  then obtain m where n: "n = Suc m" "length s < m" by (cases n) auto
  have "parse_string n (json_escape c @ concat (map json_escape s) @ CHR 0x22 # r) = Some (c # s, r)"
    unfolding n(1) parse_string_escape using Cons.IH [OF n(2)] by simp
  then show ?case by simp
qed

subsection \<open>JSON.parse\<close>

definition is_ws :: "char \<Rightarrow> bool" where "is_ws c \<longleftrightarrow> c \<in> {CHR '' '', CHR 0x09, CHR 0x0A, CHR 0x0D}"

definition skip_ws :: "string \<Rightarrow> string" where "skip_ws = dropWhile is_ws"

definition is_digit :: "char \<Rightarrow> bool" where "is_digit c \<longleftrightarrow> 48 \<le> byte c \<and> byte c \<le> 57"

definition parse_exponent :: "string \<Rightarrow> (int \<times> string) option" where
  "parse_exponent s = (case s of
     c # r \<Rightarrow>
       if c = CHR ''e'' \<or> c = CHR ''E''
       then (let neg = (r \<noteq> [] \<and> hd r = CHR ''-'');
                 r1 = (if r \<noteq> [] \<and> (hd r = CHR ''-'' \<or> hd r = CHR ''+'') then tl r else r);
                 ds = takeWhile is_digit r1
             in if ds = [] then None
                else Some ((if neg then - 1 else 1) * int (nat_of_string ds), dropWhile is_digit r1))
       else Some (0, s)
   | [] \<Rightarrow> Some (0, s))"

definition parse_fraction :: "string \<Rightarrow> (string \<times> string) option" where
  "parse_fraction s = (case s of
     c # r \<Rightarrow>
       if c = CHR ''.''
       then (let ds = takeWhile is_digit r in if ds = [] then None else Some (ds, dropWhile is_digit r))
       else Some ([], s)
   | [] \<Rightarrow> Some ([], s))"

definition parse_number :: "string \<Rightarrow> (json \<times> string) option" where
  "parse_number s =
     (let neg = (s \<noteq> [] \<and> hd s = CHR ''-''); s1 = (if neg then tl s else s);
          ip = takeWhile is_digit s1
      in if ip = [] \<or> (hd ip = CHR ''0'' \<and> tl ip \<noteq> []) then None
         else (case parse_fraction (dropWhile is_digit s1) of
                 None \<Rightarrow> None
               | Some (fp, s2) \<Rightarrow>
                 (case parse_exponent s2 of
                    None \<Rightarrow> None
                  | Some (ex, s3) \<Rightarrow>
                      Some (JNum (fl ((if neg then - 1 else 1) * of_nat (nat_of_string (ip @ fp)) *
                                      10 powi (ex - int (length fp)))), s3))))"

definition put_member :: "string \<Rightarrow> json \<Rightarrow> (string \<times> json) list \<Rightarrow> (string \<times> json) list" where
  "put_member k v ms =
     (k, case map_of ms k of Some v' \<Rightarrow> v' | None \<Rightarrow> v) # filter (\<lambda>m. fst m \<noteq> k) ms"

text \<open>The fuel bounds the depth of the calls; each of them has read a character more than its
  caller, so the length of the input is enough.\<close>

fun parse_value :: "nat \<Rightarrow> string \<Rightarrow> (json \<times> string) option"
and parse_members :: "nat \<Rightarrow> string \<Rightarrow> ((string \<times> json) list \<times> string) option"
and parse_elements :: "nat \<Rightarrow> string \<Rightarrow> (json list \<times> string) option" where
  "parse_value (Suc n) s =
     (case skip_ws s of
        [] \<Rightarrow> None
      | c # r \<Rightarrow>
        if c = CHR 0x22 then map_option (apfst JStr) (parse_string (length r) r)
        else if c = CHR ''{''
        then (case skip_ws r of
                [] \<Rightarrow> None
              | k # r' \<Rightarrow> if k = CHR ''}'' then Some (JObj [], r')
                         else map_option (apfst JObj) (parse_members n (k # r')))
        else if c = CHR ''[''
        then (case skip_ws r of
                [] \<Rightarrow> None
              | k # r' \<Rightarrow> if k = CHR '']'' then Some (JArr [], r')
                         else map_option (apfst JArr) (parse_elements n (k # r')))
        else if take 4 (c # r) = ''true'' then Some (JBool True, drop 3 r)
        else if take 5 (c # r) = ''false'' then Some (JBool False, drop 4 r)
        else if take 4 (c # r) = ''null'' then Some (JNull, drop 3 r)
        else parse_number (c # r))"
| "parse_value 0 s = None"
| "parse_members (Suc n) s =
     (case skip_ws s of
        [] \<Rightarrow> None
      | q # r \<Rightarrow>
        if q \<noteq> CHR 0x22 then None
        else (case parse_string (length r) r of
                None \<Rightarrow> None
              | Some (k, r1) \<Rightarrow>
                (case skip_ws r1 of
                   [] \<Rightarrow> None
                 | c # r2 \<Rightarrow>
                   if c \<noteq> CHR '':'' then None
                   else (case parse_value n r2 of
                           None \<Rightarrow> None
                         | Some (v, r3) \<Rightarrow>
                           (case skip_ws r3 of
                              [] \<Rightarrow> None
                            | e # r4 \<Rightarrow>
                              if e = CHR ''}'' then Some ([(k, v)], r4)
                              else if e = CHR '',''
                              then map_option (apfst (put_member k v)) (parse_members n r4)
                              else None)))))"
| "parse_members 0 s = None"
| "parse_elements (Suc n) s =
     (case parse_value n s of
        None \<Rightarrow> None
      | Some (v, r3) \<Rightarrow>
        (case skip_ws r3 of
           [] \<Rightarrow> None
         | e # r4 \<Rightarrow>
           if e = CHR '']'' then Some ([v], r4)
           else if e = CHR '','' then map_option (apfst ((#) v)) (parse_elements n r4)
           else None))"
| "parse_elements 0 s = None"

definition json_parse :: "string \<Rightarrow> json option" where
  "json_parse s =
     (case parse_value (Suc (length s)) s of
        Some (v, r) \<Rightarrow> if skip_ws r = [] then Some v else None
      | None \<Rightarrow> None)"

lemma skip_ws_id [simp]: "\<not> is_ws c \<Longrightarrow> skip_ws (c # r) = c # r" "skip_ws [] = []"
  by (simp_all add: skip_ws_def)

lemma not_ws [simp]:
  "\<not> is_ws CHR 0x22" "\<not> is_ws (CHR ''{'')" "\<not> is_ws (CHR ''}'')" "\<not> is_ws (CHR '':'')" "\<not> is_ws (CHR '','')"
  by (simp_all add: is_ws_def)

lemma length_json_escapes: "length s \<le> length (concat (map json_escape s))"
  by (induction s) (auto simp: intro: add_mono [OF json_escape_length, simplified])

lemma parse_quoted:
  "parse_string (length (concat (map json_escape s) @ CHR 0x22 # r))
     (concat (map json_escape s) @ CHR 0x22 # r) = Some (s, r)"
  by (rule parse_string_quoted) (simp add: length_json_escapes le_imp_less_Suc trans_le_add1)

lemma parse_value_quoted: "parse_value (Suc n) (json_quote s @ r) = Some (JStr s, r)"
  using parse_quoted [of s r] by (simp add: json_quote_def)

lemma parse_members_last:
  "parse_members (Suc (Suc n)) (json_quote k @ '':'' @ json_quote v @ ''}'' @ r) = Some ([(k, JStr v)], r)"
  using parse_quoted [of k "'':'' @ json_quote v @ ''}'' @ r"] parse_value_quoted [of n v "''}'' @ r"]
  by (simp add: json_quote_def)

lemma parse_members_more:
  assumes "parse_members (Suc n) m = Some (ms, r)"
  shows "parse_members (Suc (Suc n)) (json_quote k @ '':'' @ json_quote v @ '','' @ m) =
    Some (put_member k (JStr v) ms, r)"
  using parse_quoted [of k "'':'' @ json_quote v @ '','' @ m"] parse_value_quoted [of n v "'','' @ m"] assms
  by (simp add: json_quote_def)

text \<open>\<open>JSON.stringify\<close> of an object with two string properties, and its parse.\<close>

definition stringify2 :: "string \<Rightarrow> string \<Rightarrow> string \<Rightarrow> string \<Rightarrow> string" where
  "stringify2 k1 v1 k2 v2 =
     ''{'' @ json_quote k1 @ '':'' @ json_quote v1 @ '','' @ json_quote k2 @ '':'' @ json_quote v2 @ ''}''"

lemma json_parse_stringify2:
  assumes "k1 \<noteq> k2"
  shows "json_parse (stringify2 k1 v1 k2 v2) = Some (JObj [(k1, JStr v1), (k2, JStr v2)])"
proof -
  obtain n where n: "length (stringify2 k1 v1 k2 v2) = Suc (Suc (Suc n))"
    by (cases "length (stringify2 k1 v1 k2 v2)"; simp add: stringify2_def)
  have "parse_members (Suc (Suc (Suc n))) (json_quote k1 @ '':'' @ json_quote v1 @ '','' @
      (json_quote k2 @ '':'' @ json_quote v2 @ ''}'' @ [])) = Some ([(k1, JStr v1), (k2, JStr v2)], [])"
    by (subst parse_members_more [OF parse_members_last]) (use assms in \<open>simp add: put_member_def\<close>)
  moreover have "\<exists>t. json_quote k1 @ '':'' @ json_quote v1 @ '','' @
      (json_quote k2 @ '':'' @ json_quote v2 @ ''}'' @ []) = CHR 0x22 # t" by (simp add: json_quote_def)
  ultimately have "parse_value (Suc (Suc (Suc (Suc n)))) (stringify2 k1 v1 k2 v2) =
      Some (JObj [(k1, JStr v1), (k2, JStr v2)], [])"
    by (auto simp: stringify2_def simp del: parse_members.simps)
  then show ?thesis by (simp add: json_parse_def n del: parse_value.simps)
qed

end
