(* ===== verification/Iso_Dates.thy ===== *)
theory Iso_Dates
  imports JsTime
begin

text \<open>
  Reading back the dates \<open>toISOString\<close> prints: \<open>new Date(string)\<close> on the UTC forms of the
  language definition, and the round trip. The calendar conversion is inverted by
  \<open>days_of_civil\<close> for every day; the printed form for the years 0 to 9999.
\<close>

subsection \<open>The calendar\<close>

lemma civil_facts:
  fixes doe :: int
  assumes "0 \<le> doe" "doe < 146097"
    and y: "y = (doe - doe div 1460 + doe div 36524 - doe div 146096) div 365"
    and d: "doy = doe - (365 * y + y div 4 - y div 100)"
  shows "0 \<le> y" "y \<le> 399" "0 \<le> doy" "doy \<le> 366"
proof -
  define a b c where "a = doe div 1460" and "b = doe div 36524" and "c = doe div 146096"
  have f: "1460 * a \<le> doe" "doe < 1460 * a + 1460" "36524 * b \<le> doe" "doe < 36524 * b + 36524" "146096 * c \<le> doe" "doe < 146096 * c + 146096"
    unfolding a_def b_def c_def by linarith+
  have g: "365 * y \<le> doe - a + b - c" "doe - a + b - c < 365 * y + 365" unfolding y a_def b_def c_def by linarith+
  have b: "b = 0 \<or> b = 1 \<or> b = 2 \<or> b = 3 \<or> b = 4" using f assms(1,2) by linarith
  have c: "c = 0 \<or> c = 1" using f assms(1,2) by linarith
  have ab: "0 \<le> a" "25 * b \<le> a + 1" using f assms(1,2) by linarith+
  show y0: "0 \<le> y" using f g b c ab assms(1,2) by linarith
  have "doe - a + b - c < 146000"
  proof (cases "doe < 146000")
    case True
    show ?thesis using b c True f ab by (elim disjE) linarith+
  next
    case False
    then have "100 \<le> a" using f by linarith
    then show ?thesis using b c f assms(2) by (elim disjE) linarith+
  qed
  then show y1: "y \<le> 399" using g by linarith
  define e h where "e = y div 4" and "h = y div 100"
  have k: "4 * e \<le> y" "y < 4 * e + 4" "100 * h \<le> y" "y < 100 * h + 100" unfolding e_def h_def by linarith+
  have h: "h = 0 \<or> h = 1 \<or> h = 2 \<or> h = 3" using y0 y1 k by linarith
  have d': "doy = doe - (365 * y + e - h)" using d by (simp add: e_def h_def)
  show "0 \<le> doy" unfolding d' using b c h f g k ab y0 y1 assms(1,2) by (elim disjE) linarith+
  show "doy \<le> 366" unfolding d' using b c h f g k ab y0 y1 assms(1,2) by (elim disjE) linarith+
qed

lemma civil_of_days_bounds:
  assumes "civil_of_days n = (y, m, d)"
  shows "1 \<le> m \<and> m \<le> 12 \<and> 1 \<le> d \<and> d \<le> 31" "days_of_civil y m d = n"
proof -
  define z where "z = n + 719468"
  define era doe where "era = z div 146097" and "doe = z mod 146097"
  define yoe where "yoe = (doe - doe div 1460 + doe div 36524 - doe div 146096) div 365"
  define doy where "doy = doe - (365 * yoe + yoe div 4 - yoe div 100)"
  define mp where "mp = (5 * doy + 2) div 153"
  have doe: "0 \<le> doe" "doe < 146097" by (simp_all add: doe_def)
  note f = civil_facts [OF doe yoe_def doy_def]
  have mp: "0 \<le> mp" "mp \<le> 11" using f unfolding mp_def by linarith+
  define mm where "mm = (if mp < 10 then mp + 3 else mp - 9)"
  have c: "civil_of_days n = (yoe + era * 400 + (if mm \<le> 2 then 1 else 0), mm,
      doy - (153 * mp + 2) div 5 + 1)"
    unfolding civil_of_days_def Let_def z_def [symmetric] era_def [symmetric] doe_def [symmetric]
      yoe_def [symmetric] doy_def [symmetric] mp_def [symmetric] mm_def [symmetric] ..
  from trans [OF assms [symmetric] c]
  have eq: "y = yoe + era * 400 + (if mm \<le> 2 then 1 else 0)" "m = mm"
    "d = doy - (153 * mp + 2) div 5 + 1"
    by (simp_all only: prod.inject)
  have q: "153 * mp \<le> 5 * doy + 2" "5 * doy + 2 < 153 * mp + 153" unfolding mp_def by linarith+
  define w where "w = (153 * mp + 2) div 5"
  have w: "5 * w \<le> 153 * mp + 2" "153 * mp + 2 < 5 * w + 5" unfolding w_def by linarith+
  have "w \<le> doy" "doy - w \<le> 30" using q w by linarith+
  moreover have "d = doy - w + 1" using eq(3) by (simp only: w_def)
  moreover have "1 \<le> m \<and> m \<le> 12" using mp by (cases "mp < 10") (simp_all add: eq(2) mm_def)
  ultimately show "1 \<le> m \<and> m \<le> 12 \<and> 1 \<le> d \<and> d \<le> 31" by linarith
  have y': "(if m \<le> 2 then y - 1 else y) = yoe + era * 400" using eq(1,2) by simp
  have m': "(if m > 2 then m - 3 else m + 9) = mp" using mp by (cases "mp < 10") (simp_all add: eq(2) mm_def)
  have "(yoe + era * 400) div 400 = era" "(yoe + era * 400) mod 400 = yoe" using f(1,2) by auto
  then have "days_of_civil y m d = era * 146097 + (yoe * 365 + yoe div 4 - yoe div 100 + doy) - 719468"
    unfolding days_of_civil_def Let_def y' m' by (simp add: eq(3))
  also have "\<dots> = era * 146097 + doe - 719468" by (simp add: doy_def)
  also have "era * 146097 + doe = z" by (simp add: era_def doe_def)
  finally show "days_of_civil y m d = n" by (simp add: z_def)
qed

subsection \<open>Digits\<close>

definition digits :: "string \<Rightarrow> bool" where
  "digits s \<longleftrightarrow> list_all (\<lambda>c. 48 \<le> (of_char c :: nat) \<and> (of_char c :: nat) \<le> 57) s"

definition read_field :: "nat \<Rightarrow> nat \<Rightarrow> string \<Rightarrow> int option" where
  "read_field i n s =
     (let f = take n (drop i s)
      in if length f = n \<and> digits f then Some (int (nat_of_string f)) else None)"

lemma digits_nat_string: "digits (nat_string n)"
proof (induction n rule: nat_string.induct)
  case (1 n)
  show ?case
  proof (cases "n < 10")
    case True
    then show ?thesis by (simp add: nat_string.simps [of n] digits_def digit_char_def)
  next
    case False
    then show ?thesis using 1 by (simp add: nat_string.simps [of n] digits_def digit_char_def)
  qed
qed

lemma length_nat_string: "0 < k \<Longrightarrow> n < 10 ^ k \<Longrightarrow> length (nat_string n) \<le> k"
proof (induction k arbitrary: n)
  case (Suc k)
  show ?case
  proof (cases "n < 10")
    case False
    then have "0 < k" using Suc.prems by (cases k) auto
    moreover have "n div 10 < 10 ^ k" using Suc.prems(2) by (simp add: less_mult_imp_div_less mult.commute)
    ultimately show ?thesis using Suc.IH [of "n div 10"] False by (simp add: nat_string.simps [of n])
  qed (simp add: nat_string.simps [of n])
qed simp

lemma nat_of_string_zeros [simp]: "nat_of_string (replicate j (CHR ''0'') @ s) = nat_of_string s"
  by (induction j) (simp_all add: nat_of_string_def char_digit_def)

lemma pad_number_ok:
  assumes "0 < k" "0 \<le> n" "n < 10 ^ k"
  shows "length (pad_number k n) = k" "digits (pad_number k n)" "int (nat_of_string (pad_number k n)) = n"
proof -
  have s: "int_string n = nat_string (nat n)" using assms(2) by (simp add: int_string_def)
  have "nat n < 10 ^ k" using assms(2,3) by (simp add: nat_less_iff)
  then have l: "length (nat_string (nat n)) \<le> k" by (rule length_nat_string [OF assms(1)])
  then show "length (pad_number k n) = k" by (simp add: pad_number_def pad_start_def s)
  show "digits (pad_number k n)"
    using digits_nat_string [of "nat n"]
    by (auto simp: pad_number_def pad_start_def s digits_def list_all_iff)
  show "int (nat_of_string (pad_number k n)) = n"
    using assms(2) by (simp add: pad_number_def pad_start_def s)
qed

lemma read_field_at:
  assumes "length a = i" "0 < k" "0 \<le> n" "n < 10 ^ k"
  shows "read_field i k (a @ pad_number k n @ b) = Some n"
  using pad_number_ok [OF assms(2-4)] assms(1) by (simp add: read_field_def)

subsection \<open>Parsing\<close>

text \<open>
  The forms read: a date (midnight UTC) and a date with a time to the millisecond in UTC, as
  \<open>toISOString\<close> prints it. Other forms are left to the implementation and give no date here.
\<close>

definition valid_civil :: "int \<Rightarrow> int \<Rightarrow> bool" where
  "valid_civil m d \<longleftrightarrow> 1 \<le> m \<and> m \<le> 12 \<and> 1 \<le> d \<and> d \<le> 31"

definition read_date :: "string \<Rightarrow> int option" where
  "read_date s =
     (case (read_field 0 4 s, read_field 5 2 s, read_field 8 2 s) of
        (Some y, Some m, Some d) \<Rightarrow>
          if take 1 (drop 4 s) = ''-'' \<and> take 1 (drop 7 s) = ''-'' \<and> valid_civil m d
          then Some (days_of_civil y m d) else None
      | _ \<Rightarrow> None)"

definition read_time :: "string \<Rightarrow> int option" where
  "read_time s =
     (case (read_field 11 2 s, read_field 14 2 s, read_field 17 2 s, read_field 20 3 s) of
        (Some h, Some mi, Some sec, Some ms) \<Rightarrow>
          if take 1 (drop 10 s) = ''T'' \<and> take 1 (drop 13 s) = '':'' \<and> take 1 (drop 16 s) = '':'' \<and>
             take 1 (drop 19 s) = ''.'' \<and> drop 23 s = ''Z'' \<and> h < 24 \<and> mi < 60 \<and> sec < 60
          then Some (h * ms_per_hour + mi * ms_per_minute + sec * ms_per_second + ms) else None
      | _ \<Rightarrow> None)"

definition date_parse :: "string \<Rightarrow> instant option" where
  "date_parse s =
     (if length s = 10 then map_option (\<lambda>n. n * ms_per_day) (read_date s)
      else (case (read_date s, read_time s) of
              (Some n, Some t) \<Rightarrow> Some (n * ms_per_day + t) | _ \<Rightarrow> None))"

lemma time_of_day:
  "t mod ms_per_day = get_utc_hours t * ms_per_hour + t mod ms_per_hour div ms_per_minute * ms_per_minute +
     t mod ms_per_minute div ms_per_second * ms_per_second + t mod ms_per_second"
proof -
  have a: "t mod ms_per_hour = t mod ms_per_hour div ms_per_minute * ms_per_minute + t mod ms_per_minute"
    using div_mult_mod_eq [of "t mod ms_per_hour" ms_per_minute]
    by (simp add: ms_units mod_mod_cancel)
  have b: "t mod ms_per_minute = t mod ms_per_minute div ms_per_second * ms_per_second + t mod ms_per_second"
    using div_mult_mod_eq [of "t mod ms_per_minute" ms_per_second]
    by (simp add: ms_units mod_mod_cancel)
  show ?thesis using hour_split [of t] a b by simp
qed

theorem date_parse_to_iso:
  assumes "0 \<le> get_utc_full_year t" "get_utc_full_year t \<le> 9999"
  shows "date_parse (to_iso t) = Some t"
proof -
  obtain y m d where c: "civil_of_days (t div ms_per_day) = (y, m, d)" by (cases "civil_of_days (t div ms_per_day)")
  note b = civil_of_days_bounds [OF c]
  have y: "0 \<le> y" "y \<le> 9999" using assms c by (simp_all add: get_utc_full_year_def)
  define h mi sec ms where "h = get_utc_hours t" and "mi = t mod ms_per_hour div ms_per_minute"
    and "sec = t mod ms_per_minute div ms_per_second" and "ms = t mod ms_per_second"
  have r: "0 \<le> h" "h < 24" "0 \<le> mi" "mi < 60" "0 \<le> sec" "sec < 60" "0 \<le> ms" "ms < 1000"
    using get_utc_hours_bounds [of t]
    by (simp_all add: h_def mi_def sec_def ms_def ms_units pos_imp_zdiv_nonneg_iff)
  define Y M D H I S X where "Y = pad_number 4 y" and "M = pad_number 2 m" and "D = pad_number 2 d"
    and "H = pad_number 2 h" and "I = pad_number 2 mi" and "S = pad_number 2 sec" and "X = pad_number 3 ms"
  have len: "length Y = 4" "length M = 2" "length D = 2" "length H = 2" "length I = 2" "length S = 2"
    "length X = 3"
    unfolding Y_def M_def D_def H_def I_def S_def X_def using y b(1) r by (auto intro!: pad_number_ok(1))
  have dig: "digits Y" "digits M" "digits D" "digits H" "digits I" "digits S" "digits X"
    unfolding Y_def M_def D_def H_def I_def S_def X_def using y b(1) r by (auto intro!: pad_number_ok(2))
  have val: "int (nat_of_string Y) = y" "int (nat_of_string M) = m" "int (nat_of_string D) = d"
    "int (nat_of_string H) = h" "int (nat_of_string I) = mi" "int (nat_of_string S) = sec"
    "int (nat_of_string X) = ms"
    unfolding Y_def M_def D_def H_def I_def S_def X_def using y b(1) r by (auto intro!: pad_number_ok(3))
  have iso: "to_iso t = Y @ ''-'' @ M @ ''-'' @ D @ ''T'' @ H @ '':'' @ I @ '':'' @ S @ ''.'' @ X @ ''Z''"
    using y c by (simp add: to_iso_def iso_date_def iso_year_def get_utc_full_year_def get_utc_month_def
        get_utc_date_def Y_def M_def D_def H_def I_def S_def X_def h_def mi_def sec_def ms_def)
  have "read_date (to_iso t) = Some (t div ms_per_day)"
    unfolding iso by (simp add: read_date_def read_field_def len dig val valid_civil_def b)
  moreover have "read_time (to_iso t) = Some (t mod ms_per_day)"
    unfolding iso time_of_day h_def [symmetric] mi_def [symmetric] sec_def [symmetric] ms_def [symmetric]
    using r by (simp add: read_time_def read_field_def len dig val)
  moreover have "length (to_iso t) = 24" unfolding iso by (simp add: len)
  ultimately show ?thesis by (simp add: date_parse_def)
qed

end
