(* ===== verification/Pagination.thy ===== *)
theory Pagination
  imports Text_Codecs Iso_Dates
begin

text \<open>
  Pagination (backend/src/common/pagination): the opaque cursor tokens, whose decoding
  inverts their encoding for every payload, and the offset pages of \<open>paginate\<close>.
\<close>

record cursor_payload =
  cu_timestamp :: string
  cu_id :: string

definition to_url_char :: "char \<Rightarrow> char" where
  "to_url_char c = (if c = CHR ''+'' then CHR ''-'' else if c = CHR ''/'' then CHR ''_'' else c)"

definition from_url_char :: "char \<Rightarrow> char" where
  "from_url_char c = (if c = CHR ''-'' then CHR ''+'' else if c = CHR ''_'' then CHR ''/'' else c)"

definition encode_cursor :: "cursor_payload \<Rightarrow> string" where
  "encode_cursor p =
     (let json = stringify2 ''timestamp'' (cu_timestamp p) ''id'' (cu_id p);
          url = map to_url_char (b64_encode json)
      in rev (dropWhile (\<lambda>c. c = CHR ''='') (rev url)))"

definition restore_base64 :: "string \<Rightarrow> string" where
  "restore_base64 cursor =
     (let base64 = map from_url_char cursor
      in base64 @ replicate ((4 - length base64 mod 4) mod 4) (CHR ''=''))"

definition decode_cursor :: "string \<Rightarrow> string + cursor_payload" where
  "decode_cursor cursor =
     (case json_parse (b64_decode (restore_base64 cursor)) of
        None \<Rightarrow> Inl ''Invalid cursor token: cannot decode''
      | Some parsed \<Rightarrow>
        (case (json_string (json_field parsed ''timestamp''), json_string (json_field parsed ''id'')) of
           (Some ts, Some i) \<Rightarrow> Inr \<lparr>cu_timestamp = ts, cu_id = i\<rparr>
         | _ \<Rightarrow> Inl ''Invalid cursor token: missing required fields''))"

record cursor_query =
  cq_cursor :: "string option"
  cq_limit :: "nat option"

definition cursor_query_valid :: "cursor_query \<Rightarrow> bool" where
  "cursor_query_valid q \<longleftrightarrow> (case cq_limit q of None \<Rightarrow> True | Some n \<Rightarrow> 1 \<le> n \<and> n \<le> 100)"

text \<open>Offset pages.\<close>

record pagination_query =
  pq_page :: "nat option"
  pq_limit :: "nat option"

record 'a page_response =
  pg_data :: "'a list"
  pg_total :: nat
  pg_page :: nat
  pg_limit :: nat
  pg_totalPages :: nat

definition or_default :: "nat option \<Rightarrow> nat \<Rightarrow> nat" where \<comment> \<open>x || d: zero is falsy\<close>
  "or_default x d = (case x of Some (Suc n) \<Rightarrow> Suc n | _ \<Rightarrow> d)"

definition ceil_div :: "nat \<Rightarrow> nat \<Rightarrow> nat" where
  "ceil_div n k = (n + k - 1) div k"

definition paginate :: "pagination_query \<Rightarrow> 'a list \<Rightarrow> 'a page_response" where
  "paginate query rows =
     (let page = or_default (pq_page query) 1; limit = or_default (pq_limit query) 10;
          skip = (page - 1) * limit
      in \<lparr>pg_data = take limit (drop skip rows), pg_total = length rows, pg_page = page,
          pg_limit = limit, pg_totalPages = ceil_div (length rows) limit\<rparr>)"

subsection \<open>Round trip\<close>

lemma b64_char_plain: "n < 64 \<Longrightarrow> b64_char n \<notin> {CHR ''-'', CHR ''_'', CHR ''=''}"
proof -
  have "list_all (\<lambda>n. b64_char n \<notin> {CHR ''-'', CHR ''_'', CHR ''=''}) [0..<64]"
    by (simp add: b64_char_def b64_alphabet_def upt_rec)
  then show "n < 64 \<Longrightarrow> ?thesis" by (simp add: list_all_iff)
qed

lemma strip_pad:
  assumes "CHR ''='' \<notin> set x"
  shows "rev (dropWhile (\<lambda>c. c = CHR ''='') (rev (x @ replicate k (CHR ''='')))) = x"
proof -
  have "dropWhile (\<lambda>c. c = CHR ''='') (replicate k (CHR ''='') @ rev x) = rev x"
  proof (induction k)
    case 0
    show ?case using assms by (cases "rev x") (auto simp: dropWhile_eq_self_iff)
  qed simp
  then show ?thesis by simp
qed

lemma decode_encode_bytes:
  "b64_decode (restore_base64 (rev (dropWhile (\<lambda>c. c = CHR ''='')
     (rev (map to_url_char (b64_encode s)))))) = s"
proof -
  let ?ns = "b64_sextets (map byte s)"
  have "\<forall>x \<in> set (map byte s). x < 256" by auto
  then have lt: "\<forall>n \<in> set ?ns. n < 64" using b64_sextets_less by blast
  have "map to_url_char (b64_encode s) =
      map to_url_char (map b64_char ?ns) @ replicate ((3 - length s mod 3) mod 3) (CHR ''='')"
    by (simp add: b64_encode_def b64_pad_def to_url_char_def)
  moreover have "CHR ''='' \<notin> set (map to_url_char (map b64_char ?ns))"
    using lt b64_char_plain by (fastforce simp: to_url_char_def split: if_splits)
  ultimately have stripped: "rev (dropWhile (\<lambda>c. c = CHR ''='') (rev (map to_url_char (b64_encode s)))) =
      map to_url_char (map b64_char ?ns)"
    by (simp only: strip_pad not_False_eq_True)
  have "map from_url_char (map to_url_char (map b64_char ?ns)) = map b64_char ?ns"
    unfolding map_map
    by (rule map_cong [OF refl])
      (use lt b64_char_plain in \<open>fastforce simp: to_url_char_def from_url_char_def\<close>)
  then show ?thesis unfolding stripped restore_base64_def Let_def
    by (intro b64_decode_padded) (simp only: )
qed

text \<open>C30: Decoding a cursor token gives back the payload it was encoded from, whatever the two
  strings contain.\<close>

theorem cursor_roundtrip: "decode_cursor (encode_cursor p) = Inr p"
  unfolding decode_cursor_def encode_cursor_def Let_def decode_encode_bytes
  by (simp add: json_parse_stringify2 json_string_def)

text \<open>The pages of a query, one after the other, are the whole table.\<close>

lemma pages_cover:
  "0 < k \<Longrightarrow> concat (map (\<lambda>p. take k (drop (p * k) xs)) [0..<n]) = take (n * k) xs"
proof (induction n)
  case (Suc n)
  then show ?case by (simp add: take_add add.commute [of k])
qed simp

lemma ceil_div_covers: "0 < k \<Longrightarrow> n \<le> ceil_div n k * k"
proof -
  assume "0 < k"
  then have "n + k - 1 < ((n + k - 1) div k) * k + k"
    using div_mult_mod_eq [of "n + k - 1" k] mod_less_divisor [of k "n + k - 1"] by linarith
  then show ?thesis by (simp add: ceil_div_def)
qed

lemma paginate_covers:
  assumes "0 < limit"
  shows "concat (map (\<lambda>p. pg_data (paginate \<lparr>pq_page = Some (Suc p), pq_limit = Some limit\<rparr> rows))
    [0..<pg_totalPages (paginate \<lparr>pq_page = None, pq_limit = Some limit\<rparr> rows)]) = rows"
proof -
  obtain m where m: "limit = Suc m" using assms by (cases limit) auto
  show ?thesis
    using pages_cover [OF assms, of rows "ceil_div (length rows) limit"] ceil_div_covers [OF assms, of "length rows"]
    by (simp add: paginate_def or_default_def m)
qed

end
