(* ===== verification/Attendance.thy ===== *)
theory Attendance
  imports Entities Pagination "HOL-Library.List_Lexorder" "HOL-Library.Char_ord"
begin

text \<open>
  Attendance (backend/src/attendance): clock-in and clock-out with their session lookup, the
  hourly job that completes abandoned sessions, the cursor-paginated list of a user, the
  paginated lists for administrators and the summary. Timestamps of the table have the
  microseconds of the database; a value read into JavaScript has milliseconds. The time-zone
  library (luxon) is a parameter.
\<close>

type_synonym db_time = int \<comment> \<open>a timestamp column: microseconds since the epoch\<close>

definition js_date :: "db_time \<Rightarrow> instant" where "js_date t = t div 1000"
definition db_date :: "instant \<Rightarrow> db_time" where "db_date t = t * 1000"

datatype attendance_action = CLOCK_IN | CLOCK_OUT

record attendance =
  at_id :: uuid
  at_userId :: uuid
  at_action :: attendance_action
  at_timestamp :: db_time
  at_sessionId :: "uuid option"
  at_details :: "json option"
  at_hubId :: "uuid option"
  at_autoCompleted :: bool
  at_autoCompletedReason :: "string option"
  at_deletedAt :: "instant option"

subsection \<open>Clock-in and clock-out\<close>

definition live :: "attendance \<Rightarrow> bool" where "live r \<longleftrightarrow> at_deletedAt r = None"

text \<open>The clock-ins of a user, the latest first.\<close>

definition clock_ins :: "uuid \<Rightarrow> attendance list \<Rightarrow> attendance list" where
  "clock_ins userId tbl =
     filter (\<lambda>r. live r \<and> at_userId r = userId \<and> at_action r = CLOCK_IN) tbl"

definition latest_clock_in :: "uuid \<Rightarrow> attendance list \<Rightarrow> attendance option" where
  "latest_clock_in userId tbl =
     find_row (\<lambda>r. True) (sort_by (\<lambda>a b. at_timestamp b - at_timestamp a) (clock_ins userId tbl))"

definition find_clock_out :: "uuid \<Rightarrow> uuid option \<Rightarrow> attendance list \<Rightarrow> attendance option" where
  "find_clock_out userId sessionId tbl =
     find_row (\<lambda>r. live r \<and> at_userId r = userId \<and> at_sessionId r = sessionId
                 \<and> at_action r = CLOCK_OUT) tbl"

record clock_in_result =
  ci_sessionId :: uuid
  ci_message :: string
  ci_timestamp :: instant

record clock_out_result =
  co_sessionId :: "uuid option"
  co_message :: string
  co_timestamp :: instant
  co_sessionDuration :: int

definition new_attendance ::
  "uuid \<Rightarrow> uuid \<Rightarrow> attendance_action \<Rightarrow> db_time \<Rightarrow> uuid option \<Rightarrow> json option \<Rightarrow> attendance" where
  "new_attendance newId userId action now sessionId details =
     \<lparr>at_id = newId, at_userId = userId, at_action = action, at_timestamp = now,
      at_sessionId = sessionId, at_details = details, at_hubId = None,
      at_autoCompleted = False, at_autoCompletedReason = None, at_deletedAt = None\<rparr>"

definition clock_in ::
  "uuid \<Rightarrow> uuid \<Rightarrow> db_time \<Rightarrow> uuid \<Rightarrow> json option \<Rightarrow> attendance list
   \<Rightarrow> (attendance list, clock_in_result) outcome" where
  "clock_in newId sessionId now userId details tbl =
     (if (case latest_clock_in userId tbl of
            None \<Rightarrow> False
          | Some openSession \<Rightarrow> find_clock_out userId (at_sessionId openSession) tbl = None)
      then (Inl (BadRequest ''User already clocked in. Please clock out first.''), tbl)
      else (Inr \<lparr>ci_sessionId = sessionId, ci_message = ''Clocked in successfully'',
                 ci_timestamp = js_date now\<rparr>,
            save_row at_id (new_attendance newId userId CLOCK_IN now (Some sessionId) details) tbl))"

definition clock_out ::
  "uuid \<Rightarrow> db_time \<Rightarrow> uuid \<Rightarrow> json option \<Rightarrow> attendance list
   \<Rightarrow> (attendance list, clock_out_result) outcome" where
  "clock_out newId now userId details tbl =
     (case latest_clock_in userId tbl of
        None \<Rightarrow> (Inl (BadRequest ''No active session. Please clock in first.''), tbl)
      | Some openSession \<Rightarrow>
        if find_clock_out userId (at_sessionId openSession) tbl \<noteq> None
        then (Inl (BadRequest ''Already clocked out for this session.''), tbl)
        else (Inr \<lparr>co_sessionId = at_sessionId openSession,
                   co_message = ''Clocked out successfully'', co_timestamp = js_date now,
                   co_sessionDuration = (js_date now - js_date (at_timestamp openSession)) div 1000\<rparr>,
              save_row at_id
                (new_attendance newId userId CLOCK_OUT now (at_sessionId openSession) details) tbl))"

subsection \<open>Abandoned sessions\<close>

definition abandoned :: "int \<Rightarrow> instant \<Rightarrow> attendance list \<Rightarrow> attendance list" where
  "abandoned maxSessionHours now tbl =
     filter (\<lambda>r. live r \<and> at_action r = CLOCK_IN
               \<and> at_timestamp r < db_date (now - maxSessionHours * 60 * 60 * 1000)
               \<and> \<not> at_autoCompleted r) tbl"

definition auto_reason :: "int \<Rightarrow> string" where
  "auto_reason maxSessionHours =
     ''Auto-completed after '' @ int_string maxSessionHours @ '' hours of inactivity''"

definition auto_clock_out :: "uuid \<Rightarrow> int \<Rightarrow> instant \<Rightarrow> attendance \<Rightarrow> attendance" where
  "auto_clock_out newId maxSessionHours now session =
     (new_attendance newId (at_userId session) CLOCK_OUT
        (db_date (js_date (at_timestamp session) + maxSessionHours * 60 * 60 * 1000))
        (at_sessionId session)
        (Some (JObj [(''originalClockInTime'', json_date (js_date (at_timestamp session))),
                     (''autoCompletedAt'', json_date now)])))
     \<lparr>at_hubId := at_hubId session, at_autoCompleted := True,
      at_autoCompletedReason := Some (auto_reason maxSessionHours)\<rparr>"

record attendance_mail =
  am_to :: string
  am_clockInTime :: instant
  am_clockOutTime :: instant

definition completion_mail :: "user list \<Rightarrow> int \<Rightarrow> attendance \<Rightarrow> attendance_mail list" where
  "completion_mail users maxSessionHours session =
     (case find_row (\<lambda>u. u_id u = at_userId session \<and> u_deletedAt u = None) users of
        None \<Rightarrow> []
      | Some u \<Rightarrow>
        if u_email u = [] then []
        else [\<lparr>am_to = u_email u, am_clockInTime = js_date (at_timestamp session),
               am_clockOutTime = js_date (at_timestamp session) + maxSessionHours * 60 * 60 * 1000\<rparr>])"

definition complete_session ::
  "user list \<Rightarrow> int \<Rightarrow> instant \<Rightarrow> uuid \<times> attendance \<Rightarrow> attendance list \<times> attendance_mail list
   \<Rightarrow> attendance list \<times> attendance_mail list" where
  "complete_session users maxSessionHours now ns st =
     (case (ns, st) of ((newId, session), (tbl, mails)) \<Rightarrow>
        (update_rows (\<lambda>r. at_id r = at_id session)
           (\<lambda>r. r\<lparr>at_autoCompleted := True,
                  at_autoCompletedReason := Some (auto_reason maxSessionHours)\<rparr>)
           (save_row at_id (auto_clock_out newId maxSessionHours now session) tbl),
         mails @ completion_mail users maxSessionHours session))"

definition auto_complete_abandoned_sessions ::
  "(nat \<Rightarrow> uuid) \<Rightarrow> user list \<Rightarrow> int \<Rightarrow> instant \<Rightarrow> attendance list
   \<Rightarrow> attendance list \<times> attendance_mail list" where
  "auto_complete_abandoned_sessions newIds users maxSessionHours now tbl =
     (let openSessions = abandoned maxSessionHours now tbl
      in fold (complete_session users maxSessionHours now)
           (zip (map newIds [0..<length openSessions]) openSessions) (tbl, []))"

subsection \<open>Lists\<close>

text \<open>The order of the cursor pages: timestamp, then id, both descending.\<close>

definition newer :: "attendance \<Rightarrow> attendance \<Rightarrow> int" where
  "newer a b =
     (if at_timestamp a \<noteq> at_timestamp b then (if at_timestamp a > at_timestamp b then -1 else 1)
      else if at_id a = at_id b then 0 else if at_id a > at_id b then -1 else 1)"

definition after_cursor :: "instant \<Rightarrow> uuid \<Rightarrow> attendance \<Rightarrow> bool" where
  "after_cursor ts i r \<longleftrightarrow>
     at_timestamp r < db_date ts \<or> (at_timestamp r = db_date ts \<and> at_id r < i)"

record attendance_page =
  ap_data :: "attendance list"
  ap_nextCursor :: "string option"
  ap_hasMore :: bool

definition cursor_of :: "attendance \<Rightarrow> string" where
  "cursor_of r = encode_cursor \<lparr>cu_timestamp = to_iso (js_date (at_timestamp r)), cu_id = at_id r\<rparr>"

definition cursor_page :: "nat \<Rightarrow> attendance list \<Rightarrow> attendance_page" where
  "cursor_page limit rows =
     (let records = take (limit + 1) (sort_by newer rows);
          hasMore = length records > limit;
          data = (if hasMore then take limit records else records)
      in \<lparr>ap_data = data,
          ap_nextCursor = (if hasMore \<and> data \<noteq> [] then Some (cursor_of (last data)) else None),
          ap_hasMore = hasMore\<rparr>)"

text \<open>A cursor whose timestamp is no date makes the query fail in the database driver.\<close>

definition get_my_attendance ::
  "uuid \<Rightarrow> cursor_query \<Rightarrow> attendance list \<Rightarrow> attendance_page result" where
  "get_my_attendance userId query tbl =
     (let limit = (case cq_limit query of Some n \<Rightarrow> n | None \<Rightarrow> 20);
          mine = filter (\<lambda>r. live r \<and> at_userId r = userId) tbl
      in if truthy (cq_cursor query)
         then (case decode_cursor (the (cq_cursor query)) of
                 Inl _ \<Rightarrow> Inl (BadRequest ''Invalid cursor token'')
               | Inr payload \<Rightarrow>
                 (case date_parse (cu_timestamp payload) of
                    None \<Rightarrow> Inl (ServerError ''invalid input syntax for type timestamp'')
                  | Some ts \<Rightarrow>
                    Inr (cursor_page limit (filter (after_cursor ts (cu_id payload)) mine))))
         else Inr (cursor_page limit mine))"

definition get_user_attendance ::
  "uuid \<Rightarrow> nat \<Rightarrow> nat \<Rightarrow> attendance list \<Rightarrow> attendance page_response" where
  "get_user_attendance userId page limit tbl =
     (let rows = filter (\<lambda>r. live r \<and> at_userId r = userId) tbl;
          skip = (page - 1) * limit
      in \<lparr>pg_data = take limit (drop skip (sort_by (\<lambda>a b. at_timestamp b - at_timestamp a) rows)),
          pg_total = length rows, pg_page = page, pg_limit = limit,
          pg_totalPages = ceil_div (length rows) limit\<rparr>)"

record attendance_filters =
  af_userId :: "uuid option"
  af_action :: "attendance_action option"
  af_startDate :: "instant option"
  af_endDate :: "instant option"

definition matches_filters :: "attendance_filters \<Rightarrow> attendance \<Rightarrow> bool" where
  "matches_filters f r \<longleftrightarrow>
     (truthy (af_userId f) \<longrightarrow> Some (at_userId r) = af_userId f) \<and>
     (case af_action f of None \<Rightarrow> True | Some a \<Rightarrow> at_action r = a) \<and>
     (case af_startDate f of None \<Rightarrow> True | Some t \<Rightarrow> at_timestamp r \<ge> db_date t) \<and>
     (case af_endDate f of None \<Rightarrow> True | Some t \<Rightarrow> at_timestamp r \<le> db_date t)"

definition get_all_attendance ::
  "nat \<Rightarrow> nat \<Rightarrow> attendance_filters \<Rightarrow> attendance list \<Rightarrow> attendance page_response" where
  "get_all_attendance page limit filters tbl =
     (let rows = filter (\<lambda>r. live r \<and> matches_filters filters r) tbl;
          skip = (page - 1) * limit
      in \<lparr>pg_data = take limit (drop skip (sort_by (\<lambda>a b. at_timestamp b - at_timestamp a) rows)),
          pg_total = length rows, pg_page = page, pg_limit = limit,
          pg_totalPages = ceil_div (length rows) limit\<rparr>)"

end
