(* ===== verification/Cache_Store.thy ===== *)
theory Cache_Store
  imports Json
begin

text \<open>
  The key-value cache the backend shares (cache-manager over Redis or memory): entries with
  an expiry instant. A read after the expiry finds nothing. The locale \<open>ttl_cache\<close> states
  what its clients rely on; the laws of the clients (a flag that stays raised for its
  lifetime, a token that is found until it is replaced) are proved from them once.
\<close>

datatype cache_value =
    CText string
  | CTimes "instant list" \<comment> \<open>the JSON array text of \<open>OtpRateLimitService\<close>\<close>
  | CResponse int json \<comment> \<open>status and body of a \<open>CachedResponse\<close>\<close>

record cache_entry =
  ce_key :: string
  ce_value :: cache_value
  ce_expires :: instant

type_synonym cache = "cache_entry list"

definition cache_get :: "instant \<Rightarrow> string \<Rightarrow> cache \<Rightarrow> cache_value option" where
  "cache_get now k c =
     (case find_row (\<lambda>e. ce_key e = k) c of
        Some e \<Rightarrow> if now < ce_expires e then Some (ce_value e) else None
      | None \<Rightarrow> None)"

definition cache_set :: "instant \<Rightarrow> string \<Rightarrow> cache_value \<Rightarrow> int \<Rightarrow> cache \<Rightarrow> cache" where
  "cache_set now k v ttlMs c =
     save_row ce_key \<lparr>ce_key = k, ce_value = v, ce_expires = now + ttlMs\<rparr> c"

definition cache_del :: "string \<Rightarrow> cache \<Rightarrow> cache" where
  "cache_del k c = delete_rows (\<lambda>e. ce_key e = k) c"

locale ttl_cache =
  fixes get :: "instant \<Rightarrow> string \<Rightarrow> 'c \<Rightarrow> 'v option"
    and put :: "instant \<Rightarrow> string \<Rightarrow> 'v \<Rightarrow> int \<Rightarrow> 'c \<Rightarrow> 'c"
    and del :: "string \<Rightarrow> 'c \<Rightarrow> 'c"
  assumes get_put_live: "t < now + ttl \<Longrightarrow> get t k (put now k v ttl c) = Some v"
    and get_put_dead: "now + ttl \<le> t \<Longrightarrow> get t k (put now k v ttl c) = None"
    and get_put_other: "k' \<noteq> k \<Longrightarrow> get t k' (put now k v ttl c) = get t k' c"
    and get_del: "get t k (del k c) = None"
    and get_del_other: "k' \<noteq> k \<Longrightarrow> get t k' (del k c) = get t k' c"
begin

lemma get_put:
  "get t k' (put now k v ttl c) =
     (if k' = k then if t < now + ttl then Some v else None else get t k' c)"
  using get_put_live get_put_dead get_put_other by (metis not_le)

lemma get_del_if: "get t k' (del k c) = (if k' = k then None else get t k' c)"
  using get_del get_del_other by metis

text \<open>A key is held until \<open>u\<close> when every read before \<open>u\<close> finds it.\<close>

definition held :: "string \<Rightarrow> instant \<Rightarrow> 'c \<Rightarrow> bool" where
  "held k u c \<longleftrightarrow> (\<forall>t < u. get t k c \<noteq> None)"

lemma held_put: "held k (now + ttl) (put now k v ttl c)"
  by (simp add: held_def get_put_live)

lemma held_put_other: "k' \<noteq> k \<Longrightarrow> held k u (put now k' v ttl c) = held k u c"
  by (simp add: held_def get_put_other [of k k'])

lemma held_put_later: "held k u c \<Longrightarrow> u \<le> now + ttl \<Longrightarrow> held k u (put now k' v ttl c)"
  by (auto simp: held_def get_put)

lemma held_del_other: "k' \<noteq> k \<Longrightarrow> held k u (del k' c) = held k u c"
  by (simp add: held_def get_del_other [of k k'])

lemma held_get: "held k u c \<Longrightarrow> t < u \<Longrightarrow> \<exists>v. get t k c = Some v"
  by (auto simp: held_def)

end

lemma cache_get_set:
  "cache_get t k' (cache_set now k v ttl c) =
     (if k' = k then if t < now + ttl then Some v else None else cache_get t k' c)"
proof (cases "k' = k")
  case True
  have "find_row (\<lambda>e. ce_key e = k) (cache_set now k v ttl c) =
      Some \<lparr>ce_key = k, ce_value = v, ce_expires = now + ttl\<rparr>"
    using find_row_save_row_same [of ce_key "\<lparr>ce_key = k, ce_value = v, ce_expires = now + ttl\<rparr>" c]
    by (simp add: cache_set_def)
  with True show ?thesis by (simp add: cache_get_def)
next
  case False
  have "find_row (\<lambda>e. ce_key e = k') (cache_set now k v ttl c) = find_row (\<lambda>e. ce_key e = k') c"
    unfolding cache_set_def
    using False by (intro find_row_save_row_other) auto
  with False show ?thesis by (simp add: cache_get_def)
qed

lemma cache_get_del:
  "cache_get t k' (cache_del k c) = (if k' = k then None else cache_get t k' c)"
  by (induction c) (auto simp: cache_get_def cache_del_def delete_rows_def)

interpretation kv: ttl_cache cache_get cache_set cache_del
  by unfold_locales (simp_all add: cache_get_set cache_get_del)

end
