(* ===== verification/Users.thy ===== *)
theory Users
  imports Entities Attendance Cache_Store Password_Policy
begin

text \<open>
  The users module (backend/src/users): the providers behind \<open>UsersService\<close>, the deletion
  subscriber and the handlers of the controller, over one account state that holds the
  database, the refresh tokens, the attendance table and the shared cache. bcrypt and
  Cloudinary are parameters.

  A \<open>Partial<User>\<close> is a patch: a property that is absent or undefined is \<open>None\<close>, and
  \<open>save\<close> does not write it (TypeORM skips undefined properties); a null of a nullable
  column is \<open>Some None\<close>.
\<close>

record refresh_token =
  rt_id :: uuid
  rt_token :: string
  rt_userId :: uuid
  rt_familyId :: "uuid option"
  rt_expiresAt :: instant
  rt_createdAt :: instant
  rt_isRevoked :: bool
  rt_deletedAt :: "instant option"

record oauth_client =
  oc_id :: uuid
  oc_clientId :: uuid
  oc_clientSecretHash :: string
  oc_allowedScopes :: "string list"
  oc_name :: string
  oc_isActive :: bool

record mail =
  ml_kind :: string
  ml_to :: string
  ml_code :: string

record account =
  ac_db :: db
  ac_tokens :: "refresh_token list"
  ac_attendance :: "attendance list"
  ac_clients :: "oauth_client list"
  ac_cache :: cache
  ac_mail :: "mail list" \<comment> \<open>the mails handed to the mail service\<close>

text \<open>bcrypt: the hash of a text under a salt, and the comparison.\<close>

record bcrypt_lib =
  bc_hash :: "nat \<Rightarrow> string \<Rightarrow> string"
  bc_compare :: "string \<Rightarrow> string \<Rightarrow> bool"

subsection \<open>Patches\<close>

record user_patch =
  up_firstName :: "string option"
  up_lastName :: "string option"
  up_email :: "string option"
  up_role :: "user_role option"
  up_passwordHash :: "string option"
  up_otp :: "string option"
  up_otpExpiry :: "instant option"
  up_otpAttempts :: "int option"
  up_otpInvalidatedAt :: "instant option"
  up_otpResendCount :: "int option"
  up_isVerified :: "bool option"
  up_isActive :: "bool option"
  up_totpEnabled :: "bool option"
  up_totpSecret :: "string option option"
  up_backupCodes :: "string list option option"

definition no_patch :: user_patch where
  "no_patch = \<lparr>up_firstName = None, up_lastName = None, up_email = None, up_role = None,
     up_passwordHash = None, up_otp = None, up_otpExpiry = None, up_otpAttempts = None,
     up_otpInvalidatedAt = None, up_otpResendCount = None, up_isVerified = None,
     up_isActive = None, up_totpEnabled = None, up_totpSecret = None, up_backupCodes = None\<rparr>"

definition given :: "'a option \<Rightarrow> 'a \<Rightarrow> 'a" where
  "given new old = (case new of None \<Rightarrow> old | Some x \<Rightarrow> x)"

definition given_opt :: "'a option \<Rightarrow> 'a option \<Rightarrow> 'a option" where
  "given_opt new old = (case new of None \<Rightarrow> old | Some x \<Rightarrow> Some x)"

lemma given_simps [simp]:
  "given None x = x" "given (Some y) x = y" "given_opt None z = z" "given_opt (Some y) z = Some y"
  by (simp_all add: given_def given_opt_def)

definition apply_patch :: "user_patch \<Rightarrow> user \<Rightarrow> user" where
  "apply_patch p u = u\<lparr>
     u_firstName := given_opt (up_firstName p) (u_firstName u),
     u_lastName := given_opt (up_lastName p) (u_lastName u),
     u_email := given (up_email p) (u_email u),
     u_role := given (up_role p) (u_role u),
     u_passwordHash := given (up_passwordHash p) (u_passwordHash u),
     u_otp := given_opt (up_otp p) (u_otp u),
     u_otpExpiry := given_opt (up_otpExpiry p) (u_otpExpiry u),
     u_otpAttempts := given (up_otpAttempts p) (u_otpAttempts u),
     u_otpInvalidatedAt := given_opt (up_otpInvalidatedAt p) (u_otpInvalidatedAt u),
     u_otpResendCount := given (up_otpResendCount p) (u_otpResendCount u),
     u_isVerified := given (up_isVerified p) (u_isVerified u),
     u_isActive := given (up_isActive p) (u_isActive u),
     u_totpEnabled := given (up_totpEnabled p) (u_totpEnabled u),
     u_totpSecret := given (up_totpSecret p) (u_totpSecret u),
     u_backupCodes := given (up_backupCodes p) (u_backupCodes u)\<rparr>"

subsection \<open>Providers\<close>

definition live_user :: "user \<Rightarrow> bool" where "live_user u \<longleftrightarrow> u_deletedAt u = None"

definition find_user_by_email :: "db \<Rightarrow> string \<Rightarrow> user option" where
  "find_user_by_email d email = find_row (\<lambda>u. u_email u = email \<and> live_user u) (db_users d)"

definition find_admin_by_id :: "db \<Rightarrow> uuid \<Rightarrow> user result" where
  "find_admin_by_id d i =
     (case find_row (\<lambda>u. u_id u = i \<and> u_role u = ADMIN \<and> live_user u) (db_users d) of
        None \<Rightarrow> Inl (NotFound ''Admin not found'')
      | Some u \<Rightarrow> Inr u)"

record user_summary =
  us_id :: uuid
  us_email :: string
  us_role :: user_role
  us_createdAt :: instant

definition user_summary_of :: "user \<Rightarrow> user_summary" where
  "user_summary_of u = \<lparr>us_id = u_id u, us_email = u_email u, us_role = u_role u,
     us_createdAt = u_createdAt u\<rparr>"

definition find_all_users :: "nat \<Rightarrow> nat \<Rightarrow> db \<Rightarrow> user_summary list \<times> nat" where
  "find_all_users skip limit d =
     (let rows = filter live_user (db_users d)
      in (map user_summary_of (take limit (drop skip rows)), length rows))"

definition find_all_admins :: "nat \<Rightarrow> nat \<Rightarrow> db \<Rightarrow> user_summary list \<times> nat" where
  "find_all_admins skip limit d =
     (let rows = filter (\<lambda>u. u_role u = ADMIN \<and> live_user u) (db_users d)
      in (map user_summary_of (take limit (drop skip rows)), length rows))"

text \<open>The unique constraint on the e-mail column also covers soft-deleted rows.\<close>

definition email_taken :: "uuid \<Rightarrow> string \<Rightarrow> db \<Rightarrow> bool" where
  "email_taken i email d \<longleftrightarrow> list_ex (\<lambda>u. u_email u = email \<and> u_id u \<noteq> i) (db_users d)"

definition save_user :: "user \<Rightarrow> db \<Rightarrow> (db, user) outcome" where
  "save_user u d =
     (if email_taken (u_id u) (u_email u) d
      then (Inl (ServerError ''duplicate key value violates unique constraint''), d)
      else (Inr u, d\<lparr>db_users := save_row u_id u (db_users d)\<rparr>))"

record new_user =
  nu_email :: string
  nu_passwordHash :: string
  nu_otp :: "string option"
  nu_otpExpiry :: "instant option"
  nu_firstName :: "string option"
  nu_lastName :: "string option"

definition user_of :: "uuid \<Rightarrow> instant \<Rightarrow> new_user \<Rightarrow> user" where
  "user_of newId now n =
     \<lparr>u_id = newId, u_firstName = nu_firstName n, u_lastName = nu_lastName n,
      u_email = nu_email n, u_passwordHash = nu_passwordHash n, u_role = MEMBER,
      u_stellarPublicKey = None, u_otp = nu_otp n, u_otpExpiry = nu_otpExpiry n,
      u_otpAttempts = 0, u_otpInvalidatedAt = None, u_otpResendCount = 0,
      u_isVerified = False, u_isActive = True, u_profilePicture = None,
      u_profilePictureUrls = JNull, u_profilePicturePublicId = None, u_totpEnabled = False,
      u_totpSecret = None, u_backupCodes = None, u_createdAt = now, u_deletedAt = None\<rparr>"

text \<open>
  The entity right after the insert, as JSON: columns that were never set are undefined and
  left out, the deletion date comes back from the insert as null.
\<close>

definition inserted_user_json :: "user \<Rightarrow> json" where
  "inserted_user_json u =
     (case user_json u of
        JObj ps \<Rightarrow> JObj (filter (\<lambda>(k, v). v \<noteq> JNull \<or> k = ''deletedAt'') ps)
      | j \<Rightarrow> j)"

definition create_user ::
  "uuid \<Rightarrow> (nat \<Rightarrow> uuid) \<Rightarrow> instant \<Rightarrow> new_user \<Rightarrow> db \<Rightarrow> (db, user) outcome" where
  "create_user newId deliveryIds now n d =
     (case save_user (user_of newId now n) d of
        (Inl e, d') \<Rightarrow> (Inl e, d')
      | (Inr u, d') \<Rightarrow>
          (Inr u, d'\<lparr>db_webhooks := enqueue deliveryIds now ''member.joined''
                                    (inserted_user_json u) (db_webhooks d')\<rparr>))"

definition update_user :: "uuid \<Rightarrow> user_patch \<Rightarrow> db \<Rightarrow> (db, user) outcome" where
  "update_user i p d =
     (case find_user d i of
        None \<Rightarrow> (Inl (NotFound ''User not found''), d)
      | Some u \<Rightarrow> save_user (apply_patch p u) d)"

definition validate_user :: "bcrypt_lib \<Rightarrow> string \<Rightarrow> string \<Rightarrow> db \<Rightarrow> user result" where
  "validate_user bc email password d =
     (case find_user_by_email d email of
        None \<Rightarrow> Inl (BadRequest ''Invalid credentials'')
      | Some u \<Rightarrow> if bc_compare bc password (u_passwordHash u) then Inr u
                  else Inl (BadRequest ''Invalid credentials''))"

definition forgot_password_user :: "string \<Rightarrow> db \<Rightarrow> user result" where
  "forgot_password_user email d =
     (case find_user_by_email d email of
        None \<Rightarrow> Inl (NotFound ''User not found'')
      | Some u \<Rightarrow> Inr u)"

definition reset_user_password ::
  "bcrypt_lib \<Rightarrow> nat \<Rightarrow> uuid \<Rightarrow> string \<Rightarrow> db \<Rightarrow> (db, user) outcome" where
  "reset_user_password bc salt i newPassword d =
     (case find_user d i of
        None \<Rightarrow> (Inl (NotFound ''User not found''), d)
      | Some u \<Rightarrow> save_user (u\<lparr>u_passwordHash := bc_hash bc salt newPassword\<rparr>) d)"

definition change_password ::
  "bcrypt_lib \<Rightarrow> policy_env \<Rightarrow> nat \<Rightarrow> uuid \<Rightarrow> string \<Rightarrow> string \<Rightarrow> db \<Rightarrow> (db, string) outcome" where
  "change_password bc env salt i currentPassword newPassword d =
     (case find_user d i of
        None \<Rightarrow> (Inl (NotFound ''User not found''), d)
      | Some u \<Rightarrow>
          if \<not> bc_compare bc currentPassword (u_passwordHash u)
          then (Inl (BadRequest ''Current password is incorrect''), d)
          else if \<not> po_valid (validate_password env newPassword)
          then (Inl (BadRequest ''Password does not meet security requirements''), d)
          else (case save_user (u\<lparr>u_passwordHash := bc_hash bc salt newPassword\<rparr>) d of
                  (Inl e, d') \<Rightarrow> (Inl e, d')
                | (Inr _, d') \<Rightarrow> (Inr ''Password changed successfully'', d')))"

text \<open>The subscriber of a soft removal: bookings, refresh tokens and attendance of the user.\<close>

definition after_soft_remove :: "instant \<Rightarrow> uuid \<Rightarrow> account \<Rightarrow> account" where
  "after_soft_remove now userId s =
     s\<lparr>ac_db := (ac_db s)\<lparr>db_bookings := update_rows (\<lambda>b. bk_userId b = userId)
                 (\<lambda>b. b\<lparr>bk_deletedAt := Some now\<rparr>) (db_bookings (ac_db s))\<rparr>,
       ac_tokens := update_rows (\<lambda>t. rt_userId t = userId)
                 (\<lambda>t. t\<lparr>rt_deletedAt := Some now\<rparr>) (ac_tokens s),
       ac_attendance := update_rows (\<lambda>a. at_userId a = userId)
                 (\<lambda>a. a\<lparr>at_deletedAt := Some now\<rparr>) (ac_attendance s)\<rparr>"

definition delete_user :: "instant \<Rightarrow> uuid \<Rightarrow> account \<Rightarrow> (account, unit) outcome" where
  "delete_user now i s =
     (case find_user (ac_db s) i of
        None \<Rightarrow> (Inl (NotFound ''User not found''), s)
      | Some u \<Rightarrow>
          (Inr (), after_soft_remove now (u_id u)
             (s\<lparr>ac_db := (ac_db s)\<lparr>db_users := save_row u_id (u\<lparr>u_deletedAt := Some now\<rparr>)
                                               (db_users (ac_db s))\<rparr>\<rparr>)))"

record upload_result =
  ur_publicId :: string
  ur_thumbnail :: string
  ur_avatar :: string
  ur_full :: string

text \<open>\<open>deleteAsset publicId\<close> is the error Cloudinary rejects with, if any.\<close>

definition update_profile_picture ::
  "(string \<Rightarrow> string option) \<Rightarrow> uuid \<Rightarrow> upload_result \<Rightarrow> db \<Rightarrow> (db, user) outcome" where
  "update_profile_picture deleteAsset i r d =
     (case find_user d i of
        None \<Rightarrow> (Inl (NotFound ''User not found''), d)
      | Some u \<Rightarrow>
          (let failure = (if truthy (u_profilePicturePublicId u)
                          then deleteAsset (the (u_profilePicturePublicId u)) else None)
           in case failure of
                Some e \<Rightarrow> (Inl (ServerError e), d)
              | None \<Rightarrow>
                  save_user (u\<lparr>u_profilePictureUrls := JObj [(''publicId'', JStr (ur_publicId r)),
                                 (''thumbnail'', JStr (ur_thumbnail r)), (''avatar'', JStr (ur_avatar r)),
                                 (''full'', JStr (ur_full r))],
                               u_profilePicturePublicId := Some (ur_publicId r),
                               u_profilePicture := Some (ur_avatar r)\<rparr>) d))"

subsection \<open>Handlers of the controller\<close>

definition user_cache_key :: "uuid \<Rightarrow> string" where "user_cache_key i = ''user:'' @ i"

definition lift_db :: "(db \<Rightarrow> (db, 'a) outcome) \<Rightarrow> account \<Rightarrow> (account, 'a) outcome" where
  "lift_db f s = (case f (ac_db s) of (r, d) \<Rightarrow> (r, s\<lparr>ac_db := d\<rparr>))"

definition then_uncache :: "uuid \<Rightarrow> (account, 'a) outcome \<Rightarrow> (account, 'a) outcome" where
  "then_uncache i o1 =
     (case o1 of (Inl e, s) \<Rightarrow> (Inl e, s)
      | (Inr x, s) \<Rightarrow> (Inr x, s\<lparr>ac_cache := cache_del (user_cache_key i) (ac_cache s)\<rparr>))"

record update_user_dto =
  ud_firstName :: "string option"
  ud_lastName :: "string option"
  ud_email :: "string option"
  ud_role :: "user_role option"
  ud_isActive :: "bool option"
  ud_isVerified :: "bool option"

definition dto_patch :: "update_user_dto \<Rightarrow> user_patch" where
  "dto_patch dto = no_patch\<lparr>up_firstName := ud_firstName dto, up_lastName := ud_lastName dto,
     up_email := ud_email dto, up_role := ud_role dto, up_isActive := ud_isActive dto,
     up_isVerified := ud_isVerified dto\<rparr>"

definition patch_user_handler ::
  "uuid \<Rightarrow> update_user_dto \<Rightarrow> account \<Rightarrow> (account, user) outcome" where
  "patch_user_handler i dto s = then_uncache i (lift_db (update_user i (dto_patch dto)) s)"

text \<open>
  The role handler reads a variable \<open>dto\<close> it never binds: evaluating the argument throws
  before anything is written.
\<close>

definition update_role_handler :: "uuid \<Rightarrow> user_role \<Rightarrow> account \<Rightarrow> (account, user) outcome" where
  "update_role_handler i role s = (Inl (ServerError ''dto is not defined''), s)"

definition delete_user_handler :: "instant \<Rightarrow> uuid \<Rightarrow> account \<Rightarrow> (account, unit) outcome" where
  "delete_user_handler now i s = then_uncache i (delete_user now i s)"

definition activate_handler :: "uuid \<Rightarrow> account \<Rightarrow> (account, user) outcome" where
  "activate_handler i s = lift_db (update_user i (no_patch\<lparr>up_isActive := Some True\<rparr>)) s"

definition deactivate_handler :: "uuid \<Rightarrow> account \<Rightarrow> (account, user) outcome" where
  "deactivate_handler i s = lift_db (update_user i (no_patch\<lparr>up_isActive := Some False\<rparr>)) s"

definition profile_picture_handler ::
  "(string \<Rightarrow> string option) \<Rightarrow> uuid \<Rightarrow> upload_result \<Rightarrow> account \<Rightarrow> (account, user) outcome" where
  "profile_picture_handler deleteAsset i r s =
     then_uncache i (lift_db (update_profile_picture deleteAsset i r) s)"

end
