(* ===== verification/Auth.thy ===== *)
theory Auth
  imports Users
begin

text \<open>
  Authentication (backend/src/auth): registration, one-time codes with their resend window,
  log-in, refresh tokens, log-out with the access-token blacklist, password reset and the
  OAuth client-credentials flow. The signer of tokens, bcrypt, the random generators and
  the state of the cache connection are parameters; one call reads the clock once.
\<close>

subsection \<open>Environment\<close>

text \<open>
  The cache as \<open>OtpRateLimitService\<close> sees it: not injected, injected but every call rejects,
  or working.
\<close>

datatype cache_mode = NoCache | FailingCache | WorkingCache

record claims =
  cl_sub :: "uuid option"
  cl_email :: "string option"
  cl_role :: "string option"
  cl_jti :: "string option"
  cl_exp :: "int option" \<comment> \<open>seconds\<close>
  cl_scope :: "string option"
  cl_clientId :: "uuid option" \<comment> \<open>of a client token\<close>

record auth_lib =
  al_bcrypt :: bcrypt_lib
  al_policy :: policy_env
  al_sign :: "claims \<Rightarrow> string"
  al_cacheMode :: cache_mode

text \<open>The random choices of one call.\<close>

record auth_random =
  ar_otpNumber :: nat \<comment> \<open>24 random bits\<close>
  ar_salt :: nat
  ar_otpSalt :: nat
  ar_refreshToken :: uuid
  ar_jti :: uuid
  ar_familyId :: uuid
  ar_rowId :: uuid
  ar_deliveryIds :: "nat \<Rightarrow> uuid"

text \<open>
  Rejections: an exception without a body of its own, or one whose body carries more than
  the message (attempts left, seconds to wait, violations).
\<close>

datatype auth_error =
    Http http_error
  | OtpInvalidated \<comment> \<open>400, attemptsRemaining 0\<close>
  | OtpWrong int \<comment> \<open>400, attemptsRemaining\<close>
  | ResendLimited int \<comment> \<open>429, retryAfterSeconds\<close>
  | WeakPassword "violation list" \<comment> \<open>400\<close>

type_synonym 'a auth_outcome = "(auth_error + 'a) \<times> account"

subsection \<open>Resend window\<close>

definition OTP_RESEND_LIMIT :: nat where "OTP_RESEND_LIMIT = 3"
definition OTP_RESEND_WINDOW_MS :: int where "OTP_RESEND_WINDOW_MS = 5 * 60 * 1000"
definition OTP_MAX_ATTEMPTS :: int where "OTP_MAX_ATTEMPTS = 3"

record resend_check =
  rc_allowed :: bool
  rc_remaining :: int
  rc_retryAfterSeconds :: int
  rc_redisUnavailable :: bool

definition resend_key :: "string \<Rightarrow> string" where "resend_key email = ''otp:resend:'' @ email"

definition load_timestamps :: "cache_mode \<Rightarrow> instant \<Rightarrow> string \<Rightarrow> cache \<Rightarrow> instant list" where
  "load_timestamps mode now key c =
     (if mode = WorkingCache
      then (case cache_get now key c of Some (CTimes ts) \<Rightarrow> ts | _ \<Rightarrow> [])
      else [])"

definition save_timestamps ::
  "cache_mode \<Rightarrow> instant \<Rightarrow> string \<Rightarrow> instant list \<Rightarrow> cache \<Rightarrow> cache" where
  "save_timestamps mode now key ts c =
     (if mode = WorkingCache then cache_set now key (CTimes ts) OTP_RESEND_WINDOW_MS c else c)"

definition check_and_record_resend ::
  "cache_mode \<Rightarrow> instant \<Rightarrow> string \<Rightarrow> cache \<Rightarrow> resend_check \<times> cache" where
  "check_and_record_resend mode now email c =
     (if mode = NoCache
      then (\<lparr>rc_allowed = True, rc_remaining = int OTP_RESEND_LIMIT - 1,
             rc_retryAfterSeconds = 0, rc_redisUnavailable = True\<rparr>, c)
      else
        (let key = resend_key email;
             windowStart = now - OTP_RESEND_WINDOW_MS;
             timestamps = filter (\<lambda>ts. windowStart < ts) (load_timestamps mode now key c)
         in if OTP_RESEND_LIMIT \<le> length timestamps
            then (let oldestTs = Min (set timestamps);
                      retryAfterMs = oldestTs + OTP_RESEND_WINDOW_MS - now
                  in (\<lparr>rc_allowed = False, rc_remaining = 0,
                       rc_retryAfterSeconds = - ((- retryAfterMs) div 1000),
                       rc_redisUnavailable = False\<rparr>, c))
            else (let timestamps' = timestamps @ [now]
                  in (\<lparr>rc_allowed = True,
                       rc_remaining = int OTP_RESEND_LIMIT - int (length timestamps'),
                       rc_retryAfterSeconds = 0, rc_redisUnavailable = False\<rparr>,
                      save_timestamps mode now key timestamps' c))))"

definition clear_resend_window :: "cache_mode \<Rightarrow> string \<Rightarrow> cache \<Rightarrow> cache" where
  "clear_resend_window mode email c =
     (if mode = WorkingCache then cache_del (resend_key email) c else c)"

subsection \<open>Access-token blacklist\<close>

definition blacklist_key :: "string \<Rightarrow> string" where "blacklist_key jti = ''blacklist:jti:'' @ jti"

definition blacklist_token :: "instant \<Rightarrow> string \<Rightarrow> int \<Rightarrow> cache \<Rightarrow> cache" where
  "blacklist_token now jti ttlMs c =
     (if ttlMs \<le> 0 then c else cache_set now (blacklist_key jti) (CText ''1'') ttlMs c)"

definition is_blacklisted :: "instant \<Rightarrow> string \<Rightarrow> cache \<Rightarrow> bool" where
  "is_blacklisted now jti c \<longleftrightarrow> cache_get now (blacklist_key jti) c \<noteq> None"

text \<open>The blacklist has no handler for a rejecting cache: its error ends the request.\<close>

definition blacklist_access_token ::
  "auth_lib \<Rightarrow> instant \<Rightarrow> string \<Rightarrow> int \<Rightarrow> account \<Rightarrow> unit auth_outcome" where
  "blacklist_access_token lib now jti expSec s =
     (let remainingMs = expSec * 1000 - now
      in if al_cacheMode lib = FailingCache \<and> 0 < remainingMs
         then (Inl (Http (ServerError ''cache'')), s)
         else (Inr (), s\<lparr>ac_cache := blacklist_token now jti remainingMs (ac_cache s)\<rparr>))"

subsection \<open>Refresh tokens\<close>

definition create_token ::
  "uuid \<Rightarrow> uuid \<Rightarrow> instant \<Rightarrow> uuid \<Rightarrow> string \<Rightarrow> instant \<Rightarrow> uuid option
   \<Rightarrow> refresh_token list \<Rightarrow> refresh_token list" where
  "create_token rowId freshFamily now userId token expiresAt familyId tbl =
     save_row rt_id \<lparr>rt_id = rowId, rt_token = token, rt_userId = userId,
       rt_familyId = Some (if truthy familyId then the familyId else freshFamily),
       rt_expiresAt = expiresAt, rt_createdAt = now, rt_isRevoked = False,
       rt_deletedAt = None\<rparr> tbl"

definition find_by_token :: "string \<Rightarrow> refresh_token list \<Rightarrow> refresh_token option" where
  "find_by_token token tbl = find_row (\<lambda>t. rt_token t = token \<and> rt_deletedAt t = None) tbl"

definition revoke_token :: "uuid \<Rightarrow> refresh_token list \<Rightarrow> refresh_token list" where
  "revoke_token i tbl = update_rows (\<lambda>t. rt_id t = i) (\<lambda>t. t\<lparr>rt_isRevoked := True\<rparr>) tbl"

definition revoke_all_user_tokens :: "uuid \<Rightarrow> refresh_token list \<Rightarrow> refresh_token list" where
  "revoke_all_user_tokens userId tbl =
     update_rows (\<lambda>t. rt_userId t = userId) (\<lambda>t. t\<lparr>rt_isRevoked := True\<rparr>) tbl"

definition revoke_token_family :: "uuid \<Rightarrow> refresh_token list \<Rightarrow> refresh_token list" where
  "revoke_token_family familyId tbl =
     update_rows (\<lambda>t. rt_familyId t = Some familyId) (\<lambda>t. t\<lparr>rt_isRevoked := True\<rparr>) tbl"

definition find_all_user_token_families :: "uuid \<Rightarrow> refresh_token list \<Rightarrow> refresh_token list" where
  "find_all_user_token_families userId tbl =
     filter (\<lambda>t. rt_userId t = userId \<and> rt_deletedAt t = None) tbl"

subsection \<open>AuthService\<close>

text \<open>\<open>n.toString().slice(-6).padStart(6, '0')\<close>\<close>

definition generate_otp :: "nat \<Rightarrow> string" where
  "generate_otp n =
     (let t = nat_string n; cut = drop (length t - 6) t
      in replicate (6 - length cut) (CHR ''0'') @ cut)"

definition otp_life_ms :: int where "otp_life_ms = 10 * 60 * 1000"
definition refresh_life_ms :: int where "refresh_life_ms = 7 * 24 * 60 * 60 * 1000"

definition sign_access_token :: "auth_lib \<Rightarrow> uuid \<Rightarrow> user \<Rightarrow> string" where
  "sign_access_token lib jti u =
     al_sign lib \<lparr>cl_sub = Some (u_id u), cl_email = Some (u_email u),
       cl_role = Some (role_name (u_role u)), cl_jti = Some jti, cl_exp = None, cl_scope = None,
       cl_clientId = None\<rparr>"

record token_pair =
  tp_access :: string
  tp_refresh :: string

text \<open>The end of a log-in: store the hash of a fresh refresh token, return the pair.\<close>

definition issue_tokens ::
  "auth_lib \<Rightarrow> auth_random \<Rightarrow> instant \<Rightarrow> user \<Rightarrow> account \<Rightarrow> token_pair auth_outcome" where
  "issue_tokens lib r now u s =
     (let refreshTokenHash = bc_hash (al_bcrypt lib) (ar_salt r) (ar_refreshToken r)
      in (Inr \<lparr>tp_access = sign_access_token lib (ar_jti r) u, tp_refresh = ar_refreshToken r\<rparr>,
          s\<lparr>ac_tokens := create_token (ar_rowId r) (ar_familyId r) now (u_id u) refreshTokenHash
                            (now + refresh_life_ms) None (ac_tokens s)\<rparr>))"

definition send_mail :: "string \<Rightarrow> string \<Rightarrow> string \<Rightarrow> account \<Rightarrow> account" where
  "send_mail kind to code s =
     s\<lparr>ac_mail := ac_mail s @ [\<lparr>ml_kind = kind, ml_to = to, ml_code = code\<rparr>]\<rparr>"

text \<open>A write of the user followed by the rest of the handler.\<close>

definition updating ::
  "uuid \<Rightarrow> user_patch \<Rightarrow> account \<Rightarrow> (account \<Rightarrow> 'a auth_outcome) \<Rightarrow> 'a auth_outcome" where
  "updating i p s k =
     (case update_user i p (ac_db s) of
        (Inl e, d) \<Rightarrow> (Inl (Http e), s\<lparr>ac_db := d\<rparr>)
      | (Inr _, d) \<Rightarrow> k (s\<lparr>ac_db := d\<rparr>))"

definition register ::
  "auth_lib \<Rightarrow> auth_random \<Rightarrow> instant \<Rightarrow> string \<Rightarrow> string \<Rightarrow> string option \<Rightarrow> string option
   \<Rightarrow> account \<Rightarrow> string auth_outcome" where
  "register lib r now email password firstName lastName s =
     (let policyResult = validate_password (al_policy lib) password
      in if \<not> po_valid policyResult then (Inl (WeakPassword (po_violations policyResult)), s)
      else
        (let passwordHash = bc_hash (al_bcrypt lib) (ar_salt r) password;
             otp = generate_otp (ar_otpNumber r);
             otpHash = bc_hash (al_bcrypt lib) (ar_otpSalt r) otp
         in case create_user (ar_rowId r) (ar_deliveryIds r) now
                   \<lparr>nu_email = email, nu_passwordHash = passwordHash, nu_otp = Some otpHash,
                    nu_otpExpiry = Some (now + otp_life_ms), nu_firstName = firstName,
                    nu_lastName = lastName\<rparr> (ac_db s) of
              (Inl e, d) \<Rightarrow> (Inl (Http e), s\<lparr>ac_db := d\<rparr>)
            | (Inr u, d) \<Rightarrow>
                (Inr ''User registered. Check your email for OTP.'',
                 send_mail ''verification'' email otp
                   (s\<lparr>ac_db := send_to_all ''member:registered''
                        (JObj [(''email'', JStr email), (''userId'', JStr (u_id u))]) d\<rparr>))))"

definition verify_otp ::
  "auth_lib \<Rightarrow> auth_random \<Rightarrow> instant \<Rightarrow> string \<Rightarrow> string \<Rightarrow> account \<Rightarrow> token_pair auth_outcome" where
  "verify_otp lib r now email otp s =
     (case find_user_by_email (ac_db s) email of
        None \<Rightarrow> (Inl (Http (BadRequest ''User not found'')), s)
      | Some u \<Rightarrow>
        if \<not> truthy (u_otp u) \<or> u_otpExpiry u = None
        then (Inl (Http (BadRequest ''No OTP found for this user'')), s)
        else if u_otpInvalidatedAt u \<noteq> None then (Inl OtpInvalidated, s)
        else if now > the (u_otpExpiry u) then (Inl (Http (BadRequest ''OTP has expired'')), s)
        else if \<not> bc_compare (al_bcrypt lib) otp (the (u_otp u)) then
          (let newAttempts = u_otpAttempts u + 1;
               attemptsRemaining = max 0 (OTP_MAX_ATTEMPTS - newAttempts)
           in if newAttempts \<ge> OTP_MAX_ATTEMPTS
              then updating (u_id u) (no_patch\<lparr>up_otpAttempts := Some newAttempts,
                                               up_otpInvalidatedAt := Some now\<rparr>) s
                     (\<lambda>s'. (Inl OtpInvalidated, s'))
              else updating (u_id u) (no_patch\<lparr>up_otpAttempts := Some newAttempts\<rparr>) s
                     (\<lambda>s'. (Inl (OtpWrong attemptsRemaining), s')))
        else
          updating (u_id u)
            (no_patch\<lparr>up_isVerified := Some True, up_otp := None, up_otpExpiry := None,
                      up_otpAttempts := Some 0, up_otpInvalidatedAt := None,
                      up_otpResendCount := Some 0\<rparr>) s
            (\<lambda>s'. issue_tokens lib r now u
               (s'\<lparr>ac_cache := clear_resend_window (al_cacheMode lib) email (ac_cache s')\<rparr>)))"

definition resend_otp ::
  "auth_lib \<Rightarrow> auth_random \<Rightarrow> instant \<Rightarrow> string \<Rightarrow> account \<Rightarrow> int auth_outcome" where
  "resend_otp lib r now email s =
     (case find_user_by_email (ac_db s) email of
        None \<Rightarrow> (Inl (Http (BadRequest ''User not found'')), s)
      | Some u \<Rightarrow>
        (case check_and_record_resend (al_cacheMode lib) now email (ac_cache s) of (chk, c) \<Rightarrow>
          (let s1 = s\<lparr>ac_cache := c\<rparr>
           in if \<not> rc_allowed chk then (Inl (ResendLimited (rc_retryAfterSeconds chk)), s1)
              else if rc_redisUnavailable chk \<and> u_otpResendCount u \<ge> int OTP_RESEND_LIMIT
              then (Inl (ResendLimited 300), s1)
              else
                (let otp = generate_otp (ar_otpNumber r);
                     otpHash = bc_hash (al_bcrypt lib) (ar_otpSalt r) otp
                 in updating (u_id u)
                      (no_patch\<lparr>up_otp := Some otpHash, up_otpExpiry := Some (now + otp_life_ms),
                                up_otpAttempts := Some 0, up_otpInvalidatedAt := None,
                                up_otpResendCount := Some (u_otpResendCount u + 1)\<rparr>) s1
                      (\<lambda>s2. (Inr (rc_remaining chk), send_mail ''verification'' email otp s2))))))"

definition login ::
  "auth_lib \<Rightarrow> auth_random \<Rightarrow> instant \<Rightarrow> string \<Rightarrow> string \<Rightarrow> account \<Rightarrow> token_pair auth_outcome" where
  "login lib r now email password s =
     (case find_user_by_email (ac_db s) email of
        None \<Rightarrow> (Inl (Http (Unauthorized ''Invalid credentials'')), s)
      | Some u \<Rightarrow>
        if \<not> bc_compare (al_bcrypt lib) password (u_passwordHash u)
        then (Inl (Http (Unauthorized ''Invalid credentials'')), s)
        else if \<not> u_isVerified u
        then (Inl (Http (Unauthorized ''Please verify your email first'')), s)
        else issue_tokens lib r now u s)"

definition refresh ::
  "auth_lib \<Rightarrow> auth_random \<Rightarrow> instant \<Rightarrow> string \<Rightarrow> account \<Rightarrow> token_pair auth_outcome" where
  "refresh lib r now refreshToken s =
     (case find_by_token refreshToken (ac_tokens s) of
        None \<Rightarrow> (Inl (Http (Unauthorized ''Invalid or revoked refresh token'')), s)
      | Some t \<Rightarrow>
        if rt_isRevoked t
        then (Inl (Http (Unauthorized ''Invalid or revoked refresh token'')), s)
        else if now > rt_expiresAt t
        then (Inl (Http (Unauthorized ''Refresh token has expired'')), s)
        else (case find_user (ac_db s) (rt_userId t) of
                None \<Rightarrow> (Inl (Http (Unauthorized ''User not found'')), s)
              | Some u \<Rightarrow> issue_tokens lib r now u
                             (s\<lparr>ac_tokens := revoke_token (rt_id t) (ac_tokens s)\<rparr>)))"

text \<open>\<open>logout\<close> and \<open>logoutAll\<close> differ in the message only.\<close>

definition logout_with ::
  "string \<Rightarrow> auth_lib \<Rightarrow> instant \<Rightarrow> uuid \<Rightarrow> string option \<Rightarrow> int option \<Rightarrow> account
   \<Rightarrow> string auth_outcome" where
  "logout_with message lib now userId jti expSec s =
     (let s1 = s\<lparr>ac_tokens := revoke_all_user_tokens userId (ac_tokens s)\<rparr>
      in if truthy jti \<and> expSec \<noteq> None
         then (case blacklist_access_token lib now (the jti) (the expSec) s1 of
                 (Inl e, s2) \<Rightarrow> (Inl e, s2)
               | (Inr _, s2) \<Rightarrow> (Inr message, s2))
         else (Inr message, s1))"

definition logout where "logout = logout_with ''Logged out successfully''"
definition logout_all where "logout_all = logout_with ''Logged out from all devices successfully''"

definition forgot_response :: string where
  "forgot_response = ''If an account exists, a password reset OTP has been sent to the email.''"

definition forgot_password ::
  "auth_lib \<Rightarrow> auth_random \<Rightarrow> instant \<Rightarrow> string \<Rightarrow> account \<Rightarrow> string auth_outcome" where
  "forgot_password lib r now email s =
     (case find_user_by_email (ac_db s) email of
        None \<Rightarrow> (Inr forgot_response, s)
      | Some u \<Rightarrow>
        (let otp = generate_otp (ar_otpNumber r);
             otpHash = bc_hash (al_bcrypt lib) (ar_otpSalt r) otp
         in updating (u_id u) (no_patch\<lparr>up_otp := Some otpHash,
                                         up_otpExpiry := Some (now + otp_life_ms)\<rparr>) s
              (\<lambda>s'. (Inr forgot_response, send_mail ''password-reset'' email otp s'))))"

definition reset_password ::
  "auth_lib \<Rightarrow> auth_random \<Rightarrow> instant \<Rightarrow> string \<Rightarrow> string \<Rightarrow> string \<Rightarrow> account \<Rightarrow> string auth_outcome" where
  "reset_password lib r now email otp newPassword s =
     (case find_user_by_email (ac_db s) email of
        None \<Rightarrow> (Inl (Http (BadRequest ''User not found'')), s)
      | Some u \<Rightarrow>
        if \<not> truthy (u_otp u) \<or> u_otpExpiry u = None
        then (Inl (Http (BadRequest ''No password reset request found'')), s)
        else if now > the (u_otpExpiry u) then (Inl (Http (BadRequest ''OTP has expired'')), s)
        else if \<not> bc_compare (al_bcrypt lib) otp (the (u_otp u))
        then (Inl (Http (BadRequest ''Invalid OTP'')), s)
        else
          (let policyResult = validate_password (al_policy lib) newPassword
           in if \<not> po_valid policyResult then (Inl (WeakPassword (po_violations policyResult)), s)
              else updating (u_id u)
                     (no_patch\<lparr>up_passwordHash := Some (bc_hash (al_bcrypt lib) (ar_salt r) newPassword),
                               up_otp := None, up_otpExpiry := None\<rparr>) s
                     (\<lambda>s'. (Inr ''Password reset successfully'',
                            send_mail ''password-reset-success'' email [] s'))))"

subsection \<open>OAuth client credentials\<close>

record oauth_token =
  ot_access :: string
  ot_expires_in :: int
  ot_scope :: string

definition join_spaces :: "string list \<Rightarrow> string" where
  "join_spaces xs = (case xs of [] \<Rightarrow> [] | y # ys \<Rightarrow> y @ concat (map (\<lambda>s. CHR '' '' # s) ys))"

definition oauth_issue_token ::
  "auth_lib \<Rightarrow> instant \<Rightarrow> string \<Rightarrow> string \<Rightarrow> account \<Rightarrow> oauth_token auth_outcome" where
  "oauth_issue_token lib now clientId clientSecret s =
     (case find_row (\<lambda>c. oc_clientId c = clientId \<and> oc_isActive c) (ac_clients s) of
        None \<Rightarrow> (Inl (Http (Unauthorized ''Invalid client credentials'')), s)
      | Some c \<Rightarrow>
        if \<not> bc_compare (al_bcrypt lib) clientSecret (oc_clientSecretHash c)
        then (Inl (Http (Unauthorized ''Invalid client credentials'')), s)
        else
          (let scope = join_spaces (oc_allowedScopes c)
           in (Inr \<lparr>ot_access = al_sign lib \<lparr>cl_sub = None, cl_email = None, cl_role = None,
                      cl_jti = None, cl_exp = Some (now div 1000 + 3600), cl_scope = Some scope,
                      cl_clientId = Some (oc_id c)\<rparr>,
                    ot_expires_in = 3600, ot_scope = scope\<rparr>, s)))"

definition oauth_create_client ::
  "auth_lib \<Rightarrow> uuid \<Rightarrow> uuid \<Rightarrow> string \<Rightarrow> nat \<Rightarrow> string \<Rightarrow> string list \<Rightarrow> account
   \<Rightarrow> (uuid \<times> string) auth_outcome" where
  "oauth_create_client lib rowId clientId clientSecret salt name scopes s =
     (Inr (clientId, clientSecret),
      s\<lparr>ac_clients := save_row oc_id
          \<lparr>oc_id = rowId, oc_clientId = clientId,
           oc_clientSecretHash = bc_hash (al_bcrypt lib) salt clientSecret,
           oc_allowedScopes = scopes, oc_name = name, oc_isActive = True\<rparr> (ac_clients s)\<rparr>)"

definition oauth_update_scopes :: "uuid \<Rightarrow> string list \<Rightarrow> account \<Rightarrow> account" where
  "oauth_update_scopes clientId scopes s =
     s\<lparr>ac_clients := update_rows (\<lambda>c. oc_clientId c = clientId)
                        (\<lambda>c. c\<lparr>oc_allowedScopes := scopes\<rparr>) (ac_clients s)\<rparr>"

definition oauth_deactivate_client :: "uuid \<Rightarrow> account \<Rightarrow> account" where
  "oauth_deactivate_client clientId s =
     s\<lparr>ac_clients := update_rows (\<lambda>c. oc_clientId c = clientId)
                        (\<lambda>c. c\<lparr>oc_isActive := False\<rparr>) (ac_clients s)\<rparr>"

definition oauth_list_clients :: "account \<Rightarrow> oauth_client list" where
  "oauth_list_clients s = ac_clients s"

end
