(* ===== verification/Users_Correct.thy ===== *)
theory Users_Correct
  imports Users
begin

text \<open>
  The user table as a directory: keys and e-mail addresses are unique, a look-up by e-mail
  returns the live row, and an update through the providers changes exactly that row. The
  locale \<open>user_directory\<close> is what the authentication handlers rely on.
\<close>

definition users_ok :: "db \<Rightarrow> bool" where
  "users_ok d \<longleftrightarrow> distinct (map u_id (db_users d)) \<and> distinct (map u_email (db_users d))"

definition patched :: "user_patch \<Rightarrow> user \<Rightarrow> db \<Rightarrow> db" where
  "patched p x d = d\<lparr>db_users := save_row u_id (apply_patch p x) (db_users d)\<rparr>"

lemma apply_patch_keys [simp]:
  "u_id (apply_patch p u) = u_id u"
  "u_deletedAt (apply_patch p u) = u_deletedAt u"
  by (simp_all add: apply_patch_def)

lemma apply_patch_fields [simp]:
  "u_email (apply_patch p u) = given (up_email p) (u_email u)"
  "u_role (apply_patch p u) = given (up_role p) (u_role u)"
  "u_passwordHash (apply_patch p u) = given (up_passwordHash p) (u_passwordHash u)"
  "u_otp (apply_patch p u) = given_opt (up_otp p) (u_otp u)"
  "u_otpExpiry (apply_patch p u) = given_opt (up_otpExpiry p) (u_otpExpiry u)"
  "u_otpAttempts (apply_patch p u) = given (up_otpAttempts p) (u_otpAttempts u)"
  "u_otpInvalidatedAt (apply_patch p u) = given_opt (up_otpInvalidatedAt p) (u_otpInvalidatedAt u)"
  "u_otpResendCount (apply_patch p u) = given (up_otpResendCount p) (u_otpResendCount u)"
  "u_isVerified (apply_patch p u) = given (up_isVerified p) (u_isVerified u)"
  "u_totpEnabled (apply_patch p u) = given (up_totpEnabled p) (u_totpEnabled u)"
  "u_totpSecret (apply_patch p u) = given (up_totpSecret p) (u_totpSecret u)"
  "u_backupCodes (apply_patch p u) = given (up_backupCodes p) (u_backupCodes u)"
  by (simp_all add: apply_patch_def)

lemma no_patch_simps [simp]:
  "up_firstName no_patch = None" "up_lastName no_patch = None" "up_email no_patch = None"
  "up_role no_patch = None" "up_passwordHash no_patch = None" "up_otp no_patch = None"
  "up_otpExpiry no_patch = None" "up_otpAttempts no_patch = None"
  "up_otpInvalidatedAt no_patch = None" "up_otpResendCount no_patch = None"
  "up_isVerified no_patch = None" "up_isActive no_patch = None" "up_totpEnabled no_patch = None"
  "up_totpSecret no_patch = None" "up_backupCodes no_patch = None"
  by (simp_all add: no_patch_def)

lemma users_ok_same:
  assumes "users_ok d" "a \<in> set (db_users d)" "b \<in> set (db_users d)"
  shows "u_id a = u_id b \<Longrightarrow> a = b" "u_email a = u_email b \<Longrightarrow> a = b"
  using assms by (auto simp: users_ok_def distinct_map dest: inj_onD)

lemma find_email_iff:
  assumes "users_ok d"
  shows "find_user_by_email d e = Some u \<longleftrightarrow> u \<in> set (db_users d) \<and> u_email u = e \<and> live_user u"
proof
  assume "find_user_by_email d e = Some u"
  then show "u \<in> set (db_users d) \<and> u_email u = e \<and> live_user u"
    using find_row_SomeD by (fastforce simp: find_user_by_email_def)
next
  assume u: "u \<in> set (db_users d) \<and> u_email u = e \<and> live_user u"
  then obtain v where v: "find_user_by_email d e = Some v"
    by (cases "find_user_by_email d e") (auto simp: find_user_by_email_def find_row_None_iff)
  then have "v \<in> set (db_users d) \<and> u_email v = e"
    using find_row_SomeD by (fastforce simp: find_user_by_email_def)
  with u v users_ok_same(2) [OF assms] show "find_user_by_email d e = Some u" by metis
qed

lemma find_id_iff:
  assumes "users_ok d"
  shows "find_user d i = Some u \<longleftrightarrow> u \<in> set (db_users d) \<and> u_id u = i \<and> live_user u"
proof
  assume "find_user d i = Some u"
  then show "u \<in> set (db_users d) \<and> u_id u = i \<and> live_user u"
    using find_row_SomeD by (fastforce simp: find_user_def live_user_def)
next
  assume u: "u \<in> set (db_users d) \<and> u_id u = i \<and> live_user u"
  then obtain v where v: "find_user d i = Some v"
    by (cases "find_user d i") (auto simp: find_user_def live_user_def find_row_None_iff)
  then have "v \<in> set (db_users d) \<and> u_id v = i"
    using find_row_SomeD by (fastforce simp: find_user_def)
  with u v users_ok_same(1) [OF assms] show "find_user d i = Some u" by metis
qed

lemma find_email_found_id:
  "users_ok d \<Longrightarrow> find_user_by_email d e = Some u \<Longrightarrow> find_user d (u_id u) = Some u"
  by (simp add: find_email_iff find_id_iff)

lemma not_taken_existing:
  assumes "users_ok d" "x \<in> set (db_users d)"
  shows "\<not> email_taken (u_id x) (u_email x) d"
  using assms(2) users_ok_same(2) [OF assms(1)] unfolding email_taken_def list_ex_iff by metis

lemma patched_users:
  assumes "x \<in> set (db_users d)"
  shows "db_users (patched p x d) =
    update_rows (\<lambda>u. u_id u = u_id x) (\<lambda>_. apply_patch p x) (db_users d)"
proof -
  have "u_id (apply_patch p x) \<in> u_id ` set (db_users d)" using assms by simp
  from save_row_existing [of u_id, OF this] show ?thesis by (simp add: patched_def)
qed

lemma map_patched:
  assumes "distinct (map u_id us)" "x \<in> set us" "f y = f x"
  shows "map f (update_rows (\<lambda>u. u_id u = u_id x) (\<lambda>_. y) us) = map f us"
proof -
  have "\<And>u. u \<in> set us \<Longrightarrow> u_id u = u_id x \<Longrightarrow> u = x"
    using assms(1,2) by (auto simp: distinct_map dest: inj_onD)
  then show ?thesis using assms(3) by (auto simp: update_rows_def)
qed

lemma patched_ok:
  assumes "users_ok d" "x \<in> set (db_users d)" "up_email p = None"
  shows "users_ok (patched p x d)"
proof -
  have d: "distinct (map u_id (db_users d))" using assms(1) by (simp add: users_ok_def)
  show ?thesis
    using assms by (simp add: users_ok_def patched_users map_patched [OF d])
qed

lemma update_user_found:
  assumes "users_ok d" "find_user_by_email d e = Some x" "up_email p = None"
  shows "update_user (u_id x) p d = (Inr (apply_patch p x), patched p x d)"
proof -
  have x: "x \<in> set (db_users d)" using assms(1,2) by (simp add: find_email_iff)
  have "find_user d (u_id x) = Some x" by (rule find_email_found_id [OF assms(1,2)])
  then show ?thesis
    using not_taken_existing [OF assms(1) x] assms(3)
    by (simp add: update_user_def save_user_def patched_def)
qed

lemma find_email_patched:
  assumes ok: "users_ok d" and x: "find_user_by_email d e = Some x" and p: "up_email p = None"
  shows "find_user_by_email (patched p x d) e' =
    (if e' = e then Some (apply_patch p x) else find_user_by_email d e')"
proof -
  have xs: "x \<in> set (db_users d)" "u_email x = e" "live_user x"
    using ok x by (simp_all add: find_email_iff)
  have ok': "users_ok (patched p x d)" by (rule patched_ok [OF ok xs(1) p])
  have mem: "u \<in> set (db_users (patched p x d)) \<longleftrightarrow>
      u = apply_patch p x \<or> (u \<in> set (db_users d) \<and> u_id u \<noteq> u_id x)" for u
    by (simp add: patched_def in_save_row)
  have iff: "find_user_by_email (patched p x d) e' = Some u \<longleftrightarrow>
      (if e' = e then Some (apply_patch p x) else find_user_by_email d e') = Some u" for u
  proof (cases "e' = e")
    case True
    have "u = apply_patch p x \<longleftrightarrow>
        (u \<in> set (db_users (patched p x d)) \<and> u_email u = e \<and> live_user u)"
      using xs p users_ok_same [OF ok, of u x] by (auto simp: mem live_user_def)
    with True show ?thesis by (auto simp: find_email_iff [OF ok'])
  next
    case False
    have "(u \<in> set (db_users (patched p x d)) \<and> u_email u = e' \<and> live_user u) \<longleftrightarrow>
        (u \<in> set (db_users d) \<and> u_email u = e' \<and> live_user u)"
      using xs p False users_ok_same(1) [OF ok, of u x] by (auto simp: mem)
    with False show ?thesis by (simp add: find_email_iff [OF ok'] find_email_iff [OF ok])
  qed
  show ?thesis
    by (cases "find_user_by_email (patched p x d) e'";
        cases "if e' = e then Some (apply_patch p x) else find_user_by_email d e'")
       (use iff in \<open>auto split: if_splits\<close>)
qed

lemma patched_frame [simp]:
  "db_bookings (patched p x d) = db_bookings d" "db_webhooks (patched p x d) = db_webhooks d"
  "db_notifications (patched p x d) = db_notifications d"
  by (simp_all add: patched_def)

subsection \<open>The directory interface\<close>

text \<open>
  A directory finds an entry by key and rewrites it by a patch that keeps the key. An entry
  that satisfies \<open>Q\<close> goes on doing so under every patch of another entry, and under a patch
  of its own that keeps \<open>Q\<close>.
\<close>

locale user_directory =
  fixes ok :: "'d \<Rightarrow> bool"
    and find :: "'d \<Rightarrow> 'k \<Rightarrow> 'u option"
    and app :: "'p \<Rightarrow> 'u \<Rightarrow> 'u"
    and upd :: "'p \<Rightarrow> 'u \<Rightarrow> 'd \<Rightarrow> 'd"
    and keeps_key :: "'p \<Rightarrow> bool"
  assumes ok_upd: "ok d \<Longrightarrow> find d e = Some x \<Longrightarrow> keeps_key p \<Longrightarrow> ok (upd p x d)"
    and find_upd: "ok d \<Longrightarrow> find d e = Some x \<Longrightarrow> keeps_key p \<Longrightarrow>
      find (upd p x d) e' = (if e' = e then Some (app p x) else find d e')"
begin

definition entry_sat :: "('u \<Rightarrow> bool) \<Rightarrow> 'k \<Rightarrow> 'd \<Rightarrow> bool" where
  "entry_sat Q e d \<longleftrightarrow> ok d \<and> (\<exists>u. find d e = Some u \<and> Q u)"

lemma entry_sat_upd:
  assumes "entry_sat Q e d" "find d e' = Some x" "keeps_key p"
    "e' = e \<Longrightarrow> Q x \<Longrightarrow> Q (app p x)"
  shows "entry_sat Q e (upd p x d)"
  using assms ok_upd [of d e' x p] find_upd [of d e' x p e] by (auto simp: entry_sat_def)

lemma entry_satD: "entry_sat Q e d \<Longrightarrow> find d e = Some u \<Longrightarrow> Q u"
  by (simp add: entry_sat_def)

end

interpretation ud: user_directory users_ok find_user_by_email apply_patch patched
    "\<lambda>p. up_email p = None"
  by unfold_locales (auto intro: patched_ok simp: find_email_patched find_email_iff)

subsection \<open>New rows\<close>

text \<open>A failing or taken e-mail leaves the table alone; a new one adds a row.\<close>

lemma create_user_cases:
  assumes ok: "users_ok d" and new: "newId \<notin> u_id ` set (db_users d)"
  shows "create_user newId ids now n d = (r, d') \<Longrightarrow>
    (if nu_email n \<in> u_email ` set (db_users d)
     then d' = d \<and> (\<exists>e. r = Inl e)
     else db_users d' = db_users d @ [user_of newId now n] \<and> r = Inr (user_of newId now n))"
proof -
  assume c: "create_user newId ids now n d = (r, d')"
  have t: "email_taken newId (nu_email n) d \<longleftrightarrow> nu_email n \<in> u_email ` set (db_users d)"
    using new unfolding email_taken_def list_ex_iff image_iff by metis
  have s: "save_row u_id (user_of newId now n) (db_users d) = db_users d @ [user_of newId now n]"
    by (rule save_row_new) (use new in \<open>simp add: user_of_def\<close>)
  show ?thesis
    using c t s
    by (auto simp: create_user_def save_user_def user_of_def split: if_splits)
qed

lemma users_ok_append:
  assumes "users_ok d" "newId \<notin> u_id ` set (db_users d)" "nu_email n \<notin> u_email ` set (db_users d)"
    "db_users d' = db_users d @ [user_of newId now n]"
  shows "users_ok d'"
  using assms by (auto simp: users_ok_def user_of_def)

lemma find_email_append:
  assumes "db_users d' = db_users d @ [user_of newId now n]"
  shows "find_user_by_email d' e =
    (case find_user_by_email d e of Some u \<Rightarrow> Some u
     | None \<Rightarrow> if nu_email n = e then Some (user_of newId now n) else None)"
  using assms
  by (simp add: find_user_by_email_def find_row_append user_of_def live_user_def split: option.split)

end
