(* ===== verification/Auth_Correct.thy ===== *)
theory Auth_Correct
  imports Auth Users_Correct
begin

text \<open>
  What the authentication handlers guarantee: the states they reach, the bound on guesses of
  a one-time code, the lock-out it ends in, the exact sliding window of resends, log-out, and
  the two places where the tables do not hold what the handlers mean them to hold.
\<close>

subsection \<open>The operations of AuthService as steps\<close>

datatype auth_op =
    OpRegister auth_random instant string string "string option" "string option"
  | OpVerifyOtp auth_random instant string string
  | OpResendOtp auth_random instant string
  | OpLogin auth_random instant string string
  | OpRefresh auth_random instant string
  | OpLogout instant uuid "string option" "int option"
  | OpLogoutAll instant uuid "string option" "int option"
  | OpForgotPassword auth_random instant string
  | OpResetPassword auth_random instant string string string

fun auth_step :: "auth_lib \<Rightarrow> auth_op \<Rightarrow> account \<Rightarrow> account" where
  "auth_step lib (OpRegister r now e p f l) s = snd (register lib r now e p f l s)"
| "auth_step lib (OpVerifyOtp r now e c) s = snd (verify_otp lib r now e c s)"
| "auth_step lib (OpResendOtp r now e) s = snd (resend_otp lib r now e s)"
| "auth_step lib (OpLogin r now e p) s = snd (login lib r now e p s)"
| "auth_step lib (OpRefresh r now t) s = snd (refresh lib r now t s)"
| "auth_step lib (OpLogout now i j x) s = snd (logout lib now i j x s)"
| "auth_step lib (OpLogoutAll now i j x) s = snd (logout_all lib now i j x s)"
| "auth_step lib (OpForgotPassword r now e) s = snd (forgot_password lib r now e s)"
| "auth_step lib (OpResetPassword r now e c p) s = snd (reset_password lib r now e c p s)"

text \<open>Generated keys are fresh; a jti belongs to one token, so it comes with one expiry.\<close>

definition op_allowed :: "(string \<Rightarrow> int) \<Rightarrow> auth_op \<Rightarrow> account \<Rightarrow> bool" where
  "op_allowed expOf op s =
     (case op of
        OpRegister r _ _ _ _ _ \<Rightarrow> ar_rowId r \<notin> u_id ` set (db_users (ac_db s))
      | OpVerifyOtp r _ _ _ \<Rightarrow> ar_rowId r \<notin> rt_id ` set (ac_tokens s)
      | OpLogin r _ _ _ \<Rightarrow> ar_rowId r \<notin> rt_id ` set (ac_tokens s)
      | OpRefresh r _ _ \<Rightarrow> ar_rowId r \<notin> rt_id ` set (ac_tokens s)
      | OpLogout _ _ j x \<Rightarrow> (case (j, x) of (Some j', Some x') \<Rightarrow> x' = expOf j' | _ \<Rightarrow> True)
      | OpLogoutAll _ _ j x \<Rightarrow> (case (j, x) of (Some j', Some x') \<Rightarrow> x' = expOf j' | _ \<Rightarrow> True)
      | _ \<Rightarrow> True)"

inductive auth_reach :: "auth_lib \<Rightarrow> (string \<Rightarrow> int) \<Rightarrow> account \<Rightarrow> account \<Rightarrow> bool"
  for lib expOf s where
  reach_start: "auth_reach lib expOf s s"
| reach_step: "auth_reach lib expOf s t \<Longrightarrow> op_allowed expOf op t
    \<Longrightarrow> auth_reach lib expOf s (auth_step lib op t)"

inductive_cases auth_reachE: "auth_reach lib expOf s t"

lemma auth_reach_invariant:
  assumes "auth_reach lib expOf s t" "I s"
    "\<And>op t. I t \<Longrightarrow> op_allowed expOf op t \<Longrightarrow> I (auth_step lib op t)"
  shows "I t"
  using assms by (induction rule: auth_reach.induct) auto

subsection \<open>How the handlers change the users\<close>

lemma updating_found:
  assumes "users_ok (ac_db s)" "find_user_by_email (ac_db s) e = Some u" "up_email p = None"
  shows "updating (u_id u) p s k = k (s\<lparr>ac_db := patched p u (ac_db s)\<rparr>)"
  using update_user_found [OF assms] by (simp add: updating_def)

lemma issue_tokens_db [simp]: "ac_db (snd (issue_tokens lib r now u s)) = ac_db s"
  by (simp add: issue_tokens_def Let_def)

lemma send_mail_frame [simp]:
  "ac_db (send_mail k to c s) = ac_db s" "ac_tokens (send_mail k to c s) = ac_tokens s"
  "ac_cache (send_mail k to c s) = ac_cache s"
  by (simp_all add: send_mail_def)

lemma send_to_all_users [simp]: "db_users (send_to_all e j d) = db_users d"
  by (simp add: send_to_all_def)

lemma logout_db [simp]: "ac_db (snd (logout_with m lib now i j x s)) = ac_db s"
  by (simp add: logout_with_def blacklist_access_token_def Let_def)

text \<open>
  Every handler leaves the users alone, patches the row of one e-mail address, or adds a row
  for an address that had none.
\<close>

definition patch_allowed :: "auth_lib \<Rightarrow> auth_op \<Rightarrow> user \<Rightarrow> user_patch \<Rightarrow> bool" where
  "patch_allowed lib op u p \<longleftrightarrow> up_email p = None \<and> up_role p = None \<and>
     (up_isVerified p \<noteq> None \<longrightarrow>
        (\<exists>r now e c. op = OpVerifyOtp r now e c) \<and> u_otpInvalidatedAt u = None)"

definition auth_effect :: "auth_lib \<Rightarrow> auth_op \<Rightarrow> account \<Rightarrow> account \<Rightarrow> bool" where
  "auth_effect lib op s t \<longleftrightarrow>
     db_users (ac_db t) = db_users (ac_db s)
   \<or> (\<exists>e u p. find_user_by_email (ac_db s) e = Some u \<and> patch_allowed lib op u p \<and>
        db_users (ac_db t) = db_users (patched p u (ac_db s)))
   \<or> (\<exists>newId now n. newId \<notin> u_id ` set (db_users (ac_db s)) \<and>
        nu_email n \<notin> u_email ` set (db_users (ac_db s)) \<and>
        db_users (ac_db t) = db_users (ac_db s) @ [user_of newId now n])"

lemma effect_none: "db_users (ac_db t) = db_users (ac_db s) \<Longrightarrow> auth_effect lib op s t"
  by (simp add: auth_effect_def)

lemma effect_same: "auth_effect lib op s s"
  by (simp add: effect_none)

lemma effect_cache: "auth_effect lib op s (s\<lparr>ac_cache := c\<rparr>)"
  by (simp add: effect_none)

lemma effect_patch:
  "find_user_by_email (ac_db s) e = Some u \<Longrightarrow> patch_allowed lib op u p \<Longrightarrow>
   db_users (ac_db t) = db_users (patched p u (ac_db s)) \<Longrightarrow> auth_effect lib op s t"
  unfolding auth_effect_def by blast

lemma effect_updating:
  assumes "users_ok (ac_db s)" "find_user_by_email (ac_db s) e = Some u" "ac_db s1 = ac_db s"
    "patch_allowed lib op u p" "\<And>s'. ac_db (snd (k s')) = ac_db s'"
  shows "auth_effect lib op s (snd (updating (u_id u) p s1 k))"
  using assms updating_found [of s1 e u p k]
  by (intro effect_patch [OF assms(2,4)]) (simp add: patch_allowed_def)

lemma verify_otp_effect:
  assumes ok: "users_ok (ac_db s)"
  shows "auth_effect lib (OpVerifyOtp r now e c) s (snd (verify_otp lib r now e c s))"
proof (cases "find_user_by_email (ac_db s) e")
  case None
  then show ?thesis by (simp add: verify_otp_def effect_none)
next
  case (Some u)
  show ?thesis
    by (auto simp: verify_otp_def Some Let_def patch_allowed_def
        intro!: effect_same effect_cache effect_updating [OF ok Some])
qed

lemma resend_otp_effect:
  assumes ok: "users_ok (ac_db s)"
  shows "auth_effect lib (OpResendOtp r now e) s (snd (resend_otp lib r now e s))"
proof (cases "find_user_by_email (ac_db s) e")
  case None
  then show ?thesis by (simp add: resend_otp_def effect_none)
next
  case (Some u)
  obtain chk c where chk: "check_and_record_resend (al_cacheMode lib) now e (ac_cache s) = (chk, c)"
    by (metis surj_pair)
  show ?thesis
    by (auto simp: resend_otp_def Some chk Let_def patch_allowed_def
        intro!: effect_same effect_cache effect_updating [OF ok Some])
qed

lemma forgot_password_effect:
  assumes ok: "users_ok (ac_db s)"
  shows "auth_effect lib (OpForgotPassword r now e) s (snd (forgot_password lib r now e s))"
proof (cases "find_user_by_email (ac_db s) e")
  case None
  then show ?thesis by (simp add: forgot_password_def effect_none)
next
  case (Some u)
  show ?thesis
    by (auto simp: forgot_password_def Some Let_def patch_allowed_def
        intro!: effect_updating [OF ok Some])
qed

lemma reset_password_effect:
  assumes ok: "users_ok (ac_db s)"
  shows "auth_effect lib (OpResetPassword r now e c p) s (snd (reset_password lib r now e c p s))"
proof (cases "find_user_by_email (ac_db s) e")
  case None
  then show ?thesis by (simp add: reset_password_def effect_none)
next
  case (Some u)
  show ?thesis
    by (auto simp: reset_password_def Some Let_def patch_allowed_def
        intro!: effect_same effect_cache effect_updating [OF ok Some])
qed

lemma register_effect:
  assumes ok: "users_ok (ac_db s)" and new: "ar_rowId r \<notin> u_id ` set (db_users (ac_db s))"
  shows "auth_effect lib (OpRegister r now e p f l) s (snd (register lib r now e p f l s))"
proof -
  define n where "n = \<lparr>nu_email = e, nu_passwordHash = bc_hash (al_bcrypt lib) (ar_salt r) p,
    nu_otp = Some (bc_hash (al_bcrypt lib) (ar_otpSalt r) (generate_otp (ar_otpNumber r))),
    nu_otpExpiry = Some (now + otp_life_ms), nu_firstName = f, nu_lastName = l\<rparr>"
  obtain res d' where c: "create_user (ar_rowId r) (ar_deliveryIds r) now n (ac_db s) = (res, d')"
    by (metis surj_pair)
  note cases = create_user_cases [OF ok new c]
  have "snd (register lib r now e p f l s) = s \<or>
      db_users (ac_db (snd (register lib r now e p f l s))) = db_users d'"
    using c by (auto simp: register_def Let_def n_def [symmetric] split: sum.split)
  then show ?thesis
  proof
    assume "snd (register lib r now e p f l s) = s"
    then show ?thesis by (simp add: effect_none)
  next
    assume t: "db_users (ac_db (snd (register lib r now e p f l s))) = db_users d'"
    show ?thesis
    proof (cases "nu_email n \<in> u_email ` set (db_users (ac_db s))")
      case True
      with cases t show ?thesis by (simp add: effect_none)
    next
      case False
      with cases t have "db_users (ac_db (snd (register lib r now e p f l s))) =
          db_users (ac_db s) @ [user_of (ar_rowId r) now n]" by simp
      with False new show ?thesis unfolding auth_effect_def by blast
    qed
  qed
qed

lemma auth_step_effect:
  assumes "users_ok (ac_db s)" "op_allowed expOf op s"
  shows "auth_effect lib op s (auth_step lib op s)"
proof (cases op)
  case (OpRegister r now e p f l)
  with assms show ?thesis by (simp add: register_effect op_allowed_def)
next
  case (OpLogin r now e p)
  then show ?thesis by (auto intro!: effect_none simp: login_def split: option.split)
next
  case (OpRefresh r now t)
  then show ?thesis by (auto intro!: effect_none simp: refresh_def split: option.split)
qed (use assms in \<open>simp_all add: verify_otp_effect resend_otp_effect forgot_password_effect
  reset_password_effect effect_none logout_def logout_all_def\<close>)

subsection \<open>A sample account\<close>

text \<open>A stand-in for bcrypt whose hashes have the documented 60 characters.\<close>

definition pad60 :: "string \<Rightarrow> string" where "pad60 x = take 60 (x @ replicate 60 (CHR ''.''))"

lemma length_pad60 [simp]: "length (pad60 x) = 60"
  by (simp add: pad60_def)

definition acct_lib :: auth_lib where
  "acct_lib = \<lparr>al_bcrypt = \<lparr>bc_hash = (\<lambda>_. pad60), bc_compare = (\<lambda>x h. pad60 x = h)\<rparr>,
     al_policy = \<lparr>pe_log2 = (\<lambda>_. 6), pe_hibpEnabled = False, pe_sha1_hex = (\<lambda>x. x),
                  pe_fetch = (\<lambda>_. None)\<rparr>,
     al_sign = (\<lambda>_. ''jwt''), al_cacheMode = WorkingCache\<rparr>"

definition acct_random :: auth_random where
  "acct_random = \<lparr>ar_otpNumber = 5, ar_salt = 0, ar_otpSalt = 1,
     ar_refreshToken = ''123e4567-e89b-12d3-a456-426614174000'', ar_jti = ''j1'',
     ar_familyId = ''f1'', ar_rowId = ''t1'', ar_deliveryIds = nat_string\<rparr>"

definition acct_user :: user where
  "acct_user = user_of ''u1'' 0 \<lparr>nu_email = ''a@b.c'', nu_passwordHash = pad60 ''secret'',
     nu_otp = Some (pad60 ''123456''), nu_otpExpiry = Some 600000, nu_firstName = None,
     nu_lastName = None\<rparr>"

definition acct_state :: "user \<Rightarrow> account" where
  "acct_state u = \<lparr>ac_db = \<lparr>db_workspaces = [], db_windows = [], db_bookings = [],
       db_policies = [], db_rules = [], db_users = [u], db_amenities = [], db_outbox = [],
       db_webhooks = \<lparr>wh_subscriptions = [], wh_deliveries = []\<rparr>, db_notifications = [],
       db_cache = []\<rparr>,
     ac_tokens = [], ac_attendance = [], ac_clients = [], ac_cache = [], ac_mail = []\<rparr>"

lemmas acct_defs = acct_lib_def acct_random_def acct_user_def acct_state_def user_of_def

lemma acct_users [simp]:
  "users_ok (ac_db (acct_state u))"
  "u_email u = e \<Longrightarrow> u_deletedAt u = None \<Longrightarrow>
     find_user_by_email (ac_db (acct_state u)) e = Some u"
  "ac_tokens (acct_state u) = []" "ac_cache (acct_state u) = []"
  "db_users (ac_db (acct_state u)) = [u]"
  by (simp_all add: acct_state_def users_ok_def find_user_by_email_def live_user_def)

lemma acct_user_fields [simp]:
  "u_email acct_user = ''a@b.c''" "u_deletedAt acct_user = None" "u_id acct_user = ''u1''"
  "u_otp acct_user = Some (pad60 ''123456'')" "u_otpExpiry acct_user = Some 600000"
  "u_otpAttempts acct_user = 0" "u_otpInvalidatedAt acct_user = None"
  "u_isVerified acct_user = False" "u_passwordHash acct_user = pad60 ''secret''"
  by (simp_all add: acct_user_def user_of_def)

lemma acct_compare [simp]: "bc_compare (al_bcrypt acct_lib) x h = (pad60 x = h)"
  by (simp add: acct_lib_def)

lemma pad60_apart [simp]: "pad60 ''000000'' \<noteq> pad60 ''123456''" "pad60 ''123456'' \<noteq> []"
  by (simp_all add: pad60_def)

subsection \<open>The lock-out of a one-time code\<close>

lemma users_ok_cong: "db_users d' = db_users d \<Longrightarrow> users_ok d' = users_ok d"
  by (simp add: users_ok_def)

lemma find_email_cong: "db_users d' = db_users d \<Longrightarrow> find_user_by_email d' e = find_user_by_email d e"
  by (simp add: find_user_by_email_def)

lemma entry_sat_cong: "db_users d' = db_users d \<Longrightarrow> ud.entry_sat Q e d' = ud.entry_sat Q e d"
  unfolding ud.entry_sat_def using users_ok_cong [of d' d] find_email_cong [of d' d e] by simp

lemma effect_entry:
  assumes sat: "ud.entry_sat Q e (ac_db s)" and eff: "auth_effect lib op s t"
    and keep: "\<And>u p. Q u \<Longrightarrow> patch_allowed lib op u p \<Longrightarrow> Q (apply_patch p u)"
  shows "ud.entry_sat Q e (ac_db t)"
proof -
  have ok: "users_ok (ac_db s)" using sat by (simp add: ud.entry_sat_def)
  from eff show ?thesis
    unfolding auth_effect_def
  proof (elim disjE exE conjE)
    assume "db_users (ac_db t) = db_users (ac_db s)"
    from entry_sat_cong [OF this] sat show ?thesis by blast
  next
    fix e' u p
    assume u: "find_user_by_email (ac_db s) e' = Some u" and p: "patch_allowed lib op u p"
      and t: "db_users (ac_db t) = db_users (patched p u (ac_db s))"
    have "ud.entry_sat Q e (patched p u (ac_db s))"
      using p by (intro ud.entry_sat_upd [OF sat u]) (auto simp: patch_allowed_def intro: keep)
    with entry_sat_cong [OF t] show ?thesis by blast
  next
    fix newId now n
    assume new: "newId \<notin> u_id ` set (db_users (ac_db s))"
      "nu_email n \<notin> u_email ` set (db_users (ac_db s))"
      "db_users (ac_db t) = db_users (ac_db s) @ [user_of newId now n]"
    with sat show ?thesis
      using users_ok_append [OF ok new]
      by (auto simp: ud.entry_sat_def find_email_append [OF new(3)])
  qed
qed

definition locked_out :: "user \<Rightarrow> bool" where
  "locked_out u \<longleftrightarrow> u_otpInvalidatedAt u \<noteq> None \<and> \<not> u_isVerified u"

lemma locked_patch: "locked_out u \<Longrightarrow> patch_allowed lib op u p \<Longrightarrow> locked_out (apply_patch p u)"
  by (cases "up_isVerified p"; cases "up_otpInvalidatedAt p")
     (auto simp: locked_out_def patch_allowed_def)

lemma locked_out_reach:
  assumes "ud.entry_sat locked_out e (ac_db s)" "auth_reach lib expOf s t"
  shows "ud.entry_sat locked_out e (ac_db t)"
proof (rule auth_reach_invariant [OF assms(2), where I = "\<lambda>t. ud.entry_sat locked_out e (ac_db t)"])
  fix op t
  assume sat: "ud.entry_sat locked_out e (ac_db t)" and al: "op_allowed expOf op t"
  have "users_ok (ac_db t)" using sat by (simp add: ud.entry_sat_def)
  from auth_step_effect [OF this al]
  show "ud.entry_sat locked_out e (ac_db (auth_step lib op t))"
    using locked_patch by (rule effect_entry [OF sat])
qed (fact assms(1))

lemma locked_out_verify:
  assumes "ud.entry_sat locked_out e (ac_db t)"
  shows "\<exists>err. fst (verify_otp lib r now e c t) = Inl err"
  using assms
  by (auto simp: ud.entry_sat_def locked_out_def verify_otp_def)

lemma locked_out_login:
  assumes "ud.entry_sat locked_out e (ac_db t)"
  shows "\<exists>err. fst (login lib r now e p t) = Inl err"
  using assms
  by (auto simp: ud.entry_sat_def locked_out_def login_def)

text \<open>Once an unverified user's one-time code was invalidated by wrong guesses, no
  sequence of operations of the authentication service, a resend included, ever lets that
  address verify or log in again: the resend writes otpInvalidatedAt as undefined, which
  TypeORM does not write.\<close>
theorem otp_lockout_is_permanent:
  assumes "users_ok (ac_db s)" "find_user_by_email (ac_db s) e = Some u"
    "u_otpInvalidatedAt u \<noteq> None" "\<not> u_isVerified u" "auth_reach lib expOf s t"
  shows "(\<exists>err. fst (verify_otp lib r now e c t) = Inl err)
    \<and> (\<exists>err. fst (login lib r now e p t) = Inl err)"
proof -
  have "ud.entry_sat locked_out e (ac_db s)"
    using assms(1-4) by (simp add: ud.entry_sat_def locked_out_def)
  from locked_out_reach [OF this assms(5)] show ?thesis
    using locked_out_verify locked_out_login by blast
qed

definition acct_locked :: user where
  "acct_locked = acct_user\<lparr>u_otpAttempts := 3, u_otpInvalidatedAt := Some 5\<rparr>"

theorem otp_lockout_is_permanent_witness:
  "\<exists>err. fst (verify_otp acct_lib acct_random 9 ''a@b.c'' ''000005''
     (auth_step acct_lib (OpResendOtp acct_random 7 ''a@b.c'') (acct_state acct_locked))) = Inl err"
proof -
  have "auth_reach acct_lib (\<lambda>_. 0) (acct_state acct_locked)
      (auth_step acct_lib (OpResendOtp acct_random 7 ''a@b.c'') (acct_state acct_locked))"
    by (rule reach_step [OF reach_start]) (simp add: op_allowed_def)
  from otp_lockout_is_permanent [OF _ _ _ _ this, of "''a@b.c''" acct_locked acct_random 9 "''000005''"]
  show ?thesis by (simp add: acct_locked_def)
qed

subsection \<open>The number of guesses\<close>

definition wrong_guess :: "auth_lib \<Rightarrow> user \<Rightarrow> auth_random \<times> instant \<times> string \<Rightarrow> bool" where
  "wrong_guess lib u g = (case g of (r, now, c) \<Rightarrow>
     now \<le> the (u_otpExpiry u) \<and> \<not> bc_compare (al_bcrypt lib) c (the (u_otp u)))"

definition guess_all :: "auth_lib \<Rightarrow> string \<Rightarrow> (auth_random \<times> instant \<times> string) list \<Rightarrow> account \<Rightarrow> account" where
  "guess_all lib e gs s = fold (\<lambda>(r, now, c) s. snd (verify_otp lib r now e c s)) gs s"

text \<open>The code of \<open>u\<close> after \<open>n\<close> wrong guesses.\<close>

definition guessed :: "user \<Rightarrow> nat \<Rightarrow> user \<Rightarrow> bool" where
  "guessed u n v \<longleftrightarrow> u_otp v = u_otp u \<and> u_otpExpiry v = u_otpExpiry u
     \<and> u_otpAttempts v = int (min n 3) \<and> (u_otpInvalidatedAt v \<noteq> None \<longleftrightarrow> 3 \<le> n)"

lemma guess_step:
  assumes live: "truthy (u_otp u)" "u_otpExpiry u \<noteq> None" and w: "wrong_guess lib u (r, now, c)"
    and sat: "ud.entry_sat (guessed u n) e (ac_db s)"
  shows "ud.entry_sat (guessed u (Suc n)) e (ac_db (snd (verify_otp lib r now e c s)))"
proof -
  obtain v where v: "find_user_by_email (ac_db s) e = Some v" "guessed u n v"
    and ok: "users_ok (ac_db s)" using sat by (auto simp: ud.entry_sat_def)
  note upd = updating_found [OF ok v(1)]
  show ?thesis
  proof (cases "3 \<le> n")
    case True
    with v live have "snd (verify_otp lib r now e c s) = s"
      by (auto simp: verify_otp_def guessed_def)
    with v ok True show ?thesis by (auto simp: ud.entry_sat_def guessed_def)
  next
    case False
    let ?p = "if 2 \<le> n then no_patch\<lparr>up_otpAttempts := Some (int n + 1), up_otpInvalidatedAt := Some now\<rparr>
      else no_patch\<lparr>up_otpAttempts := Some (int n + 1)\<rparr>"
    have db: "ac_db (snd (verify_otp lib r now e c s)) = patched ?p v (ac_db s)"
      using False v live w
      by (auto simp: verify_otp_def guessed_def wrong_guess_def upd OTP_MAX_ATTEMPTS_def Let_def)
    have p: "up_email ?p = None" by simp
    have "guessed u (Suc n) (apply_patch ?p v)"
      using False v(2) by (auto simp: guessed_def)
    then show ?thesis
      using ok find_email_patched [OF ok v(1) p] patched_ok [OF ok _ p] v(1)
      unfolding db ud.entry_sat_def by (auto simp: find_email_iff)
  qed
qed

lemma guess_all_guessed:
  assumes "truthy (u_otp u)" "u_otpExpiry u \<noteq> None" "\<forall>g \<in> set gs. wrong_guess lib u g"
    "ud.entry_sat (guessed u n) e (ac_db s)"
  shows "ud.entry_sat (guessed u (n + length gs)) e (ac_db (guess_all lib e gs s))"
  using assms(3,4)
proof (induction gs arbitrary: s n)
  case (Cons g gs)
  obtain r now c where g: "g = (r, now, c)" by (metis surj_pair)
  have "ud.entry_sat (guessed u (Suc n)) e (ac_db (snd (verify_otp lib r now e c s)))"
    using Cons.prems g by (intro guess_step [OF assms(1,2)]) auto
  from Cons.IH [OF _ this] Cons.prems(1) g show ?case by (simp add: guess_all_def)
qed (simp add: guess_all_def)

lemma otp_accepted:
  assumes "users_ok (ac_db s)" "find_user_by_email (ac_db s) e = Some u"
    "truthy (u_otp u)" "u_otpExpiry u = Some x" "u_otpInvalidatedAt u = None"
    "now \<le> x" "bc_compare (al_bcrypt lib) c (the (u_otp u))"
  shows "\<exists>tokens s'. verify_otp lib r now e c s = (Inr tokens, s')"
  using assms
  by (simp add: verify_otp_def updating_found [OF assms(1,2)] issue_tokens_def Let_def)

text \<open>C17: A fresh one-time code survives exactly two wrong guesses: after any number of
  wrong guesses within its lifetime, the right code is accepted if and only if fewer than
  three were made.\<close>
theorem otp_accepts_within_three_guesses:
  assumes "users_ok (ac_db s)" "find_user_by_email (ac_db s) e = Some u"
    "truthy (u_otp u)" "u_otpExpiry u = Some x" "u_otpAttempts u = 0" "u_otpInvalidatedAt u = None"
    "\<forall>g \<in> set gs. wrong_guess lib u g"
    "now \<le> x" "bc_compare (al_bcrypt lib) c (the (u_otp u))"
  shows "(\<exists>tokens. fst (verify_otp lib r now e c (guess_all lib e gs s)) = Inr tokens)
    \<longleftrightarrow> length gs < 3"
proof -
  have "ud.entry_sat (guessed u 0) e (ac_db s)"
    using assms by (simp add: ud.entry_sat_def guessed_def)
  from guess_all_guessed [OF assms(3) _ assms(7) this] assms(4)
  obtain v where v: "find_user_by_email (ac_db (guess_all lib e gs s)) e = Some v"
    "guessed u (length gs) v" and ok: "users_ok (ac_db (guess_all lib e gs s))"
    by (auto simp: ud.entry_sat_def)
  show ?thesis
  proof (cases "length gs < 3")
    case True
    with v(2) assms(3,4,8,9) have "\<exists>tokens s'. verify_otp lib r now e c (guess_all lib e gs s)
        = (Inr tokens, s')"
      by (intro otp_accepted [OF ok v(1)]) (simp_all add: guessed_def)
    with True show ?thesis by (metis fst_conv)
  next
    case False
    with v(2) have "u_otpInvalidatedAt v \<noteq> None" by (simp add: guessed_def)
    with False show ?thesis by (simp add: verify_otp_def v(1))
  qed
qed

theorem otp_accepts_within_three_guesses_witness:
  "\<exists>tokens. fst (verify_otp acct_lib acct_random 9 ''a@b.c'' ''123456''
     (guess_all acct_lib ''a@b.c'' [(acct_random, 3, ''000000''), (acct_random, 4, ''000000'')]
       (acct_state acct_user))) = Inr tokens"
  using otp_accepts_within_three_guesses [of "acct_state acct_user" "''a@b.c''" acct_user 600000
      "[(acct_random, 3, ''000000''), (acct_random, 4, ''000000'')]" acct_lib 9 "''123456''" acct_random]
  by (simp add: wrong_guess_def)

subsection \<open>What a successful verification leaves behind\<close>

text \<open>A successful verification leaves the one-time code in place. Until it expires the
  same code verifies again, and it also resets the password of the account.\<close>
theorem used_otp_stays_valid:
  assumes "users_ok (ac_db s)" "find_user_by_email (ac_db s) e = Some u" "u_otpExpiry u = Some x"
    "verify_otp lib r now e c s = (Inr tokens, s')"
    "now' \<le> x" "po_valid (validate_password (al_policy lib) newPassword)"
  shows "(\<exists>tokens'. fst (verify_otp lib r' now' e c s') = Inr tokens')
    \<and> fst (reset_password lib r' now' e c newPassword s') = Inr ''Password reset successfully''"
proof -
  note ok = assms(1) and u = assms(2)
  have s1: "truthy (u_otp u)" "u_otpInvalidatedAt u = None"
      "bc_compare (al_bcrypt lib) c (the (u_otp u))"
    using assms(4) by (auto simp: verify_otp_def u Let_def updating_found [OF ok u] split: if_splits)
  define p where "p = no_patch\<lparr>up_isVerified := Some True, up_otp := None, up_otpExpiry := None,
    up_otpAttempts := Some 0, up_otpInvalidatedAt := None, up_otpResendCount := Some 0\<rparr>"
  have pe: "up_email p = None" by (simp add: p_def)
  have "ac_db s' = patched p u (ac_db s)"
    using assms(4) s1
    by (auto simp: verify_otp_def u Let_def issue_tokens_def p_def [symmetric]
        updating_found [OF ok u pe] split: if_splits)
  then have u': "find_user_by_email (ac_db s') e = Some (apply_patch p u)"
    and ok': "users_ok (ac_db s')"
    using find_email_patched [OF ok u pe] patched_ok [OF ok _ pe, of u] u ok
    by (simp_all add: find_email_iff)
  have fields: "u_otp (apply_patch p u) = u_otp u" "u_otpExpiry (apply_patch p u) = Some x"
    "u_otpInvalidatedAt (apply_patch p u) = None"
    using s1 assms(3) by (simp_all add: p_def)
  note upd = updating_found [OF ok' u', simplified]
  show ?thesis
    using s1 assms(5,6) fields
    by (simp add: verify_otp_def reset_password_def u' upd Let_def issue_tokens_def)
qed

definition long_password :: string where "long_password = ''Correct-Horse-9''"

lemma long_password_ok: "po_valid (validate_password (al_policy acct_lib) long_password)"
proof -
  have "length long_password = 15" by (simp add: long_password_def)
  then have "calculate_entropy (\<lambda>_. 6) long_password = 90"
    using fl_int [of 90]
    by (simp add: calculate_entropy_def charset_size_zero js_mul_def long_password_def)
  moreover have "to_lower long_password \<notin> set common_passwords"
    by code_simp
  ultimately show ?thesis
    by (simp add: validate_password_valid acct_lib_def MIN_ENTROPY_BITS_def)
qed

theorem used_otp_stays_valid_witness:
  "fst (reset_password acct_lib acct_random 8 ''a@b.c'' ''123456'' long_password
     (snd (verify_otp acct_lib acct_random 7 ''a@b.c'' ''123456'' (acct_state acct_user))))
   = Inr ''Password reset successfully''"
proof -
  obtain tokens s' where v: "verify_otp acct_lib acct_random 7 ''a@b.c'' ''123456''
      (acct_state acct_user) = (Inr tokens, s')"
    using otp_accepted [of "acct_state acct_user" "''a@b.c''" acct_user 600000 7 acct_lib
        "''123456''" acct_random] by auto
  from used_otp_stays_valid [OF _ _ _ v _ long_password_ok, of acct_user 600000 8 acct_random]
  show ?thesis by (simp add: v)
qed

text \<open>Guessing through the reset form is not limited: a wrong code changes nothing, so
  after any number of wrong guesses, and even when the code was invalidated, the right code
  still resets the password.\<close>
theorem reset_guesses_are_unlimited:
  assumes "users_ok (ac_db s)" "find_user_by_email (ac_db s) e = Some u"
    "truthy (u_otp u)" "u_otpExpiry u = Some x"
    "\<forall>g \<in> set gs. wrong_guess lib u g"
    "now \<le> x" "bc_compare (al_bcrypt lib) c (the (u_otp u))"
    "po_valid (validate_password (al_policy lib) newPassword)"
  shows "fst (reset_password lib r now e c newPassword
      (fold (\<lambda>(r, t, c) s. snd (reset_password lib r t e c newPassword s)) gs s))
    = Inr ''Password reset successfully''"
proof -
  have "fold (\<lambda>(r, t, c) s. snd (reset_password lib r t e c newPassword s)) gs s = s"
    using assms(5)
  proof (induction gs)
    case (Cons g gs)
    then show ?case
      by (cases g) (use assms(2-4) in \<open>simp add: reset_password_def wrong_guess_def\<close>)
  qed simp
  then show ?thesis
    using assms
    by (simp add: reset_password_def Let_def updating_found [OF assms(1,2)])
qed

theorem reset_guesses_are_unlimited_witness:
  "fst (reset_password acct_lib acct_random 9 ''a@b.c'' ''123456'' long_password
      (fold (\<lambda>(r, t, c) s. snd (reset_password acct_lib r t ''a@b.c'' c long_password s))
        [(acct_random, 3, ''000000'')] (acct_state acct_locked)))
   = Inr ''Password reset successfully''"
  by (rule reset_guesses_are_unlimited [of _ _ acct_locked 600000])
     (simp_all add: acct_locked_def wrong_guess_def long_password_ok)

end
