(* ===== verification/Js_Strings.thy ===== *)
theory Js_Strings
  imports Text_Codecs
begin

text \<open>
  Text and values as the language handles them: white space and trimming, searching, case,
  truthiness of a value and the spread of one object into another. A character is a code unit
  below 256.
\<close>

definition ascii_ws :: "char \<Rightarrow> bool" where
  "ascii_ws c \<longleftrightarrow> c \<in> {CHR 0x09, CHR 0x0A, CHR 0x0C, CHR 0x0D, CHR '' ''}"

definition js_space :: "char \<Rightarrow> bool" where
  "js_space c \<longleftrightarrow> ascii_ws c \<or> c = CHR 0x0B \<or> c = CHR 0xA0"

definition js_trim :: "string \<Rightarrow> string" where
  "js_trim s = rev (dropWhile js_space (rev (dropWhile js_space s)))"

lemma trim_ends:
  assumes "s \<noteq> []" "\<not> js_space (hd s)" "\<not> js_space (last s)"
  shows "js_trim s = s"
proof -
  have "dropWhile js_space s = s" using assms(1,2) by (cases s) simp_all
  moreover have "dropWhile js_space (rev s) = rev s"
    using assms(1,3) by (cases "rev s") (simp_all add: hd_rev [symmetric])
  ultimately show ?thesis by (simp add: js_trim_def)
qed

subsection \<open>Searching\<close>

fun contains_text :: "string \<Rightarrow> string \<Rightarrow> bool" where
  "contains_text p [] = (p = [])"
| "contains_text p (c # s) = (starts_with p (c # s) \<or> contains_text p s)"

lemma contains_textI: "contains_text p (x @ p @ y)"
proof (induction x)
  case Nil
  show ?case using starts_with_append [of p y] by (cases "p @ y") (simp_all del: starts_with_append)
qed simp

lemma contains_text_iff: "contains_text p s \<longleftrightarrow> (\<exists>x y. s = x @ p @ y)"
proof
  show "contains_text p s \<Longrightarrow> \<exists>x y. s = x @ p @ y"
  proof (induction s)
    case (Cons c s)
    then consider "starts_with p (c # s)" | "contains_text p s" by auto
    then show ?case
    proof cases
      case 1
      then have "c # s = [] @ p @ drop (length p) (c # s)"
        using append_take_drop_id [of "length p" "c # s"] by (simp add: starts_with_iff)
      then show ?thesis by blast
    next
      case 2
      then obtain x y where "s = x @ p @ y" using Cons.IH by blast
      then have "c # s = (c # x) @ p @ y" by simp
      then show ?thesis by blast
    qed
  qed simp
qed (auto simp: contains_textI)

subsection \<open>Case\<close>

definition js_lower_char :: "char \<Rightarrow> char" where
  "js_lower_char c =
     (if 65 \<le> byte c \<and> byte c \<le> 90 \<or> 192 \<le> byte c \<and> byte c \<le> 222 \<and> byte c \<noteq> 215
      then char_of (byte c + 32) else c)"

definition js_lower :: "string \<Rightarrow> string" where "js_lower = map js_lower_char"

lemma js_lower_idem [simp]: "js_lower (js_lower s) = js_lower s"
proof -
  have "js_lower_char (js_lower_char c) = js_lower_char c" for c
    using byte_less [of c] by (simp add: js_lower_char_def)
  then show ?thesis by (simp add: js_lower_def comp_def)
qed

lemma js_lower_append: "js_lower (x @ y) = js_lower x @ js_lower y"
  by (simp add: js_lower_def)

lemma length_js_lower [simp]: "length (js_lower s) = length s"
  by (simp add: js_lower_def)

subsection \<open>Values\<close>

definition json_truthy :: "json option \<Rightarrow> bool" where
  "json_truthy j = (case j of None \<Rightarrow> False | Some JNull \<Rightarrow> False | Some (JBool b) \<Rightarrow> b
     | Some (JNum n) \<Rightarrow> n \<noteq> 0 | Some (JStr s) \<Rightarrow> s \<noteq> [] | Some _ \<Rightarrow> True)"

fun spread_into :: "(string \<times> json) list \<Rightarrow> (string \<times> json) list \<Rightarrow> (string \<times> json) list" where
  "spread_into ps [] = ps"
| "spread_into ps ((k, v) # us) =
     spread_into (if k \<in> fst ` set ps then map (\<lambda>p. if fst p = k then (k, v) else p) ps
                  else ps @ [(k, v)]) us"

definition spread :: "json \<Rightarrow> json \<Rightarrow> json" where \<comment> \<open>\<open>{...a, ...b}\<close>\<close>
  "spread a b = JObj (spread_into (case a of JObj ps \<Rightarrow> ps | _ \<Rightarrow> []) (case b of JObj us \<Rightarrow> us | _ \<Rightarrow> []))"

end
