(* ===== verification/Sanitizer.thy ===== *)
theory Sanitizer
  imports Auth_Correct Js_Strings
begin

text \<open>
  The global sanitizing pipe (backend/src/common/pipes/sanitization.pipe.ts and
  backend/src/common/transformers/sanitize-string.transformer.ts) and the routes of the passwords
  behind it (backend/src/auth/auth.controller.ts, backend/src/users/users.controller.ts). A
  character is a code unit below 256, on which the normal form NFC is the identity. The log lines
  of the pipe are left out. The lemmas: no tag survives the pipe, two passes reach a fixed point,
  and which passwords the pipe makes the same.
\<close>

subsection \<open>One text\<close>

text \<open>\<open>replace(/<[^>]*>/g, '')\<close>: each tag runs to the next closing bracket.\<close>

function strip_tags :: "string \<Rightarrow> string" where
  "strip_tags [] = []"
| "strip_tags (c # s) =
     (if c = CHR ''<'' \<and> CHR ''>'' \<in> set s then strip_tags (tl (dropWhile (\<lambda>x. x \<noteq> CHR ''>'') s))
      else c # strip_tags s)"
  by pat_completeness auto

lemma tl_dropWhile_length: "length (tl (dropWhile p s)) \<le> length s"
  using length_dropWhile_le [of p s] by simp

termination strip_tags
  by (relation "measure length") (auto simp: less_Suc_eq_le intro: le_trans [OF _ tl_dropWhile_length])

definition sanitize_string_value :: "string \<Rightarrow> string" where
  "sanitize_string_value v = strip_tags (js_trim v)"

subsection \<open>A body\<close>

text \<open>\<open>exempt\<close> are the properties the class of the body marks with NoSanitize; nested objects have no
  class, texts in arrays are left as they are.\<close>

fun sanitize_object :: "(string \<Rightarrow> bool) \<Rightarrow> (string \<times> json) list \<Rightarrow> (string \<times> json) list" where
  "sanitize_object exempt [] = []"
| "sanitize_object exempt ((k, JObj fs) # r) = (k, JObj (sanitize_object (\<lambda>_. False) fs)) # sanitize_object exempt r"
| "sanitize_object exempt ((k, JStr s) # r) =
     (k, JStr (if exempt k then s else sanitize_string_value s)) # sanitize_object exempt r"
| "sanitize_object exempt ((k, j) # r) = (k, j) # sanitize_object exempt r"

definition sanitization_pipe :: "(string \<Rightarrow> bool) \<Rightarrow> json \<Rightarrow> json" where
  "sanitization_pipe exempt v = (case v of JObj fs \<Rightarrow> JObj (sanitize_object exempt fs) | _ \<Rightarrow> v)"

subsection \<open>The routes of the passwords\<close>

text \<open>The bodies of the registration, the log-in and the change of a password are of no class, so
  nothing in them is exempt and nothing is validated; the reset exempts its code. The fields are
  texts.\<close>

definition text_field :: "json \<Rightarrow> string \<Rightarrow> string" where
  "text_field body k = (case json_field body k of Some (JStr s) \<Rightarrow> s | _ \<Rightarrow> [])"

definition optional_field :: "json \<Rightarrow> string \<Rightarrow> string option" where
  "optional_field body k = (case json_field body k of Some (JStr s) \<Rightarrow> Some s | _ \<Rightarrow> None)"

definition register_route :: "auth_lib \<Rightarrow> auth_random \<Rightarrow> instant \<Rightarrow> json \<Rightarrow> account \<Rightarrow> string auth_outcome" where
  "register_route lib r now body s =
     (let b = sanitization_pipe (\<lambda>_. False) body
      in register lib r now (text_field b ''email'') (text_field b ''password'')
           (optional_field b ''firstName'') (optional_field b ''lastName'') s)"

definition login_route :: "auth_lib \<Rightarrow> auth_random \<Rightarrow> instant \<Rightarrow> json \<Rightarrow> account \<Rightarrow> token_pair auth_outcome" where
  "login_route lib r now body s =
     (let b = sanitization_pipe (\<lambda>_. False) body
      in login lib r now (text_field b ''email'') (text_field b ''password'') s)"

definition reset_password_exempt :: "string \<Rightarrow> bool" where "reset_password_exempt k \<longleftrightarrow> k = ''otp''"

definition reset_password_route :: "auth_lib \<Rightarrow> auth_random \<Rightarrow> instant \<Rightarrow> json \<Rightarrow> account \<Rightarrow> string auth_outcome" where
  "reset_password_route lib r now body s =
     (let b = sanitization_pipe reset_password_exempt body
      in reset_password lib r now (text_field b ''email'') (text_field b ''otp'') (text_field b ''newPassword'') s)"

definition change_password_route ::
  "bcrypt_lib \<Rightarrow> policy_env \<Rightarrow> nat \<Rightarrow> uuid \<Rightarrow> json \<Rightarrow> db \<Rightarrow> (db, string) outcome" where
  "change_password_route bc env salt userId body d =
     (let b = sanitization_pipe (\<lambda>_. False) body
      in change_password bc env salt userId (text_field b ''currentPassword'') (text_field b ''newPassword'') d)"

subsection \<open>What survives\<close>

definition tag_free :: "string \<Rightarrow> bool" where
  "tag_free s \<longleftrightarrow> (\<forall>x y. s = x @ CHR ''<'' # y \<longrightarrow> CHR ''>'' \<notin> set y)"

lemma tag_free_Cons: "tag_free (c # s) \<longleftrightarrow> tag_free s \<and> (c = CHR ''<'' \<longrightarrow> CHR ''>'' \<notin> set s)"
proof
  assume a: "tag_free (c # s)"
  have "tag_free s" unfolding tag_free_def
  proof (intro allI impI)
    fix x y assume "s = x @ CHR ''<'' # y"
    then have "c # s = (c # x) @ CHR ''<'' # y" by simp
    then show "CHR ''>'' \<notin> set y" using a unfolding tag_free_def by blast
  qed
  moreover have "c = CHR ''<'' \<longrightarrow> CHR ''>'' \<notin> set s"
  proof
    assume "c = CHR ''<''"
    then have "c # s = [] @ CHR ''<'' # s" by simp
    then show "CHR ''>'' \<notin> set s" using a unfolding tag_free_def by blast
  qed
  ultimately show "tag_free s \<and> (c = CHR ''<'' \<longrightarrow> CHR ''>'' \<notin> set s)" ..
next
  assume a: "tag_free s \<and> (c = CHR ''<'' \<longrightarrow> CHR ''>'' \<notin> set s)"
  show "tag_free (c # s)" unfolding tag_free_def
  proof (intro allI impI)
    fix x y assume "c # s = x @ CHR ''<'' # y"
    then show "CHR ''>'' \<notin> set y" using a by (cases x) (auto simp: tag_free_def)
  qed
qed

lemma strip_tags_subset: "set (strip_tags s) \<subseteq> set s"
proof (induction s rule: strip_tags.induct)
  case (2 c s)
  show ?case
  proof (cases "c = CHR ''<'' \<and> CHR ''>'' \<in> set s")
    case True
    have "x \<in> set s" if "x \<in> set (tl (dropWhile (\<lambda>x. x \<noteq> CHR ''>'') s))" for x
    proof -
      have "x \<in> set (dropWhile (\<lambda>x. x \<noteq> CHR ''>'') s)"
        using that by (cases "dropWhile (\<lambda>x. x \<noteq> CHR ''>'') s") simp_all
      then show ?thesis by (simp add: set_dropWhileD)
    qed
    then show ?thesis using 2(1) True by auto
  next
    case False
    then show ?thesis using 2(2) by auto
  qed
qed simp

lemma strip_tags_free: "tag_free (strip_tags s)"
proof (induction s rule: strip_tags.induct)
  case 1
  show ?case by (simp add: tag_free_def)
next
  case (2 c s)
  show ?case
  proof (cases "c = CHR ''<'' \<and> CHR ''>'' \<in> set s")
    case True
    then show ?thesis using 2(1) by simp
  next
    case False
    then show ?thesis using 2(2) strip_tags_subset [of s] by (auto simp: tag_free_Cons)
  qed
qed

lemma strip_tags_id: "tag_free s \<Longrightarrow> strip_tags s = s"
  by (induction s) (auto simp: tag_free_Cons)

text \<open>The texts of a body the pipe is responsible for, and what it makes of them.\<close>

fun object_clean :: "(string \<Rightarrow> bool) \<Rightarrow> (string \<times> json) list \<Rightarrow> bool" where
  "object_clean exempt [] \<longleftrightarrow> True"
| "object_clean exempt ((k, JObj fs) # r) \<longleftrightarrow> object_clean (\<lambda>_. False) fs \<and> object_clean exempt r"
| "object_clean exempt ((k, JStr s) # r) \<longleftrightarrow> (exempt k \<or> tag_free s) \<and> object_clean exempt r"
| "object_clean exempt ((k, j) # r) \<longleftrightarrow> object_clean exempt r"

lemma sanitize_object_clean: "object_clean exempt (sanitize_object exempt fs)"
  by (induction exempt fs rule: sanitize_object.induct) (simp_all add: sanitize_string_value_def strip_tags_free)

lemma trim_parts: "\<exists>x y. s = x @ js_trim s @ y"
proof -
  have "s = takeWhile js_space s @ dropWhile js_space s" by simp
  moreover have "dropWhile js_space s = rev (dropWhile js_space (rev (dropWhile js_space s))) @
      rev (takeWhile js_space (rev (dropWhile js_space s)))"
    by (metis rev_append rev_rev_ident takeWhile_dropWhile_id)
  ultimately show ?thesis unfolding js_trim_def by metis
qed

lemma tag_free_part: "tag_free (x @ m @ y) \<Longrightarrow> tag_free m"
  unfolding tag_free_def by (metis Un_iff append.assoc append_Cons set_append)

lemma tag_free_trim: "tag_free s \<Longrightarrow> tag_free (js_trim s)"
  using trim_parts [of s] tag_free_part by metis

lemma trim_trim: "js_trim (js_trim s) = js_trim s"
proof (cases "js_trim s = []")
  case False
  let ?d = "dropWhile js_space s"
  have r: "js_trim s = rev (dropWhile js_space (rev ?d))" by (simp add: js_trim_def)
  have ne: "dropWhile js_space (rev ?d) \<noteq> []" using False r by simp
  have "\<not> js_space (hd (dropWhile js_space (rev ?d)))" using ne by (rule hd_dropWhile)
  then have l: "\<not> js_space (last (js_trim s))" using ne by (simp add: r last_rev)
  have "?d \<noteq> []"
  proof
    assume "?d = []"
    then show False using ne by (simp only: rev.simps dropWhile.simps)
  qed
  then have "\<not> js_space (hd ?d)" by (rule hd_dropWhile)
  moreover have "hd (js_trim s) = hd ?d"
  proof -
    obtain z where "rev ?d = z @ dropWhile js_space (rev ?d)" by (metis takeWhile_dropWhile_id)
    then have "?d = js_trim s @ rev z" by (metis r rev_append rev_rev_ident)
    then show ?thesis using False by (metis hd_append2)
  qed
  ultimately have h: "\<not> js_space (hd (js_trim s))" by simp
  show ?thesis by (rule trim_ends [OF False h l])
next
  case True
  have "js_trim [] = []" by (simp add: js_trim_def)
  then show ?thesis by (simp only: True)
qed

text \<open>No text that passes the pipe still has a tag in it, at any depth of the body, but for the exempt
  fields and the elements of arrays. The trimming comes before the stripping, so one pass may leave
  white space at the ends; a second pass removes it, and further passes change nothing.\<close>

theorem sanitizer_fixpoint:
  "object_clean exempt (sanitize_object exempt fs) \<and>
   sanitize_string_value (sanitize_string_value v) = js_trim (sanitize_string_value v) \<and>
   sanitize_string_value (js_trim (sanitize_string_value v)) = js_trim (sanitize_string_value v)"
proof -
  have "tag_free (js_trim (strip_tags x))" for x by (rule tag_free_trim [OF strip_tags_free])
  then show ?thesis
    using sanitize_object_clean by (simp add: sanitize_string_value_def strip_tags_id trim_trim)
qed

lemma sanitizer_leaves_space: "sanitize_string_value ''<b> x'' = '' x''"
  by code_simp

subsection \<open>Which passwords are the same\<close>

definition faithful_bcrypt :: "bcrypt_lib \<Rightarrow> bool" where
  "faithful_bcrypt bc \<longleftrightarrow> (\<forall>salt p q. bc_compare bc q (bc_hash bc salt p) = (q = p))"

lemma piped_text:
  "json_field (sanitization_pipe (\<lambda>_. False) (JObj [(k1, JStr a), (k2, JStr b)])) k1 = Some (JStr (sanitize_string_value a))"
  "k1 \<noteq> k2 \<Longrightarrow>
   json_field (sanitization_pipe (\<lambda>_. False) (JObj [(k1, JStr a), (k2, JStr b)])) k2 = Some (JStr (sanitize_string_value b))"
  by (simp_all add: sanitization_pipe_def)

text \<open>A password counts only up to tags and outer white space. For an account whose password was typed
  as p, the log-in gets past the password exactly for the texts the pipe makes the same as p, and
  so does the change of the password.\<close>

theorem password_modulo_tags:
  assumes "faithful_bcrypt (al_bcrypt lib)" "sanitize_string_value email = email"
    and "find_user_by_email (ac_db s) email = Some u" "find_user (ac_db s) (u_id u) = Some u"
    and "u_passwordHash u = bc_hash (al_bcrypt lib) salt (sanitize_string_value p)"
  shows "(fst (login_route lib r now (JObj [(''email'', JStr email), (''password'', JStr q)]) s) =
       Inl (Http (Unauthorized ''Invalid credentials''))) = (sanitize_string_value q \<noteq> sanitize_string_value p) \<and>
    (fst (change_password_route (al_bcrypt lib) env salt' (u_id u)
        (JObj [(''currentPassword'', JStr q), (''newPassword'', JStr n)]) (ac_db s)) =
       Inl (BadRequest ''Current password is incorrect'')) = (sanitize_string_value q \<noteq> sanitize_string_value p)"
proof -
  have c: "bc_compare (al_bcrypt lib) (sanitize_string_value q) (u_passwordHash u) = (sanitize_string_value q = sanitize_string_value p)"
    using assms(1,5) by (simp add: faithful_bcrypt_def)
  have l: "login_route lib r now (JObj [(''email'', JStr email), (''password'', JStr q)]) s =
      login lib r now email (sanitize_string_value q) s"
    by (simp add: login_route_def text_field_def piped_text assms(2))
  have "(fst (login lib r now email (sanitize_string_value q) s) = Inl (Http (Unauthorized ''Invalid credentials''))) =
      (sanitize_string_value q \<noteq> sanitize_string_value p)"
    using assms(3) c by (simp add: login_def issue_tokens_def Let_def)
  moreover have "change_password_route (al_bcrypt lib) env salt' (u_id u)
      (JObj [(''currentPassword'', JStr q), (''newPassword'', JStr n)]) (ac_db s) =
    change_password (al_bcrypt lib) env salt' (u_id u) (sanitize_string_value q) (sanitize_string_value n) (ac_db s)"
    by (simp add: change_password_route_def text_field_def piped_text)
  moreover have "(fst (change_password (al_bcrypt lib) env salt' (u_id u) (sanitize_string_value q) (sanitize_string_value n) (ac_db s)) =
       Inl (BadRequest ''Current password is incorrect'')) = (sanitize_string_value q \<noteq> sanitize_string_value p)"
    using assms(4) c by (auto simp: change_password_def save_user_def split: sum.splits prod.splits)
  ultimately show ?thesis by (simp only: l)
qed

definition plain_bcrypt :: bcrypt_lib where
  "plain_bcrypt = \<lparr>bc_hash = (\<lambda>_ p. p), bc_compare = (\<lambda>q h. q = h)\<rparr>"

lemma password_modulo_tags_witness:
  "fst (login_route (acct_lib\<lparr>al_bcrypt := plain_bcrypt\<rparr>) acct_random 5
      (JObj [(''email'', JStr ''a@b.c''), (''password'', JStr ''se<i>cret '')])
      (acct_state (acct_user\<lparr>u_passwordHash := ''secret''\<rparr>))) \<noteq> Inl (Http (Unauthorized ''Invalid credentials''))"
proof -
  let ?u = "acct_user\<lparr>u_passwordHash := ''secret''\<rparr>"
  have f: "faithful_bcrypt (al_bcrypt (acct_lib\<lparr>al_bcrypt := plain_bcrypt\<rparr>))"
    by (simp add: faithful_bcrypt_def plain_bcrypt_def)
  have e: "sanitize_string_value ''a@b.c'' = ''a@b.c''" by code_simp
  have w: "find_user_by_email (ac_db (acct_state ?u)) ''a@b.c'' = Some ?u" "find_user (ac_db (acct_state ?u)) (u_id ?u) = Some ?u"
    by (simp_all add: acct_state_def find_user_by_email_def live_user_def find_user_def)
  have p: "sanitize_string_value ''secret'' = ''secret''" "sanitize_string_value ''se<i>cret '' = ''secret''"
    by code_simp+
  show ?thesis
    using password_modulo_tags [OF f e w, of 0 "''secret''" acct_random 5 "''se<i>cret ''"] p
    by (simp add: plain_bcrypt_def)
qed

end
