(* ===== verification/Totp.thy ===== *)
theory Totp
  imports Users Text_Codecs "HOL-Library.Word" "HOL-Library.Signed_Division"
begin

unbundle bit_operations_syntax

text \<open>
  Time-based one-time passwords (backend/src/auth/totp.service.ts, totp.controller.ts): the
  base-32 codec and the truncation of the digest on 32-bit words, as the bitwise operators of
  the language compute them, the verification window, and the handlers that set up, enable,
  verify and disable the second factor. HMAC-SHA1 and the random bytes are parameters.
\<close>

type_synonym octet = "8 word"
type_synonym int32 = "32 word"

subsection \<open>Base 32\<close>

definition b32_alphabet :: string where
  "b32_alphabet = ''ABCDEFGHIJKLMNOPQRSTUVWXYZ234567''"

definition b32_char :: "int32 \<Rightarrow> char" where "b32_char i = b32_alphabet ! unat i"

definition b32_index :: "char \<Rightarrow> int32 option" where
  "b32_index c =
     (let u = (if is_lower c then char_of (of_char c - 32 :: nat) else c);
          n = length (takeWhile (\<lambda>a. a \<noteq> u) b32_alphabet)
      in if n < 32 then Some (of_nat n) else None)"

text \<open>The inner while loop: the digits that can be cut off the \<open>bits\<close> pending bits.\<close>

fun b32_digits :: "nat \<Rightarrow> int32 \<Rightarrow> int32 list \<times> nat" where
  "b32_digits bits v =
     (if 5 \<le> bits
      then (case b32_digits (bits - 5) v of (ds, b) \<Rightarrow> ((drop_bit (bits - 5) v AND 31) # ds, b))
      else ([], bits))"

declare b32_digits.simps [simp del]

fun b32_encode_from :: "nat \<Rightarrow> int32 \<Rightarrow> octet list \<Rightarrow> int32 list" where
  "b32_encode_from bits v [] = (if 0 < bits then [push_bit (5 - bits) v AND 31] else [])"
| "b32_encode_from bits v (b # bs) =
     (let v' = push_bit 8 v OR ucast b
      in case b32_digits (bits + 8) v' of (ds, bits') \<Rightarrow> ds @ b32_encode_from bits' v' bs)"

definition base32_encode :: "octet list \<Rightarrow> string" where
  "base32_encode bs = map b32_char (b32_encode_from 0 0 bs)"

fun b32_decode_from :: "nat \<Rightarrow> int32 \<Rightarrow> int32 list \<Rightarrow> octet list" where
  "b32_decode_from bits v [] = []"
| "b32_decode_from bits v (i # is) =
     (let v' = push_bit 5 v OR i
      in if 8 \<le> bits + 5
         then ucast (drop_bit (bits + 5 - 8) v' AND 255) # b32_decode_from (bits + 5 - 8) v' is
         else b32_decode_from (bits + 5) v' is)"

text \<open>None: the error of an invalid character.\<close>

fun b32_indices :: "string \<Rightarrow> int32 list option" where
  "b32_indices [] = Some []"
| "b32_indices (c # s) =
     (case b32_index c of None \<Rightarrow> None | Some i \<Rightarrow> map_option ((#) i) (b32_indices s))"

definition base32_decode :: "string \<Rightarrow> octet list option" where
  "base32_decode s = map_option (b32_decode_from 0 0) (b32_indices s)"

subsection \<open>HOTP and TOTP\<close>

definition TOTP_WINDOW :: int where "TOTP_WINDOW = 1"
definition TIME_STEP :: int where "TIME_STEP = 30"
definition DIGITS :: nat where "DIGITS = 6"

definition octet_at :: "octet list \<Rightarrow> nat \<Rightarrow> int32" where
  "octet_at d i = (if i < length d then ucast (d ! i) else 0)"

definition counter_buffer :: "int \<Rightarrow> octet list" where \<comment> \<open>\<open>writeBigInt64BE\<close>\<close>
  "counter_buffer n = map (\<lambda>k. ucast (drop_bit (8 * k) (of_int n :: 64 word))) (rev [0..<8])"

definition truncate_digest :: "octet list \<Rightarrow> int" where
  "truncate_digest digest =
     (let offset = unat (octet_at digest (length digest - 1) AND 0x0F);
          code = push_bit 24 (octet_at digest offset AND 0x7F)
              OR push_bit 16 (octet_at digest (offset + 1) AND 0xFF)
              OR push_bit 8 (octet_at digest (offset + 2) AND 0xFF)
              OR (octet_at digest (offset + 3) AND 0xFF)
      in sint code smod 10 ^ DIGITS)"

text \<open>\<open>hmac key message\<close> is the HMAC-SHA1 digest.\<close>

definition generate_hotp ::
  "(octet list \<Rightarrow> octet list \<Rightarrow> octet list) \<Rightarrow> string \<Rightarrow> int \<Rightarrow> int option" where
  "generate_hotp hmac secret counter =
     map_option (\<lambda>key. truncate_digest (hmac key (counter_buffer counter))) (base32_decode secret)"

text \<open>\<open>parseInt(token, 10)\<close>: white space, a sign, the longest run of digits.\<close>

definition parse_int :: "string \<Rightarrow> int option" where
  "parse_int s =
     (let t = dropWhile (\<lambda>c. c \<in> {CHR '' '', CHR 0x09, CHR 0x0A, CHR 0x0B, CHR 0x0C, CHR 0x0D, CHR 0xA0}) s;
          (neg, u) = (case t of [] \<Rightarrow> (False, []) | c # r \<Rightarrow>
             if c = CHR ''-'' then (True, r) else if c = CHR ''+'' then (False, r) else (False, t));
          ds = takeWhile is_decimal u
      in if ds = [] then None
         else Some (if neg then - int (nat_of_string ds) else int (nat_of_string ds)))"

text \<open>The loop over the window: None when the secret is not base 32 (the error is thrown).\<close>

fun totp_window ::
  "(octet list \<Rightarrow> octet list \<Rightarrow> octet list) \<Rightarrow> string \<Rightarrow> int \<Rightarrow> int list \<Rightarrow> bool option" where
  "totp_window hmac secret n [] = Some False"
| "totp_window hmac secret n (c # cs) =
     (case generate_hotp hmac secret c of
        None \<Rightarrow> None
      | Some expected \<Rightarrow> if expected = n then Some True else totp_window hmac secret n cs)"

definition verify_token ::
  "(octet list \<Rightarrow> octet list \<Rightarrow> octet list) \<Rightarrow> instant \<Rightarrow> string \<Rightarrow> string \<Rightarrow> bool option" where
  "verify_token hmac now secret token =
     (if length token \<noteq> DIGITS then Some False
      else (case parse_int token of
              None \<Rightarrow> Some False
            | Some n \<Rightarrow>
                (let timeCounter = now div 1000 div TIME_STEP
                 in totp_window hmac secret n
                      (map (\<lambda>i. timeCounter + i) [- TOTP_WINDOW .. TOTP_WINDOW]))))"

definition generate_totp_secret :: "octet list \<Rightarrow> string" where
  "generate_totp_secret random20 = base32_encode random20"

definition unreserved :: "char \<Rightarrow> bool" where
  "unreserved c \<longleftrightarrow> is_lower c \<or> is_upper c \<or> is_decimal c \<or>
     c \<in> set [CHR ''-'', CHR ''_'', CHR ''.'', CHR ''!'', CHR ''~'', CHR ''*'', CHR 0x27, CHR ''('', CHR '')'']"

definition hex_upper :: "nat \<Rightarrow> char" where
  "hex_upper n = (if n < 10 then char_of (48 + n) else char_of (55 + n))"

definition encode_uri_component :: "string \<Rightarrow> string" where
  "encode_uri_component s = concat (map (\<lambda>c. if unreserved c then [c]
     else [CHR 0x25, hex_upper (byte c div 16), hex_upper (byte c mod 16)]) s)"

definition generate_qr_code_uri :: "string \<Rightarrow> string \<Rightarrow> string \<Rightarrow> string" where
  "generate_qr_code_uri secret email issuer =
     ''otpauth://totp/'' @ encode_uri_component issuer @ '':'' @ encode_uri_component email @
     ''?secret='' @ secret @ ''&issuer='' @ encode_uri_component issuer @
     ''&algorithm=SHA1&digits='' @ nat_string DIGITS @ ''&period='' @ int_string TIME_STEP"

subsection \<open>Handlers\<close>

type_synonym hmac = "octet list \<Rightarrow> octet list \<Rightarrow> octet list"

record totp_setup =
  ts_secret :: string
  ts_qrCodeUri :: string
  ts_manualEntryKey :: string

definition setup_totp :: "octet list \<Rightarrow> uuid \<Rightarrow> db \<Rightarrow> (db, totp_setup) outcome" where
  "setup_totp random20 userId d =
     (case find_user d userId of
        None \<Rightarrow> (Inl (BadRequest ''User not found''), d)
      | Some u \<Rightarrow>
        if u_totpEnabled u then (Inl (BadRequest ''TOTP is already enabled for this account''), d)
        else (let secret = generate_totp_secret random20
              in (Inr \<lparr>ts_secret = secret,
                       ts_qrCodeUri = generate_qr_code_uri secret (u_email u) ''HubAssist'',
                       ts_manualEntryKey = secret\<rparr>, d)))"

definition invalid_secret :: http_error where
  "invalid_secret = ServerError ''Invalid base32 character''"

text \<open>\<open>backupCodes\<close> are the ten codes drawn by \<open>generateBackupCodes\<close>.\<close>

definition enable_totp ::
  "hmac \<Rightarrow> instant \<Rightarrow> octet list \<Rightarrow> string list \<Rightarrow> uuid \<Rightarrow> string \<Rightarrow> db
   \<Rightarrow> (db, string list) outcome" where
  "enable_totp hmac now random20 backupCodes userId code d =
     (case find_user d userId of
        None \<Rightarrow> (Inl (BadRequest ''User not found''), d)
      | Some u \<Rightarrow>
        if u_totpEnabled u then (Inl (BadRequest ''TOTP is already enabled for this account''), d)
        else
          (let secret = generate_totp_secret random20
           in case verify_token hmac now secret code of
                None \<Rightarrow> (Inl invalid_secret, d)
              | Some False \<Rightarrow> (Inl (BadRequest ''Invalid TOTP code. Please try again.''), d)
              | Some True \<Rightarrow>
                  (case update_user userId (no_patch\<lparr>up_totpEnabled := Some True,
                          up_totpSecret := Some (Some secret),
                          up_backupCodes := Some (Some backupCodes)\<rparr>) d of
                     (Inl e, d') \<Rightarrow> (Inl e, d')
                   | (Inr _, d') \<Rightarrow> (Inr backupCodes, d'))))"

definition verify_totp ::
  "hmac \<Rightarrow> instant \<Rightarrow> uuid \<Rightarrow> string \<Rightarrow> db \<Rightarrow> unit result" where
  "verify_totp hmac now userId code d =
     (case find_user d userId of
        None \<Rightarrow> Inl (BadRequest ''User not found'')
      | Some u \<Rightarrow>
        if \<not> u_totpEnabled u \<or> \<not> truthy (u_totpSecret u)
        then Inl (BadRequest ''TOTP is not enabled for this account'')
        else (case verify_token hmac now (the (u_totpSecret u)) code of
                None \<Rightarrow> Inl invalid_secret
              | Some False \<Rightarrow> Inl (BadRequest ''Invalid TOTP code'')
              | Some True \<Rightarrow> Inr ()))"

definition disable_totp ::
  "hmac \<Rightarrow> instant \<Rightarrow> uuid \<Rightarrow> string \<Rightarrow> db \<Rightarrow> (db, unit) outcome" where
  "disable_totp hmac now userId code d =
     (case find_user d userId of
        None \<Rightarrow> (Inl (BadRequest ''User not found''), d)
      | Some u \<Rightarrow>
        if \<not> u_totpEnabled u \<or> \<not> truthy (u_totpSecret u)
        then (Inl (BadRequest ''TOTP is not enabled for this account''), d)
        else (case verify_token hmac now (the (u_totpSecret u)) code of
                None \<Rightarrow> (Inl invalid_secret, d)
              | Some False \<Rightarrow> (Inl (BadRequest ''Invalid TOTP code. Cannot disable TOTP.''), d)
              | Some True \<Rightarrow>
                  (case update_user userId (no_patch\<lparr>up_totpEnabled := Some False,
                          up_totpSecret := Some None, up_backupCodes := Some None\<rparr>) d of
                     (Inl e, d') \<Rightarrow> (Inl e, d')
                   | (Inr _, d') \<Rightarrow> (Inr (), d'))))"

definition totp_status :: "uuid \<Rightarrow> db \<Rightarrow> bool result" where
  "totp_status userId d =
     (case find_user d userId of
        None \<Rightarrow> Inl (BadRequest ''User not found'')
      | Some u \<Rightarrow> Inr (u_totpEnabled u))"

end
