(* ===== verification/Client_Tokens.thy ===== *)
theory Client_Tokens
  imports Js_Strings Pagination Totp
begin

text \<open>
  Access tokens in the browser and at the edge of the front end: payload decoding, expiry and
  role checks (frontend/src/lib/auth/decodeToken.ts), the route middleware
  (frontend/src/middleware.ts), the expiry check of the persisted store
  (frontend/src/lib/store/authStore.ts), and the redirect and session-timeout hooks
  (frontend/src/lib/hooks/useAuthRedirect.ts, useSessionTimeout.ts). A token is its bytes;
  \<open>atob\<close> follows the forgiving decoder of the platform, which refuses the characters of
  the URL alphabet. A handler reads the clock once.
\<close>

subsection \<open>The platform's base64 decoder\<close>

definition drop_padding :: "string \<Rightarrow> string" where
  "drop_padding s =
     (if length s mod 4 = 0
      then (if s \<noteq> [] \<and> last s = CHR ''=''
            then (let t = butlast s in if t \<noteq> [] \<and> last t = CHR ''='' then butlast t else t)
            else s)
      else s)"

definition atob_char :: "char \<Rightarrow> bool" where
  "atob_char c \<longleftrightarrow> b64_index c \<noteq> None \<and> c \<noteq> CHR ''-'' \<and> c \<noteq> CHR ''_''"

text \<open>None: the \<open>InvalidCharacterError\<close>.\<close>

definition atob :: "string \<Rightarrow> string option" where
  "atob s =
     (let t = drop_padding (filter (\<lambda>c. \<not> ascii_ws c) s)
      in if length t mod 4 = 1 \<or> \<not> list_all atob_char t then None
         else Some (map char_of (b64_bytes (List.map_filter b64_index t))))"

subsection \<open>decodeToken.ts\<close>

definition token_segment :: "string \<Rightarrow> string option" where \<comment> \<open>\<open>token.split('.')[1]\<close>\<close>
  "token_segment token = (case split_on (CHR ''.'') token of _ # p # _ \<Rightarrow> Some p | _ \<Rightarrow> None)"

text \<open>None: the result is null, whether returned or parsed.\<close>

definition decode_token :: "string \<Rightarrow> json option" where
  "decode_token token =
     (case token_segment token of
        None \<Rightarrow> None
      | Some payloadSegment \<Rightarrow>
          if payloadSegment = [] then None
          else (case Option.bind (atob (map from_url_char payloadSegment)) json_parse of
                  None \<Rightarrow> None
                | Some JNull \<Rightarrow> None
                | Some j \<Rightarrow> Some j))"

definition is_token_expired :: "instant \<Rightarrow> string \<Rightarrow> bool" where
  "is_token_expired now token =
     (let payload = decode_token token in
      if \<not> json_truthy payload then True
      else (case json_field (the payload) ''exp'' of
              Some (JNum e) \<Rightarrow> js_int now \<ge> js_mul e 1000
            | _ \<Rightarrow> True))"

datatype required_role = OneRole string | AnyRole "string list"

definition roles_held :: "json \<Rightarrow> json list" where
  "roles_held role = (case role of JArr rs \<Rightarrow> rs | r \<Rightarrow> [r])"

definition has_required_role :: "json option \<Rightarrow> required_role option \<Rightarrow> bool" where
  "has_required_role payload required =
     (case required of
        None \<Rightarrow> True
      | Some (OneRole []) \<Rightarrow> True
      | Some q \<Rightarrow>
          (case Option.bind payload (\<lambda>p. json_field p ''role'') of
             None \<Rightarrow> False
           | Some role \<Rightarrow>
               json_truthy (Some role) \<and>
               list_ex (\<lambda>r. JStr r \<in> set (roles_held role))
                 (case q of OneRole r \<Rightarrow> [r] | AnyRole rs \<Rightarrow> rs)))"

subsection \<open>middleware.ts\<close>

definition protected_routes :: "(string \<times> required_role option) list" where
  "protected_routes = [(''/dashboard'', None), (''/profile'', None), (''/settings'', None),
     (''/admin'', Some (OneRole ''admin''))]"

definition route_covers :: "string \<Rightarrow> string \<Rightarrow> bool" where
  "route_covers route pathname \<longleftrightarrow> pathname = route \<or> starts_with (route @ ''/'') pathname"

definition matched_route :: "string \<Rightarrow> (string \<times> required_role option) option" where
  "matched_route pathname = find_row (\<lambda>r. route_covers (fst r) pathname) protected_routes"

text \<open>A redirect carries the path and its \<open>redirect\<close> search parameter.\<close>

datatype edge_response = Next | Redirect string "string option"

definition middleware :: "instant \<Rightarrow> string \<Rightarrow> string option \<Rightarrow> edge_response" where
  "middleware now pathname token =
     (if truthy token \<and> (pathname = ''/login'' \<or> pathname = ''/register'')
      then Redirect ''/dashboard'' None
      else (case matched_route pathname of
              None \<Rightarrow> Next
            | Some (route, requiredRole) \<Rightarrow>
                if \<not> truthy token then Redirect ''/login'' (Some pathname)
                else (let payload = decode_token (the token) in
                      if \<not> json_truthy payload \<or> is_token_expired now (the token)
                      then Redirect ''/login'' (Some pathname)
                      else if \<not> has_required_role payload requiredRole
                      then Redirect ''/dashboard'' None
                      else Next)))"

text \<open>The browser follows the redirects with the same cookie; None: still redirected after \<open>n\<close> hops.\<close>

fun follow :: "nat \<Rightarrow> instant \<Rightarrow> string \<Rightarrow> string option \<Rightarrow> string option" where
  "follow n now pathname token =
     (case middleware now pathname token of
        Next \<Rightarrow> Some pathname
      | Redirect p _ \<Rightarrow> (case n of 0 \<Rightarrow> None | Suc k \<Rightarrow> follow k now p token))"

declare follow.simps [simp del]

subsection \<open>The expiry check of the store\<close>

text \<open>Coercion of a value to a number, as the product \<open>payload.exp * 1000\<close> does it.\<close>

datatype js_number = NotANumber | PlusInf | MinusInf | Finite num

definition radix_value :: "nat \<Rightarrow> char \<Rightarrow> nat option" where
  "radix_value b c =
     (case hex_value c of None \<Rightarrow> None | Some d \<Rightarrow> if d < b then Some d else None)"

fun radix_digits :: "nat \<Rightarrow> nat \<Rightarrow> string \<Rightarrow> nat option" where
  "radix_digits b acc [] = Some acc"
| "radix_digits b acc (c # s) =
     (case radix_value b c of None \<Rightarrow> None | Some d \<Rightarrow> radix_digits b (acc * b + d) s)"

definition radix_literal :: "nat \<Rightarrow> string \<Rightarrow> js_number" where
  "radix_literal b s =
     (if s = [] then NotANumber
      else case radix_digits b 0 s of None \<Rightarrow> NotANumber | Some n \<Rightarrow> Finite (fl (of_nat n)))"

definition unsigned_decimal :: "string \<Rightarrow> num option" where
  "unsigned_decimal s =
     (let ip = takeWhile is_digit s; s1 = dropWhile is_digit s;
          dot = (s1 \<noteq> [] \<and> hd s1 = CHR ''.'');
          fp = (if dot then takeWhile is_digit (tl s1) else []);
          s2 = (if dot then dropWhile is_digit (tl s1) else s1)
      in if ip @ fp = [] then None
         else (case parse_exponent s2 of
                 Some (ex, []) \<Rightarrow>
                   Some (of_nat (nat_of_string (ip @ fp)) * 10 powi (ex - int (length fp)))
               | _ \<Rightarrow> None))"

definition string_to_number :: "string \<Rightarrow> js_number" where
  "string_to_number s =
     (let t = js_trim s; p = take 2 t;
          neg = (t \<noteq> [] \<and> hd t = CHR ''-'');
          u = (if t \<noteq> [] \<and> (hd t = CHR ''-'' \<or> hd t = CHR ''+'') then tl t else t)
      in if t = [] then Finite 0
         else if p = ''0x'' \<or> p = ''0X'' then radix_literal 16 (drop 2 t)
         else if p = ''0o'' \<or> p = ''0O'' then radix_literal 8 (drop 2 t)
         else if p = ''0b'' \<or> p = ''0B'' then radix_literal 2 (drop 2 t)
         else if u = ''Infinity'' then (if neg then MinusInf else PlusInf)
         else (case unsigned_decimal u of
                 None \<Rightarrow> NotANumber
               | Some x \<Rightarrow> Finite (fl (if neg then - x else x))))"

text \<open>An array is coerced through its text: one element stands for itself, no boolean and no
  list of several elements is a number.\<close>

fun to_number :: "json \<Rightarrow> js_number" where
  "to_number JNull = Finite 0"
| "to_number (JBool b) = Finite (if b then 1 else 0)"
| "to_number (JNum n) = Finite n"
| "to_number (JStr s) = string_to_number s"
| "to_number (JArr []) = Finite 0"
| "to_number (JArr [JBool _]) = NotANumber"
| "to_number (JArr [x]) = to_number x"
| "to_number (JArr (x # y # _)) = NotANumber"
| "to_number (JObj _) = NotANumber"

definition now_reaches :: "instant \<Rightarrow> json option \<Rightarrow> bool" where \<comment> \<open>\<open>Date.now() >= v * 1000\<close>\<close>
  "now_reaches now v =
     (case v of None \<Rightarrow> False
      | Some j \<Rightarrow> (case to_number j of NotANumber \<Rightarrow> False | PlusInf \<Rightarrow> False | MinusInf \<Rightarrow> True
                   | Finite e \<Rightarrow> js_int now \<ge> js_mul e 1000))"

text \<open>A missing segment reaches \<open>atob\<close> as the text \<open>undefined\<close>, which it refuses.\<close>

definition parse_payload :: "string \<Rightarrow> json option" where
  "parse_payload token =
     (let seg = (case token_segment token of None \<Rightarrow> ''undefined'' | Some p \<Rightarrow> p)
      in case Option.bind (atob seg) json_parse of
           None \<Rightarrow> None | Some JNull \<Rightarrow> None | Some j \<Rightarrow> Some j)"

definition store_token_expired :: "instant \<Rightarrow> string \<Rightarrow> bool" where
  "store_token_expired now token =
     (case parse_payload token of None \<Rightarrow> True | Some p \<Rightarrow> now_reaches now (json_field p ''exp''))"

subsection \<open>useAuthRedirect.ts\<close>

record redirect_options =
  rd_loginPath :: string
  rd_dashboardPath :: string
  rd_redirectIfAuthenticated :: bool
  rd_requireAuth :: bool

definition default_redirect :: redirect_options where
  "default_redirect = \<lparr>rd_loginPath = ''/login'', rd_dashboardPath = ''/dashboard'',
     rd_redirectIfAuthenticated = False, rd_requireAuth = False\<rparr>"

definition auth_redirect :: "redirect_options \<Rightarrow> bool \<Rightarrow> bool \<Rightarrow> string \<Rightarrow> string option" where
  "auth_redirect opts isAuthenticated isLoading pathname =
     (if isLoading then None
      else if rd_redirectIfAuthenticated opts \<and> isAuthenticated
      then (if \<not> starts_with (rd_dashboardPath opts) pathname then Some (rd_dashboardPath opts) else None)
      else if rd_requireAuth opts \<and> \<not> isAuthenticated
      then (if \<not> starts_with (rd_loginPath opts) pathname
            then Some (rd_loginPath opts @ ''?returnUrl='' @ encode_uri_component pathname)
            else None)
      else None)"

end
