(* ===== verification/Client_Session.thy ===== *)
theory Client_Session
  imports Client_Tokens
begin

text \<open>
  The session in the browser: the persisted auth store (frontend/src/lib/store/authStore.ts),
  the request and response interceptors of the API client with their queue of parked requests
  (frontend/src/lib/apiClient.ts), and the warning before a session ends
  (frontend/src/lib/hooks/useSessionTimeout.ts, components/auth/SessionTimeoutDialog.tsx). A user
  object is its JSON value. The refresh call is an event that brings its outcome: it goes to an
  entry endpoint, so its failure reaches the store whatever its status.
\<close>

subsection \<open>The auth store\<close>

record auth_store =
  as_user :: "json option"
  as_accessToken :: "string option"
  as_token :: "string option"
  as_isAuthenticated :: bool
  as_isLoading :: bool
  as_settings :: "json option"

definition initial_auth :: auth_store where
  "initial_auth = \<lparr>as_user = None, as_accessToken = None, as_token = None,
     as_isAuthenticated = False, as_isLoading = False, as_settings = None\<rparr>"

text \<open>The browser around the store: the \<open>token\<close> cookie, the persisted part of the store and
  the page the scripts navigated to.\<close>

record browser =
  br_auth :: auth_store
  br_cookie :: "string option"
  br_persisted :: "string option \<times> json option"
  br_location :: "string option"

definition partialize :: "auth_store \<Rightarrow> string option \<times> json option" where
  "partialize a = (as_accessToken a, as_user a)"

definition set_auth :: "(auth_store \<Rightarrow> auth_store) \<Rightarrow> browser \<Rightarrow> browser" where
  "set_auth f b = b\<lparr>br_auth := f (br_auth b), br_persisted := partialize (f (br_auth b))\<rparr>"

definition set_token :: "string \<Rightarrow> browser \<Rightarrow> browser" where
  "set_token t = set_auth (\<lambda>a. a\<lparr>as_accessToken := Some t, as_token := Some t, as_isAuthenticated := True\<rparr>)"

definition set_user :: "json \<Rightarrow> browser \<Rightarrow> browser" where
  "set_user u = set_auth (\<lambda>a. a\<lparr>as_user := Some u\<rparr>)"

definition set_settings :: "json \<Rightarrow> browser \<Rightarrow> browser" where
  "set_settings s = set_auth (\<lambda>a. a\<lparr>as_settings := Some s\<rparr>)"

definition update_user_info :: "json \<Rightarrow> browser \<Rightarrow> browser" where \<comment> \<open>\<open>updateUser\<close>\<close>
  "update_user_info updates b =
     (case as_user (br_auth b) of None \<Rightarrow> b
      | Some u \<Rightarrow> set_auth (\<lambda>a. a\<lparr>as_user := Some (spread u updates)\<rparr>) b)"

definition update_profile :: "json \<Rightarrow> browser \<Rightarrow> browser" where
  "update_profile changes = set_auth (\<lambda>a. a\<lparr>as_user := map_option (\<lambda>u. spread u changes) (as_user a)\<rparr>)"

definition clear_auth :: "browser \<Rightarrow> browser" where
  "clear_auth = set_auth (\<lambda>a. a\<lparr>as_user := None, as_accessToken := None, as_token := None,
     as_isAuthenticated := False\<rparr>)"

definition set_cookie :: "string \<Rightarrow> browser \<Rightarrow> browser" where \<comment> \<open>a value ends at a semicolon\<close>
  "set_cookie t b = b\<lparr>br_cookie := Some (takeWhile (\<lambda>c. c \<noteq> CHR '';'') t)\<rparr>"

definition initialize_auth :: "instant \<Rightarrow> browser \<Rightarrow> browser" where
  "initialize_auth now b =
     (let accessToken = as_accessToken (br_auth b) in
      if truthy accessToken \<and> \<not> store_token_expired now (the accessToken)
      then set_auth (\<lambda>a. a\<lparr>as_isAuthenticated := True, as_token := accessToken\<rparr>)
             (set_cookie (the accessToken) b)
      else clear_auth (b\<lparr>br_cookie := None\<rparr>))"

text \<open>\<open>login\<close> and \<open>register\<close> have the same body.\<close>

definition store_login :: "string \<Rightarrow> json option \<Rightarrow> browser \<Rightarrow> browser" where
  "store_login access_token user b =
     set_auth (\<lambda>a. a\<lparr>as_accessToken := Some access_token, as_token := Some access_token,
         as_isAuthenticated := True,
         as_user := (case user of None \<Rightarrow> as_user a | Some u \<Rightarrow> Some u)\<rparr>)
       (set_cookie access_token b)"

definition store_register where "store_register = store_login"

text \<open>The part of \<open>logout\<close> that runs before the imported client posts to \<open>/auth/logout\<close>.\<close>

definition store_logout :: "browser \<Rightarrow> browser" where
  "store_logout b = (clear_auth (b\<lparr>br_cookie := None\<rparr>))\<lparr>br_location := Some ''/login''\<rparr>"

text \<open>What the refresh call answers: the \<open>access_token\<close> of the unwrapped body, or an error.\<close>

datatype refresh_answer = RefreshOk "string option" | RefreshFailed

definition refresh_started :: "browser \<Rightarrow> browser" where
  "refresh_started = set_auth (\<lambda>a. a\<lparr>as_isLoading := True\<rparr>)"

definition refresh_finished :: "refresh_answer \<Rightarrow> browser \<Rightarrow> browser" where
  "refresh_finished r b =
     set_auth (\<lambda>a. a\<lparr>as_isLoading := False\<rparr>)
       (case r of
          RefreshOk t \<Rightarrow> set_auth (\<lambda>a. a\<lparr>as_accessToken := t, as_token := t, as_isAuthenticated := True\<rparr>) b
        | RefreshFailed \<Rightarrow> clear_auth b)"

text \<open>A reload: the initial state with the persisted fields.\<close>

definition reload :: "browser \<Rightarrow> browser" where
  "reload b = b\<lparr>br_auth := initial_auth\<lparr>as_accessToken := fst (br_persisted b), as_user := snd (br_persisted b)\<rparr>\<rparr>"

text \<open>\<open>useAuthInit\<close>, with what local storage holds under \<open>user\<close> and \<open>user-settings\<close>.\<close>

definition auth_init :: "instant \<Rightarrow> json option \<Rightarrow> json option \<Rightarrow> browser \<Rightarrow> browser" where
  "auth_init now storedUser storedSettings b =
     (let b1 = initialize_auth now b;
          b2 = (if json_truthy storedUser then set_user (the storedUser) b1 else b1)
      in if json_truthy storedSettings then set_settings (the storedSettings) b2 else b2)"

subsection \<open>The API client\<close>

text \<open>\<open>Parked\<close>: the caller's promise is pending inside the response interceptor.\<close>

datatype phase = Sent | Parked | Fulfilled | Rejected

record api_request =
  rq_url :: string
  rq_retry :: bool
  rq_auth :: "string option"
  rq_phase :: phase

record api_client =
  ap_browser :: browser
  ap_refreshing :: "nat option" \<comment> \<open>\<open>isRefreshing\<close>, with the request whose handler refreshes\<close>
  ap_queue :: "nat list" \<comment> \<open>\<open>refreshQueue\<close>: the requests that pushed their two callbacks\<close>
  ap_requests :: "api_request list"

definition AUTH_ENTRY_ENDPOINTS :: "string list" where
  "AUTH_ENTRY_ENDPOINTS = [''/auth/login'', ''/auth/register'', ''/auth/refresh'', ''/auth/verify-otp'',
     ''/auth/resend-otp'', ''/auth/forgot-password'', ''/auth/reset-password'']"

definition is_auth_entry :: "string \<Rightarrow> bool" where
  "is_auth_entry url \<longleftrightarrow> list_ex (\<lambda>endpoint. contains_text endpoint url) AUTH_ENTRY_ENDPOINTS"

definition bearer_header :: "browser \<Rightarrow> string option" where
  "bearer_header b =
     (if truthy (as_accessToken (br_auth b)) then Some (''Bearer '' @ the (as_accessToken (br_auth b))) else None)"

definition send_request :: "string \<Rightarrow> api_client \<Rightarrow> api_client" where
  "send_request url c =
     c\<lparr>ap_requests := ap_requests c @
        [\<lparr>rq_url = url, rq_retry = False, rq_auth = bearer_header (ap_browser c), rq_phase = Sent\<rparr>]\<rparr>"

definition update_request :: "nat \<Rightarrow> (api_request \<Rightarrow> api_request) \<Rightarrow> api_client \<Rightarrow> api_client" where
  "update_request i f c = c\<lparr>ap_requests := (ap_requests c)[i := f (ap_requests c ! i)]\<rparr>"

definition settle :: "phase \<Rightarrow> nat \<Rightarrow> api_client \<Rightarrow> api_client" where
  "settle p i = update_request i (\<lambda>r. r\<lparr>rq_phase := p\<rparr>)"

text \<open>\<open>apiClient(original)\<close>: the same configuration goes out again with the new token.\<close>

definition send_again :: "nat \<Rightarrow> api_client \<Rightarrow> api_client" where
  "send_again i c = update_request i (\<lambda>r. r\<lparr>rq_auth := bearer_header (ap_browser c), rq_phase := Sent\<rparr>) c"

text \<open>The response interceptor on an error; None: no response.\<close>

definition on_error :: "nat \<Rightarrow> int option \<Rightarrow> api_client \<Rightarrow> api_client" where
  "on_error i status c =
     (let original = ap_requests c ! i in
      if status \<noteq> Some 401 \<or> rq_retry original \<or> is_auth_entry (rq_url original)
      then settle Rejected i c
      else if ap_refreshing c \<noteq> None
      then (settle Parked i c)\<lparr>ap_queue := ap_queue c @ [i]\<rparr>
      else (update_request i (\<lambda>r. r\<lparr>rq_retry := True, rq_phase := Parked\<rparr>) c)
             \<lparr>ap_refreshing := Some i, ap_browser := refresh_started (ap_browser c)\<rparr>)"

definition client_logout :: "api_client \<Rightarrow> api_client" where
  "client_logout c = send_request ''/auth/logout'' (c\<lparr>ap_browser := store_logout (ap_browser c)\<rparr>)"

text \<open>The handler that refreshes goes on after the answer of the refresh call.\<close>

definition refresh_done :: "refresh_answer \<Rightarrow> api_client \<Rightarrow> api_client" where
  "refresh_done r c =
     (case ap_refreshing c of
        None \<Rightarrow> c
      | Some i \<Rightarrow>
        (let c1 = c\<lparr>ap_browser := refresh_finished r (ap_browser c)\<rparr>
         in if truthy (as_accessToken (br_auth (ap_browser c1)))
            then send_again i ((fold send_again (ap_queue c) c1)\<lparr>ap_queue := [], ap_refreshing := None\<rparr>)
            else settle Rejected i ((client_logout (c1\<lparr>ap_queue := []\<rparr>))\<lparr>ap_refreshing := None\<rparr>)))"

text \<open>The events the page sees. A response arrives for a request on the wire; the refresh of the
  session-timeout dialog runs from its start to its answer.\<close>

definition on_wire :: "nat \<Rightarrow> api_client \<Rightarrow> bool" where
  "on_wire i c \<longleftrightarrow> i < length (ap_requests c) \<and> rq_phase (ap_requests c ! i) = Sent"

inductive client_step :: "api_client \<Rightarrow> api_client \<Rightarrow> bool" where
  call: "client_step c (send_request url c)"
| response: "on_wire i c \<Longrightarrow> client_step c (settle Fulfilled i c)"
| error: "on_wire i c \<Longrightarrow> client_step c (on_error i status c)"
| refreshed: "ap_refreshing c = Some i \<Longrightarrow> client_step c (refresh_done r c)"
| logged_out: "client_step c (client_logout c)"
| logged_in: "client_step c (c\<lparr>ap_browser := store_login t u (ap_browser c)\<rparr>)"
| stay: "client_step c (c\<lparr>ap_browser := refresh_finished r (refresh_started (ap_browser c))\<rparr>)"

definition initial_client :: "browser \<Rightarrow> api_client" where
  "initial_client b = \<lparr>ap_browser = b, ap_refreshing = None, ap_queue = [], ap_requests = []\<rparr>"

definition unwrap_envelope :: "json \<Rightarrow> json" where
  "unwrap_envelope d = (case (json_field d ''success'', json_field d ''data'') of
     (Some _, Some x) \<Rightarrow> x | _ \<Rightarrow> d)"

definition api_error_message :: "bool \<Rightarrow> json option \<Rightarrow> string option \<Rightarrow> string \<Rightarrow> json" where
  "api_error_message isAxios responseData message fallback =
     (let m = Option.bind responseData (\<lambda>d. json_field d ''message'')
      in if isAxios \<and> json_truthy m then the m
         else if truthy message then JStr (the message) else JStr fallback)"

end
