(* ===== verification/Client_Tokens_Correct.thy ===== *)
theory Client_Tokens_Correct
  imports Client_Tokens
begin

text \<open>
  The token checks of the front end: what \<open>decodeToken\<close> and the store read from a token in
  the compact serialisation, which requests the middleware lets through, and when its
  redirects come to rest.
\<close>

subsection \<open>Tokens in the compact serialisation\<close>

definition base64url :: "string \<Rightarrow> string" where
  "base64url s = map (to_url_char \<circ> b64_char) (b64_sextets (map byte s))"

definition jwt :: "string \<Rightarrow> string \<Rightarrow> string \<Rightarrow> string" where
  "jwt header claims signature = header @ CHR ''.'' # base64url claims @ CHR ''.'' # signature"

lemma length_sextets: "length (b64_sextets bs) mod 4 \<noteq> 1"
  by (induction bs rule: b64_sextets.induct) auto

lemma b64_char_table:
  "n < 64 \<Longrightarrow> atob_char (b64_char n) \<and> \<not> ascii_ws (b64_char n) \<and> b64_char n \<noteq> CHR ''.'' \<and>
     b64_char n \<notin> {CHR ''-'', CHR ''_'', CHR ''=''}"
proof -
  have "list_all (\<lambda>n. atob_char (b64_char n) \<and> \<not> ascii_ws (b64_char n) \<and> b64_char n \<noteq> CHR ''.'' \<and>
     b64_char n \<notin> {CHR ''-'', CHR ''_'', CHR ''=''}) [0..<64]"
    by (simp add: b64_char_def b64_alphabet_def atob_char_def b64_index_def ascii_ws_def upt_rec)
  then show "n < 64 \<Longrightarrow> ?thesis" by (simp add: list_all_iff)
qed

lemma drop_padding_plain: "CHR ''='' \<notin> set s \<Longrightarrow> drop_padding s = s"
  by (metis drop_padding_def last_in_set)

lemma sextets_of_bytes: "n \<in> set (b64_sextets (map byte s)) \<Longrightarrow> n < 64"
  using b64_sextets_less [of "map byte s"] by auto

lemma sextet_char:
  assumes "x \<in> set (map b64_char (b64_sextets (map byte s)))"
  shows "atob_char x \<and> \<not> ascii_ws x \<and> x \<noteq> CHR ''.'' \<and> x \<notin> {CHR ''-'', CHR ''_'', CHR ''=''}"
  using assms sextets_of_bytes [of _ s] b64_char_table by (metis (no_types, lifting) imageE list.set_map)

lemma base64url_char:
  assumes "x \<in> set (base64url s)"
  shows "\<not> ascii_ws x \<and> x \<noteq> CHR ''.'' \<and> x \<noteq> CHR ''=''"
proof -
  obtain y where y: "y \<in> set (map b64_char (b64_sextets (map byte s)))" "x = to_url_char y"
    using assms by (auto simp: base64url_def)
  show ?thesis using sextet_char [OF y(1)] y(2) by (auto simp: to_url_char_def ascii_ws_def)
qed

lemma base64url_unpadded: "base64url s = filter (\<lambda>c. c \<noteq> CHR ''='') (map to_url_char (b64_encode s))"
proof -
  have "map to_url_char (b64_encode s) = base64url s @ replicate ((3 - length s mod 3) mod 3) (CHR ''='')"
    by (simp add: b64_encode_def b64_pad_def to_url_char_def base64url_def)
  moreover have "filter (\<lambda>c. c \<noteq> CHR ''='') (base64url s) = base64url s"
    using base64url_char by (intro filter_True) blast
  ultimately show ?thesis by simp
qed

lemma atob_plain: "atob (map b64_char (b64_sextets (map byte s))) = Some s"
proof -
  let ?ns = "b64_sextets (map byte s)"
  have lt: "\<forall>n \<in> set ?ns. n < 64" using sextets_of_bytes by blast
  have f: "filter (\<lambda>c. \<not> ascii_ws c) (map b64_char ?ns) = map b64_char ?ns"
    using sextet_char by (intro filter_True) blast
  have p: "drop_padding (map b64_char ?ns) = map b64_char ?ns"
    using sextet_char by (intro drop_padding_plain) blast
  have a: "list_all atob_char (map b64_char ?ns)"
    unfolding list_all_iff using sextet_char by blast
  have b: "\<forall>x \<in> set (map byte s). x < 256" by simp
  show ?thesis
    by (simp add: atob_def f p a length_sextets [simplified] map_filter_b64 [OF lt]
        b64_bytes_sextets [OF b] comp_def)
qed

lemma from_to_url: "n < 64 \<Longrightarrow> from_url_char (to_url_char (b64_char n)) = b64_char n"
  using b64_char_table [of n] by (auto simp: from_url_char_def to_url_char_def)

lemma base64url_restored: "map from_url_char (base64url s) = map b64_char (b64_sextets (map byte s))"
  using sextets_of_bytes [of _ s] by (auto simp: base64url_def from_to_url)

lemma atob_base64url: "atob (map from_url_char (base64url s)) = Some s"
  by (simp add: base64url_restored atob_plain)

definition url_safe_chars :: "string \<Rightarrow> bool" where
  "url_safe_chars s \<longleftrightarrow> CHR ''-'' \<in> set s \<or> CHR ''_'' \<in> set s"

lemma base64url_standard:
  assumes "\<not> url_safe_chars (base64url s)"
  shows "base64url s = map b64_char (b64_sextets (map byte s))"
proof -
  have "map from_url_char (base64url s) = base64url s"
    using assms by (intro map_idI) (auto simp: url_safe_chars_def from_url_char_def)
  then show ?thesis by (simp add: base64url_restored)
qed

lemma atob_url_chars: "url_safe_chars (base64url s) \<Longrightarrow> atob (base64url s) = None"
proof -
  assume a: "url_safe_chars (base64url s)"
  have f: "filter (\<lambda>c. \<not> ascii_ws c) (base64url s) = base64url s"
    using base64url_char by (intro filter_True) blast
  have p: "drop_padding (base64url s) = base64url s"
    using base64url_char by (intro drop_padding_plain) blast
  show ?thesis
    using a by (auto simp: atob_def f p url_safe_chars_def list_all_iff atob_char_def Let_def)
qed

lemma base64url_dotless: "CHR ''.'' \<notin> set (base64url s)"
  using base64url_char by blast

lemma base64url_Nil [simp]: "base64url s = [] \<longleftrightarrow> s = []"
  by (cases "map byte s" rule: b64_sextets.cases) (auto simp: base64url_def)

lemma token_segment_jwt: "CHR ''.'' \<notin> set h \<Longrightarrow> token_segment (jwt h c s) = Some (base64url c)"
  by (simp add: token_segment_def jwt_def split_on_append base64url_dotless)

definition non_null :: "json option \<Rightarrow> json option" where
  "non_null j = (case j of Some JNull \<Rightarrow> None | _ \<Rightarrow> j)"

lemma json_parse_Nil [simp]: "json_parse [] = None"
  by (simp add: json_parse_def)

lemma decode_token_jwt:
  assumes "CHR ''.'' \<notin> set h"
  shows "decode_token (jwt h c s) = non_null (json_parse c)"
  using assms
  by (cases "c = []")
     (auto simp: decode_token_def token_segment_jwt atob_base64url non_null_def split: option.split json.split)

lemma parse_payload_jwt:
  assumes "CHR ''.'' \<notin> set h"
  shows "parse_payload (jwt h c s) =
    (if url_safe_chars (base64url c) then None else non_null (json_parse c))"
proof (cases "url_safe_chars (base64url c)")
  case True
  then show ?thesis using assms by (simp add: parse_payload_def token_segment_jwt atob_url_chars)
next
  case False
  then have "atob (base64url c) = Some c" using atob_plain [of c] base64url_standard [of c] by simp
  with False show ?thesis using assms
    by (auto simp: parse_payload_def token_segment_jwt non_null_def split: option.split json.split)
qed

text \<open>The two expiry checks of the front end on a token in the compact serialisation whose
  \<open>exp\<close> claim is a number: the check of the persisted store answers as the one of
  \<open>decodeToken.ts\<close> does, except that it takes every token for expired whose encoded payload
  holds a character of the URL alphabet, \<open>-\<close> or \<open>_\<close>.\<close>

theorem store_expiry_exact:
  assumes "CHR ''.'' \<notin> set h" "json_parse c = Some p" "json_field p ''exp'' = Some (JNum e)"
  shows "store_token_expired now (jwt h c s) \<longleftrightarrow>
    is_token_expired now (jwt h c s) \<or> url_safe_chars (base64url c)"
  using assms
  by (cases p) (auto simp: store_token_expired_def is_token_expired_def parse_payload_jwt decode_token_jwt
      non_null_def now_reaches_def json_truthy_def Let_def)

definition sample_claim_text :: string where
  "sample_claim_text = CHR ''{'' # json_quote ''exp'' @ '':1,'' @ json_quote ''role'' @ CHR '':'' # json_quote ''admin''
     @ CHR '','' # json_quote ''n'' @ CHR '':'' # json_quote ''?'' @ ''}''"

definition sample_payload :: json where
  "sample_payload = JObj [(''exp'', JNum 1), (''role'', JStr ''admin''), (''n'', JStr ''?'')]"

lemma fl_1 [simp]: "fl 1 = 1"
  using fl_int [of 1] by simp

lemma parse_sample_claim_text: "json_parse sample_claim_text = Some sample_payload"
  by (simp add: sample_claim_text_def sample_payload_def json_parse_def json_quote_def json_escape_def
      parse_number_def is_digit_def parse_fraction_def parse_exponent_def Let_def nat_of_string_def
      char_digit_def json_simple_escape_def put_member_def skip_ws_def is_ws_def eval_nat_numeral)

definition plain_claim_text :: string where
  "plain_claim_text = CHR ''{'' # json_quote ''exp'' @ '':1}''"

lemma parse_plain_claim_text: "json_parse plain_claim_text = Some (JObj [(''exp'', JNum 1)])"
  by (simp add: plain_claim_text_def json_parse_def json_quote_def json_escape_def
      parse_number_def is_digit_def parse_fraction_def parse_exponent_def Let_def nat_of_string_def
      char_digit_def json_simple_escape_def put_member_def skip_ws_def is_ws_def eval_nat_numeral)

lemma plain_exp: "json_field (JObj [(''exp'', JNum 1)]) ''exp'' = Some (JNum (of_int 1))"
  by simp

lemma plain_claim_text_chars: "\<not> url_safe_chars (base64url plain_claim_text)"
  by code_simp

lemma sample_claim_text_url_chars: "url_safe_chars (base64url sample_claim_text)"
  by code_simp

lemma sample_exp: "json_field sample_payload ''exp'' = Some (JNum 1)"
  by (simp add: sample_payload_def)

lemma js_mul_1000: "js_mul 1 1000 = 1000"
  using fl_int [of 1000] by (simp add: js_mul_def)

lemma store_expiry_exact_witness:
  "store_token_expired 0 (jwt ''h'' sample_claim_text ''s'') \<and> \<not> is_token_expired 0 (jwt ''h'' sample_claim_text ''s'')"
proof -
  have "\<not> is_token_expired 0 (jwt ''h'' sample_claim_text ''s'')"
    by (simp add: is_token_expired_def decode_token_jwt parse_sample_claim_text non_null_def
        sample_payload_def json_truthy_def js_mul_1000 js_int_def)
  then show ?thesis
    using store_expiry_exact [OF _ parse_sample_claim_text sample_exp, of "''h''" 0 "''s''"]
      sample_claim_text_url_chars by simp
qed

subsection \<open>The middleware\<close>

lemma matched_route_simps [simp]:
  "matched_route ''/dashboard'' = Some (''/dashboard'', None)"
  "matched_route ''/login'' = None" "matched_route ''/register'' = None"
  by (simp_all add: matched_route_def protected_routes_def route_covers_def)

lemma follow_Next: "middleware now path tok = Next \<Longrightarrow> follow n now path tok = Some path"
  by (simp add: follow.simps)

lemma follow_Redirect:
  "middleware now path tok = Redirect p r \<Longrightarrow> follow (Suc n) now path tok = follow n now p tok"
  by (simp add: follow.simps [of "Suc n"])

lemma expired_undecodable: "\<not> json_truthy (decode_token t) \<Longrightarrow> is_token_expired now t"
  by (simp add: is_token_expired_def Let_def)

lemma expired_middleware:
  assumes "truthy tok" "is_token_expired now (the tok)"
  shows "middleware now path tok =
    (if path = ''/login'' \<or> path = ''/register'' then Redirect ''/dashboard'' None
     else if matched_route path = None then Next else Redirect ''/login'' (Some path))"
  using assms by (auto simp: middleware_def Let_def split: option.split prod.split)

lemma expired_loops:
  assumes "truthy tok" "is_token_expired now (the tok)"
  shows "path \<in> {''/login'', ''/dashboard''} \<Longrightarrow> follow n now path tok = None"
proof -
  have l: "middleware now ''/login'' tok = Redirect ''/dashboard'' None"
    and d: "middleware now ''/dashboard'' tok = Redirect ''/login'' (Some ''/dashboard'')"
    by (simp_all add: expired_middleware [OF assms])
  have "follow n now ''/login'' tok = None \<and> follow n now ''/dashboard'' tok = None"
    by (induction n) (simp_all add: follow.simps [of 0] follow_Redirect [OF l] follow_Redirect [OF d] l d)
  then show "path \<in> {''/login'', ''/dashboard''} \<Longrightarrow> follow n now path tok = None" by auto
qed

text \<open>C32: When the redirects of the middleware come to rest. Following them never ends, however many
  hops are allowed, exactly when the browser holds a token cookie that is expired or unreadable and
  asks for the log-in or registration page or for a protected page: the protected page sends it to
  the log-in page, and the log-in page, which only looks whether a cookie is present, sends it back.
  In every other case one hop is enough.\<close>

theorem redirect_loop_iff:
  "follow (Suc n) now path tok = None \<longleftrightarrow>
     truthy tok \<and> is_token_expired now (the tok) \<and>
     (path \<in> {''/login'', ''/register''} \<or> (\<exists>m. matched_route path = Some m))"
proof (cases "truthy tok \<and> is_token_expired now (the tok)")
  case True
  then have m: "truthy tok" "is_token_expired now (the tok)" by simp_all
  note loops = expired_loops [OF m, of _ n] and e = expired_middleware [OF m, of path]
  consider "path \<in> {''/login'', ''/register''}"
    | "path \<notin> {''/login'', ''/register''}" "matched_route path = None"
    | "path \<notin> {''/login'', ''/register''}" "matched_route path \<noteq> None" by blast
  then show ?thesis
  proof cases
    case 1
    with e have "middleware now path tok = Redirect ''/dashboard'' None" by auto
    then show ?thesis using 1 m loops [of "''/dashboard''"] by (simp add: follow_Redirect)
  next
    case 2
    with e have "middleware now path tok = Next" by auto
    then show ?thesis using 2 by (simp add: follow_Next)
  next
    case 3
    with e have "middleware now path tok = Redirect ''/login'' (Some path)" by auto
    then show ?thesis using 3 m loops [of "''/login''"] by (simp add: follow_Redirect)
  qed
next
  case False
  have "follow n now ''/dashboard'' tok \<noteq> None" if "truthy tok"
    using that False expired_undecodable [of "the tok" now]
    by (subst follow_Next) (auto simp: middleware_def has_required_role_def Let_def)
  moreover have "follow n now ''/login'' tok \<noteq> None" if "\<not> truthy tok"
    using that by (subst follow_Next) (auto simp: middleware_def)
  ultimately show ?thesis
    using False expired_undecodable [of "the tok" now]
    by (auto simp: follow.simps [of "Suc n"] middleware_def Let_def split: option.split prod.split)
qed

lemma route_covers_nth: "route_covers route path \<Longrightarrow> i < length route \<Longrightarrow> path ! i = route ! i"
  unfolding route_covers_def starts_with_iff
  by (metis length_append less_SucI list.size(4) nth_append nth_take add_Suc_right add_0_right list.size(3))

lemma matched_route_role:
  assumes "matched_route path = Some (r, q)"
  shows "q = (if route_covers ''/admin'' path then Some (OneRole ''admin'') else None)"
proof -
  have "path ! 1 = CHR ''a''" if "route_covers ''/admin'' path"
    using route_covers_nth [OF that, of 1] by simp
  moreover have "path ! 1 = CHR ''d''" if "route_covers ''/dashboard'' path"
    using route_covers_nth [OF that, of 1] by simp
  moreover have "path ! 1 = CHR ''p''" if "route_covers ''/profile'' path"
    using route_covers_nth [OF that, of 1] by simp
  moreover have "path ! 1 = CHR ''s''" if "route_covers ''/settings'' path"
    using route_covers_nth [OF that, of 1] by simp
  ultimately show ?thesis
    using assms by (auto simp: matched_route_def protected_routes_def split: if_splits)
qed

text \<open>What the middleware lets through for a token in the compact serialisation with a numeric
  \<open>exp\<close> claim: the protected pages until the expiry, the administration pages for a token
  whose \<open>role\<close> claim is or contains \<open>admin\<close> only, and the log-in and registration
  pages never.\<close>

theorem middleware_exact:
  assumes "CHR ''.'' \<notin> set h" "json_parse c = Some p" "json_field p ''exp'' = Some (JNum e)"
  shows "middleware now path (Some (jwt h c s)) =
    (if path = ''/login'' \<or> path = ''/register'' then Redirect ''/dashboard'' None
     else if matched_route path = None then Next
     else if js_mul e 1000 \<le> js_int now then Redirect ''/login'' (Some path)
     else if route_covers ''/admin'' path \<and>
        \<not> (\<exists>role. json_field p ''role'' = Some role \<and> JStr ''admin'' \<in> set (roles_held role))
     then Redirect ''/dashboard'' None else Next)"
proof -
  have d: "decode_token (jwt h c s) = Some p" "json_truthy (Some p)"
    using assms by (cases p; simp add: decode_token_jwt non_null_def json_truthy_def)+
  have x: "is_token_expired now (jwt h c s) \<longleftrightarrow> js_mul e 1000 \<le> js_int now"
    using assms(3) d by (simp add: is_token_expired_def)
  have role: "json_truthy (Some r)" if "JStr ''admin'' \<in> set (roles_held r)" for r
    using that by (cases r) (auto simp: roles_held_def json_truthy_def)
  have adm: "has_required_role (Some p) (Some (OneRole ''admin'')) \<longleftrightarrow>
      (\<exists>role. json_field p ''role'' = Some role \<and> JStr ''admin'' \<in> set (roles_held role))"
    using role by (auto simp: has_required_role_def split: option.split)
  have t: "truthy (Some (jwt h c s))" by (cases h) (simp_all add: jwt_def)
  have nr: "has_required_role (Some p) None" by (simp add: has_required_role_def)
  note a = matched_route_role
  show ?thesis
  proof (cases "matched_route path")
    case None
    then show ?thesis using t by (auto simp: middleware_def)
  next
    case (Some rq)
    then obtain r q where m: "matched_route path = Some (r, q)" by (cases rq) auto
    have role_ok: "has_required_role (Some p) q \<longleftrightarrow> \<not> (route_covers ''/admin'' path \<and>
        \<not> (\<exists>role. json_field p ''role'' = Some role \<and> JStr ''admin'' \<in> set (roles_held role)))"
      using a [OF m] adm nr by (cases "route_covers ''/admin'' path") simp_all
    show ?thesis
      unfolding middleware_def Let_def m role_ok [symmetric]
      by (simp only: t d x role_ok option.sel option.simps prod.case if_True if_False simp_thms)
  qed
qed

lemma middleware_exact_witness:
  "middleware 0 ''/admin/users'' (Some (jwt ''h'' sample_claim_text ''s'')) = Next"
proof -
  have m: "matched_route ''/admin/users'' = Some (''/admin'', Some (OneRole ''admin''))"
    by (simp add: matched_route_def protected_routes_def route_covers_def)
  show ?thesis
    by (subst middleware_exact [OF _ parse_sample_claim_text sample_exp])
       (simp_all add: m js_mul_1000 js_int_def sample_payload_def roles_held_def)
qed

end
