(* ===== verification/Guards.thy ===== *)
theory Guards
  imports Auth
begin

text \<open>
  What a request passes before its handler (backend/src/app.module.ts): the idempotency
  middleware of the mutating routes and the global guards in their registration order,
  JwtAuthGuard with JwtStrategy, RedisThrottlerGuard, RolesGuard, CsrfGuard; and the guards
  single routes add, VerifiedUserGuard and ScopeGuard. The verification of a JWT by
  passport-jwt and the throttler's storage are parameters.
\<close>

subsection \<open>Requests and routes\<close>

record http_request =
  hr_method :: string
  hr_authorization :: "string option"
  hr_csrfToken :: "string option"
  hr_idempotencyKey :: "string option"
  hr_ip :: "string option"

record route =
  ro_public :: bool
  ro_roles :: "string list option" \<comment> \<open>the metadata of \<open>@Roles\<close> on the handler\<close>
  ro_scope :: "string option"
  ro_skipCsrf :: bool \<comment> \<open>what the reflector finds for \<open>SkipCsrf\<close>\<close>

text \<open>\<open>request.user\<close>, as JwtStrategy builds it.\<close>

record request_user =
  ru_id :: "uuid option"
  ru_sub :: "uuid option"
  ru_email :: "string option"
  ru_role :: "string option"
  ru_jti :: "string option"
  ru_exp :: "int option"
  ru_scope :: "string option"

record guard_env =
  ge_verify :: "instant \<Rightarrow> string option \<Rightarrow> claims option" \<comment> \<open>of the Authorization header\<close>
  ge_throttle :: "string \<Rightarrow> bool" \<comment> \<open>the tracker is within its limit\<close>

definition is_bearer :: "http_request \<Rightarrow> bool" where
  "is_bearer req =
     (case hr_authorization req of None \<Rightarrow> False | Some h \<Rightarrow> starts_with ''Bearer '' h)"

subsection \<open>JwtStrategy and JwtAuthGuard\<close>

text \<open>\<open>validate\<close> copies six claims; the scope of a client token is not among them.\<close>

definition jwt_validate :: "instant \<Rightarrow> cache \<Rightarrow> claims \<Rightarrow> request_user result" where
  "jwt_validate now c p =
     (if truthy (cl_jti p) \<and> is_blacklisted now (the (cl_jti p)) c
      then Inl (Unauthorized ''Token has been revoked'')
      else Inr \<lparr>ru_id = cl_sub p, ru_sub = cl_sub p, ru_email = cl_email p, ru_role = cl_role p,
                ru_jti = cl_jti p, ru_exp = cl_exp p, ru_scope = None\<rparr>)"

definition jwt_auth_guard ::
  "guard_env \<Rightarrow> instant \<Rightarrow> cache \<Rightarrow> route \<Rightarrow> http_request \<Rightarrow> request_user option result" where
  "jwt_auth_guard env now c ro req =
     (if ro_public ro then Inr None
      else (case ge_verify env now (hr_authorization req) of
              None \<Rightarrow> Inl (Unauthorized ''Unauthorized'')
            | Some p \<Rightarrow> (case jwt_validate now c p of Inl e \<Rightarrow> Inl e | Inr u \<Rightarrow> Inr (Some u))))"

subsection \<open>Throttler, roles, scope and verification\<close>

definition get_tracker :: "request_user option \<Rightarrow> http_request \<Rightarrow> string" where
  "get_tracker user req =
     (let userId = (case user of None \<Rightarrow> None
                    | Some u \<Rightarrow> (case ru_id u of Some i \<Rightarrow> Some i | None \<Rightarrow> ru_sub u))
      in case userId of Some i \<Rightarrow> i
         | None \<Rightarrow> (case hr_ip req of Some ip \<Rightarrow> ip | None \<Rightarrow> ''anonymous''))"

definition throttler_guard ::
  "guard_env \<Rightarrow> request_user option \<Rightarrow> http_request \<Rightarrow> unit result" where
  "throttler_guard env user req =
     (if ge_throttle env (get_tracker user req) then Inr ()
      else Inl (TooManyRequests ''ThrottlerException: Too Many Requests''))"

definition roles_guard :: "route \<Rightarrow> request_user option \<Rightarrow> unit result" where
  "roles_guard ro user =
     (case ro_roles ro of None \<Rightarrow> Inr ()
      | Some roles \<Rightarrow>
          (case user of None \<Rightarrow> Inl (Forbidden ''Insufficient permissions'')
           | Some u \<Rightarrow> (case ru_role u of
                 None \<Rightarrow> Inl (Forbidden ''Insufficient permissions'')
               | Some r \<Rightarrow> if r \<in> set roles then Inr ()
                           else Inl (Forbidden ''Insufficient permissions''))))"

definition scope_guard :: "route \<Rightarrow> request_user option \<Rightarrow> unit result" where
  "scope_guard ro user =
     (if \<not> truthy (ro_scope ro) then Inr ()
      else (case user of None \<Rightarrow> Inl (Forbidden ''No scope provided'')
            | Some u \<Rightarrow>
                if \<not> truthy (ru_scope u) then Inl (Forbidden ''No scope provided'')
                else if the (ro_scope ro) \<in> set (split_on (CHR '' '') (the (ru_scope u))) then Inr ()
                else Inl (Forbidden (''Required scope: '' @ the (ro_scope ro)))))"

definition verified_user_guard :: "db \<Rightarrow> request_user option \<Rightarrow> unit result" where
  "verified_user_guard d user =
     (case user of None \<Rightarrow> Inl (Forbidden ''User not authenticated'')
      | Some u \<Rightarrow>
          (case (case ru_sub u of None \<Rightarrow> None | Some i \<Rightarrow> find_user d i) of
             None \<Rightarrow> Inl (Forbidden ''Please verify your email before accessing this resource'')
           | Some dbUser \<Rightarrow>
               if u_isVerified dbUser then Inr ()
               else Inl (Forbidden ''Please verify your email before accessing this resource'')))"

subsection \<open>CSRF\<close>

definition csrf_key :: "string \<Rightarrow> string" where "csrf_key jti = ''csrf:'' @ jti"

definition csrf_generate :: "instant \<Rightarrow> string \<Rightarrow> string \<Rightarrow> cache \<Rightarrow> string \<times> cache" where
  "csrf_generate now random jti c =
     (random, cache_set now (csrf_key jti) (CText random) 3600000 c)"

definition csrf_verify :: "instant \<Rightarrow> string \<Rightarrow> string \<Rightarrow> cache \<Rightarrow> bool" where
  "csrf_verify now jti token c \<longleftrightarrow>
     token \<noteq> [] \<and> jti \<noteq> [] \<and> cache_get now (csrf_key jti) c = Some (CText token)"

definition csrf_invalidate :: "string \<Rightarrow> cache \<Rightarrow> cache" where
  "csrf_invalidate jti c = cache_del (csrf_key jti) c"

definition mutating :: "string list" where
  "mutating = [''POST'', ''PATCH'', ''DELETE'', ''PUT'']"

definition csrf_guard ::
  "instant \<Rightarrow> cache \<Rightarrow> route \<Rightarrow> request_user option \<Rightarrow> http_request \<Rightarrow> unit result" where
  "csrf_guard now c ro user req =
     (if hr_method req \<notin> set mutating then Inr ()
      else if ro_skipCsrf ro then Inr ()
      else if is_bearer req then Inr ()
      else (case user of
              None \<Rightarrow> Inl (Forbidden ''CSRF validation failed: no user session'')
            | Some u \<Rightarrow>
                if \<not> truthy (ru_jti u)
                then Inl (Forbidden ''CSRF validation failed: no user session'')
                else if \<not> truthy (hr_csrfToken req) then Inl (Forbidden ''CSRF token missing'')
                else if csrf_verify now (the (ru_jti u)) (the (hr_csrfToken req)) c then Inr ()
                else Inl (Forbidden ''CSRF token invalid or expired'')))"

subsection \<open>The chain\<close>

definition guard_chain ::
  "guard_env \<Rightarrow> instant \<Rightarrow> cache \<Rightarrow> route \<Rightarrow> http_request \<Rightarrow> request_user option result" where
  "guard_chain env now c ro req =
     (case jwt_auth_guard env now c ro req of Inl e \<Rightarrow> Inl e
      | Inr user \<Rightarrow>
     (case throttler_guard env user req of Inl e \<Rightarrow> Inl e
      | Inr _ \<Rightarrow>
     (case roles_guard ro user of Inl e \<Rightarrow> Inl e
      | Inr _ \<Rightarrow>
     (case csrf_guard now c ro user req of Inl e \<Rightarrow> Inl e
      | Inr _ \<Rightarrow> Inr user))))"

text \<open>A handler behind the chain: a refused request leaves the state alone.\<close>

definition guarded ::
  "guard_env \<Rightarrow> instant \<Rightarrow> route \<Rightarrow> http_request
   \<Rightarrow> (request_user option \<Rightarrow> account \<Rightarrow> (account, 'a) outcome)
   \<Rightarrow> account \<Rightarrow> (account, 'a) outcome" where
  "guarded env now ro req handler s =
     (case guard_chain env now (ac_cache s) ro req of
        Inl e \<Rightarrow> (Inl e, s)
      | Inr user \<Rightarrow> handler user s)"

text \<open>The metadata of some routes: registration and log-in are public, \<open>PATCH users/:id\<close>
  carries no roles, the role and delete routes ask for an administrator.\<close>

definition plain_route :: route where
  "plain_route = \<lparr>ro_public = False, ro_roles = None, ro_scope = None, ro_skipCsrf = False\<rparr>"

definition public_route :: route where "public_route = plain_route\<lparr>ro_public := True\<rparr>"
definition patch_user_route :: route where "patch_user_route = plain_route"
definition update_role_route :: route where
  "update_role_route = plain_route\<lparr>ro_roles := Some [role_name ADMIN]\<rparr>"
definition delete_user_route :: route where
  "delete_user_route = plain_route\<lparr>ro_roles := Some [role_name ADMIN]\<rparr>"

subsection \<open>Handlers of the authentication controller that touch the guards' state\<close>

definition csrf_token_handler ::
  "instant \<Rightarrow> string \<Rightarrow> request_user \<Rightarrow> account \<Rightarrow> (account, string) outcome" where
  "csrf_token_handler now random u s =
     (case csrf_generate now random (case ru_jti u of Some j \<Rightarrow> j | None \<Rightarrow> ''undefined'') (ac_cache s) of
        (t, c) \<Rightarrow> (Inr t, s\<lparr>ac_cache := c\<rparr>))"

text \<open>\<open>userId\<close> is the id of the request's user; a user token always has one.\<close>

definition logout_handler ::
  "auth_lib \<Rightarrow> instant \<Rightarrow> uuid \<Rightarrow> request_user \<Rightarrow> account \<Rightarrow> string auth_outcome" where
  "logout_handler lib now userId u s =
     (let s1 = (if truthy (ru_jti u)
                then s\<lparr>ac_cache := csrf_invalidate (the (ru_jti u)) (ac_cache s)\<rparr> else s)
      in logout lib now userId (ru_jti u) (ru_exp u) s1)"

subsection \<open>Idempotency middleware\<close>

definition IDEMPOTENCY_TTL_MS :: int where "IDEMPOTENCY_TTL_MS = 5 * 60 * 1000"
definition IN_FLIGHT_SENTINEL :: string where "IN_FLIGHT_SENTINEL = ''__IN_FLIGHT__''"

text \<open>\<open>/^[\x21-\x7E]{1,128}$/\<close>\<close>

definition key_pattern :: "string \<Rightarrow> bool" where
  "key_pattern k \<longleftrightarrow> 1 \<le> length k \<and> length k \<le> 128 \<and> list_all (char_range 33 126) k"

definition idempotency_key :: "uuid \<Rightarrow> string \<Rightarrow> string" where
  "idempotency_key userId rawKey = ''idempotency:'' @ userId @ '':'' @ rawKey"

text \<open>\<open>extractUserIdFromToken\<close>: the header must start with \<open>Bearer\<close>; \<open>verify\<close> is jsonwebtoken's.\<close>

definition extract_user_id :: "(string \<Rightarrow> claims option) \<Rightarrow> http_request \<Rightarrow> uuid option" where
  "extract_user_id verify req =
     (if is_bearer req
      then (case verify (drop 7 (the (hr_authorization req))) of
              None \<Rightarrow> None | Some p \<Rightarrow> cl_sub p)
      else None)"

text \<open>
  The middleware up to \<open>next()\<close> reads the cache (\<open>idem_check\<close>) and then marks the key as in
  flight (\<open>idem_mark\<close>); the two are separate awaits. \<open>Replay\<close> answers without the handler.
\<close>

datatype idem_decision = Replay int json | Proceed string

definition in_flight_body :: json where
  "in_flight_body = JObj [(''statusCode'', JNum 409),
     (''message'', JStr ''A request with this idempotency key is already being processed''),
     (''error'', JStr ''Conflict'')]"

definition idem_check ::
  "(string \<Rightarrow> claims option) \<Rightarrow> instant \<Rightarrow> http_request \<Rightarrow> cache \<Rightarrow> idem_decision result" where
  "idem_check verify now req c =
     (if \<not> truthy (hr_idempotencyKey req)
      then Inl (Unprocessable ''X-Idempotency-Key header is required for this endpoint'')
      else if \<not> key_pattern (the (hr_idempotencyKey req))
      then Inl (Unprocessable ''X-Idempotency-Key must be 1-128 printable ASCII characters with no whitespace'')
      else (case extract_user_id verify req of
              None \<Rightarrow> Inl (Unauthorized ''Valid Bearer token required to use idempotency key'')
            | Some userId \<Rightarrow>
                if userId = []
                then Inl (Unauthorized ''Valid Bearer token required to use idempotency key'')
                else
                  (let cacheKey = idempotency_key userId (the (hr_idempotencyKey req))
                   in case cache_get now cacheKey c of
                        Some (CText t) \<Rightarrow>
                          if t = IN_FLIGHT_SENTINEL then Inr (Replay 409 in_flight_body)
                          else Inl (ServerError ''Invalid status code: undefined'')
                      | Some (CTimes ts) \<Rightarrow> Inl (ServerError ''Invalid status code: undefined'')
                      | Some (CResponse status body) \<Rightarrow> Inr (Replay status body)
                      | None \<Rightarrow> Inr (Proceed cacheKey))))"

definition idem_mark :: "instant \<Rightarrow> string \<Rightarrow> cache \<Rightarrow> cache" where
  "idem_mark now cacheKey c = cache_set now cacheKey (CText IN_FLIGHT_SENTINEL) IDEMPOTENCY_TTL_MS c"

text \<open>The replaced \<open>res.json\<close>.\<close>

definition idem_finish :: "instant \<Rightarrow> string \<Rightarrow> int \<Rightarrow> json \<Rightarrow> cache \<Rightarrow> cache" where
  "idem_finish now cacheKey status body c =
     (if 200 \<le> status \<and> status < 300
      then cache_set now cacheKey (CResponse status body) IDEMPOTENCY_TTL_MS c
      else cache_del cacheKey c)"

end
