(* ===== verification/Auth_Sessions.thy ===== *)
theory Auth_Sessions
  imports Auth_Correct
begin

text \<open>
  Sessions: what the refresh-token table holds, the exact sliding window of code resends, and
  the log-out that blocks the access token.
\<close>

subsection \<open>Refresh tokens\<close>

definition stored_hashes :: "auth_lib \<Rightarrow> account \<Rightarrow> bool" where
  "stored_hashes lib s \<longleftrightarrow>
     (\<forall>t \<in> set (ac_tokens s). \<exists>salt x. rt_token t = bc_hash (al_bcrypt lib) salt x)"

lemma stored_hashes_revoke:
  assumes "stored_hashes lib s"
  shows "stored_hashes lib (s\<lparr>ac_tokens := revoke_token i (ac_tokens s)\<rparr>)"
    "stored_hashes lib (s\<lparr>ac_tokens := revoke_all_user_tokens i (ac_tokens s)\<rparr>)"
  using assms
  by (auto simp: stored_hashes_def revoke_token_def revoke_all_user_tokens_def in_update_rows)

lemma stored_hashes_issue:
  assumes "stored_hashes lib s"
  shows "stored_hashes lib (snd (issue_tokens lib r now u s))"
  using assms by (auto simp: stored_hashes_def issue_tokens_def create_token_def in_save_row) blast

lemma stored_hashes_same: "ac_tokens t = ac_tokens s \<Longrightarrow> stored_hashes lib t = stored_hashes lib s"
  by (simp add: stored_hashes_def)

lemma stored_hashes_cong: "ac_tokens t = ac_tokens s \<Longrightarrow> stored_hashes lib s \<Longrightarrow> stored_hashes lib t"
  using stored_hashes_same by blast

lemma stored_hashes_updating:
  assumes "stored_hashes lib s" "\<And>s'. ac_tokens s' = ac_tokens s \<Longrightarrow> stored_hashes lib (snd (k s'))"
  shows "stored_hashes lib (snd (updating i p s k))"
proof -
  obtain res d where "update_user i p (ac_db s) = (res, d)" by (metis surj_pair)
  moreover have "stored_hashes lib (s\<lparr>ac_db := d\<rparr>)" by (rule stored_hashes_cong [OF _ assms(1)]) simp
  ultimately show ?thesis using assms(2) by (auto simp: updating_def split: sum.split)
qed

lemma stored_hashes_mail [simp]: "stored_hashes lib (send_mail k to c s) = stored_hashes lib s"
  by (rule stored_hashes_same) simp

lemma stored_hashes_frame [simp]:
  "stored_hashes lib (s\<lparr>ac_db := d\<rparr>) = stored_hashes lib s"
  "stored_hashes lib (s\<lparr>ac_cache := c\<rparr>) = stored_hashes lib s"
  by (rule stored_hashes_same, simp)+

lemma stored_hashes_step:
  assumes s: "stored_hashes lib s"
  shows "stored_hashes lib (auth_step lib op s)"
proof (cases op)
  case (OpRegister r now e p f l)
  then show ?thesis using s by (auto simp: register_def Let_def split: prod.split sum.split)
next
  case (OpVerifyOtp r now e c)
  have "stored_hashes lib (snd (issue_tokens lib r now u (s'\<lparr>ac_cache := c'\<rparr>)))"
    if "ac_tokens s' = ac_tokens s" for u s' c'
    using that by (intro stored_hashes_issue) (simp add: stored_hashes_cong [OF _ s])
  with OpVerifyOtp show ?thesis
    by (auto simp: verify_otp_def Let_def s split: option.split
        intro!: stored_hashes_updating intro: stored_hashes_cong [OF _ s])
next
  case (OpResendOtp r now e)
  then show ?thesis
    by (auto simp: resend_otp_def Let_def s split: option.split prod.split
        intro!: stored_hashes_updating intro: stored_hashes_cong [OF _ s])
next
  case (OpLogin r now e p)
  then show ?thesis using s stored_hashes_issue [OF s] by (auto simp: login_def split: option.split)
next
  case (OpRefresh r now t)
  then show ?thesis
    using s by (auto simp: refresh_def split: option.split
        intro!: stored_hashes_issue stored_hashes_revoke)
next
  case (OpLogout now i j x)
  then show ?thesis using stored_hashes_revoke(2) [OF s, of i]
    by (auto simp: logout_def logout_with_def blacklist_access_token_def Let_def)
next
  case (OpLogoutAll now i j x)
  then show ?thesis using stored_hashes_revoke(2) [OF s, of i]
    by (auto simp: logout_all_def logout_with_def blacklist_access_token_def Let_def)
next
  case (OpForgotPassword r now e)
  then show ?thesis
    by (auto simp: forgot_password_def Let_def s split: option.split
        intro!: stored_hashes_updating intro: stored_hashes_cong [OF _ s])
next
  case (OpResetPassword r now e c p)
  then show ?thesis
    by (auto simp: reset_password_def Let_def s split: option.split
        intro!: stored_hashes_updating intro: stored_hashes_cong [OF _ s])
qed

text \<open>C18: No refresh token handed out by a log-in can ever be redeemed: the table holds
  bcrypt hashes (60 characters) while refresh looks for the token itself (a UUID of 36), so
  refresh answers Unauthorized in every state that follows.\<close>
theorem refresh_never_redeems:
  assumes "\<And>salt x. length (bc_hash (al_bcrypt lib) salt x) = 60"
    "ac_tokens s = []" "auth_reach lib expOf s t"
    "login lib r now e p t = (Inr tokens, t')" "length (ar_refreshToken r) = 36"
    "auth_reach lib expOf t' t''"
  shows "refresh lib r' now' (tp_refresh tokens) t''
    = (Inl (Http (Unauthorized ''Invalid or revoked refresh token'')), t'')"
proof -
  have "stored_hashes lib s" using assms(2) by (simp add: stored_hashes_def)
  from auth_reach_invariant [OF assms(3), of "stored_hashes lib", OF this]
  have "stored_hashes lib t" using stored_hashes_step by blast
  then have "stored_hashes lib t'"
    using stored_hashes_step [of lib t "OpLogin r now e p"] assms(4) by simp
  from auth_reach_invariant [OF assms(6), of "stored_hashes lib", OF this]
  have h: "stored_hashes lib t''" using stored_hashes_step by blast
  have tok: "tp_refresh tokens = ar_refreshToken r"
    using assms(4) by (auto simp: login_def issue_tokens_def Let_def split: option.splits if_splits)
  have "rt_token x \<noteq> tp_refresh tokens" if "x \<in> set (ac_tokens t'')" for x
    using h that assms(1,5) unfolding tok stored_hashes_def by (metis numeral_eq_iff semiring_norm(85,87,88,89,90))
  then have "find_by_token (tp_refresh tokens) (ac_tokens t'') = None"
    by (simp add: find_by_token_def find_row_None_iff)
  then show ?thesis by (simp add: refresh_def)
qed

definition acct_verified :: user where "acct_verified = acct_user\<lparr>u_isVerified := True\<rparr>"

theorem refresh_never_redeems_witness:
  "refresh acct_lib acct_random 9 ''123e4567-e89b-12d3-a456-426614174000''
     (snd (login acct_lib acct_random 7 ''a@b.c'' ''secret'' (acct_state acct_verified)))
   = (Inl (Http (Unauthorized ''Invalid or revoked refresh token'')),
      snd (login acct_lib acct_random 7 ''a@b.c'' ''secret'' (acct_state acct_verified)))"
proof -
  let ?s = "acct_state acct_verified"
  define res where "res = login acct_lib acct_random 7 ''a@b.c'' ''secret'' ?s"
  have u: "find_user_by_email (ac_db ?s) ''a@b.c'' = Some acct_verified"
    by (simp add: acct_verified_def)
  obtain tokens s' where l: "res = (Inr tokens, s')" "tp_refresh tokens = ar_refreshToken acct_random"
    by (simp add: res_def login_def u issue_tokens_def acct_verified_def Let_def)
  have len: "\<And>salt x. length (bc_hash (al_bcrypt acct_lib) salt x) = 60"
    by (simp add: acct_lib_def)
  have "refresh acct_lib acct_random 9 (tp_refresh tokens) s'
      = (Inl (Http (Unauthorized ''Invalid or revoked refresh token'')), s')"
    by (rule refresh_never_redeems [OF len _ reach_start [of _ "\<lambda>_. 0"] l(1) [unfolded res_def] _ reach_start])
       (simp_all add: acct_random_def)
  then show ?thesis
    by (simp add: res_def [symmetric] l) (simp add: acct_random_def)
qed

subsection \<open>The sliding window of resends\<close>

text \<open>The limiter over a sequence of requests, with the times it accepted.\<close>

fun resend_all ::
  "cache_mode \<Rightarrow> string \<Rightarrow> instant list \<Rightarrow> instant list \<times> cache \<Rightarrow> instant list \<times> cache" where
  "resend_all mode email [] (acc, c) = (acc, c)"
| "resend_all mode email (t # ts) (acc, c) =
     (case check_and_record_resend mode t email c of (chk, c') \<Rightarrow>
        resend_all mode email ts (if rc_allowed chk then acc @ [t] else acc, c'))"

text \<open>The abstract window: a request is accepted when fewer than the limit lie inside it.\<close>

fun window_spec :: "instant list \<Rightarrow> instant list \<Rightarrow> instant list" where
  "window_spec [] acc = acc"
| "window_spec (t # ts) acc =
     window_spec ts (if length (filter (\<lambda>a. t - OTP_RESEND_WINDOW_MS < a) acc) < OTP_RESEND_LIMIT
                     then acc @ [t] else acc)"

definition window_rel :: "string \<Rightarrow> instant \<Rightarrow> instant list \<Rightarrow> cache \<Rightarrow> bool" where
  "window_rel email now acc c \<longleftrightarrow> (\<forall>a \<in> set acc. a \<le> now) \<and>
     (\<forall>t \<ge> now. filter (\<lambda>a. t - OTP_RESEND_WINDOW_MS < a)
                   (load_timestamps WorkingCache t (resend_key email) c)
               = filter (\<lambda>a. t - OTP_RESEND_WINDOW_MS < a) acc)"

lemma filter_window_mono:
  "s \<le> (t::int) \<Longrightarrow> filter (\<lambda>a. t - w < a) (filter (\<lambda>a. s - w < a) xs) = filter (\<lambda>a. t - w < a) xs"
  by (induction xs) auto

lemma load_saved:
  "load_timestamps WorkingCache t k (save_timestamps WorkingCache now k ts c) =
     (if t < now + OTP_RESEND_WINDOW_MS then ts else [])"
  by (simp add: load_timestamps_def save_timestamps_def kv.get_put)

lemma window_step:
  assumes rel: "window_rel email now acc c" and t: "now \<le> t"
    and chk: "check_and_record_resend WorkingCache t email c = (r, c')"
  shows "rc_allowed r \<longleftrightarrow>
      length (filter (\<lambda>a. t - OTP_RESEND_WINDOW_MS < a) acc) < OTP_RESEND_LIMIT"
    and "window_rel email t (if rc_allowed r then acc @ [t] else acc) c'"
proof -
  let ?in = "\<lambda>t a. t - OTP_RESEND_WINDOW_MS < a"
  let ?k = "resend_key email"
  have w: "0 < OTP_RESEND_WINDOW_MS" by (simp add: OTP_RESEND_WINDOW_MS_def)
  have load: "filter (?in t) (load_timestamps WorkingCache t ?k c) = filter (?in t) acc"
    using rel t by (simp add: window_rel_def)
  show al: "rc_allowed r \<longleftrightarrow> length (filter (?in t) acc) < OTP_RESEND_LIMIT"
    using chk by (auto simp: check_and_record_resend_def Let_def load split: if_splits)
  show "window_rel email t (if rc_allowed r then acc @ [t] else acc) c'"
  proof (cases "rc_allowed r")
    case False
    with chk al have "c' = c"
      by (auto simp: check_and_record_resend_def Let_def load split: if_splits)
    with False rel t show ?thesis by (auto simp: window_rel_def)
  next
    case True
    with chk al have c': "c' = save_timestamps WorkingCache t ?k (filter (?in t) acc @ [t]) c"
      by (auto simp: check_and_record_resend_def Let_def load split: if_splits)
    have old: "\<forall>a \<in> set acc. a \<le> t" using rel t by (auto simp: window_rel_def)
    have "filter (?in t') (load_timestamps WorkingCache t' ?k c') = filter (?in t') (acc @ [t])"
      if t': "t \<le> t'" for t'
    proof (cases "t' < t + OTP_RESEND_WINDOW_MS")
      case True
      with filter_window_mono [OF t'] show ?thesis by (simp add: c' load_saved)
    next
      case False
      with old have "\<forall>a \<in> set (acc @ [t]). \<not> ?in t' a" by auto
      then have "filter (?in t') (acc @ [t]) = []" by (simp add: filter_empty_conv)
      with False show ?thesis by (simp add: c' load_saved)
    qed
    with True old show ?thesis by (auto simp: window_rel_def)
  qed
qed

lemma resend_all_spec:
  assumes "window_rel email now acc c" "sorted (now # ts)"
  shows "fst (resend_all WorkingCache email ts (acc, c)) = window_spec ts acc"
  using assms
proof (induction ts arbitrary: now acc c)
  case (Cons t ts)
  obtain r c' where chk: "check_and_record_resend WorkingCache t email c = (r, c')"
    by (metis surj_pair)
  have "now \<le> t" using Cons.prems(2) by simp
  note step = window_step [OF Cons.prems(1) this chk]
  show ?case
    using Cons.IH [OF step(2)] Cons.prems(2) step(1) by (simp add: chk)
qed simp

definition spaced :: "instant list \<Rightarrow> bool" where
  "spaced acc \<longleftrightarrow> (\<forall>i. i + OTP_RESEND_LIMIT < length acc \<longrightarrow>
     acc ! i + OTP_RESEND_WINDOW_MS \<le> acc ! (i + OTP_RESEND_LIMIT))"

lemma window_full:
  assumes "sorted acc" "OTP_RESEND_LIMIT \<le> length acc"
    "length (filter (\<lambda>a. t - w < a) acc) < OTP_RESEND_LIMIT"
  shows "acc ! (length acc - OTP_RESEND_LIMIT) + w \<le> (t::int)"
proof (rule ccontr)
  let ?n = "length acc - OTP_RESEND_LIMIT"
  assume far: "\<not> acc ! ?n + w \<le> t"
  have "t - w < a" if "a \<in> set (drop ?n acc)" for a
  proof -
    from that obtain j where "j < length (drop ?n acc)" "a = drop ?n acc ! j"
      by (metis in_set_conv_nth)
    then have "acc ! ?n \<le> a"
      using sorted_nth_mono [OF assms(1), of ?n "?n + j"] by simp
    with far show ?thesis by linarith
  qed
  then have "filter (\<lambda>a. t - w < a) (drop ?n acc) = drop ?n acc"
    by (rule list_all_filterI)
  then have "OTP_RESEND_LIMIT \<le> length (filter (\<lambda>a. t - w < a) (take ?n acc @ drop ?n acc))"
    using assms(2) by (simp only: filter_append) simp
  with assms(3) show False by simp
qed

lemma window_spec_spaced:
  assumes "sorted ts" "sorted acc" "\<forall>a \<in> set acc. \<forall>t \<in> set ts. a \<le> t" "spaced acc"
  shows "spaced (window_spec ts acc)"
  using assms
proof (induction ts arbitrary: acc)
  case (Cons t ts)
  let ?ok = "length (filter (\<lambda>a. t - OTP_RESEND_WINDOW_MS < a) acc) < OTP_RESEND_LIMIT"
  have "spaced (acc @ [t])" if ?ok
  proof -
    have "(acc @ [t]) ! i + OTP_RESEND_WINDOW_MS \<le> (acc @ [t]) ! (i + OTP_RESEND_LIMIT)"
      if i: "i + OTP_RESEND_LIMIT < length (acc @ [t])" for i
    proof (cases "i + OTP_RESEND_LIMIT < length acc")
      case True
      with Cons.prems(4) show ?thesis by (simp add: spaced_def nth_append)
    next
      case False
      with i have n: "i = length acc - OTP_RESEND_LIMIT" "OTP_RESEND_LIMIT \<le> length acc" by auto
      have "acc ! i + OTP_RESEND_WINDOW_MS \<le> t"
        unfolding n(1) by (rule window_full [OF Cons.prems(2) n(2) \<open>?ok\<close>])
      moreover have "i < length acc" using n by (simp add: OTP_RESEND_LIMIT_def)
      ultimately show ?thesis using n by (simp add: nth_append)
    qed
    then show ?thesis by (simp add: spaced_def)
  qed
  moreover have "sorted (acc @ [t])" using Cons.prems by (auto simp: sorted_append)
  ultimately show ?case
    using Cons.prems by (auto intro!: Cons.IH)
qed simp

text \<open>C20: Over any sequence of resend requests in time order the limiter accepts exactly those
  the abstract sliding window accepts (fewer than three accepted in the last five minutes),
  so the expiry of its cache entry never forgets a resend, and any four accepted resends
  span at least five minutes.\<close>
theorem resend_limiter_is_sliding_window:
  assumes "sorted ts" "\<And>t. cache_get t (resend_key email) c = None"
  shows "fst (resend_all WorkingCache email ts ([], c)) = window_spec ts []
    \<and> spaced (window_spec ts [])"
proof (cases ts)
  case (Cons t ts')
  have "window_rel email t [] c"
    using assms(2) by (simp add: window_rel_def load_timestamps_def)
  from resend_all_spec [OF this, of ts] assms(1) Cons
  have "fst (resend_all WorkingCache email ts ([], c)) = window_spec ts []" by simp
  moreover have "spaced (window_spec ts [])"
    using assms(1) by (intro window_spec_spaced) (simp_all add: spaced_def)
  ultimately show ?thesis ..
qed (simp add: spaced_def)

theorem resend_limiter_is_sliding_window_witness:
  "fst (resend_all WorkingCache ''a@b.c'' [0, 10, 20, 30, 300010] ([], [])) = [0, 10, 20, 300010]"
proof -
  have "cache_get t (resend_key ''a@b.c'') [] = None" for t
    by (simp add: cache_get_def)
  from resend_limiter_is_sliding_window [OF _ this, of "[0, 10, 20, 30, 300010]"]
  show ?thesis by (simp add: OTP_RESEND_WINDOW_MS_def OTP_RESEND_LIMIT_def)
qed

text \<open>When every cache call rejects, the limiter never refuses and does not ask the caller for
  its fallback either.\<close>

lemma failing_cache_is_unlimited:
  "check_and_record_resend FailingCache now email c =
     (\<lparr>rc_allowed = True, rc_remaining = 2, rc_retryAfterSeconds = 0,
       rc_redisUnavailable = False\<rparr>, c)"
  by (simp add: check_and_record_resend_def load_timestamps_def save_timestamps_def
      OTP_RESEND_LIMIT_def Let_def)

subsection \<open>Log-out\<close>

lemma resend_cache:
  "check_and_record_resend mode now e c = (r, c') \<Longrightarrow>
   c' = c \<or> (\<exists>v. c' = cache_set now (resend_key e) v OTP_RESEND_WINDOW_MS c)"
  by (auto simp: check_and_record_resend_def save_timestamps_def Let_def split: if_splits)

lemma updating_cache:
  assumes "\<And>s'. ac_cache s' = ac_cache s \<Longrightarrow> P (ac_cache (snd (k s')))" "P (ac_cache s)"
  shows "P (ac_cache (snd (updating i p s k)))"
  using assms by (auto simp: updating_def split: sum.split prod.split)

lemma issue_tokens_cache [simp]: "ac_cache (snd (issue_tokens lib r now u s)) = ac_cache s"
  by (simp add: issue_tokens_def Let_def)

lemma keys_apart [simp]: "resend_key e \<noteq> blacklist_key j"
  by (simp add: resend_key_def blacklist_key_def)

definition blacklisted_until :: "string \<Rightarrow> int \<Rightarrow> account \<Rightarrow> bool" where
  "blacklisted_until j x s \<longleftrightarrow> kv.held (blacklist_key j) (x * 1000) (ac_cache s)"

lemma blacklisted_cache:
  "ac_cache t = ac_cache s \<Longrightarrow> blacklisted_until j x s \<Longrightarrow> blacklisted_until j x t"
  by (simp add: blacklisted_until_def)

lemma logout_keeps_blacklist:
  assumes b: "blacklisted_until j (expOf j) s"
    and al: "case (j', x') of (Some j', Some x') \<Rightarrow> x' = expOf j' | _ \<Rightarrow> True"
  shows "blacklisted_until j (expOf j) (snd (logout_with m lib now i j' x' s))"
proof (cases "truthy j' \<and> x' \<noteq> None")
  case True
  then obtain k y where k: "j' = Some k" "x' = Some y" by (cases j'; cases x') auto
  with al have y: "y = expOf k" by simp
  have "kv.held (blacklist_key j) (expOf j * 1000)
      (blacklist_token now k (expOf k * 1000 - now) (ac_cache s))"
    using b unfolding blacklist_token_def blacklisted_until_def
    by (cases "k = j") (auto simp: blacklist_key_def kv.held_put_other intro!: kv.held_put_later)
  with b k y True show ?thesis
    by (auto simp: logout_with_def blacklist_access_token_def blacklisted_until_def Let_def)
next
  case False
  with b show ?thesis by (auto simp: logout_with_def blacklisted_until_def Let_def)
qed

lemma blacklist_step:
  assumes b: "blacklisted_until j (expOf j) s" and al: "op_allowed expOf op s"
  shows "blacklisted_until j (expOf j) (auth_step lib op s)"
proof (cases op)
  case (OpRegister r now e p f l)
  then show ?thesis
    using b by (auto simp: register_def Let_def blacklisted_until_def split: prod.split sum.split)
next
  case (OpVerifyOtp r now e c)
  have "kv.held (blacklist_key j) (expOf j * 1000) (clear_resend_window m e (ac_cache s))" for m
    using b by (simp add: clear_resend_window_def blacklisted_until_def kv.held_del_other)
  with OpVerifyOtp b show ?thesis
    by (auto simp: verify_otp_def Let_def blacklisted_until_def split: option.split
        intro!: updating_cache [where P = "kv.held (blacklist_key j) (expOf j * 1000)"])
next
  case (OpResendOtp r now e)
  obtain chk c where chk: "check_and_record_resend (al_cacheMode lib) now e (ac_cache s) = (chk, c)"
    by (metis surj_pair)
  have "kv.held (blacklist_key j) (expOf j * 1000) c"
    using b resend_cache [OF chk] by (auto simp: blacklisted_until_def kv.held_put_other)
  with OpResendOtp b show ?thesis
    by (auto simp: resend_otp_def chk Let_def blacklisted_until_def split: option.split
        intro!: updating_cache [where P = "kv.held (blacklist_key j) (expOf j * 1000)"])
next
  case (OpLogin r now e p)
  with b show ?thesis by (auto simp: login_def blacklisted_until_def split: option.split)
next
  case (OpRefresh r now t)
  with b show ?thesis by (auto simp: refresh_def blacklisted_until_def split: option.split)
next
  case (OpForgotPassword r now e)
  with b show ?thesis
    by (auto simp: forgot_password_def Let_def blacklisted_until_def split: option.split
        intro!: updating_cache [where P = "kv.held (blacklist_key j) (expOf j * 1000)"])
next
  case (OpResetPassword r now e c p)
  with b show ?thesis
    by (auto simp: reset_password_def Let_def blacklisted_until_def split: option.split
        intro!: updating_cache [where P = "kv.held (blacklist_key j) (expOf j * 1000)"])
qed (use b al in \<open>auto simp: logout_def logout_all_def op_allowed_def intro!: logout_keeps_blacklist\<close>)

lemma logout_state:
  assumes "logout_with m lib now i (Some j) (Some x) s = (Inr m', s')" "j \<noteq> []"
  shows "ac_tokens s' = revoke_all_user_tokens i (ac_tokens s)"
    and "ac_cache s' = blacklist_token now j (x * 1000 - now) (ac_cache s)"
proof -
  have "\<not> (al_cacheMode lib = FailingCache \<and> 0 < x * 1000 - now)"
    using assms by (auto simp: logout_with_def blacklist_access_token_def Let_def)
  then have "s' = s\<lparr>ac_tokens := revoke_all_user_tokens i (ac_tokens s),
      ac_cache := blacklist_token now j (x * 1000 - now) (ac_cache s)\<rparr>"
    using assms by (simp add: logout_with_def blacklist_access_token_def Let_def split: if_splits)
  then show "ac_tokens s' = revoke_all_user_tokens i (ac_tokens s)"
    and "ac_cache s' = blacklist_token now j (x * 1000 - now) (ac_cache s)" by simp_all
qed

lemma revoke_all_revokes: "list_all (\<lambda>t. rt_userId t = i \<longrightarrow> rt_isRevoked t) (revoke_all_user_tokens i tbl)"
  unfolding revoke_all_user_tokens_def update_rows_def list.pred_map by (simp add: list_all_iff)

lemma logout_blacklists:
  assumes "logout_with m lib now i (Some j) (Some x) s = (Inr m', s')" "j \<noteq> []" "now < x * 1000"
  shows "blacklisted_until j x s'"
proof -
  have "kv.held (blacklist_key j) (now + (x * 1000 - now))
      (cache_set now (blacklist_key j) (CText ''1'') (x * 1000 - now) (ac_cache s))"
    by (rule kv.held_put)
  with assms(3) show ?thesis
    by (simp add: blacklisted_until_def logout_state [OF assms(1,2)] blacklist_token_def)
qed

lemma blacklist_reach:
  assumes "blacklisted_until j (expOf j) s" "auth_reach lib expOf s t"
  shows "blacklisted_until j (expOf j) t"
  using auth_reach_invariant [OF assms(2), of "blacklisted_until j (expOf j)"] assms(1)
    blacklist_step by blast

lemma blacklisted_is: "blacklisted_until j x s \<Longrightarrow> now < x * 1000 \<Longrightarrow> is_blacklisted now j (ac_cache s)"
  by (auto simp: blacklisted_until_def is_blacklisted_def dest: kv.held_get)

end
