(* ===== verification/Guards_Correct.thy ===== *)
theory Guards_Correct
  imports Guards Auth_Sessions
begin

text \<open>
  What the guards decide. The decision of the chain on public and on protected routes, the
  effect of a log-out on it, the user update any account may perform, the scope that never
  reaches the scope guard, and the idempotency middleware: at most one execution per key when
  its two cache accesses are not interleaved, and two when they are.
\<close>

subsection \<open>Public routes\<close>

text \<open>C21: A mutating request to a public route (registration, log-in, code verification,
  refresh) passes the guards exactly when it is within its rate limit and either carries an
  Authorization header that begins with Bearer, whatever follows it, or the route skips CSRF:
  without such a header the CSRF guard refuses it for having no session.\<close>
theorem public_route_decision:
  assumes "ro_public ro" "ro_roles ro = None" "hr_method req \<in> set mutating"
  shows "guard_chain env now c ro req =
    (if \<not> ge_throttle env (get_tracker None req)
     then Inl (TooManyRequests ''ThrottlerException: Too Many Requests'')
     else if ro_skipCsrf ro \<or> is_bearer req then Inr None
     else Inl (Forbidden ''CSRF validation failed: no user session''))"
  using assms
  by (simp add: guard_chain_def jwt_auth_guard_def throttler_guard_def roles_guard_def csrf_guard_def)

definition bare_post :: http_request where
  "bare_post = \<lparr>hr_method = ''POST'', hr_authorization = None, hr_csrfToken = None,
     hr_idempotencyKey = None, hr_ip = Some ''10.0.0.1''\<rparr>"

definition sample_claims :: claims where
  "sample_claims = \<lparr>cl_sub = Some ''u2'', cl_email = Some ''m@b.c'', cl_role = Some ''member'',
     cl_jti = Some ''j1'', cl_exp = Some 1000, cl_scope = None, cl_clientId = None\<rparr>"

definition sample_guard_env :: guard_env where
  "sample_guard_env = \<lparr>ge_verify = (\<lambda>now h. if h = Some ''Bearer ok'' then Some sample_claims else None),
     ge_throttle = (\<lambda>_. True)\<rparr>"

theorem public_route_decision_witness:
  "guard_chain sample_guard_env 0 [] public_route bare_post
     = Inl (Forbidden ''CSRF validation failed: no user session'')"
proof -
  have "ro_public public_route" "ro_roles public_route = None" "\<not> ro_skipCsrf public_route"
    by (simp_all add: public_route_def plain_route_def)
  then show ?thesis
    by (subst public_route_decision)
       (simp_all add: bare_post_def mutating_def sample_guard_env_def is_bearer_def)
qed

subsection \<open>Protected routes\<close>

lemma guarded_protected:
  assumes "\<not> ro_public ro" "guard_chain env now c ro req = Inr user"
  shows "\<exists>p u. ge_verify env now (hr_authorization req) = Some p \<and> user = Some u
    \<and> jwt_validate now c p = Inr u"
  using assms
  by (auto simp: guard_chain_def jwt_auth_guard_def split: option.splits sum.splits)

lemma jwt_validate_blacklisted:
  "truthy (cl_jti p) \<Longrightarrow> is_blacklisted now (the (cl_jti p)) c \<Longrightarrow>
   jwt_validate now c p = Inl (Unauthorized ''Token has been revoked'')"
  by (simp add: jwt_validate_def)

text \<open>C16: After a log-out with an access token, every request that presents a token with the
  same jti is refused as revoked on every protected route for as long as the token lives,
  whatever operations of the authentication service come in between, and the refresh tokens
  of the user are revoked at once.\<close>
theorem logout_blocks_access_token:
  assumes "logout_handler lib now userId u s = (Inr msg, s')"
    "ru_jti u = Some j" "j \<noteq> []" "ru_exp u = Some (expOf j)" "now < expOf j * 1000"
    "auth_reach lib expOf s' t"
    "ge_verify env now' (hr_authorization req) = Some p" "cl_jti p = Some j"
    "now' < expOf j * 1000" "\<not> ro_public ro"
  shows "guarded env now' ro req handler t = (Inl (Unauthorized ''Token has been revoked''), t)
    \<and> list_all (\<lambda>t. rt_userId t = userId \<longrightarrow> rt_isRevoked t) (ac_tokens s')"
proof -
  define s1 where "s1 = s\<lparr>ac_cache := csrf_invalidate j (ac_cache s)\<rparr>"
  have l: "logout_with ''Logged out successfully'' lib now userId (Some j) (Some (expOf j)) s1
      = (Inr msg, s')"
    using assms(1-4) by (simp add: logout_handler_def logout_def s1_def)
  have "blacklisted_until j (expOf j) t"
    by (rule blacklist_reach [OF logout_blacklists [OF l assms(3,5)] assms(6)])
  then have "is_blacklisted now' j (ac_cache t)" by (rule blacklisted_is [OF _ assms(9)])
  then have v: "jwt_validate now' (ac_cache t) p = Inl (Unauthorized ''Token has been revoked'')"
    using assms(3,8) by (simp add: jwt_validate_blacklisted)
  have "guarded env now' ro req handler t = (Inl (Unauthorized ''Token has been revoked''), t)"
    using assms(7,10) v by (simp add: guarded_def guard_chain_def jwt_auth_guard_def)
  moreover have "list_all (\<lambda>t. rt_userId t = userId \<longrightarrow> rt_isRevoked t) (ac_tokens s')"
    unfolding logout_state(1) [OF l assms(3)] by (rule revoke_all_revokes)
  ultimately show ?thesis ..
qed

definition sample_request_user :: request_user where
  "sample_request_user = \<lparr>ru_id = Some ''u2'', ru_sub = Some ''u2'', ru_email = Some ''m@b.c'',
     ru_role = Some ''member'', ru_jti = Some ''j1'', ru_exp = Some 1000, ru_scope = None\<rparr>"

definition bearer_patch :: http_request where
  "bearer_patch = bare_post\<lparr>hr_method := ''PATCH'', hr_authorization := Some ''Bearer ok''\<rparr>"

theorem logout_blocks_access_token_witness:
  "fst (guarded sample_guard_env 500 patch_user_route bearer_patch (\<lambda>_ s. (Inr (), s))
     (snd (logout_handler acct_lib 5 ''u2'' sample_request_user (acct_state acct_user))))
   = Inl (Unauthorized ''Token has been revoked'')"
proof -
  obtain s' where l: "logout_handler acct_lib 5 ''u2'' sample_request_user (acct_state acct_user)
      = (Inr ''Logged out successfully'', s')"
    by (simp add: logout_handler_def logout_def logout_with_def sample_request_user_def
        blacklist_access_token_def acct_lib_def Let_def)
  have "guarded sample_guard_env 500 patch_user_route bearer_patch (\<lambda>_ s. (Inr (), s)) s'
      = (Inl (Unauthorized ''Token has been revoked''), s')"
    using logout_blocks_access_token [OF l, of "''j1''" "\<lambda>_. 1000" s' sample_guard_env 500 bearer_patch
        sample_claims patch_user_route "\<lambda>_ s. (Inr (), s)"] reach_start
    by (simp add: sample_request_user_def sample_guard_env_def bearer_patch_def bare_post_def
        sample_claims_def patch_user_route_def plain_route_def)
  then show ?thesis by (simp add: l)
qed

subsection \<open>Updating users\<close>

lemma patch_user_any:
  assumes "users_ok (ac_db s)" "find_user_by_email (ac_db s) e = Some v" "ud_email dto = None"
  shows "patch_user_handler (u_id v) dto s =
    (Inr (apply_patch (dto_patch dto) v),
     s\<lparr>ac_db := patched (dto_patch dto) v (ac_db s),
       ac_cache := cache_del (user_cache_key (u_id v)) (ac_cache s)\<rparr>)"
  using update_user_found [OF assms(1,2), of "dto_patch dto"] assms(3)
  by (simp add: patch_user_handler_def then_uncache_def lift_db_def dto_patch_def)

text \<open>The user update route asks for no role: any account with a valid token can write the
  role, the verification flag and the active flag of every user, its own included, so a
  member makes itself administrator in one request.\<close>
theorem any_account_may_set_any_role:
  assumes "users_ok (ac_db s)" "find_user_by_email (ac_db s) e = Some v"
    "ge_verify env now (hr_authorization req) = Some p" "is_bearer req"
    "\<not> (truthy (cl_jti p) \<and> is_blacklisted now (the (cl_jti p)) (ac_cache s))"
    "\<And>tracker. ge_throttle env tracker"
    "dto = \<lparr>ud_firstName = None, ud_lastName = None, ud_email = None, ud_role = Some r,
            ud_isActive = None, ud_isVerified = Some b\<rparr>"
  shows "\<exists>s' v'. guarded env now patch_user_route req (\<lambda>_. patch_user_handler (u_id v) dto) s
      = (Inr v', s')
    \<and> find_user_by_email (ac_db s') e = Some v' \<and> u_role v' = r \<and> u_isVerified v' = b"
proof -
  have p: "up_email (dto_patch dto) = None" "up_role (dto_patch dto) = Some r"
    "up_isVerified (dto_patch dto) = Some b"
    using assms(7) by (simp_all add: dto_patch_def)
  have chain: "\<exists>u. guard_chain env now (ac_cache s) patch_user_route req = Inr (Some u)"
    using assms(3-6)
    by (simp add: guard_chain_def jwt_auth_guard_def jwt_validate_def throttler_guard_def
        roles_guard_def csrf_guard_def patch_user_route_def plain_route_def)
  have h: "patch_user_handler (u_id v) dto s =
    (Inr (apply_patch (dto_patch dto) v),
     s\<lparr>ac_db := patched (dto_patch dto) v (ac_db s),
       ac_cache := cache_del (user_cache_key (u_id v)) (ac_cache s)\<rparr>)"
    using assms(7) by (intro patch_user_any [OF assms(1,2)]) simp
  from chain h p find_email_patched [OF assms(1,2) p(1)] show ?thesis
    by (auto simp: guarded_def)
qed

theorem any_account_may_set_any_role_witness:
  "\<exists>s' v'. guarded sample_guard_env 5 patch_user_route bearer_patch
      (\<lambda>_. patch_user_handler ''u1'' \<lparr>ud_firstName = None, ud_lastName = None, ud_email = None,
         ud_role = Some ADMIN, ud_isActive = None, ud_isVerified = Some True\<rparr>) (acct_state acct_user)
      = (Inr v', s') \<and> u_role v' = ADMIN"
  using any_account_may_set_any_role [of "acct_state acct_user" "''a@b.c''" acct_user
      sample_guard_env 5 bearer_patch sample_claims _ ADMIN True]
  by (auto simp: sample_guard_env_def bearer_patch_def bare_post_def is_bearer_def
      is_blacklisted_def cache_get_def)

text \<open>The role route never changes a role, and deletion needs an administrator.\<close>

lemma update_role_fails: "update_role_handler i r s = (Inl (ServerError ''dto is not defined''), s)"
  by (simp add: update_role_handler_def)

lemma delete_needs_admin:
  assumes "guarded env now delete_user_route req (\<lambda>_. delete_user_handler now i) s = (Inr x, s')"
  shows "\<exists>p. ge_verify env now (hr_authorization req) = Some p \<and> cl_role p = Some ''admin''"
proof -
  obtain user where g: "guard_chain env now (ac_cache s) delete_user_route req = Inr user"
    using assms by (auto simp: guarded_def split: sum.splits)
  then have "\<not> ro_public delete_user_route \<and> roles_guard delete_user_route user = Inr ()"
    by (auto simp: guard_chain_def delete_user_route_def plain_route_def split: sum.splits)
  with guarded_protected [OF _ g] show ?thesis
    by (auto simp: roles_guard_def delete_user_route_def jwt_validate_def
        split: option.splits if_splits)
qed

subsection \<open>Scopes\<close>

text \<open>A scope never reaches the scope guard: JwtStrategy drops the claim, so a route that
  asks for a scope refuses every request the guard chain lets through, the tokens of OAuth
  clients with that scope included.\<close>
theorem scope_guard_refuses_all:
  assumes "truthy (ro_scope ro)" "\<not> ro_public ro" "guard_chain env now c ro req = Inr user"
  shows "scope_guard ro user = Inl (Forbidden ''No scope provided'')"
proof -
  obtain p u where "user = Some u" "jwt_validate now c p = Inr u"
    using guarded_protected [OF assms(2,3)] by blast
  then have "user = Some u" "ru_scope u = None"
    by (auto simp: jwt_validate_def split: if_splits)
  with assms(1) show ?thesis by (simp add: scope_guard_def)
qed

definition client_claims :: claims where
  "client_claims = \<lparr>cl_sub = None, cl_email = None, cl_role = None, cl_jti = None,
     cl_exp = Some 3600, cl_scope = Some ''bookings:read'', cl_clientId = Some ''c1''\<rparr>"

theorem scope_guard_refuses_all_witness:
  "\<exists>user. guard_chain (sample_guard_env\<lparr>ge_verify := \<lambda>_ _. Some client_claims\<rparr>) 0 []
       (plain_route\<lparr>ro_scope := Some ''bookings:read''\<rparr>) bearer_patch = Inr user
     \<and> scope_guard (plain_route\<lparr>ro_scope := Some ''bookings:read''\<rparr>) user
       = Inl (Forbidden ''No scope provided'')"
proof -
  let ?ro = "plain_route\<lparr>ro_scope := Some ''bookings:read''\<rparr>"
  let ?env = "sample_guard_env\<lparr>ge_verify := \<lambda>_ _. Some client_claims\<rparr>"
  have "\<exists>user. guard_chain ?env 0 [] ?ro bearer_patch = Inr user"
    by (simp add: guard_chain_def jwt_auth_guard_def jwt_validate_def throttler_guard_def
        roles_guard_def csrf_guard_def plain_route_def sample_guard_env_def client_claims_def
        bearer_patch_def bare_post_def is_bearer_def)
  then obtain user where "guard_chain ?env 0 [] ?ro bearer_patch = Inr user" ..
  with scope_guard_refuses_all [OF _ _ this] show ?thesis by (auto simp: plain_route_def)
qed

subsection \<open>Idempotency\<close>

text \<open>A history of requests on the idempotent routes, each check followed by its mark, and of
  answers; the run collects the executions (time and key) the middleware let through.\<close>

datatype idem_event =
    BeginE instant http_request
  | FinishE instant string int json

fun event_time :: "idem_event \<Rightarrow> instant" where
  "event_time (BeginE t _) = t"
| "event_time (FinishE t _ _ _) = t"

fun finish_ok :: "idem_event \<Rightarrow> bool" where
  "finish_ok (BeginE _ _) = True"
| "finish_ok (FinishE _ _ st _) = (200 \<le> st \<and> st < 300)"

fun idem_run ::
  "(string \<Rightarrow> claims option) \<Rightarrow> idem_event list \<Rightarrow> (instant \<times> string) list \<times> cache
   \<Rightarrow> (instant \<times> string) list \<times> cache" where
  "idem_run verify [] (ex, c) = (ex, c)"
| "idem_run verify (BeginE now req # es) (ex, c) =
     (case idem_check verify now req c of
        Inr (Proceed k) \<Rightarrow> idem_run verify es (ex @ [(now, k)], idem_mark now k c)
      | _ \<Rightarrow> idem_run verify es (ex, c))"
| "idem_run verify (FinishE now k st body # es) (ex, c) =
     idem_run verify es (ex, idem_finish now k st body c)"

lemma idem_check_proceed:
  "idem_check verify now req c = Inr (Proceed k) \<Longrightarrow> cache_get now k c = None"
  by (auto simp: idem_check_def Let_def split: if_splits option.splits cache_value.splits)

definition idem_inv :: "instant \<Rightarrow> (instant \<times> string) list \<times> cache \<Rightarrow> bool" where
  "idem_inv now s \<longleftrightarrow>
     (\<forall>(t, k) \<in> set (fst s). t \<le> now \<and> kv.held k (t + IDEMPOTENCY_TTL_MS) (snd s))"

definition once_per_key :: "(instant \<times> string) list \<Rightarrow> bool" where
  "once_per_key ex \<longleftrightarrow>
     sorted_wrt (\<lambda>(t, k) (t', k'). k = k' \<longrightarrow> t + IDEMPOTENCY_TTL_MS \<le> t') ex"

lemma held_idem:
  assumes "kv.held k (t + IDEMPOTENCY_TTL_MS) c" "t \<le> now"
  shows "kv.held k (t + IDEMPOTENCY_TTL_MS) (cache_set now k' v IDEMPOTENCY_TTL_MS c)"
  using assms by (cases "k' = k") (auto simp: kv.held_put_other intro: kv.held_put_later)

lemma idem_run_once:
  assumes "sorted (map event_time es)" "\<forall>e \<in> set es. now \<le> event_time e \<and> finish_ok e"
    "idem_inv now (ex, c)" "once_per_key ex"
  shows "once_per_key (fst (idem_run verify es (ex, c)))"
  using assms
proof (induction es arbitrary: now ex c)
  case (Cons e es)
  note prems = Cons.prems
  have later: "\<forall>e' \<in> set es. event_time e \<le> event_time e' \<and> finish_ok e'"
    using prems by auto
  have le: "now \<le> event_time e" using prems by simp
  have srt: "sorted (map event_time es)" using prems by simp
  have keep: "idem_inv (event_time e) (ex, c')"
    if "\<And>t k. (t, k) \<in> set ex \<Longrightarrow> kv.held k (t + IDEMPOTENCY_TTL_MS) c \<Longrightarrow> t \<le> event_time e
        \<Longrightarrow> kv.held k (t + IDEMPOTENCY_TTL_MS) c'" for c'
    using prems(3) le that by (fastforce simp: idem_inv_def)
  show ?case
  proof (cases e)
    case (FinishE t k st body)
    with prems have c': "idem_finish t k st body c = cache_set t k (CResponse st body) IDEMPOTENCY_TTL_MS c"
      by (simp add: idem_finish_def)
    have "idem_inv (event_time e) (ex, idem_finish t k st body c)"
      unfolding c' by (rule keep) (use FinishE in \<open>auto intro: held_idem\<close>)
    from Cons.IH [OF srt later this prems(4)] FinishE show ?thesis by simp
  next
    case (BeginE t req)
    have same: "idem_inv (event_time e) (ex, c)" by (rule keep) simp
    show ?thesis
    proof (cases "\<exists>k. idem_check verify t req c = Inr (Proceed k)")
      case False
      then have "idem_run verify (e # es) (ex, c) = idem_run verify es (ex, c)"
        by (auto simp: BeginE split: sum.split idem_decision.split)
      with Cons.IH [OF srt later same prems(4)] show ?thesis by simp
    next
      case True
      then obtain k where k: "idem_check verify t req c = Inr (Proceed k)" ..
      have none: "cache_get t k c = None" by (rule idem_check_proceed [OF k])
      have gap: "\<forall>(t', k') \<in> set ex. k' = k \<longrightarrow> t' + IDEMPOTENCY_TTL_MS \<le> t"
      proof clarify
        fix t' assume "(t', k) \<in> set ex"
        then have "kv.held k (t' + IDEMPOTENCY_TTL_MS) c" using prems(3) by (auto simp: idem_inv_def)
        with none show "t' + IDEMPOTENCY_TTL_MS \<le> t"
          using kv.held_get [of k "t' + IDEMPOTENCY_TTL_MS" c t] by fastforce
      qed
      have "idem_inv (event_time e) (ex, idem_mark t k c)"
        by (rule keep) (use BeginE in \<open>auto simp: idem_mark_def intro: held_idem\<close>)
      then have inv: "idem_inv (event_time e) (ex @ [(t, k)], idem_mark t k c)"
        using kv.held_put [of k t IDEMPOTENCY_TTL_MS] BeginE
        by (auto simp: idem_inv_def idem_mark_def)
      have "once_per_key (ex @ [(t, k)])"
        using prems(4) gap by (fastforce simp: once_per_key_def sorted_wrt_append)
      from Cons.IH [OF srt later inv this] show ?thesis by (simp add: BeginE k)
    qed
  qed
qed simp


definition keyed_post :: http_request where
  "keyed_post = bare_post\<lparr>hr_authorization := Some ''Bearer ok'', hr_idempotencyKey := Some ''k1''\<rparr>"

definition keyed_verify :: "string \<Rightarrow> claims option" where
  "keyed_verify t = (if t = ''ok'' then Some sample_claims else None)"

lemma keyed_check:
  "idem_check keyed_verify now keyed_post c =
     (case cache_get now ''idempotency:u2:k1'' c of
        None \<Rightarrow> Inr (Proceed ''idempotency:u2:k1'')
      | Some (CText t) \<Rightarrow>
          if t = IN_FLIGHT_SENTINEL then Inr (Replay 409 in_flight_body)
          else Inl (ServerError ''Invalid status code: undefined'')
      | Some (CTimes ts) \<Rightarrow> Inl (ServerError ''Invalid status code: undefined'')
      | Some (CResponse status body) \<Rightarrow> Inr (Replay status body))"
  by (simp add: idem_check_def keyed_post_def bare_post_def key_pattern_def char_range_def
      extract_user_id_def is_bearer_def keyed_verify_def sample_claims_def idempotency_key_def
      split: option.split)


text \<open>The two cache accesses are separate awaits. When a second request reads before the first
  one marks, both go on to the handler.\<close>

lemma idempotency_race:
  assumes "cache_get 0 ''idempotency:u2:k1'' c = None" "cache_get 1 ''idempotency:u2:k1'' c = None"
  shows "idem_check keyed_verify 0 keyed_post c = Inr (Proceed ''idempotency:u2:k1'')
    \<and> idem_check keyed_verify 1 keyed_post c = Inr (Proceed ''idempotency:u2:k1'')"
  using assms by (simp add: keyed_check)

end
