(* ===== verification/Client_Session_Correct.thy ===== *)
theory Client_Session_Correct
  imports Client_Session Client_Tokens_Correct Guards_Correct
begin

text \<open>
  The session in the browser: when it survives a reload, what becomes of the requests parked
  while the token is refreshed, and what a log-out sends to the backend.
\<close>

named_theorems browser_simps "what the store operations do to the browser"

lemma set_auth_simps [browser_simps]:
  "br_auth (set_auth f b) = f (br_auth b)" "br_cookie (set_auth f b) = br_cookie b"
  "br_location (set_auth f b) = br_location b" "br_persisted (set_auth f b) = partialize (f (br_auth b))"
  by (simp_all add: set_auth_def)

lemma clear_auth_simps [browser_simps]:
  "as_accessToken (br_auth (clear_auth b)) = None" "as_isAuthenticated (br_auth (clear_auth b)) = False"
  "br_cookie (clear_auth b) = br_cookie b"
  by (simp_all add: clear_auth_def browser_simps)

lemma store_logout_simps [browser_simps]:
  "as_accessToken (br_auth (store_logout b)) = None" "br_cookie (store_logout b) = None"
  by (simp_all add: store_logout_def browser_simps)

subsection \<open>Reloads\<close>

text \<open>A session of a token in the compact serialisation, after a log-in and a reload of the page at
  \<open>now\<close>: the page is authenticated and the cookie is the token exactly when the token is not
  expired and its encoded payload has no character of the URL alphabet. Otherwise the user is
  logged out, although the middleware would still serve the protected pages to the token.\<close>

theorem session_survives_reload_iff:
  assumes "CHR ''.'' \<notin> set h" "json_parse c = Some p" "json_field p ''exp'' = Some (JNum e)"
    and tok: "tok = jwt h c s" "CHR '';'' \<notin> set tok"
    and b': "b' = auth_init now su ss (reload (store_login tok u b))"
  shows "(as_isAuthenticated (br_auth b') \<longleftrightarrow> js_int now < js_mul e 1000 \<and> \<not> url_safe_chars (base64url c))
    \<and> br_cookie b' = (if as_isAuthenticated (br_auth b') then Some tok else None)"
proof (intro conjI)
  have t: "truthy (Some tok)" by (cases h) (simp_all add: tok jwt_def)
  have "json_truthy (Some p)" using assms(3) by (cases p) (simp_all add: json_truthy_def)
  then have x: "is_token_expired now tok \<longleftrightarrow> js_mul e 1000 \<le> js_int now"
    using assms(1-3) by (cases p) (simp_all add: tok is_token_expired_def decode_token_jwt non_null_def)
  have e: "store_token_expired now tok \<longleftrightarrow> js_mul e 1000 \<le> js_int now \<or> url_safe_chars (base64url c)"
    using x assms(1-3) by (cases p) (auto simp: tok store_token_expired_def parse_payload_jwt non_null_def now_reaches_def)
  have k: "takeWhile (\<lambda>c. c \<noteq> CHR '';'') tok = tok"
    using tok(2) by (simp add: takeWhile_eq_all_conv) metis
  have a: "as_accessToken (br_auth (reload (store_login tok u b))) = Some tok"
    by (simp add: reload_def store_login_def browser_simps partialize_def)
  show "as_isAuthenticated (br_auth b') \<longleftrightarrow> js_int now < js_mul e 1000 \<and> \<not> url_safe_chars (base64url c)"
    using t e by (auto simp: b' auth_init_def initialize_auth_def a Let_def set_user_def set_settings_def
        browser_simps set_cookie_def)
  show "br_cookie b' = (if as_isAuthenticated (br_auth b') then Some tok else None)"
    using t k by (auto simp: b' auth_init_def initialize_auth_def a Let_def set_user_def set_settings_def
        browser_simps set_cookie_def)
qed

subsection \<open>The queue of parked requests\<close>

lemma update_request_simps [simp]:
  "length (ap_requests (update_request i f c)) = length (ap_requests c)"
  "ap_queue (update_request i f c) = ap_queue c" "ap_refreshing (update_request i f c) = ap_refreshing c"
  "ap_browser (update_request i f c) = ap_browser c"
  by (simp_all add: update_request_def)

lemma nth_update_request:
  "j < length (ap_requests c) \<Longrightarrow>
   ap_requests (update_request i f c) ! j = (if j = i then f (ap_requests c ! i) else ap_requests c ! j)"
  by (auto simp: update_request_def nth_list_update)

lemma send_again_fold:
  "length (ap_requests (fold send_again qs c)) = length (ap_requests c)"
  "ap_queue (fold send_again qs c) = ap_queue c" "ap_refreshing (fold send_again qs c) = ap_refreshing c"
  "ap_browser (fold send_again qs c) = ap_browser c"
  by (induction qs arbitrary: c) (simp_all add: send_again_def)

lemma phase_send_again_fold:
  "j < length (ap_requests c) \<Longrightarrow>
   rq_phase (ap_requests (fold send_again qs c) ! j) =
     (if j \<in> set qs then Sent else rq_phase (ap_requests c ! j))"
  by (induction qs arbitrary: c) (simp_all add: send_again_def nth_update_request)

definition queue_ok :: "api_client \<Rightarrow> bool" where
  "queue_ok c \<longleftrightarrow>
     distinct (ap_queue c) \<and> (ap_refreshing c = None \<longrightarrow> ap_queue c = []) \<and>
     (\<forall>i \<in> set (ap_queue c) \<union> set_option (ap_refreshing c).
        i < length (ap_requests c) \<and> rq_phase (ap_requests c ! i) = Parked) \<and>
     (\<forall>i. ap_refreshing c = Some i \<longrightarrow> i \<notin> set (ap_queue c))"

text \<open>A request whose promise no handler will settle any more.\<close>

definition stranded :: "nat \<Rightarrow> api_client \<Rightarrow> bool" where
  "stranded i c \<longleftrightarrow> i < length (ap_requests c) \<and> rq_phase (ap_requests c ! i) = Parked
     \<and> i \<notin> set (ap_queue c) \<and> ap_refreshing c \<noteq> Some i"

lemma send_request_simps [simp]:
  "ap_queue (send_request u c) = ap_queue c" "ap_refreshing (send_request u c) = ap_refreshing c"
  "ap_browser (send_request u c) = ap_browser c"
  "length (ap_requests (send_request u c)) = Suc (length (ap_requests c))"
  by (simp_all add: send_request_def)

lemma phase_send_request:
  "i < Suc (length (ap_requests c)) \<Longrightarrow> rq_phase (ap_requests (send_request u c) ! i) =
     (if i < length (ap_requests c) then rq_phase (ap_requests c ! i) else Sent)"
  by (auto simp: send_request_def nth_append)

lemma settle_simps [simp]:
  "length (ap_requests (settle p i c)) = length (ap_requests c)" "ap_queue (settle p i c) = ap_queue c"
  "ap_refreshing (settle p i c) = ap_refreshing c" "ap_browser (settle p i c) = ap_browser c"
  by (simp_all add: settle_def)

lemma phase_settle:
  "j < length (ap_requests c) \<Longrightarrow>
   rq_phase (ap_requests (settle p i c) ! j) = (if j = i then p else rq_phase (ap_requests c ! j))"
  by (simp add: settle_def nth_update_request)

lemma client_logout_simps [simp]:
  "ap_queue (client_logout c) = ap_queue c" "ap_refreshing (client_logout c) = ap_refreshing c"
  "ap_browser (client_logout c) = store_logout (ap_browser c)"
  "length (ap_requests (client_logout c)) = Suc (length (ap_requests c))"
  by (simp_all add: client_logout_def)

lemma phase_client_logout:
  "i < Suc (length (ap_requests c)) \<Longrightarrow> rq_phase (ap_requests (client_logout c) ! i) =
     (if i < length (ap_requests c) then rq_phase (ap_requests c ! i) else Sent)"
  by (simp add: client_logout_def phase_send_request)

abbreviation holds_token :: "api_client \<Rightarrow> bool" where
  "holds_token c \<equiv> truthy (as_accessToken (br_auth (ap_browser c)))"

text \<open>The two outcomes of a refresh.\<close>

lemma refresh_done_ok:
  assumes "ap_refreshing c = Some i" "holds_token (c\<lparr>ap_browser := refresh_finished r (ap_browser c)\<rparr>)"
  shows "ap_queue (refresh_done r c) = []" "ap_refreshing (refresh_done r c) = None"
    "holds_token (refresh_done r c)"
    "length (ap_requests (refresh_done r c)) = length (ap_requests c)"
    "j < length (ap_requests c) \<Longrightarrow> rq_phase (ap_requests (refresh_done r c) ! j) =
       (if j = i \<or> j \<in> set (ap_queue c) then Sent else rq_phase (ap_requests c ! j))"
  using assms
  by (simp_all add: refresh_done_def Let_def send_again_def nth_update_request send_again_fold phase_send_again_fold)

lemma refresh_done_failed:
  assumes "ap_refreshing c = Some i" "\<not> holds_token (c\<lparr>ap_browser := refresh_finished r (ap_browser c)\<rparr>)"
  shows "ap_queue (refresh_done r c) = []" "ap_refreshing (refresh_done r c) = None"
    "\<not> holds_token (refresh_done r c)"
    "length (ap_requests (refresh_done r c)) = Suc (length (ap_requests c))"
    "j < Suc (length (ap_requests c)) \<Longrightarrow> rq_phase (ap_requests (refresh_done r c) ! j) =
       (if j = i then Rejected else if j < length (ap_requests c) then rq_phase (ap_requests c ! j) else Sent)"
  using assms
  by (simp_all add: refresh_done_def Let_def phase_settle phase_client_logout browser_simps)

lemma phase_kept:
  "i < length (ap_requests c) \<Longrightarrow> rq_phase (ap_requests (send_request u c) ! i) = rq_phase (ap_requests c ! i)"
  "i < length (ap_requests c) \<Longrightarrow> rq_phase (ap_requests (client_logout c) ! i) = rq_phase (ap_requests c ! i)"
  by (simp_all add: phase_send_request phase_client_logout)

lemma length_on_error [simp]: "length (ap_requests (on_error i st c)) = length (ap_requests c)"
  by (simp add: on_error_def Let_def)

lemmas request_simps = phase_kept phase_settle phase_send_request phase_client_logout nth_update_request

lemma queue_ok_step:
  assumes "client_step c c'" "queue_ok c"
  shows "queue_ok c'"
  using assms
proof (cases rule: client_step.cases)
  case (refreshed i r)
  then show ?thesis
    by (cases "holds_token (c\<lparr>ap_browser := refresh_finished r (ap_browser c)\<rparr>)")
       (simp_all add: queue_ok_def refresh_done_ok refresh_done_failed)
next
  case (error i status)
  then show ?thesis using assms(2)
    by (auto simp: on_error_def Let_def queue_ok_def on_wire_def request_simps split: if_splits)
qed (use assms(2) in \<open>auto simp: queue_ok_def on_wire_def request_simps less_SucI\<close>)

inductive_cases client_stepE: "client_step c c'"

lemma stranded_sends:
  "stranded i (send_request u c) \<longleftrightarrow> stranded i c" "stranded i (client_logout c) \<longleftrightarrow> stranded i c"
  by (auto simp: stranded_def less_Suc_eq phase_send_request phase_client_logout split: if_splits)

lemma stranded_step:
  assumes "client_step c c'" "queue_ok c"
  shows "stranded i c' \<longleftrightarrow> stranded i c \<or>
    (i \<in> set (ap_queue c) \<and> ap_queue c' = [] \<and> \<not> holds_token c')"
  using assms(1)
proof (cases rule: client_step.cases)
  case (refreshed k r)
  then show ?thesis using assms(2)
    by (cases "holds_token (c\<lparr>ap_browser := refresh_finished r (ap_browser c)\<rparr>)")
       (auto simp: queue_ok_def stranded_def refresh_done_ok refresh_done_failed less_Suc_eq split: if_splits)
next
  case (error k status)
  then show ?thesis using assms(2)
    by (auto simp: on_error_def Let_def queue_ok_def stranded_def on_wire_def request_simps split: if_splits)
next
  case (call url)
  then show ?thesis using assms(2) stranded_sends(1) by (auto simp: queue_ok_def)
next
  case (response k)
  then show ?thesis using assms(2)
    by (auto simp: queue_ok_def stranded_def on_wire_def phase_settle split: if_splits)
next
  case logged_out
  then show ?thesis using assms(2) stranded_sends(2) by auto
qed (auto simp: stranded_def)

lemma queue_ok_reach: "client_step\<^sup>*\<^sup>* (initial_client b) c \<Longrightarrow> queue_ok c"
  by (induction rule: rtranclp_induct)
     (auto simp: initial_client_def queue_ok_def [of "initial_client b", unfolded initial_client_def] queue_ok_step)

lemma stranded_forever:
  assumes "client_step\<^sup>*\<^sup>* c c'" "queue_ok c" "stranded i c"
  shows "stranded i c'"
proof -
  from assms(1) have "queue_ok c' \<and> stranded i c'"
    by (induction rule: rtranclp_induct) (use assms(2,3) queue_ok_step stranded_step in blast)+
  then show ?thesis by simp
qed

text \<open>C34: A request that is waiting for the new token when a refresh fails is lost: whatever happens
  afterwards, its promise is neither fulfilled nor rejected. The handler empties the queue without
  calling the callbacks, so the caller waits forever; only the request whose handler refreshed is
  rejected.\<close>

theorem parked_requests_never_settle:
  assumes "client_step\<^sup>*\<^sup>* (initial_client b) c" "ap_refreshing c = Some i" "q \<in> set (ap_queue c)"
    and "\<not> holds_token (refresh_done r c)" "client_step\<^sup>*\<^sup>* (refresh_done r c) c'"
  shows "rq_phase (ap_requests c' ! q) = Parked \<and> rq_phase (ap_requests (refresh_done r c) ! i) = Rejected"
proof -
  have ok: "queue_ok c" by (rule queue_ok_reach [OF assms(1)])
  have f: "\<not> holds_token (c\<lparr>ap_browser := refresh_finished r (ap_browser c)\<rparr>)"
    using assms(4) refresh_done_ok(3) [OF assms(2)] by blast
  note d = refresh_done_failed [OF assms(2) f]
  have step: "client_step c (refresh_done r c)" using assms(2) by (rule client_step.refreshed)
  have "stranded q (refresh_done r c)"
    using stranded_step [OF step ok] assms(3,4) d(1) by blast
  then have "stranded q c'" using stranded_forever [OF assms(5) queue_ok_step [OF step ok]] by blast
  then show ?thesis using d(5) [of i] ok assms(2) by (auto simp: stranded_def queue_ok_def)
qed

text \<open>The other direction: no request is lost but in that way. In one step of the page a request
  becomes one whose promise nothing will settle exactly when it was in the queue and the step is the
  end of a refresh that leaves no token; a refresh that brings a token sends every parked request
  again.\<close>

theorem request_lost_iff:
  assumes "client_step\<^sup>*\<^sup>* (initial_client b) c" "client_step c c'"
  shows "stranded i c' \<longleftrightarrow> stranded i c \<or>
    (i \<in> set (ap_queue c) \<and> ap_queue c' = [] \<and> \<not> holds_token c')"
  by (rule stranded_step [OF assms(2) queue_ok_reach [OF assms(1)]])

subsection \<open>Log-out\<close>

lemma logout_request:
  "last (ap_requests (client_logout c)) =
     \<lparr>rq_url = ''/auth/logout'', rq_retry = False, rq_auth = None, rq_phase = Sent\<rparr>"
  by (simp add: client_logout_def send_request_def bearer_header_def browser_simps)

text \<open>A log-out in the browser never logs out at the backend. The store is cleared before the
  request is sent, so the request to \<open>/auth/logout\<close> carries no Authorization header; on a
  route that is not public the backend answers it with 401 and leaves its state alone: no refresh
  token is revoked and the access token is not put on the blacklist.\<close>

theorem client_logout_unauthenticated:
  assumes "hr_authorization req = rq_auth (last (ap_requests (client_logout c)))"
    and "\<not> ro_public ro" "ge_verify env now None = None"
  shows "guarded env now ro req handler s = (Inl (Unauthorized ''Unauthorized''), s)"
  using assms by (simp add: logout_request guarded_def guard_chain_def jwt_auth_guard_def)

text \<open>The 401 to that request starts a refresh, and the failed refresh logs out again.\<close>

definition logout_round :: "api_client \<Rightarrow> api_client" where
  "logout_round c = refresh_done RefreshFailed (on_error (length (ap_requests c) - 1) (Some 401) c)"

definition awaits_logout :: "api_client \<Rightarrow> bool" where
  "awaits_logout c \<longleftrightarrow> ap_refreshing c = None \<and> ap_requests c \<noteq> [] \<and>
     last (ap_requests c) = \<lparr>rq_url = ''/auth/logout'', rq_retry = False, rq_auth = None, rq_phase = Sent\<rparr>"

lemma logout_not_entry: "\<not> is_auth_entry ''/auth/logout''"
  by (simp add: is_auth_entry_def AUTH_ENTRY_ENDPOINTS_def)

lemma logout_round_step:
  assumes "awaits_logout c"
  shows "awaits_logout (logout_round c)"
    "length (ap_requests (logout_round c)) = Suc (length (ap_requests c))"
    "client_step\<^sup>*\<^sup>* c (logout_round c)"
proof -
  let ?i = "length (ap_requests c) - 1"
  have l: "?i < length (ap_requests c)" "ap_requests c ! ?i = last (ap_requests c)" "ap_refreshing c = None"
    using assms by (auto simp: awaits_logout_def last_conv_nth)
  have e: "on_error ?i (Some 401) c =
      (update_request ?i (\<lambda>r. r\<lparr>rq_retry := True, rq_phase := Parked\<rparr>) c)
        \<lparr>ap_refreshing := Some ?i, ap_browser := refresh_started (ap_browser c)\<rparr>"
    using assms l logout_not_entry by (simp add: on_error_def awaits_logout_def)
  have r: "logout_round c = settle Rejected ?i ((client_logout ((on_error ?i (Some 401) c)
      \<lparr>ap_browser := refresh_finished RefreshFailed (refresh_started (ap_browser c)), ap_queue := []\<rparr>))
        \<lparr>ap_refreshing := None\<rparr>)"
    unfolding logout_round_def e by (simp add: refresh_done_def Let_def refresh_finished_def browser_simps)
  show n: "length (ap_requests (logout_round c)) = Suc (length (ap_requests c))"
    unfolding r by simp
  have "last (ap_requests (logout_round c)) = last (ap_requests (client_logout ((on_error ?i (Some 401) c)
      \<lparr>ap_browser := refresh_finished RefreshFailed (refresh_started (ap_browser c)), ap_queue := []\<rparr>)))"
    unfolding r using l(1) by (simp add: settle_def update_request_def client_logout_def send_request_def e nth_append
        list_update_append last_append)
  moreover have "ap_refreshing (logout_round c) = None" unfolding r by simp
  moreover have "ap_requests (logout_round c) \<noteq> []" using n by (metis length_0_conv nat.distinct(1))
  ultimately show "awaits_logout (logout_round c)" by (simp add: awaits_logout_def logout_request)
  have "on_wire ?i c" using assms l by (simp add: on_wire_def awaits_logout_def)
  then have "client_step c (on_error ?i (Some 401) c)" by (rule client_step.error)
  moreover have "client_step (on_error ?i (Some 401) c) (logout_round c)"
    by (unfold logout_round_def, rule client_step.refreshed [where i = ?i], unfold e, simp)
  ultimately show "client_step\<^sup>*\<^sup>* c (logout_round c)" by (meson r_into_rtranclp rtranclp.rtrancl_into_rtrancl)
qed

text \<open>As long as the page stays loaded a log-out repeats itself: from the log-out of an idle client
  there is, for every \<open>n\<close>, a run in which the backend refuses each request and \<open>n\<close>
  more requests to \<open>/auth/logout\<close> have been sent, the last of them still unanswered.\<close>

theorem logout_repeats:
  assumes "ap_refreshing c = None"
  shows "\<exists>c'. client_step\<^sup>*\<^sup>* (client_logout c) c' \<and> awaits_logout c' \<and>
    length (ap_requests c') = length (ap_requests (client_logout c)) + n"
proof (induction n)
  case 0
  have "awaits_logout (client_logout c)"
    using assms logout_request [of c] by (auto simp: awaits_logout_def client_logout_def send_request_def)
  then show ?case by auto
next
  case (Suc n)
  then obtain c' where c': "client_step\<^sup>*\<^sup>* (client_logout c) c'" "awaits_logout c'"
    "length (ap_requests c') = length (ap_requests (client_logout c)) + n" by blast
  show ?case
    using logout_round_step [OF c'(2)] c'(1,3) by (intro exI [of _ "logout_round c'"]) auto
qed

subsection \<open>Samples\<close>

definition sample_browser :: browser where
  "sample_browser = \<lparr>br_auth = initial_auth\<lparr>as_accessToken := Some ''t''\<rparr>, br_cookie = None,
     br_persisted = (None, None), br_location = None\<rparr>"

text \<open>Two requests have failed with 401: the first refreshes, the second is parked.\<close>

definition two_parked :: api_client where
  "two_parked = on_error 1 (Some 401) (on_error 0 (Some 401)
     (send_request ''/bookings'' (send_request ''/bookings'' (initial_client sample_browser))))"

lemma two_parked_reach: "client_step\<^sup>*\<^sup>* (initial_client sample_browser) two_parked"
proof -
  let ?c = "send_request ''/bookings'' (send_request ''/bookings'' (initial_client sample_browser))"
  have "client_step\<^sup>*\<^sup>* (initial_client sample_browser) ?c"
    by (rule rtranclp.rtrancl_into_rtrancl, rule rtranclp.rtrancl_into_rtrancl,
        rule rtranclp.rtrancl_refl, rule client_step.call, rule client_step.call)
  moreover have "client_step ?c (on_error 0 (Some 401) ?c)"
    by (rule client_step.error) code_simp
  moreover have "client_step (on_error 0 (Some 401) ?c) two_parked"
    unfolding two_parked_def
    by (rule client_step.error) code_simp
  ultimately show ?thesis by (meson rtranclp.rtrancl_into_rtrancl)
qed

lemma two_parked_queue: "ap_refreshing two_parked = Some 0 \<and> ap_queue two_parked = [1]"
  by code_simp

lemma parked_requests_never_settle_witness:
  "rq_phase (ap_requests (client_logout (refresh_done RefreshFailed two_parked)) ! 1) = Parked \<and>
   rq_phase (ap_requests (refresh_done RefreshFailed two_parked) ! 0) = Rejected"
proof (rule parked_requests_never_settle [OF two_parked_reach])
  show "ap_refreshing two_parked = Some 0" "1 \<in> set (ap_queue two_parked)"
    using two_parked_queue by simp_all
  show "\<not> holds_token (refresh_done RefreshFailed two_parked)"
    using two_parked_queue by (simp add: refresh_done_def Let_def refresh_finished_def browser_simps)
  show "client_step\<^sup>*\<^sup>* (refresh_done RefreshFailed two_parked) (client_logout (refresh_done RefreshFailed two_parked))"
    by (intro r_into_rtranclp client_step.logged_out)
qed

lemma request_lost_iff_witness: "stranded 1 (refresh_done RefreshFailed two_parked)"
proof -
  have "client_step two_parked (refresh_done RefreshFailed two_parked)"
    using two_parked_queue by (intro client_step.refreshed) simp
  then show ?thesis
    using two_parked_queue
    by (subst request_lost_iff [OF two_parked_reach])
       (auto simp: refresh_done_def Let_def refresh_finished_def browser_simps)
qed

lemma client_logout_unauthenticated_witness:
  "guarded sample_guard_env 0 (plain_route\<lparr>ro_public := False\<rparr>)
     (bare_post\<lparr>hr_authorization := rq_auth (last (ap_requests (client_logout two_parked)))\<rparr>)
     (\<lambda>u s. (Inr ''ok'', s)) s = (Inl (Unauthorized ''Unauthorized''), s)"
  by (rule client_logout_unauthenticated [of _ two_parked]) (simp_all add: sample_guard_env_def)

lemma logout_repeats_witness:
  "\<exists>c'. client_step\<^sup>*\<^sup>* (client_logout (initial_client sample_browser)) c' \<and> awaits_logout c' \<and>
     length (ap_requests c') = 8"
  using logout_repeats [of "initial_client sample_browser" 7] by (simp add: initial_client_def)

lemma session_survives_reload_iff_witness:
  "\<not> as_isAuthenticated (br_auth (auth_init 0 None None
      (reload (store_login (jwt ''h'' sample_claim_text ''s'') None sample_browser))))"
proof -
  have "CHR '';'' \<notin> set (jwt ''h'' sample_claim_text ''s'')" by code_simp
  then show ?thesis
    using session_survives_reload_iff [OF _ parse_sample_claim_text sample_exp refl _ refl, of "''h''" "''s''"]
      sample_claim_text_url_chars by auto
qed

end
