(* ===== verification/Account_Forms.thy ===== *)
theory Account_Forms
  imports Sanitizer Client_Session_Correct Iso_Dates
begin

text \<open>
  The account forms of the browser: their schemas (frontend/src/lib/schemas/*.ts, the schemas of
  app/profile/page.tsx and app/contact/page.tsx), what registration, log-in, password reset and the
  code page send and store (components/auth/RegisterForm.tsx, LoginForm.tsx, ResetPasswordCard.tsx,
  hooks/useRegisterUser.ts, hooks/useLoginUser.ts, hooks/useUpdateProfile.ts,
  app/(auth)/verify-otp/page.tsx), and the resend button under it (components/auth/ResendButton.tsx).
  \<open>email_ok\<close> is the address check of the schema library.
\<close>

subsection \<open>Schemas\<close>

definition login_schema :: "(string \<Rightarrow> bool) \<Rightarrow> string \<Rightarrow> string \<Rightarrow> bool" where
  "login_schema email_ok email password \<longleftrightarrow> email_ok email \<and> 8 \<le> length password"

record register_form =
  rf_firstname :: string
  rf_lastname :: string
  rf_email :: string
  rf_password :: string
  rf_confirmPassword :: string

definition register_schema :: "(string \<Rightarrow> bool) \<Rightarrow> register_form \<Rightarrow> bool" where
  "register_schema email_ok f \<longleftrightarrow>
     1 \<le> length (rf_firstname f) \<and> 1 \<le> length (rf_lastname f) \<and> email_ok (rf_email f) \<and>
     8 \<le> length (rf_password f) \<and> list_ex is_upper (rf_password f) \<and> list_ex is_decimal (rf_password f) \<and>
     list_ex (\<lambda>c. \<not> (is_upper c \<or> is_lower c \<or> is_decimal c)) (rf_password f) \<and>
     rf_password f = rf_confirmPassword f"

definition forgot_password_schema :: "(string \<Rightarrow> bool) \<Rightarrow> string \<Rightarrow> bool" where
  "forgot_password_schema email_ok email \<longleftrightarrow> email_ok email"

record reset_form =
  xf_otp :: string
  xf_newPassword :: string
  xf_confirmPassword :: string

definition reset_password_schema :: "reset_form \<Rightarrow> bool" where
  "reset_password_schema f \<longleftrightarrow>
     length (xf_otp f) = 6 \<and> 8 \<le> length (xf_newPassword f) \<and> xf_newPassword f = xf_confirmPassword f"

definition base32_upper :: "char \<Rightarrow> bool" where
  "base32_upper c \<longleftrightarrow> is_upper c \<or> c \<in> set ''234567''"

definition stellar_key_ok :: "string \<Rightarrow> bool" where \<comment> \<open>\<open>/^G[A-Z2-7]{55}$/\<close>\<close>
  "stellar_key_ok v \<longleftrightarrow> length v = 56 \<and> hd v = CHR ''G'' \<and> list_all base32_upper (tl v)"

definition profile_schema :: "string \<Rightarrow> string \<Rightarrow> string option \<Rightarrow> bool" where
  "profile_schema firstname lastname stellarPublicKey \<longleftrightarrow>
     1 \<le> length firstname \<and> 1 \<le> length lastname \<and>
     (\<not> truthy stellarPublicKey \<or> stellar_key_ok (the stellarPublicKey))"

definition password_schema :: "string \<Rightarrow> string \<Rightarrow> string \<Rightarrow> bool" where
  "password_schema currentPassword newPassword confirmPassword \<longleftrightarrow>
     1 \<le> length currentPassword \<and> 6 \<le> length newPassword \<and> 1 \<le> length confirmPassword \<and>
     newPassword = confirmPassword"

definition contact_schema :: "(string \<Rightarrow> bool) \<Rightarrow> string \<Rightarrow> string \<Rightarrow> string \<Rightarrow> string \<Rightarrow> bool" where
  "contact_schema email_ok fullName email subject message \<longleftrightarrow>
     2 \<le> length fullName \<and> email_ok email \<and> 5 \<le> length subject \<and> 10 \<le> length message"

subsection \<open>What the forms send\<close>

definition register_body :: "register_form \<Rightarrow> json" where
  "register_body f = JObj [(''firstname'', JStr (rf_firstname f)), (''lastname'', JStr (rf_lastname f)),
     (''email'', JStr (rf_email f)), (''password'', JStr (rf_password f))]"

definition reset_body :: "string \<Rightarrow> reset_form \<Rightarrow> json" where
  "reset_body email f = JObj [(''email'', JStr email), (''otp'', JStr (xf_otp f)),
     (''newPassword'', JStr (xf_newPassword f))]"

text \<open>A log-in that succeeds: the handler of the hook, then that of the form.\<close>

definition login_hook_success :: "string \<Rightarrow> json option \<Rightarrow> browser \<Rightarrow> browser" where
  "login_hook_success access_token user b =
     (store_login access_token user b)\<lparr>br_location := Some ''/dashboard''\<rparr>"

definition login_form_success :: "string \<Rightarrow> json option \<Rightarrow> browser \<Rightarrow> browser" where
  "login_form_success access_token user b =
     (set_token access_token (login_hook_success access_token user b))\<lparr>br_location := Some ''/dashboard''\<rparr>"

text \<open>The update of a profile, with the answer of the server as the second argument: the request (None when
  nobody is logged in) and the browser afterwards.\<close>

definition update_profile_mutation ::
  "json \<Rightarrow> bool \<Rightarrow> browser \<Rightarrow> (string \<times> json) option \<times> browser" where
  "update_profile_mutation payload succeeds b =
     (case Option.bind (as_user (br_auth b)) (\<lambda>u. json_field u ''id'') of
        Some (JStr i) \<Rightarrow> if i = [] then (None, b)
          else (Some (''/users/'' @ i, payload), if succeeds then update_user_info payload b else b)
      | _ \<Rightarrow> (None, b))"

subsection \<open>The code page\<close>

record otp_page =
  op_digits :: "string list"
  op_focus :: nat
  op_error :: "string option"

definition open_otp_page :: otp_page where
  "open_otp_page = \<lparr>op_digits = replicate 6 [], op_focus = 0, op_error = None\<rparr>"

text \<open>A key pressed in input \<open>i\<close>, by its name.\<close>

definition handle_key_down :: "nat \<Rightarrow> string \<Rightarrow> otp_page \<Rightarrow> otp_page" where
  "handle_key_down i key p =
     (if key = ''Backspace'' then
        (if op_digits p ! i \<noteq> [] then p\<lparr>op_digits := (op_digits p)[i := []]\<rparr>
         else if i > 0 then p\<lparr>op_digits := (op_digits p)[i - 1 := []], op_focus := i - 1\<rparr>
         else p)
      else if \<not> (length key = 1 \<and> list_all is_decimal key) then p
      else p\<lparr>op_digits := (op_digits p)[i := key], op_focus := (if i < 5 then i + 1 else op_focus p)\<rparr>)"

definition handle_paste :: "string \<Rightarrow> otp_page \<Rightarrow> otp_page" where
  "handle_paste text p =
     (let pasted = take 6 (filter is_decimal text)
      in p\<lparr>op_digits := map (\<lambda>c. [c]) pasted @ drop (length pasted) (op_digits p),
           op_focus := min (length pasted) 5\<rparr>)"

definition otp_submit :: "string \<Rightarrow> otp_page \<Rightarrow> json option \<times> otp_page" where
  "otp_submit email p =
     (let otp = concat (op_digits p)
      in if length otp < 6 then (None, p\<lparr>op_error := Some ''Please enter all 6 digits.''\<rparr>)
         else (Some (JObj [(''email'', JStr email), (''otp'', JStr otp)]), p\<lparr>op_error := None\<rparr>))"

text \<open>The answer to the code: the cookie is set, the store is left as it was.\<close>

definition otp_verified :: "string \<Rightarrow> browser \<Rightarrow> browser" where
  "otp_verified access_token b = (set_cookie access_token b)\<lparr>br_location := Some ''/dashboard''\<rparr>"

definition masked_address :: "string \<Rightarrow> string" where
  "masked_address email =
     (case split_on (CHR ''@'') email of
        local # domain # _ \<Rightarrow>
          if domain = [] then email
          else (if local = [] then ''undefined'' else [hd local]) @ ''***@'' @ domain
      | _ \<Rightarrow> email)"

subsection \<open>The resend button\<close>

definition RESEND_SECONDS :: int where "RESEND_SECONDS = 60"

text \<open>The button is counting from the instant in \<open>rb_since\<close>; a request that is sent starts it anew when it
  succeeds and leaves the button when it fails.\<close>

record resend_button =
  rb_since :: instant
  rb_error :: "string option"

definition resend_enabled :: "instant \<Rightarrow> resend_button \<Rightarrow> bool" where
  "resend_enabled now b \<longleftrightarrow> rb_since b + RESEND_SECONDS * 1000 \<le> now"

definition handle_resend :: "instant \<Rightarrow> string option \<Rightarrow> resend_button \<Rightarrow> resend_button" where
  "handle_resend now failure b =
     (case failure of None \<Rightarrow> \<lparr>rb_since = now, rb_error = None\<rparr> | Some e \<Rightarrow> b\<lparr>rb_error := Some e\<rparr>)"

section \<open>What the forms achieve\<close>

text \<open>
  What the account forms achieve: the code page sends six digits or nothing and takes a mailed code
  over exactly, registration from the browser leaves the names behind, passwords that pass the form
  and not the policy, and a verification that does not log the user in.
\<close>

subsection \<open>The code page\<close>

datatype otp_event = Focus nat | Key string | Paste string

fun otp_step :: "otp_event \<Rightarrow> otp_page \<Rightarrow> otp_page" where
  "otp_step (Focus i) p = (if i < 6 then p\<lparr>op_focus := i\<rparr> else p)"
| "otp_step (Key k) p = handle_key_down (op_focus p) k p"
| "otp_step (Paste t) p = handle_paste t p"

definition cell_ok :: "string \<Rightarrow> bool" where
  "cell_ok d \<longleftrightarrow> length d \<le> 1 \<and> list_all is_decimal d"

definition otp_page_ok :: "otp_page \<Rightarrow> bool" where
  "otp_page_ok p \<longleftrightarrow> length (op_digits p) = 6 \<and> list_all cell_ok (op_digits p) \<and> op_focus p < 6"

lemma list_all_update: "list_all P xs \<Longrightarrow> P x \<Longrightarrow> list_all P (xs[i := x])"
  using set_update_subset_insert [of xs i x] by (auto simp: list_all_iff)

lemma cell_ok_nil [simp]: "cell_ok []" by (simp add: cell_ok_def)

lemma otp_step_ok: "otp_page_ok p \<Longrightarrow> otp_page_ok (otp_step e p)"
proof (cases e)
  case (Paste t)
  assume "otp_page_ok p"
  moreover have "list_all cell_ok (map (\<lambda>c. [c]) (take 6 (filter is_decimal t)))"
    by (auto simp: list_all_iff cell_ok_def dest: in_set_takeD)
  moreover have "list_all cell_ok (drop n (op_digits p))" if "list_all cell_ok (op_digits p)" for n
    using that by (auto simp: list_all_iff dest: in_set_dropD)
  ultimately show ?thesis by (simp add: Paste handle_paste_def otp_page_ok_def Let_def)
qed (auto simp: otp_page_ok_def handle_key_down_def cell_ok_def intro!: list_all_update)

lemma otp_events_ok: "otp_page_ok p \<Longrightarrow> otp_page_ok (fold otp_step es p)"
  by (rule fold_invariant [where Q = "\<lambda>_. True"]) (simp_all add: otp_step_ok)

lemma open_otp_page_ok: "otp_page_ok open_otp_page"
  by code_simp

lemma concat_cells:
  "list_all cell_ok ds \<Longrightarrow> length (concat ds) \<le> length ds \<and> list_all is_decimal (concat ds) \<and>
   (length (concat ds) = length ds) = list_all (\<lambda>d. d \<noteq> []) ds"
proof (induction ds)
  case (Cons d ds)
  then show ?case by (cases d) (auto simp: cell_ok_def list_all_iff)
qed simp

text \<open>Whatever is typed, pasted and clicked, each of the six inputs holds one digit or nothing, and the
  page sends a code exactly when all six are filled: six digits, those of the inputs in order.\<close>

theorem otp_page_type:
  "otp_page_ok (fold otp_step es open_otp_page) \<and>
   fst (otp_submit email (fold otp_step es open_otp_page)) =
     (if list_all (\<lambda>d. d \<noteq> []) (op_digits (fold otp_step es open_otp_page))
      then Some (JObj [(''email'', JStr email), (''otp'', JStr (concat (op_digits (fold otp_step es open_otp_page))))])
      else None) \<and>
   length (concat (op_digits (fold otp_step es open_otp_page))) \<le> 6 \<and>
   list_all is_decimal (concat (op_digits (fold otp_step es open_otp_page)))"
proof -
  let ?p = "fold otp_step es open_otp_page"
  have ok: "otp_page_ok ?p" by (rule otp_events_ok [OF open_otp_page_ok])
  then have c: "length (concat (op_digits ?p)) \<le> 6" "list_all is_decimal (concat (op_digits ?p))"
    "(length (concat (op_digits ?p)) = 6) = list_all (\<lambda>d. d \<noteq> []) (op_digits ?p)"
    using concat_cells [of "op_digits ?p"] by (simp_all add: otp_page_ok_def)
  then have "length (concat (op_digits ?p)) < 6 \<longleftrightarrow> \<not> list_all (\<lambda>d. d \<noteq> []) (op_digits ?p)" by linarith
  then show ?thesis using ok c(1,2) by (simp add: otp_submit_def Let_def)
qed

lemma generate_otp_form: "length (generate_otp n) = 6 \<and> list_all is_decimal (generate_otp n)"
  using digits_nat_string [of n]
  by (auto simp: generate_otp_def Let_def digits_def list_all_iff is_decimal_def char_range_def dest: in_set_dropD)

lemma type_from:
  "k \<le> length cs \<Longrightarrow> length cs = 6 \<Longrightarrow> list_all is_decimal cs \<Longrightarrow>
   fold otp_step (map (\<lambda>c. Key [c]) (take k cs)) open_otp_page =
     \<lparr>op_digits = map (\<lambda>c. [c]) (take k cs) @ replicate (6 - k) [], op_focus = min k 5, op_error = None\<rparr>"
proof (induction k)
  case 0
  then show ?case by (simp add: open_otp_page_def)
next
  case (Suc k)
  have k: "k < length cs" "k \<le> 5" using Suc.prems by simp_all
  have d: "is_decimal (cs ! k)" using Suc.prems(3) k(1) by (simp add: list_all_length)
  have "6 - k = Suc (5 - k)" using k(2) by simp
  then have r: "replicate (6 - k) [] = ([] :: string) # replicate (5 - k) []" by (simp only: replicate_Suc)
  have t: "take (Suc k) cs = take k cs @ [cs ! k]" using k(1) by (rule take_Suc_conv_app_nth)
  have step: "fold otp_step (map (\<lambda>c. Key [c]) (take k cs)) open_otp_page =
      \<lparr>op_digits = map (\<lambda>c. [c]) (take k cs) @ replicate (6 - k) [], op_focus = min k 5, op_error = None\<rparr>"
    using Suc by simp
  have u: "(map (\<lambda>c. [c]) (take k cs) @ replicate (6 - k) [])[k := [cs ! k]] =
      map (\<lambda>c. [c]) (take k cs) @ [cs ! k] # replicate (5 - k) []"
    using k(1) by (simp add: r list_update_append)
  show ?case
    unfolding t map_append fold_append comp_apply step
    using k(2) d by (simp add: handle_key_down_def u)
qed

text \<open>The code of a mail reaches the server unchanged: pasting any text whose only digits are the code,
  into a page in any state, and typing its digits into a fresh page both send exactly that code.\<close>

theorem mailed_code_roundtrip:
  assumes "otp_page_ok p" "list_all (\<lambda>c. \<not> is_decimal c) pre" "list_all (\<lambda>c. \<not> is_decimal c) post"
  shows "fst (otp_submit email (otp_step (Paste (pre @ generate_otp n @ post)) p)) =
      Some (JObj [(''email'', JStr email), (''otp'', JStr (generate_otp n))]) \<and>
    fst (otp_submit email (fold otp_step (map (\<lambda>c. Key [c]) (generate_otp n)) open_otp_page)) =
      Some (JObj [(''email'', JStr email), (''otp'', JStr (generate_otp n))])"
proof
  note code = generate_otp_form [of n]
  have none: "filter is_decimal xs = []" if "list_all (\<lambda>c. \<not> is_decimal c) xs" for xs
    using that by (simp add: list_all_iff filter_empty_conv)
  have all: "filter is_decimal (generate_otp n) = generate_otp n"
    using code by (simp add: list_all_iff filter_id_conv)
  have "filter is_decimal (pre @ generate_otp n @ post) = generate_otp n" using assms(2,3) by (simp add: none all)
  then have "op_digits (otp_step (Paste (pre @ generate_otp n @ post)) p) = map (\<lambda>c. [c]) (generate_otp n)"
    using code assms(1) by (simp add: handle_paste_def Let_def otp_page_ok_def)
  then show "fst (otp_submit email (otp_step (Paste (pre @ generate_otp n @ post)) p)) =
      Some (JObj [(''email'', JStr email), (''otp'', JStr (generate_otp n))])"
    using code by (simp add: otp_submit_def Let_def concat_map_singleton)
  have "fold otp_step (map (\<lambda>c. Key [c]) (generate_otp n)) open_otp_page =
      \<lparr>op_digits = map (\<lambda>c. [c]) (generate_otp n), op_focus = 5, op_error = None\<rparr>"
    using type_from [of 6 "generate_otp n"] code by simp
  then show "fst (otp_submit email (fold otp_step (map (\<lambda>c. Key [c]) (generate_otp n)) open_otp_page)) =
      Some (JObj [(''email'', JStr email), (''otp'', JStr (generate_otp n))])"
    using code by (simp add: otp_submit_def Let_def concat_map_singleton)
qed

lemma mailed_code_roundtrip_witness:
  "fst (otp_submit ''a@b.c'' (otp_step (Paste ''Your code: 000007.'') open_otp_page)) =
     Some (JObj [(''email'', JStr ''a@b.c''), (''otp'', JStr ''000007'')])"
proof -
  have "replicate 5 (CHR ''0'') = ''00000''" "char_of (55 :: nat) = CHR ''7''" by code_simp+
  then have g: "generate_otp 7 = ''000007''"
    by (simp add: generate_otp_def Let_def nat_string.simps digit_char_def)
  have s: "''Your code: 000007.'' = ''Your code: '' @ generate_otp 7 @ ''.''" by (simp add: g)
  have "list_all (\<lambda>c. \<not> is_decimal c) ''Your code: ''" "list_all (\<lambda>c. \<not> is_decimal c) ''.''" by code_simp+
  then show ?thesis
    unfolding s using mailed_code_roundtrip [OF open_otp_page_ok, of "''Your code: ''" "''.''" "''a@b.c''" 7]
    by (simp add: g)
qed

subsection \<open>Registration\<close>

lemma length_js_trim_le: "length (js_trim s) \<le> length s"
  unfolding js_trim_def length_rev
  by (rule le_trans [OF length_dropWhile_le]) (simp add: length_dropWhile_le)

lemma register_body_route:
  "register_route lib r now (register_body f) s =
     register lib r now (sanitize_string_value (rf_email f)) (sanitize_string_value (rf_password f)) None None s"
  by (simp add: register_route_def register_body_def sanitization_pipe_def text_field_def optional_field_def Let_def)

lemma create_user_row:
  "create_user i ds now n d = (Inr u, d') \<Longrightarrow>
   u = user_of i now n \<and> user_of i now n \<in> set (db_users d')"
  by (auto simp: create_user_def save_user_def save_row_def split: if_splits prod.splits sum.splits)

text \<open>Registering in the browser loses the names: whatever a user typed, an account that comes out of it
  has neither a first nor a last name, since the form sends \<open>firstname\<close> and \<open>lastname\<close> and the
  server reads \<open>firstName\<close> and \<open>lastName\<close>.\<close>

theorem registration_loses_names:
  assumes "register_route lib r now (register_body f) s = (Inr msg, s')"
  shows "\<exists>u \<in> set (db_users (ac_db s')). u_id u = ar_rowId r \<and>
    u_email u = sanitize_string_value (rf_email f) \<and> u_firstName u = None \<and> u_lastName u = None"
proof -
  let ?n = "\<lparr>nu_email = sanitize_string_value (rf_email f),
      nu_passwordHash = bc_hash (al_bcrypt lib) (ar_salt r) (sanitize_string_value (rf_password f)),
      nu_otp = Some (bc_hash (al_bcrypt lib) (ar_otpSalt r) (generate_otp (ar_otpNumber r))),
      nu_otpExpiry = Some (now + otp_life_ms), nu_firstName = None, nu_lastName = None\<rparr>"
  obtain u d where c: "create_user (ar_rowId r) (ar_deliveryIds r) now ?n (ac_db s) = (Inr u, d)"
    and s': "s' = send_mail ''verification'' (sanitize_string_value (rf_email f)) (generate_otp (ar_otpNumber r))
      (s\<lparr>ac_db := send_to_all ''member:registered'' (JObj [(''email'', JStr (sanitize_string_value (rf_email f))),
        (''userId'', JStr (u_id u))]) d\<rparr>)"
    using assms by (auto simp: register_body_route register_def Let_def split: if_splits prod.splits sum.splits)
  have "user_of (ar_rowId r) now ?n \<in> set (db_users d)" using create_user_row [OF c] by blast
  moreover have "db_users (ac_db s') = db_users d" by (simp add: s' send_mail_def send_to_all_def)
  ultimately show ?thesis by (intro bexI [of _ "user_of (ar_rowId r) now ?n"]) (simp_all add: user_of_def)
qed

text \<open>The registration form lets passwords through that the policy refuses: with a logarithm of at most
  7 on the sizes of the character sets, no password of up to ten characters is accepted by the
  server, although the form asks for eight.\<close>

theorem short_passwords_refused:
  assumes "\<And>c. 0 < c \<Longrightarrow> c \<le> 94 \<Longrightarrow> pe_log2 (al_policy lib) c \<le> 7" "length (rf_password f) \<le> 10"
  shows "register_route lib r now (register_body f) s =
    (Inl (WeakPassword (po_violations (validate_password (al_policy lib) (sanitize_string_value (rf_password f))))), s)"
proof -
  let ?p = "sanitize_string_value (rf_password f)"
  have strip: "length (strip_tags v) \<le> length v" for v
  proof (induction v rule: strip_tags.induct)
    case (2 c s)
    then show ?case using tl_dropWhile_length [of "\<lambda>x. x \<noteq> CHR ''>''" s] by auto
  qed simp
  have "length ?p \<le> 10"
    using strip [of "js_trim (rf_password f)"] assms(2) length_js_trim_le [of "rf_password f"]
    by (simp add: sanitize_string_value_def)
  then have len: "(of_nat (length ?p) :: rat) \<le> 10" by simp
  have "calculate_entropy (pe_log2 (al_policy lib)) ?p < MIN_ENTROPY_BITS"
  proof (cases "charset_size ?p = 0")
    case False
    have l: "pe_log2 (al_policy lib) (charset_size ?p) \<le> 7"
      using assms(1) charset_size_bounds [of ?p] False by force
    have "of_nat (length ?p) * pe_log2 (al_policy lib) (charset_size ?p) \<le> of_nat (length ?p) * 7"
      using l by (rule mult_left_mono) simp
    then have "of_nat (length ?p) * pe_log2 (al_policy lib) (charset_size ?p) \<le> of_int 70" using len by simp
    then have "js_mul (of_nat (length ?p)) (pe_log2 (al_policy lib) (charset_size ?p)) \<le> of_int 70"
      unfolding js_mul_def by (rule fl_int_le) simp
    then show ?thesis using False by (simp add: calculate_entropy_def MIN_ENTROPY_BITS_def)
  qed (simp add: calculate_entropy_def MIN_ENTROPY_BITS_def)
  then have "\<not> po_valid (validate_password (al_policy lib) ?p)" by (simp add: validate_password_valid)
  then show ?thesis by (simp add: register_body_route register_def Let_def)
qed

definition sample_form :: "string \<Rightarrow> register_form" where
  "sample_form p = \<lparr>rf_firstname = ''Jane'', rf_lastname = ''Doe'', rf_email = ''n@b.c'', rf_password = p,
     rf_confirmPassword = p\<rparr>"

lemma short_passwords_refused_witness:
  "snd (register_route acct_lib acct_random 5 (register_body (sample_form ''Abcdef1!'')) (acct_state acct_user)) =
     acct_state acct_user \<and> register_schema (\<lambda>_. True) (sample_form ''Abcdef1!'')"
proof -
  have "register_schema (\<lambda>_. True) (sample_form ''Abcdef1!'')" by code_simp
  then show ?thesis
    using short_passwords_refused [of acct_lib "sample_form ''Abcdef1!''" acct_random 5 "acct_state acct_user"]
    by (simp add: acct_lib_def sample_form_def)
qed

lemma registration_loses_names_witness:
  "\<exists>u \<in> set (db_users (ac_db (snd (register_route acct_lib acct_random 5
      (register_body (sample_form long_password)) (acct_state acct_user))))).
    u_email u = ''n@b.c'' \<and> u_firstName u = None \<and> u_lastName u = None"
proof -
  have v: "sanitize_string_value long_password = long_password" "sanitize_string_value ''n@b.c'' = ''n@b.c''"
    by code_simp+
  have free: "\<not> email_taken ''t1'' ''n@b.c'' (ac_db (acct_state acct_user))"
    by (simp add: email_taken_def acct_state_def acct_user_def user_of_def)
  have "\<exists>m s'. register_route acct_lib acct_random 5 (register_body (sample_form long_password)) (acct_state acct_user) =
      (Inr m, s')"
    unfolding register_body_route
    by (simp add: sample_form_def v register_def long_password_ok create_user_def save_user_def user_of_def
      acct_random_def free Let_def)
  then obtain m s' where r: "register_route acct_lib acct_random 5 (register_body (sample_form long_password))
      (acct_state acct_user) = (Inr m, s')" by blast
  show ?thesis using registration_loses_names [OF r] r by (auto simp: sample_form_def v)
qed

subsection \<open>The session after a verification\<close>

text \<open>Verifying the address does not log the user in. The page stores the token in the cookie alone, so the
  middleware serves the dashboard while the store has no session, and the next load of the page
  removes the cookie and sends the user to the log-in.\<close>

theorem verification_is_no_login:
  assumes "fst (br_persisted b) = None" "CHR '';'' \<notin> set t" "middleware now ''/dashboard'' (Some t) = Next"
  shows "br_auth (otp_verified t b) = br_auth b \<and>
    middleware now ''/dashboard'' (br_cookie (otp_verified t b)) = Next \<and>
    \<not> as_isAuthenticated (br_auth (auth_init now' su ss (reload (otp_verified t b)))) \<and>
    middleware now' ''/dashboard'' (br_cookie (auth_init now' su ss (reload (otp_verified t b)))) =
      Redirect ''/login'' (Some ''/dashboard'')"
proof -
  have k: "takeWhile (\<lambda>c. c \<noteq> CHR '';'') t = t" using assms(2) by (simp add: takeWhile_eq_all_conv) metis
  have v: "br_cookie (otp_verified t b) = Some t" "br_auth (otp_verified t b) = br_auth b"
    unfolding otp_verified_def set_cookie_def k by simp_all
  let ?b = "auth_init now' su ss (reload (otp_verified t b))"
  have "as_accessToken (br_auth (reload (otp_verified t b))) = None"
    using assms(1) by (simp add: reload_def otp_verified_def set_cookie_def)
  then have n: "\<not> as_isAuthenticated (br_auth ?b)" "br_cookie ?b = None"
    by (simp_all add: auth_init_def initialize_auth_def Let_def set_user_def set_settings_def browser_simps)
  have "matched_route ''/dashboard'' = Some (''/dashboard'', None)" by code_simp
  then have "middleware now' ''/dashboard'' None = Redirect ''/login'' (Some ''/dashboard'')"
    by (simp add: middleware_def)
  then show ?thesis using n assms(3) by (simp add: v)
qed

lemma verification_is_no_login_witness:
  "middleware 1 ''/dashboard'' (br_cookie (auth_init 1 None None (reload (otp_verified (jwt ''h'' sample_claim_text ''s'')
      sample_browser)))) = Redirect ''/login'' (Some ''/dashboard'')"
proof -
  have c: "CHR '';'' \<notin> set (jwt ''h'' sample_claim_text ''s'')" by code_simp
  have m: "middleware 0 ''/dashboard'' (Some (jwt ''h'' sample_claim_text ''s'')) = Next" by code_simp
  show ?thesis
    using verification_is_no_login [OF _ c m, of sample_browser 1 None None] by (simp add: sample_browser_def)
qed

subsection \<open>The resend button against the limit of the server\<close>

text \<open>Presses the button as soon as it is enabled, and what the limiter of the server says each time.\<close>

fun patient_presses :: "nat \<Rightarrow> resend_button \<Rightarrow> cache \<Rightarrow> bool list" where
  "patient_presses 0 b c = []"
| "patient_presses (Suc n) b c =
     (let now = rb_since b + RESEND_SECONDS * 1000;
          (chk, c') = check_and_record_resend WorkingCache now ''a@b.c'' c
      in rc_allowed chk # patient_presses n (handle_resend now (if rc_allowed chk then None else Some ''limited'') b) c')"

lemma fourth_resend_refused:
  "patient_presses 4 \<lparr>rb_since = 0, rb_error = None\<rparr> [] = [True, True, True, False]"
  by code_simp

end
