(* ===== verification/Dashboard.thy ===== *)
theory Dashboard
  imports Iso_Dates Pagination Cache_Store Entities "HOL-Library.List_Lexorder" "HOL-Library.Char_ord"
begin

text \<open>
  The dashboard and the audit log (backend/src/dashboard/dashboard.service.ts, dashboard.controller.ts,
  audit/audit-log.service.ts, audit.interceptor.ts): the statistics, the growth table, the activity
  feed with its query parameters and cursor, and the log with its filters. The month twelve
  months ago is a parameter; amounts are summed as exact decimals by the database.
\<close>

subsection \<open>The audit log\<close>

datatype event_category = EcBooking | EcUser | EcWorkspace | EcAuth | EcSystem

record audit_log =
  au_id :: uuid
  au_actorId :: "uuid option"
  au_actorRole :: "string option"
  au_eventType :: string
  au_eventCategory :: "event_category option"
  au_resourceType :: string
  au_resourceId :: uuid
  au_before :: "json option"
  au_after :: "json option"
  au_ipAddress :: "string option"
  au_createdAt :: instant

record audit_log_event =
  ae_actorId :: "uuid option"
  ae_actorRole :: "string option"
  ae_eventType :: string
  ae_resourceType :: string
  ae_resourceId :: uuid
  ae_before :: "json option"
  ae_after :: "json option"
  ae_ipAddress :: "string option"

text \<open>\<open>log\<close>: the row is inserted later and on its own; a failing insert is only reported. The
  category is no part of the event, so the column stays empty.\<close>

definition audit_insert :: "bool \<Rightarrow> uuid \<Rightarrow> instant \<Rightarrow> audit_log_event \<Rightarrow> audit_log list \<Rightarrow> audit_log list" where
  "audit_insert insertFails newId now ev tbl =
     (if insertFails then tbl
      else tbl @ [\<lparr>au_id = newId, au_actorId = ae_actorId ev, au_actorRole = ae_actorRole ev,
        au_eventType = ae_eventType ev, au_eventCategory = None, au_resourceType = ae_resourceType ev,
        au_resourceId = ae_resourceId ev, au_before = ae_before ev, au_after = ae_after ev,
        au_ipAddress = ae_ipAddress ev, au_createdAt = now\<rparr>])"

text \<open>The interceptor, after the handler has answered: the event it logs, if any. \<open>paramId\<close> is the
  parameter \<open>id\<close> of the route, \<open>resultId\<close> the field of the answer.\<close>

definition audit_event ::
  "string option \<Rightarrow> uuid option \<Rightarrow> uuid option \<Rightarrow> uuid option \<times> uuid option \<times> string option \<Rightarrow> json option \<Rightarrow> json option
   \<Rightarrow> string option \<Rightarrow> audit_log_event option" where
  "audit_event eventType paramId resultId user auditBefore result ip =
     (if \<not> truthy eventType then None
      else (let resourceId = (if truthy paramId then paramId else resultId) in
        if \<not> truthy resourceId then None
        else (case user of (uid, sub, role) \<Rightarrow>
          Some \<lparr>ae_actorId = (if truthy uid then uid else sub), ae_actorRole = role, ae_eventType = the eventType,
                ae_resourceType = hd (split_on (CHR ''.'') (the eventType)), ae_resourceId = the resourceId,
                ae_before = auditBefore, ae_after = result, ae_ipAddress = ip\<rparr>)))"

record audit_query =
  aq_page :: "nat option"
  aq_limit :: "nat option"
  aq_actorId :: "uuid option"
  aq_resourceType :: "string option"
  aq_from :: "instant option"
  aq_to :: "instant option"

definition audit_matches :: "audit_query \<Rightarrow> audit_log \<Rightarrow> bool" where
  "audit_matches q r \<longleftrightarrow>
     (truthy (aq_actorId q) \<longrightarrow> au_actorId r = aq_actorId q) \<and>
     (truthy (aq_resourceType q) \<longrightarrow> Some (au_resourceType r) = aq_resourceType q) \<and>
     (case (aq_from q, aq_to q) of
        (Some a, Some b) \<Rightarrow> a \<le> au_createdAt r \<and> au_createdAt r \<le> b
      | (Some a, None) \<Rightarrow> a \<le> au_createdAt r
      | (None, Some b) \<Rightarrow> au_createdAt r \<le> b
      | (None, None) \<Rightarrow> True)"

definition audit_find :: "audit_query \<Rightarrow> audit_log list \<Rightarrow> audit_log page_response" where
  "audit_find q tbl =
     (let page = or_default (aq_page q) 1; limit = or_default (aq_limit q) 10;
          rows = sort_by (\<lambda>a b. au_createdAt b - au_createdAt a) (filter (audit_matches q) tbl)
      in \<lparr>pg_data = take limit (drop ((page - 1) * limit) rows), pg_total = length rows, pg_page = page,
          pg_limit = limit, pg_totalPages = ceil_div (length rows) limit\<rparr>)"

definition retention_days :: "int option \<Rightarrow> int" where
  "retention_days configured = (case configured of Some n \<Rightarrow> n | None \<Rightarrow> 730)"

subsection \<open>The activity feed\<close>

definition MAX_PAGE_SIZE :: nat where "MAX_PAGE_SIZE = 50"

record activity_query =
  aqf_eventCategory :: "event_category option"
  aqf_actorId :: "uuid option"
  aqf_resourceId :: "uuid option"
  aqf_cursor :: "string option"
  aqf_limit :: "nat option"

record activity_item =
  ai_id :: uuid
  ai_eventType :: string
  ai_eventCategory :: "event_category option"
  ai_actorId :: "uuid option"
  ai_resourceType :: string
  ai_resourceId :: uuid
  ai_timestamp :: instant

record activity_page =
  af_items :: "activity_item list"
  af_nextCursor :: "string option"
  af_hasMore :: bool

text \<open>The conditions of the query builder: the column, the name of the parameter it is compared with
  and the value given for that name. The builder keeps one value per name, the last one given.\<close>

datatype activity_value = AvText string | AvCategory event_category

record activity_condition =
  ac_column :: "audit_log \<Rightarrow> activity_value option"
  ac_param :: string
  ac_value :: activity_value

definition condition_on :: "(audit_log \<Rightarrow> activity_value option) \<Rightarrow> string \<Rightarrow> activity_value \<Rightarrow> activity_condition" where
  "condition_on col name v = \<lparr>ac_column = col, ac_param = name, ac_value = v\<rparr>"

definition actor_column :: "audit_log \<Rightarrow> activity_value option" where
  "actor_column r = map_option AvText (au_actorId r)"

definition activity_conditions ::
  "activity_query \<Rightarrow> uuid option \<Rightarrow> string option \<Rightarrow> activity_condition list" where
  "activity_conditions q currentUserId currentUserRole =
     (if currentUserRole \<noteq> Some (role_name ADMIN) \<and> truthy currentUserId
      then [condition_on actor_column ''actorId'' (AvText (the currentUserId))] else []) @
     (case aqf_eventCategory q of None \<Rightarrow> []
      | Some c \<Rightarrow> [condition_on (\<lambda>r. map_option AvCategory (au_eventCategory r)) ''eventCategory'' (AvCategory c)]) @
     (if truthy (aqf_actorId q) then [condition_on actor_column ''actorId'' (AvText (the (aqf_actorId q)))] else []) @
     (if truthy (aqf_resourceId q)
      then [condition_on (\<lambda>r. Some (AvText (au_resourceId r))) ''resourceId'' (AvText (the (aqf_resourceId q)))] else [])"

definition bound_value :: "activity_condition list \<Rightarrow> string \<Rightarrow> activity_value option" where
  "bound_value cs name = map_of (rev (map (\<lambda>c. (ac_param c, ac_value c)) cs)) name"

definition conditions_hold :: "activity_condition list \<Rightarrow> audit_log \<Rightarrow> bool" where
  "conditions_hold cs r \<longleftrightarrow> list_all (\<lambda>c. ac_column c r \<noteq> None \<and> ac_column c r = bound_value cs (ac_param c)) cs"

definition activity_order :: "audit_log \<Rightarrow> audit_log \<Rightarrow> int" where
  "activity_order a b =
     (if au_createdAt a \<noteq> au_createdAt b then (if au_createdAt a > au_createdAt b then -1 else 1)
      else if au_id a = au_id b then 0 else if au_id a > au_id b then -1 else 1)"

definition activity_item_of :: "audit_log \<Rightarrow> activity_item" where
  "activity_item_of l = \<lparr>ai_id = au_id l, ai_eventType = au_eventType l, ai_eventCategory = au_eventCategory l,
     ai_actorId = au_actorId l, ai_resourceType = au_resourceType l, ai_resourceId = au_resourceId l,
     ai_timestamp = au_createdAt l\<rparr>"

definition activity_cursor :: "audit_log \<Rightarrow> string" where
  "activity_cursor l = b64_encode (to_iso (au_createdAt l) @ '':'' @ au_id l)"

text \<open>\<open>const [createdAt, id] = decoded.split(':')\<close>; a cursor without a colon leaves no id.\<close>

definition read_activity_cursor :: "string \<Rightarrow> string \<times> string option" where
  "read_activity_cursor c =
     (let parts = split_on (CHR '':'') (b64_decode c)
      in (hd parts, if length parts > 1 then Some (parts ! 1) else None))"

definition activity_page_of :: "nat \<Rightarrow> audit_log list \<Rightarrow> activity_page" where
  "activity_page_of limit rows =
     (let items = take (limit + 1) (sort_by activity_order rows);
          hasMore = length items > limit;
          results = take limit items
      in \<lparr>af_items = map activity_item_of results,
          af_nextCursor = (if hasMore \<and> results \<noteq> [] then Some (activity_cursor (last results)) else None),
          af_hasMore = hasMore\<rparr>)"

text \<open>A cursor whose date is invalid makes the query fail in the driver.\<close>

definition get_activity ::
  "activity_query \<Rightarrow> uuid option \<Rightarrow> string option \<Rightarrow> audit_log list \<Rightarrow> activity_page result" where
  "get_activity q currentUserId currentUserRole tbl =
     (let limit = min (or_default (aqf_limit q) 20) MAX_PAGE_SIZE;
          rows = filter (conditions_hold (activity_conditions q currentUserId currentUserRole)) tbl
      in if truthy (aqf_cursor q)
         then (case read_activity_cursor (the (aqf_cursor q)) of (createdAt, i) \<Rightarrow>
           (case date_parse createdAt of
              None \<Rightarrow> Inl (ServerError ''invalid input syntax for type timestamp'')
            | Some t \<Rightarrow> Inr (activity_page_of limit
                (filter (\<lambda>r. au_createdAt r < t \<or> (au_createdAt r = t \<and> (\<exists>x. i = Some x \<and> au_id r < x))) rows))))
         else Inr (activity_page_of limit rows))"

definition activity_limit :: "nat option \<Rightarrow> nat" where \<comment> \<open>the controller\<close>
  "activity_limit limit = (case limit of Some n \<Rightarrow> min n 50 | None \<Rightarrow> 20)"

subsection \<open>Statistics\<close>

record dashboard_stats =
  ds_totalMembers :: nat
  ds_verifiedMembers :: nat
  ds_activeWorkspaces :: nat
  ds_deskOccupancy :: int

definition live_users :: "db \<Rightarrow> user list" where
  "live_users d = filter (\<lambda>u. u_deletedAt u = None) (db_users d)"

text \<open>Without an active workspace the quotient is infinite, and the smaller of it and 100 is 100.\<close>

definition get_stats :: "db \<Rightarrow> dashboard_stats" where
  "get_stats d =
     (let totalMembers = length (live_users d);
          verifiedMembers = length (filter u_isVerified (live_users d));
          activeWorkspaces = length (filter (\<lambda>w. w_isActive w \<and> w_deletedAt w = None) (db_workspaces d));
          confirmedBookings = length (filter (\<lambda>b. bk_status b = CONFIRMED \<and> bk_deletedAt b = None) (db_bookings d));
          occupancy = (if confirmedBookings > 0
             then if activeWorkspaces = 0 then 100
                  else min 100 (js_round (js_mul (js_div (js_int (int confirmedBookings)) (js_int (int activeWorkspaces))) 100))
             else min 100 (js_round 0))
      in \<lparr>ds_totalMembers = totalMembers, ds_verifiedMembers = verifiedMembers,
          ds_activeWorkspaces = activeWorkspaces, ds_deskOccupancy = occupancy\<rparr>)"

text \<open>\<open>SUM\<close> over a column with two decimals, read by \<open>parseFloat\<close>: the database adds exactly.\<close>

definition decimal_sum :: "num list \<Rightarrow> num" where
  "decimal_sum xs = cents (sum_list (map (to_fixed 2) xs))"

record admin_stats =
  as_stats :: dashboard_stats
  as_totalBookings :: nat
  as_revenue :: num

definition get_admin_stats :: "db \<Rightarrow> admin_stats" where
  "get_admin_stats d =
     (let rows = filter (\<lambda>b. bk_deletedAt b = None) (db_bookings d)
      in \<lparr>as_stats = get_stats d, as_totalBookings = length rows,
          as_revenue = decimal_sum (map bk_totalAmount rows)\<rparr>)"

text \<open>Rows grouped by a key, in ascending order of the keys (\<open>GROUP BY ... ORDER BY\<close>).\<close>

definition group_rows :: "('r \<Rightarrow> 'k::linorder) \<Rightarrow> 'r list \<Rightarrow> ('k \<times> 'r list) list" where
  "group_rows key rows = map (\<lambda>k. (k, filter (\<lambda>r. key r = k) rows)) (sort (remdups (map key rows)))"

definition month_of :: "instant \<Rightarrow> int" where
  "month_of t = 12 * get_utc_full_year t + get_utc_month t"

definition month_label :: "int \<Rightarrow> string" where
  "month_label m = pad_number 4 (m div 12) @ ''-'' @ pad_number 2 (m mod 12 + 1)"

definition get_growth :: "instant \<Rightarrow> db \<Rightarrow> (string \<times> nat) list" where
  "get_growth since d =
     map (\<lambda>(m, us). (month_label m, length us))
       (group_rows (\<lambda>u. month_of (u_createdAt u)) (filter (\<lambda>u. since \<le> u_createdAt u) (live_users d)))"

subsection \<open>The cached answers\<close>

definition dashboard_keys :: "string list" where
  "dashboard_keys = [''dashboard:stats'', ''dashboard:growth'', ''dashboard:admin-stats'']"

definition flush_cache :: "cache \<Rightarrow> cache" where
  "flush_cache c = fold cache_del dashboard_keys c"

end
