(* ===== verification/Analytics.thy ===== *)
theory Analytics
  imports Dashboard Attendance
begin

text \<open>
  The analytics (backend/src/analytics): member growth and revenue by day, utilization of the
  workspaces, attendance patterns, the nightly snapshots with their trend lines, and the
  in-process cache of the controller. The server runs in UTC; intervals before \<open>NOW()\<close> are taken
  from the instant of the request.
\<close>

definition period_days :: "string \<Rightarrow> int" where
  "period_days period = (if period = ''7d'' then 7 else if period = ''30d'' then 30 else 90)"

definition day_of :: "instant \<Rightarrow> int" where "day_of t = t div ms_per_day"

definition day_label :: "int \<Rightarrow> string" where "day_label n = iso_date (n * ms_per_day)"

definition get_member_growth :: "instant \<Rightarrow> string \<Rightarrow> db \<Rightarrow> (string \<times> nat) list" where
  "get_member_growth now period d =
     map (\<lambda>(n, us). (day_label n, length us))
       (group_rows (\<lambda>u. day_of (u_createdAt u))
         (filter (\<lambda>u. now - period_days period * ms_per_day \<le> u_createdAt u) (live_users d)))"

definition undeleted_bookings :: "db \<Rightarrow> booking list" where
  "undeleted_bookings d = filter (\<lambda>b. bk_deletedAt b = None) (db_bookings d)"

definition get_booking_revenue :: "instant \<Rightarrow> string \<Rightarrow> db \<Rightarrow> (string \<times> num) list" where
  "get_booking_revenue now period d =
     map (\<lambda>(n, bs). (day_label n, decimal_sum (map bk_totalAmount bs)))
       (group_rows (\<lambda>b. day_of (bk_createdAt b))
         (filter (\<lambda>b. now - period_days period * ms_per_day \<le> bk_createdAt b) (undeleted_bookings d)))"

record utilization_row =
  ur_workspaceId :: uuid
  ur_name :: string
  ur_type :: workspace_type
  ur_capacity :: int
  ur_confirmedBookings :: nat
  ur_utilizationPct :: int

definition confirmed_of :: "db \<Rightarrow> uuid \<Rightarrow> booking list" where
  "confirmed_of d i = filter (\<lambda>b. bk_workspaceId b = i \<and> bk_status b = CONFIRMED) (undeleted_bookings d)"

definition live_workspaces :: "db \<Rightarrow> workspace list" where
  "live_workspaces d = filter (\<lambda>w. w_deletedAt w = None) (db_workspaces d)"

definition get_workspace_utilization :: "db \<Rightarrow> utilization_row list" where
  "get_workspace_utilization d =
     map (\<lambda>ws. let confirmedCount = length (confirmed_of d (w_id ws)) in
        \<lparr>ur_workspaceId = w_id ws, ur_name = w_name ws, ur_type = w_type ws, ur_capacity = w_capacity ws,
         ur_confirmedBookings = confirmedCount,
         ur_utilizationPct =
           (if w_capacity ws > 0
            then min 100 (js_round (js_mul (js_div (js_int (int confirmedCount)) (js_int (w_capacity ws))) 100))
            else 0)\<rparr>)
       (filter w_isActive (live_workspaces d))"

subsection \<open>Attendance patterns\<close>

definition day_name :: "int \<Rightarrow> string" where
  "day_name n = [''Sunday'', ''Monday'', ''Tuesday'', ''Wednesday'', ''Thursday'', ''Friday'', ''Saturday''] ! nat n"

text \<open>The counters are objects with integer keys, whose entries come in ascending order.\<close>

definition count_entries :: "int list \<Rightarrow> (int \<times> nat) list" where
  "count_entries ks = map (\<lambda>(k, xs). (k, length xs)) (group_rows (\<lambda>k. k) ks)"

definition by_count :: "'k \<times> nat \<Rightarrow> 'k \<times> nat \<Rightarrow> int" where
  "by_count a b = int (snd b) - int (snd a)"

record attendance_patterns =
  pat_peakHours :: "(int \<times> nat) list"
  pat_dayOfWeek :: "(string \<times> nat) list"

definition clock_in_times :: "attendance list \<Rightarrow> instant list" where
  "clock_in_times rows =
     map (\<lambda>r. js_date (at_timestamp r)) (filter (\<lambda>r. at_action r = CLOCK_IN \<and> at_deletedAt r = None) rows)"

definition get_attendance_patterns :: "attendance list \<Rightarrow> attendance_patterns" where
  "get_attendance_patterns rows =
     \<lparr>pat_peakHours = take 5 (sort_by by_count (count_entries (map get_utc_hours (clock_in_times rows)))),
      pat_dayOfWeek = sort_by by_count (map (\<lambda>(day, count). (day_name day, count))
        (count_entries (map get_utc_day (clock_in_times rows))))\<rparr>"

subsection \<open>The nightly snapshots\<close>

record util_snapshot =
  us_id :: uuid
  us_date :: int \<comment> \<open>a date column: the number of the day\<close>
  us_workspaceId :: uuid
  us_workspaceType :: "workspace_type option"
  us_bookedHours :: num
  us_availableHours :: num
  us_occupancyRate :: num

definition booked_hours :: "db \<Rightarrow> int \<Rightarrow> uuid \<Rightarrow> nat" where
  "booked_hours d day i =
     length (filter (\<lambda>b. day * ms_per_day \<le> bk_startTime b \<and> bk_startTime b \<le> day * ms_per_day + 24 * 60 * 60 * 1000)
       (confirmed_of d i))"

text \<open>\<open>upsert(row, ['date', 'workspaceId'])\<close>: a row with the same day and workspace is overwritten and
  keeps its id, otherwise the row is inserted with a new one. The columns hold two decimals.\<close>

definition snapshot_key :: "util_snapshot \<Rightarrow> int \<times> uuid" where
  "snapshot_key x = (us_date x, us_workspaceId x)"

definition upsert_snapshot :: "util_snapshot \<Rightarrow> util_snapshot list \<Rightarrow> util_snapshot list" where
  "upsert_snapshot r tbl =
     (case find_row (\<lambda>x. snapshot_key x = snapshot_key r) tbl of
        None \<Rightarrow> tbl @ [r]
      | Some old \<Rightarrow> save_row snapshot_key (r\<lparr>us_id := us_id old\<rparr>) tbl)"

definition snapshot_of :: "(uuid \<Rightarrow> uuid) \<Rightarrow> db \<Rightarrow> int \<Rightarrow> workspace \<Rightarrow> util_snapshot" where
  "snapshot_of newId d day w =
     (let bookedHours = js_int (int (booked_hours d day (w_id w)));
          availableHours = 10;
          occupancyRate = js_mul (js_div bookedHours availableHours) 100
      in \<lparr>us_id = newId (w_id w), us_date = day, us_workspaceId = w_id w, us_workspaceType = Some (w_type w),
          us_bookedHours = num_to_fixed 2 bookedHours, us_availableHours = num_to_fixed 2 availableHours,
          us_occupancyRate = num_to_fixed 2 (min 100 occupancyRate)\<rparr>)"

definition aggregate_daily_utilization ::
  "(uuid \<Rightarrow> uuid) \<Rightarrow> instant \<Rightarrow> db \<Rightarrow> util_snapshot list \<Rightarrow> util_snapshot list" where
  "aggregate_daily_utilization newId now d tbl =
     (let yesterday = day_of now - 1
      in fold (\<lambda>w. upsert_snapshot (snapshot_of newId d yesterday w)) (live_workspaces d) tbl)"

subsection \<open>Trend lines\<close>

record trend_line =
  tl_slope :: num
  tl_intercept :: num
  tl_r2 :: num

definition js_sum :: "num list \<Rightarrow> num" where "js_sum xs = foldl js_add 0 xs" \<comment> \<open>a reduce from 0\<close>

definition js_square :: "num \<Rightarrow> num" where "js_square x = js_mul x x"

definition compute_trend_line :: "num list \<Rightarrow> trend_line" where
  "compute_trend_line yValues =
     (if length yValues < 2 then \<lparr>tl_slope = 0, tl_intercept = 0, tl_r2 = 0\<rparr>
      else
        let n = js_int (int (length yValues));
            xValues = map (\<lambda>i. js_int (int i)) [0..<length yValues];
            xMean = js_div (js_sum xValues) n;
            yMean = js_div (js_sum yValues) n;
            numerator = js_sum (map (\<lambda>(x, y). js_mul (js_sub x xMean) (js_sub y yMean)) (zip xValues yValues));
            denominator = js_sum (map (\<lambda>x. js_square (js_sub x xMean)) xValues);
            slope = (if denominator \<noteq> 0 then js_div numerator denominator else 0);
            intercept = js_sub yMean (js_mul slope xMean);
            ssRes = js_sum (map (\<lambda>(x, y). js_square (js_sub y (js_add (js_mul slope x) intercept))) (zip xValues yValues));
            ssTot = js_sum (map (\<lambda>y. js_square (js_sub y yMean)) yValues);
            r2 = (if ssTot \<noteq> 0 then js_sub 1 (js_div ssRes ssTot) else 0)
        in \<lparr>tl_slope = slope, tl_intercept = intercept, tl_r2 = r2\<rparr>)"

text \<open>What the driver makes of a date column is up to the ORM: a \<open>Date\<close> or a text such as
  2026-01-31. Only a \<open>Date\<close> has the method the service calls.\<close>

datatype loaded_date = LoadedDate instant | LoadedText string

record utilization_day =
  ud_date :: string
  ud_bookedHours :: num
  ud_availableHours :: num
  ud_occupancyRate :: num

definition add_day :: "string \<Rightarrow> util_snapshot \<Rightarrow> utilization_day list \<Rightarrow> utilization_day list" where
  "add_day dateStr s days =
     (if find_row (\<lambda>x. ud_date x = dateStr) days = None
      then days @ [\<lparr>ud_date = dateStr, ud_bookedHours = js_add 0 (us_bookedHours s),
             ud_availableHours = js_add 0 (us_availableHours s), ud_occupancyRate = js_add 0 (us_occupancyRate s)\<rparr>]
      else update_rows (\<lambda>x. ud_date x = dateStr)
             (\<lambda>x. \<lparr>ud_date = ud_date x, ud_bookedHours = js_add (ud_bookedHours x) (us_bookedHours s),
                ud_availableHours = js_add (ud_availableHours x) (us_availableHours s),
                ud_occupancyRate = js_add (ud_occupancyRate x) (us_occupancyRate s)\<rparr>) days)"

fun group_days :: "(int \<Rightarrow> loaded_date) \<Rightarrow> util_snapshot list \<Rightarrow> utilization_day list \<Rightarrow> utilization_day list result" where
  "group_days hydrate [] days = Inr days"
| "group_days hydrate (s # ss) days =
     (case hydrate (us_date s) of
        LoadedText t \<Rightarrow> Inl (ServerError ''toISOString is not a function'')
      | LoadedDate t \<Rightarrow> group_days hydrate ss (add_day (iso_date t) s days))"

record utilization_report =
  rep_currentMetrics :: "utilization_day option"
  rep_historicalData :: "utilization_day list"
  rep_trend30 :: trend_line
  rep_trend60 :: trend_line
  rep_trend90 :: trend_line

definition slice_last :: "nat \<Rightarrow> 'a list \<Rightarrow> 'a list" where \<comment> \<open>\<open>xs.slice(-n)\<close> for n > 0\<close>
  "slice_last n xs = drop (length xs - n) xs"

definition snapshots_between ::
  "string option \<Rightarrow> instant \<Rightarrow> instant \<Rightarrow> util_snapshot list \<Rightarrow> util_snapshot list" where
  "snapshots_between workspaceType startDate endDate tbl =
     sort_by (\<lambda>a b. us_date a - us_date b)
       (filter (\<lambda>s. startDate \<le> us_date s * ms_per_day \<and> us_date s * ms_per_day \<le> endDate \<and>
          (truthy workspaceType \<longrightarrow> map_option workspace_type_name (us_workspaceType s) = workspaceType)) tbl)"

definition per_workspace :: "nat \<Rightarrow> utilization_day \<Rightarrow> utilization_day" where
  "per_workspace workspaceCount v =
     (let n = js_int (int workspaceCount)
      in \<lparr>ud_date = ud_date v, ud_bookedHours = js_div (ud_bookedHours v) n,
          ud_availableHours = js_div (ud_availableHours v) n, ud_occupancyRate = js_div (ud_occupancyRate v) n\<rparr>)"

definition get_utilization_analytics ::
  "(int \<Rightarrow> loaded_date) \<Rightarrow> instant \<Rightarrow> string option \<Rightarrow> instant option \<Rightarrow> instant option \<Rightarrow> util_snapshot list
   \<Rightarrow> utilization_report result" where
  "get_utilization_analytics hydrate now workspaceType dateRangeStart dateRangeEnd tbl =
     (let endDate = (case dateRangeEnd of Some t \<Rightarrow> t | None \<Rightarrow> now);
          startDate = (case dateRangeStart of Some t \<Rightarrow> t | None \<Rightarrow> endDate - 90 * 24 * 60 * 60 * 1000);
          snapshots = snapshots_between workspaceType startDate endDate tbl
      in (case group_days hydrate snapshots [] of
            Inl e \<Rightarrow> Inl e
          | Inr dailyAverages \<Rightarrow>
            (let workspaceCount = (let n = length (remdups (map us_workspaceId snapshots)) in if n = 0 then 1 else n);
                 hist = map (per_workspace workspaceCount) dailyAverages
             in Inr \<lparr>rep_currentMetrics = (if hist = [] then None else Some (last hist)),
                     rep_historicalData = hist,
                     rep_trend30 = compute_trend_line (map ud_occupancyRate (slice_last 30 hist)),
                     rep_trend60 = compute_trend_line (map ud_occupancyRate (slice_last 60 hist)),
                     rep_trend90 = compute_trend_line (map ud_occupancyRate hist)\<rparr>)))"

subsection \<open>The cache of the controller\<close>

definition TTL_MS :: int where "TTL_MS = 15 * 60 * 1000"

type_synonym 'a analytics_cache = "string \<rightharpoonup> 'a \<times> instant"

text \<open>\<open>fn\<close> is the answer the service would give now; a rejected call leaves the cache as it is.\<close>

definition cached :: "instant \<Rightarrow> string \<Rightarrow> 'a result \<Rightarrow> 'a analytics_cache \<Rightarrow> 'a result \<times> 'a analytics_cache" where
  "cached now key fn c =
     (case c key of
        Some (v, expiresAt) \<Rightarrow>
          if expiresAt > now then (Inr v, c)
          else (case fn of Inl e \<Rightarrow> (Inl e, c) | Inr v' \<Rightarrow> (Inr v', c(key \<mapsto> (v', now + TTL_MS))))
      | None \<Rightarrow> (case fn of Inl e \<Rightarrow> (Inl e, c) | Inr v' \<Rightarrow> (Inr v', c(key \<mapsto> (v', now + TTL_MS)))))"

datatype analytics_answer =
    AnGrowth "(string \<times> nat) list"
  | AnRevenue "(string \<times> num) list"
  | AnWorkspaces "utilization_row list"
  | AnPatterns attendance_patterns
  | AnUtilization utilization_report

definition or_period :: "string option \<Rightarrow> string" where
  "or_period p = (case p of None \<Rightarrow> ''30d'' | Some s \<Rightarrow> s)"

definition member_growth_handler ::
  "instant \<Rightarrow> string option \<Rightarrow> db \<Rightarrow> analytics_answer analytics_cache \<Rightarrow> analytics_answer result \<times> analytics_answer analytics_cache" where
  "member_growth_handler now period d =
     cached now (''member-growth:'' @ or_period period) (Inr (AnGrowth (get_member_growth now (or_period period) d)))"

definition booking_revenue_handler ::
  "instant \<Rightarrow> string option \<Rightarrow> db \<Rightarrow> analytics_answer analytics_cache \<Rightarrow> analytics_answer result \<times> analytics_answer analytics_cache" where
  "booking_revenue_handler now period d =
     cached now (''booking-revenue:'' @ or_period period) (Inr (AnRevenue (get_booking_revenue now (or_period period) d)))"

definition workspace_utilization_handler ::
  "instant \<Rightarrow> db \<Rightarrow> analytics_answer analytics_cache \<Rightarrow> analytics_answer result \<times> analytics_answer analytics_cache" where
  "workspace_utilization_handler now d =
     cached now ''workspace-utilization'' (Inr (AnWorkspaces (get_workspace_utilization d)))"

definition attendance_patterns_handler ::
  "instant \<Rightarrow> attendance list \<Rightarrow> analytics_answer analytics_cache \<Rightarrow> analytics_answer result \<times> analytics_answer analytics_cache" where
  "attendance_patterns_handler now rows =
     cached now ''attendance-patterns'' (Inr (AnPatterns (get_attendance_patterns rows)))"

definition or_text :: "string option \<Rightarrow> string \<Rightarrow> string" where
  "or_text s d = (if truthy s then the s else d)"

definition utilization_key :: "string option \<Rightarrow> string option \<Rightarrow> string option \<Rightarrow> string" where
  "utilization_key workspaceType startDate endDate =
     ''utilization:'' @ or_text workspaceType ''all'' @ '':'' @ or_text startDate ''default'' @ '':'' @ or_text endDate ''default''"

text \<open>\<open>new Date(text)\<close> is given by \<open>parse\<close>; an invalid date makes the query fail.\<close>

definition date_argument :: "(string \<Rightarrow> instant option) \<Rightarrow> string option \<Rightarrow> instant option result" where
  "date_argument parse s =
     (if truthy s then (case parse (the s) of
         None \<Rightarrow> Inl (ServerError ''invalid input syntax for type date'') | Some t \<Rightarrow> Inr (Some t))
      else Inr None)"

definition utilization_handler ::
  "(string \<Rightarrow> instant option) \<Rightarrow> (int \<Rightarrow> loaded_date) \<Rightarrow> instant \<Rightarrow> string option \<Rightarrow> string option \<Rightarrow> string option
   \<Rightarrow> util_snapshot list \<Rightarrow> analytics_answer analytics_cache \<Rightarrow> analytics_answer result \<times> analytics_answer analytics_cache" where
  "utilization_handler parse hydrate now workspaceType startDate endDate tbl =
     cached now (utilization_key workspaceType startDate endDate)
       (case date_argument parse startDate of Inl e \<Rightarrow> Inl e
        | Inr a \<Rightarrow> (case date_argument parse endDate of Inl e \<Rightarrow> Inl e
          | Inr b \<Rightarrow> map_sum id AnUtilization (get_utilization_analytics hydrate now workspaceType a b tbl)))"

end
