(* ===== verification/Conflict.thy ===== *)
theory Conflict
  imports Entities
begin

text \<open>
  Conflict detection and capacity checks (backend/src/bookings/conflict-detection.service.ts
  and capacity-check.service.ts): the maintenance check, the sweep over start and end
  events that measures how many bookings run at once, the overlap count, and the hourly
  availability table of a day.
\<close>

record conflict_detail =
  cd_conflictingBookingId :: "uuid option"
  cd_overlappingWindow :: "(instant \<times> instant) option"
  cd_reason :: string
  cd_available :: "int option"

definition is_active :: "booking \<Rightarrow> bool" where
  "is_active b \<longleftrightarrow> bk_status b \<in> {CONFIRMED, PENDING} \<and> bk_deletedAt b = None"

definition overlaps :: "instant \<Rightarrow> instant \<Rightarrow> booking \<Rightarrow> bool" where
  "overlaps startTime endTime b \<longleftrightarrow> bk_startTime b < endTime \<and> bk_endTime b > startTime"

definition overlapping_bookings ::
  "db \<Rightarrow> uuid \<Rightarrow> instant \<Rightarrow> instant \<Rightarrow> uuid option \<Rightarrow> booking list" where
  "overlapping_bookings d workspaceId startTime endTime excludeBookingId =
     filter (\<lambda>b. bk_workspaceId b = workspaceId \<and> is_active b \<and> overlaps startTime endTime b
                 \<and> (truthy excludeBookingId \<longrightarrow> Some (bk_id b) \<noteq> excludeBookingId))
       (db_bookings d)"

definition find_maintenance ::
  "db \<Rightarrow> uuid \<Rightarrow> instant \<Rightarrow> instant \<Rightarrow> maintenance_window option" where
  "find_maintenance d workspaceId startTime endTime =
     find_row (\<lambda>m. mw_workspaceId m = workspaceId \<and> mw_startTime m < endTime
                 \<and> mw_endTime m > startTime) (db_windows d)"

datatype event_type = EvStart | EvEnd

type_synonym event = "int \<times> event_type"

definition event_cmp :: "event \<Rightarrow> event \<Rightarrow> int" where
  "event_cmp a b =
     (if fst a \<noteq> fst b then fst a - fst b
      else if snd a = snd b then 0
      else if snd a = EvEnd then -1 else 1)"

fun booking_events :: "instant \<Rightarrow> instant \<Rightarrow> booking list \<Rightarrow> event list" where
  "booking_events startTime endTime [] = []"
| "booking_events startTime endTime (b # bs) =
     (let overlapStart = max startTime (bk_startTime b);
          overlapEnd = min endTime (bk_endTime b)
      in (if overlapStart < overlapEnd
          then [(overlapStart, EvStart), (overlapEnd, EvEnd)] else [])
         @ booking_events startTime endTime bs)"

fun sweep :: "int \<Rightarrow> int \<Rightarrow> event list \<Rightarrow> int" where
  "sweep current mx [] = mx"
| "sweep current mx ((t, EvStart) # es) =
     sweep (current + 1) (if current + 1 > mx then current + 1 else mx) es"
| "sweep current mx ((t, EvEnd) # es) = sweep (current - 1) mx es"

definition max_concurrent :: "instant \<Rightarrow> instant \<Rightarrow> booking list \<Rightarrow> int" where
  "max_concurrent startTime endTime bs =
     sweep 0 0 (sort_by event_cmp
       ([(startTime, EvStart), (endTime, EvEnd)] @ booking_events startTime endTime bs))"

definition has_conflict ::
  "db \<Rightarrow> uuid \<Rightarrow> instant \<Rightarrow> instant \<Rightarrow> uuid option \<Rightarrow> conflict_detail option result" where
  "has_conflict d workspaceId startTime endTime excludeBookingId =
     (case find_workspace d workspaceId of
        None \<Rightarrow> Inl (ServerError ''Workspace not found'')
      | Some w \<Rightarrow>
        (case find_maintenance d workspaceId startTime endTime of
           Some m \<Rightarrow> Inr (Some \<lparr>cd_conflictingBookingId = None,
               cd_overlappingWindow = Some (mw_startTime m, mw_endTime m),
               cd_reason = ''Maintenance Window'', cd_available = None\<rparr>)
         | None \<Rightarrow>
           (case overlapping_bookings d workspaceId startTime endTime excludeBookingId of
              [] \<Rightarrow> Inr None
            | firstConflict # others \<Rightarrow>
              (let mx = max_concurrent startTime endTime (firstConflict # others)
               in if mx > w_capacity w
                  then Inr (Some \<lparr>cd_conflictingBookingId = Some (bk_id firstConflict),
                      cd_overlappingWindow =
                        Some (bk_startTime firstConflict, bk_endTime firstConflict),
                      cd_reason = ''capacity_exceeded'',
                      cd_available = Some (max 0 (w_capacity w - (mx - 1)))\<rparr>)
                  else Inr None))))"

subsection \<open>Capacity checks\<close>

definition concurrent_count :: "db \<Rightarrow> uuid \<Rightarrow> instant \<Rightarrow> instant \<Rightarrow> int" where
  "concurrent_count d workspaceId startTime endTime =
     int (length (filter (\<lambda>b. bk_workspaceId b = workspaceId \<and> is_active b
                            \<and> overlaps startTime endTime b) (db_bookings d)))"

definition has_capacity :: "db \<Rightarrow> uuid \<Rightarrow> instant \<Rightarrow> instant \<Rightarrow> (int \<times> int) result" where
  "has_capacity d workspaceId startTime endTime =
     (case find_workspace d workspaceId of
        None \<Rightarrow> Inl (ServerError ''Workspace not found'')
      | Some w \<Rightarrow>
        (let concurrent = concurrent_count d workspaceId startTime endTime;
             available = max 0 (w_capacity w - concurrent)
         in Inr (available, w_capacity w)))"

record availability_slot =
  as_hour :: instant \<comment> \<open>toISOString of the slot start\<close>
  as_available :: int
  as_capacity :: int

definition hourly_slot :: "db \<Rightarrow> workspace \<Rightarrow> instant \<Rightarrow> nat \<Rightarrow> availability_slot" where
  "hourly_slot d w startOfDay hour =
     (let slotStart = set_utc_hours4 (int hour) 0 0 0 startOfDay;
          slotEnd = set_utc_hours4 (int hour + 1) 0 0 0 slotStart;
          concurrent = concurrent_count d (w_id w) slotStart slotEnd
      in \<lparr>as_hour = slotStart, as_available = max 0 (w_capacity w - concurrent),
          as_capacity = w_capacity w\<rparr>)"

definition get_hourly_availability :: "db \<Rightarrow> uuid \<Rightarrow> instant \<Rightarrow> availability_slot list result" where
  "get_hourly_availability d workspaceId date =
     (case find_workspace d workspaceId of
        None \<Rightarrow> Inl (ServerError ''Workspace not found'')
      | Some w \<Rightarrow>
        (let startOfDay = set_utc_hours4 0 0 0 0 date
         in Inr (map (hourly_slot d w startOfDay) [0..<24])))"

end
