(* ===== verification/Bookings.thy ===== *)
theory Bookings
  imports Conflict
begin

text \<open>
  Bookings: recurrence expansion (backend/src/bookings/recurrence.service.ts), cancellation policies
  and refunds (cancellation-policy.service.ts). The booking service itself is in Booking_Service. The
  rrule package is a parameter.
\<close>

subsection \<open>Recurrence\<close>

text \<open>
  What the service uses of the rrule package: \<open>rr_parse\<close> is \<open>RRule.parseString\<close> (None: it
  throws), \<open>rr_all opts dtstart accept\<close> the occurrences \<open>rule.all(accept)\<close> returns for
  \<open>new RRule({...opts, dtstart})\<close>, where \<open>accept n\<close> is asked before the occurrence number
  \<open>n\<close> is kept (None: the constructor throws).
\<close>

record rrule_lib =
  rr_parse :: "string \<Rightarrow> json option"
  rr_all :: "json \<Rightarrow> instant \<Rightarrow> (nat \<Rightarrow> bool) \<Rightarrow> instant list option"

definition MAX_RECURRENCE_INSTANCES :: nat where "MAX_RECURRENCE_INSTANCES = 52"

record recurrence_instance =
  ri_startTime :: instant
  ri_endTime :: instant

definition rule_text :: "string \<Rightarrow> string" where
  "rule_text rruleString =
     (if take 6 rruleString = ''RRULE:'' then drop 6 rruleString else rruleString)"

definition invalid_rrule :: "string \<Rightarrow> http_error" where
  "invalid_rrule rruleString = BadRequest (''Invalid RRULE string: '' @ rruleString @
     ''. Must be a valid RFC 5545 RRULE.'')"

definition expand_instances ::
  "rrule_lib \<Rightarrow> string \<Rightarrow> instant \<Rightarrow> int \<Rightarrow> recurrence_instance list result" where
  "expand_instances lib rruleString dtstart durationMs =
     (case Option.bind (rr_parse lib (rule_text rruleString))
             (\<lambda>opts. rr_all lib opts dtstart (\<lambda>len. len \<le> MAX_RECURRENCE_INSTANCES)) of
        None \<Rightarrow> Inl (invalid_rrule rruleString)
      | Some occurrences \<Rightarrow>
        if length occurrences = 0
        then Inl (BadRequest ''The provided RRULE produces no occurrences.'')
        else if length occurrences > MAX_RECURRENCE_INSTANCES
        then Inl (BadRequest ''Recurring series exceeds the maximum of 52 instances. Use COUNT or UNTIL to limit the series.'')
        else Inr (map (\<lambda>startTime. \<lparr>ri_startTime = startTime, ri_endTime = startTime + durationMs\<rparr>)
               occurrences))"

definition validate_rule :: "rrule_lib \<Rightarrow> string \<Rightarrow> json result" where
  "validate_rule lib rruleString =
     (case rr_parse lib (rule_text rruleString) of
        None \<Rightarrow> Inl (invalid_rrule rruleString)
      | Some opts \<Rightarrow> Inr opts)"

subsection \<open>Cancellation policies\<close>

record create_cancellation_policy_dto =
  ccp_workspaceType :: workspace_type
  ccp_fullRefundHoursBefore :: int
  ccp_partialRefundPercent :: int
  ccp_partialRefundHoursBefore :: int

definition create_cancellation_policy_dto_valid :: "create_cancellation_policy_dto \<Rightarrow> bool" where
  "create_cancellation_policy_dto_valid dto \<longleftrightarrow>
     1 \<le> ccp_fullRefundHoursBefore dto \<and>
     0 \<le> ccp_partialRefundPercent dto \<and> ccp_partialRefundPercent dto \<le> 100 \<and>
     (ccp_partialRefundPercent dto > 0 \<longrightarrow> 0 \<le> ccp_partialRefundHoursBefore dto)"

record update_cancellation_policy_dto =
  ucp_fullRefundHoursBefore :: "int option"
  ucp_partialRefundPercent :: "int option"
  ucp_partialRefundHoursBefore :: "int option"

definition update_cancellation_policy_dto_valid :: "update_cancellation_policy_dto \<Rightarrow> bool" where
  "update_cancellation_policy_dto_valid dto \<longleftrightarrow>
     (case ucp_fullRefundHoursBefore dto of None \<Rightarrow> True | Some h \<Rightarrow> 1 \<le> h) \<and>
     (case ucp_partialRefundPercent dto of None \<Rightarrow> True | Some p \<Rightarrow> 0 \<le> p \<and> p \<le> 100) \<and>
     (case ucp_partialRefundHoursBefore dto of None \<Rightarrow> True | Some h \<Rightarrow> 0 \<le> h)"

record refund_evaluation =
  re_refundAmount :: num
  re_refundPercent :: int
  re_reason :: string

text \<open>The thresholds of a policy, and those of the default policy.\<close>

definition effective_policy :: "cancellation_policy option \<Rightarrow> int \<times> int \<times> int" where
  "effective_policy policy =
     (case policy of
        Some p \<Rightarrow> (cp_fullRefundHoursBefore p, cp_partialRefundPercent p,
                   cp_partialRefundHoursBefore p)
      | None \<Rightarrow> (24, 0, 0))"

definition find_policy :: "db \<Rightarrow> workspace option \<Rightarrow> cancellation_policy option" where
  "find_policy d w =
     (case w of None \<Rightarrow> None
      | Some ws \<Rightarrow> find_row (\<lambda>p. cp_workspaceType p = w_type ws) (db_policies d))"

text \<open>The reason text; strings are UTF-8, so the dash between the parts is three bytes.\<close>

definition em_dash :: string where "em_dash = map char_of [226::nat, 128, 148]"

definition refund_reason :: "num \<Rightarrow> string \<Rightarrow> string" where
  "refund_reason hoursBeforeStart decision =
     ''Cancelled '' @ to_fixed_string 1 hoursBeforeStart @ '' h before start '' @ em_dash @ '' '' @ decision"

definition evaluate_refund :: "db \<Rightarrow> booking_view \<Rightarrow> instant \<Rightarrow> refund_evaluation" where
  "evaluate_refund d v cancelledAt =
     (case effective_policy (find_policy d (bv_workspace v)) of
        (fullHours, partialPercent, partialHours) \<Rightarrow>
        (let hoursBeforeStart = hours_of_ms (bk_startTime (bv_booking v) - cancelledAt);
             totalAmount = bk_totalAmount (bv_booking v)
         in if hoursBeforeStart \<ge> js_int fullHours
            then \<lparr>re_refundAmount = totalAmount, re_refundPercent = 100,
                  re_reason = refund_reason hoursBeforeStart
                    (''full refund (threshold: '' @ int_string fullHours @ '' h).'')\<rparr>
            else if partialPercent > 0 \<and> hoursBeforeStart \<ge> js_int partialHours
            then \<lparr>re_refundAmount = num_to_fixed 2
                    (js_div (js_mul totalAmount (js_int partialPercent)) 100),
                  re_refundPercent = partialPercent,
                  re_reason = refund_reason hoursBeforeStart
                    (int_string partialPercent @ ''% partial refund (threshold: '' @
                     int_string partialHours @ '' h).'')\<rparr>
            else \<lparr>re_refundAmount = 0, re_refundPercent = 0,
                  re_reason = refund_reason hoursBeforeStart
                    ''no refund (below minimum threshold).''\<rparr>))"

definition find_policy_by_type ::
  "workspace_type \<Rightarrow> cancellation_policy list \<Rightarrow> cancellation_policy result" where
  "find_policy_by_type workspaceType tbl =
     (case find_row (\<lambda>p. cp_workspaceType p = workspaceType) tbl of
        None \<Rightarrow> Inl (NotFound (''No cancellation policy found for workspace type '' @
                  workspace_type_name workspaceType @ ''.''))
      | Some p \<Rightarrow> Inr p)"

text \<open>The unique index on the type makes a second policy of a type a database error.\<close>

definition create_policy ::
  "uuid \<Rightarrow> create_cancellation_policy_dto \<Rightarrow> cancellation_policy list
   \<Rightarrow> (cancellation_policy list, cancellation_policy) outcome" where
  "create_policy newId dto tbl =
     (if ccp_workspaceType dto \<in> cp_workspaceType ` set tbl
      then (Inl (ServerError ''duplicate key value violates unique constraint''), tbl)
      else (let p = \<lparr>cp_id = newId, cp_workspaceType = ccp_workspaceType dto,
                     cp_fullRefundHoursBefore = ccp_fullRefundHoursBefore dto,
                     cp_partialRefundPercent = ccp_partialRefundPercent dto,
                     cp_partialRefundHoursBefore = ccp_partialRefundHoursBefore dto\<rparr>
            in (Inr p, save_row cp_id p tbl)))"

definition update_policy ::
  "workspace_type \<Rightarrow> update_cancellation_policy_dto \<Rightarrow> cancellation_policy list
   \<Rightarrow> (cancellation_policy list, cancellation_policy) outcome" where
  "update_policy workspaceType dto tbl =
     (case find_policy_by_type workspaceType tbl of
        Inl e \<Rightarrow> (Inl e, tbl)
      | Inr p \<Rightarrow>
        (let p' = p\<lparr>
             cp_fullRefundHoursBefore := upd (ucp_fullRefundHoursBefore dto) (cp_fullRefundHoursBefore p),
             cp_partialRefundPercent := upd (ucp_partialRefundPercent dto) (cp_partialRefundPercent p),
             cp_partialRefundHoursBefore :=
               upd (ucp_partialRefundHoursBefore dto) (cp_partialRefundHoursBefore p)\<rparr>
         in (Inr p', save_row cp_id p' tbl)))"

definition remove_policy ::
  "workspace_type \<Rightarrow> cancellation_policy list \<Rightarrow> (cancellation_policy list, unit) outcome" where
  "remove_policy workspaceType tbl =
     (case find_policy_by_type workspaceType tbl of
        Inl e \<Rightarrow> (Inl e, tbl)
      | Inr p \<Rightarrow> (Inr (), delete_rows (\<lambda>x. cp_id x = cp_id p) tbl))"

end
