(* ===== verification/Booking_Service.thy ===== *)
theory Booking_Service
  imports Bookings
begin

text \<open>
  The booking service (backend/src/bookings/bookings.service.ts): creation of single
  bookings and recurring series, confirmation after payment verification, cancellation with
  refund, updates, and the queries; and the series service
  (backend/src/bookings/booking-series.service.ts). Transactions roll the state back when
  their body throws. The environment supplies the clock, the generated identifiers, the
  rrule package and the Stellar RPC.
\<close>

record booking_env =
  be_now :: instant
  be_ids :: "nat \<Rightarrow> uuid" \<comment> \<open>keys generated for the saved bookings\<close>
  be_seriesId :: uuid
  be_outboxId :: uuid
  be_deliveryIds :: "nat \<Rightarrow> uuid"
  be_rrule :: rrule_lib
  be_stellar :: stellar_env

record create_booking_dto =
  cb_workspaceId :: uuid
  cb_startTime :: instant
  cb_endTime :: instant
  cb_totalAmount :: "num option"
  cb_stellarTxHash :: "string option"
  cb_recurrenceRule :: "string option"

record update_booking_dto =
  ub_status :: "booking_status option"
  ub_stellarTxHash :: "string option option" \<comment> \<open>absent, null or a value\<close>
  ub_startTime :: "instant option"
  ub_endTime :: "instant option"

subsection \<open>Creation\<close>

definition new_booking ::
  "uuid \<Rightarrow> uuid \<Rightarrow> uuid \<Rightarrow> instant \<Rightarrow> instant \<Rightarrow> num \<Rightarrow> string option \<Rightarrow> instant \<Rightarrow> booking" where
  "new_booking newId workspaceId userId startTime endTime totalAmount stellarTxHash now =
     \<lparr>bk_id = newId, bk_workspaceId = workspaceId, bk_userId = userId,
      bk_startTime = startTime, bk_endTime = endTime, bk_status = PENDING,
      bk_totalAmount = totalAmount, bk_stellarTxHash = stellarTxHash, bk_hubId = None,
      bk_recurrenceRule = None, bk_seriesId = None, bk_instanceIndex = None,
      bk_refundAmount = None, bk_appliedRateSnapshot = None, bk_createdAt = now,
      bk_deletedAt = None\<rparr>"

fun check_instances :: "db \<Rightarrow> uuid \<Rightarrow> recurrence_instance list \<Rightarrow> unit result" where
  "check_instances d workspaceId [] = Inr ()"
| "check_instances d workspaceId (inst # rest) =
     (case has_conflict d workspaceId (ri_startTime inst) (ri_endTime inst) None of
        Inl e \<Rightarrow> Inl e
      | Inr (Some conflict) \<Rightarrow>
          Inl (Conflict (''Recurring series conflict detected on instance starting '' @
                 to_iso (ri_startTime inst)))
      | Inr None \<Rightarrow> check_instances d workspaceId rest)"

definition series_rows ::
  "booking_env \<Rightarrow> uuid \<Rightarrow> uuid \<Rightarrow> string \<Rightarrow> string option \<Rightarrow> (nat \<Rightarrow> recurrence_instance \<Rightarrow> num)
   \<Rightarrow> recurrence_instance list \<Rightarrow> booking list" where
  "series_rows env workspaceId userId recurrenceRule stellarTxHash amount instances =
     map (\<lambda>(index, inst).
            (new_booking (be_ids env index) workspaceId userId (ri_startTime inst)
               (ri_endTime inst) (amount index inst) stellarTxHash (be_now env))
            \<lparr>bk_recurrenceRule := (if index = 0 then Some recurrenceRule else None),
             bk_seriesId := Some (be_seriesId env), bk_instanceIndex := Some (int index)\<rparr>)
       (zip [0..<length instances] instances)"

definition save_bookings :: "booking list \<Rightarrow> db \<Rightarrow> db" where
  "save_bookings bs d = fold save_booking bs d"

definition series_amount :: "workspace \<Rightarrow> nat \<Rightarrow> recurrence_instance \<Rightarrow> num" where
  "series_amount workspace index inst =
     num_to_fixed 2 (js_mul (hours_of_ms (ri_endTime inst - ri_startTime inst))
       (w_pricePerHour workspace))"

definition series_notification :: "booking_env \<Rightarrow> nat \<Rightarrow> json \<Rightarrow> json" where
  "series_notification env n workspaceName =
     JObj [(''seriesId'', JStr (be_seriesId env)), (''instanceCount'', json_int (int n)),
           (''workspaceName'', workspaceName)]"

definition create_recurring ::
  "booking_env \<Rightarrow> workspace \<Rightarrow> uuid \<Rightarrow> create_booking_dto \<Rightarrow> string \<Rightarrow> db
   \<Rightarrow> (db, booking list) outcome" where
  "create_recurring env workspace userId dto rruleString d =
     (case expand_instances (be_rrule env) rruleString (cb_startTime dto)
             (cb_endTime dto - cb_startTime dto) of
        Inl e \<Rightarrow> (Inl e, d)
      | Inr instances \<Rightarrow>
        (case check_instances d (cb_workspaceId dto) instances of
           Inl e \<Rightarrow> (Inl e, d)
         | Inr _ \<Rightarrow>
           (let bookings = series_rows env (cb_workspaceId dto) userId rruleString
                  (cb_stellarTxHash dto) (series_amount workspace) instances;
                d1 = save_bookings bookings d
            in (Inr bookings, send_to_user userId ''booking:series_created''
                  (series_notification env (length bookings) (JStr (w_name workspace))) d1))))"

definition booking_event_payload :: "booking \<Rightarrow> json" where
  "booking_event_payload b = JObj [(''bookingId'', JStr (bk_id b)), (''userId'', JStr (bk_userId b)),
     (''workspaceId'', JStr (bk_workspaceId b)), (''totalAmount'', JNum (bk_totalAmount b)),
     (''stellarTxHash'', json_of_option (bk_stellarTxHash b))]"

definition add_outbox :: "booking_env \<Rightarrow> outbox_event_type \<Rightarrow> booking \<Rightarrow> db \<Rightarrow> db" where
  "add_outbox env eventType b d =
     d\<lparr>db_outbox := outbox_create (be_outboxId env) (be_now env) eventType
         (booking_event_payload b) (db_outbox d)\<rparr>"

definition active_rules :: "db \<Rightarrow> uuid \<Rightarrow> price_rule list" where
  "active_rules d workspaceId =
     filter (\<lambda>r. pr_workspaceId r = workspaceId \<and> pr_isActive r) (db_rules d)"

definition create_single ::
  "booking_env \<Rightarrow> workspace \<Rightarrow> uuid \<Rightarrow> create_booking_dto \<Rightarrow> string \<Rightarrow> db
   \<Rightarrow> (db, booking list) outcome" where
  "create_single env workspace userId dto userTier d =
     (case has_conflict d (cb_workspaceId dto) (cb_startTime dto) (cb_endTime dto) None of
        Inl e \<Rightarrow> (Inl e, d)
      | Inr (Some conflict) \<Rightarrow> (Inl (Conflict ''Workspace booking conflict detected''), d)
      | Inr None \<Rightarrow>
        (case calculate_price (be_now env) (cb_workspaceId dto) (cb_startTime dto)
                (cb_endTime dto) userTier (w_pricePerHour workspace)
                (Some (active_rules d (cb_workspaceId dto))) (db_rules d) of
           Inl e \<Rightarrow> (Inl e, d)
         | Inr rateSnapshot \<Rightarrow>
           (let b = (new_booking (be_ids env 0) (cb_workspaceId dto) userId (cb_startTime dto)
                       (cb_endTime dto) (snap_totalAmount rateSnapshot) (cb_stellarTxHash dto)
                       (be_now env))
                    \<lparr>bk_recurrenceRule := cb_recurrenceRule dto,
                     bk_appliedRateSnapshot := Some rateSnapshot\<rparr>
            in (Inr [b], add_outbox env STELLAR_ESCROW_CREATE b (save_booking b d)))))"

definition create_body ::
  "booking_env \<Rightarrow> uuid \<Rightarrow> create_booking_dto \<Rightarrow> string \<Rightarrow> db \<Rightarrow> (db, booking list) outcome" where
  "create_body env userId dto userTier d =
     (case find_workspace d (cb_workspaceId dto) of
        None \<Rightarrow> (Inl (NotFound ''Workspace not found''), d)
      | Some workspace \<Rightarrow>
        if cb_endTime dto - cb_startTime dto \<le> 0
        then (Inl (BadRequest ''endTime must be after startTime''), d)
        else if truthy (cb_recurrenceRule dto)
        then create_recurring env workspace userId dto (the (cb_recurrenceRule dto)) d
        else create_single env workspace userId dto userTier d)"

definition create_booking ::
  "booking_env \<Rightarrow> uuid \<Rightarrow> create_booking_dto \<Rightarrow> string \<Rightarrow> db \<Rightarrow> (db, booking list) outcome" where
  "create_booking env userId dto userTier d =
     (case transaction (create_body env userId dto userTier) d of
        (Inl e, d') \<Rightarrow> (Inl e, d')
      | (Inr result, d') \<Rightarrow> (Inr result, invalidate_dashboard_cache d'))"

subsection \<open>Queries\<close>

definition live_bookings :: "db \<Rightarrow> booking list" where
  "live_bookings d = filter (\<lambda>b. bk_deletedAt b = None) (db_bookings d)"

definition find_all_bookings :: "uuid option \<Rightarrow> bool \<Rightarrow> db \<Rightarrow> booking_view list" where
  "find_all_bookings userId isAdmin d =
     map (load_booking d)
       (filter (\<lambda>b. (\<not> isAdmin \<and> truthy userId) \<longrightarrow> Some (bk_userId b) = userId) (live_bookings d))"

definition find_booking_by_id :: "uuid \<Rightarrow> db \<Rightarrow> booking_view result" where
  "find_booking_by_id i d =
     (case find_booking d i of
        None \<Rightarrow> Inl (NotFound ''Booking not found'')
      | Some b \<Rightarrow> Inr (load_booking d b))"

text \<open>This query loads the user but not the workspace.\<close>

definition find_by_workspace :: "uuid \<Rightarrow> db \<Rightarrow> booking_view list" where
  "find_by_workspace workspaceId d =
     map (\<lambda>b. (load_booking d b)\<lparr>bv_workspace := None\<rparr>)
       (filter (\<lambda>b. bk_workspaceId b = workspaceId) (live_bookings d))"

definition series_instances :: "uuid \<Rightarrow> db \<Rightarrow> booking list" where
  "series_instances seriesId d = filter (\<lambda>b. bk_seriesId b = Some seriesId) (live_bookings d)"

definition no_series :: "uuid \<Rightarrow> http_error" where
  "no_series seriesId = NotFound (''No bookings found for series '' @ seriesId)"

definition index_order :: "booking \<Rightarrow> booking \<Rightarrow> int" where
  "index_order a b = (case (bk_instanceIndex a, bk_instanceIndex b) of
     (Some i, Some j) \<Rightarrow> i - j | (Some _, None) \<Rightarrow> -1 | (None, Some _) \<Rightarrow> 1 | (None, None) \<Rightarrow> 0)"

definition find_by_series :: "uuid \<Rightarrow> db \<Rightarrow> booking list result" where
  "find_by_series seriesId d =
     (let bookings = sort_by index_order (series_instances seriesId d)
      in if length bookings = 0 then Inl (no_series seriesId) else Inr bookings)"

subsection \<open>Confirmation\<close>

definition payment_check :: "stellar_env \<Rightarrow> booking \<Rightarrow> unit result" where
  "payment_check st b =
     (if truthy (bk_stellarTxHash b)
      then (case verify_transaction st (the (bk_stellarTxHash b)) of
              Inl e \<Rightarrow> Inl (BadRequest (''Payment verification failed: '' @ e))
            | Inr status \<Rightarrow>
              if status \<noteq> ''SUCCESS'' then Inl (BadRequest ''Transaction verification failed'')
              else Inr ())
      else Inr ())"

definition confirm_body :: "booking_env \<Rightarrow> uuid \<Rightarrow> db \<Rightarrow> (db, booking_view) outcome" where
  "confirm_body env i d =
     (case find_booking d i of
        None \<Rightarrow> (Inl (NotFound ''Booking not found''), d)
      | Some b \<Rightarrow>
        (case payment_check (be_stellar env) b of
           Inl e \<Rightarrow> (Inl e, d)
         | Inr _ \<Rightarrow>
           if bk_status b \<noteq> PENDING
           then (Inl (BadRequest ''Only pending bookings can be confirmed''), d)
           else (let b' = b\<lparr>bk_status := CONFIRMED\<rparr>
                 in (Inr ((load_booking d b)\<lparr>bv_booking := b'\<rparr>),
                     add_outbox env STELLAR_BOOKING_CONFIRMED b' (save_booking b' d)))))"

definition confirmed_notification :: "booking_view \<Rightarrow> json" where
  "confirmed_notification v = JObj [(''bookingId'', JStr (bk_id (bv_booking v))),
     (''workspaceName'', json_of_option (map_option w_name (bv_workspace v)))]"

definition enqueue_webhook :: "booking_env \<Rightarrow> string \<Rightarrow> json \<Rightarrow> db \<Rightarrow> db" where
  "enqueue_webhook env eventType payload d =
     d\<lparr>db_webhooks := enqueue (be_deliveryIds env) (be_now env) eventType payload (db_webhooks d)\<rparr>"

definition confirm :: "booking_env \<Rightarrow> uuid \<Rightarrow> db \<Rightarrow> (db, booking_view) outcome" where
  "confirm env i d =
     (case transaction (confirm_body env i) d of
        (Inl e, d1) \<Rightarrow> (Inl e, d1)
      | (Inr saved, d1) \<Rightarrow>
        (Inr saved,
         enqueue_webhook env ''booking.confirmed'' (booking_json saved)
           (send_to_user (bk_userId (bv_booking saved)) ''booking:confirmed''
              (confirmed_notification saved) d1)))"

subsection \<open>Cancellation\<close>

definition cancelled_notification :: "booking \<Rightarrow> refund_evaluation \<Rightarrow> json" where
  "cancelled_notification b r = JObj [(''bookingId'', JStr (bk_id b)),
     (''refundAmount'', JNum (re_refundAmount r)),
     (''refundPercent'', json_int (re_refundPercent r)), (''reason'', JStr (re_reason r))]"

definition cancel :: "booking_env \<Rightarrow> uuid \<Rightarrow> uuid \<Rightarrow> db \<Rightarrow> (db, booking) outcome" where
  "cancel env i userId d =
     (case find_booking_by_id i d of
        Inl e \<Rightarrow> (Inl e, d)
      | Inr v \<Rightarrow>
        if bk_userId (bv_booking v) \<noteq> userId
        then (Inl (Forbidden ''Not authorized to cancel this booking''), d)
        else (let refundEval = evaluate_refund d v (be_now env);
                  b = (bv_booking v)\<lparr>bk_status := CANCELLED,
                         bk_refundAmount := Some (re_refundAmount refundEval)\<rparr>
              in (Inr b, send_to_user (bk_userId b) ''booking:cancelled''
                    (cancelled_notification b refundEval) (save_booking b d))))"

record cancel_series_result =
  cr_cancelledCount :: nat
  cr_preservedCount :: nat
  cr_message :: string

definition future_instance :: "instant \<Rightarrow> booking \<Rightarrow> bool" where
  "future_instance now b \<longleftrightarrow> bk_startTime b > now \<and> bk_status b \<noteq> CANCELLED"

definition cancel_instance :: "db \<Rightarrow> instant \<Rightarrow> booking \<Rightarrow> booking" where
  "cancel_instance d cancelledAt inst =
     (case find_booking d (bk_id inst) of
        None \<Rightarrow> inst
      | Some b \<Rightarrow> inst\<lparr>bk_refundAmount :=
          Some (re_refundAmount (evaluate_refund d (load_booking d b) cancelledAt))\<rparr>)
     \<lparr>bk_status := CANCELLED\<rparr>"

definition cancel_series ::
  "booking_env \<Rightarrow> uuid \<Rightarrow> uuid \<Rightarrow> db \<Rightarrow> (db, cancel_series_result) outcome" where
  "cancel_series env seriesId userId d =
     (case series_instances seriesId d of
        [] \<Rightarrow> (Inl (no_series seriesId), d)
      | owner # others \<Rightarrow>
        if bk_userId owner \<noteq> userId
        then (Inl (Forbidden ''Not authorized to cancel this booking series''), d)
        else
          (let allInstances = owner # others;
               futureInstances = filter (future_instance (be_now env)) allInstances;
               n = length futureInstances
           in if n = 0
              then (Inr \<lparr>cr_cancelledCount = 0, cr_preservedCount = length allInstances,
                         cr_message = ''No future instances to cancel.''\<rparr>, d)
              else
                (Inr \<lparr>cr_cancelledCount = n, cr_preservedCount = length allInstances - n,
                      cr_message = ''Cancelled '' @ nat_string n @
                        '' future instance(s). Past instances preserved.''\<rparr>,
                 send_to_user userId ''booking:series_cancelled''
                   (JObj [(''seriesId'', JStr seriesId), (''cancelledCount'', json_int (int n))])
                   (save_bookings (map (cancel_instance d (be_now env)) futureInstances) d))))"

subsection \<open>Update\<close>

text \<open>\<open>Object.assign(booking, dto)\<close>: the keys of the request body overwrite the columns.\<close>

definition assign_booking :: "update_booking_dto \<Rightarrow> booking \<Rightarrow> booking" where
  "assign_booking dto b = b\<lparr>
     bk_status := upd (ub_status dto) (bk_status b),
     bk_stellarTxHash := upd (ub_stellarTxHash dto) (bk_stellarTxHash b),
     bk_startTime := upd (ub_startTime dto) (bk_startTime b),
     bk_endTime := upd (ub_endTime dto) (bk_endTime b)\<rparr>"

definition update_tier :: "string option \<Rightarrow> user option \<Rightarrow> string" where
  "update_tier userTier u =
     (case userTier of Some t \<Rightarrow> t
      | None \<Rightarrow> (case u of Some x \<Rightarrow> role_name (u_role x) | None \<Rightarrow> ''member''))"

definition reprice ::
  "booking_env \<Rightarrow> booking_view \<Rightarrow> instant \<Rightarrow> instant \<Rightarrow> string option \<Rightarrow> db \<Rightarrow> booking result" where
  "reprice env v startTime endTime userTier d =
     (let b = bv_booking v in
      case has_conflict d (bk_workspaceId b) startTime endTime (Some (bk_id b)) of
        Inl e \<Rightarrow> Inl e
      | Inr (Some conflict) \<Rightarrow> Inl (Conflict ''Workspace booking conflict detected'')
      | Inr None \<Rightarrow>
        (case bv_workspace v of
           None \<Rightarrow> Inl (ServerError ''Cannot read properties of null'')
         | Some workspace \<Rightarrow>
           (case calculate_price (be_now env) (bk_workspaceId b) startTime endTime
                   (update_tier userTier (bv_user v)) (w_pricePerHour workspace)
                   (Some (active_rules d (bk_workspaceId b))) (db_rules d) of
              Inl e \<Rightarrow> Inl e
            | Inr rateSnapshot \<Rightarrow>
                Inr (b\<lparr>bk_totalAmount := snap_totalAmount rateSnapshot,
                       bk_appliedRateSnapshot := Some rateSnapshot\<rparr>))))"

definition update_body ::
  "booking_env \<Rightarrow> uuid \<Rightarrow> update_booking_dto \<Rightarrow> string option \<Rightarrow> db \<Rightarrow> (db, booking) outcome" where
  "update_body env i dto userTier d =
     (case find_booking d i of
        None \<Rightarrow> (Inl (NotFound ''Booking not found''), d)
      | Some b \<Rightarrow>
        (let startTime = upd (ub_startTime dto) (bk_startTime b);
             endTime = upd (ub_endTime dto) (bk_endTime b)
         in case (if ub_startTime dto \<noteq> None \<or> ub_endTime dto \<noteq> None
                  then reprice env (load_booking d b) startTime endTime userTier d
                  else Inr b) of
              Inl e \<Rightarrow> (Inl e, d)
            | Inr priced \<Rightarrow>
              (let b' = assign_booking dto priced in (Inr b', save_booking b' d))))"

definition update_booking ::
  "booking_env \<Rightarrow> uuid \<Rightarrow> update_booking_dto \<Rightarrow> string option \<Rightarrow> db \<Rightarrow> (db, booking) outcome" where
  "update_booking env i dto userTier d = transaction (update_body env i dto userTier) d"

subsection \<open>The series service\<close>

definition create_series_body ::
  "booking_env \<Rightarrow> uuid \<Rightarrow> uuid \<Rightarrow> instant \<Rightarrow> instant \<Rightarrow> string \<Rightarrow> num list \<Rightarrow> string option \<Rightarrow> db
   \<Rightarrow> (db, booking list) outcome" where
  "create_series_body env userId workspaceId startTime endTime recurrenceRule totalAmounts
     stellarTxHash d =
     (if endTime - startTime \<le> 0 then (Inl (BadRequest ''endTime must be after startTime''), d)
      else
       (case expand_instances (be_rrule env) recurrenceRule startTime (endTime - startTime) of
          Inl e \<Rightarrow> (Inl e, d)
        | Inr instances \<Rightarrow>
          (case check_instances d workspaceId instances of
             Inl e \<Rightarrow> (Inl e, d)
           | Inr _ \<Rightarrow>
             (let bookings = series_rows env workspaceId userId recurrenceRule stellarTxHash
                    (\<lambda>index inst. if index < length totalAmounts then totalAmounts ! index else 0)
                    instances;
                  d1 = save_bookings bookings d
              in (Inr bookings, send_to_user userId ''booking:series_created''
                    (series_notification env (length bookings)
                       (json_of_option (map_option w_name (find_workspace d1 workspaceId)))) d1)))))"

definition create_series ::
  "booking_env \<Rightarrow> uuid \<Rightarrow> uuid \<Rightarrow> instant \<Rightarrow> instant \<Rightarrow> string \<Rightarrow> num list \<Rightarrow> string option \<Rightarrow> db
   \<Rightarrow> (db, booking list) outcome" where
  "create_series env userId workspaceId startTime endTime recurrenceRule totalAmounts
     stellarTxHash d =
     transaction (create_series_body env userId workspaceId startTime endTime recurrenceRule
       totalAmounts stellarTxHash) d"

end
