(* ===== verification/Conflict_Correct.thy ===== *)
theory Conflict_Correct
  imports Conflict
begin

text \<open>
  The sweep of the conflict detection against its specification: the peak it computes is
  the largest number of bookings that run at one instant of the requested interval, the
  new one included. From it: when a request is refused, what the reported availability
  is, and how the cheaper overlap count relates to it.
\<close>

subsection \<open>The sweep computes the peak\<close>

fun delta :: "event \<Rightarrow> int" where
  "delta (t, EvStart) = 1"
| "delta (t, EvEnd) = -1"

definition level :: "instant \<Rightarrow> event list \<Rightarrow> int" where
  "level t es = sum_list (map (\<lambda>e. if fst e \<le> t then delta e else 0) es)"

lemma level_simps [simp]:
  "level t [] = 0"
  "level t (e # es) = (if fst e \<le> t then delta e else 0) + level t es"
  "level t (xs @ ys) = level t xs + level t ys"
  by (simp_all add: level_def)

lemma level_sort [simp]: "level t (sort_by cmp es) = level t es"
  by (simp add: level_def)

lemma event_comparator: "comparator event_cmp"
  unfolding comparator_def event_cmp_def
  by (intro conjI allI; auto split: if_splits; (metis event_type.exhaust)?)

lemma level_none: "(\<And>e. e \<in> set es \<Longrightarrow> t < fst e) \<Longrightarrow> level t es = 0"
  by (induction es) (auto simp: not_le[symmetric])

lemma event_cmp_le: "event_cmp a b \<le> 0 \<Longrightarrow> fst a \<le> fst b"
  by (auto simp: event_cmp_def split: if_splits)

lemma sorted_level_later:
  assumes "sorted_wrt (\<lambda>x y. event_cmp x y \<le> 0) (e # es)" "t < fst e"
  shows "level t (e # es) = 0"
proof (rule level_none)
  fix x assume "x \<in> set (e # es)"
  then consider "x = e" | "event_cmp e x \<le> 0" using assms(1) by auto
  then have "fst e \<le> fst x" by cases (simp_all add: event_cmp_le)
  with assms(2) show "t < fst x" by simp
qed

lemma level_starts_nonneg:
  "(\<And>e. e \<in> set es \<Longrightarrow> fst e \<le> t \<Longrightarrow> snd e = EvStart) \<Longrightarrow> 0 \<le> level t es"
proof (induction es)
  case (Cons e es)
  then have "0 \<le> level t es" by auto
  moreover have "fst e \<le> t \<Longrightarrow> delta e = 1" using Cons.prems [of e] by (cases e) auto
  ultimately show ?case by auto
qed simp

lemma sweep_ge:
  assumes "sorted_wrt (\<lambda>x y. event_cmp x y \<le> 0) es" "cur \<le> mx"
  shows "cur + level t es \<le> sweep cur mx es \<and> mx \<le> sweep cur mx es"
  using assms
proof (induction cur mx es rule: sweep.induct)
  case (2 cur mx u es)
  show ?case
  proof (cases "u \<le> t")
    case True
    with 2 show ?thesis by (auto split: if_splits)
  next
    case False
    then have "level t ((u, EvStart) # es) = 0" by (intro sorted_level_later 2(2)) simp
    with 2 show ?thesis by (auto split: if_splits)
  qed
next
  case (3 cur mx u es)
  show ?case
  proof (cases "u \<le> t")
    case True
    with 3 show ?thesis by auto
  next
    case False
    then have "level t ((u, EvEnd) # es) = 0" by (intro sorted_level_later 3(2)) simp
    with 3 show ?thesis by auto
  qed
qed simp

lemma sweep_le:
  assumes "sorted_wrt (\<lambda>x y. event_cmp x y \<le> 0) es" "cur \<le> mx"
  shows "sweep cur mx es = mx \<or> (\<exists>e \<in> set es. sweep cur mx es \<le> cur + level (fst e) es)"
  using assms
proof (induction cur mx es rule: sweep.induct)
  case (2 cur mx u es)
  let ?mx = "if cur + 1 > mx then cur + 1 else mx"
  have later: "u \<le> fst e \<and> (fst e \<le> u \<longrightarrow> snd e = EvStart)" if "e \<in> set es" for e
    using 2(2) that by (cases "snd e") (auto simp: event_cmp_def split: if_splits)
  have ih: "sweep (cur + 1) ?mx es = ?mx \<or>
      (\<exists>e \<in> set es. sweep (cur + 1) ?mx es \<le> cur + 1 + level (fst e) es)"
    using 2 by (intro 2(1)) auto
  show ?case
  proof (cases "sweep (cur + 1) ?mx es = ?mx")
    case True
    have "0 \<le> level u es" by (rule level_starts_nonneg) (use later in blast)
    with True show ?thesis by (auto split: if_splits)
  next
    case False
    with ih obtain e where e: "e \<in> set es" "sweep (cur + 1) ?mx es \<le> cur + 1 + level (fst e) es"
      by blast
    with later [OF e(1)] show ?thesis by (intro disjI2 bexI [of _ e]) auto
  qed
next
  case (3 cur mx u es)
  have later: "u \<le> fst e" if "e \<in> set es" for e
    using 3(2) that by (auto simp: event_cmp_def split: if_splits)
  have "sweep (cur - 1) mx es = mx \<or> (\<exists>e \<in> set es. sweep (cur - 1) mx es \<le> cur - 1 + level (fst e) es)"
    using 3 by (intro 3(1)) auto
  then show ?case using later by fastforce
qed simp

definition covers :: "instant \<Rightarrow> booking \<Rightarrow> bool" where
  "covers t b \<longleftrightarrow> bk_startTime b \<le> t \<and> t < bk_endTime b"

definition running :: "instant \<Rightarrow> booking list \<Rightarrow> int" where
  "running t bs = int (length (filter (covers t) bs))"

lemma running_nonneg [simp]: "0 \<le> running t bs"
  by (simp add: running_def)

lemma level_booking_events:
  assumes "s < e"
  shows "level t (booking_events s e bs) = (if s \<le> t \<and> t < e then running t bs else 0)"
  using assms by (induction bs) (auto simp: running_def covers_def Let_def)

lemma level_request:
  assumes "s < e"
  shows "level t ([(s, EvStart), (e, EvEnd)] @ booking_events s e bs) =
    (if s \<le> t \<and> t < e then 1 + running t bs else 0)"
  using assms by (simp add: level_booking_events)

lemma max_concurrent_upper:
  assumes "s < e" "s \<le> t" "t < e"
  shows "1 + running t bs \<le> max_concurrent s e bs"
  using sweep_ge [OF sorted_sort_by [OF event_comparator], of 0 0 t
      "[(s, EvStart), (e, EvEnd)] @ booking_events s e bs"] assms
  unfolding max_concurrent_def level_sort level_request [OF assms(1)] by simp

lemma max_concurrent_attained:
  assumes "s < e"
  shows "\<exists>t. s \<le> t \<and> t < e \<and> max_concurrent s e bs = 1 + running t bs"
proof -
  define es where "es = [(s, EvStart), (e, EvEnd)] @ booking_events s e bs"
  have mc: "max_concurrent s e bs = sweep 0 0 (sort_by event_cmp es)"
    by (simp only: max_concurrent_def es_def)
  have pos: "1 + running s bs \<le> max_concurrent s e bs"
    by (rule max_concurrent_upper) (use assms in auto)
  then have "max_concurrent s e bs \<noteq> 0" using running_nonneg [of s bs] by linarith
  then obtain x where "max_concurrent s e bs \<le> level (fst x) es"
    using sweep_le [OF sorted_sort_by [OF event_comparator], of 0 0 es] unfolding mc by auto
  then have "max_concurrent s e bs \<le> (if s \<le> fst x \<and> fst x < e then 1 + running (fst x) bs else 0)"
    unfolding es_def level_request [OF assms] .
  moreover have "0 < max_concurrent s e bs" using pos running_nonneg [of s bs] by linarith
  ultimately have "s \<le> fst x \<and> fst x < e \<and> max_concurrent s e bs \<le> 1 + running (fst x) bs"
    by (auto split: if_splits)
  with max_concurrent_upper [OF assms, of "fst x" bs] show ?thesis
    by (intro exI [of _ "fst x"]) simp
qed

lemma max_concurrent_le_iff:
  assumes "s < e"
  shows "max_concurrent s e bs \<le> c \<longleftrightarrow> (\<forall>t. s \<le> t \<and> t < e \<longrightarrow> 1 + running t bs \<le> c)"
  using max_concurrent_upper [OF assms] max_concurrent_attained [OF assms]
  by (metis order_trans)

subsection \<open>Occupancy of a workspace\<close>

definition occupancy :: "db \<Rightarrow> uuid \<Rightarrow> uuid option \<Rightarrow> instant \<Rightarrow> int" where
  "occupancy d w ex t = running t
     (filter (\<lambda>b. bk_workspaceId b = w \<and> is_active b \<and> (truthy ex \<longrightarrow> Some (bk_id b) \<noteq> ex))
       (db_bookings d))"

lemma running_overlapping:
  assumes "s \<le> t" "t < e"
  shows "running t (overlapping_bookings d w s e ex) = occupancy d w ex t"
  unfolding occupancy_def running_def overlapping_bookings_def filter_filter
  by (rule arg_cong [where f = "\<lambda>xs. int (length xs)"], rule filter_cong [OF refl])
    (use assms in \<open>auto simp: covers_def overlaps_def\<close>)

lemma has_conflict_None:
  assumes "has_conflict d w s e ex = Inr None" "s < e" "find_workspace d w = Some ws"
    "1 \<le> w_capacity ws" "s \<le> t" "t < e"
  shows "1 + occupancy d w ex t \<le> w_capacity ws"
proof (cases "overlapping_bookings d w s e ex")
  case Nil
  then have "occupancy d w ex t = 0"
    using running_overlapping [OF assms(5,6), of d w ex] by (simp add: running_def)
  with assms(4) show ?thesis by simp
next
  case (Cons b bs)
  then have "max_concurrent s e (overlapping_bookings d w s e ex) \<le> w_capacity ws"
    using assms(1,3) by (auto simp: has_conflict_def Let_def split: option.splits if_splits)
  with assms(2,5,6) show ?thesis
    by (simp add: max_concurrent_le_iff running_overlapping)
qed

text \<open>C2: The peak the sweep finds is exact: it is one more than the number of the given bookings
  running at some instant of the interval, and no instant has more.\<close>

theorem sweep_peak_exact:
  assumes "s < e"
  shows "(\<exists>t. s \<le> t \<and> t < e \<and> max_concurrent s e bs = 1 + running t bs) \<and>
    (\<forall>t. s \<le> t \<and> t < e \<longrightarrow> 1 + running t bs \<le> max_concurrent s e bs)"
  using max_concurrent_attained [OF assms] max_concurrent_upper [OF assms] by blast

definition sample_booking :: "uuid \<Rightarrow> instant \<Rightarrow> instant \<Rightarrow> booking" where
  "sample_booking i s e = \<lparr>bk_id = i, bk_workspaceId = ''w'', bk_userId = ''u'', bk_startTime = s,
     bk_endTime = e, bk_status = CONFIRMED, bk_totalAmount = 0, bk_stellarTxHash = None,
     bk_hubId = None, bk_recurrenceRule = None, bk_seriesId = None, bk_instanceIndex = None,
     bk_refundAmount = None, bk_appliedRateSnapshot = None, bk_createdAt = 0, bk_deletedAt = None\<rparr>"

lemma sweep_peak_exact_witness:
  "max_concurrent 0 10 [sample_booking ''a'' 0 5, sample_booking ''b'' 5 10] = 2 \<and>
   1 + running 5 [sample_booking ''a'' 0 5, sample_booking ''b'' 5 10]
     \<le> max_concurrent 0 10 [sample_booking ''a'' 0 5, sample_booking ''b'' 5 10]"
  using sweep_peak_exact [of 0 10 "[sample_booking ''a'' 0 5, sample_booking ''b'' 5 10]"]
  by (auto simp: max_concurrent_def sample_booking_def event_cmp_def Let_def)

text \<open>C3: hasConflict reports no conflict exactly when no maintenance window meets the interval
  and at every instant of it the workspace has room for one more active booking (the
  excluded one not counted).\<close>

theorem has_conflict_iff:
  assumes "s < e" "find_workspace d w = Some ws" "1 \<le> w_capacity ws"
  shows "has_conflict d w s e ex = Inr None \<longleftrightarrow>
    find_maintenance d w s e = None \<and>
    (\<forall>t. s \<le> t \<and> t < e \<longrightarrow> occupancy d w ex t + 1 \<le> w_capacity ws)"
    (is "?L \<longleftrightarrow> ?R")
proof
  assume L: ?L
  then have "find_maintenance d w s e = None"
    using assms(2) by (auto simp: has_conflict_def split: option.splits)
  with has_conflict_None [OF L assms] show ?R by (simp add: add.commute)
next
  assume R: ?R
  have "max_concurrent s e (overlapping_bookings d w s e ex) \<le> w_capacity ws"
    using R assms(1) by (simp add: max_concurrent_le_iff running_overlapping add.commute)
  with R assms(2) show ?L
    by (auto simp: has_conflict_def Let_def split: list.splits)
qed

definition sample_workspace :: workspace where
  "sample_workspace = \<lparr>w_id = ''w'', w_name = ''Desk'', w_type = HOT_DESK, w_capacity = 2,
     w_pricePerHour = 10, w_availability = AVAILABLE, w_capacityType = SHARED,
     w_description = None, w_amenities = [], w_hubId = None, w_isActive = True,
     w_createdAt = 0, w_deletedAt = None\<rparr>"

definition sample_db :: "booking list \<Rightarrow> db" where
  "sample_db bs = \<lparr>db_workspaces = [sample_workspace], db_windows = [], db_bookings = bs,
     db_policies = [], db_rules = [], db_users = [], db_amenities = [], db_outbox = [],
     db_webhooks = \<lparr>wh_subscriptions = [], wh_deliveries = []\<rparr>, db_notifications = [],
     db_cache = []\<rparr>"

lemma sample_db_simps [simp]:
  "find_workspace (sample_db bs) ''w'' = Some sample_workspace"
  "w_capacity sample_workspace = 2" "db_bookings (sample_db bs) = bs" "db_windows (sample_db bs) = []"
  by (simp_all add: sample_db_def sample_workspace_def find_workspace_def)

lemma has_conflict_iff_witness:
  "has_conflict (sample_db [sample_booking ''a'' 0 5, sample_booking ''b'' 5 10]) ''w'' 0 10 None = Inr None"
proof -
  have "occupancy (sample_db [sample_booking ''a'' 0 5, sample_booking ''b'' 5 10]) ''w'' None t + 1 \<le> 2" for t
    by (simp add: occupancy_def running_def covers_def sample_booking_def is_active_def)
  then show ?thesis
    using has_conflict_iff [of 0 10 "sample_db [sample_booking ''a'' 0 5, sample_booking ''b'' 5 10]"
        "''w''" sample_workspace None]
    by (simp add: find_maintenance_def)
qed

text \<open>When hasConflict refuses for capacity, the availability it reports is the smallest
  number of free places over the interval (zero at least).\<close>

theorem has_conflict_reports_minimum:
  assumes "s < e" "find_workspace d w = Some ws"
    and "has_conflict d w s e ex = Inr (Some c)" "cd_available c = Some a"
  shows "(\<exists>t. s \<le> t \<and> t < e \<and> a = max 0 (w_capacity ws - occupancy d w ex t)) \<and>
    (\<forall>t. s \<le> t \<and> t < e \<longrightarrow> a \<le> max 0 (w_capacity ws - occupancy d w ex t))"
proof -
  let ?mx = "max_concurrent s e (overlapping_bookings d w s e ex)"
  have a: "a = max 0 (w_capacity ws - (?mx - 1))"
    using assms(2,3,4)
    by (auto simp: has_conflict_def Let_def split: option.splits list.splits if_splits)
  obtain t where t: "s \<le> t" "t < e" "?mx = 1 + occupancy d w ex t"
    using max_concurrent_attained [OF assms(1), of "overlapping_bookings d w s e ex"]
    by (auto simp: running_overlapping)
  have up: "1 + occupancy d w ex u \<le> ?mx" if "s \<le> u" "u < e" for u
    using max_concurrent_upper [OF assms(1) that, of "overlapping_bookings d w s e ex"]
    by (simp add: running_overlapping [OF that])
  show ?thesis
  proof (intro conjI allI impI)
    show "\<exists>t. s \<le> t \<and> t < e \<and> a = max 0 (w_capacity ws - occupancy d w ex t)"
      using t a by (intro exI [of _ t]) simp
    show "a \<le> max 0 (w_capacity ws - occupancy d w ex u)" if "s \<le> u \<and> u < e" for u
      using up [of u] that a by auto
  qed
qed

lemma has_conflict_reports_minimum_witness:
  "\<exists>t. 0 \<le> t \<and> t < 10 \<and>
     0 = max 0 (2 - occupancy (sample_db [sample_booking ''a'' 0 10, sample_booking ''b'' 0 10]) ''w'' None t)"
  using has_conflict_reports_minimum [of 0 10
      "sample_db [sample_booking ''a'' 0 10, sample_booking ''b'' 0 10]" "''w''" sample_workspace None
      "\<lparr>cd_conflictingBookingId = Some ''a'', cd_overlappingWindow = Some (0, 10),
        cd_reason = ''capacity_exceeded'', cd_available = Some 0\<rparr>" 0]
  by (simp add: has_conflict_def find_maintenance_def overlapping_bookings_def is_active_def
    overlaps_def sample_booking_def max_concurrent_def event_cmp_def Let_def)

subsection \<open>The overlap count\<close>

lemma occupancy_le_concurrent:
  assumes "s \<le> t" "t < e"
  shows "occupancy d w None t \<le> concurrent_count d w s e"
  unfolding occupancy_def running_def concurrent_count_def filter_filter
  by (simp, rule count_filter_mono) (use assms in \<open>auto simp: covers_def overlaps_def\<close>)

text \<open>hasCapacity is on the safe side: whenever it reports a free place for an interval
  without maintenance, hasConflict lets a booking of that interval in.\<close>

theorem has_capacity_sound:
  assumes "s < e" "has_capacity d w s e = Inr (a, c)" "0 < a" "find_maintenance d w s e = None"
  shows "has_conflict d w s e None = Inr None"
proof -
  obtain ws where ws: "find_workspace d w = Some ws" "a = max 0 (w_capacity ws - concurrent_count d w s e)"
    using assms(2) by (auto simp: has_capacity_def Let_def split: option.splits)
  have c: "concurrent_count d w s e + 1 \<le> w_capacity ws" "0 \<le> concurrent_count d w s e"
    using ws assms(3) by (auto simp: concurrent_count_def)
  have "occupancy d w None t + 1 \<le> w_capacity ws" if "s \<le> t" "t < e" for t
    using occupancy_le_concurrent [OF that, of d w] c by linarith
  then show ?thesis using has_conflict_iff [OF assms(1) ws(1)] c assms(4) by simp
qed

lemma has_capacity_sound_witness:
  "has_conflict (sample_db [sample_booking ''a'' 0 5]) ''w'' 0 10 None = Inr None"
  using has_capacity_sound [of 0 10 "sample_db [sample_booking ''a'' 0 5]" "''w''" 1 2]
  by (simp add: has_capacity_def concurrent_count_def is_active_def overlaps_def
    sample_booking_def find_maintenance_def Let_def)

text \<open>The converse fails: hasCapacity counts every booking that meets the interval as
  concurrent, so two back-to-back bookings of a two-place workspace leave it no place while
  hasConflict accepts the booking.\<close>

theorem has_capacity_not_complete:
  "has_capacity (sample_db [sample_booking ''a'' 0 5, sample_booking ''b'' 5 10]) ''w'' 0 10 = Inr (0, 2) \<and>
   has_conflict (sample_db [sample_booking ''a'' 0 5, sample_booking ''b'' 5 10]) ''w'' 0 10 None = Inr None"
  by (simp add: has_capacity_def concurrent_count_def is_active_def overlaps_def
    sample_booking_def find_maintenance_def Let_def has_conflict_def overlapping_bookings_def
    max_concurrent_def event_cmp_def)

text \<open>The hourly table has 24 slots, the i-th one for the i-th hour of the UTC day, and a
  slot that shows a free place can be booked when no maintenance meets it.\<close>

theorem hourly_availability_sound:
  assumes "get_hourly_availability d w date = Inr slots" "i < 24"
    and "0 < as_available (slots ! i)"
    and "find_maintenance d w (as_hour (slots ! i)) (as_hour (slots ! i) + ms_per_hour) = None"
  shows "length slots = 24 \<and>
    as_hour (slots ! i) = utc_day_start date + int i * ms_per_hour \<and>
    has_conflict d w (as_hour (slots ! i)) (as_hour (slots ! i) + ms_per_hour) None = Inr None"
proof -
  obtain ws where ws: "find_workspace d w = Some ws"
    and sl: "slots = map (hourly_slot d ws (set_utc_hours4 0 0 0 0 date)) [0..<24]"
    using assms(1) by (auto simp: get_hourly_availability_def Let_def split: option.splits)
  have wid: "w_id ws = w" using ws by (auto simp: find_workspace_def dest: find_row_SomeD)
  have z: "set_utc_hours4 h 0 0 0 t = utc_day_start t + h * ms_per_hour" for h t
    by (simp add: set_utc_hours4_def)
  have d0: "utc_day_start (utc_day_start date + x) = utc_day_start date"
    if "0 \<le> x" "x < ms_per_day" for x
  proof -
    have e: "utc_day_start date = ms_per_day * (date div ms_per_day)"
      by (simp add: utc_day_start_def minus_mod_eq_mult_div)
    have "(utc_day_start date + x) mod ms_per_day = x"
      unfolding e using that by simp
    then show ?thesis unfolding utc_day_start_def by simp
  qed
  have ib: "0 \<le> int i * ms_per_hour" "int i * ms_per_hour < ms_per_day"
    using assms(2) by (simp_all add: ms_units)
  have hour: "as_hour (slots ! i) = utc_day_start date + int i * ms_per_hour"
    using assms(2) d0 [of 0] by (simp add: sl hourly_slot_def Let_def z ms_units)
  have av: "as_available (slots ! i) = max 0 (w_capacity ws -
      concurrent_count d w (as_hour (slots ! i)) (as_hour (slots ! i) + ms_per_hour))"
  proof -
    have u: "set_utc_hours4 0 0 0 0 date = utc_day_start date" by (simp add: z)
    have st: "set_utc_hours4 (int i) 0 0 0 (utc_day_start date) = as_hour (slots ! i)"
      unfolding z hour using d0 [of 0] by (simp add: ms_units)
    have en: "set_utc_hours4 (int i + 1) 0 0 0 (as_hour (slots ! i)) =
        as_hour (slots ! i) + ms_per_hour"
      unfolding z hour d0 [OF ib] by (simp add: distrib_right)
    have "slots ! i = hourly_slot d ws (utc_day_start date) i" using assms(2) by (simp add: sl u)
    then show ?thesis unfolding hourly_slot_def Let_def st wid
      by (metis availability_slot.select_convs(2) en)
  qed
  have cap: "has_capacity d w (as_hour (slots ! i)) (as_hour (slots ! i) + ms_per_hour)
      = Inr (as_available (slots ! i), w_capacity ws)"
    unfolding av by (simp add: has_capacity_def ws Let_def)
  have "has_conflict d w (as_hour (slots ! i)) (as_hour (slots ! i) + ms_per_hour) None = Inr None"
    by (rule has_capacity_sound [OF _ cap assms(3,4)]) (simp add: ms_units)
  with hour show ?thesis by (simp add: sl)
qed

lemma hourly_availability_sound_witness:
  "\<exists>slots. get_hourly_availability (sample_db []) ''w'' 0 = Inr slots \<and> length slots = 24"
proof -
  let ?slots = "map (hourly_slot (sample_db []) sample_workspace (set_utc_hours4 0 0 0 0 0)) [0..<24]"
  have g: "get_hourly_availability (sample_db []) ''w'' 0 = Inr ?slots"
    by (simp add: get_hourly_availability_def Let_def)
  have "length ?slots = 24"
    using hourly_availability_sound [OF g, of 5]
    by (simp add: hourly_slot_def concurrent_count_def Let_def find_maintenance_def)
  with g show ?thesis by blast
qed

end
