(* ===== verification/Booking_Correct.thy ===== *)
theory Booking_Correct
  imports Booking_Service Conflict_Correct
begin

text \<open>
  The occupancy of a workspace never exceeds its capacity: an invariant of the state machine whose
  steps are the operations of the booking service. The occupancy at an instant is a sum over the
  bookings, to which each operation adds what the conflict check has found room for. The rest of the
  contract of the service is in Booking_Contract.
\<close>

subsection \<open>Occupancy as a sum\<close>

definition weight :: "uuid \<Rightarrow> instant \<Rightarrow> booking \<Rightarrow> int" where
  "weight w t b = (if bk_workspaceId b = w \<and> is_active b \<and> covers t b then 1 else 0)"

definition load :: "uuid \<Rightarrow> instant \<Rightarrow> booking list \<Rightarrow> int" where
  "load w t bs = sum_list (map (weight w t) bs)"

lemma load_simps [simp]:
  "load w t [] = 0" "load w t (b # bs) = weight w t b + load w t bs"
  "load w t (xs @ ys) = load w t xs + load w t ys"
  by (simp_all add: load_def)

lemma weight_bounds [simp]: "0 \<le> weight w t b" "weight w t b \<le> 1"
  by (simp_all add: weight_def)

lemma load_filter_le: "load w t (filter p bs) \<le> load w t bs"
  by (induction bs) (auto simp: add_increasing)

lemma occupancy_load: "occupancy d w None t = load w t (db_bookings d)"
proof -
  have "running t (filter (\<lambda>b. bk_workspaceId b = w \<and> is_active b) bs) = load w t bs" for bs
    by (induction bs) (auto simp: running_def weight_def)
  then show ?thesis by (simp add: occupancy_def)
qed

lemma occupancy_excluding:
  assumes "i \<noteq> []"
  shows "occupancy d w (Some i) t = load w t (filter (\<lambda>b. bk_id b \<noteq> i) (db_bookings d))"
proof -
  have "running t (filter (\<lambda>b. bk_workspaceId b = w \<and> is_active b \<and> bk_id b \<noteq> i) bs) =
      load w t (filter (\<lambda>b. bk_id b \<noteq> i) bs)" for bs
    by (induction bs) (auto simp: running_def weight_def)
  with assms show ?thesis by (simp add: occupancy_def)
qed

lemma load_save_row:
  assumes "distinct (map bk_id bs)"
  shows "load w t (save_row bk_id b bs) =
    load w t (filter (\<lambda>x. bk_id x \<noteq> bk_id b) bs) + weight w t b"
proof (cases "bk_id b \<in> bk_id ` set bs")
  case True
  have "load w t (map (\<lambda>x. if bk_id x = bk_id b then b else x) bs) =
      load w t (filter (\<lambda>x. bk_id x \<noteq> bk_id b) bs) + weight w t b"
    using assms True
  proof (induction bs)
    case (Cons x bs)
    show ?case
    proof (cases "bk_id x = bk_id b")
      case same: True
      with Cons.prems(1) have "bk_id b \<notin> bk_id ` set bs" by simp
      then have "\<forall>y \<in> set bs. bk_id y \<noteq> bk_id b" by (blast dest: key_absentD)
      then have "map (\<lambda>x. if bk_id x = bk_id b then b else x) bs = bs"
        and "filter (\<lambda>x. bk_id x \<noteq> bk_id b) bs = bs" by (auto intro: map_idI)
      with same show ?thesis by simp
    next
      case False
      with Cons show ?thesis by auto
    qed
  qed simp
  with True show ?thesis by (simp add: save_row_def)
next
  case False
  then have "filter (\<lambda>x. bk_id x \<noteq> bk_id b) bs = bs" by (intro list_all_filterI) (blast dest: key_absentD)
  with False show ?thesis by (simp add: save_row_def)
qed

lemma load_split:
  assumes "distinct (map bk_id bs)" "b \<in> set bs"
  shows "load w t bs = load w t (filter (\<lambda>x. bk_id x \<noteq> bk_id b) bs) + weight w t b"
proof -
  have "map (\<lambda>x. if bk_id x = bk_id b then b else x) bs = bs"
    by (rule map_idI) (use assms in \<open>auto simp: distinct_map inj_on_def\<close>)
  then have "save_row bk_id b bs = bs" using assms(2) by (simp add: save_row_def)
  with load_save_row [OF assms(1), of w t b] show ?thesis by simp
qed

subsection \<open>The invariant\<close>

definition ids_ok :: "db \<Rightarrow> bool" where
  "ids_ok d \<longleftrightarrow> distinct (map bk_id (db_bookings d)) \<and> (\<forall>b \<in> set (db_bookings d). bk_id b \<noteq> [])"

definition capacity_ok :: "db \<Rightarrow> bool" where
  "capacity_ok d \<longleftrightarrow> (\<forall>w ws t. find_workspace d w = Some ws \<longrightarrow>
     1 \<le> w_capacity ws \<and> occupancy d w None t \<le> w_capacity ws)"

lemma find_bookingD:
  "find_booking d i = Some b \<Longrightarrow> b \<in> set (db_bookings d) \<and> bk_id b = i \<and> bk_deletedAt b = None"
  by (auto simp: find_booking_def dest: find_row_SomeD)

lemma find_workspace_same [simp]: "find_workspace (save_booking b d) = find_workspace d"
  by (simp add: find_workspace_def fun_eq_iff)

lemma ids_ok_save: "ids_ok d \<Longrightarrow> bk_id b \<noteq> [] \<Longrightarrow> ids_ok (save_booking b d)"
  by (auto simp: ids_ok_def save_row_keys_distinct in_save_row)

lemma capacity_frame:
  assumes "db_bookings d' = db_bookings d" "db_workspaces d' = db_workspaces d"
  shows "ids_ok d' = ids_ok d" "capacity_ok d' = capacity_ok d"
  using assms by (simp_all add: ids_ok_def capacity_ok_def find_workspace_def occupancy_load)

text \<open>Rewriting a row without adding weight keeps the invariant.\<close>

lemma capacity_ok_lighter:
  assumes "ids_ok d" "capacity_ok d" "b0 \<in> set (db_bookings d)" "bk_id b = bk_id b0"
    and "\<And>w t. weight w t b \<le> weight w t b0"
  shows "capacity_ok (save_booking b d)"
  unfolding capacity_ok_def
proof (intro allI impI)
  fix w ws t assume w: "find_workspace (save_booking b d) w = Some ws"
  have dist: "distinct (map bk_id (db_bookings d))" using assms(1) by (simp add: ids_ok_def)
  have "occupancy (save_booking b d) w None t \<le> occupancy d w None t"
    unfolding occupancy_load save_booking_frame load_save_row [OF dist]
      load_split [OF dist assms(3), of w t] using assms(4,5) by simp
  moreover have "1 \<le> w_capacity ws \<and> occupancy d w None t \<le> w_capacity ws"
    using assms(2) w by (simp add: capacity_ok_def)
  ultimately show "1 \<le> w_capacity ws \<and> occupancy (save_booking b d) w None t \<le> w_capacity ws"
    by linarith
qed

text \<open>A row that went through the conflict check keeps it.\<close>

lemma capacity_ok_checked:
  assumes "ids_ok d" "capacity_ok d"
    and "has_conflict d (bk_workspaceId b) (bk_startTime b) (bk_endTime b) ex = Inr None"
    and "bk_startTime b < bk_endTime b" "bk_id b \<noteq> []"
    and "ex = Some (bk_id b) \<or> ex = None \<and> bk_id b \<notin> bk_id ` set (db_bookings d)"
  shows "capacity_ok (save_booking b d)"
  unfolding capacity_ok_def
proof (intro allI impI)
  fix w ws t assume "find_workspace (save_booking b d) w = Some ws"
  then have w: "find_workspace d w = Some ws" by simp
  have dist: "distinct (map bk_id (db_bookings d))" using assms(1) by (simp add: ids_ok_def)
  have ok: "1 \<le> w_capacity ws" "occupancy d w None t \<le> w_capacity ws"
    using assms(2) w by (auto simp: capacity_ok_def)
  have rest: "load w t (filter (\<lambda>x. bk_id x \<noteq> bk_id b) (db_bookings d)) = occupancy d w ex t"
    using assms(6)
  proof
    assume "ex = Some (bk_id b)"
    with assms(5) show ?thesis by (simp add: occupancy_excluding)
  next
    assume a: "ex = None \<and> bk_id b \<notin> bk_id ` set (db_bookings d)"
    then have "filter (\<lambda>x. bk_id x \<noteq> bk_id b) (db_bookings d) = db_bookings d"
      by (intro list_all_filterI) (blast dest: key_absentD)
    with a show ?thesis by (simp add: occupancy_load)
  qed
  have le: "occupancy d w ex t \<le> occupancy d w None t"
    unfolding rest [symmetric] occupancy_load by (rule load_filter_le)
  have new: "occupancy (save_booking b d) w None t = occupancy d w ex t + weight w t b"
    unfolding occupancy_load save_booking_frame load_save_row [OF dist] rest ..
  show "1 \<le> w_capacity ws \<and> occupancy (save_booking b d) w None t \<le> w_capacity ws"
  proof (cases "weight w t b = 0")
    case True
    with new le ok show ?thesis by simp
  next
    case False
    then have in_b: "bk_workspaceId b = w" "bk_startTime b \<le> t" "t < bk_endTime b"
      by (auto simp: weight_def covers_def split: if_splits)
    have "1 + occupancy d w ex t \<le> w_capacity ws"
      by (rule has_conflict_None [OF _ _ w ok(1)]) (use assms(3,4) in_b in auto)
    with new ok(1) weight_bounds(2) [of w t b] show ?thesis by linarith
  qed
qed

subsection \<open>The operations keep it\<close>

lemma add_outbox_frame [simp]:
  "db_bookings (add_outbox env ev b d) = db_bookings d"
  "db_workspaces (add_outbox env ev b d) = db_workspaces d"
  by (simp_all add: add_outbox_def)

lemma enqueue_webhook_frame [simp]:
  "db_bookings (enqueue_webhook env ev j d) = db_bookings d"
  "db_workspaces (enqueue_webhook env ev j d) = db_workspaces d"
  by (simp_all add: enqueue_webhook_def)

lemma calculate_price_nonempty:
  "calculate_price now w s e tier rate rules tbl = Inr snap \<Longrightarrow> s < e"
  by (auto simp: calculate_price_def split: if_splits)

definition good :: "db \<Rightarrow> bool" where "good d \<longleftrightarrow> ids_ok d \<and> capacity_ok d"

lemma good_frame:
  "db_bookings d' = db_bookings d \<Longrightarrow> db_workspaces d' = db_workspaces d \<Longrightarrow> good d' = good d"
  unfolding good_def by (metis capacity_frame)

lemma good_checked:
  assumes "good d"
    and "has_conflict d (bk_workspaceId b) (bk_startTime b) (bk_endTime b) ex = Inr None"
    and "bk_startTime b < bk_endTime b" "bk_id b \<noteq> []"
    and "ex = Some (bk_id b) \<or> ex = None \<and> bk_id b \<notin> bk_id ` set (db_bookings d)"
  shows "good (save_booking b d)"
proof -
  have "ids_ok d" "capacity_ok d" using assms(1) by (simp_all add: good_def)
  from ids_ok_save [OF this(1) assms(4)] capacity_ok_checked [OF this assms(2-5)]
  show ?thesis by (simp add: good_def)
qed

lemma good_lighter:
  assumes "good d" "b0 \<in> set (db_bookings d)" "bk_id b = bk_id b0"
    and "\<And>w t. weight w t b \<le> weight w t b0"
  shows "good (save_booking b d)"
proof -
  have "bk_id b \<noteq> []" using assms(1-3) by (auto simp: good_def ids_ok_def)
  have "ids_ok d" "capacity_ok d" using assms(1) by (simp_all add: good_def)
  from ids_ok_save [OF this(1) \<open>bk_id b \<noteq> []\<close>] capacity_ok_lighter [OF this assms(2-4)]
  show ?thesis by (simp add: good_def)
qed

lemma weight_cong:
  assumes "bk_workspaceId b = bk_workspaceId c" "bk_status b = bk_status c \<or> bk_status b = CANCELLED \<or>
      bk_status c = PENDING"
    and "bk_startTime b = bk_startTime c" "bk_endTime b = bk_endTime c"
    and "bk_deletedAt b = bk_deletedAt c"
  shows "weight w t b \<le> weight w t c"
  using assms by (auto simp: weight_def is_active_def covers_def)

subsubsection \<open>Creation\<close>

definition fresh_ids :: "booking_env \<Rightarrow> db \<Rightarrow> bool" where
  "fresh_ids env d \<longleftrightarrow> inj (be_ids env) \<and>
     (\<forall>n. be_ids env n \<noteq> [] \<and> be_ids env n \<notin> bk_id ` set (db_bookings d))"

definition instances_disjoint :: "recurrence_instance list \<Rightarrow> bool" where
  "instances_disjoint = sorted_wrt (\<lambda>a b. ri_endTime a \<le> ri_startTime b \<or> ri_endTime b \<le> ri_startTime a)"

lemma create_single_good:
  assumes "good d" "fresh_ids env d" "create_single env ws u dto tier d = (Inr bs, d')"
  shows "good d'"
proof -
  obtain snap where hc: "has_conflict d (cb_workspaceId dto) (cb_startTime dto) (cb_endTime dto) None = Inr None"
    and pr: "calculate_price (be_now env) (cb_workspaceId dto) (cb_startTime dto) (cb_endTime dto) tier
        (w_pricePerHour ws) (Some (active_rules d (cb_workspaceId dto))) (db_rules d) = Inr snap"
    using assms(3) by (auto simp: create_single_def split: sum.splits option.splits)
  let ?b = "(new_booking (be_ids env 0) (cb_workspaceId dto) u (cb_startTime dto)
      (cb_endTime dto) (snap_totalAmount snap) (cb_stellarTxHash dto) (be_now env))
      \<lparr>bk_recurrenceRule := cb_recurrenceRule dto, bk_appliedRateSnapshot := Some snap\<rparr>"
  have d': "d' = add_outbox env STELLAR_ESCROW_CREATE ?b (save_booking ?b d)"
    using assms(3) by (simp add: create_single_def hc pr Let_def)
  have "good (save_booking ?b d)"
    by (rule good_checked [OF assms(1), where ex = None])
      (use hc calculate_price_nonempty [OF pr] assms(2) in \<open>auto simp: new_booking_def fresh_ids_def\<close>)
  then show ?thesis
    unfolding d' by (subst good_frame [OF add_outbox_frame])
qed

lemma save_bookings_fresh:
  assumes "distinct (map bk_id bs)" "\<And>b. b \<in> set bs \<Longrightarrow> bk_id b \<notin> bk_id ` set (db_bookings d)"
  shows "db_bookings (save_bookings bs d) = db_bookings d @ bs"
  using assms
proof (induction bs arbitrary: d)
  case (Cons b bs)
  have b: "bk_id b \<notin> bk_id ` set (db_bookings d)" by (rule Cons.prems) simp
  have "db_bookings (save_bookings bs (save_booking b d)) = db_bookings (save_booking b d) @ bs"
  proof (rule Cons.IH)
    fix c assume c: "c \<in> set bs"
    then have "bk_id c \<in> set (map bk_id bs)" by simp
    with Cons.prems(1) have "bk_id c \<noteq> bk_id b" by (metis distinct.simps(2) list.simps(9))
    with Cons.prems(2) [of c] c show "bk_id c \<notin> bk_id ` set (db_bookings (save_booking b d))"
      by (auto simp: save_row_new [of bk_id, OF b])
  qed (use Cons.prems in simp)
  then show ?case by (simp add: save_bookings_def save_row_new [of bk_id, OF b])
qed (simp add: save_bookings_def)

lemma save_bookings_workspaces [simp]: "db_workspaces (save_bookings bs d) = db_workspaces d"
  by (induction bs arbitrary: d) (simp_all add: save_bookings_def)

lemma check_instances_sound:
  "check_instances d w insts = Inr () \<Longrightarrow> i \<in> set insts \<Longrightarrow>
   has_conflict d w (ri_startTime i) (ri_endTime i) None = Inr None"
  by (induction insts) (auto split: sum.splits option.splits)

lemma load_disjoint_rows:
  assumes "sorted_wrt (\<lambda>a b. bk_endTime a \<le> bk_startTime b \<or> bk_endTime b \<le> bk_startTime a) bs"
  shows "load w t bs \<le> 1"
  using assms
proof (induction bs)
  case (Cons b bs)
  show ?case
  proof (cases "weight w t b = 0")
    case True
    with Cons show ?thesis by simp
  next
    case False
    then have b: "bk_startTime b \<le> t" "t < bk_endTime b"
      by (auto simp: weight_def covers_def split: if_splits)
    have "weight w t c = 0" if "c \<in> set bs" for c
      using that Cons.prems b by (fastforce simp: weight_def covers_def)
    then have "load w t bs = 0" by (induction bs) auto
    then show ?thesis by simp
  qed
qed simp

lemma load_pos: "0 < load w t bs \<Longrightarrow> \<exists>b \<in> set bs. bk_workspaceId b = w \<and> covers t b"
  by (induction bs) (auto simp: weight_def split: if_splits)

lemma series_rows_nth:
  "n < length insts \<Longrightarrow> series_rows env w u r h amt insts ! n =
     (new_booking (be_ids env n) w u (ri_startTime (insts ! n)) (ri_endTime (insts ! n))
        (amt n (insts ! n)) h (be_now env))
     \<lparr>bk_recurrenceRule := (if n = 0 then Some r else None),
      bk_seriesId := Some (be_seriesId env), bk_instanceIndex := Some (int n)\<rparr>"
  by (simp add: series_rows_def)

lemma length_series_rows [simp]: "length (series_rows env w u r h amt insts) = length insts"
  by (simp add: series_rows_def)

lemma series_rows_id:
  "n < length insts \<Longrightarrow> bk_id (series_rows env w u r h amt insts ! n) = be_ids env n"
  by (simp add: series_rows_nth new_booking_def)

lemma series_rows_ids:
  "map bk_id (series_rows env w u r h amt insts) = map (be_ids env) [0..<length insts]"
  by (rule nth_equalityI) (simp_all add: series_rows_id)

lemma series_good:
  assumes "good d" "fresh_ids env d" "check_instances d w insts = Inr ()"
    and "instances_disjoint insts" "\<forall>i \<in> set insts. ri_startTime i < ri_endTime i"
  shows "good (save_bookings (series_rows env w u r h amt insts) d)"
proof -
  let ?rows = "series_rows env w u r h amt insts"
  have inj: "inj (be_ids env)" and fresh: "\<And>n. be_ids env n \<noteq> []"
    "\<And>n. be_ids env n \<notin> bk_id ` set (db_bookings d)"
    using assms(2) by (auto simp: fresh_ids_def)
  have dist: "distinct (map bk_id ?rows)"
    unfolding series_rows_ids using inj by (simp add: distinct_map inj_on_def inj_def)
  have ids: "\<exists>n. bk_id b = be_ids env n" if "b \<in> set ?rows" for b
    using that by (metis in_set_conv_nth length_series_rows series_rows_id)
  have app: "db_bookings (save_bookings ?rows d) = db_bookings d @ ?rows"
    by (rule save_bookings_fresh [OF dist]) (use ids fresh in metis)
  have idsok: "ids_ok (save_bookings ?rows d)"
  proof -
    have "x \<notin> bk_id ` set ?rows" if "x \<in> bk_id ` set (db_bookings d)" for x
      using that ids fresh(2) by (metis imageE)
    then have "bk_id ` set (db_bookings d) \<inter> bk_id ` set ?rows = {}" by blast
    moreover have "\<forall>b \<in> set ?rows. bk_id b \<noteq> []" using ids fresh(1) by metis
    ultimately show ?thesis
      using assms(1) dist unfolding ids_ok_def app good_def by auto
  qed
  have disj: "sorted_wrt (\<lambda>a b. bk_endTime a \<le> bk_startTime b \<or> bk_endTime b \<le> bk_startTime a) ?rows"
    using assms(4) unfolding instances_disjoint_def sorted_wrt_iff_nth_less
    by (simp add: series_rows_nth new_booking_def)
  have "1 \<le> w_capacity ws \<and> occupancy (save_bookings ?rows d) x None t \<le> w_capacity ws"
    if "find_workspace (save_bookings ?rows d) x = Some ws" for x ws t
  proof -
    have x: "find_workspace d x = Some ws" using that by (simp add: find_workspace_def)
    have ok: "1 \<le> w_capacity ws" "occupancy d x None t \<le> w_capacity ws"
      using assms(1) x by (auto simp: good_def capacity_ok_def)
    have occ: "occupancy (save_bookings ?rows d) x None t = occupancy d x None t + load x t ?rows"
      by (simp add: occupancy_load app)
    show ?thesis
    proof (cases "0 < load x t ?rows")
      case True
      then obtain n where n: "n < length insts" "bk_workspaceId (?rows ! n) = x" "covers t (?rows ! n)"
        by (metis in_set_conv_nth length_series_rows load_pos)
      then have "w = x" "ri_startTime (insts ! n) \<le> t" "t < ri_endTime (insts ! n)"
        by (auto simp: series_rows_nth new_booking_def covers_def)
      moreover have "has_conflict d w (ri_startTime (insts ! n)) (ri_endTime (insts ! n)) None = Inr None"
        using check_instances_sound [OF assms(3)] n(1) by simp
      ultimately have "1 + occupancy d x None t \<le> w_capacity ws"
        using has_conflict_None [of d w "ri_startTime (insts ! n)" "ri_endTime (insts ! n)" None ws t]
          assms(5) n(1) x ok(1) by simp
      with occ ok load_disjoint_rows [OF disj, of x t] show ?thesis by linarith
    next
      case False
      with occ ok show ?thesis by linarith
    qed
  qed
  with idsok show ?thesis by (simp add: good_def capacity_ok_def)
qed

lemma expand_instances_span:
  "expand_instances lib r s len = Inr insts \<Longrightarrow> i \<in> set insts \<Longrightarrow>
   ri_endTime i = ri_startTime i + len"
  by (auto simp: expand_instances_def split: option.splits if_splits)

definition series_disjoint :: "booking_env \<Rightarrow> create_booking_dto \<Rightarrow> bool" where
  "series_disjoint env dto \<longleftrightarrow> (truthy (cb_recurrenceRule dto) \<longrightarrow>
     (case expand_instances (be_rrule env) (the (cb_recurrenceRule dto)) (cb_startTime dto)
             (cb_endTime dto - cb_startTime dto) of
        Inl e \<Rightarrow> True | Inr insts \<Rightarrow> instances_disjoint insts))"

lemma create_recurring_good:
  assumes "good d" "fresh_ids env d" "cb_startTime dto < cb_endTime dto"
    and "cb_recurrenceRule dto = Some r" "r \<noteq> []" "series_disjoint env dto"
    and "create_recurring env ws u dto r d = (Inr bs, d')"
  shows "good d'"
proof -
  obtain insts where ex: "expand_instances (be_rrule env) r (cb_startTime dto)
      (cb_endTime dto - cb_startTime dto) = Inr insts"
    and ch: "check_instances d (cb_workspaceId dto) insts = Inr ()"
    using assms(7) by (auto simp: create_recurring_def split: sum.splits)
  define rows where "rows = series_rows env (cb_workspaceId dto) u r (cb_stellarTxHash dto)
    (series_amount ws) insts"
  have d': "\<exists>u' ev j. d' = send_to_user u' ev j (save_bookings rows d)"
    using assms(7) by (auto simp: create_recurring_def ex ch Let_def rows_def)
  have "good (save_bookings rows d)"
    unfolding rows_def
  proof (rule series_good [OF assms(1,2) ch])
    show "instances_disjoint insts" using assms(4,5,6) ex by (simp add: series_disjoint_def)
    show "\<forall>i \<in> set insts. ri_startTime i < ri_endTime i"
      using expand_instances_span [OF ex] assms(3) by simp
  qed
  with d' show ?thesis using good_frame by (metis send_to_user_frame(1,2))
qed

lemma create_booking_good:
  assumes "good d" "fresh_ids env d" "series_disjoint env dto"
  shows "good (snd (create_booking env u dto tier d))"
proof (cases "create_body env u dto tier d")
  case (Pair r d1)
  show ?thesis
  proof (cases r)
    case (Inl e)
    with Pair assms(1) show ?thesis by (simp add: create_booking_def transaction_def)
  next
    case (Inr bs)
    then obtain ws where b: "create_body env u dto tier d = (Inr bs, d1)"
      "find_workspace d (cb_workspaceId dto) = Some ws" "cb_startTime dto < cb_endTime dto"
      using Pair by (auto simp: create_body_def split: option.splits if_splits)
    have "good d1"
    proof (cases "truthy (cb_recurrenceRule dto)")
      case True
      then obtain r where "cb_recurrenceRule dto = Some r" "r \<noteq> []"
        by (cases "cb_recurrenceRule dto") auto
      with b create_recurring_good [OF assms(1,2) b(3) this assms(3)] show ?thesis
        by (simp add: create_body_def)
    next
      case False
      with b create_single_good [OF assms(1,2)] show ?thesis by (simp add: create_body_def)
    qed
    moreover have "snd (create_booking env u dto tier d) = invalidate_dashboard_cache d1"
      using b(1) by (simp add: create_booking_def transaction_def)
    ultimately show ?thesis by (metis good_frame invalidate_dashboard_cache_frame(1,2))
  qed
qed

subsubsection \<open>Confirmation, cancellation, update\<close>

lemma confirm_body_ok:
  "confirm_body env i d = (Inr v, d1) \<longleftrightarrow>
   (\<exists>b. find_booking d i = Some b \<and> payment_check (be_stellar env) b = Inr () \<and>
      bk_status b = PENDING \<and> v = (load_booking d b)\<lparr>bv_booking := b\<lparr>bk_status := CONFIRMED\<rparr>\<rparr> \<and>
      d1 = add_outbox env STELLAR_BOOKING_CONFIRMED (b\<lparr>bk_status := CONFIRMED\<rparr>)
             (save_booking (b\<lparr>bk_status := CONFIRMED\<rparr>) d))"
  by (auto simp: confirm_body_def Let_def split: option.splits sum.splits if_splits)

lemma confirm_good:
  assumes "good d"
  shows "good (snd (confirm env i d))"
proof (cases "confirm_body env i d")
  case (Pair r d1)
  show ?thesis
  proof (cases r)
    case (Inl e)
    with Pair assms show ?thesis by (simp add: confirm_def transaction_def)
  next
    case (Inr v)
    with Pair obtain b where b: "find_booking d i = Some b" "bk_status b = PENDING"
      and d1: "d1 = add_outbox env STELLAR_BOOKING_CONFIRMED (b\<lparr>bk_status := CONFIRMED\<rparr>)
             (save_booking (b\<lparr>bk_status := CONFIRMED\<rparr>) d)"
      by (auto simp: confirm_body_ok)
    have "good (save_booking (b\<lparr>bk_status := CONFIRMED\<rparr>) d)"
      by (rule good_lighter [OF assms, of b]) (use find_bookingD [OF b(1)] b(2) in \<open>auto intro!: weight_cong\<close>)
    then have "good d1" unfolding d1 by (subst good_frame [OF add_outbox_frame])
    moreover have "db_bookings (snd (confirm env i d)) = db_bookings d1"
      "db_workspaces (snd (confirm env i d)) = db_workspaces d1"
      using Pair Inr by (simp_all add: confirm_def transaction_def)
    ultimately show ?thesis using good_frame by metis
  qed
qed

lemma cancel_good:
  assumes "good d"
  shows "good (snd (cancel env i u d))"
proof (cases "find_booking d i")
  case None
  with assms show ?thesis by (simp add: cancel_def find_booking_by_id_def)
next
  case (Some b)
  have "good (save_booking (b\<lparr>bk_status := CANCELLED, bk_refundAmount := r\<rparr>) d)" for r
    by (rule good_lighter [OF assms, of b]) (use find_bookingD [OF Some] in \<open>auto intro!: weight_cong\<close>)
  with assms show ?thesis
    by (simp add: cancel_def find_booking_by_id_def Some load_booking_def Let_def
        good_frame [OF send_to_user_frame(1,2)])
qed

lemma fold_save_row_existing:
  fixes g :: "booking \<Rightarrow> booking"
  assumes "bk_id ` set fs \<subseteq> bk_id ` set t" "\<And>b. bk_id (g b) = bk_id b"
  shows "fold (\<lambda>e. save_row bk_id (g e)) fs t =
    fold (\<lambda>e. update_rows (\<lambda>x. bk_id x = bk_id e) (\<lambda>_. g e)) fs t"
  using assms(1)
proof (induction fs arbitrary: t)
  case (Cons f fs)
  have "save_row bk_id (g f) t = update_rows (\<lambda>x. bk_id x = bk_id f) (\<lambda>_. g f) t"
    using Cons.prems by (subst save_row_existing) (auto simp: assms(2))
  moreover have "bk_id ` set (update_rows (\<lambda>x. bk_id x = bk_id f) (\<lambda>_. g f) t) = bk_id ` set t"
    by (rule update_rows_key_set [of bk_id "g f" f t, OF assms(2)])
  ultimately show ?case using Cons by simp
qed simp

lemma save_bookings_map:
  assumes "ids_ok d" "distinct fs" "set fs \<subseteq> set (db_bookings d)" "\<And>b. bk_id (g b) = bk_id b"
  shows "db_bookings (save_bookings (map g fs) d) =
    map (\<lambda>x. if x \<in> set fs then g x else x) (db_bookings d)"
proof -
  have "db_bookings (save_bookings (map g fs) d) = fold (\<lambda>e. save_row bk_id (g e)) fs (db_bookings d)"
    by (induction fs arbitrary: d) (simp_all add: save_bookings_def)
  also have "\<dots> = fold (\<lambda>e. update_rows (\<lambda>x. bk_id x = bk_id e) (\<lambda>_. g e)) fs (db_bookings d)"
    by (rule fold_save_row_existing [OF _ assms(4)]) (use assms(3) in blast)
  also have "\<dots> = map (\<lambda>x. if x \<in> set fs then g x else x) (db_bookings d)"
    by (rule fold_update_rows) (use assms in \<open>auto simp: ids_ok_def\<close>)
  finally show ?thesis .
qed

lemma load_map_le:
  "(\<And>b. b \<in> set bs \<Longrightarrow> weight w t (h b) \<le> weight w t b) \<Longrightarrow> load w t (map h bs) \<le> load w t bs"
  by (induction bs) (auto simp: add_mono)

lemma good_map:
  assumes "good d" "db_bookings d' = map h (db_bookings d)" "db_workspaces d' = db_workspaces d"
    and "\<And>b. b \<in> set (db_bookings d) \<Longrightarrow> bk_id (h b) = bk_id b \<and> (\<forall>w t. weight w t (h b) \<le> weight w t b)"
  shows "good d'"
proof -
  have "map bk_id (db_bookings d') = map bk_id (db_bookings d)" using assms(2,4) by simp
  moreover have "\<forall>b \<in> set (db_bookings d'). bk_id b \<noteq> []"
    using assms(1,2,4) by (auto simp: good_def ids_ok_def)
  ultimately have "ids_ok d'" using assms(1) by (simp add: good_def ids_ok_def)
  moreover have "capacity_ok d'"
    unfolding capacity_ok_def
  proof (intro allI impI)
    fix w ws t assume "find_workspace d' w = Some ws"
    then have "find_workspace d w = Some ws" using assms(3) by (simp add: find_workspace_def)
    then have "1 \<le> w_capacity ws \<and> load w t (db_bookings d) \<le> w_capacity ws"
      using assms(1) by (auto simp: good_def capacity_ok_def occupancy_load)
    moreover have "load w t (db_bookings d') \<le> load w t (db_bookings d)"
      unfolding assms(2) using assms(4) by (intro load_map_le) blast
    ultimately show "1 \<le> w_capacity ws \<and> occupancy d' w None t \<le> w_capacity ws"
      by (simp add: occupancy_load)
  qed
  ultimately show ?thesis by (simp add: good_def)
qed

lemma cancel_instance_simps [simp]:
  "bk_id (cancel_instance d now b) = bk_id b" "bk_status (cancel_instance d now b) = CANCELLED"
  "bk_workspaceId (cancel_instance d now b) = bk_workspaceId b"
  "bk_startTime (cancel_instance d now b) = bk_startTime b"
  "bk_endTime (cancel_instance d now b) = bk_endTime b"
  "bk_deletedAt (cancel_instance d now b) = bk_deletedAt b"
  "bk_seriesId (cancel_instance d now b) = bk_seriesId b"
  "bk_userId (cancel_instance d now b) = bk_userId b"
  by (simp_all add: cancel_instance_def split: option.split)

lemma cancel_series_ok:
  assumes "ids_ok d" "cancel_series env sid u d = (Inr r, d')"
  shows "db_workspaces d' = db_workspaces d \<and>
    db_bookings d' = map (\<lambda>b. if b \<in> set (series_instances sid d) \<and> future_instance (be_now env) b
                             then cancel_instance d (be_now env) b else b) (db_bookings d)"
proof -
  let ?fs = "filter (future_instance (be_now env)) (series_instances sid d)"
  have sub: "set ?fs \<subseteq> set (db_bookings d)" by (auto simp: series_instances_def live_bookings_def)
  have dist: "distinct ?fs"
    using assms(1) by (auto simp: ids_ok_def series_instances_def live_bookings_def distinct_map)
  note saved = save_bookings_map [OF assms(1) dist sub, of "cancel_instance d (be_now env)"]
  show ?thesis
  proof (cases "?fs = []")
    case True
    then have "d' = d" using assms(2)
      by (auto simp: cancel_series_def Let_def split: list.splits if_splits)
    moreover have "\<not> (b \<in> set (series_instances sid d) \<and> future_instance (be_now env) b)" for b
      using True by (simp add: filter_empty_conv)
    then have "map (\<lambda>b. if b \<in> set (series_instances sid d) \<and> future_instance (be_now env) b
        then cancel_instance d (be_now env) b else b) (db_bookings d) = db_bookings d"
      by (intro map_idI) auto
    ultimately show ?thesis by simp
  next
    case False
    then have "\<exists>u' ev j. d' = send_to_user u' ev j
        (save_bookings (map (cancel_instance d (be_now env)) ?fs) d)"
      using assms(2) by (auto simp: cancel_series_def Let_def split: list.splits if_splits)
    then show ?thesis using saved by (auto simp: conj_commute)
  qed
qed

lemma cancel_series_good:
  assumes "good d"
  shows "good (snd (cancel_series env sid u d))"
proof (cases "cancel_series env sid u d")
  case (Pair r d')
  show ?thesis
  proof (cases r)
    case (Inl e)
    with Pair have "d' = d"
      by (auto simp: cancel_series_def Let_def split: list.splits if_splits)
    with assms Pair show ?thesis by simp
  next
    case (Inr x)
    have "ids_ok d" using assms by (simp add: good_def)
    note e = cancel_series_ok [OF this Pair [unfolded Inr]]
    show ?thesis unfolding Pair snd_conv
      by (rule good_map [OF assms conjunct2 [OF e] conjunct1 [OF e]]) (simp add: weight_cong)
  qed
qed

lemma reprice_ok:
  assumes "reprice env v s e tier d = Inr b"
  shows "has_conflict d (bk_workspaceId (bv_booking v)) s e (Some (bk_id (bv_booking v))) = Inr None \<and>
    s < e \<and> (\<exists>snap. b = (bv_booking v)\<lparr>bk_totalAmount := snap_totalAmount snap,
                       bk_appliedRateSnapshot := Some snap\<rparr>)"
  using assms calculate_price_nonempty
  by (auto simp: reprice_def Let_def split: sum.splits option.splits)

lemma update_good:
  assumes "good d" "ub_status dto = None"
  shows "good (snd (update_booking env i dto tier d))"
proof (cases "update_body env i dto tier d")
  case (Pair r d')
  show ?thesis
  proof (cases r)
    case (Inl e)
    with Pair assms(1) show ?thesis by (simp add: update_booking_def transaction_def)
  next
    case (Inr b')
    with Pair have ok: "update_body env i dto tier d = (Inr b', d')" by simp
    then obtain b where b: "find_booking d i = Some b"
      by (auto simp: update_body_def split: option.splits)
    note bd = find_bookingD [OF b]
    have "good d'"
    proof (cases "ub_startTime dto \<noteq> None \<or> ub_endTime dto \<noteq> None")
      case True
      then obtain p where p: "reprice env (load_booking d b) (upd (ub_startTime dto) (bk_startTime b))
          (upd (ub_endTime dto) (bk_endTime b)) tier d = Inr p"
        and d': "d' = save_booking (assign_booking dto p) d"
        using ok b by (auto simp: update_body_def Let_def split: sum.splits)
      from reprice_ok [OF p] show ?thesis
        unfolding d' using bd assms(1)
        by (intro good_checked [OF assms(1), where ex = "Some (bk_id b)"])
          (auto simp: load_booking_def assign_booking_def good_def ids_ok_def)
    next
      case False
      then have d': "d' = save_booking (assign_booking dto b) d"
        using ok b by (auto simp: update_body_def Let_def)
      show ?thesis unfolding d'
        by (rule good_lighter [OF assms(1), of b])
          (use bd False assms(2) in \<open>auto simp: assign_booking_def intro!: weight_cong\<close>)
    qed
    with ok show ?thesis by (simp add: update_booking_def transaction_def)
  qed
qed

subsection \<open>The booking state machine\<close>

inductive booking_step :: "db \<Rightarrow> db \<Rightarrow> bool" where
  step_create: "fresh_ids env d \<Longrightarrow> series_disjoint env dto \<Longrightarrow>
     booking_step d (snd (create_booking env u dto tier d))"
| step_confirm: "booking_step d (snd (confirm env i d))"
| step_cancel: "booking_step d (snd (cancel env i u d))"
| step_cancel_series: "booking_step d (snd (cancel_series env sid u d))"
| step_update: "ub_status upd_dto = None \<Longrightarrow>
     booking_step d (snd (update_booking env i upd_dto utier d))"

lemma booking_step_good: "booking_step d d' \<Longrightarrow> good d \<Longrightarrow> good d'"
  by (induction rule: booking_step.induct)
    (simp_all add: create_booking_good confirm_good cancel_good cancel_series_good update_good)


definition sample_env :: booking_env where
  "sample_env = \<lparr>be_now = 0, be_ids = (\<lambda>n. CHR ''b'' # nat_string n), be_seriesId = ''s'',
     be_outboxId = ''o'', be_deliveryIds = nat_string,
     be_rrule = \<lparr>rr_parse = Some \<circ> JStr, rr_all = (\<lambda>_ s _. Some [s, s + ms_per_day])\<rparr>,
     be_stellar = \<lparr>st_getTransaction = (\<lambda>_ _. Inr ''SUCCESS''),
       st_retryPolicy = \<lparr>rp_maxRetries = 0, rp_baseDelayMs = 0\<rparr>\<rparr>\<rparr>"

definition sample_dto :: "instant \<Rightarrow> instant \<Rightarrow> string option \<Rightarrow> create_booking_dto" where
  "sample_dto s e r = \<lparr>cb_workspaceId = ''w'', cb_startTime = s, cb_endTime = e,
     cb_totalAmount = None, cb_stellarTxHash = None, cb_recurrenceRule = r\<rparr>"

lemma sample_fresh: "fresh_ids sample_env (sample_db [])"
  by (simp add: fresh_ids_def sample_env_def inj_def)

lemma sample_good: "ids_ok (sample_db [])" "capacity_ok (sample_db [])"
  by (auto simp: ids_ok_def capacity_ok_def occupancy_load find_workspace_def sample_db_def
    sample_workspace_def split: if_splits)


end
