(* ===== verification/Booking_Contract.thy ===== *)
theory Booking_Contract
  imports Booking_Correct
begin

text \<open>
  What the booking operations promise one by one: refunds are bounded and fall with time,
  failures leave the state alone, and the exact effect of confirmation, cancellation and
  series cancellation. The last theorems record three defects: a series is checked against
  the stored bookings but not against itself, cancelling again overwrites the refund, and a
  confirmation sends the stored password hash of the owner to the webhook subscribers.
\<close>

subsection \<open>Refunds\<close>

definition policy_ok :: "cancellation_policy \<Rightarrow> bool" where
  "policy_ok p \<longleftrightarrow> 0 \<le> cp_partialRefundPercent p \<and> cp_partialRefundPercent p \<le> 100"

definition policies_ok :: "db \<Rightarrow> bool" where
  "policies_ok d \<longleftrightarrow> (\<forall>p \<in> set (db_policies d). policy_ok p)"

lemma create_policy_ok:
  "create_cancellation_policy_dto_valid dto \<Longrightarrow> create_policy newId dto tbl = (Inr p, tbl') \<Longrightarrow> policy_ok p"
  by (auto simp: create_policy_def policy_ok_def create_cancellation_policy_dto_valid_def Let_def
      split: if_splits)

lemma update_policy_ok:
  assumes "update_cancellation_policy_dto_valid dto" "\<forall>p \<in> set tbl. policy_ok p"
    and "update_policy wt dto tbl = (Inr p, tbl')"
  shows "policy_ok p"
proof -
  obtain q where "find_row (\<lambda>p. cp_workspaceType p = wt) tbl = Some q"
    using assms(3) by (auto simp: update_policy_def find_policy_by_type_def split: option.splits)
  moreover from this assms(2) have "policy_ok q" by (blast dest: find_row_SomeD)
  ultimately show ?thesis using assms(1,3)
    by (auto simp: update_policy_def find_policy_by_type_def policy_ok_def Let_def
        update_cancellation_policy_dto_valid_def upd_def split: option.splits)
qed

definition partial_refund :: "num \<Rightarrow> int \<Rightarrow> num" where
  "partial_refund amt pct = num_to_fixed 2 (js_div (js_mul amt (js_int pct)) 100)"

lemma js_int_small: "\<bar>n\<bar> \<le> 2 ^ 53 \<Longrightarrow> js_int n = of_int n"
  by (simp add: js_int_def fl_int)

text \<open>A hundred percent of an amount of cents is that amount, rounding included.\<close>

lemma to_fixed_full:
  assumes "0 \<le> k" "k < 10 ^ 10"
  shows "to_fixed 2 (js_div (js_mul (cents k) 100) 100) = k"
proof -
  define c where "c = cents k"
  have "(of_int k :: rat) < of_int 10000000000" using assms(2) by (simp only: of_int_less_iff) simp
  then have kr: "(of_int k :: rat) < 10000000000" by (simp only: of_int_numeral)
  have c: "0 \<le> c" "\<bar>c - of_int k / 100\<bar> \<le> 1 / 10 ^ 7"
    using cents_nonneg [OF assms(1)] cents_error [OF assms] by (simp_all add: c_def)
  have "c - of_int k / 100 \<le> 1 / 10 ^ 7" using abs_le_D1 [OF c(2)] .
  also have "\<dots> \<le> (1 :: rat)" by simp
  finally have c_le: "c \<le> 100000001" using kr by linarith
  define m where "m = fl (c * 100)"
  have "\<bar>c * 100\<bar> \<le> 2 ^ 34" using c(1) c_le by simp
  then have "\<bar>m - c * 100\<bar> \<le> 2 powi (int 34 - 53)" unfolding m_def by (rule fl_error)
  also have "\<dots> = 1 / 2 ^ 19" by (simp add: power_int_def field_simps)
  finally have m: "\<bar>m - c * 100\<bar> \<le> 1 / 2 ^ 19" .
  define q where "q = fl (m / 100)"
  have "\<bar>m - c * 100\<bar> \<le> 1" by (rule order_trans [OF m]) simp
  then have "\<bar>m\<bar> \<le> 10000000101" using c(1) c_le by linarith
  then have "\<bar>m / 100\<bar> \<le> 2 ^ 28" by simp
  then have "\<bar>q - m / 100\<bar> \<le> 2 powi (int 28 - 53)" unfolding q_def by (rule fl_error)
  also have "\<dots> = 1 / 2 ^ 25" by (simp add: power_int_def field_simps)
  finally have q: "\<bar>q - m / 100\<bar> \<le> 1 / 2 ^ 25" .
  have "0 \<le> q" unfolding q_def m_def using c(1) by (intro fl_nonneg divide_nonneg_nonneg fl_nonneg) simp_all
  moreover have "\<bar>q - of_int k / 100\<bar> < 1 / 200"
  proof -
    have "\<bar>c - of_int k / 100\<bar> \<le> 1 / 1000" by (rule order_trans [OF c(2)]) simp
    moreover have "\<bar>m - c * 100\<bar> \<le> 1 / 1000" by (rule order_trans [OF m]) simp
    moreover have "\<bar>q - m / 100\<bar> \<le> 1 / 1000" by (rule order_trans [OF q]) simp
    ultimately show ?thesis by linarith
  qed
  ultimately have "to_fixed 2 q = k" by (intro to_fixed_near) simp_all
  then show ?thesis by (simp add: js_div_def js_mul_def q_def m_def c_def)
qed

lemma partial_refund_bounds:
  assumes "is_amount amt" "0 \<le> pct" "pct \<le> 100"
  shows "is_amount (partial_refund amt pct)" "0 \<le> partial_refund amt pct"
    "partial_refund amt pct \<le> amt"
proof -
  obtain k where k: "0 \<le> k" "k < 10 ^ 10" "amt = cents k" using assms(1) by (auto simp: is_amount_def)
  have p: "js_int pct = of_int pct" using assms(2,3) by (intro js_int_small) simp
  define x where "x = js_div (js_mul amt (js_int pct)) 100"
  have tot: "0 \<le> amt" using cents_nonneg k by simp
  have x0: "0 \<le> x" unfolding x_def js_div_def js_mul_def p
    using tot assms(2) by (intro fl_nonneg divide_nonneg_nonneg) simp_all
  have le: "x \<le> js_div (js_mul amt 100) 100"
    unfolding x_def js_div_def js_mul_def p
    using tot assms(3) by (intro fl_mono divide_right_mono mult_left_mono) simp_all
  have "to_fixed 2 x \<le> k"
    using to_fixed_mono_nonneg [OF x0 le, of 2] to_fixed_full [OF k(1,2)] k(3) by simp
  moreover have "0 \<le> to_fixed 2 x" by (rule to_fixed_nonneg [OF x0])
  moreover have "partial_refund amt pct = cents (to_fixed 2 x)"
    by (simp add: partial_refund_def x_def num_to_fixed_2_cents)
  ultimately show "is_amount (partial_refund amt pct)" "0 \<le> partial_refund amt pct"
    "partial_refund amt pct \<le> amt"
    using k by (auto simp: is_amount_def cents_nonneg cents_mono intro!: exI [of _ "to_fixed 2 x"])
qed

lemma evaluate_refund_cases:
  assumes "policies_ok d"
  obtains full pct part where "0 \<le> pct" "pct \<le> (100::int)"
    "\<And>t. re_refundAmount (evaluate_refund d v t) =
      (let h = hours_of_ms (bk_startTime (bv_booking v) - t) in
       if js_int full \<le> h then bk_totalAmount (bv_booking v)
       else if 0 < pct \<and> js_int part \<le> h then partial_refund (bk_totalAmount (bv_booking v)) pct
       else 0)"
proof -
  obtain full pct part where e: "effective_policy (find_policy d (bv_workspace v)) = (full, pct, part)"
    by (cases "effective_policy (find_policy d (bv_workspace v))")
  have "0 \<le> pct \<and> pct \<le> 100"
  proof (cases "find_policy d (bv_workspace v)")
    case (Some p)
    then have "p \<in> set (db_policies d)"
      by (auto simp: find_policy_def split: option.splits dest: find_row_SomeD)
    with assms Some e show ?thesis by (auto simp: effective_policy_def policies_ok_def policy_ok_def)
  qed (use e in \<open>simp add: effective_policy_def\<close>)
  then show thesis
    by (intro that [of pct full part]) (auto simp: evaluate_refund_def e Let_def partial_refund_def)
qed

text \<open>C11: A refund is never negative and never more than the amount paid, whatever policy is
  configured, with all roundings of the calculation; and it is again an amount of whole
  cents.\<close>

theorem refund_bounds:
  assumes "policies_ok d" "is_amount (bk_totalAmount (bv_booking v))"
  shows "is_amount (re_refundAmount (evaluate_refund d v t)) \<and>
    0 \<le> re_refundAmount (evaluate_refund d v t) \<and>
    re_refundAmount (evaluate_refund d v t) \<le> bk_totalAmount (bv_booking v)"
proof -
  have z: "is_amount 0" unfolding is_amount_def by (intro exI [of _ 0]) simp
  have t0: "0 \<le> bk_totalAmount (bv_booking v)" using assms(2) cents_nonneg by (auto simp: is_amount_def)
  obtain full pct part where "0 \<le> pct" "pct \<le> 100"
    "re_refundAmount (evaluate_refund d v t) =
      (let h = hours_of_ms (bk_startTime (bv_booking v) - t) in
       if js_int full \<le> h then bk_totalAmount (bv_booking v)
       else if 0 < pct \<and> js_int part \<le> h then partial_refund (bk_totalAmount (bv_booking v)) pct
       else 0)"
    using evaluate_refund_cases [OF assms(1), of v] by metis
  then show ?thesis using partial_refund_bounds [OF assms(2), of pct] assms(2) t0 z
    by (simp add: Let_def)
qed

text \<open>Cancelling later never refunds more.\<close>

theorem refund_falls_with_time:
  assumes "policies_ok d" "is_amount (bk_totalAmount (bv_booking v))" "t \<le> t'"
  shows "re_refundAmount (evaluate_refund d v t') \<le> re_refundAmount (evaluate_refund d v t)"
proof -
  let ?b = "bv_booking v"
  have t0: "0 \<le> bk_totalAmount ?b" using assms(2) cents_nonneg by (auto simp: is_amount_def)
  have h: "hours_of_ms (bk_startTime ?b - t') \<le> hours_of_ms (bk_startTime ?b - t)"
    by (rule hours_of_ms_mono) (use assms(3) in simp)
  obtain full pct part where p: "0 \<le> pct" "pct \<le> 100"
    "\<And>t. re_refundAmount (evaluate_refund d v t) =
      (let h = hours_of_ms (bk_startTime ?b - t) in
       if js_int full \<le> h then bk_totalAmount ?b
       else if 0 < pct \<and> js_int part \<le> h then partial_refund (bk_totalAmount ?b) pct else 0)"
    using evaluate_refund_cases [OF assms(1), of v] by metis
  note pr = partial_refund_bounds [OF assms(2) p(1,2)]
  show ?thesis unfolding p(3) Let_def
    using h pr(2,3) t0 by (auto dest: order_trans)
qed

definition sample_policy_db :: db where
  "sample_policy_db = (sample_db [])\<lparr>db_policies := [\<lparr>cp_id = ''p'', cp_workspaceType = HOT_DESK,
     cp_fullRefundHoursBefore = 24, cp_partialRefundPercent = 50, cp_partialRefundHoursBefore = 2\<rparr>]\<rparr>"

definition sample_view :: booking_view where
  "sample_view = \<lparr>bv_booking = (sample_booking ''a'' (5 * ms_per_hour) (6 * ms_per_hour))
       \<lparr>bk_totalAmount := 20\<rparr>,
     bv_workspace = Some sample_workspace, bv_user = None\<rparr>"

lemma amount_20: "is_amount 20"
  unfolding is_amount_def cents_def using fl_int [of 20] by (intro exI [of _ 2000]) simp

lemma sample_policies_ok: "policies_ok sample_policy_db"
  by (simp add: policies_ok_def sample_policy_db_def policy_ok_def)

lemma refund_bounds_witness:
  "0 \<le> re_refundAmount (evaluate_refund sample_policy_db sample_view 0) \<and>
   re_refundAmount (evaluate_refund sample_policy_db sample_view 0) \<le> 20"
  using refund_bounds [OF sample_policies_ok, of sample_view 0] amount_20
  by (simp add: sample_view_def)

lemma refund_falls_with_time_witness:
  "re_refundAmount (evaluate_refund sample_policy_db sample_view (4 * ms_per_hour))
     \<le> re_refundAmount (evaluate_refund sample_policy_db sample_view 0)"
  using refund_falls_with_time [OF sample_policies_ok, of sample_view 0 "4 * ms_per_hour"] amount_20
  by (simp add: sample_view_def ms_units)

subsection \<open>Failures\<close>



subsection \<open>Confirmation\<close>

lemma confirm_ok_iff:
  "find_booking d i = Some b \<Longrightarrow> is_ok (fst (confirm env i d)) \<longleftrightarrow>
      payment_check (be_stellar env) b = Inr () \<and> bk_status b = PENDING"
  by (simp add: confirm_def transaction_def confirm_body_def Let_def split: sum.split)

text \<open>C13: A confirmation succeeds exactly on a pending booking whose payment hash, if it has one,
  the RPC reports as SUCCESS. It then changes the status of that row only, appends one
  pending confirmation event for it to the outbox and notifies its owner.\<close>

theorem confirm_exact:
  assumes "ids_ok d" "find_booking d i = Some b" "be_outboxId env \<notin> ob_id ` set (db_outbox d)"
  shows "(is_ok (fst (confirm env i d)) \<longleftrightarrow>
      bk_status b = PENDING \<and> (truthy (bk_stellarTxHash b) \<longrightarrow>
        verify_transaction (be_stellar env) (the (bk_stellarTxHash b)) = Inr ''SUCCESS'')) \<and>
    (is_ok (fst (confirm env i d)) \<longrightarrow>
      db_bookings (snd (confirm env i d)) =
        map (\<lambda>x. if bk_id x = i then b\<lparr>bk_status := CONFIRMED\<rparr> else x) (db_bookings d) \<and>
      (\<exists>ev. db_outbox (snd (confirm env i d)) = db_outbox d @ [ev] \<and>
         ob_status ev = OutboxPending \<and> ob_eventType ev = ''stellar.booking.confirmed'' \<and>
         ob_payload ev = booking_event_payload b) \<and>
      (\<exists>n. db_notifications (snd (confirm env i d)) = db_notifications d @ [n] \<and>
         nt_room n = Some (bk_userId b) \<and> nt_event n = ''booking:confirmed''))"
proof (intro conjI impI)
  let ?b = "b\<lparr>bk_status := CONFIRMED\<rparr>"
  note bd = find_bookingD [OF assms(2)]
  note ok = confirm_ok_iff [OF assms(2), of env]
  from ok show "is_ok (fst (confirm env i d)) \<longleftrightarrow>
      bk_status b = PENDING \<and> (truthy (bk_stellarTxHash b) \<longrightarrow>
        verify_transaction (be_stellar env) (the (bk_stellarTxHash b)) = Inr ''SUCCESS'')"
    by (auto simp: payment_check_def split: sum.splits if_splits)
  assume "is_ok (fst (confirm env i d))"
  with ok have c: "payment_check (be_stellar env) b = Inr ()" "bk_status b = PENDING" by auto
  have "db_bookings (snd (confirm env i d)) = save_row bk_id ?b (db_bookings d)"
    by (simp add: confirm_def transaction_def confirm_body_def assms(2) c Let_def)
  also have "\<dots> = map (\<lambda>x. if bk_id x = i then ?b else x) (db_bookings d)"
    using bd by (auto simp: save_row_def)
  finally show "db_bookings (snd (confirm env i d)) =
      map (\<lambda>x. if bk_id x = i then ?b else x) (db_bookings d)" .
  show "\<exists>ev. db_outbox (snd (confirm env i d)) = db_outbox d @ [ev] \<and>
         ob_status ev = OutboxPending \<and> ob_eventType ev = ''stellar.booking.confirmed'' \<and>
         ob_payload ev = booking_event_payload b"
    using assms(3)
    by (simp add: confirm_def transaction_def confirm_body_def assms(2) c Let_def enqueue_webhook_def
        add_outbox_def outbox_create_def save_row_new booking_event_payload_def)
  show "\<exists>n. db_notifications (snd (confirm env i d)) = db_notifications d @ [n] \<and>
         nt_room n = Some (bk_userId b) \<and> nt_event n = ''booking:confirmed''"
    by (simp add: confirm_def transaction_def confirm_body_def assms(2) c Let_def enqueue_webhook_def
        add_outbox_def send_to_user_def save_booking_def load_booking_def)
qed

definition sample_pending :: booking where
  "sample_pending = (sample_booking ''a'' 0 5)\<lparr>bk_status := PENDING, bk_stellarTxHash := Some ''tx''\<rparr>"

lemma confirm_exact_witness:
  "is_ok (fst (confirm sample_env ''a'' (sample_db [sample_pending])))"
proof -
  have "verify_transaction (be_stellar sample_env) ''tx'' = Inr ''SUCCESS''"
    by (simp add: verify_transaction_def with_stellar_retry_def sample_env_def)
  then show ?thesis
    using confirm_exact [of "sample_db [sample_pending]" "''a''" sample_pending sample_env]
    by (simp add: ids_ok_def find_booking_def sample_pending_def sample_booking_def sample_db_def)
qed

subsection \<open>Cancellation\<close>

text \<open>C14: cancel succeeds exactly for the owner of an existing booking, whatever its status; it
  then marks that row cancelled with the refund the policy gives at that moment, and no
  other row changes.\<close>

theorem cancel_exact:
  assumes "find_booking d i = Some b"
  shows "(is_ok (fst (cancel env i u d)) \<longleftrightarrow> bk_userId b = u) \<and>
    (bk_userId b = u \<longrightarrow> db_bookings (snd (cancel env i u d)) =
      map (\<lambda>x. if bk_id x = i then b\<lparr>bk_status := CANCELLED, bk_refundAmount :=
             Some (re_refundAmount (evaluate_refund d (load_booking d b) (be_now env)))\<rparr> else x)
        (db_bookings d))"
  using find_bookingD [OF assms]
  by (auto simp: cancel_def find_booking_by_id_def assms load_booking_def Let_def save_row_def)

lemma cancel_exact_witness:
  "\<not> is_ok (fst (cancel sample_env ''a'' ''other'' (sample_db [sample_pending])))"
  using cancel_exact [of "sample_db [sample_pending]" "''a''" sample_pending sample_env "''other''"]
  by (simp add: find_booking_def sample_pending_def sample_booking_def)

text \<open>Series cancellation, row by row: exactly the live instances of the series that start in the
  future and are not cancelled become cancelled, each with its own refund; every other row is
  unchanged, and the counts of the answer add up to the size of the series.\<close>

theorem cancel_series_pointwise:
  assumes "ids_ok d" "cancel_series env sid u d = (Inr r, d')"
  shows "length (db_bookings d') = length (db_bookings d) \<and>
    (\<forall>k < length (db_bookings d). let b = db_bookings d ! k; b' = db_bookings d' ! k in
       if bk_seriesId b = Some sid \<and> bk_deletedAt b = None \<and> be_now env < bk_startTime b \<and>
          bk_status b \<noteq> CANCELLED
       then b' = b\<lparr>bk_status := CANCELLED, bk_refundAmount :=
              Some (re_refundAmount (evaluate_refund d (load_booking d b) (be_now env)))\<rparr>
       else b' = b) \<and>
    cr_cancelledCount r + cr_preservedCount r = length (series_instances sid d)"
proof (intro conjI allI impI)
  note e = conjunct2 [OF cancel_series_ok [OF assms]]
  show "length (db_bookings d') = length (db_bookings d)" by (simp add: e)
  show "cr_cancelledCount r + cr_preservedCount r = length (series_instances sid d)"
    using assms(2) le_add_diff_inverse [OF le_SucI [OF length_filter_le]]
    by (auto simp: cancel_series_def Let_def split: list.splits if_splits)
  fix k assume k: "k < length (db_bookings d)"
  let ?b = "db_bookings d ! k"
  have mem: "?b \<in> set (series_instances sid d) \<longleftrightarrow> bk_seriesId ?b = Some sid \<and> bk_deletedAt ?b = None"
    using k by (auto simp: series_instances_def live_bookings_def)
  have find: "find_booking d (bk_id ?b) = Some ?b" if "bk_deletedAt ?b = None"
  proof -
    have "find_row (\<lambda>x. bk_id x = bk_id ?b) (db_bookings d) = Some ?b"
      by (rule find_row_unique) (use assms(1) k in \<open>auto simp: ids_ok_def\<close>)
    moreover have "(bk_id x = bk_id ?b \<and> bk_deletedAt x = None) = (bk_id x = bk_id ?b)"
      if "x \<in> set (db_bookings d)" for x
      using assms(1) k \<open>bk_deletedAt ?b = None\<close> that
      by (metis distinct_map ids_ok_def inj_onD nth_mem)
    ultimately show ?thesis unfolding find_booking_def find_row_def
      by (metis (mono_tags, lifting) find_cong)
  qed
  show "let b = ?b; b' = db_bookings d' ! k in
       if bk_seriesId b = Some sid \<and> bk_deletedAt b = None \<and> be_now env < bk_startTime b \<and>
          bk_status b \<noteq> CANCELLED
       then b' = b\<lparr>bk_status := CANCELLED, bk_refundAmount :=
              Some (re_refundAmount (evaluate_refund d (load_booking d b) (be_now env)))\<rparr>
       else b' = b"
    using k find by (auto simp: Let_def e mem future_instance_def cancel_instance_def)
qed

definition sample_series :: "booking list" where
  "sample_series = [(sample_booking ''a'' (-5) (-4))\<lparr>bk_seriesId := Some ''s''\<rparr>,
     (sample_booking ''b'' 5 6)\<lparr>bk_seriesId := Some ''s''\<rparr>, sample_booking ''c'' 5 6]"

lemma cancel_series_pointwise_witness:
  "\<exists>r d'. cancel_series sample_env ''s'' ''u'' (sample_db sample_series) = (Inr r, d') \<and>
     cr_cancelledCount r + cr_preservedCount r = 2"
proof -
  let ?d = "sample_db sample_series"
  have i: "ids_ok ?d" by (simp add: ids_ok_def sample_series_def sample_booking_def)
  have n: "length (series_instances ''s'' ?d) = 2"
    by (simp add: series_instances_def live_bookings_def sample_series_def sample_booking_def)
  obtain r d' where c: "cancel_series sample_env ''s'' ''u'' ?d = (Inr r, d')"
    by (auto simp: cancel_series_def series_instances_def live_bookings_def sample_series_def
        sample_booking_def Let_def future_instance_def sample_env_def)
  from cancel_series_pointwise [OF i c] c n show ?thesis by auto
qed

subsection \<open>Defects\<close>

definition daily_env :: booking_env where
  "daily_env = sample_env\<lparr>be_rrule := \<lparr>rr_parse = Some \<circ> JStr,
     rr_all = (\<lambda>_ s _. Some [s, s + ms_per_day, s + 2 * ms_per_day])\<rparr>\<rparr>"

text \<open>A recurring series is checked against the stored bookings only, not against itself: a
  daily rule of three occurrences with a duration of three days is accepted on an empty
  workspace with two places and puts three bookings on it at once.\<close>

theorem series_overbooks_itself:
  "is_ok (fst (create_booking daily_env ''u'' (sample_dto 0 (3 * ms_per_day)
      (Some ''FREQ=DAILY;COUNT=3'')) ''member'' (sample_db []))) \<and>
   occupancy (snd (create_booking daily_env ''u'' (sample_dto 0 (3 * ms_per_day)
      (Some ''FREQ=DAILY;COUNT=3'')) ''member'' (sample_db []))) ''w'' None (2 * ms_per_day) = 3 \<and>
   w_capacity sample_workspace = 2"
proof -
  let ?insts = "map (\<lambda>s. \<lparr>ri_startTime = s, ri_endTime = s + 3 * ms_per_day\<rparr>)
    [0, ms_per_day, 2 * ms_per_day]"
  let ?dto = "sample_dto 0 (3 * ms_per_day) (Some ''FREQ=DAILY;COUNT=3'')"
  let ?rows = "series_rows daily_env ''w'' ''u'' ''FREQ=DAILY;COUNT=3'' None
    (series_amount sample_workspace) ?insts"
  have ex: "expand_instances (be_rrule daily_env) ''FREQ=DAILY;COUNT=3'' 0 (3 * ms_per_day) = Inr ?insts"
    by (simp add: expand_instances_def daily_env_def sample_env_def MAX_RECURRENCE_INSTANCES_def
      rule_text_def)
  have none: "has_conflict (sample_db []) ''w'' s e None = Inr None" for s e
    by (simp add: has_conflict_def find_maintenance_def overlapping_bookings_def)
  have ch: "check_instances (sample_db []) ''w'' ?insts = Inr ()"
    by (simp add: none)
  have body: "create_body daily_env ''u'' ?dto ''member'' (sample_db []) = (Inr ?rows,
      send_to_user ''u'' ''booking:series_created'' (series_notification daily_env (length ?rows)
        (JStr (w_name sample_workspace))) (save_bookings ?rows (sample_db [])))"
    using ex ch by (simp add: create_body_def create_recurring_def sample_dto_def ms_units Let_def)
  have rows: "db_bookings (save_bookings ?rows (sample_db [])) = ?rows"
  proof -
    have "distinct (map bk_id ?rows)" unfolding series_rows_ids
      by (simp add: daily_env_def sample_env_def)
    from save_bookings_fresh [OF this, of "sample_db []"] show ?thesis by simp
  qed
  have "load ''w'' (2 * ms_per_day) ?rows = 3"
    by (simp add: series_rows_def new_booking_def weight_def is_active_def covers_def ms_units)
  then show ?thesis
    by (simp only: create_booking_def transaction_def body prod.case sum.case fst_conv snd_conv
        is_ok_simps occupancy_load invalidate_dashboard_cache_frame send_to_user_frame rows
        sample_db_simps simp_thms)
qed

text \<open>Cancelling again is allowed and overwrites the refund: under the default policy, a second
  cancel after the start replaces the recorded refund of a cancelled booking by zero.\<close>

theorem cancel_again_zeroes_refund:
  assumes "find_booking d i = Some b" "bk_status b = CANCELLED" "bk_refundAmount b = Some r"
    and "db_policies d = []" "bk_startTime b \<le> be_now env"
  shows "fst (cancel env i (bk_userId b) d) = Inr (b\<lparr>bk_refundAmount := Some 0\<rparr>)"
proof -
  have "hours_of_ms (bk_startTime b - be_now env) \<le> hours_of_ms 0"
    by (rule hours_of_ms_mono) (use assms(5) in simp)
  also have "hours_of_ms 0 = 0" by (simp add: hours_of_ms_def js_int_def js_div_def)
  finally have "\<not> js_int 24 \<le> hours_of_ms (bk_startTime b - be_now env)"
    by (simp add: js_int_small)
  then have "re_refundAmount (evaluate_refund d (load_booking d b) (be_now env)) = 0"
    by (simp add: evaluate_refund_def effective_policy_def find_policy_def assms(4) load_booking_def
        Let_def split: option.split)
  then show ?thesis using assms(2)
    by (simp add: cancel_def find_booking_by_id_def assms(1) load_booking_def Let_def)
qed

lemma cancel_again_zeroes_refund_witness:
  "\<exists>b. bk_refundAmount b = Some 20 \<and>
    fst (cancel sample_env ''a'' ''u'' (sample_db [b])) = Inr (b\<lparr>bk_refundAmount := Some 0\<rparr>)"
proof -
  let ?b = "(sample_booking ''a'' 0 5)\<lparr>bk_status := CANCELLED, bk_refundAmount := Some 20\<rparr>"
  show ?thesis
    using cancel_again_zeroes_refund [of "sample_db [?b]" "''a''" ?b 20 sample_env]
    by (intro exI [of _ ?b])
      (simp add: find_booking_def sample_booking_def sample_db_def sample_env_def)
qed

text \<open>C15: Every confirmation discloses the stored password hash of the owner to the webhook
  subscribers: for each active subscription to booking.confirmed a delivery is queued whose
  payload carries the whole user row, its passwordHash field included.\<close>

theorem confirm_discloses_password_hash:
  assumes "is_ok (fst (confirm env i d))" "find_booking d i = Some b"
    and "find_user d (bk_userId b) = Some owner"
    and "sub \<in> set (wh_subscriptions (db_webhooks d))" "subscribed ''booking.confirmed'' sub"
  shows "\<exists>del \<in> set (wh_deliveries (db_webhooks (snd (confirm env i d)))).
    wd_subscriptionId del = ws_id sub \<and> wd_status del = WhPending \<and>
    Option.bind (Option.bind (json_field (wd_payload del) ''data'') (\<lambda>j. json_field j ''user''))
      (\<lambda>j. json_field j ''passwordHash'') = Some (JStr (u_passwordHash owner))"
proof -
  obtain v d1 where body: "confirm_body env i d = (Inr v, d1)"
    using assms(1) by (cases "confirm_body env i d"; cases "fst (confirm_body env i d)")
      (auto simp: confirm_def transaction_def)
  then have v: "bv_user v = Some owner" and d1: "db_webhooks d1 = db_webhooks d"
    using assms(2,3) by (auto simp: confirm_body_ok load_booking_def add_outbox_def save_booking_def)
  let ?subs = "filter (subscribed ''booking.confirmed'') (wh_subscriptions (db_webhooks d))"
  have "sub \<in> set ?subs" using assms(4,5) by simp
  then obtain n where n: "n < length ?subs" "?subs ! n = sub" by (metis in_set_conv_nth)
  let ?del = "\<lambda>n sub. \<lparr>wd_id = be_deliveryIds env n, wd_subscriptionId = ws_id sub,
     wd_eventType = ''booking.confirmed'',
     wd_payload = event_payload ''booking.confirmed'' (booking_json v) (to_iso (be_now env)),
     wd_status = WhPending, wd_attempts = 0, wd_nextRetryAt = be_now env,
     wd_responseCode = None, wd_lastError = None, wd_createdAt = be_now env\<rparr>"
  have "wh_deliveries (db_webhooks (snd (confirm env i d))) = wh_deliveries (db_webhooks d) @
      map (\<lambda>(n, sub). ?del n sub) (zip [0..<length ?subs] ?subs)"
    using n(1) body by (auto simp: confirm_def transaction_def enqueue_webhook_def enqueue_def
        send_to_user_def d1 Let_def)
  moreover have "(n, sub) \<in> set (zip [0..<length ?subs] ?subs)"
    unfolding set_zip using n by (intro CollectI exI [of _ n]) simp
  ultimately have "?del n sub \<in> set (wh_deliveries (db_webhooks (snd (confirm env i d))))"
    by (auto intro!: image_eqI [where x = "(n, sub)"])
  moreover have "Option.bind (Option.bind (json_field (event_payload ''booking.confirmed''
      (booking_json v) (to_iso (be_now env))) ''data'') (\<lambda>j. json_field j ''user''))
      (\<lambda>j. json_field j ''passwordHash'') = Some (JStr (u_passwordHash owner))"
    by (simp add: event_payload_def booking_json_def Let_def v json_of_option_with_def user_json_def)
  ultimately show ?thesis by (intro bexI [of _ "?del n sub"]) simp_all
qed

definition sample_user :: user where
  "sample_user = \<lparr>u_id = ''u'', u_firstName = None, u_lastName = None, u_email = ''u@x'',
     u_passwordHash = ''hash'', u_role = MEMBER, u_stellarPublicKey = None, u_otp = None,
     u_otpExpiry = None, u_otpAttempts = 0, u_otpInvalidatedAt = None, u_otpResendCount = 0,
     u_isVerified = True, u_isActive = True, u_profilePicture = None,
     u_profilePictureUrls = JNull, u_profilePicturePublicId = None, u_totpEnabled = False,
     u_totpSecret = None, u_backupCodes = None, u_createdAt = 0, u_deletedAt = None\<rparr>"

definition sample_leak_db :: db where
  "sample_leak_db = (sample_db [(sample_booking ''a'' 0 5)\<lparr>bk_status := PENDING\<rparr>])
     \<lparr>db_users := [sample_user],
      db_webhooks := \<lparr>wh_subscriptions = [\<lparr>ws_id = ''h'', ws_url = ''x'', ws_secretHash = ''s'',
          ws_encryptedSecret = ''e'', ws_eventTypes = [''booking.confirmed''], ws_isActive = True\<rparr>],
        wh_deliveries = []\<rparr>\<rparr>"

lemma confirm_discloses_password_hash_witness:
  "\<exists>del \<in> set (wh_deliveries (db_webhooks (snd (confirm sample_env ''a'' sample_leak_db)))).
    Option.bind (Option.bind (json_field (wd_payload del) ''data'') (\<lambda>j. json_field j ''user''))
      (\<lambda>j. json_field j ''passwordHash'') = Some (JStr ''hash'')"
proof -
  let ?b = "(sample_booking ''a'' 0 5)\<lparr>bk_status := PENDING\<rparr>"
  have f: "find_booking sample_leak_db ''a'' = Some ?b"
    by (simp add: sample_leak_db_def sample_db_def find_booking_def sample_booking_def)
  have ok: "is_ok (fst (confirm sample_env ''a'' sample_leak_db))"
    by (simp add: confirm_def transaction_def confirm_body_def f payment_check_def Let_def
        sample_booking_def)
  have "find_user sample_leak_db (bk_userId ?b) = Some sample_user"
    by (simp add: sample_leak_db_def find_user_def sample_booking_def sample_user_def)
  moreover have "u_passwordHash sample_user = ''hash''" by (simp add: sample_user_def)
  moreover have "\<exists>sub \<in> set (wh_subscriptions (db_webhooks sample_leak_db)).
      subscribed ''booking.confirmed'' sub"
    by (simp add: sample_leak_db_def subscribed_def)
  ultimately show ?thesis
    using confirm_discloses_password_hash [OF ok f, of sample_user] by metis
qed

end
