(* ===== verification/Dashboard_Correct.thy ===== *)
theory Dashboard_Correct
  imports Dashboard Booking_Contract
begin

text \<open>
  What the dashboard shows: whose activity a user can read, why the second page of the feed fails,
  the bounds of the statistics, the growth table as a partition, and the revenue that no
  cancellation changes.
\<close>

subsection \<open>The feed\<close>

lemma bound_value_Cons:
  "bound_value (c # cs) n = (case bound_value cs n of Some v \<Rightarrow> Some v
     | None \<Rightarrow> if ac_param c = n then Some (ac_value c) else None)"
  by (auto simp: bound_value_def map_add_def split: option.split)

lemma bound_value_append:
  "bound_value (xs @ ys) n = (case bound_value ys n of Some v \<Rightarrow> Some v | None \<Rightarrow> bound_value xs n)"
  by (simp add: bound_value_def map_add_def split: option.split)

text \<open>A condition that is repeated later under the same name adds nothing.\<close>

lemma shadowed_condition:
  assumes "c' \<in> set cs" "ac_column c' = ac_column c" "ac_param c' = ac_param c"
  shows "conditions_hold (c # cs) r = conditions_hold cs r"
proof -
  have b: "bound_value (c # cs) n = bound_value cs n" if "n \<in> ac_param ` set (c # cs)" for n
  proof -
    have "n \<in> fst ` set (rev (map (\<lambda>c. (ac_param c, ac_value c)) cs))"
      using that assms(1,3) by (auto simp: image_iff intro: bexI [of _ c'])
    then obtain v where "bound_value cs n = Some v"
      by (metis bound_value_def domD dom_map_of_conv_image_fst)
    then show ?thesis by (simp add: bound_value_Cons)
  qed
  have "conditions_hold (c # cs) r \<longleftrightarrow> (ac_column c r \<noteq> None \<and> ac_column c r = bound_value cs (ac_param c)) \<and>
      (\<forall>x \<in> set cs. ac_column x r \<noteq> None \<and> ac_column x r = bound_value cs (ac_param x))"
    by (simp add: conditions_hold_def list_all_iff b)
  moreover have "conditions_hold cs r \<Longrightarrow> ac_column c r \<noteq> None \<and> ac_column c r = bound_value cs (ac_param c)"
    using assms by (auto simp: conditions_hold_def list_all_iff)
  ultimately show ?thesis by (auto simp: conditions_hold_def list_all_iff)
qed

lemma own_condition_shadowed:
  assumes "truthy (aqf_actorId q)"
  shows "conditions_hold (activity_conditions q u role) = conditions_hold (activity_conditions q u' (Some (role_name ADMIN)))"
proof (cases "role \<noteq> Some (role_name ADMIN) \<and> truthy u")
  case True
  let ?cs = "activity_conditions q u' (Some (role_name ADMIN))"
  let ?c = "condition_on actor_column ''actorId'' (AvText (the u))"
  have "activity_conditions q u role = ?c # ?cs" using True by (simp add: activity_conditions_def)
  moreover have "condition_on actor_column ''actorId'' (AvText (the (aqf_actorId q))) \<in> set ?cs"
    using assms by (simp add: activity_conditions_def)
  ultimately show ?thesis using shadowed_condition [of _ ?cs ?c] by (auto simp: condition_on_def)
next
  case False
  then have "activity_conditions q u role = activity_conditions q u' (Some (role_name ADMIN))"
    unfolding activity_conditions_def by (simp del: role_name.simps)
  then show ?thesis by simp
qed

text \<open>The feed is meant to show a user who is no administrator their own activity only. Naming
  another actor in the query lifts that: both conditions use the parameter \<open>actorId\<close>, the
  builder keeps the value given last, and every user gets exactly what an administrator gets.\<close>

theorem activity_of_anyone:
  assumes "aqf_actorId q = Some a" "a \<noteq> []"
  shows "get_activity q (Some u) role tbl = get_activity q admin (Some (role_name ADMIN)) tbl"
  using own_condition_shadowed [of q "Some u" role admin] assms by (simp add: get_activity_def)

definition sample_audit :: "uuid \<Rightarrow> uuid \<Rightarrow> instant \<Rightarrow> audit_log" where
  "sample_audit i a t = \<lparr>au_id = i, au_actorId = Some a, au_actorRole = None, au_eventType = ''booking.confirmed'',
     au_eventCategory = None, au_resourceType = ''booking'', au_resourceId = ''r'', au_before = None,
     au_after = None, au_ipAddress = None, au_createdAt = t\<rparr>"

definition sample_activity_query :: "string option \<Rightarrow> string option \<Rightarrow> activity_query" where
  "sample_activity_query a c = \<lparr>aqf_eventCategory = None, aqf_actorId = a, aqf_resourceId = None,
     aqf_cursor = c, aqf_limit = Some 1\<rparr>"

lemma activity_of_anyone_witness:
  "\<exists>p. get_activity (sample_activity_query (Some ''victim'') None) (Some ''mallory'') (Some ''member'')
      [sample_audit ''x'' ''victim'' 5] = Inr p \<and> map ai_actorId (af_items p) = [Some ''victim'']"
  using activity_of_anyone [of "sample_activity_query (Some ''victim'') None" "''victim''" "''mallory''" "Some ''member''"
      "[sample_audit ''x'' ''victim'' 5]" None]
  by (simp add: sample_activity_query_def get_activity_def activity_page_of_def or_default_def MAX_PAGE_SIZE_def
      activity_conditions_def conditions_hold_def condition_on_def bound_value_def actor_column_def
      sample_audit_def activity_item_of_def Let_def)

subsection \<open>The second page\<close>

lemma digits_no_colon: "digits s \<Longrightarrow> CHR '':'' \<notin> set s"
  by (auto simp: digits_def list_all_iff)

lemma iso_before_colon:
  assumes "0 \<le> get_utc_full_year t" "get_utc_full_year t \<le> 9999"
  shows "\<exists>x m y. to_iso t = x @ '':'' @ m @ '':'' @ y \<and> CHR '':'' \<notin> set x \<and> CHR '':'' \<notin> set m \<and> length x = 13 \<and> length m = 2"
proof -
  obtain y m d where c: "civil_of_days (t div ms_per_day) = (y, m, d)" by (cases "civil_of_days (t div ms_per_day)")
  note b = civil_of_days_bounds [OF c]
  have y: "0 \<le> y" "y \<le> 9999" using assms c by (simp_all add: get_utc_full_year_def)
  define h mi where "h = get_utc_hours t" and "mi = t mod ms_per_hour div ms_per_minute"
  have r: "0 \<le> h" "h < 24" "0 \<le> mi" "mi < 60"
    using get_utc_hours_bounds [of t] by (simp_all add: h_def mi_def ms_units pos_imp_zdiv_nonneg_iff)
  define x where "x = pad_number 4 y @ ''-'' @ pad_number 2 m @ ''-'' @ pad_number 2 d @ ''T'' @ pad_number 2 h"
  have iso: "to_iso t = x @ '':'' @ pad_number 2 mi @ '':'' @
      (pad_number 2 (t mod ms_per_minute div ms_per_second) @ ''.'' @ pad_number 3 (t mod ms_per_second) @ ''Z'')"
    using y c by (simp add: to_iso_def iso_date_def iso_year_def get_utc_full_year_def get_utc_month_def
        get_utc_date_def x_def h_def mi_def)
  have "length x = 13" using y b(1) r by (simp add: x_def pad_number_ok)
  moreover have "CHR '':'' \<notin> set x"
    using y b(1) r by (simp add: x_def digits_no_colon pad_number_ok)
  moreover have "CHR '':'' \<notin> set (pad_number 2 mi)" "length (pad_number 2 mi) = 2"
    using r digits_no_colon pad_number_ok [of 2 mi] by auto
  ultimately show ?thesis using iso by blast
qed

text \<open>The second page of the activity feed always fails. The cursor joins the time of the last item
  and its id with a colon, and the reader splits at colons: it takes the date and hour for the
  time, which is no date, and the minutes for the id. So a page that offers a next one offers a
  cursor on which the same query is answered with an error, for every user and filter.\<close>

theorem activity_second_page_fails:
  assumes "get_activity q u role tbl = Inr p" "af_nextCursor p = Some c"
    and "\<And>r. r \<in> set tbl \<Longrightarrow> 0 \<le> get_utc_full_year (au_createdAt r) \<and> get_utc_full_year (au_createdAt r) \<le> 9999"
  shows "c \<noteq> [] \<and> get_activity (q'\<lparr>aqf_cursor := Some c\<rparr>) u' role' tbl' =
    Inl (ServerError ''invalid input syntax for type timestamp'')"
proof -
  obtain n rows where p: "p = activity_page_of n rows" "set rows \<subseteq> set tbl"
    using assms(1) by (auto simp: get_activity_def Let_def split: if_splits prod.splits option.splits)
  let ?items = "take n (take (n + 1) (sort_by activity_order rows))"
  have c: "c = activity_cursor (last ?items)" and ne: "?items \<noteq> []"
    using assms(2) unfolding p by (auto simp: activity_page_of_def Let_def split: if_splits)
  have "last ?items \<in> set ?items" using ne by (rule last_in_set)
  then have "last ?items \<in> set tbl"
    using p(2) by (auto dest!: in_set_takeD)
  from assms(3) [OF this] obtain x m y where iso: "to_iso (au_createdAt (last ?items)) = x @ '':'' @ m @ '':'' @ y"
    and x: "CHR '':'' \<notin> set x" "CHR '':'' \<notin> set m" "length x = 13" "length m = 2"
    using iso_before_colon [of "au_createdAt (last ?items)"] by blast
  have parts: "split_on (CHR '':'') (b64_decode c) = x # m # split_on (CHR '':'') (y @ '':'' @ au_id (last ?items))"
    unfolding c activity_cursor_def b64_roundtrip iso using x by (simp add: split_on_append)
  have "read_time x = None"
    using x(3) by (simp add: read_time_def read_field_def split: option.split)
  then have "date_parse x = None"
    using x(3) by (simp add: date_parse_def split: option.split)
  moreover have "c \<noteq> []"
  proof
    assume "c = []"
    then have "b64_decode c = []" by (simp add: b64_decode_def List.map_filter_simps)
    with parts x(3) show False by auto
  qed
  ultimately show ?thesis
    by (simp add: get_activity_def read_activity_cursor_def parts Let_def)
qed

lemma activity_second_page_fails_witness:
  "\<exists>p c. get_activity (sample_activity_query None None) (Some ''v'') (Some ''member'')
      [sample_audit ''x'' ''v'' 5, sample_audit ''y'' ''v'' 7] = Inr p \<and> af_nextCursor p = Some c \<and>
    get_activity (sample_activity_query None (Some c)) (Some ''v'') (Some ''member'')
      [sample_audit ''x'' ''v'' 5, sample_audit ''y'' ''v'' 7] =
    Inl (ServerError ''invalid input syntax for type timestamp'')"
proof -
  let ?t = "[sample_audit ''x'' ''v'' 5, sample_audit ''y'' ''v'' 7]" and ?q = "sample_activity_query None None"
  have p: "get_activity ?q (Some ''v'') (Some ''member'') ?t =
      Inr \<lparr>af_items = [activity_item_of (sample_audit ''y'' ''v'' 7)],
        af_nextCursor = Some (activity_cursor (sample_audit ''y'' ''v'' 7)), af_hasMore = True\<rparr>"
    by (simp add: sample_activity_query_def get_activity_def activity_page_of_def or_default_def MAX_PAGE_SIZE_def
      activity_conditions_def conditions_hold_def condition_on_def bound_value_def actor_column_def
      sample_audit_def activity_order_def Let_def)
  have y: "get_utc_full_year 5 = 1970" "get_utc_full_year 7 = 1970" by code_simp+
  have q: "?q\<lparr>aqf_cursor := Some c\<rparr> = sample_activity_query None (Some c)" for c
    by (simp add: sample_activity_query_def)
  have yr: "0 \<le> get_utc_full_year (au_createdAt r) \<and> get_utc_full_year (au_createdAt r) \<le> 9999"
    if "r \<in> set ?t" for r using that y by (auto simp: sample_audit_def)
  have "get_activity (?q\<lparr>aqf_cursor := Some (activity_cursor (sample_audit ''y'' ''v'' 7))\<rparr>) (Some ''v'') (Some ''member'') ?t =
      Inl (ServerError ''invalid input syntax for type timestamp'')"
    by (rule conjunct2 [OF activity_second_page_fails [OF p _ yr]]) simp_all
  with p show ?thesis unfolding q by auto
qed

text \<open>No row ever gets a category, so a feed filtered by one is empty.\<close>

inductive audit_table :: "audit_log list \<Rightarrow> bool" where
  audit_empty: "audit_table []"
| audit_added: "audit_table tbl \<Longrightarrow> audit_table (audit_insert fails i now ev tbl)"

lemma audit_table_uncategorised: "audit_table tbl \<Longrightarrow> r \<in> set tbl \<Longrightarrow> au_eventCategory r = None"
  by (induction rule: audit_table.induct) (auto simp: audit_insert_def split: if_splits)

lemma category_filter_empty:
  assumes "audit_table tbl" "aqf_eventCategory q = Some c" "get_activity q u role tbl = Inr p"
  shows "af_items p = []"
proof -
  have "conditions_hold (activity_conditions q u role) r = False" if "r \<in> set tbl" for r
    using audit_table_uncategorised [OF assms(1) that] assms(2)
    by (auto simp: conditions_hold_def activity_conditions_def condition_on_def)
  then have e: "filter (conditions_hold (activity_conditions q u role)) tbl = []" by (simp add: filter_empty_conv)
  then show ?thesis
    using assms(3) by (auto simp: get_activity_def Let_def activity_page_of_def split: if_splits option.splits prod.splits)
qed

subsection \<open>Statistics\<close>

lemma js_round_nonneg: "0 \<le> x \<Longrightarrow> 0 \<le> js_round x"
  by (simp add: js_round_def)

lemma js_round_zero: "js_round 0 = 0" unfolding js_round_def by linarith

definition confirmed_ever :: "db \<Rightarrow> nat" where
  "confirmed_ever d = length (filter (\<lambda>b. bk_status b = CONFIRMED \<and> bk_deletedAt b = None) (db_bookings d))"

text \<open>The desk occupancy shown is a percentage, and it compares all confirmed bookings ever made, past
  ones included, with the number of active workspaces: without a confirmed booking it is 0, and as
  soon as there are as many of them as workspaces it is 100 for good.\<close>

theorem stats_bounds:
  "ds_verifiedMembers (get_stats d) \<le> ds_totalMembers (get_stats d) \<and>
    0 \<le> ds_deskOccupancy (get_stats d) \<and> ds_deskOccupancy (get_stats d) \<le> 100 \<and>
    (confirmed_ever d = 0 \<longrightarrow> ds_deskOccupancy (get_stats d) = 0) \<and>
    (0 < confirmed_ever d \<and> ds_activeWorkspaces (get_stats d) \<le> confirmed_ever d \<longrightarrow> ds_deskOccupancy (get_stats d) = 100)"
proof -
  have nn: "0 \<le> js_round (js_mul (js_div (js_int (int m)) (js_int (int n))) 100)" for m n
    by (intro js_round_nonneg) (simp add: js_mul_def js_div_def js_int_def fl_nonneg)
  have full: "100 \<le> js_round (js_mul (js_div (js_int (int m)) (js_int (int n))) 100)" if "0 < n" "n \<le> m" for m n
  proof -
    have "1 \<le> js_int (int n)" unfolding js_int_def using fl_int_ge [of 1 "of_int (int n)"] that by simp
    moreover have "js_int (int n) \<le> js_int (int m)" unfolding js_int_def by (rule fl_mono) (use that in simp)
    ultimately have "1 \<le> js_int (int m) / js_int (int n)" by simp
    then have "1 \<le> js_div (js_int (int m)) (js_int (int n))"
      unfolding js_div_def using fl_int_ge [of 1 "js_int (int m) / js_int (int n)"] by simp
    then have "100 \<le> js_mul (js_div (js_int (int m)) (js_int (int n))) 100"
      unfolding js_mul_def using fl_int_ge [of 100 "js_div (js_int (int m)) (js_int (int n)) * 100"] by simp
    then show ?thesis unfolding js_round_def by linarith
  qed
  have "length (filter u_isVerified (live_users d)) \<le> length (live_users d)" by simp
  then show ?thesis
    using nn full js_round_zero by (auto simp: get_stats_def Let_def confirmed_ever_def min_def)
qed

lemma stats_bounds_witness:
  "ds_deskOccupancy (get_stats (sample_db [sample_pending\<lparr>bk_status := CONFIRMED\<rparr>])) = 100"
proof -
  have "0 < confirmed_ever (sample_db [sample_pending\<lparr>bk_status := CONFIRMED\<rparr>]) \<and>
      ds_activeWorkspaces (get_stats (sample_db [sample_pending\<lparr>bk_status := CONFIRMED\<rparr>])) \<le>
      confirmed_ever (sample_db [sample_pending\<lparr>bk_status := CONFIRMED\<rparr>])"
    by (simp add: confirmed_ever_def get_stats_def Let_def sample_db_def sample_pending_def sample_booking_def)
  then show ?thesis
    using stats_bounds [of "sample_db [sample_pending\<lparr>bk_status := CONFIRMED\<rparr>]"] by blast
qed

subsection \<open>Growth\<close>

lemma sum_filter_keys:
  "distinct ks \<Longrightarrow> key ` set rows \<subseteq> set ks \<Longrightarrow>
   sum_list (map (\<lambda>k. length (filter (\<lambda>r. key r = k) rows)) ks) = length rows"
proof (induction rows)
  case (Cons r rows)
  then have k: "key r \<in> set ks" by simp
  have "sum_list (map (\<lambda>k. length (filter (\<lambda>x. key x = k) (r # rows))) ks) =
      sum_list (map (\<lambda>k. (if key r = k then 1 else 0) + length (filter (\<lambda>x. key x = k) rows)) ks)"
    by (rule arg_cong [where f = sum_list], rule map_cong) auto
  also have "\<dots> = sum_list (map (\<lambda>k. if key r = k then 1 else 0) ks) + length rows"
    using Cons by (simp add: sum_list_addf)
  also have "sum_list (map (\<lambda>k. if key r = k then 1 else 0) ks) = (1::nat)"
    using k Cons.prems(1) by (induction ks) (auto simp: sum_list_0)
  finally show ?case by simp
qed simp

lemma group_rows_total: "sum_list (map (\<lambda>(k, rs). length rs) (group_rows key rows)) = length rows"
  unfolding group_rows_def map_map comp_def by (simp add: sum_filter_keys)

lemma group_rows_keys: "sorted (map fst (group_rows key rows))" "distinct (map fst (group_rows key rows))"
  by (simp_all add: group_rows_def comp_def)

lemma group_rows_members: "(k, rs) \<in> set (group_rows key rows) \<Longrightarrow> rs = filter (\<lambda>r. key r = k) rows \<and> rs \<noteq> []"
  by (auto simp: group_rows_def filter_empty_conv)

text \<open>The growth table counts every member of the period once: its counts are positive and add up to
  the number of live users created since then.\<close>

theorem growth_counts_members:
  "sum_list (map snd (get_growth since d)) = length (filter (\<lambda>u. since \<le> u_createdAt u) (live_users d)) \<and>
   list_all (\<lambda>(label, n). 0 < n) (get_growth since d)"
proof -
  have "map snd (get_growth since d) = map (\<lambda>(k, rs). length rs) (group_rows (\<lambda>u. month_of (u_createdAt u))
      (filter (\<lambda>u. since \<le> u_createdAt u) (live_users d)))"
    by (auto simp: get_growth_def)
  moreover have "list_all (\<lambda>(label, n). 0 < n) (get_growth since d)"
    using group_rows_members by (fastforce simp: get_growth_def list_all_iff)
  ultimately show ?thesis by (simp add: group_rows_total)
qed

subsection \<open>Revenue\<close>

lemma load_booking_parts:
  "bv_booking (load_booking d b) = b" "bv_user (load_booking d b) = find_user d (bk_userId b)"
  by (simp_all add: load_booking_def)

text \<open>Cancellations and refunds never show in the revenue: the statistic sums the full amounts of all
  bookings, and a cancellation leaves it unchanged whatever it refunds.\<close>

theorem revenue_ignores_cancellations:
  assumes "ids_ok d"
  shows "as_revenue (get_admin_stats (snd (cancel env i u d))) = as_revenue (get_admin_stats d)"
proof (cases "find_booking d i")
  case None
  then show ?thesis by (simp add: cancel_def find_booking_by_id_def)
next
  case (Some b)
  then have b: "b \<in> set (db_bookings d)" "bk_id b = i" by (auto dest: find_bookingD)
  let ?b = "b\<lparr>bk_status := CANCELLED, bk_refundAmount :=
             Some (re_refundAmount (evaluate_refund d (load_booking d b) (be_now env)))\<rparr>"
  have same: "x = b" if "x \<in> set (db_bookings d)" "bk_id x = bk_id b" for x
    using assms b that by (auto simp: ids_ok_def distinct_map inj_on_def)
  have e: "map (\<lambda>x. (bk_totalAmount x, bk_deletedAt x)) (save_row bk_id ?b (db_bookings d)) =
      map (\<lambda>x. (bk_totalAmount x, bk_deletedAt x)) (db_bookings d)"
  proof -
    have "save_row bk_id ?b (db_bookings d) = map (\<lambda>x. if bk_id x = bk_id b then ?b else x) (db_bookings d)"
      using b(1) by (auto simp: save_row_def)
    then show ?thesis using same by auto
  qed
  have f: "map bk_totalAmount (filter (\<lambda>b. bk_deletedAt b = None) bs) =
      map fst (filter (\<lambda>p. snd p = None) (map (\<lambda>x. (bk_totalAmount x, bk_deletedAt x)) bs))" for bs
    by (induction bs) auto
  have "map bk_totalAmount (filter (\<lambda>b. bk_deletedAt b = None) (save_row bk_id ?b (db_bookings d))) =
      map bk_totalAmount (filter (\<lambda>b. bk_deletedAt b = None) (db_bookings d))"
    by (simp only: f e)
  then show ?thesis
    using Some by (auto simp: cancel_def find_booking_by_id_def get_admin_stats_def Let_def load_booking_parts)
qed

lemma revenue_ignores_cancellations_witness:
  "as_revenue (get_admin_stats (snd (cancel sample_env ''a'' ''u'' (sample_db [sample_pending\<lparr>bk_totalAmount := 20\<rparr>])))) = 20"
proof -
  have "ids_ok (sample_db [sample_pending\<lparr>bk_totalAmount := 20\<rparr>])"
    by (simp add: ids_ok_def sample_pending_def sample_booking_def)
  from revenue_ignores_cancellations [OF this]
  have "as_revenue (get_admin_stats (snd (cancel sample_env ''a'' ''u'' (sample_db [sample_pending\<lparr>bk_totalAmount := 20\<rparr>])))) =
      cents (to_fixed 2 20)"
    by (simp add: get_admin_stats_def sample_pending_def sample_booking_def decimal_sum_def)
  also have "\<dots> = 20" by code_simp
  finally show ?thesis .
qed

end
