(* ===== verification/Analytics_Correct.thy ===== *)
theory Analytics_Correct
  imports Analytics Dashboard_Correct
begin

text \<open>
  What the analytics promise: the trend line of values that lie on a line is that line, without
  a rounding error; the nightly job writes one snapshot per workspace and day however often it
  runs; the cache of the controller never serves an answer older than a quarter of an hour; the
  peak hours are the busiest ones.
\<close>

subsection \<open>Sums on a grid of quarters\<close>

definition quarter :: "int \<Rightarrow> num" where "quarter k = of_int k / 4"

lemma quarter_add: "quarter j + quarter k = quarter (j + k)"
  by (simp add: quarter_def add_divide_distrib)

lemma quarter_0 [simp]: "quarter 0 = 0"
  by (simp add: quarter_def)

lemma fl_quarter: "\<bar>k\<bar> \<le> 2 ^ 53 \<Longrightarrow> fl (quarter k) = quarter k"
proof (rule fl_double)
  assume "\<bar>k\<bar> \<le> 2 ^ 53"
  moreover have "quarter k = of_int k * 2 powi (-2)" by (simp add: quarter_def power_int_def power2_eq_square)
  ultimately show "is_double (quarter k)"
    unfolding is_double_def by (intro exI [of _ k] exI [of _ "-2"]) simp
qed

lemma foldl_js_add_grid:
  "\<bar>s\<bar> + sum_list (map abs ks) \<le> 2 ^ 53 \<Longrightarrow>
   foldl js_add (quarter s) (map quarter ks) = quarter (s + sum_list ks)"
proof (induction ks arbitrary: s)
  case (Cons k ks)
  have nn: "0 \<le> sum_list (map abs ks)" by (rule sum_list_nonneg) auto
  with Cons.prems have "\<bar>s + k\<bar> \<le> 2 ^ 53" by simp
  then have "js_add (quarter s) (quarter k) = quarter (s + k)"
    by (simp add: js_add_def quarter_add fl_quarter)
  moreover have "\<bar>s + k\<bar> + sum_list (map abs ks) \<le> 2 ^ 53" using Cons.prems by simp
  ultimately show ?case using Cons.IH [of "s + k"] by (simp add: algebra_simps)
qed simp

lemma sum_abs_le:
  fixes ks :: "int list"
  shows "\<forall>k \<in> set ks. \<bar>k\<bar> \<le> B \<Longrightarrow> sum_list (map abs ks) \<le> int (length ks) * B"
  by (induction ks) (auto simp: algebra_simps)

lemma js_sum_grid:
  assumes "\<forall>k \<in> set ks. \<bar>k\<bar> \<le> B" "int (length ks) * B \<le> 2 ^ 53"
  shows "js_sum (map quarter ks) = quarter (sum_list ks)"
  using foldl_js_add_grid [of 0 ks] sum_abs_le [OF assms(1)] assms(2) by (simp add: js_sum_def)

lemma js_sum_gridI:
  assumes "\<And>i. i < n \<Longrightarrow> f i = quarter (g i)" "\<And>i. i < n \<Longrightarrow> \<bar>g i\<bar> \<le> B" "int n * B \<le> 2 ^ 53"
  shows "js_sum (map f [0..<n]) = quarter (sum_list (map g [0..<n]))"
proof -
  have e: "map f [0..<n] = map quarter (map g [0..<n])" using assms(1) by simp
  have "js_sum (map quarter (map g [0..<n])) = quarter (sum_list (map g [0..<n]))"
    by (rule js_sum_grid [where B = B]) (use assms(2,3) in auto)
  then show ?thesis by (simp only: e)
qed

lemma sum_first: "2 * sum_list (map int [0..<n]) = int n * (int n - 1)"
  by (induction n) (auto simp: algebra_simps)

lemma sum_affine: "sum_list (map (\<lambda>i. a + b * int i) [0..<n]) = int n * a + b * sum_list (map int [0..<n])"
  by (induction n) (auto simp: algebra_simps)

lemma zip_upt: "zip (map f [0..<n]) (map g [0..<n]) = map (\<lambda>i. (f i, g i)) [0..<n]"
  by (induction n) auto

subsection \<open>Trend lines\<close>

lemma mean_grid:
  assumes "2 \<le> n" "n \<le> 1000" "\<bar>a\<bar> \<le> 10 ^ 9" "\<bar>b\<bar> \<le> 1000"
  shows "js_div (js_sum (map (\<lambda>i. of_int (a + b * int i)) [0..<n])) (js_int (int n)) =
     quarter (4 * a + 2 * b * (int n - 1))"
proof -
  have i: "\<bar>b * int i\<bar> \<le> 1000 * 1000" if "i < n" for i
    using that assms(2,4) unfolding abs_mult by (intro mult_mono) auto
  have "js_sum (map (\<lambda>i. of_int (a + b * int i)) [0..<n]) = quarter (sum_list (map (\<lambda>i. 4 * (a + b * int i)) [0..<n]))"
  proof (rule js_sum_gridI [where B = "5 * 10 ^ 9"])
    show "\<bar>4 * (a + b * int i)\<bar> \<le> 5 * 10 ^ 9" if "i < n" for i using i [OF that] assms(3) by simp
    show "int n * (5 * 10 ^ 9) \<le> 2 ^ 53" using assms(2) by simp
  qed (simp add: quarter_def)
  also have "sum_list (map (\<lambda>i. 4 * (a + b * int i)) [0..<n]) = int n * (4 * a + 2 * b * (int n - 1))"
  proof -
    have "sum_list (map (\<lambda>i. 4 * (a + b * int i)) [0..<n]) = int n * (4 * a) + 2 * b * (2 * sum_list (map int [0..<n]))"
      using sum_affine [of "4 * a" "4 * b" n] by (simp add: algebra_simps)
    then show ?thesis unfolding sum_first by (simp add: algebra_simps)
  qed
  finally have s: "js_sum (map (\<lambda>i. of_int (a + b * int i)) [0..<n]) / of_int (int n) =
      quarter (4 * a + 2 * b * (int n - 1))"
    using assms(1) by (simp add: quarter_def)
  have "\<bar>b * (int n - 1)\<bar> \<le> 1000 * 1000"
    using assms unfolding abs_mult by (intro mult_mono) auto
  then have "\<bar>4 * a + 2 * b * (int n - 1)\<bar> \<le> 2 ^ 53" using assms(3) by simp
  moreover have "js_int (int n) = of_int (int n)" unfolding js_int_def using assms(2) by (intro fl_int) simp
  ultimately show ?thesis unfolding js_div_def by (simp only: s fl_quarter)
qed

text \<open>The distance of the i-th point from the mean is \<open>c i / 2\<close>.\<close>

lemma centred_bound: "i < n \<Longrightarrow> \<bar>2 * int i - (int n - 1)\<bar> \<le> int n"
  by linarith

lemma scaled_bound:
  assumes "n \<le> 1000" "\<bar>b\<bar> \<le> 1000" "i < n"
  shows "\<bar>b * (2 * int i - (int n - 1))\<bar> \<le> 1000 * 1000"
  using assms centred_bound [of i n] unfolding abs_mult by (intro mult_mono) auto

lemma centred_sub:
  assumes "n \<le> 1000" "\<bar>a\<bar> \<le> 10 ^ 9" "\<bar>b\<bar> \<le> 1000" "i < n"
  shows "js_sub (of_int (a + b * int i)) (quarter (4 * a + 2 * b * (int n - 1))) =
     quarter (2 * (b * (2 * int i - (int n - 1))))"
proof -
  have "\<bar>b * (2 * int i - (int n - 1))\<bar> \<le> 1000 * 1000" using assms by (intro scaled_bound)
  then have "\<bar>2 * (b * (2 * int i - (int n - 1)))\<bar> \<le> 2 ^ 53" by simp
  moreover have "of_int (a + b * int i) - quarter (4 * a + 2 * b * (int n - 1)) =
      quarter (2 * (b * (2 * int i - (int n - 1))))"
    by (simp add: quarter_def field_simps)
  ultimately show ?thesis unfolding js_sub_def by (simp only: fl_quarter)
qed

lemma quarter_mult: "quarter (2 * x) * quarter (2 * y) = quarter (x * y)"
  by (simp add: quarter_def)

lemma product_grid:
  assumes "n \<le> 1000" "\<bar>b\<bar> \<le> 1000" "\<bar>b'\<bar> \<le> 1000" "i < n"
  shows "\<bar>b * (2 * int i - (int n - 1)) * (b' * (2 * int i - (int n - 1)))\<bar> \<le> 10 ^ 12"
    and "js_mul (quarter (2 * (b * (2 * int i - (int n - 1))))) (quarter (2 * (b' * (2 * int i - (int n - 1))))) =
      quarter (b * (2 * int i - (int n - 1)) * (b' * (2 * int i - (int n - 1))))"
proof -
  have "\<bar>b * (2 * int i - (int n - 1))\<bar> \<le> 1000 * 1000" "\<bar>b' * (2 * int i - (int n - 1))\<bar> \<le> 1000 * 1000"
    using assms by (intro scaled_bound; simp)+
  then have "\<bar>b * (2 * int i - (int n - 1))\<bar> * \<bar>b' * (2 * int i - (int n - 1))\<bar> \<le> (1000 * 1000) * (1000 * 1000)"
    by (intro mult_mono) auto
  then show *: "\<bar>b * (2 * int i - (int n - 1)) * (b' * (2 * int i - (int n - 1)))\<bar> \<le> 10 ^ 12"
    unfolding abs_mult [of "b * _"] by simp
  then show "js_mul (quarter (2 * (b * (2 * int i - (int n - 1))))) (quarter (2 * (b' * (2 * int i - (int n - 1))))) =
      quarter (b * (2 * int i - (int n - 1)) * (b' * (2 * int i - (int n - 1))))"
    unfolding js_mul_def quarter_mult by (intro fl_quarter) simp
qed

lemma centred_squares_pos:
  assumes "2 \<le> n"
  shows "0 < sum_list (map (\<lambda>i. (2 * int i - (int n - 1)) * (2 * int i - (int n - 1))) [0..<n])"
proof -
  have "0 < (int n - 1) * (int n - 1)" using assms by simp
  also have "\<dots> = (\<lambda>i. (2 * int i - (int n - 1)) * (2 * int i - (int n - 1))) 0" by (simp add: algebra_simps)
  also have "\<dots> \<le> sum_list (map (\<lambda>i. (2 * int i - (int n - 1)) * (2 * int i - (int n - 1))) [0..<n])"
    by (rule member_le_sum_list) (use assms in \<open>auto intro!: image_eqI [where x = 0]\<close>)
  finally show ?thesis .
qed

lemma sum_products:
  "sum_list (map (\<lambda>i. b * c i * (b' * c i)) xs) = b * b' * sum_list (map (\<lambda>i. c i * c i) xs)"
  for b b' :: int
  by (induction xs) (auto simp: algebra_simps)

text \<open>The trend line of occupancy values that lie on a line is that line: for up to 1000 days,
  an intercept of up to 10^9 and a slope of up to 1000, binary rounding included, the slope and the
  intercept are exact, and the coefficient of determination is 1, or 0 for a constant series.\<close>

theorem trend_exact:
  assumes "2 \<le> n" "n \<le> 1000" "\<bar>a\<bar> \<le> 10 ^ 9" "\<bar>b\<bar> \<le> 1000"
  shows "compute_trend_line (map (\<lambda>i. of_int (a + b * int i)) [0..<n]) =
     \<lparr>tl_slope = of_int b, tl_intercept = of_int a, tl_r2 = (if b = 0 then 0 else 1)\<rparr>"
proof -
  define c where "c i = 2 * int i - (int n - 1)" for i
  define S where "S = sum_list (map (\<lambda>i. c i * c i) [0..<n])"
  let ?x = "\<lambda>i. js_int (int i)" and ?y = "\<lambda>i. of_int (a + b * int i) :: num"
  define xMean where "xMean = quarter (2 * (int n - 1))"
  define yMean where "yMean = quarter (4 * a + 2 * b * (int n - 1))"
  have S: "0 < S" using centred_squares_pos [OF assms(1)] by (simp add: S_def c_def)
  have xi: "?x i = of_int (0 + 1 * int i)" if "i < n" for i
    unfolding js_int_def using that assms(2) fl_int [of "int i"] by simp
  have xs: "map ?x [0..<n] = map (\<lambda>i. of_int (0 + 1 * int i)) [0..<n]" using xi by simp
  have xm: "js_div (js_sum (map ?x [0..<n])) (js_int (int n)) = xMean"
    unfolding xs using mean_grid [OF assms(1,2), of 0 1] by (simp add: xMean_def)
  have ym: "js_div (js_sum (map ?y [0..<n])) (js_int (int n)) = yMean"
    using mean_grid [OF assms] by (simp only: yMean_def)
  have dx: "js_sub (?x i) xMean = quarter (2 * (1 * c i))" if "i < n" for i
    using centred_sub [of n 0 1 i] that assms(2) xi [OF that] by (simp add: xMean_def c_def)
  have dy: "js_sub (?y i) yMean = quarter (2 * (b * c i))" if "i < n" for i
    using centred_sub [OF assms(2-4) that] by (simp only: yMean_def c_def)
  have sum: "js_sum (map (\<lambda>i. js_mul (f i) (g i)) [0..<n]) = quarter (p * q * S)"
    if "\<And>i. i < n \<Longrightarrow> f i = quarter (2 * (p * c i))" "\<And>i. i < n \<Longrightarrow> g i = quarter (2 * (q * c i))"
      and pq: "\<bar>p\<bar> \<le> 1000" "\<bar>q\<bar> \<le> 1000" for f g p q
  proof -
    have "js_sum (map (\<lambda>i. js_mul (f i) (g i)) [0..<n]) =
        quarter (sum_list (map (\<lambda>i. p * c i * (q * c i)) [0..<n]))"
      by (rule js_sum_gridI [where B = "10 ^ 12"])
        (use product_grid [OF assms(2) pq] assms(2) that(1,2) in \<open>auto simp: c_def\<close>)
    then show ?thesis by (simp only: sum_products S_def)
  qed
  have num: "js_sum (map (\<lambda>i. js_mul (js_sub (?x i) xMean) (js_sub (?y i) yMean)) [0..<n]) = quarter (1 * b * S)"
    by (rule sum) (use dx dy assms(4) in auto)
  have den: "js_sum (map (\<lambda>i. js_square (js_sub (?x i) xMean)) [0..<n]) = quarter (1 * 1 * S)"
    unfolding js_square_def by (rule sum) (use dx in auto)
  have tot: "js_sum (map (\<lambda>i. js_square (js_sub (?y i) yMean)) [0..<n]) = quarter (b * b * S)"
    unfolding js_square_def by (rule sum) (use dy assms(4) in auto)
  have q: "quarter k = 0 \<longleftrightarrow> k = 0" for k by (simp add: quarter_def)
  have slope: "js_div (quarter (1 * b * S)) (quarter (1 * 1 * S)) = of_int b"
    unfolding js_div_def using S assms(4) fl_int [of b] by (simp add: quarter_def)
  have inter: "js_sub yMean (js_mul (of_int b) xMean) = of_int a"
  proof -
    have bn: "\<bar>b * (int n - 1)\<bar> \<le> 1000 * 1000"
      using assms unfolding abs_mult by (intro mult_mono) auto
    have "of_int b * xMean = quarter (2 * (b * (int n - 1)))" by (simp add: xMean_def quarter_def)
    then have "js_mul (of_int b) xMean = quarter (2 * (b * (int n - 1)))"
      unfolding js_mul_def using bn by (simp add: fl_quarter)
    moreover have "yMean - quarter (2 * (b * (int n - 1))) = of_int a"
      by (simp add: yMean_def quarter_def field_simps)
    ultimately show ?thesis unfolding js_sub_def using assms(3) fl_int [of a] by simp
  qed
  have line: "js_add (js_mul (of_int b) (?x i)) (of_int a) = ?y i" if "i < n" for i
  proof -
    have bi: "\<bar>b * int i\<bar> \<le> 1000 * 1000"
      using assms that unfolding abs_mult by (intro mult_mono) auto
    then have "js_mul (of_int b) (?x i) = of_int (b * int i)"
      unfolding js_mul_def xi [OF that] using fl_int [of "b * int i"] by simp
    then show ?thesis unfolding js_add_def using bi assms(3) fl_int [of "b * int i + a"] by (simp add: add.commute)
  qed
  have res: "js_sum (map (\<lambda>i. js_square (js_sub (?y i) (js_add (js_mul (of_int b) (?x i)) (of_int a)))) [0..<n]) = 0"
  proof -
    have "js_sum (map (\<lambda>i. js_square (js_sub (?y i) (js_add (js_mul (of_int b) (?x i)) (of_int a)))) [0..<n]) =
        quarter (sum_list (map (\<lambda>i. 0) [0..<n]))"
    proof (rule js_sum_gridI [where B = 0])
      show "js_square (js_sub (?y i) (js_add (js_mul (of_int b) (?x i)) (of_int a))) = quarter 0" if "i < n" for i
        unfolding line [OF that] by (simp add: js_square_def js_sub_def js_mul_def)
    qed auto
    then show ?thesis by simp
  qed
  have len: "length (map ?y [0..<n]) = n" by simp
  have neq: "quarter (1 * 1 * S) \<noteq> 0" using S by (simp add: quarter_def)
  have "compute_trend_line (map ?y [0..<n]) = \<lparr>tl_slope = of_int b, tl_intercept = of_int a,
      tl_r2 = (if quarter (b * b * S) \<noteq> 0 then js_sub 1 (js_div 0 (quarter (b * b * S))) else 0)\<rparr>"
    unfolding compute_trend_line_def Let_def len map_map zip_upt comp_def prod.case
      xm ym num den if_P [OF neq] slope inter res tot
    using assms(1) by simp
  then show ?thesis using S fl_int [of 1] by (simp add: quarter_def js_div_def js_sub_def)
qed

lemma trend_exact_witness:
  "compute_trend_line [10, 20, 30] = \<lparr>tl_slope = 10, tl_intercept = 10, tl_r2 = 1\<rparr>"
  using trend_exact [of 3 10 10] by (simp add: upt_rec)

subsection \<open>The nightly snapshots\<close>

definition snapshot_at :: "util_snapshot list \<Rightarrow> int \<times> uuid \<Rightarrow> util_snapshot option" where
  "snapshot_at tbl k = find_row (\<lambda>x. snapshot_key x = k) tbl"

text \<open>A row keeps the id under which its day and workspace are stored already.\<close>

definition with_stored_id :: "util_snapshot list \<Rightarrow> util_snapshot \<Rightarrow> util_snapshot" where
  "with_stored_id tbl r = (case snapshot_at tbl (snapshot_key r) of None \<Rightarrow> r | Some old \<Rightarrow> r\<lparr>us_id := us_id old\<rparr>)"

lemma snapshot_key_stored [simp]: "snapshot_key (with_stored_id tbl r) = snapshot_key r"
  by (simp add: with_stored_id_def snapshot_key_def split: option.split)

lemma upsert_snapshot_save: "upsert_snapshot r tbl = save_row snapshot_key (with_stored_id tbl r) tbl"
proof (cases "snapshot_at tbl (snapshot_key r)")
  case None
  then have "snapshot_key r \<notin> snapshot_key ` set tbl"
    unfolding snapshot_at_def find_row_None_iff by (metis imageE)
  with None show ?thesis
    by (simp add: upsert_snapshot_def with_stored_id_def save_row_new snapshot_at_def)
qed (simp add: upsert_snapshot_def with_stored_id_def snapshot_at_def)

lemma snapshot_at_upsert:
  "snapshot_at (upsert_snapshot r tbl) k = (if k = snapshot_key r then Some (with_stored_id tbl r) else snapshot_at tbl k)"
  using find_row_save_row_same [of snapshot_key "with_stored_id tbl r" tbl]
    find_row_save_row_other [of k snapshot_key "with_stored_id tbl r" tbl]
  by (simp add: upsert_snapshot_save snapshot_at_def)

lemma upsert_keys_distinct:
  "distinct (map snapshot_key tbl) \<Longrightarrow> distinct (map snapshot_key (upsert_snapshot r tbl))"
  unfolding upsert_snapshot_save by (rule save_row_keys_distinct)

lemma snapshot_at_upserts:
  assumes "distinct (map snapshot_key rs)"
  shows "snapshot_at (fold upsert_snapshot rs tbl) k =
     (case find_row (\<lambda>r. snapshot_key r = k) rs of
        Some r \<Rightarrow> Some (with_stored_id tbl r) | None \<Rightarrow> snapshot_at tbl k)"
  using assms
proof (induction rs arbitrary: tbl)
  case (Cons r rs)
  have same: "with_stored_id (upsert_snapshot r tbl) x = with_stored_id tbl x" if "x \<in> set rs" for x
  proof -
    have "snapshot_key x \<noteq> snapshot_key r" using Cons.prems that by (metis distinct.simps(2) image_eqI list.map(2) set_map)
    then show ?thesis by (simp add: with_stored_id_def snapshot_at_upsert)
  qed
  show ?case
  proof (cases "find_row (\<lambda>x. snapshot_key x = k) rs")
    case None
    with Cons show ?thesis by (simp add: snapshot_at_upsert split: if_splits)
  next
    case (Some x)
    then have x: "x \<in> set rs" "snapshot_key x = k" by (auto dest: find_row_SomeD)
    then have "snapshot_key r \<noteq> k" using Cons.prems by (metis distinct.simps(2) image_eqI list.map(2) set_map)
    moreover have "snapshot_at (fold upsert_snapshot rs (upsert_snapshot r tbl)) k = Some (with_stored_id tbl x)"
      using Cons.IH [of "upsert_snapshot r tbl"] Cons.prems Some same [OF x(1)] by simp
    ultimately show ?thesis using Some by simp
  qed
qed (simp add: snapshot_at_def)

lemma upserts_keys_distinct:
  "distinct (map snapshot_key tbl) \<Longrightarrow> distinct (map snapshot_key (fold upsert_snapshot rs tbl))"
  by (induction rs arbitrary: tbl) (simp_all add: upsert_keys_distinct)

text \<open>An upsert of a row that is stored already changes nothing.\<close>

lemma upsert_stored:
  assumes d: "distinct (map snapshot_key tbl)" and r: "snapshot_at tbl (snapshot_key r) = Some (with_stored_id tbl r)"
  shows "upsert_snapshot r tbl = tbl"
proof -
  let ?r = "with_stored_id tbl r"
  have m: "?r \<in> set tbl" using r by (auto simp: snapshot_at_def dest: find_row_SomeD)
  have "x = ?r" if "x \<in> set tbl" "snapshot_key x = snapshot_key ?r" for x
    using d m that by (auto simp: distinct_map inj_on_def)
  then have "map (\<lambda>x. if snapshot_key x = snapshot_key ?r then ?r else x) tbl = tbl"
    by (intro map_idI) auto
  moreover have "snapshot_key ?r \<in> snapshot_key ` set tbl" using m by (rule imageI)
  ultimately show ?thesis unfolding upsert_snapshot_save save_row_def by simp
qed

lemma upserts_stored:
  assumes "distinct (map snapshot_key tbl)"
    and "\<forall>r \<in> set rs. snapshot_at tbl (snapshot_key r) = Some (with_stored_id tbl r)"
  shows "fold upsert_snapshot rs tbl = tbl"
  using assms(2) by (induction rs) (simp_all add: upsert_stored [OF assms(1)])

lemma aggregate_fold:
  "aggregate_daily_utilization newId now d tbl =
     fold upsert_snapshot (map (snapshot_of newId d (day_of now - 1)) (live_workspaces d)) tbl"
  by (simp add: aggregate_daily_utilization_def fold_map comp_def)

lemma snapshot_of_key [simp]: "snapshot_key (snapshot_of newId d day w) = (day, w_id w)"
  by (simp add: snapshot_of_def snapshot_key_def Let_def)

lemma snapshots_distinct:
  assumes "distinct (map w_id (live_workspaces d))"
  shows "distinct (map snapshot_key (map (snapshot_of newId d day) (live_workspaces d)))"
  using assms by (auto simp: distinct_map inj_on_def)

lemma nightly_snapshot_at:
  assumes ids: "distinct (map w_id (live_workspaces d))"
  shows "snapshot_at (aggregate_daily_utilization newId now d tbl) (day, i) =
      (if day = day_of now - 1 \<and> i \<in> w_id ` set (live_workspaces d)
       then Some (with_stored_id tbl (snapshot_of newId d day (the (find_row (\<lambda>w. w_id w = i) (live_workspaces d)))))
       else snapshot_at tbl (day, i))"
proof -
  let ?snap = "snapshot_of newId d (day_of now - 1)"
  have find: "find_row (\<lambda>r. snapshot_key r = (day, i)) (map ?snap ws) =
      (if day = day_of now - 1 then map_option ?snap (find_row (\<lambda>w. w_id w = i) ws) else None)" for ws
    by (induction ws) auto
  have some: "find_row (\<lambda>w. w_id w = i) ws = (if i \<in> w_id ` set ws then Some (the (find_row (\<lambda>w. w_id w = i) ws)) else None)" for ws
    by (induction ws) auto
  show ?thesis
    unfolding aggregate_fold snapshot_at_upserts [OF snapshots_distinct [OF ids]] find
    by (subst some [of "live_workspaces d"]) auto
qed

lemma nightly_idempotent:
  assumes keys: "distinct (map snapshot_key tbl)" and ids: "distinct (map w_id (live_workspaces d))"
    and again: "day_of again = day_of now"
  shows "aggregate_daily_utilization newId again d (aggregate_daily_utilization newId now d tbl) =
      aggregate_daily_utilization newId now d tbl"
proof -
  let ?rs = "map (snapshot_of newId d (day_of now - 1)) (live_workspaces d)"
  let ?t = "fold upsert_snapshot ?rs tbl"
  have "snapshot_at ?t (snapshot_key r) = Some (with_stored_id ?t r)" if "r \<in> set ?rs" for r
  proof -
    have "find_row (\<lambda>x. snapshot_key x = snapshot_key r) ?rs = Some r"
      using snapshots_distinct [OF ids] that by (rule find_row_unique)
    then have "snapshot_at ?t (snapshot_key r) = Some (with_stored_id tbl r)"
      by (simp only: snapshot_at_upserts [OF snapshots_distinct [OF ids]] option.case)
    then show ?thesis by (simp add: with_stored_id_def split: option.split)
  qed
  then show ?thesis
    unfolding aggregate_fold again by (intro upserts_stored upserts_keys_distinct keys) auto
qed

text \<open>C40: The nightly job stores for every workspace that is not deleted one snapshot of the day before,
  under the id it had if there was one, and leaves every other day and workspace alone; run again
  on the same day, it changes nothing.\<close>

theorem nightly_snapshots_exact:
  assumes "distinct (map snapshot_key tbl)" "distinct (map w_id (live_workspaces d))"
  shows "snapshot_at (aggregate_daily_utilization newId now d tbl) (day, i) =
      (if day = day_of now - 1 \<and> i \<in> w_id ` set (live_workspaces d)
       then Some (with_stored_id tbl (snapshot_of newId d day (the (find_row (\<lambda>w. w_id w = i) (live_workspaces d)))))
       else snapshot_at tbl (day, i)) \<and>
    (day_of again = day_of now \<longrightarrow>
     aggregate_daily_utilization newId again d (aggregate_daily_utilization newId now d tbl) =
      aggregate_daily_utilization newId now d tbl)"
  using nightly_snapshot_at [OF assms(2)] nightly_idempotent [OF assms] by simp

lemma nightly_snapshots_exact_witness:
  "aggregate_daily_utilization id 90000000 (sample_db [])
     (aggregate_daily_utilization id 86400000 (sample_db []) []) =
   aggregate_daily_utilization id 86400000 (sample_db []) [] \<and>
   snapshot_at (aggregate_daily_utilization id 86400000 (sample_db []) []) (0, ''zz'') = None"
proof -
  have "distinct (map w_id (live_workspaces (sample_db [])))"
    by (simp add: live_workspaces_def sample_db_def)
  from nightly_snapshots_exact [OF _ this, of "[]"] show ?thesis
    by (simp add: day_of_def ms_units live_workspaces_def sample_db_def snapshot_at_def sample_workspace_def)
qed

text \<open>The booked hours of two consecutive days count a booking that starts at the midnight between
  them twice: both windows are closed at both ends.\<close>

theorem midnight_counted_twice:
  "booked_hours d day i + booked_hours d (day + 1) i =
     length (filter (\<lambda>b. day * ms_per_day \<le> bk_startTime b \<and> bk_startTime b \<le> (day + 2) * ms_per_day) (confirmed_of d i)) +
     length (filter (\<lambda>b. bk_startTime b = (day + 1) * ms_per_day) (confirmed_of d i))"
proof -
  have "length (filter (\<lambda>b. day * ms_per_day \<le> bk_startTime b \<and> bk_startTime b \<le> day * ms_per_day + 86400000) bs) +
      length (filter (\<lambda>b. (day + 1) * ms_per_day \<le> bk_startTime b \<and> bk_startTime b \<le> (day + 1) * ms_per_day + 86400000) bs) =
      length (filter (\<lambda>b. day * ms_per_day \<le> bk_startTime b \<and> bk_startTime b \<le> (day + 2) * ms_per_day) bs) +
      length (filter (\<lambda>b. bk_startTime b = (day + 1) * ms_per_day) bs)" for bs
    by (induction bs) (auto simp: ms_units)
  then show ?thesis unfolding booked_hours_def by simp
qed

subsection \<open>The cache\<close>

text \<open>A sequence of requests: each at an instant, for a key; \<open>compute\<close> gives the answer of the service
  for a key at an instant.\<close>

fun cached_run ::
  "(string \<Rightarrow> instant \<Rightarrow> 'a result) \<Rightarrow> (instant \<times> string) list \<Rightarrow> 'a analytics_cache \<Rightarrow> 'a result list" where
  "cached_run compute [] c = []"
| "cached_run compute ((now, key) # calls) c =
     (case cached now key (compute key now) c of (r, c') \<Rightarrow> r # cached_run compute calls c')"

definition cache_genuine :: "(string \<Rightarrow> instant \<Rightarrow> 'a result) \<Rightarrow> instant \<Rightarrow> 'a analytics_cache \<Rightarrow> bool" where
  "cache_genuine compute now c \<longleftrightarrow>
     (\<forall>k v u. c k = Some (v, u) \<longrightarrow> u - TTL_MS \<le> now \<and> compute k (u - TTL_MS) = Inr v)"

definition recent_answer :: "(string \<Rightarrow> instant \<Rightarrow> 'a result) \<Rightarrow> instant \<times> string \<Rightarrow> 'a result \<Rightarrow> bool" where
  "recent_answer compute call r \<longleftrightarrow> (\<exists>t. t \<le> fst call \<and> fst call - t < TTL_MS \<and> r = compute (snd call) t)"

lemma cached_genuine:
  assumes "cache_genuine compute now0 c" "now0 \<le> now" "cached now key (compute key now) c = (r, c')"
  shows "cache_genuine compute now c'" "recent_answer compute (now, key) r"
proof -
  have fresh: "cache_genuine compute now c' \<and> recent_answer compute (now, key) r"
    if "(case compute key now of Inl e \<Rightarrow> (Inl e, c) | Inr v \<Rightarrow> (Inr v, c(key \<mapsto> (v, now + TTL_MS)))) = (r, c')"
  proof (cases "compute key now")
    case (Inl e)
    then have "r = Inl e" "c' = c" using that by auto
    with assms(1,2) Inl show ?thesis
      unfolding cache_genuine_def recent_answer_def TTL_MS_def
      by (intro conjI exI [of _ now]) (simp_all, force)
  next
    case (Inr v)
    then have "r = Inr v" "c' = c(key \<mapsto> (v, now + TTL_MS))" using that by auto
    with assms(1,2) Inr show ?thesis
      unfolding cache_genuine_def recent_answer_def TTL_MS_def
      by (intro conjI exI [of _ now]) (simp_all, force)
  qed
  have "cache_genuine compute now c' \<and> recent_answer compute (now, key) r"
  proof (cases "c key")
    case None
    then show ?thesis using assms(3) fresh by (simp add: cached_def)
  next
    case (Some p)
    obtain v u where p: "p = (v, u)" by force
    show ?thesis
    proof (cases "u > now")
      case True
      then have "r = Inr v" "c' = c" using assms(3) Some p by (auto simp: cached_def)
      moreover have "u - TTL_MS \<le> now0" "compute key (u - TTL_MS) = Inr v"
        using assms(1) Some p by (auto simp: cache_genuine_def)
      ultimately show ?thesis
        using assms(1,2) True unfolding cache_genuine_def recent_answer_def
        by (auto intro!: exI [of _ "u - TTL_MS"]) (meson order_trans)
    qed (use assms(3) Some p fresh in \<open>simp add: cached_def\<close>)
  qed
  then show "cache_genuine compute now c'" "recent_answer compute (now, key) r" by auto
qed

lemma cached_run_recent:
  "cache_genuine compute now c \<Longrightarrow> sorted (now # map fst calls) \<Longrightarrow>
   list_all2 (recent_answer compute) calls (cached_run compute calls c)"
proof (induction compute calls c arbitrary: now rule: cached_run.induct)
  case (2 compute now' key calls c)
  obtain r c' where e: "cached now' key (compute key now') c = (r, c')" by force
  have "now \<le> now'" using 2(3) by simp
  from cached_genuine [OF 2(2) this e] 2(1) [OF e [symmetric]] 2(3) show ?case by (simp add: e)
qed simp

text \<open>However requests and the data interleave, the controller never gives an answer older than
  fifteen minutes: every answer is what the service gave for the same key at an instant within the
  last quarter of an hour.\<close>

theorem analytics_answers_recent:
  assumes "sorted (map fst calls)"
  shows "list_all2 (recent_answer compute) calls (cached_run compute calls Map.empty)"
proof (cases calls)
  case (Cons call cs)
  then show ?thesis
    using cached_run_recent [of compute "fst call" Map.empty calls] assms
    by (auto simp: cache_genuine_def)
qed simp

lemma analytics_answers_recent_witness:
  "cached_run (\<lambda>k t. Inr t) [(0, ''a''), (899999, ''a''), (900000, ''a'')] Map.empty = [Inr 0, Inr 0, Inr (900000::int)] \<and>
   list_all2 (recent_answer (\<lambda>k t. Inr t)) [(0, ''a''), (899999, ''a''), (900000, ''a'')] [Inr 0, Inr 0, Inr (900000::int)]"
proof -
  have e: "cached_run (\<lambda>k t. Inr t) [(0, ''a''), (899999, ''a''), (900000, ''a'')] Map.empty = [Inr 0, Inr 0, Inr (900000::int)]"
    by (simp add: cached_def TTL_MS_def)
  show ?thesis using analytics_answers_recent [of "[(0, ''a''), (899999, ''a''), (900000, ''a'')]" "\<lambda>k t. Inr t"] e
    by simp
qed

lemma utilization_key_collision: "utilization_key (Some ''all'') startDate endDate = utilization_key None startDate endDate"
  by (simp add: utilization_key_def or_text_def)

subsection \<open>Attendance patterns\<close>

definition hour_count :: "attendance list \<Rightarrow> int \<Rightarrow> nat" where
  "hour_count rows h = length (filter (\<lambda>t. get_utc_hours t = h) (clock_in_times rows))"

lemma count_entries_alt: "count_entries ks = map (\<lambda>k. (k, length (filter (\<lambda>r. r = k) ks))) (sort (remdups ks))"
  by (simp add: count_entries_def group_rows_def)

lemma comparator_by_count: "comparator by_count"
  by (auto simp: comparator_def by_count_def)

text \<open>The peak hours are the busiest ones: at most five different hours, in falling order, each with
  the number of clock-ins in it, and no hour left out had more than one that is listed.\<close>

theorem peak_hours_exact:
  "length (pat_peakHours (get_attendance_patterns rows)) = min 5 (card (get_utc_hours ` set (clock_in_times rows))) \<and>
   distinct (map fst (pat_peakHours (get_attendance_patterns rows))) \<and>
   sorted_wrt (\<lambda>p q. snd q \<le> snd p) (pat_peakHours (get_attendance_patterns rows)) \<and>
   list_all (\<lambda>(h, c). c = hour_count rows h) (pat_peakHours (get_attendance_patterns rows)) \<and>
   list_all (\<lambda>(h, c). other \<in> fst ` set (pat_peakHours (get_attendance_patterns rows)) \<or> hour_count rows other \<le> c)
     (pat_peakHours (get_attendance_patterns rows))"
proof -
  define hs where "hs = map get_utc_hours (clock_in_times rows)"
  define S where "S = sort_by by_count (count_entries hs)"
  have ps: "pat_peakHours (get_attendance_patterns rows) = take 5 S"
    by (simp add: get_attendance_patterns_def S_def hs_def)
  have cnt: "length (filter (\<lambda>r. r = k) hs) = hour_count rows k" for k
    by (simp add: hs_def hour_count_def filter_map comp_def)
  have mem: "set S = (\<lambda>k. (k, hour_count rows k)) ` set hs"
    by (simp add: S_def count_entries_alt cnt)
  have dS: "distinct S" by (simp add: S_def count_entries_alt distinct_map inj_on_def)
  have len: "length S = card (set hs)"
    by (simp add: S_def count_entries_alt length_remdups_card_conv)
  have "inj_on fst (set S)" unfolding mem by (auto simp: inj_on_def)
  with dS have "distinct (map fst S)" by (simp add: distinct_map)
  then have 1: "distinct (map fst (take 5 S))" by (simp add: take_map [symmetric])
  have sS: "sorted_wrt (\<lambda>p q. snd q \<le> snd p) S"
    using sorted_sort_by [OF comparator_by_count, of "count_entries hs"]
    by (simp add: S_def by_count_def)
  then have split: "sorted_wrt (\<lambda>p q. snd q \<le> snd p) (take 5 S @ drop 5 S)" by simp
  have "other \<in> fst ` set (take 5 S) \<or> hour_count rows other \<le> c" if "(h, c) \<in> set (take 5 S)" for h c
  proof (cases "other \<in> set hs")
    case True
    then have "(other, hour_count rows other) \<in> set (take 5 S @ drop 5 S)" by (simp add: mem)
    then show ?thesis
    proof (cases "(other, hour_count rows other) \<in> set (take 5 S)")
      case False
      with \<open>(other, _) \<in> set (take 5 S @ drop 5 S)\<close> have "(other, hour_count rows other) \<in> set (drop 5 S)"
        by (metis Un_iff set_append)
      moreover have "\<forall>x \<in> set (take 5 S). \<forall>y \<in> set (drop 5 S). snd y \<le> snd x"
        using split unfolding sorted_wrt_append by blast
      ultimately show ?thesis using that by fastforce
    qed force
  next
    case False
    then have "hour_count rows other = 0" by (auto simp: hour_count_def hs_def filter_empty_conv)
    then show ?thesis by simp
  qed
  moreover have "c = hour_count rows h" if "(h, c) \<in> set (take 5 S)" for h c
    using that in_set_takeD [of "(h, c)" 5 S] by (auto simp: mem)
  ultimately show ?thesis
    unfolding ps using 1 split len by (auto simp: sorted_wrt_append list_all_iff hs_def)
qed

subsection \<open>Date columns\<close>

lemma not_ok_error: "\<not> is_ok r \<Longrightarrow> \<exists>e. r = Inl e"
  by (cases r) auto

lemma group_days_text:
  assumes "\<And>n. \<exists>t. hydrate n = LoadedText t"
  shows "is_ok (group_days hydrate ss days) \<longleftrightarrow> ss = []"
proof (cases ss)
  case (Cons s r)
  obtain t where "hydrate (us_date s) = LoadedText t" using assms by blast
  with Cons show ?thesis by simp
qed simp

text \<open>Where the ORM loads date columns as texts, the utilization endpoint fails from the first night
  on: once the nightly job has run with a workspace in the table, a request without filters is
  answered with an error.\<close>

theorem utilization_fails_after_first_night:
  assumes "\<And>n. \<exists>t. hydrate n = LoadedText t" "live_workspaces d \<noteq> []"
    "distinct (map snapshot_key tbl)" "distinct (map w_id (live_workspaces d))"
  shows "\<not> is_ok (get_utilization_analytics hydrate now None None None (aggregate_daily_utilization newId now d tbl))"
proof -
  let ?tbl = "aggregate_daily_utilization newId now d tbl"
  obtain w where w: "w \<in> set (live_workspaces d)" using assms(2) by (cases "live_workspaces d") auto
  then have "snapshot_at ?tbl (day_of now - 1, w_id w) \<noteq> None"
    using nightly_snapshot_at [OF assms(4), of newId now tbl "day_of now - 1" "w_id w"] by simp
  then obtain s where s: "s \<in> set ?tbl" "us_date s = day_of now - 1"
    unfolding snapshot_at_def by (auto simp: snapshot_key_def dest: find_row_SomeD)
  have "s \<in> set (snapshots_between None (now - 90 * 24 * 60 * 60 * 1000) now ?tbl)"
    using s by (auto simp: snapshots_between_def day_of_def ms_units)
  then have "snapshots_between None (now - 90 * 24 * 60 * 60 * 1000) now ?tbl \<noteq> []" by auto
  then have f: "\<not> is_ok (group_days hydrate (snapshots_between None (now - 90 * 24 * 60 * 60 * 1000) now ?tbl) [])"
    by (simp only: group_days_text [OF assms(1)] not_False_eq_True)
  from not_ok_error [OF this] obtain e where g: "group_days hydrate (snapshots_between None (now - 90 * 24 * 60 * 60 * 1000) now ?tbl) [] = Inl e"
    by (rule exE)
  have "get_utilization_analytics hydrate now None None None ?tbl = Inl e"
    unfolding get_utilization_analytics_def Let_def option.case g sum.case by (rule refl)
  then show ?thesis by simp
qed

lemma utilization_fails_after_first_night_witness:
  "\<not> is_ok (get_utilization_analytics (\<lambda>n. LoadedText (day_label n)) 86400000 None None None
     (aggregate_daily_utilization id 86400000 (sample_db []) []))"
  by (rule utilization_fails_after_first_night)
    (simp_all add: live_workspaces_def sample_db_def sample_workspace_def)

end
