(* ===== verification/Api_Routes.thy ===== *)
theory Api_Routes
  imports Guards Js_Strings
begin

text \<open>
  The routes of the API, one list per controller in the order of its methods
  (backend/src/**/*.controller.ts): method, path below the version prefix, and the metadata the
  decorators leave, on the handler and on the class. A request is routed to the first entry that
  matches; the guards read the metadata of that entry.
\<close>

subsection \<open>Endpoints\<close>

datatype verb = GET | POST | PATCH | DELETE

fun verb_name :: "verb \<Rightarrow> string" where
  "verb_name GET = ''GET''"
| "verb_name POST = ''POST''"
| "verb_name PATCH = ''PATCH''"
| "verb_name DELETE = ''DELETE''"

text \<open>A path is a list of segments, fixed ones and parameters (\<open>:id\<close>).\<close>

datatype segment = Seg string | Par string

record endpoint =
  ep_method :: verb
  ep_path :: "segment list"
  ep_handler :: string
  ep_public :: bool \<comment> \<open>\<open>@Public\<close>\<close>
  ep_classRoles :: "string list option" \<comment> \<open>\<open>@Roles\<close> on the class\<close>
  ep_roles :: "string list option" \<comment> \<open>\<open>@Roles\<close> on the handler\<close>

definition endpoint_at :: "verb \<Rightarrow> segment list \<Rightarrow> segment list \<Rightarrow> string \<Rightarrow> endpoint" where
  "endpoint_at verb base path handler =
     \<lparr>ep_method = verb, ep_path = base @ path, ep_handler = handler, ep_public = False,
      ep_classRoles = None, ep_roles = None\<rparr>"

definition opened :: "endpoint \<Rightarrow> endpoint" where "opened e = e\<lparr>ep_public := True\<rparr>"
definition for_admin :: "endpoint \<Rightarrow> endpoint" where "for_admin e = e\<lparr>ep_roles := Some [role_name ADMIN]\<rparr>"
definition of_class :: "string list \<Rightarrow> endpoint \<Rightarrow> endpoint" where "of_class rs e = e\<lparr>ep_classRoles := Some rs\<rparr>"

subsection \<open>The controllers\<close>

definition auth_routes :: "endpoint list" where
  "auth_routes = (let ep = (\<lambda>verb. endpoint_at verb [Seg ''auth'']) in
    [opened (ep POST [Seg ''register''] ''register''), opened (ep POST [Seg ''login''] ''login''),
     opened (ep POST [Seg ''verify-otp''] ''verifyOtp''), opened (ep POST [Seg ''resend-otp''] ''resendOtp''),
     opened (ep POST [Seg ''refresh''] ''refresh''), ep GET [Seg ''csrf-token''] ''getCsrfToken'',
     ep POST [Seg ''logout''] ''logout'', ep POST [Seg ''logout-all''] ''logoutAll'',
     ep GET [Seg ''session-events''] ''sessionEvents'',
     opened (ep POST [Seg ''forgot-password''] ''forgotPassword''),
     opened (ep POST [Seg ''reset-password''] ''resetPassword''),
     opened (ep POST [Seg ''oauth'', Seg ''token''] ''oauthToken''),
     for_admin (ep POST [Seg ''oauth'', Seg ''clients''] ''createOAuthClient''),
     for_admin (ep GET [Seg ''oauth'', Seg ''clients''] ''listOAuthClients'')])"

definition biometric_routes :: "endpoint list" where
  "biometric_routes = (let ep = (\<lambda>path handler. opened (endpoint_at POST [Seg ''auth'', Seg ''biometric''] path handler)) in
    [ep [Seg ''register-options''] ''generateRegistrationOptions'', ep [Seg ''register-verify''] ''verifyRegistration'',
     ep [Seg ''login-options''] ''generateAuthenticationOptions'', ep [Seg ''login-verify''] ''verifyAuthentication''])"

definition totp_routes :: "endpoint list" where
  "totp_routes = (let ep = (\<lambda>verb. endpoint_at verb [Seg ''auth'', Seg ''totp'']) in
    [ep POST [Seg ''setup''] ''setupTotp'', ep POST [Seg ''enable''] ''enableTotp'', ep POST [Seg ''verify''] ''verifyTotp'',
     ep POST [Seg ''disable''] ''disableTotp'', ep GET [Seg ''status''] ''getTotpStatus''])"

definition users_routes :: "endpoint list" where
  "users_routes = (let ep = (\<lambda>verb. endpoint_at verb [Seg ''users'']) in
    [for_admin (ep GET [Seg ''search''] ''search''), ep POST [Seg ''change-password''] ''changePassword'',
     ep GET [Par ''id''] ''findOne'', ep PATCH [Par ''id''] ''update'',
     for_admin (ep PATCH [Par ''id'', Seg ''role''] ''updateRole''), for_admin (ep DELETE [Par ''id''] ''delete''),
     ep PATCH [Par ''id'', Seg ''activate''] ''activate'', ep PATCH [Par ''id'', Seg ''deactivate''] ''deactivate'',
     ep POST [Par ''id'', Seg ''profile-picture''] ''uploadProfilePicture''])"

definition contact_routes :: "endpoint list" where
  "contact_routes = (let ep = (\<lambda>verb. endpoint_at verb [Seg ''contact'']) in
    [ep POST [] ''submitContact'', for_admin (ep GET [Seg ''messages''] ''getMessages''),
     for_admin (ep GET [Seg ''admin'', Seg ''spam-keywords''] ''getSpamKeywords''),
     for_admin (ep POST [Seg ''admin'', Seg ''spam-keywords''] ''addSpamKeyword''),
     for_admin (ep DELETE [Seg ''admin'', Seg ''spam-keywords'', Par ''id''] ''removeSpamKeyword'')])"

definition attendance_routes :: "endpoint list" where
  "attendance_routes = (let ep = (\<lambda>verb. endpoint_at verb [Seg ''attendance'']) in
    [ep POST [Seg ''clock-in''] ''clockIn'', ep POST [Seg ''clock-out''] ''clockOut'', ep GET [Seg ''my''] ''getMyAttendance'',
     for_admin (ep GET [Seg ''user'', Par ''userId''] ''getUserAttendance''), for_admin (ep GET [Seg ''summary''] ''getSummary''),
     for_admin (ep GET [Seg ''all''] ''getAllAttendance'')])"

definition bookings_routes :: "endpoint list" where
  "bookings_routes = (let ep = (\<lambda>verb. endpoint_at verb [Seg ''bookings'']) in
    [ep POST [] ''create'', ep GET [] ''findAll'', ep GET [Par ''id''] ''findById'',
     ep GET [Seg ''workspace'', Par ''workspaceId''] ''findByWorkspace'', ep GET [Seg ''series'', Par ''seriesId''] ''findBySeries'',
     for_admin (ep PATCH [Par ''id'', Seg ''confirm''] ''confirm''), ep PATCH [Par ''id'', Seg ''cancel''] ''cancel'',
     ep DELETE [Seg ''series'', Par ''seriesId''] ''cancelSeries'',
     for_admin (ep GET [Seg ''policies'', Seg ''cancellation''] ''listPolicies''),
     for_admin (ep POST [Seg ''policies'', Seg ''cancellation''] ''createPolicy''),
     for_admin (ep PATCH [Seg ''policies'', Seg ''cancellation'', Par ''workspaceType''] ''updatePolicy''),
     for_admin (ep DELETE [Seg ''policies'', Seg ''cancellation'', Par ''workspaceType''] ''removePolicy'')])"

definition workspaces_routes :: "endpoint list" where
  "workspaces_routes = (let ep = (\<lambda>verb. endpoint_at verb [Seg ''workspaces'']) in
    [ep POST [] ''create'', ep GET [] ''findAll'', ep GET [Par ''id''] ''findById'',
     ep GET [Par ''id'', Seg ''availability''] ''getAvailability'', ep PATCH [Par ''id''] ''update'', ep DELETE [Par ''id''] ''delete'',
     ep GET [Par ''id'', Seg ''occupancy'', Seg ''stream''] ''occupancyStream''])"

definition amenities_routes :: "endpoint list" where
  "amenities_routes =
    [endpoint_at GET [] [Seg ''amenities''] ''findAll'',
     for_admin (endpoint_at POST [] [Seg ''admin'', Seg ''amenities''] ''create''),
     for_admin (endpoint_at DELETE [] [Seg ''admin'', Seg ''amenities'', Par ''id''] ''remove'')]"

definition stellar_routes :: "endpoint list" where
  "stellar_routes = [endpoint_at POST [Seg ''stellar''] [Seg ''verify-tx''] ''verifyTx'']"

definition dashboard_routes :: "endpoint list" where
  "dashboard_routes = (let ep = endpoint_at GET [Seg ''dashboard''] in
    [ep [Seg ''stats''] ''getStats'', ep [Seg ''activity''] ''getActivity'', ep [Seg ''growth''] ''getGrowth'',
     for_admin (ep [Seg ''admin-stats''] ''getAdminStats''), for_admin (ep [Seg ''admin'', Seg ''cache'', Seg ''flush''] ''flushCache'')])"

definition newsletter_routes :: "endpoint list" where
  "newsletter_routes = (let ep = (\<lambda>verb. endpoint_at verb [Seg ''newsletter'']) in
    [ep POST [Seg ''subscribe''] ''subscribe'', ep GET [Seg ''confirm''] ''confirm'', ep GET [Seg ''unsubscribe''] ''unsubscribe'',
     ep GET [Seg ''subscribers''] ''listSubscribers''])"

definition health_routes :: "endpoint list" where
  "health_routes = (let ep = endpoint_at GET [Seg ''health''] in
    [opened (ep [Seg ''live''] ''liveness''), opened (ep [Seg ''ready''] ''readiness''), opened (ep [] ''check''),
     for_admin (ep [Seg ''deep''] ''deep'')])"

definition hubs_routes :: "endpoint list" where
  "hubs_routes = (let ep = (\<lambda>verb. endpoint_at verb [Seg ''hubs'']) in
    [for_admin (ep POST [] ''create''), ep GET [] ''findAll'', ep GET [Par ''slug''] ''findBySlug''])"

definition analytics_routes :: "endpoint list" where
  "analytics_routes =
    (let ep = (\<lambda>path handler. of_class [role_name ADMIN, role_name STAFF] (endpoint_at GET [Seg ''analytics''] path handler)) in
    [ep [Seg ''member-growth''] ''getMemberGrowth'', ep [Seg ''booking-revenue''] ''getBookingRevenue'',
     ep [Seg ''workspace-utilization''] ''getWorkspaceUtilization'', ep [Seg ''attendance-patterns''] ''getAttendancePatterns'',
     ep [Seg ''utilization''] ''getUtilizationAnalytics''])"

definition pricing_routes :: "endpoint list" where
  "pricing_routes =
    (let ep = (\<lambda>verb path handler. of_class [role_name ADMIN] (endpoint_at verb [Seg ''pricing'', Seg ''rules''] path handler)) in
    [ep POST [] ''create'', ep GET [Seg ''workspace'', Par ''workspaceId''] ''findByWorkspace'', ep GET [Par ''id''] ''findById'',
     ep PATCH [Par ''id''] ''update'', ep DELETE [Par ''id''] ''remove''])"

definition webhooks_routes :: "endpoint list" where
  "webhooks_routes = [for_admin (endpoint_at POST [Seg ''webhooks''] [] ''create'')]"

definition audit_routes :: "endpoint list" where
  "audit_routes = [for_admin (endpoint_at GET [Seg ''admin'', Seg ''audit-logs''] [] ''find'')]"

definition reports_routes :: "endpoint list" where
  "reports_routes =
    (let ep = (\<lambda>path handler. of_class [role_name ADMIN] (endpoint_at GET [Seg ''admin'', Seg ''reports''] path handler)) in
    [ep [Seg ''revenue''] ''getRevenue'', ep [Seg ''revenue'', Seg ''export''] ''exportRevenueCsv'', ep [Seg ''occupancy''] ''getOccupancy''])"

definition email_routes :: "endpoint list" where
  "email_routes = [endpoint_at GET [Seg ''dev''] [Seg ''email-preview'', Par ''template''] ''previewEmail'']"

definition api_routes :: "endpoint list" where
  "api_routes = auth_routes @ biometric_routes @ totp_routes @ users_routes @ contact_routes @
     attendance_routes @ bookings_routes @ workspaces_routes @ amenities_routes @ stellar_routes @
     dashboard_routes @ newsletter_routes @ health_routes @ hubs_routes @ analytics_routes @
     pricing_routes @ webhooks_routes @ audit_routes @ reports_routes @ email_routes"

subsection \<open>Routing\<close>

fun path_matches :: "segment list \<Rightarrow> string list \<Rightarrow> bool" where
  "path_matches [] [] = True"
| "path_matches (Seg p # ps) (s # ss) = (p = s \<and> path_matches ps ss)"
| "path_matches (Par p # ps) (s # ss) = (s \<noteq> [] \<and> path_matches ps ss)"
| "path_matches _ _ = False"

definition serves :: "string \<Rightarrow> string list \<Rightarrow> endpoint \<Rightarrow> bool" where
  "serves verb path e \<longleftrightarrow> verb_name (ep_method e) = verb \<and> path_matches (ep_path e) path"

definition route_request :: "endpoint list \<Rightarrow> string \<Rightarrow> string list \<Rightarrow> endpoint option" where
  "route_request table verb path = List.find (serves verb path) table"

text \<open>What the guards see: RolesGuard asks the reflector for the handler only, JwtAuthGuard for the
  handler and the class. No route is marked with \<open>SkipCsrf\<close> or a scope.\<close>

definition guard_metadata :: "endpoint \<Rightarrow> route" where
  "guard_metadata e = \<lparr>ro_public = ep_public e, ro_roles = ep_roles e, ro_scope = None, ro_skipCsrf = False\<rparr>"

text \<open>What the decorators ask for: the roles of the handler, or else those of its class.\<close>

definition declared_roles :: "endpoint \<Rightarrow> string list option" where
  "declared_roles e = (case ep_roles e of Some rs \<Rightarrow> Some rs | None \<Rightarrow> ep_classRoles e)"

definition api_guards ::
  "guard_env \<Rightarrow> instant \<Rightarrow> cache \<Rightarrow> http_request \<Rightarrow> string list \<Rightarrow> (endpoint \<times> request_user option) result" where
  "api_guards env now c req path =
     (case route_request api_routes (hr_method req) path of
        None \<Rightarrow> Inl (NotFound ''Cannot find the route'')
      | Some e \<Rightarrow> (case guard_chain env now c (guard_metadata e) req of
           Inl err \<Rightarrow> Inl err | Inr u \<Rightarrow> Inr (e, u)))"

end
