(* ===== verification/Booking_Api.thy ===== *)
theory Booking_Api
  imports Api_Routes Booking_Service
begin

text \<open>
  The handlers of the bookings controller (backend/src/bookings/bookings.controller.ts): what each
  takes from the request and which operation of the services it calls. The user is the one the
  guards left in the request; a token without a subject leaves no id.
\<close>

definition user_id_of :: "request_user \<Rightarrow> uuid" where
  "user_id_of u = (case ru_id u of Some i \<Rightarrow> i | None \<Rightarrow> [])"

definition create_booking_handler ::
  "booking_env \<Rightarrow> request_user \<Rightarrow> create_booking_dto \<Rightarrow> account \<Rightarrow> (account, booking list) outcome" where
  "create_booking_handler env u dto =
     lift_db (create_booking env (user_id_of u) dto (case ru_role u of Some r \<Rightarrow> r | None \<Rightarrow> ''member''))"

definition find_all_handler :: "request_user \<Rightarrow> account \<Rightarrow> (account, json) outcome" where
  "find_all_handler u s =
     (let isAdmin = (ru_role u = Some ''admin'')
      in (Inr (JArr (map booking_json (find_all_bookings (if isAdmin then None else ru_id u) isAdmin (ac_db s)))), s))"

definition find_by_id_handler :: "uuid \<Rightarrow> account \<Rightarrow> (account, json) outcome" where
  "find_by_id_handler i s =
     (case find_booking_by_id i (ac_db s) of Inl e \<Rightarrow> (Inl e, s) | Inr v \<Rightarrow> (Inr (booking_json v), s))"

definition find_by_workspace_handler :: "uuid \<Rightarrow> account \<Rightarrow> (account, json) outcome" where
  "find_by_workspace_handler w s = (Inr (JArr (map booking_json (find_by_workspace w (ac_db s)))), s)"

definition find_by_series_handler :: "uuid \<Rightarrow> account \<Rightarrow> (account, booking list) outcome" where
  "find_by_series_handler sid s =
     (case find_by_series sid (ac_db s) of Inl e \<Rightarrow> (Inl e, s) | Inr bs \<Rightarrow> (Inr bs, s))"

definition confirm_handler :: "booking_env \<Rightarrow> uuid \<Rightarrow> account \<Rightarrow> (account, booking_view) outcome" where
  "confirm_handler env i s =
     (case find_booking_by_id i (ac_db s) of Inl e \<Rightarrow> (Inl e, s) | Inr _ \<Rightarrow> lift_db (confirm env i) s)"

definition cancel_handler :: "booking_env \<Rightarrow> request_user \<Rightarrow> uuid \<Rightarrow> account \<Rightarrow> (account, booking) outcome" where
  "cancel_handler env u i = lift_db (cancel env i (user_id_of u))"

definition cancel_series_handler ::
  "booking_env \<Rightarrow> request_user \<Rightarrow> uuid \<Rightarrow> account \<Rightarrow> (account, cancel_series_result) outcome" where
  "cancel_series_handler env u sid = lift_db (cancel_series env sid (user_id_of u))"

end
