(* ===== verification/Api_Routes_Correct.thy ===== *)
theory Api_Routes_Correct
  imports Booking_Api Guards_Correct Booking_Contract
begin

text \<open>
  What the route table and the guards give together: the decision for every route that asks for a
  login, the routes whose roles no guard ever reads, and what any account can do with a list of
  bookings.
\<close>

subsection \<open>Roles\<close>

lemmas route_tables = auth_routes_def biometric_routes_def totp_routes_def users_routes_def contact_routes_def
  attendance_routes_def bookings_routes_def workspaces_routes_def amenities_routes_def stellar_routes_def
  dashboard_routes_def newsletter_routes_def health_routes_def hubs_routes_def analytics_routes_def
  pricing_routes_def webhooks_routes_def audit_routes_def reports_routes_def email_routes_def

lemma endpoint_fields [simp]:
  "ep_public (endpoint_at v b p h) = False" "ep_classRoles (endpoint_at v b p h) = None"
  "ep_roles (endpoint_at v b p h) = None" "ep_public (opened e) = True" "ep_classRoles (opened e) = ep_classRoles e"
  "ep_roles (opened e) = ep_roles e" "ep_public (for_admin e) = ep_public e"
  "ep_classRoles (for_admin e) = ep_classRoles e" "ep_roles (for_admin e) = Some [role_name ADMIN]"
  "ep_public (of_class rs e) = ep_public e" "ep_classRoles (of_class rs e) = Some rs"
  "ep_roles (of_class rs e) = ep_roles e"
  by (simp_all add: endpoint_at_def opened_def for_admin_def of_class_def)

text \<open>No route carries roles twice, and none with roles is public.\<close>

lemma roles_once:
  "e \<in> set api_routes \<Longrightarrow> \<not> (ep_classRoles e \<noteq> None \<and> ep_roles e \<noteq> None) \<and>
     (ep_public e \<longrightarrow> ep_classRoles e = None \<and> ep_roles e = None)"
proof -
  have "list_all (\<lambda>e. \<not> (ep_classRoles e \<noteq> None \<and> ep_roles e \<noteq> None) \<and>
     (ep_public e \<longrightarrow> ep_classRoles e = None \<and> ep_roles e = None)) api_routes"
    by (simp add: api_routes_def route_tables Let_def)
  then show "e \<in> set api_routes \<Longrightarrow> \<not> (ep_classRoles e \<noteq> None \<and> ep_roles e \<noteq> None) \<and>
     (ep_public e \<longrightarrow> ep_classRoles e = None \<and> ep_roles e = None)"
    by (simp add: list_all_iff)
qed

lemma class_roles_count: "length (filter (\<lambda>e. ep_classRoles e \<noteq> None) api_routes) = 13"
  by (simp add: api_routes_def route_tables Let_def)

definition valid_bearer :: "guard_env \<Rightarrow> instant \<Rightarrow> cache \<Rightarrow> http_request \<Rightarrow> claims \<Rightarrow> bool" where
  "valid_bearer env now c req p \<longleftrightarrow>
     ge_verify env now (hr_authorization req) = Some p \<and> is_bearer req \<and>
     \<not> (truthy (cl_jti p) \<and> is_blacklisted now (the (cl_jti p)) c) \<and> (\<forall>t. ge_throttle env t)"

lemma bearer_decision:
  assumes "valid_bearer env now c req p" "\<not> ro_public ro"
  shows "is_ok (guard_chain env now c ro req) \<longleftrightarrow>
    (case ro_roles ro of None \<Rightarrow> True | Some rs \<Rightarrow> (case cl_role p of None \<Rightarrow> False | Some r \<Rightarrow> r \<in> set rs))"
  using assms
  by (auto simp: valid_bearer_def guard_chain_def jwt_auth_guard_def jwt_validate_def throttler_guard_def
      roles_guard_def csrf_guard_def split: option.splits)

text \<open>C19: Roles written on a controller class protect nothing. A signed-in account whose role is not
  among those a route declares is refused exactly where the roles stand on the handler; on every
  route that declares them on its class (thirteen routes: the pricing rules, the revenue and
  occupancy reports, the analytics) it passes all guards.\<close>

theorem class_roles_protect_nothing:
  assumes "e \<in> set api_routes" "declared_roles e = Some rs" "cl_role p = Some r" "r \<notin> set rs"
    and "valid_bearer env now c req p"
  shows "(is_ok (guard_chain env now c (guard_metadata e) req) \<longleftrightarrow> ep_classRoles e \<noteq> None) \<and>
    length (filter (\<lambda>e. ep_classRoles e \<noteq> None) api_routes) = 13"
proof -
  have p: "\<not> ep_public e" using roles_once [OF assms(1)] assms(2)
    by (auto simp: declared_roles_def split: option.splits)
  have "is_ok (guard_chain env now c (guard_metadata e) req) \<longleftrightarrow> ep_roles e = None"
    using bearer_decision [OF assms(5), of "guard_metadata e"] p assms(2-4)
    by (auto simp: guard_metadata_def declared_roles_def split: option.splits)
  then show ?thesis
    using roles_once [OF assms(1)] assms(2) class_roles_count
    by (auto simp: declared_roles_def split: option.splits)
qed

lemma api_guards_ok:
  "route_request api_routes (hr_method req) path = Some e \<Longrightarrow>
   is_ok (api_guards env now c req path) = is_ok (guard_chain env now c (guard_metadata e) req)"
  by (auto simp: api_guards_def split: sum.split)

definition member_request :: http_request where
  "member_request = bare_post\<lparr>hr_authorization := Some ''Bearer ok''\<rparr>"

lemma member_bearer: "valid_bearer sample_guard_env 5 [] member_request sample_claims"
  by (simp add: valid_bearer_def sample_guard_env_def member_request_def bare_post_def is_bearer_def
      is_blacklisted_def cache_get_def)

lemma route_pricing_create:
  "route_request api_routes ''POST'' [''pricing'', ''rules''] =
     Some (of_class [role_name ADMIN] (endpoint_at POST [Seg ''pricing'', Seg ''rules''] [] ''create''))"
  by code_simp

lemma class_roles_protect_nothing_witness:
  "is_ok (api_guards sample_guard_env 5 [] member_request [''pricing'', ''rules''])"
proof -
  let ?e = "of_class [role_name ADMIN] (endpoint_at POST [Seg ''pricing'', Seg ''rules''] [] ''create'')"
  have "?e \<in> set api_routes" by (simp add: api_routes_def pricing_routes_def Let_def)
  moreover have "declared_roles ?e = Some [role_name ADMIN]" by (simp add: declared_roles_def)
  moreover have "''member'' \<notin> set [role_name ADMIN]" by simp
  ultimately have "is_ok (guard_chain sample_guard_env 5 [] (guard_metadata ?e) member_request)"
    using class_roles_protect_nothing [of ?e "[role_name ADMIN]" sample_claims "''member''", OF _ _ _ _ member_bearer]
    by (simp add: sample_claims_def)
  then show ?thesis
    using route_pricing_create by (subst api_guards_ok) (simp_all add: member_request_def bare_post_def)
qed

subsection \<open>What the list of bookings gives away\<close>

text \<open>An observer of the answer: the field \<open>k\<close> of the user inside a row, and the search for a
  code that a hash accepts among all values the three random bytes of a code can take.\<close>

definition disclosed :: "string \<Rightarrow> string \<Rightarrow> json \<Rightarrow> json option" where
  "disclosed relation k j = Option.bind (json_field j relation) (\<lambda>u. json_field u k)"

definition all_codes :: "string list" where "all_codes = map generate_otp [0..<2 ^ 24]"

definition crack :: "bcrypt_lib \<Rightarrow> string \<Rightarrow> string option" where
  "crack bc h = List.find (\<lambda>c. bc_compare bc c h) all_codes"

lemma crack_finds:
  assumes "n < 2 ^ 24" "bc_compare bc (generate_otp n) h"
  shows "\<exists>c. crack bc h = Some c \<and> bc_compare bc c h"
proof -
  have "generate_otp n \<in> set all_codes" unfolding all_codes_def using assms(1) by auto
  then have "List.find (\<lambda>c. bc_compare bc c h) all_codes \<noteq> None"
    using assms(2) by (auto simp: find_None_iff)
  then show ?thesis by (auto simp: crack_def find_Some_iff)
qed

lemma disclosed_otp:
  "find_user d (bk_userId b) = Some u \<Longrightarrow>
   disclosed ''user'' ''otp'' (booking_json ((load_booking d b)\<lparr>bv_workspace := w\<rparr>)) = Some (json_of_option (u_otp u))"
  by (simp add: disclosed_def booking_json_def load_booking_def Let_def json_of_option_with_def user_json_def)

lemma forgot_password_found:
  assumes "users_ok (ac_db s)" "find_user_by_email (ac_db s) e = Some u"
  shows "\<exists>u'. users_ok (ac_db (snd (forgot_password lib r now e s))) \<and>
    find_user_by_email (ac_db (snd (forgot_password lib r now e s))) e = Some u' \<and> u_id u' = u_id u \<and>
    u_otp u' = Some (bc_hash (al_bcrypt lib) (ar_otpSalt r) (generate_otp (ar_otpNumber r))) \<and>
    u_otpExpiry u' = Some (now + otp_life_ms) \<and>
    db_bookings (ac_db (snd (forgot_password lib r now e s))) = db_bookings (ac_db s) \<and>
    ac_cache (snd (forgot_password lib r now e s)) = ac_cache s"
proof -
  define p where "p = no_patch\<lparr>up_otp := Some (bc_hash (al_bcrypt lib) (ar_otpSalt r) (generate_otp (ar_otpNumber r))),
    up_otpExpiry := Some (now + otp_life_ms)\<rparr>"
  have pe: "up_email p = None" by (simp add: p_def)
  have st: "snd (forgot_password lib r now e s) =
      send_mail ''password-reset'' e (generate_otp (ar_otpNumber r)) (s\<lparr>ac_db := patched p u (ac_db s)\<rparr>)"
    by (simp add: forgot_password_def assms(2) Let_def p_def [symmetric] updating_found [OF assms pe])
  show ?thesis
    using find_email_patched [OF assms pe] patched_ok [OF assms(1) _ pe, of u] assms
    unfolding st by (intro exI [of _ "apply_patch p u"]) (simp add: find_email_iff patched_def p_def)
qed

text \<open>Whoever learns the hash of a reset code sets the password.\<close>

lemma leaked_hash_resets:
  assumes "users_ok (ac_db s)" "find_user_by_email (ac_db s) victim = Some v"
    and "\<And>salt t. bc_hash (al_bcrypt lib) salt t \<noteq> [] \<and> bc_compare (al_bcrypt lib) t (bc_hash (al_bcrypt lib) salt t)"
    and "ar_otpNumber r < 2 ^ 24" "now' \<le> now + otp_life_ms"
    and "po_valid (validate_password (al_policy lib) newPassword)"
  obtains v' h c where "find_user (ac_db (snd (forgot_password lib r now victim s))) (u_id v) = Some v'"
    "u_otp v' = Some h" "crack (al_bcrypt lib) h = Some c"
    "fst (reset_password lib r' now' victim c newPassword (snd (forgot_password lib r now victim s))) =
       Inr ''Password reset successfully''"
    "ac_cache (snd (forgot_password lib r now victim s)) = ac_cache s"
    "db_bookings (ac_db (snd (forgot_password lib r now victim s))) = db_bookings (ac_db s)"
proof -
  let ?s1 = "snd (forgot_password lib r now victim s)"
  let ?h = "bc_hash (al_bcrypt lib) (ar_otpSalt r) (generate_otp (ar_otpNumber r))"
  obtain v' where ok: "users_ok (ac_db ?s1)" and v': "find_user_by_email (ac_db ?s1) victim = Some v'"
    and f: "u_id v' = u_id v" "u_otp v' = Some ?h" "u_otpExpiry v' = Some (now + otp_life_ms)"
    and bs: "db_bookings (ac_db ?s1) = db_bookings (ac_db s)" and c: "ac_cache ?s1 = ac_cache s"
    using forgot_password_found [OF assms(1,2), of lib r now] by blast
  obtain code where code: "crack (al_bcrypt lib) ?h = Some code" "bc_compare (al_bcrypt lib) code ?h"
    using crack_finds [OF assms(4)] assms(3) by blast
  have "fst (reset_password lib r' now' victim code newPassword ?s1) = Inr ''Password reset successfully''"
    using f code assms(3,5,6) by (simp add: reset_password_def v' updating_found [OF ok v', unfolded f(1)] Let_def)
  moreover have "find_user (ac_db ?s1) (u_id v) = Some v'" using find_email_found_id [OF ok v'] f(1) by simp
  ultimately show thesis using that f(2) code(1) c bs by blast
qed

lemma route_workspace_bookings:
  "w \<noteq> [] \<Longrightarrow> route_request api_routes ''GET'' [''bookings'', ''workspace'', w] =
     Some (endpoint_at GET [Seg ''bookings''] [Seg ''workspace'', Par ''workspaceId''] ''findByWorkspace'')"
  by (simp add: route_request_def serves_def api_routes_def route_tables Let_def endpoint_at_def opened_def
      for_admin_def of_class_def)

text \<open>Any account can take over the account of anyone who has a booking. After an anonymous
  reset request for the victim's address, the list of a workspace's bookings, which asks for no
  role, answers every signed-in account with the whole user row of each booking, the hash of the
  reset code included. One of the 2^24 codes the generator can produce fits the hash, and the
  first that does resets the password within the ten minutes.\<close>

theorem booking_list_takeover:
  assumes "users_ok (ac_db s)" "find_user_by_email (ac_db s) victim = Some v"
    and "b \<in> set (live_bookings (ac_db s))" "bk_userId b = u_id v" "bk_workspaceId b \<noteq> []"
    and "valid_bearer env now' (ac_cache s) req p" "hr_method req = ''GET''"
    and "\<And>salt t. bc_hash (al_bcrypt lib) salt t \<noteq> [] \<and> bc_compare (al_bcrypt lib) t (bc_hash (al_bcrypt lib) salt t)"
    and "ar_otpNumber r < 2 ^ 24" "now' \<le> now + otp_life_ms"
    and "po_valid (validate_password (al_policy lib) newPassword)"
  shows "\<exists>j h c s1.
    s1 = snd (forgot_password lib r now victim s) \<and>
    is_ok (api_guards env now' (ac_cache s1) req [''bookings'', ''workspace'', bk_workspaceId b]) \<and>
    fst (find_by_workspace_handler (bk_workspaceId b) s1) = Inr (JArr j) \<and>
    (\<exists>x \<in> set j. disclosed ''user'' ''otp'' x = Some (JStr h)) \<and> crack (al_bcrypt lib) h = Some c \<and>
    fst (reset_password lib r' now' victim c newPassword s1) = Inr ''Password reset successfully''"
proof -
  let ?s1 = "snd (forgot_password lib r now victim s)"
  let ?w = "bk_workspaceId b"
  obtain v' h c where l: "find_user (ac_db ?s1) (u_id v) = Some v'" "u_otp v' = Some h" "crack (al_bcrypt lib) h = Some c"
    "fst (reset_password lib r' now' victim c newPassword ?s1) = Inr ''Password reset successfully''"
    "ac_cache ?s1 = ac_cache s" "db_bookings (ac_db ?s1) = db_bookings (ac_db s)"
    by (rule leaked_hash_resets [OF assms(1,2,8-11), where r' = r'])
  have "disclosed ''user'' ''otp'' (booking_json ((load_booking (ac_db ?s1) b)\<lparr>bv_workspace := None\<rparr>)) = Some (JStr h)"
    using disclosed_otp [of "ac_db ?s1" b v' None] l(1,2) assms(4) by (simp add: json_of_option_def)
  moreover have "b \<in> set (filter (\<lambda>b. bk_workspaceId b = ?w) (live_bookings (ac_db ?s1)))"
    using assms(3) l(6) by (simp add: live_bookings_def)
  ultimately have x: "\<exists>x \<in> set (map booking_json (find_by_workspace ?w (ac_db ?s1))).
      disclosed ''user'' ''otp'' x = Some (JStr h)"
    unfolding find_by_workspace_def by force
  have "is_ok (api_guards env now' (ac_cache ?s1) req [''bookings'', ''workspace'', ?w])"
    using bearer_decision [OF assms(6)] assms(7) l(5) api_guards_ok [OF route_workspace_bookings [OF assms(5), folded assms(7)]]
    by (simp add: guard_metadata_def)
  with x l(3,4) show ?thesis by (auto simp: find_by_workspace_handler_def)
qed

definition sample_leak_state :: account where
  "sample_leak_state = (acct_state acct_user)\<lparr>ac_db := (ac_db (acct_state acct_user))
     \<lparr>db_bookings := [(sample_booking ''b'' 0 5)\<lparr>bk_userId := ''u1''\<rparr>]\<rparr>\<rparr>"

lemma booking_list_takeover_witness:
  "\<exists>c. fst (reset_password acct_lib acct_random 9 ''a@b.c'' c long_password
      (snd (forgot_password acct_lib acct_random 5 ''a@b.c'' sample_leak_state)))
    = Inr ''Password reset successfully''"
proof -
  let ?b = "(sample_booking ''b'' 0 5)\<lparr>bk_userId := ''u1''\<rparr>"
  have u: "users_ok (ac_db sample_leak_state)"
    "find_user_by_email (ac_db sample_leak_state) ''a@b.c'' = Some acct_user"
    by (simp_all add: sample_leak_state_def acct_state_def users_ok_def find_user_by_email_def live_user_def
        acct_user_def user_of_def)
  have b: "?b \<in> set (live_bookings (ac_db sample_leak_state))" "bk_userId ?b = u_id acct_user" "bk_workspaceId ?b \<noteq> []"
    by (simp_all add: sample_leak_state_def live_bookings_def sample_booking_def acct_user_def user_of_def)
  have g: "valid_bearer sample_guard_env 9 (ac_cache sample_leak_state) (member_request\<lparr>hr_method := ''GET''\<rparr>) sample_claims"
    by (simp add: valid_bearer_def sample_guard_env_def member_request_def bare_post_def is_bearer_def
        is_blacklisted_def cache_get_def sample_leak_state_def)
  have h: "bc_hash (al_bcrypt acct_lib) salt t \<noteq> [] \<and> bc_compare (al_bcrypt acct_lib) t (bc_hash (al_bcrypt acct_lib) salt t)"
    for salt t by (simp add: acct_lib_def pad60_def)
  show ?thesis
    using booking_list_takeover [OF u b g _ h, of acct_random 5 long_password acct_random]
    by (auto simp: acct_random_def otp_life_ms_def long_password_ok)
qed

end
