(* ===== verification/Api_Client.thy ===== *)
theory Api_Client
  imports Api_Routes_Correct
begin

text \<open>
  Browser and server together: the requests the browser client makes
  (frontend/src/lib/apiClient.ts and the log-out and refresh of
  frontend/src/lib/store/authStore.ts), and what the server does with them before a handler runs:
  the idempotency middleware on the routes app.module.ts names, then the guards of the route. The
  lemmas: which calls reach no route, and which a browser can never make succeed.
\<close>

record client_call =
  cc_name :: string
  cc_method :: verb
  cc_path :: "string list"

definition call_to :: "string \<Rightarrow> verb \<Rightarrow> string list \<Rightarrow> client_call" where
  "call_to name verb path = \<lparr>cc_name = name, cc_method = verb, cc_path = path\<rparr>"

text \<open>The functions of \<open>api\<close>, with \<open>i\<close> for the id or the token in the path; query strings do not
  take part in routing.\<close>

definition client_calls :: "string \<Rightarrow> client_call list" where
  "client_calls i =
     [call_to ''login'' POST [''auth'', ''login''], call_to ''register'' POST [''auth'', ''register''],
      call_to ''forgotPassword'' POST [''auth'', ''forgot-password''],
      call_to ''resetPassword'' POST [''auth'', ''reset-password''],
      call_to ''verifyOtp'' POST [''auth'', ''verify-otp''], call_to ''resendOtp'' POST [''auth'', ''resend-otp''],
      call_to ''getUsers'' GET [''users''], call_to ''updateUser'' PATCH [''users'', i],
      call_to ''updateUserRole'' PATCH [''users'', i, ''role''],
      call_to ''deactivateUser'' PATCH [''users'', i, ''deactivate''],
      call_to ''activateUser'' PATCH [''users'', i, ''activate''], call_to ''deleteUser'' DELETE [''users'', i],
      call_to ''uploadProfilePicture'' POST [''users'', i, ''profile-picture''],
      call_to ''changePassword'' POST [''users'', ''change-password''],
      call_to ''getWorkspaces'' GET [''workspaces''], call_to ''getWorkspace'' GET [''workspaces'', i],
      call_to ''getWorkspaceAvailability'' GET [''workspaces'', i, ''availability''],
      call_to ''createBooking'' POST [''bookings''], call_to ''getBookings'' GET [''bookings''],
      call_to ''getBooking'' GET [''bookings'', i], call_to ''confirmBooking'' PATCH [''bookings'', i, ''confirm''],
      call_to ''cancelBooking'' PATCH [''bookings'', i, ''cancel''],
      call_to ''getAttendance'' GET [''attendance''], call_to ''clockIn'' POST [''attendance'', ''clock-in''],
      call_to ''clockOut'' POST [''attendance'', ''clock-out''],
      call_to ''getDashboardStats'' GET [''dashboard'', ''stats''],
      call_to ''getDashboardActivity'' GET [''dashboard'', ''activity''],
      call_to ''getDashboardGrowth'' GET [''dashboard'', ''growth''],
      call_to ''getAnalyticsMemberGrowth'' GET [''analytics'', ''member-growth''],
      call_to ''getAnalyticsBookingRevenue'' GET [''analytics'', ''booking-revenue''],
      call_to ''getAnalyticsWorkspaceUtilization'' GET [''analytics'', ''workspace-utilization''],
      call_to ''getAnalyticsAttendancePatterns'' GET [''analytics'', ''attendance-patterns''],
      call_to ''verifyStellarTx'' POST [''stellar'', ''verify-tx''],
      call_to ''issueMembershipToken'' POST [''membership-tokens''],
      call_to ''subscribeNewsletter'' POST [''newsletter'', ''subscribe''],
      call_to ''getNewsletterPreferences'' GET [''newsletter'', ''preferences'', i],
      call_to ''updateNewsletterPreferences'' PATCH [''newsletter'', ''preferences'', i],
      call_to ''unsubscribeNewsletter'' POST [''newsletter'', ''unsubscribe'', i]]"

definition logout_call :: client_call where "logout_call = call_to ''logout'' POST [''auth'', ''logout'']"
definition refresh_call :: client_call where "refresh_call = call_to ''refreshAccessToken'' POST [''auth'', ''refresh'']"

text \<open>The request interceptor adds the access token; the instance adds a content type and nothing
  else.\<close>

definition client_request :: "string option \<Rightarrow> string option \<Rightarrow> verb \<Rightarrow> http_request" where
  "client_request ip accessToken verb =
     \<lparr>hr_method = verb_name verb,
      hr_authorization = (if truthy accessToken then Some (''Bearer '' @ the accessToken) else None),
      hr_csrfToken = None, hr_idempotencyKey = None, hr_ip = ip\<rparr>"

subsection \<open>The way to the handler\<close>

definition idempotency_routes :: "(string \<times> string list) list" where
  "idempotency_routes =
     [(''POST'', [''bookings'']), (''POST'', [''attendance'', ''clock-in'']),
      (''POST'', [''attendance'', ''clock-out'']), (''POST'', [''contact''])]"

datatype server_entry = Handler endpoint "request_user option" | Replayed int json

definition enter_server ::
  "guard_env \<Rightarrow> (string \<Rightarrow> claims option) \<Rightarrow> instant \<Rightarrow> cache \<Rightarrow> http_request \<Rightarrow> string list \<Rightarrow> server_entry result" where
  "enter_server env verify now c req path =
     (let guards = map_sum id (\<lambda>(e, u). Handler e u) (api_guards env now c req path)
      in if (hr_method req, path) \<in> set idempotency_routes
         then (case idem_check verify now req c of
                 Inl e \<Rightarrow> Inl e
               | Inr (Replay status body) \<Rightarrow> Inr (Replayed status body)
               | Inr (Proceed k) \<Rightarrow> guards)
         else guards)"

definition send_call ::
  "guard_env \<Rightarrow> (string \<Rightarrow> claims option) \<Rightarrow> instant \<Rightarrow> cache \<Rightarrow> string option \<Rightarrow> string option \<Rightarrow> client_call
   \<Rightarrow> server_entry result" where
  "send_call env verify now c ip accessToken call =
     enter_server env verify now c (client_request ip accessToken (cc_method call)) (cc_path call)"

subsection \<open>Calls without a route\<close>

lemma call_to_fields [simp]:
  "cc_name (call_to n v p) = n" "cc_method (call_to n v p) = v" "cc_path (call_to n v p) = p"
  by (simp_all add: call_to_def)

definition routed :: "client_call \<Rightarrow> bool" where
  "routed call \<longleftrightarrow> route_request api_routes (verb_name (cc_method call)) (cc_path call) \<noteq> None"

lemma routed_iff: "routed (call_to n v p) \<longleftrightarrow> list_ex (serves (verb_name v) p) api_routes"
  by (auto simp: routed_def route_request_def find_None_iff list_ex_iff)

text \<open>Six functions of the browser client call routes that do not exist: the list of the users, the
  attendance records, the membership tokens and the three newsletter preferences calls are
  answered 404 for everybody; every other function reaches a handler's route.\<close>

theorem dead_client_calls:
  assumes "i \<noteq> []"
  shows "map cc_name (filter (\<lambda>call. \<not> routed call) (client_calls i)) =
    [''getUsers'', ''getAttendance'', ''issueMembershipToken'', ''getNewsletterPreferences'',
     ''updateNewsletterPreferences'', ''unsubscribeNewsletter'']"
  using assms
  by (simp add: client_calls_def routed_iff api_routes_def route_tables Let_def serves_def endpoint_at_def
      opened_def for_admin_def of_class_def)

lemma dead_client_calls_witness:
  "map cc_name (filter (\<lambda>call. \<not> routed call) (client_calls ''42'')) =
    [''getUsers'', ''getAttendance'', ''issueMembershipToken'', ''getNewsletterPreferences'',
     ''updateNewsletterPreferences'', ''unsubscribeNewsletter'']"
  by (rule dead_client_calls) simp

subsection \<open>Calls that are always refused\<close>

lemma not_bearer_client: "\<not> truthy tok \<Longrightarrow> \<not> is_bearer (client_request ip tok verb)"
  by (simp add: client_request_def is_bearer_def)

lemma signed_out_guards:
  assumes "verb \<noteq> GET" "\<not> truthy tok"
  shows "\<not> is_ok (api_guards env now c (client_request ip tok verb) path)"
proof (cases "route_request api_routes (verb_name verb) path")
  case None
  then show ?thesis by (simp add: api_guards_def client_request_def)
next
  case (Some e)
  have m: "hr_method (client_request ip tok verb) \<in> set mutating"
    using assms(1) by (cases verb) (simp_all add: client_request_def mutating_def)
  have "\<not> is_ok (guard_chain env now c (guard_metadata e) (client_request ip tok verb))"
  proof
    assume ok: "is_ok (guard_chain env now c (guard_metadata e) (client_request ip tok verb))"
    then have "\<not> ep_public e \<Longrightarrow> \<exists>u. jwt_auth_guard env now c (guard_metadata e) (client_request ip tok verb) = Inr u"
      by (auto simp: guard_chain_def split: sum.splits)
    with ok show False
      using m not_bearer_client [OF assms(2), of ip verb]
      by (auto simp: guard_chain_def guard_metadata_def csrf_guard_def client_request_def
          split: sum.splits if_splits option.splits)
  qed
  then show ?thesis
    using api_guards_ok [of "client_request ip tok verb" path e env now c] Some by (simp add: client_request_def)
qed

lemma client_method [simp]: "hr_method (client_request ip tok verb) = verb_name verb"
  by (simp add: client_request_def)

lemma client_has_no_key:
  "idem_check verify now (client_request ip tok verb) c =
     Inl (Unprocessable ''X-Idempotency-Key header is required for this endpoint'')"
  by (simp add: idem_check_def client_request_def)

text \<open>C10: The browser cannot write. Whatever the state of the server, every request other than a GET that
  a browser without an access token makes, the log-in, the registration and the refresh included,
  is refused before a handler runs: nothing in the client sends the header the CSRF guard asks for,
  nor could it pass without a session. And with any token at all, a booking, a clock-in, a clock-out
  and a contact message are refused, because the client never sends an idempotency key.\<close>

theorem browser_cannot_write:
  "(if verb \<noteq> GET \<and> \<not> truthy tok
    then \<not> is_ok (enter_server env verify now c (client_request ip tok verb) path) else True) \<and>
   list_all (\<lambda>(verb, path). enter_server env verify now c (client_request ip tok' verb) path =
      Inl (Unprocessable ''X-Idempotency-Key header is required for this endpoint''))
     [(POST, [''bookings'']), (POST, [''attendance'', ''clock-in'']), (POST, [''attendance'', ''clock-out'']),
      (POST, [''contact''])]"
proof -
  have "\<not> is_ok (enter_server env verify now c (client_request ip tok verb) path)" if "verb \<noteq> GET" "\<not> truthy tok"
    using signed_out_guards [OF that, of env now c ip path]
    by (cases "api_guards env now c (client_request ip tok verb) path")
      (auto simp: enter_server_def Let_def client_has_no_key)
  moreover have "enter_server env verify now c (client_request ip tok' v) p =
      Inl (Unprocessable ''X-Idempotency-Key header is required for this endpoint'')"
    if "(verb_name v, p) \<in> set idempotency_routes" for v p
    using that by (simp add: enter_server_def client_has_no_key Let_def)
  ultimately show ?thesis by (simp add: idempotency_routes_def)
qed

end
