(* ===== verification/Attendance_Correct.thy ===== *)
theory Attendance_Correct
  imports Attendance
begin

text \<open>
  Attendance against its contract: a user has at most one open session in every reachable
  state, clock-in and clock-out are each refused exactly when the other one is due, the
  cursor pages walk the whole list when timestamps have whole milliseconds. Two theorems
  record defects: the hourly job also completes sessions that were clocked out, and the
  cursor loses records whose timestamps share a millisecond.
\<close>

subsection \<open>Open sessions\<close>

definition ins :: "uuid \<Rightarrow> attendance list \<Rightarrow> (uuid \<times> uuid option \<times> db_time) set" where
  "ins u tbl = (\<lambda>r. (at_id r, at_sessionId r, at_timestamp r)) `
     {r \<in> set tbl. live r \<and> at_userId r = u \<and> at_action r = CLOCK_IN}"

definition outs :: "uuid \<Rightarrow> attendance list \<Rightarrow> uuid option set" where
  "outs u tbl = at_sessionId ` {r \<in> set tbl. live r \<and> at_userId r = u \<and> at_action r = CLOCK_OUT}"

definition single_open :: "attendance list \<Rightarrow> bool" where
  "single_open tbl \<longleftrightarrow> (\<forall>u i s t i' s' t'. (i, s, t) \<in> ins u tbl \<longrightarrow> s \<notin> outs u tbl \<longrightarrow>
     (i', s', t') \<in> ins u tbl \<longrightarrow> i' = i \<or> t' < t)"

definition att_ok :: "attendance list \<Rightarrow> bool" where
  "att_ok tbl \<longleftrightarrow> distinct (map at_id tbl) \<and> single_open tbl"

definition open_sessions :: "uuid \<Rightarrow> attendance list \<Rightarrow> attendance list" where
  "open_sessions u tbl = filter (\<lambda>r. find_clock_out u (at_sessionId r) tbl = None) (clock_ins u tbl)"

lemma find_clock_out_iff: "find_clock_out u s tbl = None \<longleftrightarrow> s \<notin> outs u tbl"
  by (auto simp: find_clock_out_def find_row_None_iff outs_def)

lemma in_clock_ins: "r \<in> set (clock_ins u tbl) \<Longrightarrow> (at_id r, at_sessionId r, at_timestamp r) \<in> ins u tbl"
  by (auto simp: clock_ins_def ins_def)

lemma att_ok_open_sessions:
  assumes "att_ok tbl"
  shows "length (open_sessions u tbl) \<le> 1"
proof -
  have d: "distinct (map at_id (open_sessions u tbl))"
    using assms by (auto simp: att_ok_def open_sessions_def clock_ins_def distinct_map intro: inj_on_subset)
  have "at_id r = at_id r'" if "r \<in> set (open_sessions u tbl)" "r' \<in> set (open_sessions u tbl)" for r r'
  proof -
    have "(at_id r, at_sessionId r, at_timestamp r) \<in> ins u tbl" "at_sessionId r \<notin> outs u tbl"
      "(at_id r', at_sessionId r', at_timestamp r') \<in> ins u tbl" "at_sessionId r' \<notin> outs u tbl"
      using that by (auto simp: open_sessions_def find_clock_out_iff in_clock_ins)
    then show ?thesis using assms unfolding att_ok_def single_open_def by (metis less_asym)
  qed
  with d show ?thesis by (rule same_key_length)
qed

lemma latest_clock_in_None: "latest_clock_in u tbl = None \<longleftrightarrow> clock_ins u tbl = []"
  by (simp add: latest_clock_in_def find_row_None_iff)

lemma newest_comparator: "comparator (\<lambda>a b :: attendance. at_timestamp b - at_timestamp a)"
  by (auto simp: comparator_def)

lemma latest_clock_in_Some:
  assumes "latest_clock_in u tbl = Some r"
  shows "r \<in> set (clock_ins u tbl)" "\<And>x. x \<in> set (clock_ins u tbl) \<Longrightarrow> at_timestamp x \<le> at_timestamp r"
proof -
  let ?s = "sort_by (\<lambda>a b. at_timestamp b - at_timestamp a) (clock_ins u tbl)"
  obtain xs where s: "?s = r # xs"
    using assms by (cases ?s) (auto simp: latest_clock_in_def)
  have "set ?s = set (clock_ins u tbl)" by simp
  then have mem: "set (clock_ins u tbl) = set (r # xs)" unfolding s by simp
  then show "r \<in> set (clock_ins u tbl)" by simp
  fix x assume "x \<in> set (clock_ins u tbl)"
  then have "x = r \<or> x \<in> set xs" using mem by simp
  then show "at_timestamp x \<le> at_timestamp r"
    using sorted_sort_by [OF newest_comparator, of "clock_ins u tbl"] unfolding s by auto
qed

text \<open>An open session is the latest clock-in.\<close>

lemma open_is_latest:
  assumes "att_ok tbl" "(i, s, t) \<in> ins u tbl" "s \<notin> outs u tbl"
  shows "\<exists>r. latest_clock_in u tbl = Some r \<and> at_id r = i \<and> at_sessionId r = s"
proof -
  obtain x where x: "x \<in> set (clock_ins u tbl)" "at_id x = i" "at_sessionId x = s" "at_timestamp x = t"
    using assms(2) by (auto simp: ins_def clock_ins_def)
  then obtain r where r: "latest_clock_in u tbl = Some r"
    by (cases "latest_clock_in u tbl") (auto simp: latest_clock_in_None)
  note l = latest_clock_in_Some [OF r]
  have "\<not> at_timestamp r < t" using l(2) [OF x(1)] x(4) by simp
  then have id: "at_id r = i"
    using assms in_clock_ins [OF l(1)] unfolding att_ok_def single_open_def by blast
  have "r = x" using assms(1) l(1) x(1,2) id
    by (auto simp: att_ok_def clock_ins_def distinct_map inj_on_def)
  with r x show ?thesis by blast
qed

subsection \<open>The operations keep it\<close>

lemma save_new: "at_id x \<notin> at_id ` set tbl \<Longrightarrow> save_row at_id x tbl = tbl @ [x]"
  by (rule save_row_new)

lemma ins_append: "ins u (tbl @ [x]) = ins u tbl \<union> ins u [x]"
  by (auto simp: ins_def)

lemma outs_append: "outs u (tbl @ [x]) = outs u tbl \<union> outs u [x]"
  by (auto simp: outs_def)

lemma ins_Cons: "ins u (x # tbl) = (if live x \<and> at_userId x = u \<and> at_action x = CLOCK_IN
    then insert (at_id x, at_sessionId x, at_timestamp x) (ins u tbl) else ins u tbl)"
  by (auto simp: ins_def)

lemma outs_Cons: "outs u (x # tbl) = (if live x \<and> at_userId x = u \<and> at_action x = CLOCK_OUT
    then insert (at_sessionId x) (outs u tbl) else outs u tbl)"
  by (auto simp: outs_def)

lemma ins_outs_Nil [simp]: "ins u [] = {}" "outs u [] = {}"
  by (simp_all add: ins_def outs_def)

lemma complete_session_pair:
  "complete_session users h now (n, s) (tbl, mails) =
     (update_rows (\<lambda>r. at_id r = at_id s)
        (\<lambda>r. r\<lparr>at_autoCompleted := True, at_autoCompletedReason := Some (auto_reason h)\<rparr>)
        (save_row at_id (auto_clock_out n h now s) tbl),
      mails @ completion_mail users h s)"
  by (simp add: complete_session_def)

lemma att_ok_clock_out_row:
  assumes "att_ok tbl" "at_id x \<notin> at_id ` set tbl" "at_action x = CLOCK_OUT"
  shows "att_ok (save_row at_id x tbl)"
proof -
  have e: "ins u [x] = {}" for u using assms(3) by (simp add: ins_def)
  have "single_open (tbl @ [x])"
    using assms(1) unfolding att_ok_def single_open_def ins_append outs_append e by blast
  moreover have "distinct (map at_id (tbl @ [x]))" using assms(1,2) by (auto simp: att_ok_def)
  ultimately show ?thesis using assms(2) by (simp add: save_new att_ok_def)
qed

lemma clock_in_ok:
  assumes "att_ok tbl" "newId \<notin> at_id ` set tbl" "\<And>u. Some sid \<notin> outs u tbl"
    and "\<And>r. r \<in> set tbl \<Longrightarrow> at_action r = CLOCK_IN \<Longrightarrow> at_timestamp r < now"
  shows "att_ok (snd (clock_in newId sid now u details tbl))"
proof (cases "case latest_clock_in u tbl of None \<Rightarrow> False
    | Some s \<Rightarrow> find_clock_out u (at_sessionId s) tbl = None")
  case True
  with assms(1) show ?thesis by (simp add: clock_in_def)
next
  case False
  let ?x = "new_attendance newId u CLOCK_IN now (Some sid) details"
  have row: "ins v [?x] = (if v = u then {(newId, Some sid, now)} else {})" "outs v [?x] = {}" for v
    by (simp_all add: ins_Cons outs_Cons new_attendance_def live_def)
  have closed: "s \<in> outs u tbl" if "(i, s, t) \<in> ins u tbl" for i s t
  proof (rule ccontr)
    assume "s \<notin> outs u tbl"
    from open_is_latest [OF assms(1) that this] False show False
      using \<open>s \<notin> outs u tbl\<close> by (auto simp: find_clock_out_iff)
  qed
  have older: "t < now" if "(i, s, t) \<in> ins v tbl" for i s t v
    using that assms(4) by (auto simp: ins_def)
  have "single_open (tbl @ [?x])"
    unfolding single_open_def ins_append outs_append row
  proof (intro allI impI)
    fix v i s t i' s' t'
    assume a: "(i, s, t) \<in> ins v tbl \<union> (if v = u then {(newId, Some sid, now)} else {})"
      and b: "s \<notin> outs v tbl \<union> {}"
      and c: "(i', s', t') \<in> ins v tbl \<union> (if v = u then {(newId, Some sid, now)} else {})"
    show "i' = i \<or> t' < t"
    proof (cases "v = u")
      case True
      then have "i = newId" "t = now" using a b closed by auto
      with c True older show ?thesis by auto
    next
      case False
      then have "(i, s, t) \<in> ins v tbl" "s \<notin> outs v tbl" "(i', s', t') \<in> ins v tbl" using a b c by auto
      then show ?thesis using assms(1) unfolding att_ok_def single_open_def by blast
    qed
  qed
  moreover have "distinct (map at_id (tbl @ [?x]))"
    using assms(1,2) by (auto simp: att_ok_def new_attendance_def)
  moreover have "snd (clock_in newId sid now u details tbl) = tbl @ [?x]"
    using False assms(2) by (subst clock_in_def) (simp add: save_new new_attendance_def)
  ultimately show ?thesis by (simp add: att_ok_def)
qed

lemma clock_out_ok:
  assumes "att_ok tbl" "newId \<notin> at_id ` set tbl"
  shows "att_ok (snd (clock_out newId now u details tbl))"
proof -
  have "att_ok (save_row at_id (new_attendance newId u CLOCK_OUT now s details) tbl)" for s
    by (rule att_ok_clock_out_row [OF assms(1)]) (use assms(2) in \<open>simp_all add: new_attendance_def\<close>)
  with assms(1) show ?thesis by (simp add: clock_out_def split: option.split)
qed

lemma update_flags_ok:
  assumes "\<And>r. at_id (f r) = at_id r \<and> at_userId (f r) = at_userId r \<and> at_action (f r) = at_action r
      \<and> at_timestamp (f r) = at_timestamp r \<and> at_sessionId (f r) = at_sessionId r \<and> live (f r) = live r"
  shows "att_ok (update_rows p f tbl) = att_ok tbl"
proof -
  have i: "ins u (update_rows p f tbl) = ins u tbl" for u
    by (induction tbl) (auto simp: ins_Cons assms)
  have o: "outs u (update_rows p f tbl) = outs u tbl" for u
    by (induction tbl) (auto simp: outs_Cons assms)
  have "map at_id (update_rows p f tbl) = map at_id tbl"
    by (rule update_rows_keys) (use assms in blast)
  then show ?thesis by (simp add: att_ok_def single_open_def i o)
qed

lemma auto_complete_fold_ok:
  assumes "att_ok tbl" "distinct (map fst nss)" "\<And>n. n \<in> fst ` set nss \<Longrightarrow> n \<notin> at_id ` set tbl"
  shows "att_ok (fst (fold (complete_session users h now) nss (tbl, mails)))"
  using assms
proof (induction nss arbitrary: tbl mails)
  case (Cons ns nss)
  obtain n s where ns: "ns = (n, s)" by (cases ns)
  let ?x = "auto_clock_out n h now s"
  let ?t1 = "save_row at_id ?x tbl"
  let ?t2 = "update_rows (\<lambda>r. at_id r = at_id s)
     (\<lambda>r. r\<lparr>at_autoCompleted := True, at_autoCompletedReason := Some (auto_reason h)\<rparr>) ?t1"
  have x: "at_id ?x = n" "at_action ?x = CLOCK_OUT" by (simp_all add: auto_clock_out_def new_attendance_def)
  have fresh: "n \<notin> at_id ` set tbl" using Cons.prems(3) ns by simp
  have "att_ok ?t1" by (rule att_ok_clock_out_row [OF Cons.prems(1)]) (use fresh x in simp_all)
  then have ok2: "att_ok ?t2" by (subst update_flags_ok) (simp_all add: live_def)
  have ids: "at_id ` set ?t2 = insert n (at_id ` set tbl)"
  proof -
    have "at_id ` set ?t2 = at_id ` set ?t1"
      by (rule image_set_update) (simp)
    also have "\<dots> = insert n (at_id ` set tbl)" using fresh x(1) by (simp add: save_new)
    finally show ?thesis .
  qed
  have "att_ok (fst (fold (complete_session users h now) nss (?t2, mails @ completion_mail users h s)))"
  proof (rule Cons.IH [OF ok2])
    show "distinct (map fst nss)" using Cons.prems(2) by simp
    fix m assume m: "m \<in> fst ` set nss"
    then have "m \<noteq> n" using Cons.prems(2) ns by auto
    with m Cons.prems(3) show "m \<notin> at_id ` set ?t2" unfolding ids by auto
  qed
  then show ?case by (simp add: ns complete_session_pair)
qed simp

subsection \<open>The attendance state machine\<close>

definition fresh_row :: "uuid \<Rightarrow> attendance list \<Rightarrow> bool" where
  "fresh_row i tbl \<longleftrightarrow> i \<notin> at_id ` set tbl"

definition fresh_session :: "uuid \<Rightarrow> attendance list \<Rightarrow> bool" where
  "fresh_session s tbl \<longleftrightarrow> Some s \<notin> at_sessionId ` set tbl"

definition clock_ahead :: "db_time \<Rightarrow> attendance list \<Rightarrow> bool" where
  "clock_ahead now tbl \<longleftrightarrow> list_all (\<lambda>r. at_action r = CLOCK_IN \<longrightarrow> at_timestamp r < now) tbl"

inductive attendance_step :: "attendance list \<Rightarrow> attendance list \<Rightarrow> bool" where
  step_clock_in: "fresh_row i tbl \<Longrightarrow> fresh_session s tbl \<Longrightarrow> clock_ahead now tbl \<Longrightarrow>
     attendance_step tbl (snd (clock_in i s now u details tbl))"
| step_clock_out: "fresh_row i tbl \<Longrightarrow> attendance_step tbl (snd (clock_out i now u details tbl))"
| step_auto: "inj ids \<Longrightarrow> range ids \<inter> at_id ` set tbl = {} \<Longrightarrow>
     attendance_step tbl (fst (auto_complete_abandoned_sessions ids users h jsnow tbl))"

lemma attendance_step_ok: "attendance_step tbl tbl' \<Longrightarrow> att_ok tbl \<Longrightarrow> att_ok tbl'"
proof (induction rule: attendance_step.induct)
  case (step_clock_in i tbl s now u details)
  have "Some s \<notin> outs v tbl" for v using step_clock_in(2) by (auto simp: fresh_session_def outs_def)
  with step_clock_in show ?case
    by (intro clock_in_ok) (auto simp: fresh_row_def clock_ahead_def list_all_iff)
next
  case (step_clock_out i tbl now u details)
  then show ?case by (intro clock_out_ok) (auto simp: fresh_row_def)
next
  case (step_auto ids tbl users h jsnow)
  let ?n = "length (abandoned h jsnow tbl)"
  have "map fst (zip (map ids [0..<?n]) (abandoned h jsnow tbl)) = map ids [0..<?n]" by simp
  moreover have "distinct (map ids [0..<?n])"
    using step_auto(1) by (simp add: distinct_map inj_on_def inj_def)
  moreover have "m \<notin> at_id ` set tbl" if m: "m \<in> fst ` set (zip (map ids [0..<?n]) (abandoned h jsnow tbl))" for m
  proof -
    have "m \<in> set (map fst (zip (map ids [0..<?n]) (abandoned h jsnow tbl)))"
      using m by (simp only: set_map)
    moreover have "map fst (zip (map ids [0..<?n]) (abandoned h jsnow tbl)) = map ids [0..<?n]" by simp
    ultimately have "m \<in> set (map ids [0..<?n])" by (simp only:)
    then have "m \<in> range ids" by auto
    then show ?thesis using step_auto(2) by blast
  qed
  ultimately show ?case unfolding auto_complete_abandoned_sessions_def Let_def
    using step_auto(3) by (intro auto_complete_fold_ok) simp_all
qed

text \<open>In every state reachable by clocking in, clocking out and the hourly completion job, a user
  has at most one session without a clock-out.\<close>

theorem at_most_one_open_session:
  assumes "attendance_step\<^sup>*\<^sup>* [] tbl"
  shows "length (open_sessions u tbl) \<le> 1"
proof -
  have "att_ok tbl" using assms
  proof (induction rule: rtranclp_induct)
    case base
    show ?case by (simp add: att_ok_def single_open_def)
  qed (rule attendance_step_ok)
  then show ?thesis by (rule att_ok_open_sessions)
qed

lemma at_most_one_open_session_witness:
  "length (open_sessions ''u'' (snd (clock_in ''r'' ''s'' 5 ''u'' None []))) \<le> 1"
  by (rule at_most_one_open_session, rule r_into_rtranclp, rule step_clock_in)
    (simp_all add: fresh_row_def fresh_session_def clock_ahead_def)

text \<open>C28: On such a state clock-in is refused exactly when the user has an open session, and
  clock-out succeeds exactly then, closing it.\<close>

theorem clock_in_out_alternate:
  assumes "att_ok tbl" "fresh_row i tbl"
  shows "is_ok (fst (clock_in i s now u details tbl)) = (open_sessions u tbl = []) \<and>
    is_ok (fst (clock_out i now u details tbl)) = (open_sessions u tbl \<noteq> []) \<and>
    (is_ok (fst (clock_out i now u details tbl)) \<longrightarrow>
       open_sessions u (snd (clock_out i now u details tbl)) = [])"
proof -
  have iff: "open_sessions u tbl \<noteq> [] \<longleftrightarrow>
      (\<exists>r. latest_clock_in u tbl = Some r \<and> find_clock_out u (at_sessionId r) tbl = None)"
  proof
    assume "open_sessions u tbl \<noteq> []"
    then obtain x where "x \<in> set (clock_ins u tbl)" "at_sessionId x \<notin> outs u tbl"
      by (auto simp: open_sessions_def filter_empty_conv find_clock_out_iff)
    from open_is_latest [OF assms(1) in_clock_ins [OF this(1)] this(2)] this(2)
    show "\<exists>r. latest_clock_in u tbl = Some r \<and> find_clock_out u (at_sessionId r) tbl = None"
      by (auto simp: find_clock_out_iff)
  next
    assume "\<exists>r. latest_clock_in u tbl = Some r \<and> find_clock_out u (at_sessionId r) tbl = None"
    then show "open_sessions u tbl \<noteq> []"
      by (auto simp: open_sessions_def filter_empty_conv dest: latest_clock_in_Some(1))
  qed
  have ins: "is_ok (fst (clock_in i s now u details tbl)) = (open_sessions u tbl = [])"
    unfolding iff [THEN arg_cong [where f = Not], simplified]
    by (auto simp: clock_in_def split: option.split)
  have out: "is_ok (fst (clock_out i now u details tbl)) = (open_sessions u tbl \<noteq> [])"
    unfolding iff by (auto simp: clock_out_def split: option.split)
  have "open_sessions u (snd (clock_out i now u details tbl)) = []"
    if "is_ok (fst (clock_out i now u details tbl))"
  proof -
    have "open_sessions u tbl \<noteq> []" using that out by simp
    then obtain r where r: "latest_clock_in u tbl = Some r" "find_clock_out u (at_sessionId r) tbl = None"
      using iff by blast
    let ?x = "new_attendance i u CLOCK_OUT now (at_sessionId r) details"
    have t: "snd (clock_out i now u details tbl) = tbl @ [?x]"
      using assms(2) r by (simp add: clock_out_def save_new fresh_row_def new_attendance_def)
    have "at_sessionId x \<in> outs u (tbl @ [?x])" if "x \<in> set (clock_ins u (tbl @ [?x]))" for x
    proof (rule ccontr)
      assume n: "at_sessionId x \<notin> outs u (tbl @ [?x])"
      have "x \<in> set (clock_ins u tbl)" using that by (auto simp: clock_ins_def new_attendance_def)
      moreover have "at_sessionId x \<notin> outs u tbl" using n by (simp add: outs_append)
      ultimately have "at_sessionId x = at_sessionId r"
        using open_is_latest [OF assms(1) in_clock_ins] r(1) by fastforce
      with n show False by (simp add: outs_append outs_Cons new_attendance_def live_def)
    qed
    then show ?thesis unfolding t open_sessions_def by (simp add: filter_empty_conv find_clock_out_iff)
  qed
  with ins out show ?thesis by blast
qed

lemma clock_in_out_alternate_witness:
  "\<not> is_ok (fst (clock_out ''r'' 5 ''u'' None []))"
  using clock_in_out_alternate [of "[]" "''r''" "''s''" 5 "''u''" None]
  by (simp add: att_ok_def single_open_def fresh_row_def open_sessions_def clock_ins_def)

subsection \<open>Cursor pages\<close>

lemma newer_comparator: "comparator newer"
  unfolding comparator_def newer_def by (auto split: if_splits)

definition strictly_newer :: "attendance \<Rightarrow> attendance \<Rightarrow> bool" where
  "strictly_newer a b \<longleftrightarrow> at_timestamp b < at_timestamp a \<or> at_timestamp a = at_timestamp b \<and> at_id b < at_id a"

lemma sorted_strict_unique:
  assumes "sorted_wrt strictly_newer xs" "sorted_wrt strictly_newer ys" "set xs = set ys"
  shows "xs = ys"
  using assms
proof (induction xs arbitrary: ys)
  case (Cons x xs)
  then obtain y zs where ys: "ys = y # zs" by (cases ys) auto
  have irr: "\<not> strictly_newer a a" for a by (simp add: strictly_newer_def)
  have asym: "strictly_newer a b \<Longrightarrow> \<not> strictly_newer b a" for a b by (auto simp: strictly_newer_def)
  have "x = y" using Cons.prems ys asym by (metis list.set_intros(1) set_ConsD sorted_wrt.simps(2))
  moreover have "x \<notin> set xs" "y \<notin> set zs" using Cons.prems(1,2) ys irr by auto
  then have "set xs = set zs" using Cons.prems(3) ys \<open>x = y\<close> by auto
  ultimately show ?case using Cons.IH [of zs] Cons.prems(1,2) ys by simp
qed simp

lemma sorted_newer:
  assumes "distinct (map at_id rows)"
  shows "sorted_wrt strictly_newer (sort_by newer rows)"
proof -
  let ?s = "sort_by newer rows"
  have inj: "inj_on at_id (set rows)" "distinct rows" using assms by (simp_all add: distinct_map)
  have srt: "sorted_wrt (\<lambda>x y. newer x y \<le> 0) ?s" by (rule sorted_sort_by [OF newer_comparator])
  have dist: "distinct ?s" using inj(2) by simp
  show ?thesis unfolding sorted_wrt_iff_nth_less
  proof (intro allI impI)
    fix i j assume ij: "i < j" "j < length ?s"
    have n: "newer (?s ! i) (?s ! j) \<le> 0" using srt ij unfolding sorted_wrt_iff_nth_less by blast
    have "?s ! i \<noteq> ?s ! j" using dist ij by (simp add: nth_eq_iff_index_eq)
    moreover have "?s ! i \<in> set ?s" "?s ! j \<in> set ?s" using ij by (simp_all only: nth_mem order.strict_trans)
    then have "?s ! i \<in> set rows" "?s ! j \<in> set rows" by simp_all
    ultimately have "at_id (?s ! i) \<noteq> at_id (?s ! j)" using inj(1) by (meson inj_onD)
    with n show "strictly_newer (?s ! i) (?s ! j)"
      by (auto simp: newer_def strictly_newer_def split: if_splits)
  qed
qed

lemma sort_filter_newer:
  assumes "distinct (map at_id rows)" "k < length rows"
  shows "sort_by newer (filter (strictly_newer (sort_by newer rows ! k)) rows) =
    drop (Suc k) (sort_by newer rows)"
proof (rule sorted_strict_unique)
  let ?s = "sort_by newer rows"
  have s: "sorted_wrt strictly_newer ?s" by (rule sorted_newer [OF assms(1)])
  show "sorted_wrt strictly_newer (sort_by newer (filter (strictly_newer (?s ! k)) rows))"
    by (rule sorted_newer) (use assms(1) in \<open>auto simp: distinct_map intro: inj_on_subset\<close>)
  show "sorted_wrt strictly_newer (drop (Suc k) ?s)" using s by (rule sorted_wrt_drop)
  have "{r \<in> set ?s. strictly_newer (?s ! k) r} = set (drop (Suc k) ?s)"
  proof (intro equalityI subsetI)
    fix r assume "r \<in> {r \<in> set ?s. strictly_newer (?s ! k) r}"
    then have r: "r \<in> set ?s" "strictly_newer (?s ! k) r" by blast+
    from r(1) obtain j where "j < length ?s" "?s ! j = r" unfolding in_set_conv_nth by blast
    with r(2) have j: "j < length ?s" "r = ?s ! j" "strictly_newer (?s ! k) (?s ! j)" by simp_all
    have "k < j"
    proof (rule ccontr)
      assume "\<not> k < j"
      then have "j = k \<or> strictly_newer (?s ! j) (?s ! k)"
        using s assms(2) unfolding sorted_wrt_iff_nth_less by (metis length_sort_by linorder_neqE_nat)
      with j(3) show False by (auto simp: strictly_newer_def)
    qed
    then show "r \<in> set (drop (Suc k) ?s)"
      using j(1,2) by (auto simp: in_set_conv_nth intro!: exI [of _ "j - Suc k"])
  next
    fix r assume "r \<in> set (drop (Suc k) ?s)"
    then obtain j where j: "j < length ?s - Suc k" "r = ?s ! (Suc k + j)"
      by (auto simp: in_set_conv_nth)
    then have "j < length ?s - Suc k" "r = ?s ! (Suc k + j)" by blast+
    moreover from this have "?s ! (Suc k + j) \<in> set ?s" by (intro nth_mem) simp
    moreover have "strictly_newer (?s ! k) (?s ! (Suc k + j))"
      using s \<open>j < length ?s - Suc k\<close> unfolding sorted_wrt_iff_nth_less by simp
    ultimately show "r \<in> {r \<in> set ?s. strictly_newer (?s ! k) r}" by blast
  qed
  then show "set (sort_by newer (filter (strictly_newer (?s ! k)) rows)) = set (drop (Suc k) ?s)" by simp
qed

lemma encode_cursor_nonempty: "encode_cursor p \<noteq> []"
proof
  assume "encode_cursor p = []"
  then have "decode_cursor [] = Inr p" using cursor_roundtrip [of p] by simp
  then show False
    by (simp add: decode_cursor_def restore_base64_def b64_decode_def List.map_filter_simps json_parse_def)
qed

lemma get_my_attendance_cursor:
  assumes "0 \<le> get_utc_full_year (js_date (at_timestamp r))" "get_utc_full_year (js_date (at_timestamp r)) \<le> 9999"
  shows "get_my_attendance u \<lparr>cq_cursor = Some (cursor_of r), cq_limit = Some n\<rparr> tbl =
    Inr (cursor_page n (filter (after_cursor (js_date (at_timestamp r)) (at_id r))
      (filter (\<lambda>x. live x \<and> at_userId x = u) tbl)))"
  using date_parse_to_iso [OF assms]
  by (simp add: get_my_attendance_def cursor_of_def cursor_roundtrip encode_cursor_nonempty Let_def)

text \<open>When timestamps are whole milliseconds, following a cursor continues exactly where the page
  ended: asking with the cursor of the k-th record of the list gives the next records, tells
  whether more remain, and hands out the cursor of the last record given.\<close>

theorem cursor_pages_continue:
  assumes "rows = filter (\<lambda>x. live x \<and> at_userId x = u) tbl" "distinct (map at_id rows)"
    and "\<And>r. r \<in> set rows \<Longrightarrow> at_timestamp r mod 1000 = 0"
    and "0 \<le> get_utc_full_year (js_date (at_timestamp (sort_by newer rows ! k)))"
    and "get_utc_full_year (js_date (at_timestamp (sort_by newer rows ! k))) \<le> 9999"
    and "k < length rows" "0 < n"
  shows "\<exists>page. get_my_attendance u \<lparr>cq_cursor = Some (cursor_of (sort_by newer rows ! k)), cq_limit = Some n\<rparr> tbl = Inr page \<and>
    ap_data page = take n (drop (Suc k) (sort_by newer rows)) \<and>
    ap_hasMore page = (Suc k + n < length rows) \<and>
    ap_nextCursor page = (if Suc k + n < length rows then Some (cursor_of (sort_by newer rows ! (k + n))) else None)"
proof -
  let ?s = "sort_by newer rows"
  let ?r = "?s ! k"
  have "?r \<in> set ?s" using assms(6) by (intro nth_mem) simp
  then have "?r \<in> set rows" by simp
  then have m: "at_timestamp ?r mod 1000 = 0" using assms(3) by blast
  have ts: "db_date (js_date (at_timestamp ?r)) = at_timestamp ?r"
    using m by (auto simp: db_date_def js_date_def)
  have ac: "after_cursor (js_date (at_timestamp ?r)) (at_id ?r) = strictly_newer ?r"
    by (rule ext) (auto simp: after_cursor_def strictly_newer_def ts)
  have "get_my_attendance u \<lparr>cq_cursor = Some (cursor_of ?r), cq_limit = Some n\<rparr> tbl =
      Inr (cursor_page n (filter (strictly_newer ?r) rows))"
    by (simp only: get_my_attendance_cursor [OF assms(4,5)] assms(1) [symmetric] ac)
  moreover have "length ?s = length rows" by simp
  ultimately show ?thesis
    using assms(6,7) sort_filter_newer [OF assms(2,6)]
    by (auto simp: cursor_page_def Let_def last_conv_nth min_def)
qed

definition sample_att :: "uuid \<Rightarrow> db_time \<Rightarrow> attendance" where
  "sample_att i t = new_attendance i ''u'' CLOCK_IN t (Some i) None"

lemma cursor_pages_continue_witness:
  "\<exists>page. get_my_attendance ''u'' \<lparr>cq_cursor = Some (cursor_of (sample_att ''a'' 3000)), cq_limit = Some 1\<rparr>
      [sample_att ''b'' 2000, sample_att ''a'' 3000] = Inr page \<and>
    ap_data page = [sample_att ''b'' 2000]"
proof -
  let ?rows = "[sample_att ''b'' 2000, sample_att ''a'' 3000]"
  have s: "sort_by newer ?rows = [sample_att ''a'' 3000, sample_att ''b'' 2000]"
    by (simp add: newer_def sample_att_def new_attendance_def)
  have f: "?rows = filter (\<lambda>x. live x \<and> at_userId x = ''u'') ?rows"
    by (simp add: sample_att_def new_attendance_def live_def)
  have y: "get_utc_full_year (js_date 3000) = 1970" by code_simp
  have ts: "at_timestamp (sample_att i t) = t" "at_id (sample_att i t) = i" for i t
    by (simp_all add: sample_att_def new_attendance_def)
  have m: "at_timestamp r mod 1000 = 0" if "r \<in> set ?rows" for r using that by (auto simp: ts)
  have d: "distinct (map at_id ?rows)" by (simp add: ts)
  have n: "sort_by newer ?rows ! 0 = sample_att ''a'' 3000" "drop (Suc 0) (sort_by newer ?rows) = [sample_att ''b'' 2000]"
    by (simp_all only: s nth_Cons_0 drop_Suc_Cons drop_0)
  show ?thesis
    using cursor_pages_continue [OF f d m, of 0 1, unfolded n ts y] by force
qed

text \<open>The cursor has milliseconds, the column microseconds: a record that shares the
  millisecond of the last record of a page but is older is not on the next page, nor on
  any later one.\<close>

theorem cursor_skips_same_millisecond:
  assumes "0 \<le> get_utc_full_year (js_date (at_timestamp r))" "get_utc_full_year (js_date (at_timestamp r)) \<le> 9999"
    and "at_timestamp x < at_timestamp r" "js_date (at_timestamp x) = js_date (at_timestamp r)"
    and "at_timestamp x mod 1000 \<noteq> 0"
    and "get_my_attendance u \<lparr>cq_cursor = Some (cursor_of r), cq_limit = Some n\<rparr> tbl = Inr page"
  shows "strictly_newer r x \<and> x \<notin> set (ap_data page)"
proof -
  have "\<not> after_cursor (js_date (at_timestamp r)) (at_id r) x"
    using assms(3,4,5) mult_div_mod_eq [of 1000 "at_timestamp x"]
      pos_mod_sign [of 1000 "at_timestamp x"]
    by (auto simp: after_cursor_def db_date_def js_date_def)
  moreover have "set (ap_data (cursor_page n rows)) \<subseteq> set rows" for rows
    using set_take_subset [of "n + 1" "sort_by newer rows"] set_take_subset [of n "take (n + 1) (sort_by newer rows)"]
    by (auto simp: cursor_page_def Let_def dest: in_set_takeD)
  ultimately show ?thesis
    using assms(3,6) unfolding get_my_attendance_cursor [OF assms(1,2)] strictly_newer_def by fastforce
qed

lemma cursor_skips_same_millisecond_witness:
  "\<exists>page. get_my_attendance ''u'' \<lparr>cq_cursor = Some (cursor_of (sample_att ''a'' 1500)), cq_limit = Some 1\<rparr>
      [sample_att ''b'' 1200, sample_att ''a'' 1500] = Inr page \<and>
    sample_att ''b'' 1200 \<notin> set (ap_data page)"
proof -
  have y: "get_utc_full_year (js_date 1500) = 1970" by code_simp
  let ?r = "sample_att ''a'' 1500"
  have ts: "at_timestamp ?r = 1500" "at_timestamp (sample_att ''b'' 1200) = 1200"
    by (simp_all add: sample_att_def new_attendance_def)
  have r: "0 \<le> get_utc_full_year (js_date (at_timestamp ?r))" "get_utc_full_year (js_date (at_timestamp ?r)) \<le> 9999"
    by (simp_all add: ts y)
  obtain page where p: "get_my_attendance ''u'' \<lparr>cq_cursor = Some (cursor_of ?r), cq_limit = Some 1\<rparr>
      [sample_att ''b'' 1200, ?r] = Inr page"
    using get_my_attendance_cursor [OF r] by blast
  from cursor_skips_same_millisecond [OF r _ _ _ p, of "sample_att ''b'' 1200"] p show ?thesis
    by (auto simp: ts js_date_def)
qed

end
