(* ===== verification/Number_Text.thy ===== *)
theory Number_Text
  imports JsNumber Iso_Dates
begin

text \<open>
  The text of a number, as template literals print it (Number::toString of the language
  definition): the shortest decimal whose nearest double is the number, written without an
  exponent while the decimal point lies within 21 digits to the right and 6 zeros to the left.
\<close>

text \<open>\<open>dec_exp x\<close> for positive x: the n with \<open>10^(n-1) \<le> x < 10^n\<close>.\<close>

definition dec_exp :: "num \<Rightarrow> int" where
  "dec_exp x = (if 1 \<le> x then int (length (nat_string (nat \<lfloor>x\<rfloor>)))
                else 1 - int (length (nat_string (nat (\<lceil>1 / x\<rceil> - 1)))))"

text \<open>The candidate of k digits, and the least k whose candidate reads back as x.\<close>

definition digits_of :: "num \<Rightarrow> nat \<Rightarrow> nat" where
  "digits_of x k = nat \<lfloor>x * 10 powi (int k - dec_exp x) + 1 / 2\<rfloor>"

definition reads_back :: "num \<Rightarrow> nat \<Rightarrow> bool" where
  "reads_back x k \<longleftrightarrow> fl (of_nat (digits_of x k) * 10 powi (dec_exp x - int k)) = x"

definition shortest_digits :: "num \<Rightarrow> nat" where
  "shortest_digits x = (case List.find (reads_back x) [1..<18] of Some k \<Rightarrow> k | None \<Rightarrow> 17)"

definition positive_string :: "num \<Rightarrow> string" where
  "positive_string x =
     (let n = dec_exp x; k = shortest_digits x; s = nat_string (digits_of x k)
      in if int k \<le> n \<and> n \<le> 21 then s @ replicate (nat n - k) (CHR ''0'')
         else if 0 < n \<and> n \<le> 21 then take (nat n) s @ ''.'' @ drop (nat n) s
         else if - 6 < n \<and> n \<le> 0 then ''0.'' @ replicate (nat (- n)) (CHR ''0'') @ s
         else take 1 s @ (if k = 1 then [] else ''.'' @ drop 1 s) @ ''e'' @
              (if 0 < n - 1 then ''+'' else ''-'') @ int_string \<bar>n - 1\<bar>)"

definition num_string :: "num \<Rightarrow> string" where
  "num_string x = (if x = 0 then ''0'' else if x < 0 then ''-'' @ positive_string (- x) else positive_string x)"

subsection \<open>The characters of a number\<close>

definition number_char :: "char \<Rightarrow> bool" where
  "number_char c \<longleftrightarrow> (48 \<le> (of_char c :: nat) \<and> (of_char c :: nat) \<le> 57) \<or> c \<in> set ''.-+e''"

lemma number_char_consts [simp]:
  "number_char (CHR ''0'')" "number_char (CHR ''.'')" "number_char (CHR ''-'')" "number_char (CHR ''+'')" "number_char (CHR ''e'')"
  by (simp_all add: number_char_def)

lemma nat_string_chars: "c \<in> set (nat_string n) \<Longrightarrow> number_char c"
  using digits_nat_string [of n] by (simp add: digits_def list_all_iff number_char_def)

lemma positive_string_chars: "c \<in> set (positive_string x) \<Longrightarrow> number_char c"
  by (auto simp: positive_string_def Let_def int_string_def number_char_consts split: if_splits
      dest: nat_string_chars in_set_takeD in_set_dropD)

lemma num_string_chars: "c \<in> set (num_string x) \<Longrightarrow> number_char c"
  by (auto simp: num_string_def number_char_consts dest: positive_string_chars split: if_splits)

lemma num_string_plain:
  "CHR '','' \<notin> set (num_string x)" "CHR 0x0A \<notin> set (num_string x)" "CHR 0x0D \<notin> set (num_string x)"
  "CHR 0x22 \<notin> set (num_string x)"
  using num_string_chars by (fastforce simp: number_char_def)+

end
