(* ===== verification/Reports.thy ===== *)
theory Reports
  imports Analytics Number_Text
begin

text \<open>
  The revenue and occupancy reports (backend/src/reports/reports.service.ts) and the caching of
  their routes (reports.controller.ts). The server runs in UTC. \<open>new Date(text)\<close> is given by
  \<open>parse\<close>; an invalid date makes the query fail. SQL aggregates and \<open>TO_CHAR\<close> follow the
  PostgreSQL documentation; query builders leave out rows that are deleted, joined ones included.
\<close>

datatype group_by = GbDay | GbWeek | GbMonth

record revenue_query =
  rq_startDate :: "string option"
  rq_endDate :: "string option"
  rq_workspaceType :: "workspace_type option"
  rq_status :: "booking_status option"
  rq_groupBy :: "group_by option"

record occupancy_query =
  oq_startDate :: "string option"
  oq_endDate :: "string option"
  oq_workspaceType :: "workspace_type option"

record revenue_period =
  rp_period :: string
  rp_totalRevenue :: num
  rp_bookingCount :: nat
  rp_averageBookingValue :: num

record revenue_report =
  rr_totalRevenue :: num
  rr_totalBookings :: nat
  rr_averageBookingValue :: num
  rr_startDate :: string
  rr_endDate :: string
  rr_breakdown :: "revenue_period list"

record workspace_occupancy =
  wo_workspaceId :: uuid
  wo_workspaceName :: string
  wo_workspaceType :: workspace_type
  wo_capacity :: int
  wo_totalBookings :: nat
  wo_confirmedBookings :: nat
  wo_totalBookedHours :: num
  wo_availableHours :: num
  wo_utilizationPct :: num

record occupancy_report =
  or_startDate :: string
  or_endDate :: string
  or_workspaces :: "workspace_occupancy list"
  or_overallUtilizationPct :: num

subsection \<open>The date range\<close>

definition resolve_date_range ::
  "(string \<Rightarrow> instant option) \<Rightarrow> instant \<Rightarrow> string option \<Rightarrow> string option \<Rightarrow> (instant \<times> instant) result" where
  "resolve_date_range parse now startDate endDate =
     (case date_argument parse endDate of Inl e \<Rightarrow> Inl e
      | Inr e1 \<Rightarrow>
        (let end1 = set_utc_hours4 23 59 59 999 (case e1 of Some t \<Rightarrow> t | None \<Rightarrow> now)
         in (case date_argument parse startDate of Inl e \<Rightarrow> Inl e
             | Inr s1 \<Rightarrow> Inr (set_utc_hours4 0 0 0 0
                 (case s1 of Some t \<Rightarrow> t | None \<Rightarrow> end1 - 30 * 24 * 60 * 60 * 1000), end1))))"

subsection \<open>Revenue\<close>

text \<open>The first day of the ISO week (Monday) of a day; day 0 is a Thursday. \<open>trunc_unit\<close> numbers the
  periods, \<open>period_label\<close> prints them: the format of weeks, \<open>IYYYY-IW\<close>, is the ISO year, the last
  digit of the calendar year (the fifth Y), and the ISO week.\<close>

definition monday_of :: "int \<Rightarrow> int" where "monday_of n = n - (n + 3) mod 7"

definition trunc_unit :: "group_by \<Rightarrow> instant \<Rightarrow> int" where
  "trunc_unit g t = (case g of GbDay \<Rightarrow> day_of t | GbWeek \<Rightarrow> monday_of (day_of t) | GbMonth \<Rightarrow> month_of t)"

definition iso_week_year :: "int \<Rightarrow> int" where
  "iso_week_year monday = get_utc_full_year ((monday + 3) * ms_per_day)"

definition iso_week :: "int \<Rightarrow> int" where
  "iso_week monday = (monday + 3 - days_of_civil (iso_week_year monday) 1 1) div 7 + 1"

definition period_label :: "group_by \<Rightarrow> int \<Rightarrow> string" where
  "period_label g p = (case g of
     GbDay \<Rightarrow> day_label p
   | GbWeek \<Rightarrow> pad_number 4 (iso_week_year p) @ int_string (get_utc_full_year (p * ms_per_day) mod 10) @ ''-'' @
             pad_number 2 (iso_week p)
   | GbMonth \<Rightarrow> month_label p)"

definition revenue_rows :: "db \<Rightarrow> instant \<Rightarrow> instant \<Rightarrow> revenue_query \<Rightarrow> booking list" where
  "revenue_rows d start end1 q =
     filter (\<lambda>b. case find_workspace d (bk_workspaceId b) of
          None \<Rightarrow> False
        | Some w \<Rightarrow> start \<le> bk_startTime b \<and> bk_startTime b \<le> end1 \<and>
            (case rq_workspaceType q of None \<Rightarrow> True | Some ty \<Rightarrow> w_type w = ty) \<and>
            (case rq_status q of None \<Rightarrow> True | Some st \<Rightarrow> bk_status b = st))
       (undeleted_bookings d)"

definition revenue_period_of :: "group_by \<Rightarrow> int \<times> booking list \<Rightarrow> revenue_period" where
  "revenue_period_of g r =
     (let revenue = decimal_sum (map bk_totalAmount (snd r)); count = length (snd r)
      in \<lparr>rp_period = period_label g (fst r), rp_totalRevenue = revenue, rp_bookingCount = count,
          rp_averageBookingValue = (if count > 0 then num_to_fixed 2 (js_div revenue (js_int (int count))) else 0)\<rparr>)"

definition get_revenue ::
  "(string \<Rightarrow> instant option) \<Rightarrow> instant \<Rightarrow> revenue_query \<Rightarrow> db \<Rightarrow> revenue_report result" where
  "get_revenue parse now q d =
     (case resolve_date_range parse now (rq_startDate q) (rq_endDate q) of Inl e \<Rightarrow> Inl e
      | Inr (start, end1) \<Rightarrow>
        (let g = (case rq_groupBy q of None \<Rightarrow> GbDay | Some g \<Rightarrow> g);
             breakdown = map (revenue_period_of g)
               (group_rows (\<lambda>b. trunc_unit g (bk_startTime b)) (revenue_rows d start end1 q));
             totalRevenue = js_sum (map rp_totalRevenue breakdown);
             totalBookings = sum_list (map rp_bookingCount breakdown)
         in Inr \<lparr>rr_totalRevenue = num_to_fixed 2 totalRevenue, rr_totalBookings = totalBookings,
                 rr_averageBookingValue = (if totalBookings > 0
                    then num_to_fixed 2 (js_div totalRevenue (js_int (int totalBookings))) else 0),
                 rr_startDate = iso_date start, rr_endDate = iso_date end1, rr_breakdown = breakdown\<rparr>))"

subsection \<open>CSV export\<close>

definition csv_row :: "revenue_period \<Rightarrow> string" where
  "csv_row r = rp_period r @ '','' @ num_string (rp_totalRevenue r) @ '','' @
     nat_string (rp_bookingCount r) @ '','' @ num_string (rp_averageBookingValue r)"

definition csv_header :: string where
  "csv_header = ''period,totalRevenue,bookingCount,averageBookingValue''"

definition csv_summary :: "revenue_report \<Rightarrow> string list" where
  "csv_summary rep =
     [''# Revenue Report: '' @ rr_startDate rep @ '' to '' @ rr_endDate rep,
      ''# Total Revenue: '' @ num_string (rr_totalRevenue rep),
      ''# Total Bookings: '' @ nat_string (rr_totalBookings rep),
      ''# Average Booking Value: '' @ num_string (rr_averageBookingValue rep),
      '''']"

fun join_with :: "string \<Rightarrow> string list \<Rightarrow> string" where
  "join_with sep [] = []"
| "join_with sep [x] = x"
| "join_with sep (x # y # ys) = x @ sep @ join_with sep (y # ys)"

definition revenue_csv :: "revenue_report \<Rightarrow> string" where
  "revenue_csv rep = join_with [CHR 0x0A] (csv_summary rep @ [csv_header] @ map csv_row (rr_breakdown rep))"

definition get_revenue_csv ::
  "(string \<Rightarrow> instant option) \<Rightarrow> instant \<Rightarrow> revenue_query \<Rightarrow> db \<Rightarrow> string result" where
  "get_revenue_csv parse now q d =
     (case get_revenue parse now q d of Inl e \<Rightarrow> Inl e | Inr rep \<Rightarrow> Inr (revenue_csv rep))"

record csv_response =
  cr_contentType :: string
  cr_disposition :: string
  cr_cacheControl :: string
  cr_body :: string

definition export_revenue_csv ::
  "(string \<Rightarrow> instant option) \<Rightarrow> instant \<Rightarrow> revenue_query \<Rightarrow> db \<Rightarrow> csv_response result" where
  "export_revenue_csv parse now q d =
     (case get_revenue_csv parse now q d of Inl e \<Rightarrow> Inl e
      | Inr csv \<Rightarrow> Inr \<lparr>cr_contentType = ''text/csv; charset=utf-8'',
          cr_disposition = ''attachment; filename='' @ [CHR 0x22] @ ''revenue-report-'' @ iso_date now @ ''.csv'' @ [CHR 0x22],
          cr_cacheControl = ''no-store'', cr_body = csv\<rparr>)"

subsection \<open>Occupancy\<close>

definition period_hours :: "instant \<Rightarrow> instant \<Rightarrow> num" where
  "period_hours start end1 =
     js_div (js_int (js_round (js_mul (js_div (js_int (end1 - start)) 3600000) 10))) 10"

record booking_stats =
  bs_totalBookings :: nat
  bs_confirmedBookings :: nat
  bs_totalBookedHours :: num

text \<open>The row of the grouped query for a workspace, if it has a booking in the range. The sum of the
  hours is computed by the database and read as a number.\<close>

definition booking_stats_of :: "db \<Rightarrow> instant \<Rightarrow> instant \<Rightarrow> uuid \<Rightarrow> booking_stats option" where
  "booking_stats_of d start end1 i =
     (let bs = filter (\<lambda>b. bk_workspaceId b = i \<and> start \<le> bk_startTime b \<and> bk_startTime b \<le> end1) (undeleted_bookings d);
          confirmed = filter (\<lambda>b. bk_status b = CONFIRMED) bs
      in if bs = [] then None
         else Some \<lparr>bs_totalBookings = length bs, bs_confirmedBookings = length confirmed,
                    bs_totalBookedHours =
                      fl (sum_list (map (\<lambda>b. of_int (bk_endTime b - bk_startTime b) / 3600000) confirmed))\<rparr>)"

definition percentage :: "num \<Rightarrow> num \<Rightarrow> num" where
  "percentage booked available =
     (if available > 0 then min 100 (num_to_fixed 1 (js_mul (js_div booked available) 100)) else 0)"

definition workspace_occupancy_of :: "db \<Rightarrow> instant \<Rightarrow> instant \<Rightarrow> workspace \<Rightarrow> workspace_occupancy" where
  "workspace_occupancy_of d start end1 ws =
     (let stats = booking_stats_of d start end1 (w_id ws);
          totalBookings = (case stats of None \<Rightarrow> 0 | Some s \<Rightarrow> bs_totalBookings s);
          confirmedBookings = (case stats of None \<Rightarrow> 0 | Some s \<Rightarrow> bs_confirmedBookings s);
          totalBookedHours = (case stats of None \<Rightarrow> 0 | Some s \<Rightarrow> bs_totalBookedHours s);
          availableHours = js_mul (period_hours start end1) (js_int (w_capacity ws))
      in \<lparr>wo_workspaceId = w_id ws, wo_workspaceName = w_name ws, wo_workspaceType = w_type ws,
          wo_capacity = w_capacity ws, wo_totalBookings = totalBookings,
          wo_confirmedBookings = confirmedBookings, wo_totalBookedHours = num_to_fixed 1 totalBookedHours,
          wo_availableHours = num_to_fixed 1 availableHours,
          wo_utilizationPct = percentage totalBookedHours availableHours\<rparr>)"

definition get_occupancy ::
  "(string \<Rightarrow> instant option) \<Rightarrow> instant \<Rightarrow> occupancy_query \<Rightarrow> db \<Rightarrow> occupancy_report result" where
  "get_occupancy parse now q d =
     (case resolve_date_range parse now (oq_startDate q) (oq_endDate q) of Inl e \<Rightarrow> Inl e
      | Inr (start, end1) \<Rightarrow>
        (let workspaces = filter (\<lambda>w. w_isActive w \<and>
               (case oq_workspaceType q of None \<Rightarrow> True | Some ty \<Rightarrow> w_type w = ty)) (live_workspaces d);
             wsOccupancy = map (workspace_occupancy_of d start end1) workspaces
         in Inr \<lparr>or_startDate = iso_date start, or_endDate = iso_date end1, or_workspaces = wsOccupancy,
                 or_overallUtilizationPct = percentage (js_sum (map wo_totalBookedHours wsOccupancy))
                   (js_sum (map wo_availableHours wsOccupancy))\<rparr>))"

subsection \<open>The routes\<close>

text \<open>A route with \<open>CacheInterceptor\<close> and a fixed \<open>CacheKey\<close>: the answer kept and its expiry. The
  parameters of the request are no part of the key; an error is not kept.\<close>

type_synonym 'a route_cache = "('a \<times> instant) option"

definition route_cached :: "instant \<Rightarrow> int \<Rightarrow> 'a result \<Rightarrow> 'a route_cache \<Rightarrow> 'a result \<times> 'a route_cache" where
  "route_cached now ttl answer c =
     (case c of
        Some (v, expires) \<Rightarrow> if now < expires then (Inr v, c)
          else (case answer of Inl e \<Rightarrow> (Inl e, c) | Inr a \<Rightarrow> (Inr a, Some (a, now + ttl)))
      | None \<Rightarrow> (case answer of Inl e \<Rightarrow> (Inl e, c) | Inr a \<Rightarrow> (Inr a, Some (a, now + ttl))))"

definition revenue_handler ::
  "(string \<Rightarrow> instant option) \<Rightarrow> instant \<Rightarrow> revenue_query \<Rightarrow> db \<Rightarrow> revenue_report route_cache
   \<Rightarrow> revenue_report result \<times> revenue_report route_cache" where
  "revenue_handler parse now q d = route_cached now 300 (get_revenue parse now q d)"

definition occupancy_handler ::
  "(string \<Rightarrow> instant option) \<Rightarrow> instant \<Rightarrow> occupancy_query \<Rightarrow> db \<Rightarrow> occupancy_report route_cache
   \<Rightarrow> occupancy_report result \<times> occupancy_report route_cache" where
  "occupancy_handler parse now q d = route_cached now 300 (get_occupancy parse now q d)"

end
