(* ===== verification/Attendance_Report.thy ===== *)
theory Attendance_Report
  imports Reports Js_Strings Bookings
begin

text \<open>
  The attendance timeline of the browser: ISO weeks, durations and anomalies
  (frontend/src/utils/dateUtils.ts), the CSV export (frontend/src/utils/exportToCSV.ts) and the
  grouping, filters and totals of the timeline (frontend/src/components/attendance and
  frontend/src/app/dashboard/attendance/page.tsx). \<open>parse\<close> is \<open>new Date(text)\<close>, None for an
  invalid date; \<open>now\<close> is \<open>Date.now()\<close>; \<open>tz\<close> is the offset of the browser's time zone in
  milliseconds, local time minus UTC; \<open>gap\<close> is the blank the locale data put before AM and PM.
\<close>

subsection \<open>ISO weeks\<close>

definition thursday_of :: "instant \<Rightarrow> instant" where \<comment> \<open>the same time of the day, that week's Thursday\<close>
  "thursday_of t = t + (3 - (get_utc_day t + 6) mod 7) * ms_per_day"

definition get_iso_week :: "int \<Rightarrow> instant option \<Rightarrow> int" where
  "get_iso_week tz d =
     (case d of
        None \<Rightarrow> 1
      | Some t \<Rightarrow>
        (let target = thursday_of t;
             jan4 = days_of_civil (get_utc_full_year target) 1 4 * ms_per_day - tz;
             firstThursday = thursday_of jan4;
             weekDiff = js_div (js_int (target - firstThursday)) (86400000 * 7)
         in 1 + js_round weekDiff))"

definition get_iso_week_year :: "instant \<Rightarrow> instant option \<Rightarrow> int" where
  "get_iso_week_year now d =
     (case d of None \<Rightarrow> get_utc_full_year now | Some t \<Rightarrow> get_utc_full_year (thursday_of t))"

definition get_iso_week_key :: "int \<Rightarrow> instant \<Rightarrow> instant option \<Rightarrow> string" where
  "get_iso_week_key tz now d = int_string (get_iso_week_year now d) @ ''-W'' @ pad_number 2 (get_iso_week tz d)"

definition get_iso_week_bounds :: "instant \<Rightarrow> instant \<times> instant" where
  "get_iso_week_bounds t =
     (let day = (get_utc_day t + 6) mod 7;
          start = set_utc_hours4 0 0 0 0 (t - day * ms_per_day);
          end1 = set_utc_hours4 23 59 59 999 (start + 6 * ms_per_day)
      in (start, end1))"

definition short_month :: "int \<Rightarrow> string" where
  "short_month m = [''Jan'', ''Feb'', ''Mar'', ''Apr'', ''May'', ''Jun'', ''Jul'', ''Aug'', ''Sep'', ''Oct'', ''Nov'', ''Dec''] ! nat m"

definition en_dash :: string where "en_dash = map char_of [226::nat, 128, 147]"
definition bullet :: string where "bullet = map char_of [226::nat, 128, 162]"

definition get_iso_week_range_label :: "int \<Rightarrow> instant \<Rightarrow> string" where
  "get_iso_week_range_label tz t =
     (case get_iso_week_bounds t of (start, end1) \<Rightarrow>
        ''Week '' @ int_string (get_iso_week tz (Some t)) @ '' '' @ bullet @ '' '' @
        short_month (get_utc_month start) @ '' '' @ int_string (get_utc_date start) @ '' '' @ en_dash @ '' '' @
        short_month (get_utc_month end1) @ '' '' @ int_string (get_utc_date end1) @ '', '' @
        int_string (get_utc_full_year end1))"

subsection \<open>Durations and anomalies\<close>

record session_duration =
  sd_minutes :: int
  sd_formatted :: string
  sd_isCompleted :: bool

definition minutes_between :: "instant \<Rightarrow> instant \<Rightarrow> int" where
  "minutes_between a b = js_round (js_div (js_int (b - a)) 60000)"

definition hours_minutes :: "int \<Rightarrow> string" where
  "hours_minutes mins =
     (let hours = \<lfloor>js_div (js_int mins) 60\<rfloor>; remainingMins = mins mod 60
      in if hours > 0 then int_string hours @ ''h '' @ int_string remainingMins @ ''m''
         else int_string remainingMins @ ''m'')"

definition calculate_duration ::
  "(string \<Rightarrow> instant option) \<Rightarrow> instant \<Rightarrow> string \<Rightarrow> string option \<Rightarrow> session_duration" where
  "calculate_duration parse now clockIn clockOut =
     (case parse clockIn of
        None \<Rightarrow> \<lparr>sd_minutes = 0, sd_formatted = em_dash, sd_isCompleted = False\<rparr>
      | Some start \<Rightarrow>
        if \<not> truthy clockOut
        then \<lparr>sd_minutes = max 0 (minutes_between start now), sd_formatted = ''Active'', sd_isCompleted = False\<rparr>
        else (case parse (the clockOut) of
           None \<Rightarrow> \<lparr>sd_minutes = 0, sd_formatted = ''Invalid'', sd_isCompleted = False\<rparr>
         | Some end1 \<Rightarrow>
           if end1 < start then \<lparr>sd_minutes = 0, sd_formatted = ''Invalid'', sd_isCompleted = False\<rparr>
           else \<lparr>sd_minutes = minutes_between start end1,
                 sd_formatted = hours_minutes (minutes_between start end1), sd_isCompleted = True\<rparr>))"

record session_record =
  sr_id :: string
  sr_userId :: "string option"
  sr_memberName :: "string option"
  sr_clockIn :: string
  sr_clockOut :: "string option"
  sr_date :: string
  sr_isAnomaly :: "bool option"
  sr_anomalyReason :: "string option"
  sr_autoCompleted :: "bool option"
  sr_autoCompletedReason :: "string option"

definition or_else :: "string option \<Rightarrow> string \<Rightarrow> string" where \<comment> \<open>\<open>x ?? d\<close>\<close>
  "or_else x d = (case x of Some s \<Rightarrow> s | None \<Rightarrow> d)"

definition record_date :: "session_record \<Rightarrow> string" where \<comment> \<open>\<open>record.date || record.clockIn.slice(0, 10)\<close>\<close>
  "record_date r = (if sr_date r \<noteq> [] then sr_date r else take 10 (sr_clockIn r))"

text \<open>The reason of the anomaly, None for a record without one.\<close>

definition anomaly_reason :: "(string \<Rightarrow> instant option) \<Rightarrow> instant \<Rightarrow> session_record \<Rightarrow> string option" where
  "anomaly_reason parse now r =
     (if sr_isAnomaly r = Some True then Some (or_else (sr_anomalyReason r) ''Flagged anomaly'')
      else if sr_autoCompleted r = Some True
      then Some (or_else (sr_autoCompletedReason r) ''Auto-completed due to inactivity'')
      else if \<not> truthy (sr_clockOut r) \<and> record_date r < take 10 (to_iso now)
      then Some ''Missing clock-out for past date''
      else if sr_clockIn r \<noteq> [] \<and> truthy (sr_clockOut r)
      then (let minutes = sd_minutes (calculate_duration parse now (sr_clockIn r) (sr_clockOut r))
            in if minutes > 720
               then Some (''Excessive session length ('' @ int_string (js_round (js_div (js_int minutes) 60)) @ ''h)'')
               else if minutes < 1 then Some ''Sub-minute session duration'' else None)
      else None)"

definition format_time_label :: "(string \<Rightarrow> instant option) \<Rightarrow> string \<Rightarrow> string option \<Rightarrow> string" where
  "format_time_label parse gap s =
     (if \<not> truthy s then em_dash
      else (case parse (the s) of
         None \<Rightarrow> em_dash
       | Some t \<Rightarrow>
         (let h = get_utc_hours t; h12 = (if h mod 12 = 0 then 12 else h mod 12)
          in pad_number 2 h12 @ '':'' @ pad_number 2 (t mod ms_per_hour div ms_per_minute) @ gap @
             (if h < 12 then ''AM'' else ''PM''))))"

subsection \<open>CSV\<close>

definition quote_char :: char where "quote_char = CHR 0x22"
definition crlf :: string where "crlf = [CHR 0x0D, CHR 0x0A]"

definition escape_csv_cell :: "string \<Rightarrow> string" where
  "escape_csv_cell s =
     (if set s \<inter> {quote_char, CHR '','', CHR 0x0D, CHR 0x0A} \<noteq> {}
      then quote_char # concat (map (\<lambda>c. if c = quote_char then [quote_char, quote_char] else [c]) s) @ [quote_char]
      else s)"

definition format_utc_timestamp :: "(string \<Rightarrow> instant option) \<Rightarrow> string option \<Rightarrow> string" where
  "format_utc_timestamp parse s =
     (if \<not> truthy s then [] else (case parse (the s) of None \<Rightarrow> [] | Some t \<Rightarrow> to_iso t))"

definition csv_headers :: "string list" where
  "csv_headers = [''Member Name'', ''Date'', ''Clock In'', ''Clock Out'', ''Duration (minutes)'',
     ''Duration (formatted)'', ''Status'', ''Anomaly Reason'', ''UTC Clock In'', ''UTC Clock Out'']"

definition csv_values :: "(string \<Rightarrow> instant option) \<Rightarrow> string \<Rightarrow> instant \<Rightarrow> session_record \<Rightarrow> string list" where
  "csv_values parse gap now r =
     (let reason = anomaly_reason parse now r;
          dur = calculate_duration parse now (sr_clockIn r) (sr_clockOut r);
          status = (if reason \<noteq> None then ''Anomaly'' else if \<not> truthy (sr_clockOut r) then ''Active'' else ''Normal'')
      in [or_else (sr_memberName r) em_dash, record_date r, format_time_label parse gap (Some (sr_clockIn r)),
          format_time_label parse gap (sr_clockOut r), int_string (sd_minutes dur), sd_formatted dur, status,
          or_else reason [], format_utc_timestamp parse (Some (sr_clockIn r)),
          format_utc_timestamp parse (sr_clockOut r)])"

definition csv_line :: "string list \<Rightarrow> string" where
  "csv_line cells = join_with '','' (map escape_csv_cell cells)"

definition generate_csv_content ::
  "(string \<Rightarrow> instant option) \<Rightarrow> string \<Rightarrow> instant \<Rightarrow> session_record list \<Rightarrow> string" where
  "generate_csv_content parse gap now records =
     (let headerRow = csv_line csv_headers
      in if records = [] then headerRow @ crlf
         else join_with crlf (headerRow # map (\<lambda>r. csv_line (csv_values parse gap now r)) records) @ crlf)"

subsection \<open>The timeline\<close>

definition filter_records :: "string \<Rightarrow> string \<Rightarrow> session_record list \<Rightarrow> session_record list" where
  "filter_records startDate endDate records =
     filter (\<lambda>r. if startDate \<noteq> [] \<and> record_date r < startDate then False
                 else if endDate \<noteq> [] \<and> record_date r > endDate then False else True) records"

definition week_key_of :: "(string \<Rightarrow> instant option) \<Rightarrow> int \<Rightarrow> instant \<Rightarrow> session_record \<Rightarrow> string" where
  "week_key_of parse tz now r =
     get_iso_week_key tz now (parse (if sr_clockIn r \<noteq> [] then sr_clockIn r else sr_date r))"

text \<open>The latest week first; the keys have one shape, on which the order of the locale is that of the
  code units.\<close>

definition grouped_by_week ::
  "(string \<Rightarrow> instant option) \<Rightarrow> int \<Rightarrow> instant \<Rightarrow> session_record list \<Rightarrow> (string \<times> session_record list) list" where
  "grouped_by_week parse tz now records = rev (group_rows (week_key_of parse tz now) records)"

definition grouped_by_day :: "session_record list \<Rightarrow> (string \<times> session_record list) list" where
  "grouped_by_day records = rev (group_rows record_date records)"

definition total_minutes :: "(string \<Rightarrow> instant option) \<Rightarrow> instant \<Rightarrow> session_record list \<Rightarrow> int" where
  "total_minutes parse now records =
     sum_list (map (\<lambda>r. sd_minutes (calculate_duration parse now (sr_clockIn r) (sr_clockOut r))) records)"

definition anomaly_count :: "(string \<Rightarrow> instant option) \<Rightarrow> instant \<Rightarrow> session_record list \<Rightarrow> nat" where
  "anomaly_count parse now records = length (filter (\<lambda>r. anomaly_reason parse now r \<noteq> None) records)"

record timeline_stats =
  ts_totalSessions :: nat
  ts_totalTimeFormatted :: string
  ts_anomalyCount :: nat

definition timeline_stats_of :: "(string \<Rightarrow> instant option) \<Rightarrow> instant \<Rightarrow> session_record list \<Rightarrow> timeline_stats" where
  "timeline_stats_of parse now records =
     \<lparr>ts_totalSessions = length records, ts_totalTimeFormatted = hours_minutes (total_minutes parse now records),
      ts_anomalyCount = anomaly_count parse now records\<rparr>"

definition displayed_weeks :: "nat \<Rightarrow> session_record list \<Rightarrow> (string \<times> session_record list) list \<Rightarrow> (string \<times> session_record list) list" where
  "displayed_weeks visibleItemsLimit records weeks =
     (if length records > 100 then take visibleItemsLimit weeks else weeks)"

text \<open>The width of a session's bar, in percent.\<close>

definition bar_width :: "session_duration \<Rightarrow> num" where
  "bar_width d =
     (if \<not> sd_isCompleted d \<and> sd_minutes d = 0 then 15
      else min 100 (max 6 (js_mul (js_div (js_int (sd_minutes d)) 720) 100)))"

subsection \<open>The page\<close>

datatype preset_range = Last7 | Last30 | Last90 | All_Time | Custom

record attendance_filter =
  af_startDate :: string
  af_endDate :: string
  af_activePreset :: preset_range

definition days_ago :: "instant \<Rightarrow> int \<Rightarrow> string" where
  "days_ago now n = take 10 (to_iso (now - n * 86400000))"

definition get_initial_dates :: "instant \<Rightarrow> string \<times> string" where
  "get_initial_dates now = (take 10 (to_iso now), days_ago now 30)"

definition initial_filter :: "instant \<Rightarrow> attendance_filter" where
  "initial_filter now =
     (case get_initial_dates now of (today, thirtyDaysAgo) \<Rightarrow>
        \<lparr>af_startDate = thirtyDaysAgo, af_endDate = today, af_activePreset = Last30\<rparr>)"

definition handle_preset_select :: "instant \<Rightarrow> preset_range \<Rightarrow> attendance_filter \<Rightarrow> attendance_filter" where
  "handle_preset_select now preset f0 =
     (let f = f0\<lparr>af_activePreset := preset\<rparr>; currentToday = take 10 (to_iso now)
      in case preset of
           Last7 \<Rightarrow> f\<lparr>af_startDate := days_ago now 7, af_endDate := currentToday\<rparr>
         | Last30 \<Rightarrow> f\<lparr>af_startDate := days_ago now 30, af_endDate := currentToday\<rparr>
         | Last90 \<Rightarrow> f\<lparr>af_startDate := days_ago now 90, af_endDate := currentToday\<rparr>
         | All_Time \<Rightarrow> f\<lparr>af_startDate := [], af_endDate := []\<rparr>
         | Custom \<Rightarrow> f)"

definition handle_start_date_change :: "string \<Rightarrow> attendance_filter \<Rightarrow> attendance_filter" where
  "handle_start_date_change date f = f\<lparr>af_startDate := date, af_activePreset := Custom\<rparr>"

definition handle_end_date_change :: "string \<Rightarrow> attendance_filter \<Rightarrow> attendance_filter" where
  "handle_end_date_change date f = f\<lparr>af_endDate := date, af_activePreset := Custom\<rparr>"

definition handle_reset_filters :: "instant \<Rightarrow> attendance_filter \<Rightarrow> attendance_filter" where
  "handle_reset_filters now f =
     (case get_initial_dates now of (t, t30) \<Rightarrow>
        f\<lparr>af_startDate := t30, af_endDate := t, af_activePreset := Last30\<rparr>)"

definition active_record :: "bool \<Rightarrow> session_record list \<Rightarrow> session_record option" where
  "active_record isAdmin records = (if isAdmin then None else find (\<lambda>r. \<not> truthy (sr_clockOut r)) records)"

text \<open>The call the clock button makes.\<close>

definition clock_button :: "session_record option \<Rightarrow> string" where
  "clock_button activeRecord = (if activeRecord \<noteq> None then ''/attendance/clock-out'' else ''/attendance/clock-in'')"

end
