(* ===== verification/Workspaces.thy ===== *)
theory Workspaces
  imports Conflict
begin

text \<open>
  Workspaces and amenities (backend/src/workspaces/workspaces.service.ts, amenities.service.ts,
  occupancy-stream.service.ts) and the cached listing of the controller
  (workspaces.controller.ts). The join table of workspaces and amenities is the column
  \<open>w_amenities\<close>; the mails of a deletion are returned next to the state.
\<close>

subsection \<open>Amenities\<close>

record create_amenity_dto =
  ca_name :: string
  ca_icon :: "string option"
  ca_category :: "string option"

definition find_all_amenities :: "db \<Rightarrow> amenity list" where
  "find_all_amenities d = filter (\<lambda>a. am_deletedAt a = None) (db_amenities d)"

definition create_amenity :: "uuid \<Rightarrow> create_amenity_dto \<Rightarrow> db \<Rightarrow> amenity \<times> db" where
  "create_amenity newId dto d =
     (let a = \<lparr>am_id = newId, am_name = ca_name dto, am_icon = ca_icon dto,
               am_category = ca_category dto, am_deletedAt = None\<rparr>
      in (a, d\<lparr>db_amenities := save_row am_id a (db_amenities d)\<rparr>))"

text \<open>\<open>softDelete\<close> affects the rows with the id, deleted before or not.\<close>

definition remove_amenity :: "instant \<Rightarrow> uuid \<Rightarrow> db \<Rightarrow> (db, unit) outcome" where
  "remove_amenity now i d =
     (if \<not> list_ex (\<lambda>a. am_id a = i) (db_amenities d)
      then (Inl (NotFound (''Amenity with ID '' @ i @ '' not found'')), d)
      else (Inr (), d\<lparr>db_amenities :=
              update_rows (\<lambda>a. am_id a = i) (\<lambda>a. a\<lparr>am_deletedAt := Some now\<rparr>) (db_amenities d)\<rparr>))"

definition find_amenities_by_ids :: "uuid list \<Rightarrow> db \<Rightarrow> amenity list" where
  "find_amenities_by_ids ids d =
     filter (\<lambda>a. am_id a \<in> set ids \<and> am_deletedAt a = None) (db_amenities d)"

subsection \<open>Creation and update\<close>

record create_workspace_dto =
  cw_name :: string
  cw_type :: workspace_type
  cw_capacity :: int
  cw_pricePerHour :: num
  cw_availability :: workspace_availability
  cw_description :: "string option"
  cw_amenityIds :: "uuid list option"

record update_workspace_dto =
  uw_name :: "string option"
  uw_type :: "workspace_type option"
  uw_capacity :: "int option"
  uw_pricePerHour :: "num option"
  uw_availability :: "workspace_availability option"
  uw_description :: "string option"
  uw_amenityIds :: "uuid list option"
  uw_isActive :: "bool option"

definition save_workspace :: "workspace \<Rightarrow> db \<Rightarrow> db" where
  "save_workspace w d = d\<lparr>db_workspaces := save_row w_id w (db_workspaces d)\<rparr>"

definition create_workspace :: "uuid \<Rightarrow> instant \<Rightarrow> create_workspace_dto \<Rightarrow> db \<Rightarrow> workspace \<times> db" where
  "create_workspace newId now dto d =
     (let amenities = (case cw_amenityIds dto of
            Some ids \<Rightarrow> if ids = [] then [] else map am_id (find_amenities_by_ids ids d)
          | None \<Rightarrow> []);
          w = \<lparr>w_id = newId, w_name = cw_name dto, w_type = cw_type dto, w_capacity = cw_capacity dto,
               w_pricePerHour = cw_pricePerHour dto, w_availability = cw_availability dto,
               w_capacityType = SHARED, w_description = cw_description dto, w_amenities = amenities,
               w_hubId = None, w_isActive = True, w_createdAt = now, w_deletedAt = None\<rparr>
      in (w, save_workspace w d))"

definition merge_workspace :: "update_workspace_dto \<Rightarrow> workspace \<Rightarrow> workspace" where
  "merge_workspace dto w =
     w\<lparr>w_name := (case uw_name dto of Some x \<Rightarrow> x | None \<Rightarrow> w_name w),
       w_type := (case uw_type dto of Some x \<Rightarrow> x | None \<Rightarrow> w_type w),
       w_capacity := (case uw_capacity dto of Some x \<Rightarrow> x | None \<Rightarrow> w_capacity w),
       w_pricePerHour := (case uw_pricePerHour dto of Some x \<Rightarrow> x | None \<Rightarrow> w_pricePerHour w),
       w_availability := (case uw_availability dto of Some x \<Rightarrow> x | None \<Rightarrow> w_availability w),
       w_description := (case uw_description dto of Some x \<Rightarrow> Some x | None \<Rightarrow> w_description w),
       w_isActive := (case uw_isActive dto of Some x \<Rightarrow> x | None \<Rightarrow> w_isActive w)\<rparr>"

definition update_workspace :: "uuid \<Rightarrow> update_workspace_dto \<Rightarrow> db \<Rightarrow> (db, workspace) outcome" where
  "update_workspace i dto d =
     (case find_workspace d i of
        None \<Rightarrow> (Inl (NotFound ''Workspace not found''), d)
      | Some workspace \<Rightarrow>
          (let w1 = merge_workspace dto workspace;
               w2 = (case uw_amenityIds dto of None \<Rightarrow> w1
                     | Some ids \<Rightarrow> w1\<lparr>w_amenities := map am_id (find_amenities_by_ids ids d)\<rparr>)
           in (Inr w2, save_workspace w2 d)))"

subsection \<open>Listing\<close>

datatype amenity_match = MatchAll | MatchAny

record workspace_query =
  wq_page :: nat
  wq_limit :: nat
  wq_type :: "workspace_type option"
  wq_availability :: "workspace_availability option"
  wq_amenities :: "string list"
  wq_amenityMatch :: amenity_match

text \<open>The join of the listing skips deleted amenities, the sub-queries of the other mode do not.\<close>

definition has_live_amenity :: "db \<Rightarrow> string list \<Rightarrow> workspace \<Rightarrow> bool" where
  "has_live_amenity d names w \<longleftrightarrow>
     list_ex (\<lambda>a. am_id a \<in> set (w_amenities w) \<and> am_deletedAt a = None \<and> am_name a \<in> set names) (db_amenities d)"

definition has_amenity_row :: "db \<Rightarrow> string \<Rightarrow> workspace \<Rightarrow> bool" where
  "has_amenity_row d name w \<longleftrightarrow>
     list_ex (\<lambda>a. am_id a \<in> set (w_amenities w) \<and> am_name a = name) (db_amenities d)"

definition workspace_matches :: "db \<Rightarrow> workspace_query \<Rightarrow> workspace \<Rightarrow> bool" where
  "workspace_matches d q w \<longleftrightarrow>
     w_deletedAt w = None \<and>
     (case wq_type q of None \<Rightarrow> True | Some t \<Rightarrow> w_type w = t) \<and>
     (case wq_availability q of None \<Rightarrow> True | Some a \<Rightarrow> w_availability w = a) \<and>
     (if wq_amenities q = [] then True
      else (case wq_amenityMatch q of
              MatchAny \<Rightarrow> has_live_amenity d (wq_amenities q) w
            | MatchAll \<Rightarrow> list_all (\<lambda>n. has_amenity_row d n w) (wq_amenities q)))"

record workspace_page =
  wp_data :: "workspace list"
  wp_total :: nat
  wp_page :: nat
  wp_limit :: nat

text \<open>The amenities a row of the answer carries are the joined ones: in the mode \<open>any\<close> the condition
  on the name leaves only those asked for.\<close>

definition joined_amenities :: "db \<Rightarrow> workspace_query \<Rightarrow> workspace \<Rightarrow> workspace" where
  "joined_amenities d q w =
     w\<lparr>w_amenities := filter (\<lambda>i. list_ex (\<lambda>a. am_id a = i \<and> am_deletedAt a = None \<and>
         (wq_amenities q = [] \<or> wq_amenityMatch q = MatchAll \<or> am_name a \<in> set (wq_amenities q)))
         (db_amenities d)) (w_amenities w)\<rparr>"

definition find_all_workspaces :: "workspace_query \<Rightarrow> db \<Rightarrow> workspace_page" where
  "find_all_workspaces q d =
     (let rows = filter (workspace_matches d q) (db_workspaces d)
      in \<lparr>wp_data = map (joined_amenities d q) (take (wq_limit q) (drop ((wq_page q - 1) * wq_limit q) rows)),
          wp_total = length rows, wp_page = wq_page q, wp_limit = wq_limit q\<rparr>)"

text \<open>The interceptor of the listing keeps one answer under the fixed key \<open>workspaces\<close> for 300
  milliseconds, the unit of the cache manager.\<close>

type_synonym listing_cache = "(workspace_page \<times> instant) option"

definition LISTING_TTL :: int where "LISTING_TTL = 300"

definition listing_handler ::
  "instant \<Rightarrow> workspace_query \<Rightarrow> db \<Rightarrow> listing_cache \<Rightarrow> workspace_page \<times> listing_cache" where
  "listing_handler now q d c =
     (case c of
        Some (page, expires) \<Rightarrow>
          if now < expires then (page, c)
          else (find_all_workspaces q d, Some (find_all_workspaces q d, now + LISTING_TTL))
      | None \<Rightarrow> (find_all_workspaces q d, Some (find_all_workspaces q d, now + LISTING_TTL)))"

definition update_workspace_handler ::
  "uuid \<Rightarrow> update_workspace_dto \<Rightarrow> db \<Rightarrow> listing_cache \<Rightarrow> (db, workspace) outcome \<times> listing_cache" where
  "update_workspace_handler i dto d c =
     (case update_workspace i dto d of
        (Inl e, d1) \<Rightarrow> ((Inl e, d1), c)
      | (Inr w, d1) \<Rightarrow> ((Inr w, d1), None))"

definition create_workspace_handler ::
  "uuid \<Rightarrow> instant \<Rightarrow> create_workspace_dto \<Rightarrow> db \<Rightarrow> listing_cache \<Rightarrow> (workspace \<times> db) \<times> listing_cache" where
  "create_workspace_handler newId now dto d c = (create_workspace newId now dto d, None)"

subsection \<open>Availability and occupancy\<close>

text \<open>None: the date text is not a date.\<close>

definition workspace_availability_of ::
  "uuid \<Rightarrow> instant option \<Rightarrow> db \<Rightarrow> availability_slot list result" where
  "workspace_availability_of i date d =
     (case find_workspace d i of
        None \<Rightarrow> Inl (NotFound ''Workspace not found'')
      | Some _ \<Rightarrow>
          (case date of
             None \<Rightarrow> Inl (ServerError ''Invalid date format. Use YYYY-MM-DD'')
           | Some t \<Rightarrow> get_hourly_availability d i t))"

record occupancy_update =
  ou_workspaceId :: uuid
  ou_currentOccupancy :: int
  ou_capacity :: int
  ou_remainingCapacity :: int
  ou_timestamp :: instant
  ou_eventId :: string

definition get_occupancy_update :: "instant \<Rightarrow> uuid \<Rightarrow> db \<Rightarrow> occupancy_update result" where
  "get_occupancy_update now i d =
     (case find_workspace d i of
        None \<Rightarrow> Inl (ServerError ''Workspace not found'')
      | Some w \<Rightarrow>
          (let currentOccupancy = int (length (filter (\<lambda>b. bk_workspaceId b = i \<and> bk_status b = CONFIRMED \<and>
                   bk_deletedAt b = None \<and> 0 \<le> bk_startTime b \<and> bk_startTime b \<le> now \<and>
                   now \<le> bk_endTime b \<and> bk_endTime b \<le> 8640000000000000) (db_bookings d)))
           in Inr \<lparr>ou_workspaceId = i, ou_currentOccupancy = currentOccupancy, ou_capacity = w_capacity w,
                   ou_remainingCapacity = w_capacity w - currentOccupancy, ou_timestamp = now,
                   ou_eventId = i @ ''-'' @ int_string now\<rparr>))"

subsection \<open>Deletion\<close>

definition future_confirmed :: "instant \<Rightarrow> uuid \<Rightarrow> db \<Rightarrow> booking list" where
  "future_confirmed now i d =
     filter (\<lambda>b. bk_workspaceId b = i \<and> bk_status b = CONFIRMED \<and> bk_startTime b > now \<and> bk_deletedAt b = None)
       (db_bookings d)"

text \<open>The result: the mails, as recipient, booking and workspace name.\<close>

definition soft_delete_workspace ::
  "instant \<Rightarrow> uuid \<Rightarrow> db \<Rightarrow> (db, (string \<times> uuid \<times> string) list) outcome" where
  "soft_delete_workspace now i d =
     (case find_workspace d i of
        None \<Rightarrow> (Inl (NotFound ''Workspace not found''), d)
      | Some workspace \<Rightarrow>
          (let futureBookings = future_confirmed now i d;
               ids = map bk_id futureBookings;
               d1 = d\<lparr>db_bookings := update_rows (\<lambda>b. bk_id b \<in> set ids) (\<lambda>b. b\<lparr>bk_status := CANCELLED\<rparr>)
                                      (db_bookings d),
                      db_workspaces := update_rows (\<lambda>w. w_id w = i) (\<lambda>w. w\<lparr>w_deletedAt := Some now\<rparr>)
                                      (db_workspaces d)\<rparr>;
               mails = List.map_filter (\<lambda>b. case find_user d (bk_userId b) of
                           Some u \<Rightarrow> if u_email u \<noteq> [] then Some (u_email u, bk_id b, w_name workspace) else None
                         | None \<Rightarrow> None) futureBookings
           in (Inr mails, d1)))"

definition delete_workspace_handler ::
  "instant \<Rightarrow> uuid \<Rightarrow> db \<Rightarrow> listing_cache \<Rightarrow> (db, (string \<times> uuid \<times> string) list) outcome \<times> listing_cache" where
  "delete_workspace_handler now i d c =
     (case soft_delete_workspace now i d of
        (Inl e, d1) \<Rightarrow> ((Inl e, d1), c)
      | (Inr mails, d1) \<Rightarrow> ((Inr mails, d1), None))"

end
