(* ===== verification/Workspaces_Correct.thy ===== *)
theory Workspaces_Correct
  imports Workspaces Booking_Contract
begin

text \<open>
  What the workspace operations do to the bookings: the effect of a deletion row by row and its
  mails, the bookings that outlive a workspace, when an update keeps the capacity invariant of the
  booking service, and what the listing and its cache answer.
\<close>

subsection \<open>Deletion\<close>

definition cancelled_by_deletion :: "instant \<Rightarrow> uuid \<Rightarrow> booking \<Rightarrow> bool" where
  "cancelled_by_deletion now i b \<longleftrightarrow>
     bk_workspaceId b = i \<and> bk_status b = CONFIRMED \<and> bk_deletedAt b = None \<and> now < bk_startTime b"

lemma future_confirmed_ids:
  assumes "ids_ok d" "b \<in> set (db_bookings d)"
  shows "bk_id b \<in> bk_id ` set (future_confirmed now i d) \<longleftrightarrow> cancelled_by_deletion now i b"
proof -
  have "b' = b" if "b' \<in> set (db_bookings d)" "bk_id b' = bk_id b" for b'
    using assms that by (auto simp: ids_ok_def distinct_map inj_on_def)
  then show ?thesis
    using assms(2) by (auto simp: future_confirmed_def cancelled_by_deletion_def image_iff)
qed

lemma deletion_filter: "future_confirmed now i d = filter (cancelled_by_deletion now i) (db_bookings d)"
  unfolding future_confirmed_def by (rule filter_cong) (auto simp: cancelled_by_deletion_def)

lemma mailed_ids:
  "map (\<lambda>m. fst (snd m)) (List.map_filter (\<lambda>b. case f b of
      Some u \<Rightarrow> if u_email u \<noteq> [] then Some (u_email u, bk_id b, n) else None | None \<Rightarrow> None) (filter p bs)) =
   map bk_id (filter (\<lambda>b. p b \<and> (\<exists>u. f b = Some u \<and> u_email u \<noteq> [])) bs)"
  by (induction bs) (auto simp: List.map_filter_simps split: option.splits)

lemma deletion_bookings:
  assumes "ids_ok d" "find_workspace d i = Some w"
  shows "db_bookings (snd (soft_delete_workspace now i d)) =
    map (\<lambda>b. if cancelled_by_deletion now i b then b\<lparr>bk_status := CANCELLED\<rparr> else b) (db_bookings d)"
  using future_confirmed_ids [OF assms(1), of _ now i] assms(2)
  by (auto simp: soft_delete_workspace_def update_rows_def Let_def)

lemma find_row_hidden:
  "find_row (\<lambda>w. w_id w = j \<and> w_deletedAt w = None)
     (update_rows (\<lambda>w. w_id w = i) (\<lambda>w. w\<lparr>w_deletedAt := Some now\<rparr>) ws) =
   (if j = i then None else find_row (\<lambda>w. w_id w = j \<and> w_deletedAt w = None) ws)"
  by (induction ws) auto

lemma find_workspace_deleted:
  "find_workspace d i \<noteq> None \<Longrightarrow>
   find_workspace (snd (soft_delete_workspace now i d)) j = (if j = i then None else find_workspace d j)"
  by (auto simp: soft_delete_workspace_def Let_def find_workspace_def find_row_hidden split: option.splits)


definition sample_deletion :: db where
  "sample_deletion = sample_db [sample_booking ''a'' 5 9, sample_booking ''b'' (-5) 9,
     sample_pending\<lparr>bk_id := ''c'', bk_startTime := 20, bk_endTime := 30\<rparr>]"

lemma sample_deletion_simps:
  "ids_ok sample_deletion" "soft_delete_workspace 0 ''w'' sample_deletion =
     (Inr [], snd (soft_delete_workspace 0 ''w'' sample_deletion))"
  by (simp_all add: sample_deletion_def ids_ok_def sample_booking_def sample_pending_def
      soft_delete_workspace_def future_confirmed_def Let_def List.map_filter_simps find_user_def sample_db_def
      find_workspace_def sample_workspace_def)


text \<open>A pending booking outlives its workspace: after the deletion it is still there and still
  pending, and confirming it succeeds exactly when it did before, now for a workspace that no
  reader can find.\<close>

theorem pending_outlives_workspace:
  assumes "ids_ok d" "soft_delete_workspace now i d = (Inr mails, d')" "find_booking d j = Some b"
    and "bk_workspaceId b = i" "bk_status b = PENDING"
  shows "find_workspace d' i = None \<and> find_booking d' j = Some b \<and>
    is_ok (fst (confirm env j d')) = is_ok (fst (confirm env j d))"
proof -
  obtain w where w: "find_workspace d i = Some w"
    using assms(2) by (auto simp: soft_delete_workspace_def split: option.splits)
  have d': "d' = snd (soft_delete_workspace now i d)" using assms(2) by simp
  have "find_booking d' j = Some b"
    using assms(3,5) unfolding find_booking_def d' deletion_bookings [OF assms(1) w] update_rows_def [symmetric]
    by (subst find_row_update_rows) (auto simp: cancelled_by_deletion_def)
  then show ?thesis
    using confirm_ok_iff [OF assms(3)] confirm_ok_iff [of d' j b] find_workspace_deleted [of d i now i] w
    by (simp add: d')
qed

lemma pending_outlives_workspace_witness:
  "find_workspace (snd (soft_delete_workspace 0 ''w'' sample_deletion)) ''w'' = None \<and>
   is_ok (fst (confirm sample_env ''c'' (snd (soft_delete_workspace 0 ''w'' sample_deletion))))"
proof -
  let ?b = "sample_pending\<lparr>bk_id := ''c'', bk_startTime := 20, bk_endTime := 30\<rparr>"
  have f: "find_booking sample_deletion ''c'' = Some ?b"
    by (simp add: find_booking_def sample_deletion_def sample_booking_def sample_pending_def)
  have v: "verify_transaction (be_stellar sample_env) ''tx'' = Inr ''SUCCESS''"
    by (simp add: verify_transaction_def with_stellar_retry_def sample_env_def)
  have "is_ok (fst (confirm sample_env ''c'' sample_deletion))"
    using confirm_ok_iff [OF f, of sample_env] v
    by (simp add: payment_check_def sample_pending_def sample_booking_def)
  then show ?thesis
    using pending_outlives_workspace [OF sample_deletion_simps f, of sample_env]
    by (simp add: sample_pending_def sample_booking_def)
qed

text \<open>The deletion keeps the capacity invariant of the booking service.\<close>

theorem deletion_keeps_capacity:
  assumes "ids_ok d" "capacity_ok d"
  shows "ids_ok (snd (soft_delete_workspace now i d)) \<and> capacity_ok (snd (soft_delete_workspace now i d))"
proof (cases "find_workspace d i")
  case None
  then show ?thesis using assms by (simp add: soft_delete_workspace_def)
next
  case (Some w)
  let ?h = "\<lambda>b. if cancelled_by_deletion now i b then b\<lparr>bk_status := CANCELLED\<rparr> else b"
  note b = deletion_bookings [OF assms(1) Some, of now]
  let ?d = "d\<lparr>db_bookings := map ?h (db_bookings d)\<rparr>"
  have "good ?d"
    by (rule good_map [of d _ ?h]) (use assms in \<open>auto simp: good_def intro!: weight_cong\<close>)
  then have g: "ids_ok ?d" "capacity_ok ?d" by (simp_all add: good_def)
  have "capacity_ok (snd (soft_delete_workspace now i d))"
    unfolding capacity_ok_def
  proof (intro allI impI)
    fix j ws t assume "find_workspace (snd (soft_delete_workspace now i d)) j = Some ws"
    then have "find_workspace ?d j = Some ws"
      using find_workspace_deleted [of d i now j] Some by (auto simp: find_workspace_def split: if_splits)
    with g(2) b show "1 \<le> w_capacity ws \<and>
        occupancy (snd (soft_delete_workspace now i d)) j None t \<le> w_capacity ws"
      by (auto simp: capacity_ok_def occupancy_load)
  qed
  then show ?thesis using g(1) b by (simp add: ids_ok_def)
qed

lemma deletion_keeps_capacity_witness:
  "capacity_ok (snd (soft_delete_workspace 0 ''w'' (sample_db [])))"
  using deletion_keeps_capacity [OF sample_good] by simp

subsection \<open>Update\<close>

lemma find_row_saved:
  "find_row (\<lambda>x. w_id x = j \<and> w_deletedAt x = None) ws = Some w0 \<Longrightarrow> w_deletedAt w = None \<Longrightarrow> w_id w = i \<Longrightarrow>
   find_row (\<lambda>x. w_id x = j \<and> w_deletedAt x = None) (update_rows (\<lambda>x. w_id x = i) (\<lambda>_. w) ws) =
     (if j = i then Some w else Some w0)"
  by (induction ws) (auto split: if_splits)

lemma find_row_not_saved:
  "find_row (\<lambda>x. w_id x = j \<and> w_deletedAt x = None) ws = None \<Longrightarrow> j \<noteq> w_id w \<Longrightarrow>
   find_row (\<lambda>x. w_id x = j \<and> w_deletedAt x = None) (update_rows (\<lambda>x. w_id x = w_id w) (\<lambda>_. w) ws) = None"
  by (induction ws) (auto split: if_splits)

lemma updated_workspace:
  assumes "update_workspace i dto d = (Inr w, d')"
  shows "w_id w = i" "w_deletedAt w = None" "db_bookings d' = db_bookings d"
    "find_workspace d' j = (if j = i then Some w else find_workspace d j)"
    "w_capacity w = (case uw_capacity dto of Some c \<Rightarrow> c | None \<Rightarrow> w_capacity (the (find_workspace d i)))"
proof -
  obtain w0 where w0: "find_workspace d i = Some w0"
    using assms by (auto simp: update_workspace_def split: option.splits)
  then have mem: "w0 \<in> set (db_workspaces d)" "w_id w0 = i" "w_deletedAt w0 = None"
    by (auto simp: find_workspace_def dest: find_row_SomeD)
  let ?w2 = "case uw_amenityIds dto of None \<Rightarrow> merge_workspace dto w0
    | Some ids \<Rightarrow> (merge_workspace dto w0)\<lparr>w_amenities := map am_id (find_amenities_by_ids ids d)\<rparr>"
  have w: "w = ?w2" and d': "d' = save_workspace ?w2 d"
    using assms by (auto simp: update_workspace_def w0 Let_def)
  show id: "w_id w = i" and del: "w_deletedAt w = None" and "db_bookings d' = db_bookings d"
    and "w_capacity w = (case uw_capacity dto of Some c \<Rightarrow> c | None \<Rightarrow> w_capacity (the (find_workspace d i)))"
    using mem w0 by (simp_all add: w d' merge_workspace_def save_workspace_def split: option.split)
  have "db_workspaces d' = save_row w_id w (db_workspaces d)"
    by (simp add: w d' save_workspace_def)
  also have "\<dots> = update_rows (\<lambda>x. w_id x = w_id w) (\<lambda>_. w) (db_workspaces d)"
    by (rule save_row_existing) (use mem id in force)
  finally have ws: "db_workspaces d' = update_rows (\<lambda>x. w_id x = w_id w) (\<lambda>_. w) (db_workspaces d)" .
  show "find_workspace d' j = (if j = i then Some w else find_workspace d j)"
  proof (cases "find_workspace d j")
    case None
    then have "j \<noteq> i" using w0 by auto
    with None show ?thesis
      unfolding find_workspace_def ws using find_row_not_saved [of j "db_workspaces d" w] id by simp
  next
    case (Some w1)
    then show ?thesis
      unfolding find_workspace_def ws using find_row_saved [of j "db_workspaces d" w1 w i] del id by simp
  qed
qed

text \<open>An update of a workspace is not checked against its bookings: it keeps the capacity
  invariant exactly when the new capacity still holds every booking already taken at every
  instant. The update itself succeeds for every existing workspace, so a smaller capacity breaks
  the invariant silently.\<close>

theorem update_capacity_iff:
  assumes "capacity_ok d" "find_workspace d i = Some w0"
  shows "is_ok (fst (update_workspace i dto d)) \<and>
    (capacity_ok (snd (update_workspace i dto d)) \<longleftrightarrow>
      (\<forall>c. uw_capacity dto = Some c \<longrightarrow> 1 \<le> c \<and> (\<forall>t. occupancy d i None t \<le> c)))"
proof -
  obtain w d' where u: "update_workspace i dto d = (Inr w, d')"
    using assms(2) by (auto simp: update_workspace_def Let_def)
  note upd_facts = updated_workspace [OF u]
  have "capacity_ok d' \<longleftrightarrow> 1 \<le> w_capacity w \<and> (\<forall>t. occupancy d i None t \<le> w_capacity w)"
    using assms(1) by (auto simp: capacity_ok_def upd_facts(4) occupancy_load upd_facts(3))
  moreover have "1 \<le> w_capacity w0 \<and> (\<forall>t. occupancy d i None t \<le> w_capacity w0)"
    using assms by (auto simp: capacity_ok_def)
  ultimately show ?thesis
    using upd_facts(5) assms(2) by (cases "uw_capacity dto") (auto simp: u)
qed

lemma update_capacity_iff_witness:
  "\<not> capacity_ok (snd (update_workspace ''w'' \<lparr>uw_name = None, uw_type = None, uw_capacity = Some 0,
     uw_pricePerHour = None, uw_availability = None, uw_description = None, uw_amenityIds = None,
     uw_isActive = None\<rparr> (sample_db [])))"
  using update_capacity_iff [OF sample_good(2), of "''w''"] by force

subsection \<open>The listing\<close>

definition cache_current :: "workspace_query \<Rightarrow> db \<Rightarrow> listing_cache \<Rightarrow> bool" where
  "cache_current q d c \<longleftrightarrow> (\<forall>p e. c = Some (p, e) \<longrightarrow> p = find_all_workspaces q d)"

text \<open>The listing is answered from one cache entry that does not know the query. For 300
  milliseconds after a miss every caller gets the page computed for the first one, whatever page,
  type, availability or amenities are asked for; with an entry kept for the very same query and
  database, and only then for certain, the answer is the fresh one.\<close>

theorem listing_answers_first_query:
  assumes "listing_handler t0 q0 d0 None = (p0, c)" "t1 < t0 + 300"
  shows "listing_handler t1 q d c = (find_all_workspaces q0 d0, c) \<and>
    (fst (listing_handler t1 q d c) = find_all_workspaces q d \<longleftrightarrow> cache_current q d c)"
  using assms by (auto simp: listing_handler_def LISTING_TTL_def cache_current_def)

definition sample_query :: "nat \<Rightarrow> workspace_query" where
  "sample_query n = \<lparr>wq_page = n, wq_limit = 1, wq_type = None, wq_availability = None, wq_amenities = [],
     wq_amenityMatch = MatchAll\<rparr>"

lemma listing_answers_first_query_witness:
  "wp_page (fst (listing_handler 299 (sample_query 2) (sample_db [])
     (snd (listing_handler 0 (sample_query 1) (sample_db []) None)))) = 1"
proof -
  let ?r = "listing_handler 0 (sample_query 1) (sample_db []) None"
  have "?r = (fst ?r, snd ?r)" by simp
  from listing_answers_first_query [OF this, of 299 "sample_query 2" "sample_db []"] show ?thesis
    by (simp add: find_all_workspaces_def sample_query_def Let_def)
qed

text \<open>A request for several amenities in the default mode is answered with the workspaces that
  carry every one of them, deleted amenities included; with the mode \<open>any\<close>, with those that carry
  a live one. So a workspace whose only amenity of that name has been deleted is found by the one
  and not by the other.\<close>

lemma amenity_modes_differ:
  assumes "w_deletedAt w = None" "w_amenities w = [am_id a]" "am_deletedAt a \<noteq> None"
    and "db_amenities d = [a]" "wq_amenities q = [am_name a]" "wq_type q = None" "wq_availability q = None"
  shows "workspace_matches d (q\<lparr>wq_amenityMatch := MatchAll\<rparr>) w \<and>
    \<not> workspace_matches d (q\<lparr>wq_amenityMatch := MatchAny\<rparr>) w"
  using assms by (simp add: workspace_matches_def has_amenity_row_def has_live_amenity_def)

end
