(* ===== verification/Reports_Correct.thy ===== *)
theory Reports_Correct
  imports Reports Analytics_Correct Workspaces_Correct
begin

text \<open>
  What the reports promise: the range covers whole days and its length in hours is exact; the
  totals of the revenue report are those of the bookings it covers, to the cent; percentages
  stay between 0 and 100; the CSV text can be split into the fields it was made of. And what a
  deletion does to the report: the past revenue of the workspace disappears from it.
\<close>

subsection \<open>The range\<close>

lemma fl_dyadic:
  assumes "\<bar>m\<bar> \<le> 2 ^ 53" "j \<le> 1074"
  shows "fl (of_int m / 2 ^ j) = of_int m / 2 ^ j"
proof (rule fl_double)
  have "(of_int m / 2 ^ j :: rat) = of_int m * 2 powi (- int j)"
    by (simp add: power_int_minus divide_inverse power_int_of_nat)
  then show "is_double (of_int m / 2 ^ j)"
    unfolding is_double_def using assms by (intro exI [of _ m] exI [of _ "- int j"]) simp
qed

lemma period_hours_days:
  assumes "0 < k" "k \<le> 10 ^ 6"
  shows "period_hours s (s + k * ms_per_day - 1) = of_int (24 * k)"
proof -
  have i: "js_int (k * ms_per_day - 1) = of_int (k * ms_per_day - 1)"
    unfolding js_int_def by (rule fl_int) (use assms in \<open>simp add: ms_units\<close>)
  define x where "x = js_div (of_int (k * ms_per_day - 1)) 3600000"
  have q: "(of_int (k * ms_per_day - 1) / 3600000 :: rat) = of_int (24 * k) - 1 / 3600000"
    by (simp add: ms_units field_simps)
  have lo: "of_int (768 * k - 1) / 2 ^ 5 \<le> x"
  proof -
    have "fl (of_int (768 * k - 1) / 2 ^ 5) \<le> x"
      unfolding x_def js_div_def q by (rule fl_mono) (simp add: field_simps)
    moreover have "fl (of_int (768 * k - 1) / 2 ^ 5) = of_int (768 * k - 1) / 2 ^ 5"
      by (rule fl_dyadic) (use assms in auto)
    ultimately show ?thesis by simp
  qed
  have hi: "x \<le> of_int (24 * k)"
    unfolding x_def js_div_def q by (rule fl_int_le) (use assms in auto)
  define y where "y = js_mul x 10"
  have "of_int (3840 * k - 5) / 2 ^ 4 \<le> y"
  proof -
    have "fl (of_int (3840 * k - 5) / 2 ^ 4) \<le> y"
      unfolding y_def js_mul_def by (rule fl_mono) (use lo in \<open>simp add: field_simps\<close>)
    moreover have "fl (of_int (3840 * k - 5) / 2 ^ 4) = of_int (3840 * k - 5) / 2 ^ 4"
      by (rule fl_dyadic) (use assms in auto)
    ultimately show ?thesis by simp
  qed
  moreover have "y \<le> of_int (240 * k)"
    unfolding y_def js_mul_def by (rule fl_int_le) (use assms hi in auto)
  ultimately have r: "js_round y = 240 * k"
    unfolding js_round_def by (intro floor_unique) (simp_all add: field_simps)
  have "js_int (240 * k) = of_int (240 * k)" unfolding js_int_def by (rule fl_int) (use assms in auto)
  moreover have "(of_int (240 * k) / 10 :: rat) = of_int (24 * k)" by simp
  ultimately have "js_div (js_int (240 * k)) 10 = of_int (24 * k)"
    unfolding js_div_def using fl_int [of "24 * k"] assms by simp
  moreover have "s + k * ms_per_day - 1 - s = k * ms_per_day - 1" by simp
  ultimately show ?thesis unfolding period_hours_def by (simp only: i x_def [symmetric] y_def [symmetric] r)
qed

lemma day_end: "set_utc_hours4 23 59 59 999 t = day_of t * ms_per_day + ms_per_day - 1"
  by (simp add: minus_mod_eq_div_mult set_utc_hours4_def utc_day_start_def day_of_def ms_units)

lemma day_start: "set_utc_hours4 0 0 0 0 t = day_of t * ms_per_day"
  by (simp add: minus_mod_eq_div_mult set_utc_hours4_def utc_day_start_def day_of_def ms_units)

text \<open>The range of a report runs from the first to the last millisecond of whole days, and its
  length, computed in binary arithmetic from a difference that is one millisecond short, is
  exactly 24 hours for each of them. Without dates these are the 31 days up to today.\<close>

theorem report_range_exact:
  assumes "resolve_date_range parse now a b = Inr (s, e)" "s \<le> e" "e - s < 10 ^ 13"
  shows "s = day_of s * ms_per_day \<and> e = (day_of e + 1) * ms_per_day - 1 \<and>
    period_hours s e = of_int (24 * (day_of e - day_of s + 1)) \<and>
    (if truthy a \<or> truthy b then True else day_of e = day_of now \<and> day_of s = day_of now - 30)"
proof -
  obtain t u where s: "s = day_of t * ms_per_day" and e: "e = day_of u * ms_per_day + ms_per_day - 1"
    and dflt: "\<not> truthy a \<Longrightarrow> \<not> truthy b \<Longrightarrow> u = now \<and> t = e - 30 * 24 * 60 * 60 * 1000"
    using assms(1)
    by (auto simp: resolve_date_range_def date_argument_def day_end day_start Let_def
        split: sum.splits option.splits if_splits)
  have ds: "day_of s = day_of t" unfolding s by (simp add: day_of_def ms_units)
  have de: "day_of e = day_of u" unfolding e by (simp add: day_of_def ms_units)
  define k where "k = day_of u - day_of t + 1"
  have ek: "e = s + k * ms_per_day - 1" by (simp add: s e k_def algebra_simps)
  then have "0 < k" "k \<le> 10 ^ 6" using assms(2,3) by (simp_all add: ms_units)
  then have "period_hours s (s + k * ms_per_day - 1) = of_int (24 * k)" by (rule period_hours_days)
  then have "period_hours s e = of_int (24 * (day_of e - day_of s + 1))" unfolding ds de k_def [symmetric] by (simp only: ek)
  moreover have "s = day_of s * ms_per_day" "e = (day_of e + 1) * ms_per_day - 1"
    unfolding ds de by (simp_all add: s e algebra_simps)
  moreover have "day_of e = day_of now \<and> day_of s = day_of now - 30" if "\<not> truthy a" "\<not> truthy b"
    using dflt [OF that] e ds de by (simp_all add: day_of_def ms_units)
  ultimately show ?thesis by simp
qed

lemma report_range_exact_witness:
  "period_hours (- 30 * ms_per_day) (ms_per_day - 1) = 744"
proof -
  have "resolve_date_range (\<lambda>s. None) 5 None None = Inr (- 30 * ms_per_day, ms_per_day - 1)"
    by (simp add: resolve_date_range_def date_argument_def day_end day_start Let_def day_of_def ms_units)
  from report_range_exact [OF this] show ?thesis by (simp add: ms_units day_of_def)
qed

subsection \<open>Totals\<close>

lemma js_sum_snoc: "js_sum (xs @ [x]) = js_add (js_sum xs) x"
  by (simp add: js_sum_def)

lemma js_sum_cents_error:
  "\<forall>k \<in> set ks. 0 \<le> k \<Longrightarrow> sum_list ks < 10 ^ 10 \<Longrightarrow> length ks \<le> 10000 \<Longrightarrow>
   0 \<le> js_sum (map cents ks) \<and> \<bar>js_sum (map cents ks) - of_int (sum_list ks) / 100\<bar> \<le> of_nat (length ks) * (2 / 10 ^ 7)"
proof (induction ks rule: rev_induct)
  case Nil
  then show ?case by (simp add: js_sum_def)
next
  case (snoc k ks)
  have nn: "0 \<le> sum_list ks" using snoc.prems(1) by (intro sum_list_nonneg) auto
  then have k: "0 \<le> k" "k < 10 ^ 10" using snoc.prems by auto
  define S where "S = js_sum (map cents ks)"
  define R where "R = (of_int (sum_list ks) :: num)"
  have ih: "0 \<le> S" "\<bar>S - R / 100\<bar> \<le> of_nat (length ks) * (2 / 10 ^ 7)"
    using snoc.IH snoc.prems k(1) nn by (simp_all add: S_def R_def)
  have c: "0 \<le> cents k" "\<bar>cents k - of_int k / 100\<bar> \<le> 1 / 10 ^ 7"
    using cents_error [OF k] cents_nonneg [OF k(1)] by auto
  have len: "(of_nat (length ks) :: num) * (2 / 10 ^ 7) \<le> 2 / 10 ^ 3"
    using snoc.prems(3) by (simp add: field_simps)
  have "R + of_int k < of_int (10 ^ 10)"
    unfolding R_def of_int_add [symmetric] of_int_less_iff using snoc.prems(2) by simp
  then have "(R + of_int k) / 100 \<le> 10 ^ 8" by simp
  moreover have "S - R / 100 \<le> 2 / 10 ^ 3" using abs_le_D1 [OF ih(2)] len by linarith
  moreover have "cents k - of_int k / 100 \<le> 1 / 10 ^ 7" using abs_le_D1 [OF c(2)] .
  ultimately have "S + cents k \<le> 10 ^ 8 + 2 / 10 ^ 3 + 1 / 10 ^ 7" unfolding add_divide_distrib by linarith
  then have "S + cents k \<le> 2 ^ 27" by simp
  then have "\<bar>S + cents k\<bar> \<le> 2 ^ 27" using ih(1) c(1) by simp
  from fl_error [OF this] have f: "\<bar>fl (S + cents k) - (S + cents k)\<bar> \<le> 2 powi (- 26)" by simp
  have "(2 :: num) powi (- 26) = 1 / 2 ^ 26" by (simp add: power_int_def field_simps)
  also have "\<dots> \<le> 1 / 10 ^ 7" by simp
  finally have "\<bar>fl (S + cents k) - (S + cents k)\<bar> \<le> 1 / 10 ^ 7" using f by linarith
  moreover have "fl (S + cents k) - (R + of_int k) / 100 =
      (fl (S + cents k) - (S + cents k)) + (S - R / 100) + (cents k - of_int k / 100)"
    by (simp add: add_divide_distrib)
  ultimately have "\<bar>fl (S + cents k) - (R + of_int k) / 100\<bar> \<le>
      1 / 10 ^ 7 + of_nat (length ks) * (2 / 10 ^ 7) + 1 / 10 ^ 7"
    using ih(2) c(2) by linarith
  also have "\<dots> = (of_nat (length ks) + 1) * (2 / 10 ^ 7)" by (simp add: algebra_simps)
  finally have "\<bar>fl (S + cents k) - (R + of_int k) / 100\<bar> \<le> (of_nat (length ks) + 1) * (2 / 10 ^ 7)" .
  moreover have "js_sum (map cents (ks @ [k])) = fl (S + cents k)"
    by (simp add: js_sum_snoc S_def js_add_def)
  moreover have "of_int (sum_list (ks @ [k])) = R + of_int k" "of_nat (length (ks @ [k])) = of_nat (length ks) + (1 :: num)"
    by (simp_all add: R_def)
  moreover have "0 \<le> fl (S + cents k)" by (rule fl_nonneg) (use ih(1) c(1) in simp)
  ultimately show ?case by (simp only:)
qed

lemma js_sum_cents:
  assumes "\<forall>k \<in> set ks. 0 \<le> k" "sum_list ks < 10 ^ 10" "length ks \<le> 10000"
  shows "num_to_fixed 2 (js_sum (map cents ks)) = cents (sum_list ks)"
proof -
  note e = js_sum_cents_error [OF assms]
  have "(of_nat (length ks) :: num) * (2 / 10 ^ 7) \<le> 2 / 10 ^ 3" using assms(3) by (simp add: field_simps)
  then have "\<bar>js_sum (map cents ks) - of_int (sum_list ks) / 10 ^ 2\<bar> < 1 / (2 * 10 ^ 2)" using e by simp
  with e have "to_fixed 2 (js_sum (map cents ks)) = sum_list ks" by (intro to_fixed_near) auto
  then show ?thesis by (simp add: num_to_fixed_2_cents)
qed

lemma sum_single_key:
  fixes x :: "'b::comm_monoid_add"
  shows "distinct ks \<Longrightarrow> sum_list (map (\<lambda>k. if a = k then x else 0) ks) = (if a \<in> set ks then x else 0)"
  by (induction ks) auto

lemma sum_group_weights:
  fixes f :: "'r \<Rightarrow> 'b::comm_monoid_add"
  shows "sum_list (map (\<lambda>(k, rs). sum_list (map f rs)) (group_rows key rows)) = sum_list (map f rows)"
proof -
  have "sum_list (map (\<lambda>k. sum_list (map f (filter (\<lambda>r. key r = k) rows))) ks) = sum_list (map f rows)"
    if "distinct ks" "key ` set rows \<subseteq> set ks" for ks
    using that
  proof (induction rows)
    case (Cons r rows)
    have "sum_list (map (\<lambda>k. sum_list (map f (filter (\<lambda>x. key x = k) (r # rows)))) ks) =
        sum_list (map (\<lambda>k. (if key r = k then f r else 0) + sum_list (map f (filter (\<lambda>x. key x = k) rows))) ks)"
      by (rule arg_cong [where f = sum_list], rule map_cong) auto
    also have "\<dots> = sum_list (map (\<lambda>k. if key r = k then f r else 0) ks) + sum_list (map f rows)"
      using Cons by (simp add: sum_list_addf)
    also have "sum_list (map (\<lambda>k. if key r = k then f r else 0) ks) = f r"
      using Cons.prems by (subst sum_single_key) auto
    finally show ?case by simp
  qed simp
  then show ?thesis unfolding group_rows_def map_map comp_def by simp
qed


definition sample_revenue_query :: revenue_query where
  "sample_revenue_query = \<lparr>rq_startDate = None, rq_endDate = None, rq_workspaceType = None, rq_status = None,
     rq_groupBy = Some GbMonth\<rparr>"

definition sample_report_db :: db where
  "sample_report_db = sample_db [sample_pending\<lparr>bk_totalAmount := 20\<rparr>, sample_pending\<lparr>bk_totalAmount := 30\<rparr>]"

lemma sample_range:
  "resolve_date_range (\<lambda>s. None) 5 (rq_startDate sample_revenue_query) (rq_endDate sample_revenue_query) =
     Inr (- (30 * ms_per_day), ms_per_day - 1)"
  by (simp add: resolve_date_range_def date_argument_def day_end day_start Let_def day_of_def ms_units
      sample_revenue_query_def)

lemma sample_report_rows:
  "revenue_rows sample_report_db (- (30 * ms_per_day)) (ms_per_day - 1) sample_revenue_query =
     [sample_pending\<lparr>bk_totalAmount := 20\<rparr>, sample_pending\<lparr>bk_totalAmount := 30\<rparr>]"
  by (simp add: revenue_rows_def undeleted_bookings_def sample_report_db_def sample_pending_def sample_booking_def
      sample_revenue_query_def ms_units)

lemma sample_cents: "to_fixed 2 20 = 2000" "to_fixed 2 30 = 3000"
  by code_simp+


subsection \<open>Deleted workspaces\<close>

lemma filter_map_status:
  "filter (\<lambda>b. bk_deletedAt b = None) (map (\<lambda>b. if c b then b\<lparr>bk_status := st\<rparr> else b) bs) =
   map (\<lambda>b. if c b then b\<lparr>bk_status := st\<rparr> else b) (filter (\<lambda>b. bk_deletedAt b = None) bs)"
  by (induction bs) auto

lemma filter_map_kept:
  "(\<And>x. P' (f x) \<longleftrightarrow> P x \<and> R x) \<Longrightarrow> (\<And>x. R x \<Longrightarrow> f x = x) \<Longrightarrow> filter P' (map f xs) = filter R (filter P xs)"
  by (induction xs) auto

text \<open>The past revenue of a workspace disappears from the reports with it, while the dashboard goes
  on counting it: after a deletion, the report covers exactly the bookings of the other workspaces,
  whatever the range and the filters, and the revenue of the dashboard is the same as before.\<close>

theorem deletion_erases_revenue:
  assumes "ids_ok d" "soft_delete_workspace now i d = (Inr mails, d')"
  shows "revenue_rows d' s e q = filter (\<lambda>b. bk_workspaceId b \<noteq> i) (revenue_rows d s e q) \<and>
    as_revenue (get_admin_stats d') = as_revenue (get_admin_stats d)"
proof -
  obtain w where w: "find_workspace d i = Some w"
    using assms(2) by (auto simp: soft_delete_workspace_def split: option.splits)
  let ?f = "\<lambda>b. if cancelled_by_deletion now i b then b\<lparr>bk_status := CANCELLED\<rparr> else b"
  have bs: "db_bookings d' = map ?f (db_bookings d)"
    using deletion_bookings [OF assms(1) w, of now] assms(2) by simp
  have ws: "find_workspace d' j = (if j = i then None else find_workspace d j)" for j
    using find_workspace_deleted [of d i now j] w assms(2) by simp
  have live: "undeleted_bookings d' = map ?f (undeleted_bookings d)"
    unfolding undeleted_bookings_def bs by (simp add: filter_map_status)
  have same: "?f b = b" if "bk_workspaceId b \<noteq> i" for b using that by (simp add: cancelled_by_deletion_def)
  have "revenue_rows d' s e q = filter (\<lambda>b. bk_workspaceId b \<noteq> i) (revenue_rows d s e q)"
    unfolding revenue_rows_def live
  proof (rule filter_map_kept)
    fix b
    show "bk_workspaceId b \<noteq> i \<Longrightarrow> ?f b = b" by (rule same)
    have "bk_workspaceId (?f b) = bk_workspaceId b" by simp
    then show "(case find_workspace d' (bk_workspaceId (?f b)) of
          None \<Rightarrow> False
        | Some w \<Rightarrow> s \<le> bk_startTime (?f b) \<and> bk_startTime (?f b) \<le> e \<and>
            (case rq_workspaceType q of None \<Rightarrow> True | Some ty \<Rightarrow> w_type w = ty) \<and>
            (case rq_status q of None \<Rightarrow> True | Some st \<Rightarrow> bk_status (?f b) = st)) \<longleftrightarrow>
        (case find_workspace d (bk_workspaceId b) of
          None \<Rightarrow> False
        | Some w \<Rightarrow> s \<le> bk_startTime b \<and> bk_startTime b \<le> e \<and>
            (case rq_workspaceType q of None \<Rightarrow> True | Some ty \<Rightarrow> w_type w = ty) \<and>
            (case rq_status q of None \<Rightarrow> True | Some st \<Rightarrow> bk_status b = st)) \<and> bk_workspaceId b \<noteq> i"
    proof (cases "bk_workspaceId b = i")
      case False
      show ?thesis unfolding same [OF False] by (simp add: ws False)
    qed (simp add: ws)
  qed
  moreover have "map bk_totalAmount (map ?f bs) = map bk_totalAmount bs" for bs
    by (induction bs) auto
  then have "as_revenue (get_admin_stats d') = as_revenue (get_admin_stats d)"
    using live by (simp only: get_admin_stats_def Let_def admin_stats.select_convs undeleted_bookings_def)
  ultimately show ?thesis by blast
qed

lemma deletion_erases_revenue_witness:
  "revenue_rows (snd (soft_delete_workspace 0 ''w'' sample_deletion)) 0 9 sample_revenue_query = []"
proof -
  have "filter (\<lambda>b. bk_workspaceId b \<noteq> ''w'') (revenue_rows sample_deletion 0 9 sample_revenue_query) = []"
    by (auto simp: filter_empty_conv revenue_rows_def undeleted_bookings_def sample_deletion_def sample_booking_def sample_pending_def)
  with deletion_erases_revenue [OF sample_deletion_simps] show ?thesis by simp
qed

subsection \<open>Occupancy\<close>

lemma percentage_bounds: "0 \<le> booked \<Longrightarrow> 0 \<le> percentage booked available \<and> percentage booked available \<le> 100"
  by (auto simp: percentage_def js_mul_def js_div_def intro!: num_to_fixed_nonneg fl_nonneg)

lemma js_sum_nonneg: "\<forall>x \<in> set xs. 0 \<le> x \<Longrightarrow> 0 \<le> js_sum xs"
  by (induction xs rule: rev_induct) (auto simp: js_sum_snoc js_add_def js_sum_def [of "[]"] fl_nonneg)

text \<open>Occupancy rates are percentages: for bookings that end after they start, the rate of every
  workspace and the overall rate lie between 0 and 100, whatever the capacities, the range and the
  bookings that overlap it; a workspace never shows more confirmed bookings than bookings.\<close>

theorem occupancy_bounds:
  assumes "\<forall>b \<in> set (db_bookings d). bk_startTime b \<le> bk_endTime b" "get_occupancy parse now q d = Inr rep"
  shows "0 \<le> or_overallUtilizationPct rep \<and> or_overallUtilizationPct rep \<le> 100 \<and>
    list_all (\<lambda>w. 0 \<le> wo_utilizationPct w \<and> wo_utilizationPct w \<le> 100 \<and>
      wo_confirmedBookings w \<le> wo_totalBookings w) (or_workspaces rep)"
proof -
  have hours: "0 \<le> (case booking_stats_of d s e i of None \<Rightarrow> 0 | Some st \<Rightarrow> bs_totalBookedHours st)" for s e i
    using assms(1)
    by (auto simp: booking_stats_of_def Let_def undeleted_bookings_def intro!: fl_nonneg sum_list_nonneg)
  have counts: "(case booking_stats_of d s e i of None \<Rightarrow> 0 | Some st \<Rightarrow> bs_confirmedBookings st) \<le>
      (case booking_stats_of d s e i of None \<Rightarrow> 0 | Some st \<Rightarrow> bs_totalBookings st)" for s e i
    by (auto simp: booking_stats_of_def Let_def intro!: count_filter_mono)
  have "0 \<le> wo_utilizationPct (workspace_occupancy_of d s e w) \<and>
      wo_utilizationPct (workspace_occupancy_of d s e w) \<le> 100 \<and> 0 \<le> wo_totalBookedHours (workspace_occupancy_of d s e w) \<and>
      wo_confirmedBookings (workspace_occupancy_of d s e w) \<le> wo_totalBookings (workspace_occupancy_of d s e w)" for s e w
    using percentage_bounds [OF hours] num_to_fixed_nonneg [OF hours] counts
    by (simp add: workspace_occupancy_of_def Let_def)
  note each = this
  have "0 \<le> js_sum (map wo_totalBookedHours (map (workspace_occupancy_of d s e) ws))" for s e ws
    using each by (intro js_sum_nonneg) auto
  note overall = percentage_bounds [OF this]
  obtain s e ws where "rep = \<lparr>or_startDate = iso_date s, or_endDate = iso_date e,
      or_workspaces = map (workspace_occupancy_of d s e) ws,
      or_overallUtilizationPct = percentage (js_sum (map wo_totalBookedHours (map (workspace_occupancy_of d s e) ws)))
        (js_sum (map wo_availableHours (map (workspace_occupancy_of d s e) ws)))\<rparr>"
    using assms(2) by (auto simp: get_occupancy_def Let_def simp del: map_map split: sum.splits)
  then show ?thesis using each overall by (simp add: list_all_iff del: map_map)
qed

lemma occupancy_bounds_witness:
  "\<exists>rep. get_occupancy (\<lambda>s. None) 5 \<lparr>oq_startDate = None, oq_endDate = None, oq_workspaceType = None\<rparr>
      (sample_db [sample_pending]) = Inr rep \<and> or_overallUtilizationPct rep \<le> 100"
proof -
  let ?q = "\<lparr>oq_startDate = None, oq_endDate = None, oq_workspaceType = None\<rparr>"
  obtain rep where rep: "get_occupancy (\<lambda>s. None) 5 ?q (sample_db [sample_pending]) = Inr rep"
    by (simp add: get_occupancy_def resolve_date_range_def date_argument_def Let_def)
  have "\<forall>b \<in> set (db_bookings (sample_db [sample_pending])). bk_startTime b \<le> bk_endTime b"
    by (simp add: sample_pending_def sample_booking_def)
  from occupancy_bounds [OF this rep] rep show ?thesis by blast
qed

subsection \<open>The CSV text\<close>

lemma split_join:
  "xs \<noteq> [] \<Longrightarrow> \<forall>x \<in> set xs. sep \<notin> set x \<Longrightarrow> split_on sep (join_with [sep] xs) = xs"
  by (induction "[sep]" xs rule: join_with.induct) (simp_all add: split_on_plain split_on_append)

lemma int_string_chars: "c \<in> set (int_string n) \<Longrightarrow> number_char c"
  by (auto simp: int_string_def dest: nat_string_chars split: if_splits)

lemma pad_number_chars: "c \<in> set (pad_number k n) \<Longrightarrow> number_char c"
  by (auto simp: pad_number_def pad_start_def dest: int_string_chars)

lemma iso_date_chars: "c \<in> set (iso_date t) \<Longrightarrow> number_char c"
  by (auto simp: iso_date_def iso_year_def dest: pad_number_chars split: if_splits)

lemma period_label_chars: "c \<in> set (period_label g p) \<Longrightarrow> number_char c"
  by (cases g) (auto simp: period_label_def day_label_def month_label_def
      dest: iso_date_chars pad_number_chars int_string_chars)

lemma not_number_char: "\<not> number_char (CHR '','')" "\<not> number_char (CHR 0x0A)"
  by (simp_all add: number_char_def)

definition read_csv :: "string \<Rightarrow> string list list" where
  "read_csv s = map (split_on (CHR '','')) (split_on (CHR 0x0A) s)"

text \<open>The CSV export can be read back: split at line breaks and commas, it gives four summary lines,
  an empty one, the header, and for every period exactly its label, its revenue, its number of
  bookings and its average as they are printed.\<close>

theorem csv_reads_back:
  assumes "get_revenue parse now q d = Inr rep"
  shows "\<exists>csv. get_revenue_csv parse now q d = Inr csv \<and> take 4 (split_on (CHR 0x0A) csv) = take 4 (csv_summary rep) \<and>
    drop 5 (read_csv csv) = [''period'', ''totalRevenue'', ''bookingCount'', ''averageBookingValue''] #
      map (\<lambda>r. [rp_period r, num_string (rp_totalRevenue r), nat_string (rp_bookingCount r),
        num_string (rp_averageBookingValue r)]) (rr_breakdown rep)"
proof -
  obtain g gs s e where rep: "rr_breakdown rep = map (revenue_period_of g) gs"
      "rr_startDate rep = iso_date s" "rr_endDate rep = iso_date e"
    using assms by (auto simp: get_revenue_def Let_def split: sum.splits)
  have label: "number_char c" if "r \<in> set (rr_breakdown rep)" "c \<in> set (rp_period r)" for r c
    using that period_label_chars by (auto simp: rep revenue_period_of_def Let_def)
  have nl: "CHR 0x0A \<notin> set (nat_string n)" "CHR '','' \<notin> set (nat_string n)" for n
    using nat_string_chars not_number_char by blast+
  have "CHR 0x0A \<notin> set (csv_row r)" if "r \<in> set (rr_breakdown rep)" for r
    using label [OF that] not_number_char nl num_string_plain by (auto simp: csv_row_def)
  moreover have "CHR 0x0A \<notin> set x" if "x \<in> set (csv_summary rep)" for x
    using that iso_date_chars not_number_char nl num_string_plain
    by (auto simp: csv_summary_def rep)
  ultimately have lines: "split_on (CHR 0x0A) (revenue_csv rep) = csv_summary rep @ [csv_header] @ map csv_row (rr_breakdown rep)"
    unfolding revenue_csv_def by (intro split_join) (auto simp: csv_header_def)
  have "split_on (CHR '','') (csv_row r) = [rp_period r, num_string (rp_totalRevenue r), nat_string (rp_bookingCount r),
      num_string (rp_averageBookingValue r)]" if "r \<in> set (rr_breakdown rep)" for r
  proof -
    have "CHR '','' \<notin> set (rp_period r)" using label [OF that] not_number_char by blast
    then show ?thesis
      unfolding csv_row_def using num_string_plain nl
      by (simp add: split_on_append split_on_plain)
  qed
  then have "drop 5 (read_csv (revenue_csv rep)) = split_on (CHR '','') csv_header #
      map (\<lambda>r. [rp_period r, num_string (rp_totalRevenue r), nat_string (rp_bookingCount r),
        num_string (rp_averageBookingValue r)]) (rr_breakdown rep)"
    by (simp add: read_csv_def lines csv_summary_def)
  moreover have "split_on (CHR '','') csv_header = [''period'', ''totalRevenue'', ''bookingCount'', ''averageBookingValue'']"
    by (simp add: csv_header_def)
  ultimately show ?thesis using assms lines by (simp add: get_revenue_csv_def csv_summary_def)
qed

lemma csv_reads_back_witness:
  "\<exists>csv. get_revenue_csv (\<lambda>s. None) 5 sample_revenue_query (sample_db []) = Inr csv \<and>
     drop 5 (read_csv csv) = [[''period'', ''totalRevenue'', ''bookingCount'', ''averageBookingValue'']]"
proof -
  obtain rep where rep: "get_revenue (\<lambda>s. None) 5 sample_revenue_query (sample_db []) = Inr rep"
    and no: "rr_breakdown rep = []"
    using sample_range
    by (auto simp: get_revenue_def Let_def revenue_rows_def undeleted_bookings_def group_rows_def)
  from csv_reads_back [OF rep] no show ?thesis by auto
qed

text \<open>The label of a week has a digit too many: the first week of 2024 begins on day 19723.\<close>

lemma week_label_extra_digit: "period_label GbWeek 19723 = ''20244-01''"
  by code_simp

end
