(* ===== verification/Attendance_Report_Correct.thy ===== *)
theory Attendance_Report_Correct
  imports Attendance_Report Reports_Correct
begin

text \<open>
  What the attendance timeline promises: the ISO week it shows against the one of the standard,
  the thresholds of its anomalies, the CSV file read back by a reader of RFC 4180, and totals that
  agree between the weeks and the whole.
\<close>

subsection \<open>ISO weeks\<close>

text \<open>The years of the calendar, in days up to their first of March.\<close>

lemma pred_div_mod:
  fixes y n :: int
  assumes "0 < n"
  shows "(y - 1) div n = y div n - (if y mod n = 0 then 1 else 0)"
    and "(y - 1) mod n = (if y mod n = 0 then n - 1 else y mod n - 1)"
proof -
  define k r where "k = y div n" and "r = y mod n"
  have y: "y = r + n * k" by (simp add: k_def r_def)
  have r: "0 \<le> r" "r < n" using assms by (simp_all add: r_def)
  have "(y - 1) div n = k - (if r = 0 then 1 else 0) \<and> (y - 1) mod n = (if r = 0 then n - 1 else r - 1)"
  proof (cases "r = 0")
    case True
    have "y - 1 = (n - 1) + n * (k - 1)" using y True by (simp add: algebra_simps)
    moreover have "(n - 1) div n = 0" "(n - 1) mod n = n - 1"
      using assms by (simp_all only: div_pos_pos_trivial mod_pos_pos_trivial)
    then have "((n - 1) + n * (k - 1)) div n = k - 1" "((n - 1) + n * (k - 1)) mod n = n - 1"
      using assms by (simp_all only: div_mult_self2 mod_mult_self2)
    ultimately have "(y - 1) div n = k - 1 \<and> (y - 1) mod n = n - 1" by (simp only:)
    then show ?thesis using True by (simp only: if_True refl diff_0_right simp_thms)
  next
    case False
    have "y - 1 = (r - 1) + n * k" using y by simp
    moreover have "(r - 1) div n = 0" "(r - 1) mod n = r - 1"
      using assms r False by (simp_all add: div_pos_pos_trivial mod_pos_pos_trivial)
    then have "((r - 1) + n * k) div n = k" "((r - 1) + n * k) mod n = r - 1"
      using assms by (simp_all only: div_mult_self2 mod_mult_self2)
    ultimately have "(y - 1) div n = k \<and> (y - 1) mod n = r - 1" by (simp only:)
    then show ?thesis using False by (simp only: if_False refl diff_0_right simp_thms)
  qed
  then show "(y - 1) div n = y div n - (if y mod n = 0 then 1 else 0)"
    "(y - 1) mod n = (if y mod n = 0 then n - 1 else y mod n - 1)"
    by (simp_all add: k_def r_def)
qed

lemma march_days_step:
  fixes y :: int
  defines "f \<equiv> \<lambda>y. y div 400 * 146097 + (y mod 400 * 365 + y mod 400 div 4 - y mod 400 div 100)"
  shows "365 \<le> f y - f (y - 1) \<and> f y - f (y - 1) \<le> 366"
proof (cases "y mod 400 = 0")
  case True
  then have "(y - 1) div 400 = y div 400 - 1" "(y - 1) mod 400 = 399"
    using pred_div_mod [of 400 y] by simp_all
  then show ?thesis unfolding f_def True by simp
next
  case False
  define r where "r = y mod 400"
  have p: "(y - 1) div 400 = y div 400" "(y - 1) mod 400 = r - 1"
    using pred_div_mod [of 400 y] False by (simp_all add: r_def)
  have q: "(r - 1) div 4 = r div 4 - (if r mod 4 = 0 then 1 else 0)"
    "(r - 1) div 100 = r div 100 - (if r mod 100 = 0 then 1 else 0)"
    by (rule pred_div_mod(1); simp)+
  have m: "r mod 100 = 0 \<Longrightarrow> r mod 4 = 0"
    using mod_mod_cancel [of 4 100 r] by simp
  have "f y - f (y - 1) = 365 + (if r mod 4 = 0 then 1 else 0) - (if r mod 100 = 0 then 1 else 0)"
    unfolding f_def p q r_def [symmetric] by (simp only: algebra_simps)
  then show ?thesis using m by (simp split: if_splits)
qed

lemma new_year_near:
  assumes "civil_of_days n = (y, m, d)"
  shows "\<bar>n - days_of_civil y 1 1\<bar> \<le> 1000"
proof -
  have b: "1 \<le> m" "m \<le> 12" "1 \<le> d" "d \<le> 31" "days_of_civil y m d = n"
    using civil_of_days_bounds [OF assms] by auto
  define f where "f y = y div 400 * 146097 + (y mod 400 * 365 + y mod 400 div 4 - y mod 400 div 100)" for y :: int
  have s: "365 \<le> f y - f (y - 1)" "f y - f (y - 1) \<le> 366"
    using march_days_step [of y] by (simp_all add: f_def)
  have one: "days_of_civil y 1 1 = f (y - 1) + 306 - 719468" by (simp add: days_of_civil_def f_def Let_def)
  have n: "n = f (if m \<le> 2 then y - 1 else y) + ((153 * (if m > 2 then m - 3 else m + 9) + 2) div 5 + d - 1) - 719468"
    unfolding b(5) [symmetric] days_of_civil_def Let_def f_def by (cases "m \<le> 2") simp_all
  have "0 \<le> (153 * (if m > 2 then m - 3 else m + 9) + 2) div 5 \<and> (153 * (if m > 2 then m - 3 else m + 9) + 2) div 5 \<le> 400"
    using b(1,2) by (cases "m > 2") auto
  then show ?thesis using b(3,4) s one n by (cases "m \<le> 2") auto
qed

lemma thursday_day: "day_of (thursday_of t) = monday_of (day_of t) + 3"
proof -
  have "((x + 4) mod 7 + 6) mod 7 = (x + 3) mod 7" for x :: int by presburger
  then have "(get_utc_day t + 6) mod 7 = (day_of t + 3) mod 7" by (simp add: get_utc_day_def day_of_def)
  then show ?thesis by (simp add: thursday_of_def monday_of_def day_of_def ms_units)
qed

lemma thursday_time: "thursday_of t = day_of (thursday_of t) * ms_per_day + t mod ms_per_day"
  using div_mult_mod_eq [of "thursday_of t" ms_per_day] by (simp add: thursday_of_def day_of_def)

lemma round_near:
  assumes "\<bar>K\<bar> \<le> 1000" "\<bar>d\<bar> < ms_per_day"
  shows "js_round (js_div (js_int (K * (86400000 * 7) + d)) (86400000 * 7)) = K"
proof -
  have d: "\<bar>d\<bar> < 86400000" using assms(2) by (simp add: ms_units)
  have "js_int (K * (86400000 * 7) + d) = of_int (K * (86400000 * 7) + d)"
    unfolding js_int_def by (rule fl_int) (use assms(1) d in auto)
  then have q: "js_div (js_int (K * (86400000 * 7) + d)) (86400000 * 7) = fl (of_int K + of_int d / 604800000)"
    by (simp add: js_div_def add_divide_distrib)
  have dq: "\<bar>(of_int d :: num)\<bar> < 86400000" using d by (metis of_int_abs of_int_less_iff of_int_numeral)
  have lo: "of_int (4 * K - 1) / 2 ^ 2 \<le> fl (of_int K + of_int d / 604800000)"
  proof -
    have "fl (of_int (4 * K - 1) / 2 ^ 2) \<le> fl (of_int K + of_int d / 604800000)"
      by (rule fl_mono) (use dq in \<open>simp add: field_simps abs_less_iff\<close>)
    moreover have "fl (of_int (4 * K - 1) / 2 ^ 2) = of_int (4 * K - 1) / 2 ^ 2"
      by (rule fl_dyadic) (use assms(1) in auto)
    ultimately show ?thesis by simp
  qed
  have hi: "fl (of_int K + of_int d / 604800000) \<le> of_int (4 * K + 1) / 2 ^ 2"
  proof -
    have "fl (of_int K + of_int d / 604800000) \<le> fl (of_int (4 * K + 1) / 2 ^ 2)"
      by (rule fl_mono) (use dq in \<open>simp add: field_simps abs_less_iff\<close>)
    moreover have "fl (of_int (4 * K + 1) / 2 ^ 2) = of_int (4 * K + 1) / 2 ^ 2"
      by (rule fl_dyadic) (use assms(1) in auto)
    ultimately show ?thesis by simp
  qed
  show ?thesis unfolding q js_round_def
    by (rule floor_unique) (use lo hi in \<open>simp_all add: field_simps\<close>)
qed

lemma same_week_arith:
  fixes A T :: int
  assumes "T mod 7 = 0"
  shows "T - (monday_of (A + 3) + 3) = 7 * ((T - A) div 7)"
    and "monday_of (A + 3 - 1) = monday_of (A + 3) - (if (A + 6) mod 7 = 0 then 7 else 0)"
proof -
  show "T - (monday_of (A + 3) + 3) = 7 * ((T - A) div 7)" using assms unfolding monday_of_def by presburger
  show "monday_of (A + 3 - 1) = monday_of (A + 3) - (if (A + 6) mod 7 = 0 then 7 else 0)"
    unfolding monday_of_def by presburger
qed

text \<open>C36: The week number shown is the one of ISO 8601, except east of Greenwich in the years whose
  fourth of January is a Monday, where it is one too high all year: the code takes that day at
  midnight of the browser's time zone and reads its weekday in UTC.\<close>

theorem iso_week_exact:
  assumes "\<bar>tz\<bar> \<le> 14 * ms_per_hour"
  shows "get_iso_week tz (Some t) = iso_week (monday_of (day_of t)) +
    (if 0 < tz \<and> (days_of_civil (iso_week_year (monday_of (day_of t))) 1 4 + 3) mod 7 = 0 then 1 else 0)"
proof -
  define T where "T = monday_of (day_of t) + 3"
  define Y where "Y = iso_week_year (monday_of (day_of t))"
  define A where "A = days_of_civil Y 1 1"
  have T7: "T mod 7 = 0" unfolding T_def monday_of_def by presburger
  have jan4: "days_of_civil Y 1 4 = A + 3" by (simp add: A_def days_of_civil_def Let_def)
  have dT: "day_of (thursday_of t) = T" by (simp add: thursday_day T_def)
  have Y: "get_utc_full_year (thursday_of t) = Y"
    using dT by (simp add: Y_def iso_week_year_def get_utc_full_year_def T_def day_of_def ms_units)
  obtain y m d where c: "civil_of_days T = (y, m, d)" by (cases "civil_of_days T") auto
  have "y = Y" using c dT by (simp add: Y [symmetric] get_utc_full_year_def day_of_def)
  then have near: "\<bar>T - A\<bar> \<le> 1000" using new_year_near [OF c] by (simp add: A_def)
  define j where "j = (A + 3) * ms_per_day - tz"
  define s where "s = (if 0 < tz then 1 else 0 :: int)"
  have dj: "day_of j = A + 3 - s" using assms unfolding j_def s_def day_of_def ms_units by auto
  define K where "K = (T - A) div 7 + (if 0 < tz \<and> (A + 6) mod 7 = 0 then 1 else 0)"
  have F: "T - day_of (thursday_of j) = 7 * K"
  proof (cases "0 < tz")
    case True
    then show ?thesis
      using same_week_arith(1) [OF T7, of A]
      by (cases "(A + 6) mod 7 = 0") (simp_all only: thursday_day dj K_def s_def if_True same_week_arith(2) [OF T7], simp_all)
  next
    case False
    then show ?thesis using same_week_arith(1) [OF T7, of A] by (simp add: thursday_day dj K_def s_def)
  qed
  have "thursday_of t = T * ms_per_day + t mod ms_per_day" using thursday_time [of t] dT by simp
  moreover have "thursday_of j = (T - 7 * K) * ms_per_day + j mod ms_per_day"
    using thursday_time [of j] F by (simp add: algebra_simps)
  ultimately have "thursday_of t - thursday_of j = K * (86400000 * 7) + (t mod ms_per_day - j mod ms_per_day)"
    by (simp add: ms_units algebra_simps)
  moreover have "\<bar>K\<bar> \<le> 1000"
  proof -
    have "\<bar>(T - A) div 7\<bar> \<le> 500" using near by linarith
    then show ?thesis unfolding K_def abs_le_iff by (auto split: if_splits)
  qed
  moreover have "\<bar>t mod ms_per_day - j mod ms_per_day\<bar> < ms_per_day"
  proof -
    have "0 \<le> x mod ms_per_day \<and> x mod ms_per_day < ms_per_day" for x by (simp add: ms_units)
    from this [of t] this [of j] show ?thesis by linarith
  qed
  ultimately have "get_iso_week tz (Some t) = 1 + K"
    by (simp only: get_iso_week_def Let_def option.case Y jan4 j_def [symmetric] round_near)
  moreover have "iso_week (monday_of (day_of t)) = (T - A) div 7 + 1"
    by (simp add: iso_week_def A_def Y_def T_def)
  ultimately show ?thesis by (simp add: K_def Y_def [symmetric] jan4 add.commute [of A 6])
qed

lemma iso_week_exact_witness:
  "\<bar>19800000\<bar> \<le> 14 * ms_per_hour \<and>
   get_iso_week 19800000 (Some 1752667200000) = iso_week (monday_of (day_of 1752667200000)) +
    (if 0 < (19800000 :: int) \<and> (days_of_civil (iso_week_year (monday_of (day_of 1752667200000))) 1 4 + 3) mod 7 = 0 then 1 else 0)"
  using iso_week_exact [of 19800000 1752667200000] by (simp add: ms_units)

subsection \<open>The CSV file\<close>

text \<open>A reader of RFC 4180: outside quotes, inside them, or after a quote that closes the cell or opens
  a doubled one.\<close>

datatype csv_mode = Plain | Quoted | After_Quote

fun read_rows :: "csv_mode \<Rightarrow> string \<Rightarrow> string list \<Rightarrow> string \<Rightarrow> string list list" where
  "read_rows m cell row [] = (if cell = [] \<and> row = [] then [] else [row @ [cell]])"
| "read_rows Quoted cell row (c # cs) =
     (if c = quote_char then read_rows After_Quote cell row cs else read_rows Quoted (cell @ [c]) row cs)"
| "read_rows m cell row (c # cs) =
     (if c = quote_char then read_rows Quoted (if m = Plain then cell else cell @ [c]) row cs
      else if c = CHR '','' then read_rows Plain [] (row @ [cell]) cs
      else if c = CHR 0x0D then read_rows m cell row cs
      else if c = CHR 0x0A then (row @ [cell]) # read_rows Plain [] [] cs
      else read_rows m (cell @ [c]) row cs)"

lemma special_chars: "quote_char \<noteq> CHR '',''" "quote_char \<noteq> CHR 0x0D" "quote_char \<noteq> CHR 0x0A"
  by (simp_all add: quote_char_def)

lemma read_plain:
  "set s \<inter> {quote_char, CHR '','', CHR 0x0D, CHR 0x0A} = {} \<Longrightarrow>
   read_rows Plain cell row (s @ rest) = read_rows Plain (cell @ s) row rest"
  by (induction s arbitrary: cell) auto

lemma read_quoted:
  "read_rows Quoted cell row
     (concat (map (\<lambda>c. if c = quote_char then [quote_char, quote_char] else [c]) s) @ quote_char # rest) =
   read_rows After_Quote (cell @ s) row rest"
  by (induction s arbitrary: cell) auto

lemma read_escaped:
  "\<exists>m. m \<noteq> Quoted \<and> read_rows Plain [] row (escape_csv_cell s @ rest) = read_rows m s row rest"
proof (cases "set s \<inter> {quote_char, CHR '','', CHR 0x0D, CHR 0x0A} = {}")
  case True
  then show ?thesis using read_plain [OF True, of "[]"] by (intro exI [of _ Plain]) (simp add: escape_csv_cell_def)
next
  case False
  then show ?thesis using read_quoted [of "[]" row s rest] by (intro exI [of _ After_Quote]) (simp add: escape_csv_cell_def)
qed

lemma read_separator: "m \<noteq> Quoted \<Longrightarrow> read_rows m s row (CHR '','' # rest) = read_rows Plain [] (row @ [s]) rest"
  by (cases m) (simp_all add: quote_char_def)

lemma read_end: "m \<noteq> Quoted \<Longrightarrow> read_rows m s row (crlf @ rest) = (row @ [s]) # read_rows Plain [] [] rest"
  by (cases m) (simp_all add: crlf_def quote_char_def)

lemma read_line:
  "cells \<noteq> [] \<Longrightarrow> read_rows Plain [] row (csv_line cells @ crlf @ rest) = (row @ cells) # read_rows Plain [] [] rest"
proof (induction cells arbitrary: row rule: induct_list012)
  case (2 x)
  then show ?case using read_escaped [of row x "crlf @ rest"] by (auto simp: csv_line_def read_end)
next
  case (3 x y zs)
  then show ?case
    using read_escaped [of row x "CHR '','' # csv_line (y # zs) @ crlf @ rest"] by (auto simp: csv_line_def read_separator)
qed simp

lemma read_lines:
  "rows \<noteq> [] \<Longrightarrow> \<forall>cells \<in> set rows. cells \<noteq> [] \<Longrightarrow>
   read_rows Plain [] [] (join_with crlf (map csv_line rows) @ crlf) = rows"
proof (induction rows rule: induct_list012)
  case (2 x)
  then show ?case using read_line [of x "[]" "[]"] by simp
next
  case (3 x y zs)
  then show ?case using read_line [of x "[]" "join_with crlf (map csv_line (y # zs)) @ crlf"] by simp
qed simp

text \<open>C37: A reader of RFC 4180 finds in the exported file the headers and then the cells of every
  record, in order and unchanged, whatever characters the names and the reasons hold.\<close>

theorem export_csv_roundtrip:
  "read_rows Plain [] [] (generate_csv_content parse gap now records) = csv_headers # map (csv_values parse gap now) records"
proof -
  have "generate_csv_content parse gap now records =
      join_with crlf (map csv_line (csv_headers # map (csv_values parse gap now) records)) @ crlf"
    by (simp add: generate_csv_content_def Let_def comp_def)
  also have "read_rows Plain [] [] \<dots> = csv_headers # map (csv_values parse gap now) records"
    by (rule read_lines) (auto simp: csv_headers_def csv_values_def Let_def)
  finally show ?thesis .
qed

subsection \<open>Anomalies\<close>

lemma minutes_floor:
  assumes "0 \<le> m" "m \<le> 10000" "a \<le> b"
  shows "m < minutes_between a b \<longleftrightarrow> m * 60000 + 30000 \<le> b - a"
proof
  have dy: "fl (of_int n / 2 ^ j) = of_int n / 2 ^ j" if "0 \<le> n" "n \<le> 10 ^ 12" "j \<le> 1074" for n :: int and j
    by (rule fl_dyadic) (use that in auto)
  {
    assume le: "m * 60000 + 30000 \<le> b - a"
    have "(of_int (m * 60000 + 30000) :: num) \<le> js_int (b - a)"
      unfolding js_int_def by (rule fl_int_ge) (use le assms in \<open>simp_all add: of_int_diff [symmetric] del: of_int_diff\<close>)
    then have "fl (of_int (2 * m + 1) / 2 ^ 1) \<le> fl (js_int (b - a) / 60000)"
      by (intro fl_mono) (simp add: field_simps)
    then have "of_int (2 * m + 1) / 2 \<le> js_div (js_int (b - a)) 60000"
      using dy [of "2 * m + 1" 1] assms by (simp add: js_div_def)
    then show "m < minutes_between a b"
      unfolding minutes_between_def js_round_def by (simp add: less_floor_iff field_simps)
  next
    assume less: "m < minutes_between a b"
    show "m * 60000 + 30000 \<le> b - a"
    proof (rule ccontr)
      assume "\<not> m * 60000 + 30000 \<le> b - a"
      then have small: "b - a \<le> m * 60000 + 29999" by simp
      then have "js_int (b - a) = of_int (b - a)" unfolding js_int_def by (intro fl_int) (use assms in auto)
      moreover have "(of_int (b - a) :: num) \<le> of_int (m * 60000 + 29999)" using small by (simp only: of_int_le_iff)
      ultimately have "fl (js_int (b - a) / 60000) \<le> fl (of_int ((2 * m + 1) * 2 ^ 15 - 1) / 2 ^ 16)"
        by (intro fl_mono) (simp add: field_simps)
      then have "js_div (js_int (b - a)) 60000 \<le> of_int ((2 * m + 1) * 2 ^ 15 - 1) / 2 ^ 16"
        using dy [of "(2 * m + 1) * 2 ^ 15 - 1" 16] assms by (simp add: js_div_def)
      then have "js_div (js_int (b - a)) 60000 + 1 / 2 < of_int m + 1" by (simp add: field_simps)
      then show False using less unfolding minutes_between_def js_round_def by linarith
    qed
  }
qed

text \<open>A session the server has not flagged, with both its times in order, is an anomaly when it
  lasts less than thirty seconds or at least twelve hours and thirty seconds.\<close>

theorem anomaly_thresholds:
  assumes "sr_isAnomaly r \<noteq> Some True" "sr_autoCompleted r \<noteq> Some True"
    and "sr_clockIn r \<noteq> []" "sr_clockOut r = Some out" "out \<noteq> []"
    and "parse (sr_clockIn r) = Some a" "parse out = Some b" "a \<le> b"
  shows "anomaly_reason parse now r \<noteq> None \<longleftrightarrow> b - a < 30000 \<or> 43230000 \<le> b - a"
proof -
  have "sd_minutes (calculate_duration parse now (sr_clockIn r) (sr_clockOut r)) = minutes_between a b"
    using assms by (simp add: calculate_duration_def)
  then have "anomaly_reason parse now r \<noteq> None \<longleftrightarrow> 720 < minutes_between a b \<or> \<not> 0 < minutes_between a b"
    using assms by (auto simp: anomaly_reason_def Let_def)
  then show ?thesis using minutes_floor [of 720 a b] minutes_floor [of 0 a b] assms(8) by auto
qed

definition long_session :: session_record where
  "long_session = \<lparr>sr_id = ''1'', sr_userId = None, sr_memberName = None, sr_clockIn = ''a'', sr_clockOut = Some ''b'', sr_date = [],
     sr_isAnomaly = None, sr_anomalyReason = None, sr_autoCompleted = None, sr_autoCompletedReason = None\<rparr>"

lemma anomaly_thresholds_witness:
  "anomaly_reason (\<lambda>s. if s = ''a'' then Some 0 else Some 43229999) 0 long_session = None"
  using anomaly_thresholds [of long_session "''b''" "\<lambda>s. if s = ''a'' then Some 0 else Some 43229999" 0 43229999 0]
  by (simp add: long_session_def)

subsection \<open>Totals\<close>

lemma sum_rev_groups:
  fixes f :: "'r \<Rightarrow> 'b::comm_monoid_add"
  shows "sum_list (map (\<lambda>(k, rs). sum_list (map f rs)) (rev (group_rows key rows))) = sum_list (map f rows)"
  using sum_group_weights [of f key rows] by (simp add: rev_map [symmetric] sum_list_rev)

text \<open>The weeks of the timeline, latest first and none twice, hold every record once under its own
  week: their minutes, their sessions and their anomalies add up to the ones of the whole page.\<close>

theorem timeline_totals_agree:
  "let weeks = grouped_by_week parse tz now records
   in sorted_wrt (\<lambda>x y. fst y < fst x) weeks \<and>
      list_all (\<lambda>(k, rs). rs = filter (\<lambda>r. week_key_of parse tz now r = k) records) weeks \<and>
      sum_list (map (\<lambda>(k, rs). total_minutes parse now rs) weeks) = total_minutes parse now records \<and>
      sum_list (map (\<lambda>(k, rs). anomaly_count parse now rs) weeks) = anomaly_count parse now records \<and>
      sum_list (map (\<lambda>(k, rs). length rs) weeks) = length records"
proof -
  let ?weeks = "grouped_by_week parse tz now records"
  have "sorted_wrt (<) (map fst (group_rows (week_key_of parse tz now) records))"
    using group_rows_keys [of "week_key_of parse tz now" records] by (simp only: strict_sorted_iff)
  then have "sorted_wrt (\<lambda>x y. fst y < fst x) ?weeks"
    by (simp add: grouped_by_week_def sorted_wrt_rev sorted_wrt_map)
  moreover have "list_all (\<lambda>(k, rs). rs = filter (\<lambda>r. week_key_of parse tz now r = k) records) ?weeks"
    by (auto simp: grouped_by_week_def list_all_iff dest: group_rows_members)
  moreover have "sum_list (map (\<lambda>(k, rs). total_minutes parse now rs) ?weeks) = total_minutes parse now records"
    unfolding grouped_by_week_def total_minutes_def by (rule sum_rev_groups)
  moreover have len: "length (filter P xs) = sum_list (map (\<lambda>x. if P x then 1 else 0) xs)" for P and xs :: "'a list"
    by (induction xs) simp_all
  have "sum_list (map (\<lambda>(k, rs). anomaly_count parse now rs) ?weeks) = anomaly_count parse now records"
    unfolding grouped_by_week_def anomaly_count_def len by (rule sum_rev_groups)
  moreover have "sum_list (map (\<lambda>(k, rs). length rs) ?weeks) = length records"
    using sum_rev_groups [of "\<lambda>_. 1 :: nat" "week_key_of parse tz now" records]
    by (simp add: grouped_by_week_def sum_list_triv)
  ultimately show ?thesis by simp
qed

end
