(* ===== verification/Attendance_Summary.thy ===== *)
theory Attendance_Summary
  imports Attendance_Correct
begin

text \<open>
  The attendance summary (\<open>getAttendanceSummary\<close> of
  backend/src/attendance/attendance.service.ts): records are paired into sessions, sessions
  are filtered to a window and grouped into daily, weekly or monthly buckets of the
  requested time zone, with totals, averages, anomalies and peak hours. Maps are the lists
  of their entries in insertion order. What the code uses of luxon is the record \<open>luxon\<close>.
\<close>

record luxon =
  lx_isValidZone :: "string \<Rightarrow> bool"
  lx_fromISO :: "string \<Rightarrow> string \<Rightarrow> instant option" \<comment> \<open>text, zone; None: an invalid DateTime\<close>
  lx_toISO :: "string \<Rightarrow> instant \<Rightarrow> string"
  lx_minusDays :: "string \<Rightarrow> instant \<Rightarrow> int \<Rightarrow> instant"
  lx_hour :: "string \<Rightarrow> instant \<Rightarrow> int"
  lx_isoDate :: "string \<Rightarrow> instant \<Rightarrow> string"
  lx_weekYear :: "string \<Rightarrow> instant \<Rightarrow> int"
  lx_weekNumber :: "string \<Rightarrow> instant \<Rightarrow> int"
  lx_year :: "string \<Rightarrow> instant \<Rightarrow> int"
  lx_month :: "string \<Rightarrow> instant \<Rightarrow> int"

datatype period = Daily | Weekly | Monthly

datatype anomaly_flag = Short | Long

record attendance_summary_query =
  sq_timezone :: "string option"
  sq_period :: "period option"
  sq_startDate :: "string option"
  sq_endDate :: "string option"

record session_summary =
  ss_sessionId :: uuid
  ss_userId :: uuid
  ss_clockInUtc :: instant
  ss_clockOutUtc :: instant
  ss_durationSeconds :: int
  ss_anomaly :: "anomaly_flag option"

record bucket_entry =
  bu_bucket :: string
  bu_sessions :: int
  bu_totalDurationSeconds :: int
  bu_avgDurationSeconds :: int
  bu_short :: int
  bu_long :: int

record attendance_summary_result =
  sr_timezone :: string
  sr_period :: period
  sr_startDate :: "string option"
  sr_endDate :: "string option"
  sr_totalSessions :: int
  sr_totalDurationSeconds :: int
  sr_avgDurationSeconds :: int
  sr_peakArrivalHour :: "int option"
  sr_peakDepartureHour :: "int option"
  sr_buckets :: "bucket_entry list"
  sr_anomalies :: "session_summary list"

definition ANOMALY_SHORT_SECONDS :: int where "ANOMALY_SHORT_SECONDS = 5 * 60"
definition ANOMALY_LONG_SECONDS :: int where "ANOMALY_LONG_SECONDS = 14 * 60 * 60"

subsection \<open>Pairing records into sessions\<close>

type_synonym session_map = "(uuid \<times> attendance \<times> attendance option) list"

definition pair_record :: "session_map \<Rightarrow> attendance \<Rightarrow> session_map" where
  "pair_record m r =
     (case at_sessionId r of
        None \<Rightarrow> m
      | Some s \<Rightarrow>
        if s = [] then m
        else (case at_action r of
                CLOCK_IN \<Rightarrow> if map_of m s = None then m @ [(s, r, None)] else m
              | CLOCK_OUT \<Rightarrow> map (\<lambda>(k, i, out). if k = s then (k, i, Some r) else (k, i, out)) m))"

definition pair_records :: "attendance list \<Rightarrow> session_map" where
  "pair_records records = foldl pair_record [] records"

definition anomaly_of :: "int \<Rightarrow> anomaly_flag option" where
  "anomaly_of durationSeconds =
     (if durationSeconds < ANOMALY_SHORT_SECONDS then Some Short
      else if durationSeconds > ANOMALY_LONG_SECONDS then Some Long else None)"

text \<open>Comparisons with an invalid DateTime are false, so it bounds nothing.\<close>

definition outside_window :: "instant option \<Rightarrow> instant option \<Rightarrow> instant \<Rightarrow> bool" where
  "outside_window windowStart windowEnd t \<longleftrightarrow>
     (case windowStart of None \<Rightarrow> False | Some a \<Rightarrow> t < a) \<or>
     (case windowEnd of None \<Rightarrow> False | Some b \<Rightarrow> t > b)"

definition session_of :: "uuid \<Rightarrow> attendance \<Rightarrow> attendance \<Rightarrow> session_summary" where
  "session_of sid clockIn clockOut =
     (let durationSeconds = (js_date (at_timestamp clockOut) - js_date (at_timestamp clockIn)) div 1000
      in \<lparr>ss_sessionId = sid, ss_userId = at_userId clockIn,
          ss_clockInUtc = js_date (at_timestamp clockIn),
          ss_clockOutUtc = js_date (at_timestamp clockOut),
          ss_durationSeconds = durationSeconds, ss_anomaly = anomaly_of durationSeconds\<rparr>)"

definition window_sessions ::
  "instant option \<Rightarrow> instant option \<Rightarrow> session_map \<Rightarrow> session_summary list" where
  "window_sessions windowStart windowEnd m =
     List.map_filter (\<lambda>(sid, clockIn, clockOut).
       case clockOut of
         None \<Rightarrow> None
       | Some out \<Rightarrow>
         if outside_window windowStart windowEnd (js_date (at_timestamp clockIn)) then None
         else Some (session_of sid clockIn out)) m"

subsection \<open>Buckets and peaks\<close>

definition to_bucket_key :: "luxon \<Rightarrow> string \<Rightarrow> instant \<Rightarrow> period \<Rightarrow> string" where
  "to_bucket_key lx zone t period =
     (case period of
        Daily \<Rightarrow> lx_isoDate lx zone t
      | Weekly \<Rightarrow> int_string (lx_weekYear lx zone t) @ ''-W'' @ pad_number 2 (lx_weekNumber lx zone t)
      | Monthly \<Rightarrow> int_string (lx_year lx zone t) @ ''-'' @ pad_number 2 (lx_month lx zone t))"

definition add_to_entry :: "session_summary \<Rightarrow> bucket_entry \<Rightarrow> bucket_entry" where
  "add_to_entry s e = e\<lparr>
     bu_sessions := bu_sessions e + 1,
     bu_totalDurationSeconds := bu_totalDurationSeconds e + ss_durationSeconds s,
     bu_short := bu_short e + (if ss_anomaly s = Some Short then 1 else 0),
     bu_long := bu_long e + (if ss_anomaly s = Some Long then 1 else 0)\<rparr>"

definition empty_entry :: "string \<Rightarrow> bucket_entry" where
  "empty_entry bucket = \<lparr>bu_bucket = bucket, bu_sessions = 0, bu_totalDurationSeconds = 0,
     bu_avgDurationSeconds = 0, bu_short = 0, bu_long = 0\<rparr>"

definition add_session ::
  "luxon \<Rightarrow> string \<Rightarrow> period \<Rightarrow> bucket_entry list \<Rightarrow> session_summary \<Rightarrow> bucket_entry list" where
  "add_session lx zone period m s =
     (let bucket = to_bucket_key lx zone (ss_clockInUtc s) period;
          m' = (if bucket \<in> bu_bucket ` set m then m else m @ [empty_entry bucket])
      in update_rows (\<lambda>e. bu_bucket e = bucket) (add_to_entry s) m')"

definition with_average :: "bucket_entry \<Rightarrow> bucket_entry" where
  "with_average b = b\<lparr>bu_avgDurationSeconds :=
     (if bu_sessions b > 0 then bu_totalDurationSeconds b div bu_sessions b else 0)\<rparr>"

text \<open>The keys of one query have one shape, so \<open>localeCompare\<close> is the order of their characters.\<close>

definition bucket_cmp :: "bucket_entry \<Rightarrow> bucket_entry \<Rightarrow> int" where
  "bucket_cmp a b = (if bu_bucket a = bu_bucket b then 0 else if bu_bucket a < bu_bucket b then -1 else 1)"

definition summary_buckets ::
  "luxon \<Rightarrow> string \<Rightarrow> period \<Rightarrow> session_summary list \<Rightarrow> bucket_entry list" where
  "summary_buckets lx zone period sessions =
     sort_by bucket_cmp (map with_average (foldl (add_session lx zone period) [] sessions))"

definition count_hour :: "(int \<times> int) list \<Rightarrow> int \<Rightarrow> (int \<times> int) list" where
  "count_hour m h =
     (if map_of m h = None then m @ [(h, 1)]
      else map (\<lambda>(k, n). if k = h then (k, n + 1) else (k, n)) m)"

definition peak_hour :: "(int \<times> int) list \<Rightarrow> int option" where
  "peak_hour hourMap =
     (if hourMap = [] then None
      else Some (fst (foldl (\<lambda>(peak, mx) (hour, count). if count > mx then (hour, count) else (peak, mx))
                   (- 1, - 1) hourMap)))"

subsection \<open>The summary\<close>

definition summarize ::
  "luxon \<Rightarrow> string \<Rightarrow> period \<Rightarrow> instant option \<Rightarrow> instant option \<Rightarrow> session_summary list
   \<Rightarrow> attendance_summary_result" where
  "summarize lx timezone period windowStart windowEnd sessions =
     (let totalSessions = int (length sessions);
          totalDurationSeconds = foldl (\<lambda>s r. s + ss_durationSeconds r) 0 sessions
      in \<lparr>sr_timezone = timezone, sr_period = period,
          sr_startDate = map_option (lx_toISO lx timezone) windowStart,
          sr_endDate = map_option (lx_toISO lx timezone) windowEnd,
          sr_totalSessions = totalSessions,
          sr_totalDurationSeconds = totalDurationSeconds,
          sr_avgDurationSeconds =
            (if totalSessions > 0 then totalDurationSeconds div totalSessions else 0),
          sr_peakArrivalHour = peak_hour (foldl count_hour []
            (map (\<lambda>s. lx_hour lx timezone (ss_clockInUtc s)) sessions)),
          sr_peakDepartureHour = peak_hour (foldl count_hour []
            (map (\<lambda>s. lx_hour lx timezone (ss_clockOutUtc s)) sessions)),
          sr_buckets = summary_buckets lx timezone period sessions,
          sr_anomalies = filter (\<lambda>s. ss_anomaly s \<noteq> None) sessions\<rparr>)"

definition get_attendance_summary ::
  "luxon \<Rightarrow> instant \<Rightarrow> attendance_summary_query \<Rightarrow> attendance list
   \<Rightarrow> attendance_summary_result result" where
  "get_attendance_summary lx now query tbl =
     (let timezone = (case sq_timezone query of Some z \<Rightarrow> z | None \<Rightarrow> ''UTC'');
          period = (case sq_period query of Some p \<Rightarrow> p | None \<Rightarrow> Daily)
      in if \<not> lx_isValidZone lx timezone
         then Inl (BadRequest (''Invalid timezone '' @ timezone @ ''. Must be a valid IANA timezone name.''))
         else
           (let windowEnd = (if truthy (sq_endDate query)
                             then lx_fromISO lx (the (sq_endDate query)) timezone else Some now);
                windowStart = (if truthy (sq_startDate query)
                               then lx_fromISO lx (the (sq_startDate query)) timezone
                               else map_option (\<lambda>t. lx_minusDays lx timezone t 30) windowEnd);
                records = sort_by (\<lambda>a b. at_timestamp a - at_timestamp b) (filter live tbl);
                sessions = window_sessions windowStart windowEnd (pair_records records)
            in Inr (summarize lx timezone period windowStart windowEnd sessions)))"

section \<open>The summary is consistent\<close>

text \<open>
  The summary is consistent: its buckets partition the sessions it counts. The last theorem
  shows what the completion job does to it: a session clocked out after an hour is reported
  with the full maximal duration once the job has run.
\<close>

definition bucket_sum :: "(bucket_entry \<Rightarrow> int) \<Rightarrow> bucket_entry list \<Rightarrow> int" where
  "bucket_sum f bs = sum_list (map f bs)"

lemma sum_update_one:
  fixes f :: "bucket_entry \<Rightarrow> int"
  assumes "distinct (map bu_bucket m)" "k \<in> bu_bucket ` set m" "\<And>e. f (g e) = f e + c"
  shows "sum_list (map f (update_rows (\<lambda>e. bu_bucket e = k) g m)) = sum_list (map f m) + c"
  using assms(1,2)
proof (induction m)
  case (Cons e m)
  show ?case
  proof (cases "bu_bucket e = k")
    case True
    then have "k \<notin> bu_bucket ` set m" using Cons.prems(1) by auto
    then have "update_rows (\<lambda>e. bu_bucket e = k) g m = m"
      unfolding update_rows_def by (intro map_idI) (auto dest: key_absentD)
    with True assms(3) show ?thesis by simp
  next
    case False
    with Cons show ?thesis by auto
  qed
qed simp

lemma add_session_ok:
  assumes "distinct (map bu_bucket m)"
  shows "distinct (map bu_bucket (add_session lx z p m s))"
    and "bucket_sum bu_sessions (add_session lx z p m s) = bucket_sum bu_sessions m + 1"
    and "bucket_sum bu_totalDurationSeconds (add_session lx z p m s) =
      bucket_sum bu_totalDurationSeconds m + ss_durationSeconds s"
    and "bucket_sum bu_short (add_session lx z p m s) =
      bucket_sum bu_short m + (if ss_anomaly s = Some Short then 1 else 0)"
    and "bucket_sum bu_long (add_session lx z p m s) =
      bucket_sum bu_long m + (if ss_anomaly s = Some Long then 1 else 0)"
proof -
  let ?k = "to_bucket_key lx z (ss_clockInUtc s) p"
  define m' where "m' = (if ?k \<in> bu_bucket ` set m then m else m @ [empty_entry ?k])"
  have a: "add_session lx z p m s = update_rows (\<lambda>e. bu_bucket e = ?k) (add_to_entry s) m'"
    by (simp add: add_session_def m'_def Let_def)
  have d: "distinct (map bu_bucket m')" using assms by (auto simp: m'_def empty_entry_def)
  have k: "?k \<in> bu_bucket ` set m'" by (auto simp: m'_def empty_entry_def)
  have z: "sum_list (map f m') = sum_list (map f m)" if "f (empty_entry ?k) = 0" for f :: "bucket_entry \<Rightarrow> int"
    using that by (simp add: m'_def)
  show "distinct (map bu_bucket (add_session lx z p m s))"
    unfolding a using d by (subst update_rows_keys) (simp_all add: add_to_entry_def)
  note one = sum_update_one [OF d k, of _ "add_to_entry s"]
  show "bucket_sum bu_sessions (add_session lx z p m s) = bucket_sum bu_sessions m + 1"
    unfolding bucket_sum_def a by (subst one) (simp_all add: add_to_entry_def z empty_entry_def)
  show "bucket_sum bu_totalDurationSeconds (add_session lx z p m s) =
      bucket_sum bu_totalDurationSeconds m + ss_durationSeconds s"
    unfolding bucket_sum_def a by (subst one) (simp_all add: add_to_entry_def z empty_entry_def)
  show "bucket_sum bu_short (add_session lx z p m s) =
      bucket_sum bu_short m + (if ss_anomaly s = Some Short then 1 else 0)"
    unfolding bucket_sum_def a by (subst one) (simp_all add: add_to_entry_def z empty_entry_def)
  show "bucket_sum bu_long (add_session lx z p m s) =
      bucket_sum bu_long m + (if ss_anomaly s = Some Long then 1 else 0)"
    unfolding bucket_sum_def a by (subst one) (simp_all add: add_to_entry_def z empty_entry_def)
qed

lemma buckets_fold:
  assumes "distinct (map bu_bucket m)"
  shows "distinct (map bu_bucket (foldl (add_session lx z p) m ss)) \<and>
    bucket_sum bu_sessions (foldl (add_session lx z p) m ss) = bucket_sum bu_sessions m + int (length ss) \<and>
    bucket_sum bu_totalDurationSeconds (foldl (add_session lx z p) m ss) =
      bucket_sum bu_totalDurationSeconds m + sum_list (map ss_durationSeconds ss) \<and>
    bucket_sum bu_short (foldl (add_session lx z p) m ss) + bucket_sum bu_long (foldl (add_session lx z p) m ss) =
      bucket_sum bu_short m + bucket_sum bu_long m + int (length (filter (\<lambda>s. ss_anomaly s \<noteq> None) ss))"
  using assms
proof (induction ss arbitrary: m)
  case (Cons s ss)
  note a = add_session_ok [OF Cons.prems, of lx z p s]
  have "ss_anomaly s = None \<or> ss_anomaly s = Some Short \<or> ss_anomaly s = Some Long"
    by (cases "ss_anomaly s"; cases "the (ss_anomaly s)") auto
  with Cons.IH [OF a(1)] a show ?case by (elim disjE) simp_all
qed simp

lemma foldl_add: "foldl (\<lambda>s r. s + f r) (a::int) xs = a + sum_list (map f xs)"
  by (induction xs arbitrary: a) simp_all

text \<open>The buckets of a summary partition its sessions: their session counts and durations add up
  to the totals, their anomaly counts to the anomalies listed, and no bucket appears
  twice.\<close>

theorem summary_consistent:
  assumes "get_attendance_summary lx now q tbl = Inr r"
  shows "bucket_sum bu_sessions (sr_buckets r) = sr_totalSessions r \<and>
    bucket_sum bu_totalDurationSeconds (sr_buckets r) = sr_totalDurationSeconds r \<and>
    bucket_sum bu_short (sr_buckets r) + bucket_sum bu_long (sr_buckets r) = int (length (sr_anomalies r)) \<and>
    distinct (map bu_bucket (sr_buckets r))"
proof -
  obtain zone period ws we sessions where "r = summarize lx zone period ws we sessions"
    using assms by (auto simp: get_attendance_summary_def Let_def split: if_splits)
  then have r: "sr_buckets r = summary_buckets lx zone period sessions"
    "sr_totalSessions r = int (length sessions)"
    "sr_totalDurationSeconds r = foldl (\<lambda>s r. s + ss_durationSeconds r) 0 sessions"
    "sr_anomalies r = filter (\<lambda>s. ss_anomaly s \<noteq> None) sessions"
    by (simp_all add: summarize_def Let_def)
  let ?bs = "foldl (add_session lx zone period) [] sessions"
  have avg: "bu_sessions (with_average b) = bu_sessions b" "bu_short (with_average b) = bu_short b"
    "bu_totalDurationSeconds (with_average b) = bu_totalDurationSeconds b"
    "bu_long (with_average b) = bu_long b" "bu_bucket (with_average b) = bu_bucket b" for b
    by (simp_all add: with_average_def)
  have sums: "bucket_sum f (sr_buckets r) = bucket_sum f ?bs" if "\<And>b. f (with_average b) = f b" for f
    unfolding r(1) summary_buckets_def bucket_sum_def sum_list_sort_by map_map using that by (simp add: comp_def)
  have d: "distinct (map bu_bucket (sr_buckets r)) = distinct (map bu_bucket ?bs)"
  proof -
    have "distinct (map bu_bucket (sort_by bucket_cmp xs)) = distinct (map bu_bucket xs)" for xs
      by (simp add: distinct_map)
    then show ?thesis unfolding r(1) summary_buckets_def by (simp add: comp_def avg)
  qed
  have nil: "bucket_sum f [] = 0" for f by (simp add: bucket_sum_def)
  show ?thesis using buckets_fold [of "[]" lx zone period sessions]
    by (simp add: sums avg d r(2-4) foldl_add nil)
qed

definition utc_luxon :: luxon where
  "utc_luxon = \<lparr>lx_isValidZone = (\<lambda>z. z = ''UTC''), lx_fromISO = (\<lambda>s z. date_parse s),
     lx_toISO = (\<lambda>z t. to_iso t), lx_minusDays = (\<lambda>z t n. t - n * ms_per_day),
     lx_hour = (\<lambda>z t. get_utc_hours t), lx_isoDate = (\<lambda>z t. iso_date t),
     lx_weekYear = (\<lambda>z t. get_utc_full_year t), lx_weekNumber = (\<lambda>z t. 1),
     lx_year = (\<lambda>z t. get_utc_full_year t), lx_month = (\<lambda>z t. get_utc_month t + 1)\<rparr>"

definition all_defaults :: attendance_summary_query where
  "all_defaults = \<lparr>sq_timezone = None, sq_period = None, sq_startDate = None, sq_endDate = None\<rparr>"

lemma summary_consistent_witness:
  "\<exists>r. get_attendance_summary utc_luxon 0 all_defaults [] = Inr r \<and>
     bucket_sum bu_sessions (sr_buckets r) = sr_totalSessions r"
proof -
  obtain r where "get_attendance_summary utc_luxon 0 all_defaults [] = Inr r"
    by (simp add: get_attendance_summary_def utc_luxon_def all_defaults_def Let_def)
  with summary_consistent [OF this] show ?thesis by blast
qed

definition worked_hour :: "attendance list" where
  "worked_hour = [new_attendance ''i'' ''u'' CLOCK_IN 0 (Some ''s'') None,
     new_attendance ''o'' ''u'' CLOCK_OUT (db_date ms_per_hour) (Some ''s'') None]"

lemma worked_hour_completed:
  "fst (auto_complete_abandoned_sessions (\<lambda>n. ''n'') [] 12 (13 * ms_per_hour) worked_hour) =
     [(new_attendance ''i'' ''u'' CLOCK_IN 0 (Some ''s'') None)
        \<lparr>at_autoCompleted := True, at_autoCompletedReason := Some (auto_reason 12)\<rparr>,
      new_attendance ''o'' ''u'' CLOCK_OUT (db_date ms_per_hour) (Some ''s'') None,
      auto_clock_out ''n'' 12 (13 * ms_per_hour) (new_attendance ''i'' ''u'' CLOCK_IN 0 (Some ''s'') None)]"
  by (simp add: auto_complete_abandoned_sessions_def abandoned_def worked_hour_def new_attendance_def live_def
      db_date_def js_date_def ms_units complete_session_def save_row_def auto_clock_out_def Let_def)

definition durations :: "attendance list \<Rightarrow> int list" where
  "durations tbl = map ss_durationSeconds
     (window_sessions None None (pair_records (sort_by (\<lambda>a b. at_timestamp a - at_timestamp b) tbl)))"

text \<open>The completion job takes every old clock-in, also of sessions that were clocked out: a
  session of one hour gets a second clock-out twelve hours after its start, and the summary,
  which keeps the last clock-out, reports twelve hours instead of one.\<close>

theorem completion_job_rewrites_finished_sessions:
  "durations worked_hour = [3600] \<and>
   durations (fst (auto_complete_abandoned_sessions (\<lambda>n. ''n'') [] 12 (13 * ms_per_hour) worked_hour)) = [43200]"
  unfolding worked_hour_completed
  by (simp add: durations_def worked_hour_def new_attendance_def window_sessions_def pair_records_def
      pair_record_def session_of_def outside_window_def auto_clock_out_def db_date_def js_date_def ms_units
      List.map_filter_simps Let_def)

end
