(* ===== verification/Biometric.thy ===== *)
theory Biometric
  imports Api_Routes_Correct
begin

text \<open>
  Biometric sign-in: the WebAuthn service and its public routes
  (backend/src/auth/biometric.service.ts, biometric.controller.ts, dto/biometric.dto.ts) and the
  button of the log-in page (frontend/src/components/auth/BiometricLoginView.tsx). The ceremonies
  of the WebAuthn library are parameters: what they make of a response, the challenge they are told
  to expect and a stored key.
\<close>

subsection \<open>Credentials and the library\<close>

record webauthn_credential =
  wc_id :: uuid
  wc_userId :: uuid
  wc_credentialId :: string
  wc_publicKey :: string
  wc_counter :: int
  wc_createdAt :: instant

datatype registration_outcome =
    Reg_Throws string \<comment> \<open>the error as a text\<close>
  | Reg_Unverified
  | Reg_Verified string string int \<comment> \<open>credential id, public key in base64, counter\<close>

datatype authentication_outcome =
    Auth_Throws string
  | Auth_Unverified
  | Auth_Verified int \<comment> \<open>the new counter\<close>

text \<open>\<open>wl_idText\<close> is the text the database driver compares when the id of a response is not a
  string.\<close>

record webauthn_lib =
  wl_registrationOptions :: "uuid \<Rightarrow> string \<Rightarrow> json"
  wl_authenticationOptions :: "string list \<Rightarrow> json"
  wl_verifyRegistration :: "json \<Rightarrow> json option \<Rightarrow> registration_outcome"
  wl_verifyAuthentication :: "json \<Rightarrow> json option \<Rightarrow> string \<Rightarrow> string \<Rightarrow> int \<Rightarrow> authentication_outcome"
  wl_idText :: "json \<Rightarrow> string"

text \<open>\<open>response.clientDataJSON?.challenge\<close>.\<close>

definition claimed_challenge :: "json \<Rightarrow> json option" where
  "claimed_challenge response = Option.bind (json_field response ''clientDataJSON'') (\<lambda>d. json_field d ''challenge'')"

subsection \<open>The service\<close>

definition generate_registration_options :: "webauthn_lib \<Rightarrow> db \<Rightarrow> uuid \<Rightarrow> json result" where
  "generate_registration_options lib d userId =
     (case find_user d userId of
        None \<Rightarrow> Inl (BadRequest ''User not found'')
      | Some u \<Rightarrow> Inr (wl_registrationOptions lib userId (u_email u)))"

definition registration_failed :: "string \<Rightarrow> http_error" where
  "registration_failed err = BadRequest (''Registration verification failed: '' @ err)"

definition null_access :: "string \<Rightarrow> string" where
  "null_access field = ''TypeError: Cannot read properties of null (reading '' @ [CHR 0x27] @ field @ [CHR 0x27] @ '')''"

definition verify_registration ::
  "webauthn_lib \<Rightarrow> uuid \<Rightarrow> instant \<Rightarrow> db \<Rightarrow> uuid \<Rightarrow> string \<Rightarrow> webauthn_credential list
   \<Rightarrow> (webauthn_credential list, string) outcome" where
  "verify_registration lib newId now d userId attestationResponse creds =
     (case find_user d userId of
        None \<Rightarrow> (Inl (BadRequest ''User not found''), creds)
      | Some u \<Rightarrow>
        (case json_parse attestationResponse of
           None \<Rightarrow> (Inl (BadRequest ''Invalid attestation response''), creds)
         | Some JNull \<Rightarrow> (Inl (registration_failed (null_access ''clientDataJSON'')), creds)
         | Some attestation \<Rightarrow>
           (case wl_verifyRegistration lib attestation (claimed_challenge attestation) of
              Reg_Throws err \<Rightarrow> (Inl (registration_failed err), creds)
            | Reg_Unverified \<Rightarrow>
                (Inl (registration_failed ''BadRequestException: Registration verification failed''), creds)
            | Reg_Verified credentialId publicKey counter \<Rightarrow>
                (Inr ''Biometric registration successful'',
                 creds @ [\<lparr>wc_id = newId, wc_userId = userId, wc_credentialId = credentialId,
                   wc_publicKey = publicKey, wc_counter = counter, wc_createdAt = now\<rparr>]))))"

definition generate_authentication_options ::
  "webauthn_lib \<Rightarrow> db \<Rightarrow> uuid \<Rightarrow> webauthn_credential list \<Rightarrow> json result" where
  "generate_authentication_options lib d userId creds =
     (case find_user d userId of
        None \<Rightarrow> Inl (BadRequest ''User not found'')
      | Some u \<Rightarrow>
        (let credentials = filter (\<lambda>c. wc_userId c = userId) creds
         in if credentials = [] then Inl (BadRequest ''No biometric credentials registered for this user'')
            else Inr (wl_authenticationOptions lib (map wc_credentialId credentials))))"

text \<open>The row the credential id of a response selects; a where clause without a value for the column
  (absent or null) has no condition on it.\<close>

definition find_credential ::
  "webauthn_lib \<Rightarrow> uuid \<Rightarrow> json option \<Rightarrow> webauthn_credential list \<Rightarrow> webauthn_credential option" where
  "find_credential lib userId credentialId creds =
     find_row (\<lambda>c. wc_userId c = userId \<and>
       (case credentialId of
          None \<Rightarrow> True
        | Some JNull \<Rightarrow> True
        | Some (JStr i) \<Rightarrow> wc_credentialId c = i
        | Some j \<Rightarrow> wc_credentialId c = wl_idText lib j)) creds"

definition authentication_failed :: "string \<Rightarrow> http_error" where
  "authentication_failed err = Unauthorized (''Authentication verification failed: '' @ err)"

definition biometric_claims :: "user \<Rightarrow> claims" where
  "biometric_claims u =
     \<lparr>cl_sub = Some (u_id u), cl_email = Some (u_email u), cl_role = Some (role_name (u_role u)),
      cl_jti = None, cl_exp = None, cl_scope = None, cl_clientId = None\<rparr>"

record biometric_session =
  bs_accessToken :: string
  bs_user :: user

definition verify_authentication ::
  "webauthn_lib \<Rightarrow> auth_lib \<Rightarrow> db \<Rightarrow> uuid \<Rightarrow> string \<Rightarrow> webauthn_credential list
   \<Rightarrow> (webauthn_credential list, biometric_session) outcome" where
  "verify_authentication lib al d userId assertionResponse creds =
     (case find_user d userId of
        None \<Rightarrow> (Inl (Unauthorized ''User not found''), creds)
      | Some u \<Rightarrow>
        (case json_parse assertionResponse of
           None \<Rightarrow> (Inl (BadRequest ''Invalid assertion response''), creds)
         | Some JNull \<Rightarrow> (Inl (ServerError (null_access ''id'')), creds)
         | Some assertion \<Rightarrow>
           (case find_credential lib userId (json_field assertion ''id'') creds of
              None \<Rightarrow> (Inl (Unauthorized ''Credential not found''), creds)
            | Some credential \<Rightarrow>
              (case wl_verifyAuthentication lib assertion (claimed_challenge assertion)
                      (wc_credentialId credential) (wc_publicKey credential) (wc_counter credential) of
                 Auth_Throws err \<Rightarrow> (Inl (authentication_failed err), creds)
               | Auth_Unverified \<Rightarrow>
                   (Inl (authentication_failed ''UnauthorizedException: Authentication verification failed''), creds)
               | Auth_Verified newCounter \<Rightarrow>
                   (Inr \<lparr>bs_accessToken = al_sign al (biometric_claims u), bs_user = u\<rparr>,
                    update_rows (\<lambda>c. wc_id c = wc_id credential) (\<lambda>c. c\<lparr>wc_counter := newCounter\<rparr>) creds)))))"

subsection \<open>The routes\<close>

text \<open>The bodies after the sanitizing pipe, and the decorators IsString and IsNotEmpty of their
  fields.\<close>

definition nonempty_string :: "json option \<Rightarrow> string option" where
  "nonempty_string j = (case j of Some (JStr s) \<Rightarrow> if s = [] then None else Some s | _ \<Rightarrow> None)"

definition invalid_body :: http_error where "invalid_body = BadRequest ''Bad Request Exception''"

definition register_options_handler :: "webauthn_lib \<Rightarrow> db \<Rightarrow> json \<Rightarrow> json result" where
  "register_options_handler lib d body =
     (case nonempty_string (json_field body ''userId'') of
        None \<Rightarrow> Inl invalid_body
      | Some userId \<Rightarrow> generate_registration_options lib d userId)"

definition register_verify_handler ::
  "webauthn_lib \<Rightarrow> uuid \<Rightarrow> instant \<Rightarrow> db \<Rightarrow> json \<Rightarrow> webauthn_credential list
   \<Rightarrow> (webauthn_credential list, string) outcome" where
  "register_verify_handler lib newId now d body creds =
     (case (nonempty_string (json_field body ''userId''), nonempty_string (json_field body ''attestationResponse'')) of
        (Some userId, Some response) \<Rightarrow> verify_registration lib newId now d userId response creds
      | _ \<Rightarrow> (Inl invalid_body, creds))"

definition login_options_handler :: "webauthn_lib \<Rightarrow> db \<Rightarrow> json \<Rightarrow> webauthn_credential list \<Rightarrow> json result" where
  "login_options_handler lib d body creds =
     (case nonempty_string (json_field body ''userId'') of
        None \<Rightarrow> Inl invalid_body
      | Some userId \<Rightarrow> generate_authentication_options lib d userId creds)"

definition login_verify_handler ::
  "webauthn_lib \<Rightarrow> auth_lib \<Rightarrow> db \<Rightarrow> json \<Rightarrow> webauthn_credential list
   \<Rightarrow> (webauthn_credential list, biometric_session) outcome" where
  "login_verify_handler lib al d body creds =
     (case (nonempty_string (json_field body ''userId''), nonempty_string (json_field body ''assertionResponse'')) of
        (Some userId, Some response) \<Rightarrow> verify_authentication lib al d userId response creds
      | _ \<Rightarrow> (Inl invalid_body, creds))"

subsection \<open>The button of the log-in page\<close>

definition MAX_RETRIES :: nat where "MAX_RETRIES = 3"

text \<open>What the browser catches: the name of a DOMException, or the message of a response.\<close>

record biometric_failure =
  bf_name :: "string option"
  bf_responseMessage :: "string option"

definition get_biometric_error_message :: "biometric_failure \<Rightarrow> string \<times> bool" where
  "get_biometric_error_message err =
     (if bf_name err = Some ''NotAllowedError'' then (''Authentication was cancelled. Please try again.'', False)
      else if bf_name err = Some ''NotSupportedError''
      then (''Biometric authentication is not supported on this device or browser.'', True)
      else if bf_name err = Some ''InvalidStateError''
      then (''No biometric credential is set up for this account. Please use your password.'', False)
      else if bf_name err = Some ''SecurityError''
      then (''Biometric login requires a secure (HTTPS) connection.'', False)
      else (if truthy (bf_responseMessage err) then the (bf_responseMessage err)
            else ''Biometric authentication failed. Please try again or use password login.'', False))"

record biometric_view =
  bv_error :: "string option"
  bv_isSupported :: "bool option"
  bv_retryCount :: nat
  bv_isDisabled :: bool

definition biometric_initial :: biometric_view where
  "biometric_initial = \<lparr>bv_error = None, bv_isSupported = None, bv_retryCount = 0, bv_isDisabled = False\<rparr>"

definition biometric_supported :: "bool \<Rightarrow> biometric_view \<Rightarrow> biometric_view" where
  "biometric_supported supported v = v\<lparr>bv_isSupported := Some supported\<rparr>"

text \<open>The button is there only for a supported authenticator that is not disabled; a click that
  succeeds leaves the page.\<close>

definition biometric_button :: "biometric_view \<Rightarrow> bool" where
  "biometric_button v \<longleftrightarrow> bv_isSupported v = Some True \<and> \<not> bv_isDisabled v"

definition handle_biometric_failure :: "biometric_failure \<Rightarrow> biometric_view \<Rightarrow> biometric_view" where
  "handle_biometric_failure err v0 =
     (let v = v0\<lparr>bv_error := None\<rparr>
      in case get_biometric_error_message err of (message, isUnsupported) \<Rightarrow>
        (let v = v\<lparr>bv_error := Some message\<rparr>
         in if isUnsupported then v\<lparr>bv_isSupported := Some False\<rparr>
            else (let nextRetryCount = bv_retryCount v + 1;
                      v = v\<lparr>bv_retryCount := nextRetryCount\<rparr>
                  in if nextRetryCount \<ge> MAX_RETRIES then v\<lparr>bv_isDisabled := True\<rparr> else v)))"

inductive biometric_reach :: "biometric_view \<Rightarrow> bool" where
  start: "biometric_reach biometric_initial"
| detect: "biometric_reach v \<Longrightarrow> bv_isSupported v = None \<Longrightarrow> biometric_reach (biometric_supported supported v)"
| failure: "biometric_reach v \<Longrightarrow> biometric_button v \<Longrightarrow> biometric_reach (handle_biometric_failure err v)"

subsection \<open>What the button promises\<close>

text \<open>Three failures and no more: the count never passes three, the button is gone exactly when it is
  reached or the device turned out not to support the method, and a failure the device is not to
  blame for always leaves a message.\<close>

theorem biometric_three_failures:
  assumes "biometric_reach v"
  shows "bv_retryCount v \<le> MAX_RETRIES \<and> (bv_isDisabled v \<longleftrightarrow> bv_retryCount v = MAX_RETRIES) \<and>
    (0 < bv_retryCount v \<longrightarrow> bv_error v \<noteq> None \<and> bv_isSupported v \<noteq> None)"
  using assms
proof induction
  case (failure v err)
  then show ?case
    by (cases "get_biometric_error_message err")
      (auto simp: handle_biometric_failure_def Let_def MAX_RETRIES_def biometric_button_def)
qed (auto simp: biometric_initial_def biometric_supported_def MAX_RETRIES_def)

lemma biometric_three_failures_witness:
  "bv_isDisabled (handle_biometric_failure \<lparr>bf_name = None, bf_responseMessage = None\<rparr>
     (handle_biometric_failure \<lparr>bf_name = None, bf_responseMessage = None\<rparr>
       (handle_biometric_failure \<lparr>bf_name = None, bf_responseMessage = None\<rparr>
         (biometric_supported True biometric_initial))))"
proof -
  let ?f = "handle_biometric_failure \<lparr>bf_name = None, bf_responseMessage = None\<rparr>"
  let ?v = "biometric_supported True biometric_initial"
  have b: "biometric_button ?v" "biometric_button (?f ?v)" "biometric_button (?f (?f ?v))"
    by (simp_all add: biometric_button_def biometric_supported_def biometric_initial_def
        handle_biometric_failure_def get_biometric_error_message_def Let_def MAX_RETRIES_def)
  have "biometric_reach ?v" by (rule biometric_reach.detect [OF biometric_reach.start]) (simp add: biometric_initial_def)
  then have "biometric_reach (?f (?f (?f ?v)))" using b by (intro biometric_reach.failure)
  moreover have "bv_retryCount (?f (?f (?f ?v))) = MAX_RETRIES"
    by (simp add: biometric_supported_def biometric_initial_def
        handle_biometric_failure_def get_biometric_error_message_def Let_def MAX_RETRIES_def)
  ultimately show ?thesis using biometric_three_failures by simp
qed

subsection \<open>Signing in as anybody\<close>

lemma route_biometric:
  "route_request api_routes ''POST'' [''auth'', ''biometric'', ''register-verify''] =
     Some (opened (endpoint_at POST [Seg ''auth'', Seg ''biometric''] [Seg ''register-verify''] ''verifyRegistration''))"
  "route_request api_routes ''POST'' [''auth'', ''biometric'', ''login-verify''] =
     Some (opened (endpoint_at POST [Seg ''auth'', Seg ''biometric''] [Seg ''login-verify''] ''verifyAuthentication''))"
  by (simp_all add: route_request_def serves_def api_routes_def route_tables Let_def endpoint_at_def opened_def
      for_admin_def of_class_def)

lemma opened_passes:
  assumes "ge_throttle env (get_tracker None req)" "is_bearer req"
  shows "is_ok (guard_chain env now c (guard_metadata (opened (endpoint_at v b p h))) req)"
  using assms
  by (simp add: guard_metadata_def opened_def endpoint_at_def guard_chain_def jwt_auth_guard_def throttler_guard_def
      roles_guard_def csrf_guard_def)

text \<open>C9: Whoever owns an authenticator signs in as anybody. The registration of a key asks for no log-in
  and for no challenge of the server: a request with any Authorization header that starts with
  Bearer and the id of an account puts the caller's own key on that account, and the next request
  with an answer of that key is given the whole row of the account, password hash included, and a
  token in its name and role. The token has no jti, so no log-out revokes it.\<close>

theorem biometric_takeover:
  assumes "find_user d victim = Some v" "victim \<noteq> []"
    and "is_bearer req" "hr_method req = ''POST''" "ge_throttle env (get_tracker None req)"
    and "json_field regBody ''userId'' = Some (JStr victim)" "json_field regBody ''attestationResponse'' = Some (JStr att)"
    and "json_parse att = Some a" "a \<noteq> JNull"
    and "wl_verifyRegistration lib a (claimed_challenge a) = Reg_Verified key pub counter"
    and "json_field loginBody ''userId'' = Some (JStr victim)" "json_field loginBody ''assertionResponse'' = Some (JStr ass)"
    and "json_parse ass = Some s" "json_field s ''id'' = Some (JStr key)"
    and "wl_verifyAuthentication lib s (claimed_challenge s) key pub counter = Auth_Verified counter'"
    and "list_all (\<lambda>c. wc_userId c = victim \<longrightarrow> wc_credentialId c \<noteq> key) creds"
  shows "\<exists>creds'. is_ok (api_guards env now c req [''auth'', ''biometric'', ''register-verify'']) \<and>
    register_verify_handler lib newId now d regBody creds = (Inr ''Biometric registration successful'', creds') \<and>
    is_ok (api_guards env now c req [''auth'', ''biometric'', ''login-verify'']) \<and>
    fst (login_verify_handler lib al d loginBody creds') = Inr \<lparr>bs_accessToken = al_sign al (biometric_claims v), bs_user = v\<rparr> \<and>
    (\<forall>now' cache. is_ok (jwt_validate now' cache (biometric_claims v)))"
proof -
  let ?new = "\<lparr>wc_id = newId, wc_userId = victim, wc_credentialId = key, wc_publicKey = pub, wc_counter = counter,
    wc_createdAt = now\<rparr>"
  have att: "att \<noteq> []" using assms(8) by (auto simp: json_parse_def split: option.splits)
  have ass: "ass \<noteq> []" using assms(13) by (auto simp: json_parse_def split: option.splits)
  have s: "s \<noteq> JNull" using assms(14) by auto
  have r: "register_verify_handler lib newId now d regBody creds = (Inr ''Biometric registration successful'', creds @ [?new])"
    using assms(1,2,6-10) att
    by (cases a) (simp_all add: register_verify_handler_def nonempty_string_def verify_registration_def)
  have "find_row (\<lambda>c. wc_userId c = victim \<and> wc_credentialId c = key) creds = None"
    using assms(16) unfolding find_row_None_iff list_all_iff by auto
  then have "find_credential lib victim (Some (JStr key)) (creds @ [?new]) = Some ?new"
    by (simp add: find_credential_def find_row_append)
  then have "fst (verify_authentication lib al d victim ass (creds @ [?new])) =
      Inr \<lparr>bs_accessToken = al_sign al (biometric_claims v), bs_user = v\<rparr>"
    using assms(1,13-15) s by (cases s) (simp_all add: verify_authentication_def)
  then have l: "fst (login_verify_handler lib al d loginBody (creds @ [?new])) =
      Inr \<lparr>bs_accessToken = al_sign al (biometric_claims v), bs_user = v\<rparr>"
    using assms(2,11,12) ass by (simp add: login_verify_handler_def nonempty_string_def)
  have g: "is_ok (api_guards env now c req [''auth'', ''biometric'', ''register-verify''])"
    "is_ok (api_guards env now c req [''auth'', ''biometric'', ''login-verify''])"
    using api_guards_ok [OF route_biometric(1) [folded assms(4)]] api_guards_ok [OF route_biometric(2) [folded assms(4)]]
      opened_passes [OF assms(5,3)] by simp_all
  have "is_ok (jwt_validate now' cache (biometric_claims v))" for now' cache
    by (simp add: jwt_validate_def biometric_claims_def)
  with r l g show ?thesis by blast
qed

definition sample_assertion :: string where
  "sample_assertion = ''{'' @ [CHR 0x22] @ ''id'' @ [CHR 0x22] @ '':'' @ [CHR 0x22] @ ''k'' @ [CHR 0x22] @ ''}''"

lemma sample_assertion_parses: "json_parse sample_assertion = Some (JObj [(''id'', JStr ''k'')])"
  by code_simp

definition sample_webauthn :: webauthn_lib where
  "sample_webauthn = \<lparr>wl_registrationOptions = (\<lambda>_ _. JNull), wl_authenticationOptions = (\<lambda>_. JNull),
     wl_verifyRegistration = (\<lambda>_ _. Reg_Verified ''k'' ''p'' 0),
     wl_verifyAuthentication = (\<lambda>_ _ k p n. if k = ''k'' \<and> p = ''p'' then Auth_Verified (n + 1) else Auth_Unverified),
     wl_idText = (\<lambda>_. [])\<rparr>"

lemma biometric_takeover_witness:
  "\<exists>creds. fst (login_verify_handler sample_webauthn acct_lib (ac_db (acct_state acct_user))
      (JObj [(''userId'', JStr ''u1''), (''assertionResponse'', JStr sample_assertion)]) creds) =
    Inr \<lparr>bs_accessToken = al_sign acct_lib (biometric_claims acct_user), bs_user = acct_user\<rparr>"
proof -
  have u: "find_user (ac_db (acct_state acct_user)) ''u1'' = Some acct_user"
    by (simp add: find_user_def acct_state_def)
  have g: "is_bearer member_request" "hr_method member_request = ''POST''"
    "ge_throttle sample_guard_env (get_tracker None member_request)"
    by (simp_all add: member_request_def bare_post_def is_bearer_def sample_guard_env_def)
  show ?thesis
    using biometric_takeover [OF u _ g, of "JObj [(''userId'', JStr ''u1''), (''attestationResponse'', JStr sample_assertion)]"
        sample_assertion "JObj [(''id'', JStr ''k'')]" sample_webauthn "''k''" "''p''" 0
        "JObj [(''userId'', JStr ''u1''), (''assertionResponse'', JStr sample_assertion)]"
        sample_assertion "JObj [(''id'', JStr ''k'')]" 1 "[]" 5 "[]" "''c1''" acct_lib]
    by (auto simp: sample_assertion_parses sample_webauthn_def)
qed

end
