(* ===== verification/Booking_Client.thy ===== *)
theory Booking_Client
  imports JsTime
begin

text \<open>
  Booking in the browser: the wizard store (frontend/src/lib/store/bookingWizardStore.ts) with the
  four pages and step components that drive it (frontend/src/app/dashboard/bookings/new,
  frontend/src/components/bookings/wizard), the price shown before payment
  (frontend/src/lib/booking/calculateBookingPrice.ts, components/workspaces/BookingForm.tsx,
  lib/schemas/bookingSchema.ts), and the refund preview
  (components/bookings/RefundCountdown.tsx, BookingActions.tsx). How the browser reads the text of a
  \<open>datetime-local\<close> field depends on its time zone and is the parameter \<open>parse_date\<close>
  (None: an invalid date).
\<close>

subsection \<open>The wizard store\<close>

record time_slot =
  tl_startTime :: string
  tl_endTime :: string

definition is_valid_time_range :: "(string \<Rightarrow> instant option) \<Rightarrow> time_slot option \<Rightarrow> bool" where
  "is_valid_time_range parse_date timeSlot =
     (case timeSlot of
        None \<Rightarrow> False
      | Some t \<Rightarrow>
          if tl_startTime t = [] \<or> tl_endTime t = [] then False
          else (case (parse_date (tl_endTime t), parse_date (tl_startTime t)) of
                  (Some e, Some s) \<Rightarrow> e > s
                | _ \<Rightarrow> False))"

record wizard =
  wz_currentStep :: nat
  wz_workspaceId :: "string option"
  wz_timeSlot :: "time_slot option"
  wz_confirmed :: bool \<comment> \<open>\<open>paymentDetails.confirmed\<close>\<close>
  wz_lastBookingId :: "string option"

definition initial_wizard :: wizard where
  "initial_wizard = \<lparr>wz_currentStep = 1, wz_workspaceId = None, wz_timeSlot = None,
     wz_confirmed = False, wz_lastBookingId = None\<rparr>"

definition can_advance :: "(string \<Rightarrow> instant option) \<Rightarrow> nat \<Rightarrow> wizard \<Rightarrow> bool" where
  "can_advance parse_date step w =
     (if step = 1 then truthy (wz_workspaceId w)
      else if step = 2 then is_valid_time_range parse_date (wz_timeSlot w)
      else if step = 3 then wz_confirmed w
      else False)"

definition next_step :: "(string \<Rightarrow> instant option) \<Rightarrow> wizard \<Rightarrow> bool \<times> wizard" where
  "next_step parse_date w =
     (if \<not> can_advance parse_date (wz_currentStep w) w then (False, w)
      else if wz_currentStep w \<ge> 4 then (False, w)
      else (True, w\<lparr>wz_currentStep := wz_currentStep w + 1\<rparr>))"

definition prev_step :: "wizard \<Rightarrow> wizard" where
  "prev_step w = (if wz_currentStep w \<le> 1 then w else w\<lparr>wz_currentStep := wz_currentStep w - 1\<rparr>)"

definition go_to_step :: "nat \<Rightarrow> wizard \<Rightarrow> wizard" where
  "go_to_step step w = (if step \<ge> wz_currentStep w then w else w\<lparr>wz_currentStep := step\<rparr>)"

definition complete_booking :: "string \<Rightarrow> wizard \<Rightarrow> wizard" where
  "complete_booking bookingId w = w\<lparr>wz_lastBookingId := Some bookingId, wz_currentStep := 4\<rparr>"

subsection \<open>The pages\<close>

text \<open>The effects of the four step pages on mounting: the page that stays after the redirects, and
  the store.\<close>

definition open_step1 :: "wizard \<Rightarrow> nat \<times> wizard" where
  "open_step1 w = (1, w\<lparr>wz_currentStep := 1\<rparr>)"

definition open_step2 :: "(string \<Rightarrow> instant option) \<Rightarrow> wizard \<Rightarrow> nat \<times> wizard" where
  "open_step2 parse_date w =
     (if \<not> can_advance parse_date 1 w then open_step1 w else (2, w\<lparr>wz_currentStep := 2\<rparr>))"

definition open_step3 :: "(string \<Rightarrow> instant option) \<Rightarrow> wizard \<Rightarrow> nat \<times> wizard" where
  "open_step3 parse_date w =
     (if \<not> can_advance parse_date 1 w then open_step1 w
      else if \<not> can_advance parse_date 2 w then open_step2 parse_date w
      else (3, w\<lparr>wz_currentStep := 3\<rparr>))"

definition open_step4 :: "wizard \<Rightarrow> nat \<times> wizard" where
  "open_step4 w =
     (if \<not> truthy (wz_lastBookingId w) then open_step1 w else (4, w\<lparr>wz_currentStep := 4\<rparr>))"

definition open_page :: "(string \<Rightarrow> instant option) \<Rightarrow> nat \<Rightarrow> wizard \<Rightarrow> nat \<times> wizard" where
  "open_page parse_date page w =
     (if page = 1 then open_step1 w else if page = 2 then open_step2 parse_date w
      else if page = 3 then open_step3 parse_date w else open_step4 w)"

lemmas open_page_defs = open_page_def open_step1_def open_step2_def open_step3_def open_step4_def

record booking_request =
  bq_workspaceId :: string
  bq_startTime :: string
  bq_endTime :: string

text \<open>The tab: the store, the page shown, the \<open>isPending\<close> of the mounted mutation, the booking
  requests sent so far and how many of them are unanswered.\<close>

record tab =
  tb_wizard :: wizard
  tb_page :: nat
  tb_isPending :: bool
  tb_sent :: "booking_request list"
  tb_open :: nat

definition show_page :: "(string \<Rightarrow> instant option) \<Rightarrow> nat \<Rightarrow> tab \<Rightarrow> tab" where
  "show_page parse_date page t =
     (case open_page parse_date page (tb_wizard t) of
        (p, w) \<Rightarrow> t\<lparr>tb_wizard := w, tb_page := p, tb_isPending := False\<rparr>)"

abbreviation on_wizard :: "(wizard \<Rightarrow> wizard) \<Rightarrow> tab \<Rightarrow> tab" where
  "on_wizard f t \<equiv> t\<lparr>tb_wizard := f (tb_wizard t)\<rparr>"

definition next_click :: "(string \<Rightarrow> instant option) \<Rightarrow> nat \<Rightarrow> tab \<Rightarrow> tab" where
  "next_click parse_date page t = show_page parse_date page (on_wizard (snd \<circ> next_step parse_date) t)"

definition back_click :: "(string \<Rightarrow> instant option) \<Rightarrow> nat \<Rightarrow> tab \<Rightarrow> tab" where
  "back_click parse_date page t = show_page parse_date page (on_wizard prev_step t)"

text \<open>\<open>handleConfirm\<close> of Step3Review up to the call.\<close>

definition handle_confirm :: "tab \<Rightarrow> tab" where
  "handle_confirm t =
     (case (wz_workspaceId (tb_wizard t), wz_timeSlot (tb_wizard t)) of
        (Some workspaceId, Some timeSlot) \<Rightarrow>
          if workspaceId = [] then t
          else t\<lparr>tb_isPending := True, tb_open := tb_open t + 1,
                 tb_sent := tb_sent t @ [\<lparr>bq_workspaceId = workspaceId,
                   bq_startTime = tl_startTime timeSlot, bq_endTime = tl_endTime timeSlot\<rparr>]\<rparr>
      | _ \<Rightarrow> t)"

text \<open>What can happen in the tab: any page may be opened by its address; the controls of a page
  act under their \<open>disabled\<close> conditions; the answer to a booking request comes back whatever
  page is shown, and only the mutation of the mounted page is its \<open>isPending\<close>.\<close>

inductive tab_step :: "(string \<Rightarrow> instant option) \<Rightarrow> tab \<Rightarrow> tab \<Rightarrow> bool" for parse_date where
  address: "page \<in> {1, 2, 3, 4} \<Longrightarrow> tab_step parse_date t (show_page parse_date page t)"
| select_workspace: "tb_page t = 1 \<Longrightarrow> i \<noteq> [] \<Longrightarrow>
    tab_step parse_date t (on_wizard (\<lambda>w. w\<lparr>wz_workspaceId := Some i\<rparr>) t)"
| next_1: "tb_page t = 1 \<Longrightarrow> can_advance parse_date 1 (tb_wizard t) \<Longrightarrow>
    tab_step parse_date t (next_click parse_date 2 t)"
| change_times: "tb_page t = 2 \<Longrightarrow>
    tab_step parse_date t (on_wizard (\<lambda>w. w\<lparr>wz_timeSlot := Some slot\<rparr>) t)"
| next_2: "tb_page t = 2 \<Longrightarrow> can_advance parse_date 2 (tb_wizard t) \<Longrightarrow>
    tab_step parse_date t (next_click parse_date 3 t)"
| go_back: "tb_page t \<in> {2, 3} \<Longrightarrow> tab_step parse_date t (back_click parse_date (tb_page t - 1) t)"
| tick: "tb_page t = 3 \<Longrightarrow>
    tab_step parse_date t (on_wizard (\<lambda>w. w\<lparr>wz_confirmed := checked\<rparr>) t)"
| pay: "tb_page t = 3 \<Longrightarrow> wz_confirmed (tb_wizard t) \<Longrightarrow> \<not> tb_isPending t \<Longrightarrow>
    tab_step parse_date t (handle_confirm t)"
| created: "tb_open t > 0 \<Longrightarrow> i \<noteq> [] \<Longrightarrow>
    tab_step parse_date t (show_page parse_date 4
      (on_wizard (complete_booking i) (t\<lparr>tb_open := tb_open t - 1\<rparr>)))"
| refused: "tb_isPending t \<Longrightarrow>
    tab_step parse_date t (t\<lparr>tb_isPending := False, tb_open := tb_open t - 1\<rparr>)"
| refused_elsewhere: "tb_open t > (if tb_isPending t then 1 else 0) \<Longrightarrow>
    tab_step parse_date t (t\<lparr>tb_open := tb_open t - 1\<rparr>)"
| progress: "step < wz_currentStep (tb_wizard t) \<Longrightarrow> 1 \<le> step \<Longrightarrow>
    tab_step parse_date t (show_page parse_date step (on_wizard (go_to_step step) t))"
| book_another: "tb_page t = 4 \<Longrightarrow>
    tab_step parse_date t (show_page parse_date 1 (on_wizard (\<lambda>_. initial_wizard) t))"

definition new_tab :: tab where
  "new_tab = \<lparr>tb_wizard = initial_wizard, tb_page = 1, tb_isPending = False, tb_sent = [], tb_open = 0\<rparr>"

subsection \<open>Prices and refunds shown\<close>

definition calculate_booking_price ::
  "(string \<Rightarrow> instant option) \<Rightarrow> num \<Rightarrow> string \<Rightarrow> string \<Rightarrow> num option" where \<comment> \<open>None: NaN\<close>
  "calculate_booking_price parse_date pricePerHour startTime endTime =
     (if startTime = [] \<or> endTime = [] then Some 0
      else (case (parse_date startTime, parse_date endTime) of
              (Some s, Some e) \<Rightarrow> Some (max 0 (js_mul (hours_of_ms (e - s)) pricePerHour))
            | _ \<Rightarrow> None))"

definition booking_schema :: "(string \<Rightarrow> instant option) \<Rightarrow> booking_request \<Rightarrow> bool" where
  "booking_schema parse_date d \<longleftrightarrow>
     bq_workspaceId d \<noteq> [] \<and> bq_startTime d \<noteq> [] \<and> bq_endTime d \<noteq> [] \<and>
     (case (parse_date (bq_endTime d), parse_date (bq_startTime d)) of
        (Some e, Some s) \<Rightarrow> e > s | _ \<Rightarrow> False)"

definition REFUND_WINDOW_HOURS :: int where "REFUND_WINDOW_HOURS = 24"

definition get_refund_deadline :: "instant \<Rightarrow> instant" where
  "get_refund_deadline startTime = startTime - REFUND_WINDOW_HOURS * 60 * 60 * 1000"

definition is_refund_eligible :: "instant \<Rightarrow> instant \<Rightarrow> bool" where
  "is_refund_eligible startTime now \<longleftrightarrow> get_refund_deadline startTime > now"

definition format_remaining :: "int \<Rightarrow> string" where
  "format_remaining ms =
     (let totalMinutes = max 0 (ms div 60000)
      in int_string (totalMinutes div 60) @ ''h '' @ int_string (totalMinutes mod 60) @ ''m'')"

definition refund_preview :: "instant \<Rightarrow> instant \<Rightarrow> num \<Rightarrow> num" where
  "refund_preview startTime now amount = (if is_refund_eligible startTime now then amount else 0)"

end
