(* ===== verification/Pricing_Correct.thy ===== *)
theory Pricing_Correct
  imports Pricing
begin

text \<open>
  Correctness of the pricing engine: the tiling of a booking by its slices, the rate of a
  slice against the declarative rate of each of its moments, the number of slices, bounds
  and exact values of the total, and the rules invariant.
\<close>

subsection \<open>Slices\<close>

fun tiles :: "instant \<Rightarrow> instant \<Rightarrow> rate_segment list \<Rightarrow> bool" where
  "tiles s e [] \<longleftrightarrow> s = e"
| "tiles s e (x # xs) \<longleftrightarrow>
     seg_startTime x = s \<and> s < seg_endTime x \<and> tiles (seg_endTime x) e xs"

definition rate_at :: "price_rule list \<Rightarrow> num \<Rightarrow> instant \<Rightarrow> num" where
  "rate_at rules fb t =
     (case find_matching_rule rules t of Some r \<Rightarrow> pr_ratePerHour r | None \<Rightarrow> fb)"

lemma make_segment_sel [simp]:
  "seg_startTime (make_segment rules fb c e) = c"
  "seg_endTime (make_segment rules fb c e) = e"
  "seg_ratePerHour (make_segment rules fb c e) = rate_at rules fb c"
  "seg_hours (make_segment rules fb c e) = num_to_fixed 6 (hours_of_ms (e - c))"
  "seg_segmentCost (make_segment rules fb c e) =
     num_to_fixed 6 (js_mul (hours_of_ms (e - c)) (rate_at rules fb c))"
  by (simp_all add: make_segment_def rate_at_def Let_def)

lemma build_segments_empty: "e \<le> c \<Longrightarrow> build_segments rules fb c e = []"
  by (simp add: build_segments.simps)

lemma build_segments_step:
  "c < e \<Longrightarrow> build_segments rules fb c e =
     make_segment rules fb c (slice_end c e) # build_segments rules fb (slice_end c e) e"
  by (subst build_segments.simps) (simp add: Let_def)

text \<open>An induction that follows the cursor from slice to slice.\<close>

lemma slice_induct [consumes 1, case_names stop step]:
  assumes "c \<le> e"
    and "P e"
    and "\<And>c. c < e \<Longrightarrow> P (slice_end c e) \<Longrightarrow> P c"
  shows "P c"
  using assms(1)
proof (induction "nat (e - c)" arbitrary: c rule: less_induct)
  case less
  show ?case
  proof (cases "c < e")
    case True
    then have "P (slice_end c e)"
      using slice_end_progress [OF True] by (intro less(1)) auto
    then show ?thesis using assms(3) True by blast
  next
    case False
    then show ?thesis using less(2) assms(2) by simp
  qed
qed

lemma build_segments_tiles:
  "c \<le> e \<Longrightarrow> tiles c e (build_segments rules fb c e)"
  by (induction rule: slice_induct)
    (simp_all add: build_segments_empty build_segments_step slice_end_progress)

lemma slice_end_le_next: "slice_end c e \<le> next_full_hour c"
  by (simp add: slice_end_def Let_def)

lemma rate_at_slice:
  "c \<le> t \<Longrightarrow> t < slice_end c e \<Longrightarrow> rate_at rules fb t = rate_at rules fb c"
  using hour_constant [of c t] slice_end_le_next [of c e]
  by (simp add: rate_at_def find_matching_rule_def)

lemma build_segments_rate:
  assumes "c \<le> e" "x \<in> set (build_segments rules fb c e)"
    "seg_startTime x \<le> t" "t < seg_endTime x"
  shows "seg_ratePerHour x = rate_at rules fb t"
  using assms
  by (induction rule: slice_induct)
    (auto simp: build_segments_empty build_segments_step rate_at_slice)

lemma build_segments_cost:
  assumes "c \<le> e" "x \<in> set (build_segments rules fb c e)"
  shows "seg_segmentCost x = num_to_fixed 6
    (js_mul (hours_of_ms (seg_endTime x - seg_startTime x)) (seg_ratePerHour x))"
  using assms
  by (induction rule: slice_induct) (auto simp: build_segments_empty build_segments_step)

lemma build_segments_bounds:
  assumes "c \<le> e" "x \<in> set (build_segments rules fb c e)"
  shows "seg_startTime x < seg_endTime x \<and> seg_endTime x - seg_startTime x \<le> ms_per_hour"
  using assms
proof (induction rule: slice_induct)
  case stop
  then show ?case by (simp add: build_segments_empty)
next
  case (step c)
  have "slice_end c e - c \<le> ms_per_hour"
    using next_full_hour_le [of c] slice_end_le_next [of c e] by simp
  with step slice_end_progress(1) [OF step(1)] show ?case by (auto simp: build_segments_step)
qed

text \<open>How many clock hours \<open>[c, e)\<close> touches.\<close>

definition clock_hours :: "instant \<Rightarrow> instant \<Rightarrow> int" where
  "clock_hours c e = (if c < e then (e - 1) div ms_per_hour - c div ms_per_hour + 1 else 0)"

lemma next_full_hour_div: "next_full_hour c = (c div ms_per_hour + 1) * ms_per_hour"
  by (simp add: next_full_hour_eq minus_mod_eq_mult_div algebra_simps)

lemma clock_hours_step:
  assumes "c < e"
  shows "clock_hours c e = 1 + clock_hours (slice_end c e) e"
proof (cases "next_full_hour c < e")
  case True
  then have "slice_end c e = next_full_hour c" by (simp add: slice_end_def Let_def)
  with True assms show ?thesis by (simp add: clock_hours_def next_full_hour_div ms_units)
next
  case False
  then have s: "slice_end c e = e" by (simp add: slice_end_def Let_def)
  have "c div ms_per_hour \<le> (e - 1) div ms_per_hour"
    using assms by (intro zdiv_mono1) (simp_all add: ms_units)
  moreover have "(e - 1) div ms_per_hour < c div ms_per_hour + 1"
    using False by (simp add: next_full_hour_div div_less_iff_less_mult ms_units)
  ultimately show ?thesis using assms s by (simp add: clock_hours_def)
qed

lemma build_segments_length:
  "c \<le> e \<Longrightarrow> int (length (build_segments rules fb c e)) = clock_hours c e"
proof (induction rule: slice_induct)
  case stop
  then show ?case by (simp add: build_segments_empty clock_hours_def)
next
  case (step c)
  then show ?case by (simp add: build_segments_step clock_hours_step)
qed

subsection \<open>Totals\<close>

lemma foldl_js_add_nonneg:
  assumes "\<forall>x \<in> set xs. 0 \<le> f x" "0 \<le> a"
  shows "0 \<le> foldl (\<lambda>acc s. js_add acc (f s)) a xs"
  using assms by (induction xs arbitrary: a) (simp_all add: js_add_def fl_nonneg)

lemma foldl_js_add_double:
  "is_double a \<Longrightarrow> is_double (foldl (\<lambda>acc s. js_add acc (f s)) a xs)"
  by (induction xs arbitrary: a) (simp_all add: js_add_def fl_is_double)

lemma gross_total_double [simp]: "is_double (gross_total xs)"
  unfolding gross_total_def by (rule foldl_js_add_double) (use fl_is_double [of 0] in simp)

lemma tier_discount_bounds: "0 \<le> tier_discount t" "tier_discount t \<le> 1"
  using fl_int_le [of "15 / 100" 1] fl_int_le [of "1 / 10" 1]
  by (auto simp: tier_discount_def js_lit_def fl_nonneg)

lemma discount_factor_bounds:
  "0 \<le> js_sub 1 (tier_discount t)" "js_sub 1 (tier_discount t) \<le> 1"
  using tier_discount_bounds [of t] fl_int_le [of "1 - tier_discount t" 1]
  by (simp_all add: js_sub_def fl_nonneg)

lemma discounted_le:
  assumes "0 \<le> g" "is_double g"
  shows "js_mul g (js_sub 1 (tier_discount t)) \<le> g"
proof -
  have "g * js_sub 1 (tier_discount t) \<le> g * 1"
    using assms(1) discount_factor_bounds by (intro mult_left_mono) auto
  then have "fl (g * js_sub 1 (tier_discount t)) \<le> fl g" by (simp add: fl_mono)
  with assms(2) show ?thesis by (simp add: js_mul_def)
qed

lemma discounted_nonneg: "0 \<le> g \<Longrightarrow> 0 \<le> js_mul g (js_sub 1 (tier_discount t))"
  by (simp add: js_mul_def fl_nonneg discount_factor_bounds)

lemma segment_costs_nonneg:
  assumes "\<And>t. 0 \<le> rate_at rules fb t" "c \<le> e"
  shows "\<forall>x \<in> set (build_segments rules fb c e). 0 \<le> seg_segmentCost x"
proof
  fix x assume x: "x \<in> set (build_segments rules fb c e)"
  have b: "seg_startTime x < seg_endTime x"
    using build_segments_bounds [OF assms(2) x] by simp
  have "seg_ratePerHour x = rate_at rules fb (seg_startTime x)"
    by (rule build_segments_rate [OF assms(2) x]) (simp_all add: b)
  then show "0 \<le> seg_segmentCost x"
    using b assms(1) unfolding build_segments_cost [OF assms(2) x]
    by (intro num_to_fixed_nonneg) (simp add: js_mul_def fl_nonneg hours_of_ms_nonneg)
qed

text \<open>Sums of equal amounts stay within two ten-millionths per summand of the exact value.\<close>

lemma sum_of_cents_error:
  assumes "0 \<le> k" "int n * k < 10 ^ 10" "n \<le> 8784"
  shows "\<bar>((\<lambda>acc. js_add acc (cents k)) ^^ n) 0 - of_int (int n * k) / 100\<bar>
    \<le> of_nat n * (2 / 10 ^ 7)"
  using assms(2,3)
proof (induction n)
  case (Suc n)
  define g where "g = ((\<lambda>acc. js_add acc (cents k)) ^^ n) 0"
  have nk: "0 \<le> int n * k" "int n * k + k < 10 ^ 10"
    using assms(1) Suc.prems(1) by (simp_all add: algebra_simps)
  have ih: "\<bar>g - of_int (int n * k) / 100\<bar> \<le> of_nat n * (2 / 10 ^ 7)"
    unfolding g_def using Suc nk assms(1) by (intro Suc.IH) simp_all
  have ck: "\<bar>cents k - of_int k / 100\<bar> \<le> 1 / 10 ^ 7"
    using assms(1) nk by (intro cents_error) linarith+
  have "(of_nat n :: rat) \<le> 8784" using Suc.prems(2) by simp
  then have en: "of_nat n * (2 / 10 ^ 7) \<le> (1 / 100 :: rat)" by simp
  have lt: "of_int (int n * k) + of_int k < (10 ^ 10 :: rat)"
    using nk(2) by (metis of_int_add of_int_less_iff of_int_numeral of_int_power)
  have nk0: "(0 :: rat) \<le> of_int (int n * k)" "(0::rat) \<le> of_int k"
    using nk(1) assms(1) by simp_all
  define X Y :: rat where "X = of_int (int n * k) / 100" and "Y = of_int k / 100"
  have XY: "(of_int (int n * k) + of_int k) / 100 = X + Y" "0 \<le> X" "0 \<le> Y" "X + Y < 10 ^ 8"
    using nk0 lt by (simp_all add: X_def Y_def add_divide_distrib)
  have near: "\<bar>g + cents k - (X + Y)\<bar> \<le> of_nat n * (2 / 10 ^ 7) + 1 / 10 ^ 7"
    using ih ck unfolding X_def [symmetric] Y_def [symmetric] by linarith
  then have "\<bar>g + cents k\<bar> \<le> 2 ^ 27"
    using en XY(2-4) by (simp add: abs_le_iff)
  from fl_error [OF this]
  have r: "\<bar>fl (g + cents k) - (g + cents k)\<bar> \<le> 1 / 10 ^ 7"
    by (rule order_trans) (simp add: power_int_def power_divide)
  have "\<bar>fl (g + cents k) - (of_int (int n * k) + of_int k) / 100\<bar>
      \<le> of_nat n * (2 / 10 ^ 7) + 2 / 10 ^ 7"
    unfolding XY(1) using near r by linarith
  moreover have "((\<lambda>acc. js_add acc (cents k)) ^^ Suc n) 0 = fl (g + cents k)"
    by (simp add: g_def) (simp add: js_add_def)
  moreover have "(of_int (int (Suc n) * k) :: rat) = of_int (int n * k) + of_int k"
    by (simp add: algebra_simps)
  moreover have "of_nat (Suc n) * (2 / 10 ^ 7) = of_nat n * (2 / 10 ^ 7) + (2 / 10 ^ 7 :: rat)"
    by (simp add: algebra_simps)
  ultimately show ?case by (simp only:)
qed simp

lemma cents_segment_cost:
  assumes "0 \<le> k" "k < 10 ^ 10"
  shows "num_to_fixed 6 (js_mul (hours_of_ms ms_per_hour) (cents k)) = cents k"
proof -
  have h: "hours_of_ms ms_per_hour = 1" using hours_of_ms_whole [of 1] by simp
  have d: "js_mul 1 (cents k) = cents k" by (simp add: js_mul_def cents_def)
  have "to_fixed 6 (cents k) = k * 10000"
    using cents_error [OF assms] cents_nonneg [OF assms(1)]
    by (intro to_fixed_near) simp_all
  then show ?thesis by (simp add: h d num_to_fixed_def) (simp add: cents_def)
qed

lemma whole_hour_segments:
  assumes "s mod ms_per_hour = 0" "0 \<le> k" "k < 10 ^ 10"
    and "\<And>t. s \<le> t \<Longrightarrow> t < s + int n * ms_per_hour \<Longrightarrow> rate_at rules fb t = cents k"
  shows "map seg_segmentCost (build_segments rules fb s (s + int n * ms_per_hour))
    = replicate n (cents k)"
  using assms(1,4)
proof (induction n arbitrary: s)
  case 0
  then show ?case by (simp add: build_segments_empty)
next
  case (Suc n)
  let ?e = "s + int (Suc n) * ms_per_hour"
  have pos: "0 < ms_per_hour" by (simp add: ms_units)
  have e: "?e = (s + ms_per_hour) + int n * ms_per_hour" by (simp add: algebra_simps)
  have lt: "s < ?e" using pos by (simp add: pos_add_strict zero_less_mult_iff)
  have "next_full_hour s = s + ms_per_hour" using Suc.prems(1) by (simp add: next_full_hour_eq)
  moreover have "s + ms_per_hour \<le> ?e" using pos by (simp add: e)
  ultimately have sl: "slice_end s ?e = s + ms_per_hour" by (simp add: slice_end_def Let_def)
  have "map seg_segmentCost (build_segments rules fb (s + ms_per_hour)
      ((s + ms_per_hour) + int n * ms_per_hour)) = replicate n (cents k)"
  proof (rule Suc.IH)
    show "(s + ms_per_hour) mod ms_per_hour = 0" using Suc.prems(1) by simp
    show "rate_at rules fb t = cents k"
      if "s + ms_per_hour \<le> t" "t < s + ms_per_hour + int n * ms_per_hour" for t
      using that pos by (intro Suc.prems(2)) (simp_all add: algebra_simps)
  qed
  moreover have "rate_at rules fb s = cents k" using lt by (intro Suc.prems(2)) simp_all
  ultimately show ?case
    using lt cents_segment_cost [OF assms(2,3)] unfolding e
    by (simp add: build_segments_step sl [unfolded e])
qed

lemma gross_total_map: "gross_total xs = foldl js_add 0 (map seg_segmentCost xs)"
  by (simp add: gross_total_def foldl_map)

lemma foldl_replicate: "foldl f a (replicate n x) = ((\<lambda>acc. f acc x) ^^ n) a"
  by (induction n arbitrary: a) (simp_all add: funpow_Suc_right del: funpow.simps(2))

lemma whole_hour_gross:
  assumes "s mod ms_per_hour = 0" "0 \<le> k" "k < 10 ^ 10"
    and "\<And>t. s \<le> t \<Longrightarrow> t < s + int n * ms_per_hour \<Longrightarrow> rate_at rules fb t = cents k"
  shows "gross_total (build_segments rules fb s (s + int n * ms_per_hour))
    = ((\<lambda>acc. js_add acc (cents k)) ^^ n) 0"
  using whole_hour_segments [OF assms, where n = n]
  by (simp add: gross_total_map foldl_replicate)

subsection \<open>The rules invariant\<close>

definition clash :: "price_rule \<Rightarrow> price_rule \<Rightarrow> bool" where
  "clash r r' \<longleftrightarrow> pr_isActive r \<and> pr_isActive r' \<and> pr_workspaceId r = pr_workspaceId r' \<and>
     pr_dayOfWeek r = pr_dayOfWeek r' \<and>
     pr_startHour r < pr_endHour r' \<and> pr_startHour r' < pr_endHour r"

definition rules_ok :: "price_rule list \<Rightarrow> bool" where
  "rules_ok tbl \<longleftrightarrow> distinct (map pr_id tbl) \<and>
     (\<forall>r \<in> set tbl. pr_startHour r < pr_endHour r) \<and>
     (\<forall>r \<in> set tbl. \<forall>r' \<in> set tbl. pr_id r \<noteq> pr_id r' \<longrightarrow> \<not> clash r r')"

lemma clash_sym: "clash r r' \<longleftrightarrow> clash r' r"
  by (auto simp: clash_def)

lemma assert_no_overlap_OK:
  assumes "assert_no_overlap tbl w d sh eh ex = Inr ()" "r \<in> set tbl" "ex \<noteq> Some (pr_id r)"
    "pr_workspaceId r = w" "pr_dayOfWeek r = d" "pr_isActive r"
  shows "\<not> hours_overlap sh eh r"
  using assms by (auto simp: assert_no_overlap_def Let_def find_row_None_iff split: option.splits)

lemma validate_rule_hours_OK [simp]: "validate_rule_hours a b = Inr u \<longleftrightarrow> a < b"
  by (simp add: validate_rule_hours_def)

lemma rules_ok_save:
  assumes "rules_ok tbl" "pr_startHour r < pr_endHour r"
    "\<And>x. x \<in> set tbl \<Longrightarrow> pr_id x \<noteq> pr_id r \<Longrightarrow> \<not> clash r x"
  shows "rules_ok (save_row pr_id r tbl)"
  using assms by (auto simp: rules_ok_def save_row_keys_distinct in_save_row clash_sym)

lemma rules_ok_delete: "rules_ok tbl \<Longrightarrow> rules_ok (delete_rows p tbl)"
  by (auto simp: rules_ok_def delete_rows_def distinct_map_filter)

lemma rules_ok_unique_match:
  assumes "rules_ok rules" "r \<in> set rules" "r' \<in> set rules"
    "pr_workspaceId r = pr_workspaceId r'" "pr_isActive r" "pr_isActive r'"
    "pr_dayOfWeek r = pr_dayOfWeek r'"
    "pr_startHour r \<le> h" "h < pr_endHour r" "pr_startHour r' \<le> h" "h < pr_endHour r'"
  shows "r = r'"
proof -
  have "clash r r'" using assms by (auto simp: clash_def)
  with assms(1-3) have "pr_id r = pr_id r'" by (auto simp: rules_ok_def)
  with assms(1-3) show ?thesis by (auto simp: rules_ok_def distinct_map inj_on_def)
qed

subsection \<open>Properties\<close>


definition sample_rules :: "price_rule list" where
  "sample_rules = [\<lparr>pr_id = ''r1'', pr_workspaceId = ''w'', pr_dayOfWeek = 4, pr_startHour = 9,
     pr_endHour = 12, pr_ratePerHour = 20, pr_label = Some ''Peak'', pr_isActive = True\<rparr>]"


text \<open>calculatePrice refuses a booking whose end is not after its start, whatever the
  rules, the tier and the rate, and answers every other one.\<close>

theorem price_rejects_empty_range:
  "calculate_price now w s e tier fb rules tbl = Inl (BadRequest ''endTime must be after startTime'')
     \<longleftrightarrow> e \<le> s"
  by (simp add: calculate_price_def Let_def)

text \<open>With non-negative rates the total is non-negative and the tier discount never
  raises it above the rounded sum of the slice costs.\<close>

theorem price_total_bounds:
  assumes "s < e" and "\<And>t. 0 \<le> rate_at rules fb t"
    and "calculate_price now w s e tier fb (Some rules) tbl = Inr snap"
  shows "0 \<le> snap_totalAmount snap \<and>
    snap_totalAmount snap \<le> num_to_fixed 2 (gross_total (snap_segments snap))"
proof -
  have snap: "snap_segments snap = build_segments rules fb s e"
    "snap_totalAmount snap = num_to_fixed 2
       (js_mul (gross_total (build_segments rules fb s e)) (js_sub 1 (tier_discount tier)))"
    using assms(1,3) by (auto simp: calculate_price_def Let_def)
  have "0 \<le> gross_total (build_segments rules fb s e)"
    unfolding gross_total_def
    by (rule foldl_js_add_nonneg [OF segment_costs_nonneg]) (use assms(1,2) in auto)
  then show ?thesis
    unfolding snap
    by (intro conjI num_to_fixed_nonneg num_to_fixed_mono discounted_nonneg discounted_le) simp_all
qed

lemma price_total_bounds_witness:
  "0 \<le> snap_totalAmount (\<lparr>snap_segments = build_segments [] 10 0 3600000,
      snap_totalAmount = num_to_fixed 2 (js_mul (gross_total (build_segments [] 10 0 3600000))
        (js_sub 1 (tier_discount ''member''))),
      snap_userTier = ''member'', snap_tierDiscount = tier_discount ''member'',
      snap_calculatedAt = 0\<rparr>)"
  using price_total_bounds [of 0 3600000 "[]" 10 0 "''w''" "''member''" "[]"]
  by (simp add: rate_at_def find_matching_rule_def calculate_price_def Let_def)

lemma whole_hours_total:
  assumes "s mod ms_per_hour = 0" "0 < n" "n \<le> 8784" "0 \<le> k" "int n * k < 10 ^ 10"
    and "tier_discount tier = 0"
    and "\<And>t. s \<le> t \<Longrightarrow> t < s + int n * ms_per_hour \<Longrightarrow> rate_at rules fb t = cents k"
  shows "\<exists>snap. calculate_price now w s (s + int n * ms_per_hour) tier fb (Some rules) tbl = Inr snap
    \<and> snap_totalAmount snap = cents (int n * k)"
proof -
  define g where "g = gross_total (build_segments rules fb s (s + int n * ms_per_hour))"
  have kk: "k < 10 ^ 10"
    using assms(2,4,5) by (smt (verit) mult_le_cancel_right1 of_nat_0_less_iff)
  have g: "g = ((\<lambda>acc. js_add acc (cents k)) ^^ n) 0"
    unfolding g_def by (rule whole_hour_gross) (use assms(1,4,7) kk in auto)
  have err: "\<bar>g - of_int (int n * k) / 100\<bar> \<le> of_nat n * (2 / 10 ^ 7)"
    unfolding g by (rule sum_of_cents_error) (use assms in auto)
  have "(of_nat n :: rat) \<le> 8784" using assms(3) by simp
  then have small: "of_nat n * (2 / 10 ^ 7) < (1 / (2 * 10 ^ 2) :: rat)" by simp
  have "0 \<le> g" unfolding g_def gross_total_def
    by (rule foldl_js_add_nonneg)
      (use whole_hour_segments [OF assms(1,4) kk assms(7)] assms(4) cents_nonneg
        in \<open>force dest: arg_cong [of _ _ set] simp: in_set_replicate\<close>)+
  then have "to_fixed 2 g = int n * k"
    by (rule to_fixed_near) (use order.strict_trans1 [OF err small] in simp)
  moreover have "js_mul g (js_sub 1 0) = g"
    using gross_total_double fl_int [of 1] by (simp add: js_mul_def js_sub_def g_def)
  ultimately have "num_to_fixed 2 (js_mul g (js_sub 1 (tier_discount tier))) = cents (int n * k)"
    by (simp add: num_to_fixed_2_cents assms(6))
  moreover have "\<not> s + int n * ms_per_hour \<le> s"
    using assms(2) by (simp add: ms_units)
  ultimately show ?thesis by (simp add: calculate_price_def Let_def g_def)
qed

text \<open>C6: A booking of n whole clock hours at a constant rate of k cents costs exactly n * k
  cents for a tier without discount: neither the per-slice rounding nor the binary floating
  point sum shows in the total (up to a year of hours, amounts within numeric(10,2)).\<close>

theorem price_whole_hours_exact:
  assumes "s mod ms_per_hour = 0" "0 < n" "n \<le> 8784" "0 \<le> k" "int n * k < 10 ^ 10"
    and "tier_discount tier = 0"
    and "\<And>t. s \<le> t \<Longrightarrow> t < s + int n * ms_per_hour \<Longrightarrow> rate_at rules fb t = cents k"
  shows "\<exists>snap. calculate_price now w s (s + int n * ms_per_hour) tier fb (Some rules) tbl = Inr snap
    \<and> snap_totalAmount snap = cents (int n * k)"
  using assms by (rule whole_hours_total)

lemma price_whole_hours_exact_witness:
  "\<exists>snap. calculate_price 0 ''w'' 0 (0 + int 3 * ms_per_hour) ''admin'' (cents 1999) (Some []) [] = Inr snap
     \<and> snap_totalAmount snap = cents (int 3 * 1999)"
  by (rule price_whole_hours_exact)
    (simp_all add: tier_discount_def rate_at_def find_matching_rule_def)

text \<open>C7: createRule keeps the rules invariant: rule ids distinct, start hour before end hour,
  and no two active rules of one workspace and day overlap.\<close>

theorem create_rule_keeps_rules_ok:
  assumes "rules_ok tbl" "newId \<notin> pr_id ` set tbl"
    "create_rule newId dto tbl = (r, tbl')"
  shows "rules_ok tbl'"
proof (cases r)
  case (Inr rule)
  have cr: "validate_rule_hours (cpr_startHour dto) (cpr_endHour dto) = Inr ()"
    "assert_no_overlap tbl (cpr_workspaceId dto) (cpr_dayOfWeek dto) (cpr_startHour dto)
       (cpr_endHour dto) None = Inr ()"
    "tbl' = save_row pr_id rule tbl"
    "pr_id rule = newId" "pr_workspaceId rule = cpr_workspaceId dto"
    "pr_dayOfWeek rule = cpr_dayOfWeek dto" "pr_startHour rule = cpr_startHour dto"
    "pr_endHour rule = cpr_endHour dto"
    using assms(3) Inr by (auto simp: create_rule_def Let_def split: sum.splits)
  show ?thesis unfolding cr(3)
  proof (rule rules_ok_save [OF assms(1)])
    show "pr_startHour rule < pr_endHour rule" using cr by simp
    show "\<not> clash rule x" if "x \<in> set tbl" for x
      using assert_no_overlap_OK [OF cr(2) that] cr
      by (auto simp: clash_def hours_overlap_def)
  qed
next
  case (Inl e)
  with assms show ?thesis by (auto simp: create_rule_def Let_def split: sum.splits)
qed

definition sample_create_dto :: create_price_rule_dto where
  "sample_create_dto = \<lparr>cpr_workspaceId = ''w'', cpr_dayOfWeek = 4, cpr_startHour = 12,
     cpr_endHour = 18, cpr_ratePerHour = 15, cpr_label = None, cpr_isActive = None\<rparr>"

lemma create_rule_keeps_rules_ok_witness:
  "rules_ok (snd (create_rule ''r2'' sample_create_dto sample_rules)) \<and>
   is_ok (fst (create_rule ''r2'' sample_create_dto sample_rules))"
proof -
  have "rules_ok sample_rules" "''r2'' \<notin> pr_id ` set sample_rules"
    by (simp_all add: rules_ok_def sample_rules_def)
  then have "rules_ok (snd (create_rule ''r2'' sample_create_dto sample_rules))"
    by (rule create_rule_keeps_rules_ok [where r = "fst (create_rule ''r2'' sample_create_dto sample_rules)"]) simp
  moreover have "is_ok (fst (create_rule ''r2'' sample_create_dto sample_rules))"
    by (simp add: create_rule_def sample_create_dto_def sample_rules_def validate_rule_hours_def
      assert_no_overlap_def hours_overlap_def Let_def)
  ultimately show ?thesis ..
qed

text \<open>updateRule keeps the rules invariant when it changes a time or day field, and
  otherwise when it neither reactivates the rule nor moves it to another workspace.\<close>

theorem update_rule_keeps_rules_ok:
  assumes "rules_ok tbl" "update_rule i dto tbl = (r, tbl')"
    and "time_changed dto \<or> (upr_isActive dto \<noteq> Some True \<and> upr_workspaceId dto = None)"
  shows "rules_ok tbl'"
proof (cases r)
  case (Inr m)
  then obtain rule where rule: "find_row (\<lambda>r. pr_id r = i) tbl = Some rule"
    and m: "m = merge_rule rule dto" "pr_startHour m < pr_endHour m" "tbl' = save_row pr_id m tbl"
    and chk: "time_changed dto \<longrightarrow> assert_no_overlap tbl (pr_workspaceId m) (pr_dayOfWeek m)
           (pr_startHour m) (pr_endHour m) (Some i) = Inr ()"
    using assms(2)
    by (auto simp: update_rule_def find_rule_by_id_def Let_def split: sum.splits option.splits if_splits)
  have rl: "rule \<in> set tbl" "pr_id rule = i" using find_row_SomeD [OF rule] by auto
  have mi: "pr_id m = i" using rl by (simp add: m merge_rule_def)
  show ?thesis unfolding m(3)
  proof (rule rules_ok_save [OF assms(1) m(2)])
    fix x assume x: "x \<in> set tbl" "pr_id x \<noteq> pr_id m"
    show "\<not> clash m x"
    proof (cases "time_changed dto")
      case True
      then show ?thesis using assert_no_overlap_OK [of tbl _ _ _ _ "Some i" x] chk x mi
        by (auto simp: clash_def hours_overlap_def)
    next
      case False
      then have same: "pr_isActive m \<longrightarrow> pr_isActive rule" "pr_workspaceId m = pr_workspaceId rule"
        "pr_dayOfWeek m = pr_dayOfWeek rule" "pr_startHour m = pr_startHour rule"
        "pr_endHour m = pr_endHour rule"
        using assms(3) by (auto simp: m merge_rule_def time_changed_def upd_def split: option.splits)
      have "\<not> clash rule x" using assms(1) x rl mi by (auto simp: rules_ok_def)
      with same show ?thesis by (auto simp: clash_def)
    qed
  qed
next
  case (Inl e)
  with assms(1,2) show ?thesis
    by (auto simp: update_rule_def find_rule_by_id_def Let_def split: sum.splits option.splits if_splits)
qed

definition no_change_dto :: update_price_rule_dto where
  "no_change_dto = \<lparr>upr_workspaceId = None, upr_dayOfWeek = None, upr_startHour = None,
     upr_endHour = None, upr_ratePerHour = None, upr_label = None, upr_isActive = None\<rparr>"

lemma update_rule_keeps_rules_ok_witness:
  "rules_ok (snd (update_rule ''r1'' (no_change_dto\<lparr>upr_endHour := Some 20\<rparr>) sample_rules))"
proof -
  have "rules_ok sample_rules" by (simp add: rules_ok_def sample_rules_def)
  then show ?thesis
    by (rule update_rule_keeps_rules_ok
        [where r = "fst (update_rule ''r1'' (no_change_dto\<lparr>upr_endHour := Some 20\<rparr>) sample_rules)"
           and i = "''r1''" and dto = "no_change_dto\<lparr>upr_endHour := Some 20\<rparr>"])
      (simp_all add: time_changed_def)
qed

text \<open>Reactivating a rule is not checked: when an inactive rule overlaps an active one of
  the same workspace and day, updateRule with isActive = true succeeds and leaves two
  overlapping active rules in the table.\<close>

theorem update_rule_reactivation_unchecked:
  assumes "find_row (\<lambda>r. pr_id r = i) tbl = Some rule" "pr_startHour rule < pr_endHour rule"
    and "x \<in> set tbl" "pr_id x \<noteq> i" "clash (rule\<lparr>pr_isActive := True\<rparr>) x"
  shows "is_ok (fst (update_rule i (no_change_dto\<lparr>upr_isActive := Some True\<rparr>) tbl)) \<and>
    \<not> rules_ok (snd (update_rule i (no_change_dto\<lparr>upr_isActive := Some True\<rparr>) tbl))"
proof -
  define m where "m = rule\<lparr>pr_isActive := True\<rparr>"
  have i: "pr_id rule = i" using find_row_SomeD [OF assms(1)] by simp
  have mm: "merge_rule rule (no_change_dto\<lparr>upr_isActive := Some True\<rparr>) = m"
    by (simp add: merge_rule_def no_change_dto_def m_def)
  have tc: "\<not> time_changed (no_change_dto\<lparr>upr_isActive := Some True\<rparr>)"
    by (simp add: time_changed_def no_change_dto_def)
  have upd: "update_rule i (no_change_dto\<lparr>upr_isActive := Some True\<rparr>) tbl
      = (Inr m, save_row pr_id m tbl)"
    using assms(1,2) tc unfolding update_rule_def
    by (simp add: find_rule_by_id_def Let_def mm validate_rule_hours_def) (simp add: m_def)
  have "m \<in> set (save_row pr_id m tbl)" "x \<in> set (save_row pr_id m tbl)" "pr_id m \<noteq> pr_id x"
    using assms(3,4) i by (auto simp: in_save_row m_def)
  moreover have "clash m x" using assms(5) by (simp add: m_def)
  ultimately have "\<not> rules_ok (save_row pr_id m tbl)" unfolding rules_ok_def by blast
  then show ?thesis by (simp add: upd)
qed

lemma update_rule_reactivation_unchecked_witness:
  "\<exists>tbl. rules_ok tbl \<and>
     \<not> rules_ok (snd (update_rule ''r0'' (no_change_dto\<lparr>upr_isActive := Some True\<rparr>) tbl))"
proof -
  let ?r0 = "(hd sample_rules)\<lparr>pr_id := ''r0'', pr_isActive := False\<rparr>"
  let ?tbl = "?r0 # sample_rules"
  have "rules_ok ?tbl" by (simp add: rules_ok_def sample_rules_def clash_def)
  moreover have "\<not> rules_ok (snd (update_rule ''r0'' (no_change_dto\<lparr>upr_isActive := Some True\<rparr>) ?tbl))"
    using update_rule_reactivation_unchecked [of "''r0''" ?tbl ?r0 "hd sample_rules"]
    by (simp add: sample_rules_def clash_def)
  ultimately show ?thesis by blast
qed

text \<open>Under the rules invariant the order of the rules does not matter: any active rule
  of the workspace that covers the moment is the one the engine picks.\<close>

theorem matching_rule_unique:
  assumes "rules_ok rules" "\<forall>r \<in> set rules. pr_workspaceId r = w"
    and "r \<in> set rules" "pr_isActive r" "pr_dayOfWeek r = get_utc_day t"
    "pr_startHour r \<le> get_utc_hours t" "get_utc_hours t < pr_endHour r"
  shows "find_matching_rule rules t = Some r"
proof (cases "find_matching_rule rules t")
  case None
  with assms(3-) show ?thesis by (auto simp: find_matching_rule_def find_row_None_iff)
next
  case (Some r')
  then have r': "r' \<in> set rules" "pr_isActive r'" "pr_dayOfWeek r' = get_utc_day t"
    "pr_startHour r' \<le> get_utc_hours t" "get_utc_hours t < pr_endHour r'"
    using find_row_SomeD by (fastforce simp: find_matching_rule_def)+
  have "r = r'" by (rule rules_ok_unique_match [OF assms(1)]) (use assms r' in auto)
  with Some show ?thesis by simp
qed

lemma matching_rule_unique_witness:
  "find_matching_rule sample_rules 36000000 = Some (hd sample_rules)"
  by (rule matching_rule_unique [of _ "''w''"])
    (simp_all add: rules_ok_def sample_rules_def get_utc_day_def get_utc_hours_def ms_units)

end
