(* ===== verification/Booking_Client_Correct.thy ===== *)
theory Booking_Client_Correct
  imports Booking_Client Pricing_Correct Booking_Contract
begin

text \<open>
  The booking wizard: the well-formedness of every reachable tab, what one confirmation of the
  payment allows, and how the price and the refund shown relate to those of the backend.
\<close>

definition page_ok :: "(string \<Rightarrow> instant option) \<Rightarrow> nat \<Rightarrow> wizard \<Rightarrow> bool" where
  "page_ok parse_date page w \<longleftrightarrow> page \<in> {1, 2, 3, 4} \<and> wz_currentStep w = page \<and>
     (page \<in> {2, 3} \<longrightarrow> can_advance parse_date 1 w) \<and> (page = 3 \<longrightarrow> can_advance parse_date 2 w) \<and>
     (page = 4 \<longrightarrow> truthy (wz_lastBookingId w))"

definition request_ok :: "(string \<Rightarrow> instant option) \<Rightarrow> booking_request \<Rightarrow> bool" where
  "request_ok parse_date q \<longleftrightarrow> bq_workspaceId q \<noteq> [] \<and>
     (\<exists>s e. parse_date (bq_startTime q) = Some s \<and> parse_date (bq_endTime q) = Some e \<and> s < e)"

definition tab_ok :: "(string \<Rightarrow> instant option) \<Rightarrow> tab \<Rightarrow> bool" where
  "tab_ok parse_date t \<longleftrightarrow> page_ok parse_date (tb_page t) (tb_wizard t) \<and>
     (\<forall>q \<in> set (tb_sent t). request_ok parse_date q)"

lemma can_advance_step [simp]: "can_advance pd n (w\<lparr>wz_currentStep := k\<rparr>) = can_advance pd n w"
  by (simp add: can_advance_def)

lemma open_page_ok:
  assumes "page \<in> {1, 2, 3, 4}" "open_page pd page w = (p, w')"
  shows "page_ok pd p w'"
  using assms by (auto simp: open_page_defs page_ok_def split: if_splits)

lemma show_page_sent [simp]: "tb_sent (show_page pd page t) = tb_sent t"
  by (simp add: show_page_def split: prod.split)

lemma show_page_ok:
  assumes "page \<in> {1, 2, 3, 4}" "\<forall>q \<in> set (tb_sent t). request_ok pd q"
  shows "tab_ok pd (show_page pd page t)"
proof -
  obtain p w where o: "open_page pd page (tb_wizard t) = (p, w)" by fastforce
  show ?thesis using open_page_ok [OF assms(1) o] assms(2) by (simp add: tab_ok_def show_page_def o)
qed

lemma valid_range_request:
  "is_valid_time_range pd (Some slot) \<Longrightarrow> i \<noteq> [] \<Longrightarrow>
   request_ok pd \<lparr>bq_workspaceId = i, bq_startTime = tl_startTime slot, bq_endTime = tl_endTime slot\<rparr>"
  by (auto simp: is_valid_time_range_def request_ok_def split: if_splits option.splits)

lemma handle_confirm_ok:
  assumes "tab_ok pd t" "tb_page t = 3"
  shows "tab_ok pd (handle_confirm t)"
proof -
  obtain i slot where i: "wz_workspaceId (tb_wizard t) = Some i" "i \<noteq> []"
    and slot: "wz_timeSlot (tb_wizard t) = Some slot" "is_valid_time_range pd (Some slot)"
    using assms
    by (cases "wz_workspaceId (tb_wizard t)"; cases "wz_timeSlot (tb_wizard t)")
       (auto simp: tab_ok_def page_ok_def can_advance_def is_valid_time_range_def)
  then show ?thesis
    using assms valid_range_request [OF slot(2) i(2)]
    by (auto simp: handle_confirm_def tab_ok_def page_ok_def can_advance_def)
qed

lemma tab_ok_step:
  assumes "tab_step pd t t'" "tab_ok pd t"
  shows "tab_ok pd t'"
proof -
  have sent: "\<forall>q \<in> set (tb_sent t). request_ok pd q" using assms(2) by (simp add: tab_ok_def)
  show ?thesis using assms(1)
proof (cases rule: tab_step.cases)
  case pay
  then show ?thesis using assms(2) by (simp add: handle_confirm_ok)
next
  case (progress step)
  then have "step \<in> {1, 2, 3, 4}" using assms(2) by (auto simp: tab_ok_def page_ok_def)
  then show ?thesis unfolding progress(1) using sent by (intro show_page_ok) simp_all
next
  case go_back
  then have "tb_page t - 1 \<in> {1, 2, 3, 4}" by auto
  then show ?thesis unfolding go_back(1) back_click_def using sent by (intro show_page_ok) simp_all
next
  case (address page)
  then show ?thesis using sent by (simp only: show_page_ok)
next
  case next_1
  show ?thesis unfolding next_1(1) next_click_def using sent by (intro show_page_ok) simp_all
next
  case next_2
  show ?thesis unfolding next_2(1) next_click_def using sent by (intro show_page_ok) simp_all
next
  case (created i)
  show ?thesis unfolding created(1) using sent by (intro show_page_ok) simp_all
next
  case book_another
  show ?thesis unfolding book_another(1) using sent by (intro show_page_ok) simp_all
qed (use assms(2) in \<open>auto simp: tab_ok_def page_ok_def can_advance_def\<close>)
qed

text \<open>C33: The tab of the booking wizard is well-formed in every reachable state, whatever is typed,
  clicked, opened by address or answered by the backend, in any order: the step of the store is the
  page shown and lies between 1 and 4, the review page has a workspace and a valid time range, the
  confirmation page a booking; and every booking request ever sent names a workspace and ends after
  it starts.\<close>

theorem wizard_well_formed:
  assumes "(tab_step parse_date)\<^sup>*\<^sup>* new_tab t"
  shows "tab_ok parse_date t"
  using assms
proof (induction rule: rtranclp_induct)
  case base
  show ?case by (simp add: tab_ok_def new_tab_def page_ok_def initial_wizard_def)
qed (rule tab_ok_step)

lemma show_page_1: "show_page pd 1 t =
    t\<lparr>tb_wizard := (tb_wizard t)\<lparr>wz_currentStep := 1\<rparr>, tb_page := 1, tb_isPending := False\<rparr>"
  by (simp add: show_page_def open_page_defs)

definition silently :: "(string \<Rightarrow> instant option) \<Rightarrow> tab \<Rightarrow> tab \<Rightarrow> bool" where
  "silently parse_date t t' \<longleftrightarrow> tab_step parse_date t t' \<and>
     wz_confirmed (tb_wizard t') = wz_confirmed (tb_wizard t)"

text \<open>One tick of the payment confirmation pays for any booking. From every tab in which it is
  set, whatever the workspace and the times it was given for, there is a run that never touches it
  and sends the booking of any other workspace and valid time range; the confirmation survives the
  change of the price it names, and also the booking it paid for.\<close>

theorem confirmation_outlives_price:
  assumes "wz_confirmed (tb_wizard t)" "i \<noteq> []" "is_valid_time_range parse_date (Some slot)"
  shows "\<exists>t'. (silently parse_date)\<^sup>*\<^sup>* t t' \<and> tb_sent t' = tb_sent t @
    [\<lparr>bq_workspaceId = i, bq_startTime = tl_startTime slot, bq_endTime = tl_endTime slot\<rparr>]"
proof -
  let ?w = "tb_wizard t"
  define t1 where "t1 = show_page parse_date 1 t"
  define t2 where "t2 = on_wizard (\<lambda>w. w\<lparr>wz_workspaceId := Some i\<rparr>) t1"
  define t3 where "t3 = next_click parse_date 2 t2"
  define t4 where "t4 = on_wizard (\<lambda>w. w\<lparr>wz_timeSlot := Some slot\<rparr>) t3"
  define t5 where "t5 = next_click parse_date 3 t4"
  have t1: "tb_page t1 = 1" "wz_confirmed (tb_wizard t1)" "wz_currentStep (tb_wizard t1) = 1" "tb_sent t1 = tb_sent t"
    using assms(1) unfolding t1_def show_page_1 by simp_all
  have a1: "can_advance parse_date 1 (tb_wizard t2)"
    using assms(2) by (simp add: t2_def can_advance_def)
  have t3: "tb_page t3 = 2" "wz_confirmed (tb_wizard t3)" "wz_currentStep (tb_wizard t3) = 2"
    "wz_workspaceId (tb_wizard t3) = Some i" "tb_sent t3 = tb_sent t"
    using t1 assms(2) by (simp_all add: t3_def t2_def next_click_def next_step_def show_page_def open_page_defs can_advance_def)
  have a2: "can_advance parse_date 2 (tb_wizard t4)"
    using assms(3) by (simp add: t4_def can_advance_def)
  have t5: "tb_page t5 = 3" "wz_confirmed (tb_wizard t5)" "\<not> tb_isPending t5"
    "wz_workspaceId (tb_wizard t5) = Some i" "wz_timeSlot (tb_wizard t5) = Some slot" "tb_sent t5 = tb_sent t"
    using t3 assms(2,3) by (simp_all add: t5_def t4_def next_click_def next_step_def show_page_def open_page_defs can_advance_def)
  have "silently parse_date t t1"
    using assms(1) t1 tab_step.address [of 1 parse_date t] by (simp add: silently_def t1_def)
  moreover have "silently parse_date t1 t2"
    using t1 assms(2) by (auto simp: silently_def t2_def intro: tab_step.select_workspace)
  moreover have "silently parse_date t2 t3"
    using t1 t3 a1 tab_step.next_1 [of t2 parse_date] by (simp add: silently_def t3_def t2_def)
  moreover have "silently parse_date t3 t4"
    using t3 by (auto simp: silently_def t4_def intro: tab_step.change_times)
  moreover have "silently parse_date t4 t5"
    using t3 t5 a2 tab_step.next_2 [of t4 parse_date] by (simp add: silently_def t5_def t4_def)
  moreover have "silently parse_date t5 (handle_confirm t5)"
    using t5 assms(2) tab_step.pay [of t5 parse_date] by (simp add: silently_def handle_confirm_def)
  moreover have "tb_sent (handle_confirm t5) = tb_sent t @
      [\<lparr>bq_workspaceId = i, bq_startTime = tl_startTime slot, bq_endTime = tl_endTime slot\<rparr>]"
    using t5 assms(2) by (simp add: handle_confirm_def)
  ultimately show ?thesis
    by (meson converse_rtranclp_into_rtranclp rtranclp.rtrancl_refl)
qed

subsection \<open>Prices and refunds shown\<close>

lemma shown_price:
  assumes "0 < n" "n \<le> 8784" "0 \<le> k" "int n * k < 10 ^ 10"
    "parse_date st = Some s" "parse_date en = Some (s + int n * ms_per_hour)" "st \<noteq> []" "en \<noteq> []"
  shows "\<exists>p. calculate_booking_price parse_date (cents k) st en = Some p \<and> to_fixed 2 p = int n * k"
proof -
  define x where "x = (of_nat n :: rat) * cents k"
  have n1: "(of_nat n :: rat) \<le> 8784" using assms(2) by simp
  have kk: "k < 10 ^ 10"
    using assms(1,3,4) by (smt (verit) mult_le_cancel_right1 of_nat_0_less_iff)
  have c: "\<bar>cents k - of_int k / 100\<bar> \<le> 1 / 10 ^ 7" by (rule cents_error [OF assms(3) kk])
  have c0: "0 \<le> cents k" by (rule cents_nonneg [OF assms(3)])
  have x0: "0 \<le> x" using c0 by (simp add: x_def)
  have "x - of_int (int n * k) / 100 = of_nat n * (cents k - of_int k / 100)"
    by (simp add: x_def field_simps)
  then have "\<bar>x - of_int (int n * k) / 100\<bar> = of_nat n * \<bar>cents k - of_int k / 100\<bar>"
    by (simp add: abs_mult)
  also have "\<dots> \<le> 8784 * (1 / 10 ^ 7)" using c n1 by (intro mult_mono) simp_all
  finally have e1: "\<bar>x - of_int (int n * k) / 100\<bar> \<le> 8784 / 10 ^ 7" by simp
  have "(of_int (int n * k) :: rat) < of_int (10 ^ 10)" using assms(4) by (simp only: of_int_less_iff)
  moreover have "x \<le> of_int (int n * k) / 100 + 8784 / 10 ^ 7" using e1 by linarith
  ultimately have "x \<le> of_int (10 ^ 10) / 100 + 8784 / 10 ^ 7" by linarith
  then have "\<bar>x\<bar> \<le> 2 ^ 27" using x0 by simp
  from fl_error [OF this] have e2: "\<bar>fl x - x\<bar> \<le> 1 / 2 ^ 26"
    by (simp add: power_int_def field_simps)
  have "\<bar>fl x - of_int (int n * k) / 10 ^ 2\<bar> < 1 / (2 * 10 ^ 2)"
  proof -
    define y where "y = (of_int (int n * k) / 100 :: rat)"
    have "\<bar>fl x - y\<bar> \<le> 1 / 2 ^ 26 + 8784 / 10 ^ 7"
      using e1 e2 unfolding y_def [symmetric] by linarith
    also have "\<dots> < 1 / (2 * 10 ^ 2)" by simp
    finally show ?thesis by (simp add: y_def)
  qed
  then have f: "to_fixed 2 (fl x) = int n * k" by (intro to_fixed_near fl_nonneg x0)
  have h: "hours_of_ms (int n * ms_per_hour) = of_int (int n)"
    using assms(2) by (intro hours_of_ms_whole) simp
  have "calculate_booking_price parse_date (cents k) st en = Some (fl x)"
    using assms(5-8) fl_nonneg [OF x0] by (simp add: calculate_booking_price_def h js_mul_def x_def)
  with f show ?thesis by blast
qed

text \<open>The price of the review step is the price the backend charges, to the cent, for a booking of
  whole clock hours in a workspace without price rules and a tier without discount: the text the
  browser computes with one multiplication equals the total of the slice-by-slice calculation.\<close>

theorem displayed_price_exact:
  assumes "s mod ms_per_hour = 0" "0 < n" "n \<le> 8784" "0 \<le> k" "int n * k < 10 ^ 10" "tier_discount tier = 0"
    and "parse_date st = Some s" "parse_date en = Some (s + int n * ms_per_hour)" "st \<noteq> []" "en \<noteq> []"
  shows "\<exists>p snap. calculate_booking_price parse_date (cents k) st en = Some p \<and>
    calculate_price now w s (s + int n * ms_per_hour) tier (cents k) (Some []) tbl = Inr snap \<and>
    cents (to_fixed 2 p) = snap_totalAmount snap"
  using shown_price [where n = n and k = k, OF assms(2-5,7-10)]
    whole_hours_total [where rules = "[]" and fb = "cents k", OF assms(1-6)]
  by (fastforce simp: rate_at_def find_matching_rule_def)

lemma displayed_price_exact_witness:
  "\<exists>p snap. calculate_booking_price (\<lambda>t. if t = ''a'' then Some 0 else Some (int 3 * ms_per_hour))
      (cents 1999) ''a'' ''b'' = Some p \<and>
    calculate_price 0 ''w'' 0 (0 + int 3 * ms_per_hour) ''admin'' (cents 1999) (Some []) [] = Inr snap \<and>
    cents (to_fixed 2 p) = snap_totalAmount snap"
  by (rule displayed_price_exact) (simp_all add: tier_discount_def)

lemma hours_24: "hours_of_ms d \<ge> js_int 24 \<longleftrightarrow> 24 * ms_per_hour \<le> d"
proof
  assume "24 * ms_per_hour \<le> d"
  from hours_of_ms_mono [OF this] show "hours_of_ms d \<ge> js_int 24"
    using fl_int [of 24] by (simp add: hours_of_ms_whole js_int_def)
next
  assume a: "hours_of_ms d \<ge> js_int 24"
  show "24 * ms_per_hour \<le> d"
  proof (rule ccontr)
    assume "\<not> 24 * ms_per_hour \<le> d"
    then have "hours_of_ms d \<le> hours_of_ms 86399999"
      by (intro hours_of_ms_mono) (simp add: ms_units)
    also have "\<dots> = fl (86399999 / 3600000)"
      using fl_int [of 86399999] fl_int [of 3600000] by (simp add: hours_of_ms_def js_div_def js_int_def ms_units)
    also have "\<dots> < 24"
      using fl_error [of "86399999 / 3600000" 5] by (simp add: power_int_def field_simps abs_if split: if_splits)
    finally show False using a fl_int [of 24] by (simp add: js_int_def)
  qed
qed

text \<open>The refund the cancellation dialog announces, for a workspace without a policy of its own, is
  the refund the backend grants, at every instant but one: exactly 24 hours before the start the
  backend still refunds everything, the dialog announces nothing.\<close>

theorem refund_preview_exact:
  assumes "find_policy d (bv_workspace v) = None"
  shows "refund_preview (bk_startTime (bv_booking v)) now (bk_totalAmount (bv_booking v)) =
      re_refundAmount (evaluate_refund d v now) \<longleftrightarrow>
    bk_startTime (bv_booking v) - now \<noteq> 24 * ms_per_hour \<or> bk_totalAmount (bv_booking v) = 0"
  using hours_24 [of "bk_startTime (bv_booking v) - now"]
  by (auto simp: evaluate_refund_def assms effective_policy_def Let_def refund_preview_def
      is_refund_eligible_def get_refund_deadline_def REFUND_WINDOW_HOURS_def ms_units)

lemma refund_preview_exact_witness:
  "refund_preview 86400000 0 (cents 500) \<noteq>
     re_refundAmount (evaluate_refund (sample_db [])
       \<lparr>bv_booking = sample_pending\<lparr>bk_startTime := 86400000, bk_totalAmount := cents 500\<rparr>,
        bv_workspace = None, bv_user = None\<rparr> 0)"
proof -
  have "cents 500 = 5" using fl_int [of 5] by (simp add: cents_def)
  then show ?thesis
    using refund_preview_exact [of "sample_db []" "\<lparr>bv_booking = sample_pending\<lparr>bk_startTime := 86400000,
        bk_totalAmount := cents 500\<rparr>, bv_workspace = None, bv_user = None\<rparr>" 0]
    by (simp add: find_policy_def ms_units)
qed

definition some_dates :: "string \<Rightarrow> instant option" where
  "some_dates t = (if t = [] then None else Some (int (length t)))"

lemma wizard_well_formed_witness: "tab_ok some_dates (show_page some_dates 3 new_tab)"
  by (rule wizard_well_formed) (rule r_into_rtranclp, rule tab_step.address, simp)

lemma confirmation_outlives_price_witness:
  "\<exists>t'. (silently some_dates)\<^sup>*\<^sup>* (on_wizard (\<lambda>w. w\<lparr>wz_confirmed := True\<rparr>) new_tab) t' \<and>
     tb_sent t' = [\<lparr>bq_workspaceId = ''w2'', bq_startTime = ''a'', bq_endTime = ''bb''\<rparr>]"
  using confirmation_outlives_price [of "on_wizard (\<lambda>w. w\<lparr>wz_confirmed := True\<rparr>) new_tab" "''w2''" some_dates
      "\<lparr>tl_startTime = ''a'', tl_endTime = ''bb''\<rparr>"]
  by (simp add: new_tab_def is_valid_time_range_def some_dates_def)

end
