(* ===== verification/Contact.thy ===== *)
theory Contact
  imports Js_Strings Pagination
begin

text \<open>
  The contact form: the spam score (backend/src/contact/spam-detection.service.ts), the storage and
  listing of messages (contact.service.ts) and the keyword table. The regular expressions are
  written out as scanners. Texts are modelled as code units below 256; the mail sending of the
  service is a placeholder without effect.
\<close>

subsection \<open>The entities\<close>

datatype contact_status = CmPending | CmReviewed | CmFlagged | CmResolved

record contact_message =
  cm_id :: uuid
  cm_fullName :: string
  cm_email :: string
  cm_subject :: string
  cm_message :: string
  cm_ipAddress :: "string option"
  cm_spamScore :: num
  cm_spamFlags :: "string list"
  cm_status :: contact_status
  cm_createdAt :: instant

record spam_keyword =
  sk_id :: uuid
  sk_keyword :: string
  sk_weight :: num
  sk_isActive :: bool
  sk_createdAt :: instant

record contact_state =
  ct_messages :: "contact_message list"
  ct_keywords :: "spam_keyword list"

record submit_contact_dto =
  sc_fullName :: string
  sc_email :: string
  sc_subject :: string
  sc_message :: string

definition submit_contact_dto_valid :: "(string \<Rightarrow> bool) \<Rightarrow> submit_contact_dto \<Rightarrow> bool" where
  "submit_contact_dto_valid is_email dto \<longleftrightarrow>
     2 \<le> length (sc_fullName dto) \<and> length (sc_fullName dto) \<le> 100 \<and> is_email (sc_email dto) \<and>
     3 \<le> length (sc_subject dto) \<and> length (sc_subject dto) \<le> 200 \<and>
     10 \<le> length (sc_message dto) \<and> length (sc_message dto) \<le> 5000"

subsection \<open>The regular expressions\<close>

text \<open>\<open>(?:https?:\/\/|ftp:\/\/|www\.)\S+\<close>, global and ignoring case: the length of the prefix.\<close>

definition url_prefix :: "string \<Rightarrow> nat option" where
  "url_prefix s =
     (let l = js_lower (take 8 s) in
      if starts_with ''https://'' l then Some 8
      else if starts_with ''http://'' l then Some 7
      else if starts_with ''ftp://'' l then Some 6
      else if starts_with ''www.'' l then Some 4
      else None)"

function count_urls :: "string \<Rightarrow> nat" where
  "count_urls [] = 0"
| "count_urls (c # s) =
     (case url_prefix (c # s) of
        None \<Rightarrow> count_urls s
      | Some n \<Rightarrow>
          (let r = drop n (c # s) in
           if takeWhile (\<lambda>x. \<not> js_space x) r = [] then count_urls s
           else 1 + count_urls (dropWhile (\<lambda>x. \<not> js_space x) r)))"
  by pat_completeness auto
termination
proof (relation "measure length")
  fix c :: char and s n r
  assume n: "url_prefix (c # s) = Some n" and r: "r = drop n (c # s)"
  have "0 < n" using n by (auto simp: url_prefix_def Let_def split: if_splits)
  then have "length r \<le> length s" using r by simp
  then show "(dropWhile (\<lambda>x. \<not> js_space x) r, c # s) \<in> measure length"
    using length_dropWhile_le [of "\<lambda>x. \<not> js_space x" r] by (simp add: le_less_trans less_Suc_eq_le)
qed simp_all

text \<open>\<open>(.)\1{4,}\<close>, global: a dot matches no line terminator.\<close>

function count_repeats :: "string \<Rightarrow> nat" where
  "count_repeats [] = 0"
| "count_repeats (c # s) =
     (if c \<noteq> CHR 0x0A \<and> c \<noteq> CHR 0x0D \<and> 4 \<le> length (takeWhile (\<lambda>x. x = c) s)
      then 1 + count_repeats (dropWhile (\<lambda>x. x = c) s) else count_repeats s)"
  by pat_completeness auto
termination
  by (relation "measure length") (auto simp: less_Suc_eq_le length_dropWhile_le)

subsection \<open>SpamDetectionService\<close>

record spam_analysis =
  an_score :: num
  an_flags :: "string list"

definition SPAM_THRESHOLD :: num where "SPAM_THRESHOLD = js_lit 7 10"

definition get_active_keywords :: "contact_state \<Rightarrow> spam_keyword list" where
  "get_active_keywords st = filter sk_isActive (ct_keywords st)"

definition url_component :: "string \<Rightarrow> spam_analysis \<Rightarrow> spam_analysis" where
  "url_component fullText a =
     (let urlCount = count_urls fullText in
      if urlCount \<ge> 5
      then \<lparr>an_score = js_add (an_score a) (min (js_lit 4 10) (js_mul (js_int (int urlCount)) (js_lit 8 100))),
            an_flags = an_flags a @ [''HIGH_URL_DENSITY:'' @ nat_string urlCount]\<rparr>
      else if urlCount \<ge> 2
      then \<lparr>an_score = js_add (an_score a) (js_mul (js_int (int urlCount)) (js_lit 5 100)),
            an_flags = an_flags a @ [''URL_COUNT:'' @ nat_string urlCount]\<rparr>
      else a)"

definition keyword_hit :: "string \<Rightarrow> spam_analysis \<Rightarrow> spam_keyword \<Rightarrow> spam_analysis" where
  "keyword_hit lowerText a kw =
     (if contains_text (js_lower (sk_keyword kw)) lowerText
      then \<lparr>an_score = js_add (an_score a) (sk_weight kw),
            an_flags = an_flags a @ [''SPAM_KEYWORD:'' @ sk_keyword kw]\<rparr>
      else a)"

definition length_component :: "string \<Rightarrow> spam_analysis \<Rightarrow> spam_analysis" where
  "length_component message a =
     (if length message < 15
      then \<lparr>an_score = js_add (an_score a) (js_lit 15 100), an_flags = an_flags a @ [''MESSAGE_TOO_SHORT'']\<rparr>
      else if length message > 4000
      then \<lparr>an_score = js_add (an_score a) (js_lit 1 10), an_flags = an_flags a @ [''MESSAGE_TOO_LONG'']\<rparr>
      else a)"

definition repeat_component :: "string \<Rightarrow> spam_analysis \<Rightarrow> spam_analysis" where
  "repeat_component fullText a =
     (let n = count_repeats fullText in
      if n > 0
      then \<lparr>an_score = js_add (an_score a) (min (js_lit 2 10) (js_mul (js_int (int n)) (js_lit 5 100))),
            an_flags = an_flags a @ [''REPEATED_CHARS:'' @ nat_string n]\<rparr>
      else a)"

definition recent_count :: "instant \<Rightarrow> string \<Rightarrow> contact_state \<Rightarrow> nat" where
  "recent_count now ipAddress st =
     (let tenMinutesAgo = now - 10 * 60 * 1000
      in length (filter (\<lambda>m. cm_ipAddress m = Some ipAddress \<and> cm_createdAt m > tenMinutesAgo) (ct_messages st)))"

definition velocity_component :: "instant \<Rightarrow> string \<Rightarrow> contact_state \<Rightarrow> spam_analysis \<Rightarrow> spam_analysis" where
  "velocity_component now ipAddress st a =
     (if ipAddress \<noteq> [] \<and> ipAddress \<noteq> ''unknown''
      then (let recentCount = recent_count now ipAddress st in
            if recentCount \<ge> 3
            then \<lparr>an_score = js_add (an_score a) (js_lit 3 10),
                  an_flags = an_flags a @ [''HIGH_VELOCITY:'' @ nat_string recentCount @ ''_in_10min'']\<rparr>
            else if recentCount \<ge> 1
            then \<lparr>an_score = js_add (an_score a) (js_mul (js_int (int recentCount)) (js_lit 5 100)),
                  an_flags = an_flags a @ [''VELOCITY:'' @ nat_string recentCount @ ''_in_10min'']\<rparr>
            else a)
      else a)"

definition full_text :: "string \<Rightarrow> string \<Rightarrow> string \<Rightarrow> string" where
  "full_text fullName subject message = fullName @ '' '' @ subject @ '' '' @ message"

definition analyse ::
  "instant \<Rightarrow> string \<Rightarrow> string \<Rightarrow> string \<Rightarrow> string \<Rightarrow> contact_state \<Rightarrow> spam_analysis" where
  "analyse now fullName subject message ipAddress st =
     (let fullText = full_text fullName subject message;
          a1 = url_component fullText \<lparr>an_score = 0, an_flags = []\<rparr>;
          a2 = foldl (keyword_hit (js_lower fullText)) a1 (get_active_keywords st);
          a3 = length_component message a2;
          a4 = repeat_component fullText a3;
          a5 = velocity_component now ipAddress st a4
      in \<lparr>an_score = min 1 (max 0 (an_score a5)), an_flags = an_flags a5\<rparr>)"

definition is_spam :: "num \<Rightarrow> bool" where
  "is_spam score \<longleftrightarrow> score > SPAM_THRESHOLD"

text \<open>\<open>addKeyword\<close>, whose weight defaults to 0.2, and \<open>removeKeyword\<close>.\<close>

definition add_keyword ::
  "uuid \<Rightarrow> instant \<Rightarrow> string \<Rightarrow> num option \<Rightarrow> contact_state \<Rightarrow> spam_keyword \<times> contact_state" where
  "add_keyword newId now keyword weight st =
     (let w = (case weight of None \<Rightarrow> js_lit 2 10 | Some x \<Rightarrow> x);
          kw = (case find_row (\<lambda>k. sk_keyword k = js_lower keyword) (ct_keywords st) of
                  Some existing \<Rightarrow> existing\<lparr>sk_isActive := True, sk_weight := w\<rparr>
                | None \<Rightarrow> \<lparr>sk_id = newId, sk_keyword = js_lower keyword, sk_weight = w,
                           sk_isActive = True, sk_createdAt = now\<rparr>)
      in (kw, st\<lparr>ct_keywords := save_row sk_id kw (ct_keywords st)\<rparr>))"

definition remove_keyword :: "uuid \<Rightarrow> contact_state \<Rightarrow> contact_state" where
  "remove_keyword i st = st\<lparr>ct_keywords := delete_rows (\<lambda>k. sk_id k = i) (ct_keywords st)\<rparr>"

subsection \<open>ContactService\<close>

text \<open>What the submitter gets back: the saved row without score and flags.\<close>

record public_message =
  pm_id :: uuid
  pm_fullName :: string
  pm_email :: string
  pm_subject :: string
  pm_message :: string
  pm_ipAddress :: "string option"
  pm_status :: contact_status
  pm_createdAt :: instant

definition public_message_of :: "contact_message \<Rightarrow> public_message" where
  "public_message_of m = \<lparr>pm_id = cm_id m, pm_fullName = cm_fullName m, pm_email = cm_email m,
     pm_subject = cm_subject m, pm_message = cm_message m, pm_ipAddress = cm_ipAddress m,
     pm_status = cm_status m, pm_createdAt = cm_createdAt m\<rparr>"

definition submit_contact ::
  "uuid \<Rightarrow> instant \<Rightarrow> submit_contact_dto \<Rightarrow> string \<Rightarrow> contact_state \<Rightarrow> public_message \<times> contact_state" where
  "submit_contact newId now dto ipAddress st =
     (let analysis = analyse now (sc_fullName dto) (sc_subject dto) (sc_message dto) ipAddress st;
          status = (if is_spam (an_score analysis) then CmFlagged else CmPending);
          saved = \<lparr>cm_id = newId, cm_fullName = sc_fullName dto, cm_email = sc_email dto,
            cm_subject = sc_subject dto, cm_message = sc_message dto, cm_ipAddress = Some ipAddress,
            cm_spamScore = an_score analysis, cm_spamFlags = an_flags analysis, cm_status = status,
            cm_createdAt = now\<rparr>
      in (public_message_of saved, st\<lparr>ct_messages := save_row cm_id saved (ct_messages st)\<rparr>))"

definition newest_first :: "contact_message list \<Rightarrow> contact_message list" where
  "newest_first = sort_by (\<lambda>a b. cm_createdAt b - cm_createdAt a)"

definition get_messages ::
  "pagination_query \<Rightarrow> contact_status option \<Rightarrow> contact_state \<Rightarrow> contact_message page_response" where
  "get_messages query status st =
     (let wanted = (case status of Some s \<Rightarrow> s | None \<Rightarrow> CmPending)
      in paginate query (newest_first (filter (\<lambda>m. cm_status m = wanted) (ct_messages st))))"

definition get_all_messages :: "pagination_query \<Rightarrow> contact_state \<Rightarrow> contact_message page_response" where
  "get_all_messages query st = paginate query (newest_first (ct_messages st))"

text \<open>The address the controller passes: \<open>req.ip || req.socket.remoteAddress || 'unknown'\<close>.\<close>

definition submitter_address :: "string option \<Rightarrow> string option \<Rightarrow> string" where
  "submitter_address reqIp remoteAddress =
     (if truthy reqIp then the reqIp else if truthy remoteAddress then the remoteAddress else ''unknown'')"

end
