(* ===== verification/Contact_Correct.thy ===== *)
theory Contact_Correct
  imports Contact
begin

text \<open>
  The contact form: every submission is stored exactly once with a score between 0 and 1, the
  velocity component alone never flags a message, and the keyword table stays free of duplicates.
\<close>

lemma threshold: "js_lit 3 10 \<le> SPAM_THRESHOLD" "0 \<le> SPAM_THRESHOLD"
  unfolding SPAM_THRESHOLD_def js_lit_def by (simp_all add: fl_mono fl_nonneg)

lemma js_add_0_lit [simp]: "js_add 0 (js_lit n d) = js_lit n d"
  by (simp add: js_add_def js_lit_def)

lemma js_add_0_mul [simp]: "js_add 0 (js_mul x y) = js_mul x y"
  by (simp add: js_add_def js_mul_def)

lemma is_double_quarter: "is_double (1 / 4)"
  unfolding is_double_def by (rule exI [of _ 1], rule exI [of _ "-2"]) (simp add: power_int_def power2_eq_square)

lemma few_recent_low:
  assumes "n < 3"
  shows "js_mul (js_int (int n)) (js_lit 5 100) \<le> SPAM_THRESHOLD"
proof -
  have "js_lit 5 100 \<le> 1 / 4"
    unfolding js_lit_def using fl_mono [of "5 / 100" "1 / 4"] is_double_quarter by simp
  moreover have "js_int (int n) \<le> 2" "0 \<le> js_int (int n)"
    using assms fl_int [of "int n"] by (simp_all add: js_int_def)
  moreover have "0 \<le> js_lit 5 100" by (simp add: js_lit_def fl_nonneg)
  ultimately have "js_int (int n) * js_lit 5 100 \<le> 2 * (1 / 4)" by (intro mult_mono) simp_all
  also have "\<dots> \<le> 7 / 10" by simp
  finally show ?thesis unfolding js_mul_def SPAM_THRESHOLD_def js_lit_def by (simp add: fl_mono)
qed

lemma no_hits: "\<forall>k \<in> set ks. \<not> contains_text (js_lower (sk_keyword k)) t \<Longrightarrow> foldl (keyword_hit t) a ks = a"
  by (induction ks) (simp_all add: keyword_hit_def)

lemma velocity_score:
  "an_score (velocity_component now ip st \<lparr>an_score = 0, an_flags = fs\<rparr>) \<le> SPAM_THRESHOLD"
  using threshold few_recent_low [of "recent_count now ip st"]
  by (simp add: velocity_component_def Let_def)

text \<open>The velocity check limits nothing. A message with fewer than two links, none of the active
  keywords, 15 to 4000 characters and no run of five equal characters is accepted as pending whatever
  was submitted before: any number of messages from the same address in the last ten minutes leaves
  the score at 0.3 at most.\<close>

theorem velocity_never_flags:
  fixes dto :: submit_contact_dto
  assumes "txt = full_text (sc_fullName dto) (sc_subject dto) (sc_message dto)"
    and "count_urls txt < 2" "count_repeats txt = 0"
    and "15 \<le> length (sc_message dto)" "length (sc_message dto) \<le> 4000"
    and "\<forall>k \<in> set (get_active_keywords st). \<not> contains_text (js_lower (sk_keyword k)) (js_lower txt)"
  shows "pm_status (fst (submit_contact newId now dto ipAddress st)) = CmPending"
proof -
  have "min 1 (max 0 (an_score (velocity_component now ipAddress st \<lparr>an_score = 0, an_flags = []\<rparr>)))
      \<le> SPAM_THRESHOLD"
    using velocity_score [of now ipAddress st "[]"] threshold(2) by (simp add: min_le_iff_disj)
  moreover have "an_score (analyse now (sc_fullName dto) (sc_subject dto) (sc_message dto) ipAddress st) =
      min 1 (max 0 (an_score (velocity_component now ipAddress st \<lparr>an_score = 0, an_flags = []\<rparr>)))"
    using assms(2-5) no_hits [OF assms(6)]
    by (simp add: analyse_def Let_def assms(1) [symmetric] url_component_def length_component_def repeat_component_def)
  ultimately have "\<not> is_spam (an_score (analyse now (sc_fullName dto) (sc_subject dto) (sc_message dto) ipAddress st))"
    unfolding is_spam_def by (simp only: not_less)
  then show ?thesis by (simp add: submit_contact_def Let_def public_message_of_def)
qed

text \<open>Every submission is kept: exactly one message is added, last in the table, with the submitted
  texts, a score between 0 and 1, and the status flagged when the score exceeds the threshold and
  pending otherwise. The moderation list of that status then contains it.\<close>

theorem submit_contact_exact:
  assumes "newId \<notin> cm_id ` set (ct_messages st)"
  shows "\<exists>m st'. submit_contact newId now dto ip st = (public_message_of m, st') \<and>
    ct_messages st' = ct_messages st @ [m] \<and> ct_keywords st' = ct_keywords st \<and>
    (cm_fullName m, cm_email m, cm_subject m, cm_message m, cm_createdAt m) =
      (sc_fullName dto, sc_email dto, sc_subject dto, sc_message dto, now) \<and>
    0 \<le> cm_spamScore m \<and> cm_spamScore m \<le> 1 \<and>
    cm_status m = (if SPAM_THRESHOLD < cm_spamScore m then CmFlagged else CmPending) \<and>
    (\<forall>n \<ge> length (ct_messages st').
       m \<in> set (pg_data (get_messages \<lparr>pq_page = None, pq_limit = Some (Suc n)\<rparr> (Some (cm_status m)) st')))"
proof -
  define a where "a = analyse now (sc_fullName dto) (sc_subject dto) (sc_message dto) ip st"
  define m where "m = \<lparr>cm_id = newId, cm_fullName = sc_fullName dto, cm_email = sc_email dto,
    cm_subject = sc_subject dto, cm_message = sc_message dto, cm_ipAddress = Some ip,
    cm_spamScore = an_score a, cm_spamFlags = an_flags a,
    cm_status = (if is_spam (an_score a) then CmFlagged else CmPending), cm_createdAt = now\<rparr>"
  define st' where "st' = st\<lparr>ct_messages := ct_messages st @ [m]\<rparr>"
  have s: "submit_contact newId now dto ip st = (public_message_of m, st')"
    using assms by (simp add: submit_contact_def Let_def a_def [symmetric] m_def [symmetric] st'_def)
      (simp add: m_def save_row_new)
  have b: "0 \<le> an_score a" "an_score a \<le> 1" by (simp_all add: a_def analyse_def Let_def)
  have "m \<in> set (pg_data (get_messages \<lparr>pq_page = None, pq_limit = Some (Suc n)\<rparr> (Some (cm_status m)) st'))"
    if "length (ct_messages st') \<le> n" for n
  proof -
    let ?rows = "newest_first (filter (\<lambda>x. cm_status x = cm_status m) (ct_messages st'))"
    have "length ?rows \<le> Suc n"
      using order_trans [OF length_filter_le that] by (simp add: newest_first_def le_Suc_eq)
    then show ?thesis by (simp add: get_messages_def paginate_def or_default_def newest_first_def st'_def Let_def)
  qed
  then show ?thesis
    using b s by (intro exI [of _ m] exI [of _ st']) (auto simp: m_def st'_def is_spam_def)
qed

subsection \<open>The keyword table\<close>

definition keywords_ok :: "contact_state \<Rightarrow> bool" where
  "keywords_ok st \<longleftrightarrow> distinct (map sk_id (ct_keywords st)) \<and> distinct (map sk_keyword (ct_keywords st)) \<and>
     (\<forall>k \<in> set (ct_keywords st). js_lower (sk_keyword k) = sk_keyword k)"

lemma delete_rows_distinct: "distinct (map f t) \<Longrightarrow> distinct (map f (delete_rows p t))"
  by (simp add: delete_rows_def distinct_map_filter)

lemma remove_keyword_ok: "keywords_ok st \<Longrightarrow> keywords_ok (remove_keyword i st)"
  by (auto simp: keywords_ok_def remove_keyword_def delete_rows_distinct in_delete_rows)

lemma filter_key_unique: "distinct (map f xs) \<Longrightarrow> x \<in> set xs \<Longrightarrow> filter (\<lambda>y. f y = f x) xs = [x]"
proof (induction xs)
  case (Cons a xs)
  show ?case
  proof (cases "a = x")
    case True
    then have "\<forall>y \<in> set xs. f y \<noteq> f x" using Cons.prems(1) by (metis distinct.simps(2) image_eqI list.simps(9) list.set_map)
    then show ?thesis using True by (simp add: filter_empty_conv)
  next
    case False
    then have "x \<in> set xs" "f a \<noteq> f x" using Cons.prems by auto
    then show ?thesis using Cons by simp
  qed
qed simp

text \<open>Adding a keyword, whether it is new, known or inactive, keeps the keyword table free of
  duplicates and in lower case, and makes exactly one active entry for the keyword, with the given
  weight; every text that contains the keyword in any mixture of cases then carries its flag.\<close>

theorem add_keyword_effective:
  assumes "keywords_ok st" "newId \<notin> sk_id ` set (ct_keywords st)"
    and st': "st' = snd (add_keyword newId now keyword (Some w) st)"
  shows "keywords_ok st' \<and> 
    (\<exists>kw. filter (\<lambda>k. sk_keyword k = js_lower keyword) (ct_keywords st') = [kw] \<and> sk_isActive kw \<and> sk_weight kw = w \<and>
      (\<forall>x y k a. js_lower k = js_lower keyword \<longrightarrow>
         last (an_flags (keyword_hit (js_lower (x @ k @ y)) a kw)) = ''SPAM_KEYWORD:'' @ js_lower keyword))"
proof -
  let ?t = "ct_keywords st"
  define kw where "kw = fst (add_keyword newId now keyword (Some w) st)"
  have tbl: "ct_keywords st' = save_row sk_id kw ?t"
    by (simp add: st' kw_def add_keyword_def Let_def)
  have kw: "sk_keyword kw = js_lower keyword \<and> sk_isActive kw \<and> sk_weight kw = w \<and>
      distinct (map sk_keyword (save_row sk_id kw ?t))"
  proof (cases "find_row (\<lambda>k. sk_keyword k = js_lower keyword) ?t")
    case None
    then have k: "kw = \<lparr>sk_id = newId, sk_keyword = js_lower keyword, sk_weight = w, sk_isActive = True, sk_createdAt = now\<rparr>"
      by (simp add: kw_def add_keyword_def Let_def)
    have "js_lower keyword \<notin> sk_keyword ` set ?t"
      using None by (auto simp: find_row_None_iff)
    then show ?thesis using assms(1,2) by (simp add: k save_row_new keywords_ok_def)
  next
    case (Some e)
    then have k: "kw = e\<lparr>sk_isActive := True, sk_weight := w\<rparr>"
      by (simp add: kw_def add_keyword_def Let_def)
    have e: "e \<in> set ?t" "sk_keyword e = js_lower keyword" using find_row_SomeD [OF Some] by auto
    have u: "x = e" if "x \<in> set ?t" "sk_id x = sk_id e" for x
      using that e(1) assms(1) by (auto simp: keywords_ok_def distinct_map dest: inj_onD)
    have "map sk_keyword (update_rows (\<lambda>x. sk_id x = sk_id kw) (\<lambda>_. kw) ?t) = map sk_keyword ?t"
      using u e by (auto simp: update_rows_def k dest!: u)
    then show ?thesis using assms(1) e by (simp add: k save_row_existing keywords_ok_def)
  qed
  have ok: "keywords_ok st'"
    unfolding keywords_ok_def tbl
    using assms(1) kw save_row_keys_distinct [of sk_id ?t kw] by (auto simp: keywords_ok_def in_save_row)
  have "filter (\<lambda>k. sk_keyword k = sk_keyword kw) (ct_keywords st') = [kw]"
    using ok by (intro filter_key_unique) (simp_all add: keywords_ok_def tbl in_save_row)
  moreover have "last (an_flags (keyword_hit (js_lower (x @ k @ y)) a kw)) = ''SPAM_KEYWORD:'' @ js_lower keyword"
    if "js_lower k = js_lower keyword" for x y k a
  proof -
    have "js_lower (x @ k @ y) = js_lower x @ js_lower (sk_keyword kw) @ js_lower y"
      using that kw by (simp add: js_lower_append)
    then show ?thesis using kw contains_textI [of "js_lower (sk_keyword kw)" "js_lower x" "js_lower y"]
      by (simp add: keyword_hit_def)
  qed
  ultimately show ?thesis using ok kw by (intro conjI exI [of _ kw]) auto
qed

lemma add_keyword_effective_witness:
  "keywords_ok (snd (add_keyword ''k1'' 0 ''Buy Now'' (Some 1) \<lparr>ct_messages = [], ct_keywords = []\<rparr>))"
  using add_keyword_effective [of "\<lparr>ct_messages = [], ct_keywords = []\<rparr>" "''k1''" _ 0 "''Buy Now''" 1]
  by (simp add: keywords_ok_def)

definition sample_contact :: submit_contact_dto where
  "sample_contact = \<lparr>sc_fullName = ''Ada'', sc_email = ''a@b.c'', sc_subject = ''Visit'',
     sc_message = ''I would like to visit.''\<rparr>"

lemma velocity_never_flags_witness:
  "pm_status (fst (submit_contact ''m1'' 0 sample_contact ''10.0.0.1'' \<lparr>ct_messages = [], ct_keywords = []\<rparr>)) = CmPending"
  by (rule velocity_never_flags [OF refl])
     (simp_all add: get_active_keywords_def, code_simp+)

lemma submit_contact_exact_witness:
  "\<exists>m st'. submit_contact ''m1'' 0 sample_contact ''unknown'' \<lparr>ct_messages = [], ct_keywords = []\<rparr> = (public_message_of m, st') \<and>
     length (ct_messages st') = 1"
  using submit_contact_exact [of "''m1''" "\<lparr>ct_messages = [], ct_keywords = []\<rparr>" 0 sample_contact "''unknown''"] by fastforce

end
