(* ===== verification/Dashboard_Shell.thy ===== *)
theory Dashboard_Shell
  imports Client_Session_Correct
begin

text \<open>
  The frame of the dashboard in the browser: the links of the side bar and of the bottom bar
  (frontend/src/components/dashboard/layout/navItems.ts, Sidebar.tsx, BottomNav.tsx), logging out
  from it, the keyboard shortcuts (hooks/useKeyboardShortcuts.ts) with the links of
  components/dashboard/DashboardSidebar.tsx, and the deletion of the account and the switches of
  app/settings/page.tsx. The lemmas: the log-out that ends on the dashboard again, and which key
  goes where.
\<close>

subsection \<open>Links\<close>

record nav_item =
  ni_href :: string
  ni_label :: string
  ni_adminOnly :: bool

definition NAV_ITEMS :: "nav_item list" where
  "NAV_ITEMS = map (\<lambda>(h, l, a). \<lparr>ni_href = h, ni_label = l, ni_adminOnly = a\<rparr>)
     [(''/dashboard'', ''Dashboard'', False), (''/workspaces'', ''Workspaces'', False),
      (''/dashboard/bookings'', ''Bookings'', False), (''/dashboard/attendance'', ''Attendance'', False),
      (''/profile'', ''Profile'', False), (''/settings'', ''Settings'', False), (''/admin'', ''Admin'', True)]"

definition BOTTOM_NAV_ITEMS :: "nav_item list" where
  "BOTTOM_NAV_ITEMS = map (\<lambda>(h, l). \<lparr>ni_href = h, ni_label = l, ni_adminOnly = False\<rparr>)
     [(''/dashboard'', ''Dashboard''), (''/dashboard/bookings'', ''Bookings''),
      (''/dashboard/attendance'', ''Attendance''), (''/settings'', ''Settings'')]"

text \<open>\<open>role\<close> is that of the user in the store, None when there is none.\<close>

definition visible_links :: "string option \<Rightarrow> nav_item list \<Rightarrow> nav_item list" where
  "visible_links role items = filter (\<lambda>n. \<not> (ni_adminOnly n \<and> role \<noteq> Some ''admin'')) items"

definition link_active :: "string \<Rightarrow> string \<Rightarrow> bool" where
  "link_active pathname href \<longleftrightarrow> pathname = href \<or> (href \<noteq> ''/dashboard'' \<and> starts_with href pathname)"

subsection \<open>Leaving\<close>

text \<open>\<open>handleLogout\<close> of the side bar: \<open>clear\<close> is \<open>clearAuth\<close>, which leaves the cookie alone.\<close>

definition handle_logout :: "browser \<Rightarrow> browser" where
  "handle_logout b = (clear_auth b)\<lparr>br_location := Some ''/login''\<rparr>"

text \<open>\<open>handleDeleteAccount\<close>: the message under the form or the toast, and the browser afterwards.\<close>

datatype delete_answer = Nothing_Done | Email_Mismatch | Account_Deleted

definition handle_delete_account :: "string \<Rightarrow> browser \<Rightarrow> delete_answer \<times> browser" where
  "handle_delete_account confirmEmail b =
     (case as_user (br_auth b) of
        None \<Rightarrow> (Nothing_Done, b)
      | Some u \<Rightarrow>
          if \<not> truthy (as_token (br_auth b)) then (Nothing_Done, b)
          else if json_field u ''email'' \<noteq> Some (JStr confirmEmail) then (Email_Mismatch, b)
          else (Account_Deleted, (clear_auth b)\<lparr>br_location := Some ''/''\<rparr>))"

record notification_settings =
  se_emailNewBooking :: bool
  se_emailBookingConfirmed :: bool
  se_emailNewsletter :: bool

datatype setting_key = EmailNewBooking | EmailBookingConfirmed | EmailNewsletter

text \<open>The switches live in local storage only.\<close>

fun handle_notification_change :: "setting_key \<Rightarrow> notification_settings \<Rightarrow> notification_settings" where
  "handle_notification_change EmailNewBooking s = s\<lparr>se_emailNewBooking := \<not> se_emailNewBooking s\<rparr>"
| "handle_notification_change EmailBookingConfirmed s = s\<lparr>se_emailBookingConfirmed := \<not> se_emailBookingConfirmed s\<rparr>"
| "handle_notification_change EmailNewsletter s = s\<lparr>se_emailNewsletter := \<not> se_emailNewsletter s\<rparr>"

subsection \<open>Keyboard shortcuts\<close>

record keyboard_shortcut =
  sc_key :: string
  sc_alt :: bool
  sc_ctrl :: bool
  sc_shift :: bool
  sc_href :: "string option"
  sc_onTrigger :: bool

record keyboard_event =
  ke_key :: string
  ke_alt :: bool
  ke_ctrl :: bool
  ke_shift :: bool
  ke_tagName :: string
  ke_isContentEditable :: bool

datatype shortcut_effect = Prevent_Default | Trigger keyboard_shortcut | Push string

definition shortcut_matches :: "keyboard_event \<Rightarrow> keyboard_shortcut \<Rightarrow> bool" where
  "shortcut_matches e s \<longleftrightarrow> ke_key e = sc_key s \<and>
     (if sc_alt s then ke_alt e else \<not> ke_alt e) \<and> (if sc_ctrl s then ke_ctrl e else \<not> ke_ctrl e) \<and>
     (if sc_shift s then ke_shift e else \<not> ke_shift e)"

fun first_shortcut :: "keyboard_event \<Rightarrow> keyboard_shortcut list \<Rightarrow> shortcut_effect list" where
  "first_shortcut e [] = []"
| "first_shortcut e (s # r) =
     (if shortcut_matches e s
      then Prevent_Default # (if sc_onTrigger s then [Trigger s] else []) @
           (case sc_href s of None \<Rightarrow> [] | Some h \<Rightarrow> if h = [] then [] else [Push h])
      else first_shortcut e r)"

definition shortcut_handler :: "keyboard_shortcut list \<Rightarrow> keyboard_event \<Rightarrow> shortcut_effect list" where
  "shortcut_handler shortcuts e =
     (if ke_tagName e \<in> {''INPUT'', ''TEXTAREA'', ''SELECT''} \<or> ke_isContentEditable e then []
      else first_shortcut e shortcuts)"

definition js_upper_char :: "char \<Rightarrow> char" where
  "js_upper_char c = (if 97 \<le> (of_char c :: nat) \<and> (of_char c :: nat) \<le> 122 then char_of (of_char c - 32 :: nat) else c)"

definition format_shortcut_label :: "keyboard_shortcut \<Rightarrow> string" where \<comment> \<open>of a key in ASCII\<close>
  "format_shortcut_label s =
     (let parts = (if sc_ctrl s then [''Ctrl''] else []) @ (if sc_alt s then [''Alt''] else []) @
            (if sc_shift s then [''Shift''] else []) @ [map js_upper_char (sc_key s)]
      in concat (map (\<lambda>p. p @ ''+'') (butlast parts)) @ last parts)"

text \<open>The links of DashboardSidebar with their keys.\<close>

definition SIDEBAR_NAV :: "(string \<times> string \<times> bool) list" where
  "SIDEBAR_NAV = [(''/dashboard'', ''1'', False), (''/dashboard/workspaces'', ''2'', False),
     (''/dashboard/bookings'', ''3'', False), (''/dashboard/attendance'', ''4'', False),
     (''/dashboard/profile'', ''5'', False), (''/dashboard/settings'', ''6'', True)]"

definition sidebar_shortcuts :: "string option \<Rightarrow> keyboard_shortcut list" where
  "sidebar_shortcuts role =
     map (\<lambda>(href, key, _). \<lparr>sc_key = key, sc_alt = True, sc_ctrl = False, sc_shift = False,
            sc_href = Some href, sc_onTrigger = False\<rparr>)
       (filter (\<lambda>(_, _, adminOnly). \<not> (adminOnly \<and> role \<noteq> Some ''admin'')) SIDEBAR_NAV)"

subsection \<open>What they do\<close>

text \<open>Logging out from the side bar does not log out. The store is cleared, but the cookie keeps the token,
  so the middleware takes the user from the log-in page back to the dashboard, now without a session
  in the store, for as long as the token is valid.\<close>

theorem sidebar_logout_bounces:
  assumes "br_cookie b = Some t" "t \<noteq> []" "middleware now ''/dashboard'' (Some t) = Next"
  shows "br_location (handle_logout b) = Some ''/login'' \<and>
    follow (Suc n) now ''/login'' (br_cookie (handle_logout b)) = Some ''/dashboard'' \<and>
    \<not> as_isAuthenticated (br_auth (handle_logout b)) \<and> bearer_header (handle_logout b) = None"
proof -
  have c: "br_cookie (handle_logout b) = Some t"
    using assms(1) by (simp add: handle_logout_def clear_auth_def set_auth_def)
  have "middleware now ''/login'' (Some t) = Redirect ''/dashboard'' None"
    using assms(2) by (simp add: middleware_def)
  then have "follow (Suc n) now ''/login'' (Some t) = Some ''/dashboard''"
    using assms(3) by (simp add: follow.simps)
  then show ?thesis
    by (simp add: c) (simp add: handle_logout_def clear_auth_def set_auth_def bearer_header_def)
qed

lemma sidebar_logout_bounces_witness:
  "follow 1 0 ''/login'' (br_cookie (handle_logout (set_cookie (jwt ''h'' sample_claim_text ''s'') sample_browser))) =
     Some ''/dashboard''"
proof -
  have c: "br_cookie (set_cookie (jwt ''h'' sample_claim_text ''s'') sample_browser) = Some (jwt ''h'' sample_claim_text ''s'')"
    by code_simp
  have m: "middleware 0 ''/dashboard'' (Some (jwt ''h'' sample_claim_text ''s'')) = Next" by code_simp
  show ?thesis using sidebar_logout_bounces [OF c _ m, of 0] by (simp add: jwt_def)
qed

text \<open>Deleting the account in the settings leaves the token of the session in the cookie, and so the dashboard.\<close>

lemma deleted_account_keeps_session:
  "fst (handle_delete_account e b) = Account_Deleted \<Longrightarrow>
   br_cookie (snd (handle_delete_account e b)) = br_cookie b \<and>
   br_location (snd (handle_delete_account e b)) = Some ''/''"
  by (auto simp: handle_delete_account_def clear_auth_def set_auth_def split: option.splits if_splits)

text \<open>A key goes to a page exactly when it is pressed outside of inputs with Alt alone and is the key of a link
  the user sees; then it goes to that link, and nothing else happens.\<close>

theorem shortcut_exact:
  "shortcut_handler (sidebar_shortcuts role) e =
     (if ke_tagName e \<in> {''INPUT'', ''TEXTAREA'', ''SELECT''} \<or> ke_isContentEditable e \<or>
         \<not> ke_alt e \<or> ke_ctrl e \<or> ke_shift e then []
      else (case find_row (\<lambda>(_, key, adminOnly). key = ke_key e \<and> (adminOnly \<longrightarrow> role = Some ''admin'')) SIDEBAR_NAV of
              None \<Rightarrow> [] | Some (href, _) \<Rightarrow> [Prevent_Default, Push href]))"
  by (simp add: shortcut_handler_def sidebar_shortcuts_def SIDEBAR_NAV_def shortcut_matches_def find_row_def)

text \<open>Each link the side bar shows on a page of its own is active there, and with it only the dashboard.\<close>

lemma bottom_links_active:
  "map (\<lambda>p. map (\<lambda>n. link_active p (ni_href n)) BOTTOM_NAV_ITEMS) (map ni_href BOTTOM_NAV_ITEMS) =
     [[True, False, False, False], [False, True, False, False], [False, False, True, False], [False, False, False, True]]"
  by code_simp

end
