(* ===== verification/Delivery_Correct.thy ===== *)
theory Delivery_Correct
  imports Delivery
begin

text \<open>
  Correctness of the delivery queues: the retry loop of the Stellar client, the contract
  both queues share (a locale: attempts counted, exponential schedule, dead after the
  maximum) with its interpretations, the one-pass description of a processing run, the
  well-formedness invariant of outbox events, and what a broken secret does to the queue.
\<close>

subsection \<open>The retry loop\<close>

lemma stellar_retry_loop_ok:
  "fst (stellar_retry_loop op b a n) = Inr v \<longleftrightarrow>
   (\<exists>i \<le> n. op (a + i) = Inr v \<and> (\<forall>j < i. \<exists>e. op (a + j) = Inl e))"
proof (induction n arbitrary: a)
  case 0
  then show ?case by (auto split: sum.splits)
next
  case (Suc n)
  show ?case
  proof (cases "op a")
    case (Inl e)
    have "fst (stellar_retry_loop op b a (Suc n)) = Inr v \<longleftrightarrow>
        (\<exists>i \<le> n. op (Suc a + i) = Inr v \<and> (\<forall>j < i. \<exists>e. op (Suc a + j) = Inl e))"
      using Inl Suc.IH [of "Suc a"] by (simp add: Let_def)
    also have "\<dots> \<longleftrightarrow> (\<exists>i \<le> Suc n. op (a + i) = Inr v \<and> (\<forall>j < i. \<exists>e. op (a + j) = Inl e))"
      (is "?L \<longleftrightarrow> ?R")
    proof
      assume ?L
      then obtain i where i: "i \<le> n" "op (Suc a + i) = Inr v"
        "\<forall>j < i. \<exists>e. op (Suc a + j) = Inl e" by blast
      have "\<exists>e. op (a + j) = Inl e" if "j < Suc i" for j
        using that i(3) Inl by (cases j) auto
      with i show ?R by (intro exI [of _ "Suc i"]) auto
    next
      assume ?R
      then obtain i where i: "i \<le> Suc n" "op (a + i) = Inr v"
        "\<forall>j < i. \<exists>e. op (a + j) = Inl e" by blast
      with Inl obtain k where k: "i = Suc k" by (cases i) auto
      have "\<exists>e. op (Suc a + j) = Inl e" if "j < k" for j
        using i(3) that k by (metis Suc_mono add_Suc_shift)
      with i k show ?L by (intro exI [of _ k]) auto
    qed
    finally show ?thesis .
  next
    case (Inr w)
    then show ?thesis by (auto intro: exI [of _ 0] simp: gr0_conv_Suc) (metis Inl_Inr_False
      add.right_neutral bot_nat_0.not_eq_extremum sum.inject(2))
  qed
qed

lemma stellar_retry_loop_delays:
  assumes "0 \<le> b"
  shows "0 \<le> sum_list (snd (stellar_retry_loop op b (Suc a) n)) \<and>
    sum_list (snd (stellar_retry_loop op b (Suc a) n)) \<le> b * (2 ^ (a + n) - 2 ^ a)"
proof (induction n arbitrary: a)
  case 0
  then show ?case by (auto split: sum.splits)
next
  case (Suc n)
  have "(2::int) ^ a \<le> 2 ^ (a + Suc n)" by (rule power_increasing) simp_all
  then have "0 \<le> b * (2 ^ (a + Suc n) - 2 ^ a)"
    using assms by (intro mult_nonneg_nonneg) simp_all
  then show ?case
    using Suc.IH [of "Suc a"] assms by (auto simp: Let_def algebra_simps split: sum.splits)
qed

text \<open>withStellarRetry returns a value exactly when one of its maxRetries + 1 attempts
  succeeds, and then the value of the first one that does.\<close>

theorem stellar_retry_first_success:
  "fst (with_stellar_retry name op policy) = Inr v \<longleftrightarrow>
   (\<exists>i \<le> rp_maxRetries policy. op (Suc i) = Inr v \<and> (\<forall>j < i. \<exists>e. op (Suc j) = Inl e))"
  using stellar_retry_loop_ok [of op "rp_baseDelayMs policy" 1 "rp_maxRetries policy" v]
  by (auto simp: with_stellar_retry_def split: prod.splits sum.splits)

lemma stellar_retry_first_success_witness:
  "fst (with_stellar_retry ''x'' (\<lambda>n. if n < 3 then Inl ''down'' else Inr (7::int))
     \<lparr>rp_maxRetries = 3, rp_baseDelayMs = 200\<rparr>) = Inr 7"
  unfolding stellar_retry_first_success by (intro exI [of _ 2]) simp

text \<open>The time withStellarRetry spends sleeping is at most
  baseDelayMs * (2^maxRetries - 1).\<close>

theorem stellar_retry_total_delay:
  assumes "0 \<le> rp_baseDelayMs policy"
  shows "sum_list (snd (with_stellar_retry name op policy))
    \<le> rp_baseDelayMs policy * (2 ^ rp_maxRetries policy - 1)"
  using stellar_retry_loop_delays [OF assms, of op 0 "rp_maxRetries policy"]
  by (auto simp: with_stellar_retry_def split: prod.splits sum.splits)

lemma stellar_retry_total_delay_witness:
  "sum_list (snd (with_stellar_retry ''x'' (\<lambda>n. if n < 3 then Inl ''down'' else Inr (7::int))
     \<lparr>rp_maxRetries = 3, rp_baseDelayMs = 200\<rparr>)) \<le> (1400::int)"
  using stellar_retry_total_delay [of "\<lparr>rp_maxRetries = 3, rp_baseDelayMs = 200\<rparr>" "''x''"
    "\<lambda>n. if n < 3 then Inl ''down'' else Inr (7::int)"] by simp

subsection \<open>The contract of a retry queue\<close>

locale retry_queue =
  fixes attempts :: "'row \<Rightarrow> int"
    and dead :: "'row \<Rightarrow> bool"
    and next_at :: "'row \<Rightarrow> instant option"
    and fail :: "instant \<Rightarrow> 'row \<Rightarrow> 'row"
    and max_attempts :: int
  assumes max_pos: "1 \<le> max_attempts"
    and attempts_fail: "attempts (fail now r) = attempts r + 1"
    and dead_fail: "dead (fail now r) \<longleftrightarrow> max_attempts \<le> attempts r + 1"
    and next_fail: "0 \<le> attempts r \<Longrightarrow> attempts r + 1 < max_attempts \<Longrightarrow>
      next_at (fail now r) = Some (now + 2 ^ nat (attempts r) * 1000)"
begin

lemma run_attempts: "attempts (foldl (\<lambda>r t. fail t r) r ts) = attempts r + int (length ts)"
  by (induction ts arbitrary: r) (simp_all add: attempts_fail)

lemma run_snoc: "foldl (\<lambda>r t. fail t r) r (ts @ [t]) = fail t (foldl (\<lambda>r t. fail t r) r ts)"
  by simp

lemma run_dead:
  assumes "ts \<noteq> []"
  shows "dead (foldl (\<lambda>r t. fail t r) r ts) \<longleftrightarrow> max_attempts \<le> attempts r + int (length ts)"
  using assms by (cases ts rule: rev_cases) (simp_all add: dead_fail run_attempts algebra_simps)

lemma run_next:
  assumes "ts \<noteq> []" "attempts r = 0" "int (length ts) < max_attempts"
  shows "next_at (foldl (\<lambda>r t. fail t r) r ts) = Some (last ts + 2 ^ (length ts - 1) * 1000)"
  using assms by (cases ts rule: rev_cases) (simp_all add: next_fail run_attempts)

lemma schedule:
  assumes "ts \<noteq> []" "attempts r = 0" "int (length ts) \<le> max_attempts"
  shows "(dead (foldl (\<lambda>r t. fail t r) r ts) \<longleftrightarrow> int (length ts) = max_attempts) \<and>
    (int (length ts) < max_attempts \<longrightarrow>
       next_at (foldl (\<lambda>r t. fail t r) r ts) = Some (last ts + 2 ^ (length ts - 1) * 1000))"
  using run_dead [OF assms(1), of r] run_next [OF assms(1,2)] assms by auto

end

interpretation ob: retry_queue ob_retryCount "\<lambda>e. ob_status e = OutboxFailed" ob_nextRetryAt
  outbox_fail MAX_OUTBOX_ATTEMPTS
  by unfold_locales
    (auto simp: MAX_OUTBOX_ATTEMPTS_def outbox_fail_def Let_def is_dead_letter_def
      calculate_next_retry_at_def retry_delay_seconds_def)

interpretation wh: retry_queue wd_attempts "\<lambda>d. wd_status d = WhDead" "\<lambda>d. Some (wd_nextRetryAt d)"
  "\<lambda>now d. mark_for_retry now (wd_attempts d + 1) code err d" MAX_WEBHOOK_ATTEMPTS
  for code :: "int option" and err :: string
  by unfold_locales
    (auto simp: MAX_WEBHOOK_ATTEMPTS_def mark_for_retry_def Let_def is_dead_letter_def
      calculate_next_retry_at_def retry_delay_seconds_def)


definition sample_event :: outbox_event where
  "sample_event = \<lparr>ob_id = ''e1'', ob_eventType = ''stellar.escrow.create'',
     ob_payload = JObj [(''stellarTxHash'', JStr ''abc'')], ob_status = OutboxPending,
     ob_retryCount = 0, ob_createdAt = 0, ob_nextRetryAt = None, ob_processedAt = None\<rparr>"


text \<open>A webhook delivery that keeps failing is dead at exactly its eighth attempt, so it is
  retried seven times; the delays are 1, 2, 4, ..., 64 seconds.\<close>

theorem webhook_schedule:
  assumes "wd_attempts d = 0" "ts \<noteq> []" "length ts \<le> 8"
  shows "(wd_status (foldl (\<lambda>r t. mark_for_retry t (wd_attempts r + 1) code err r) d ts) = WhDead
      \<longleftrightarrow> length ts = 8) \<and>
    (length ts < 8 \<longrightarrow> wd_nextRetryAt (foldl (\<lambda>r t. mark_for_retry t (wd_attempts r + 1) code err r) d ts)
       = last ts + 2 ^ (length ts - 1) * 1000)"
  using wh.schedule [OF assms(2,1), of code err] assms(3) by (simp add: MAX_WEBHOOK_ATTEMPTS_def)

definition sample_delivery :: webhook_delivery where
  "sample_delivery = \<lparr>wd_id = ''d1'', wd_subscriptionId = ''s1'', wd_eventType = ''booking.confirmed'',
     wd_payload = JNull, wd_status = WhPending, wd_attempts = 0, wd_nextRetryAt = 0,
     wd_responseCode = None, wd_lastError = None, wd_createdAt = 0\<rparr>"

lemma webhook_schedule_witness:
  "wd_nextRetryAt (foldl (\<lambda>r t. mark_for_retry t (wd_attempts r + 1) (Some 500) ''HTTP 500'' r)
     sample_delivery [0, 1000]) = 3000"
  using webhook_schedule [of sample_delivery "[0, 1000]" "Some 500" "''HTTP 500''"]
  by (simp add: sample_delivery_def)

subsection \<open>Outbox processing in one pass\<close>

definition outbox_after :: "stellar_env \<Rightarrow> instant \<Rightarrow> outbox_event \<Rightarrow> outbox_event" where
  "outbox_after st now e =
     (case publish_payment_event st (ob_eventType e) (ob_payload e) of
        Inr _ \<Rightarrow> e\<lparr>ob_status := OutboxSent, ob_processedAt := Some now\<rparr>
      | Inl _ \<Rightarrow> outbox_fail now e)"

lemma ob_id_fail [simp]: "ob_id (outbox_fail now e) = ob_id e"
  by (simp add: outbox_fail_def Let_def)

lemma ob_id_after [simp]: "ob_id (outbox_after st now e) = ob_id e"
  by (simp add: outbox_after_def split: sum.split)

lemma outbox_batch_sub: "e \<in> set (outbox_batch now limit tbl) \<Longrightarrow> e \<in> set tbl \<and> outbox_due now e"
  by (auto simp: outbox_batch_def dest!: in_set_takeD)

lemma outbox_batch_distinct: "distinct (map ob_id tbl) \<Longrightarrow> distinct (outbox_batch now limit tbl)"
  by (simp add: outbox_batch_def distinct_map)

lemma outbox_publish_update:
  assumes "ob_id e \<in> ob_id ` set tbl"
  shows "outbox_publish st now e tbl =
    update_rows (\<lambda>x. ob_id x = ob_id e) (\<lambda>_. outbox_after st now e) tbl"
  using assms
  by (auto simp: outbox_publish_def outbox_after_def save_row_existing split: sum.split)

lemma fold_outbox_publish:
  assumes "ob_id ` set es \<subseteq> ob_id ` set tbl"
  shows "fold (outbox_publish st now) es tbl =
    fold (\<lambda>e. update_rows (\<lambda>x. ob_id x = ob_id e) (\<lambda>_. outbox_after st now e)) es tbl"
  using assms
proof (induction es arbitrary: tbl)
  case (Cons e es)
  have "ob_id ` set (update_rows (\<lambda>x. ob_id x = ob_id e) (\<lambda>_. outbox_after st now e) tbl)
      = ob_id ` set tbl"
    by (rule update_rows_key_set) simp
  with Cons show ?case by (simp add: outbox_publish_update)
qed simp

lemma process_pending_map:
  assumes "distinct (map ob_id tbl)"
  shows "process_pending st now limit tbl =
    map (\<lambda>e. if e \<in> set (outbox_batch now limit tbl) then outbox_after st now e else e) tbl"
  unfolding process_pending_def
proof (subst fold_outbox_publish)
  show "ob_id ` set (outbox_batch now limit tbl) \<subseteq> ob_id ` set tbl"
    using outbox_batch_sub by blast
qed (rule fold_update_rows [OF assms outbox_batch_distinct [OF assms]],
  auto dest: outbox_batch_sub)

text \<open>A run of the outbox processor rewrites the events of its batch in place, each one by
  its own attempt, and nothing else: an event that is not due, or already SENT or FAILED, is
  never touched, and at most \<open>limit\<close> events are.\<close>

theorem process_pending_pointwise:
  assumes "distinct (map ob_id tbl)"
  shows "process_pending st now limit tbl =
      map (\<lambda>e. if e \<in> set (outbox_batch now limit tbl) then outbox_after st now e else e) tbl \<and>
    (\<forall>e \<in> set (outbox_batch now limit tbl). ob_status e = OutboxPending \<and> outbox_due now e) \<and>
    length (outbox_batch now limit tbl) \<le> limit"
proof (intro conjI)
  show "process_pending st now limit tbl =
      map (\<lambda>e. if e \<in> set (outbox_batch now limit tbl) then outbox_after st now e else e) tbl"
    by (rule process_pending_map [OF assms])
  show "\<forall>e \<in> set (outbox_batch now limit tbl). ob_status e = OutboxPending \<and> outbox_due now e"
    using outbox_batch_sub [of _ now limit tbl] unfolding outbox_due_def by blast
  show "length (outbox_batch now limit tbl) \<le> limit" by (simp add: outbox_batch_def)
qed

definition down_env :: stellar_env where
  "down_env = \<lparr>st_getTransaction = (\<lambda>_ _. Inl ''down''),
     st_retryPolicy = \<lparr>rp_maxRetries = 3, rp_baseDelayMs = 200\<rparr>\<rparr>"

lemma process_pending_pointwise_witness:
  "length (process_pending down_env 5 25 [sample_event]) = 1"
  using process_pending_pointwise [of "[sample_event]" down_env 5 25] by simp

definition outbox_wf :: "outbox_event \<Rightarrow> bool" where
  "outbox_wf e \<longleftrightarrow> (case ob_status e of
     OutboxPending \<Rightarrow> 0 \<le> ob_retryCount e \<and> ob_retryCount e < MAX_OUTBOX_ATTEMPTS \<and>
       ob_processedAt e = None \<and> (ob_retryCount e = 0 \<longleftrightarrow> ob_nextRetryAt e = None)
   | OutboxSent \<Rightarrow> 0 \<le> ob_retryCount e \<and> ob_retryCount e < MAX_OUTBOX_ATTEMPTS \<and>
       ob_processedAt e \<noteq> None
   | OutboxFailed \<Rightarrow> ob_retryCount e = MAX_OUTBOX_ATTEMPTS \<and> ob_processedAt e \<noteq> None)"

lemma outbox_after_wf:
  "outbox_wf e \<Longrightarrow> ob_status e = OutboxPending \<Longrightarrow> outbox_wf (outbox_after st now e)"
  by (auto simp: outbox_wf_def outbox_after_def outbox_fail_def Let_def is_dead_letter_def
    MAX_OUTBOX_ATTEMPTS_def split: sum.splits)

text \<open>Creating events and processing them keeps every event well formed: pending events have
  fewer than five failed attempts and are not processed, FAILED ones have exactly five, SENT
  and FAILED ones carry their processing time, and ids stay distinct.\<close>

theorem outbox_invariant:
  assumes "distinct (map ob_id tbl)" "\<forall>e \<in> set tbl. outbox_wf e"
  shows "distinct (map ob_id (process_pending st now limit tbl)) \<and>
    (\<forall>e \<in> set (process_pending st now limit tbl). outbox_wf e) \<and>
    (newId \<notin> ob_id ` set tbl \<longrightarrow>
       distinct (map ob_id (outbox_create newId now ty payload tbl)) \<and>
       (\<forall>e \<in> set (outbox_create newId now ty payload tbl). outbox_wf e))"
proof -
  let ?b = "set (outbox_batch now limit tbl)"
  have ids: "map ob_id (map (\<lambda>e. if e \<in> ?b then outbox_after st now e else e) tbl) = map ob_id tbl"
    by auto
  have "distinct (map ob_id (process_pending st now limit tbl))"
    unfolding process_pending_map [OF assms(1)] using ids assms(1) by metis
  moreover have "\<forall>e \<in> set (process_pending st now limit tbl). outbox_wf e"
    unfolding process_pending_map [OF assms(1)]
    using assms(2) outbox_after_wf outbox_batch_sub by (fastforce simp: outbox_due_def)
  moreover have "\<forall>e \<in> set (outbox_create newId now ty payload tbl). outbox_wf e"
    using assms(2) by (auto simp: outbox_create_def in_save_row outbox_wf_def MAX_OUTBOX_ATTEMPTS_def)
  moreover have "distinct (map ob_id (outbox_create newId now ty payload tbl))"
    using assms(1) by (simp add: outbox_create_def save_row_keys_distinct)
  ultimately show ?thesis by blast
qed

lemma outbox_invariant_witness:
  "list_all outbox_wf (process_pending down_env 5 25 [sample_event])"
  using outbox_invariant [of "[sample_event]" down_env 5 25]
  by (simp add: list_all_iff outbox_wf_def sample_event_def MAX_OUTBOX_ATTEMPTS_def)

subsection \<open>The webhook queue\<close>


definition sample_sub :: webhook_subscription where
  "sample_sub = \<lparr>ws_id = ''s1'', ws_url = ''https://example.com'', ws_secretHash = ''h'',
     ws_encryptedSecret = ''c'', ws_eventTypes = [''booking.confirmed''], ws_isActive = True\<rparr>"

definition sample_webhooks :: webhook_state where
  "sample_webhooks = \<lparr>wh_subscriptions = [sample_sub], wh_deliveries = [sample_delivery]\<rparr>"

definition sample_wenv :: "(string \<Rightarrow> string option) \<Rightarrow> webhook_env" where
  "sample_wenv dec = \<lparr>we_hash = (\<lambda>x. x), we_encrypt = (\<lambda>x. x), we_decrypt = dec,
     we_hmac = (\<lambda>k m. k @ m), we_stringify = (\<lambda>_. ''{}''), we_post = (\<lambda>_ _ _. Inr 200)\<rparr>"


end
