(* ===== verification/Email_Delivery.thy ===== *)
theory Email_Delivery
  imports Cache_Store
begin

text \<open>
  Sending mail: the circuit breaker in Redis (backend/src/email/smtp-circuit-breaker.ts), the retry
  decorator (smtp-retry.decorator.ts) and the sending method it decorates (email.service.ts). The
  transport is a parameter: the outcome of its n-th call. Time is part of the state, a pause moves
  it; the increment of the failure counter and the renewal of its life time are one step on the
  store. The theorems: the retries never happen, and a circuit that is used stays open.
\<close>

subsection \<open>The circuit breaker\<close>

definition failure_threshold :: nat where "failure_threshold = 5"
definition reset_timeout :: int where "reset_timeout = 30 * 60 * 1000"
definition breaker_key :: string where "breaker_key = ''smtp:circuit-breaker''"
definition failures_key :: string where "failures_key = breaker_key @ '':failures''"

definition record_success :: "cache \<Rightarrow> cache" where
  "record_success c = cache_del breaker_key c"

definition failure_count :: "instant \<Rightarrow> cache \<Rightarrow> nat" where
  "failure_count now c = (case cache_get now failures_key c of Some (CText s) \<Rightarrow> nat_of_string s | _ \<Rightarrow> 0)"

definition record_failure :: "instant \<Rightarrow> cache \<Rightarrow> cache" where
  "record_failure now c =
     (let failures = failure_count now c + 1;
          c1 = cache_set now failures_key (CText (nat_string failures)) (60 * 1000) c
      in if failures \<ge> failure_threshold
         then cache_set now breaker_key (CText ''OPEN'') (reset_timeout div 1000 * 1000) c1
         else c1)"

datatype breaker_state = CLOSED | OPEN

definition get_state :: "instant \<Rightarrow> cache \<Rightarrow> breaker_state" where
  "get_state now c = (if cache_get now breaker_key c = Some (CText ''OPEN'') then OPEN else CLOSED)"

definition is_open :: "instant \<Rightarrow> cache \<Rightarrow> bool" where
  "is_open now c \<longleftrightarrow> get_state now c = OPEN"

subsection \<open>The retry decorator\<close>

record mail_error =
  me_message :: string
  me_responseCode :: "int option"
  me_code :: "string option"

definition is_retryable_error :: "mail_error \<Rightarrow> bool" where
  "is_retryable_error e \<longleftrightarrow>
     (\<exists>c \<in> set_option (me_responseCode e). c \<in> {421, 450, 451, 452}) \<or>
     (\<exists>c \<in> set_option (me_code e). c \<in> {''ECONNREFUSED'', ''ETIMEDOUT'', ''EHOSTUNREACH''})"

definition backoff_delay :: "int list \<Rightarrow> nat \<Rightarrow> int" where \<comment> \<open>a missing or zero delay falls back to the last\<close>
  "backoff_delay backoffMs attempt =
     (if attempt - 1 < length backoffMs \<and> backoffMs ! (attempt - 1) \<noteq> 0
      then backoffMs ! (attempt - 1) else last backoffMs)"

text \<open>The attempts from number \<open>attempt\<close> on, \<open>left\<close> of them; \<open>sleep\<close> is the pause.\<close>

fun retry_attempts ::
  "('s \<Rightarrow> (mail_error + 'a) \<times> 's) \<Rightarrow> (int \<Rightarrow> 's \<Rightarrow> 's) \<Rightarrow> int list \<Rightarrow> nat \<Rightarrow> nat \<Rightarrow> 's \<Rightarrow> (mail_error + 'a) \<times> 's" where
  "retry_attempts body sleep backoffMs attempt left s =
     (case body s of
        (Inr r, s1) \<Rightarrow> (Inr r, s1)
      | (Inl e, s1) \<Rightarrow>
          if \<not> is_retryable_error e then (Inl e, s1)
          else (case left of
                  Suc (Suc k) \<Rightarrow> retry_attempts body sleep backoffMs (attempt + 1) (Suc k)
                                   (sleep (backoff_delay backoffMs attempt) s1)
                | _ \<Rightarrow> (Inl e, s1)))"

declare retry_attempts.simps [simp del]

definition with_retry ::
  "nat \<Rightarrow> int list \<Rightarrow> (int \<Rightarrow> 's \<Rightarrow> 's) \<Rightarrow> ('s \<Rightarrow> (mail_error + 'a) \<times> 's) \<Rightarrow> 's \<Rightarrow> (mail_error + 'a) \<times> 's" where
  "with_retry maxAttempts backoffMs sleep body = retry_attempts body sleep backoffMs 1 maxAttempts"

subsection \<open>EmailService\<close>

record mail_state =
  ms_now :: instant
  ms_redis :: cache
  ms_calls :: "(string \<times> string) list" \<comment> \<open>recipient and template of each transport call\<close>

type_synonym transport = "nat \<Rightarrow> mail_error option"

definition internal_error :: "string \<Rightarrow> mail_error" where
  "internal_error msg = \<lparr>me_message = msg, me_responseCode = None, me_code = None\<rparr>"

definition failed :: "mail_error \<Rightarrow> mail_state \<Rightarrow> (mail_error + unit) \<times> mail_state" where
  "failed e s = (Inl e, s\<lparr>ms_redis := record_failure (ms_now s) (ms_redis s)\<rparr>)"

text \<open>\<open>sendTemplate\<close> without its decorator; \<open>hasContext\<close>: the context is truthy. Every error
  leaves as an InternalServerErrorException that carries the message only.\<close>

definition send_template_once ::
  "transport \<Rightarrow> string \<Rightarrow> string \<Rightarrow> bool \<Rightarrow> mail_state \<Rightarrow> (mail_error + unit) \<times> mail_state" where
  "send_template_once transport recipient template hasContext s =
     (if \<not> hasContext
      then failed (internal_error (''Missing context for email template: '' @ template)) s
      else if is_open (ms_now s) (ms_redis s)
      then failed (internal_error (''Failed to send email: Circuit breaker open - fallback not configured'')) s
      else (let s1 = s\<lparr>ms_calls := ms_calls s @ [(recipient, template)]\<rparr> in
            case transport (length (ms_calls s)) of
              None \<Rightarrow> (Inr (), s1\<lparr>ms_redis := record_success (ms_redis s1)\<rparr>)
            | Some e \<Rightarrow> failed (internal_error (''Failed to send email: '' @ me_message e)) s1))"

definition pause :: "int \<Rightarrow> mail_state \<Rightarrow> mail_state" where
  "pause ms s = s\<lparr>ms_now := ms_now s + ms\<rparr>"

definition send_template ::
  "transport \<Rightarrow> string \<Rightarrow> string \<Rightarrow> bool \<Rightarrow> mail_state \<Rightarrow> (mail_error + unit) \<times> mail_state" where
  "send_template transport recipient template hasContext =
     with_retry 3 [2 * 60 * 1000, 4 * 60 * 1000, 8 * 60 * 1000] pause
       (send_template_once transport recipient template hasContext)"

definition send_verification_otp ::
  "transport \<Rightarrow> string \<Rightarrow> string \<Rightarrow> mail_state \<Rightarrow> (mail_error + unit) \<times> mail_state" where
  "send_verification_otp transport email otp s =
     (if otp = [] then (Inl (internal_error ''Missing required variable: otp''), s)
      else send_template transport email ''otp-verification'' True s)"

definition send_password_reset_otp ::
  "transport \<Rightarrow> string \<Rightarrow> string \<Rightarrow> mail_state \<Rightarrow> (mail_error + unit) \<times> mail_state" where
  "send_password_reset_otp transport email otp s =
     (if otp = [] then (Inl (internal_error ''Missing required variable: otp''), s)
      else send_template transport email ''password-reset'' True s)"

definition send_verification_link ::
  "transport \<Rightarrow> string \<Rightarrow> string \<Rightarrow> mail_state \<Rightarrow> (mail_error + unit) \<times> mail_state" where
  "send_verification_link transport email link s =
     (if link = [] then (Inl (internal_error ''Missing required variable: link''), s)
      else send_template transport email ''welcome'' True s)"

definition send_password_reset_success ::
  "transport \<Rightarrow> string \<Rightarrow> mail_state \<Rightarrow> (mail_error + unit) \<times> mail_state" where
  "send_password_reset_success transport email = send_template transport email ''welcome'' True"

definition send_contact_confirmation ::
  "transport \<Rightarrow> string \<Rightarrow> string \<Rightarrow> mail_state \<Rightarrow> (mail_error + unit) \<times> mail_state" where
  "send_contact_confirmation transport email name s =
     (if name = [] then (Inl (internal_error ''Missing required variable: name''), s)
      else send_template transport email ''welcome'' True s)"

definition send_contact_notification ::
  "transport \<Rightarrow> string \<Rightarrow> string \<Rightarrow> string \<Rightarrow> mail_state \<Rightarrow> (mail_error + unit) \<times> mail_state" where
  "send_contact_notification transport adminEmail name message s =
     (if name = [] \<or> message = [] then (Inl (internal_error ''Missing required variables''), s)
      else send_template transport adminEmail ''welcome'' True s)"

definition send_newsletter_confirmation ::
  "transport \<Rightarrow> string \<Rightarrow> mail_state \<Rightarrow> (mail_error + unit) \<times> mail_state" where
  "send_newsletter_confirmation transport email = send_template transport email ''welcome'' True"

definition send_newsletter_confirmed ::
  "transport \<Rightarrow> string \<Rightarrow> mail_state \<Rightarrow> (mail_error + unit) \<times> mail_state" where
  "send_newsletter_confirmed transport email = send_template transport email ''welcome'' True"

definition send_newsletter_unsubscribed ::
  "transport \<Rightarrow> string \<Rightarrow> mail_state \<Rightarrow> (mail_error + unit) \<times> mail_state" where
  "send_newsletter_unsubscribed transport email = send_template transport email ''welcome'' True"

text \<open>The details of these are optional values; the texts of the mails are left out.\<close>

definition send_booking_confirmation ::
  "transport \<Rightarrow> string \<Rightarrow> 'a option \<Rightarrow> mail_state \<Rightarrow> (mail_error + unit) \<times> mail_state" where
  "send_booking_confirmation transport email bookingDetails s =
     (if bookingDetails = None then (Inl (internal_error ''Missing required variable: bookingDetails''), s)
      else send_template transport email ''booking-confirmation'' True s)"

definition send_workspace_booking_cancelled ::
  "transport \<Rightarrow> string \<Rightarrow> 'a option \<Rightarrow> mail_state \<Rightarrow> (mail_error + unit) \<times> mail_state" where
  "send_workspace_booking_cancelled transport email bookingDetails s =
     (if bookingDetails = None then (Inl (internal_error ''Missing required variable: bookingDetails''), s)
      else send_template transport email ''welcome'' True s)"

definition send_attendance_auto_completed ::
  "transport \<Rightarrow> string \<Rightarrow> 'a option \<Rightarrow> mail_state \<Rightarrow> (mail_error + unit) \<times> mail_state" where
  "send_attendance_auto_completed transport email details s =
     (if details = None then (Inl (internal_error ''Missing required variable: details''), s)
      else send_template transport email ''welcome'' True s)"

subsection \<open>What the decorator is worth\<close>

text \<open>The decorator on any body: a retryable error is tried again, at most \<open>left\<close> times in all.\<close>

lemma retry_once:
  "(\<And>e s1. body s = (Inl e, s1) \<Longrightarrow> \<not> is_retryable_error e) \<Longrightarrow>
   retry_attempts body sleep bs a left s = body s"
  by (auto simp: retry_attempts.simps [of body sleep bs a left s] split: prod.split sum.split)

lemma internal_error_final: "\<not> is_retryable_error (internal_error msg)"
  by (simp add: is_retryable_error_def internal_error_def)

lemma send_once_error: "send_template_once tr r t h s = (Inl e, s1) \<Longrightarrow> \<exists>msg. e = internal_error msg"
  by (auto simp: send_template_once_def failed_def Let_def split: if_splits option.splits)

lemma send_template_eq: "send_template transport recipient template hasContext s =
    send_template_once transport recipient template hasContext s"
  unfolding send_template_def with_retry_def
  by (rule retry_once) (use send_once_error internal_error_final in blast)

text \<open>The retries of the mail service never happen: \<open>sendTemplate\<close> with its decorator does
  exactly what its body does once, for every transport, also one that reports a transient SMTP code
  or a refused connection. The body turns each error into an exception without code before the
  decorator sees it.\<close>

theorem mail_is_never_retried:
  "send_template transport recipient template hasContext s =
     send_template_once transport recipient template hasContext s"
  by (rule send_template_eq)

subsection \<open>The circuit\<close>

lemma keys_differ [simp]: "breaker_key \<noteq> failures_key" "failures_key \<noteq> breaker_key"
  by (simp_all add: failures_key_def)

lemma failure_count_record:
  "t < now + 60000 \<Longrightarrow> failure_count t (record_failure now c) = failure_count now c + 1"
  by (simp add: failure_count_def record_failure_def Let_def kv.get_put)

lemma is_open_record:
  assumes "4 \<le> failure_count now c" "t < now + reset_timeout"
  shows "is_open t (record_failure now c)"
proof -
  have "failure_threshold \<le> failure_count now c + 1" using assms(1) by (simp add: failure_threshold_def)
  then show ?thesis
    using assms(2) by (simp add: is_open_def get_state_def record_failure_def Let_def kv.get_put reset_timeout_def)
qed

text \<open>A success clears the circuit but not the counter.\<close>

lemma success_keeps_counter: "failure_count t (record_success c) = failure_count t c"
  by (simp add: failure_count_def record_success_def kv.get_del_if)

definition open_and_busy :: "mail_state \<Rightarrow> bool" where
  "open_and_busy s \<longleftrightarrow> (\<forall>t. ms_now s \<le> t \<and> t < ms_now s + 60000 \<longrightarrow>
     is_open t (ms_redis s) \<and> 4 \<le> failure_count t (ms_redis s))"

text \<open>A mail every \<open>g\<close> milliseconds, for the gaps of a list.\<close>

fun mail_traffic :: "transport \<Rightarrow> string \<Rightarrow> string \<Rightarrow> int list \<Rightarrow> mail_state \<Rightarrow> mail_state" where
  "mail_traffic transport recipient template [] s = s"
| "mail_traffic transport recipient template (g # gs) s =
     mail_traffic transport recipient template gs
       (snd (send_template transport recipient template True (pause g s)))"

lemma refused_send:
  assumes "open_and_busy s" "0 \<le> g" "g < 60000"
  shows "open_and_busy (snd (send_template tr r t True (pause g s)))"
    "ms_calls (snd (send_template tr r t True (pause g s))) = ms_calls s"
proof -
  have o: "is_open (ms_now (pause g s)) (ms_redis (pause g s))"
    "4 \<le> failure_count (ms_now (pause g s)) (ms_redis (pause g s))"
    using assms by (simp_all add: open_and_busy_def pause_def)
  have e: "snd (send_template tr r t True (pause g s)) =
      (pause g s)\<lparr>ms_redis := record_failure (ms_now (pause g s)) (ms_redis (pause g s))\<rparr>"
    using o by (simp add: send_template_eq send_template_once_def failed_def)
  show "ms_calls (snd (send_template tr r t True (pause g s))) = ms_calls s"
    unfolding e by (simp add: pause_def)
  show "open_and_busy (snd (send_template tr r t True (pause g s)))"
    unfolding e open_and_busy_def
    using o(2) is_open_record [OF o(2)] failure_count_record
    by (auto simp: reset_timeout_def)
qed

text \<open>An open circuit that is used never closes. As long as a mail is due at least once a minute, every
  one is refused without a call to the transport, however long this goes on and however healthy
  the server has become: each refusal counts as a failure and renews the thirty minutes.\<close>

theorem busy_circuit_never_closes:
  assumes "open_and_busy s" "\<forall>g \<in> set gs. 0 \<le> g \<and> g < 60000"
  shows "ms_calls (mail_traffic transport recipient template gs s) = ms_calls s \<and>
    is_open (ms_now (mail_traffic transport recipient template gs s))
      (ms_redis (mail_traffic transport recipient template gs s))"
  using assms
proof (induction gs arbitrary: s)
  case Nil
  then show ?case by (simp add: open_and_busy_def)
next
  case (Cons g gs)
  then show ?case using refused_send [of s g transport recipient template] by simp
qed

lemma five_failures:
  assumes "s = \<lparr>ms_now = 0, ms_redis = (record_failure 0 ^^ 5) [], ms_calls = []\<rparr>"
  shows "open_and_busy s"
proof -
  have n: "4 \<le> failure_count 0 ((record_failure 0 ^^ 4) [])"
    by (simp add: eval_nat_numeral failure_count_record)
  have five: "(record_failure 0 ^^ 5) [] = record_failure 0 ((record_failure 0 ^^ 4) [])"
    by (simp add: eval_nat_numeral)
  show ?thesis
    unfolding assms open_and_busy_def five
    using is_open_record [OF n] failure_count_record [of _ 0 "(record_failure 0 ^^ 4) []"] n
    by (auto simp: reset_timeout_def)
qed

lemma busy_circuit_never_closes_witness:
  "ms_calls (mail_traffic (\<lambda>_. None) ''a@b.c'' ''welcome'' (replicate 100 30000)
     \<lparr>ms_now = 0, ms_redis = (record_failure 0 ^^ 5) [], ms_calls = []\<rparr>) = []"
  using busy_circuit_never_closes [OF five_failures [OF refl], of "replicate 100 30000" "\<lambda>_. None" "''a@b.c''" "''welcome''"]
  by simp

end
