(* ===== verification/Error_Responses.thy ===== *)
theory Error_Responses
  imports Js_Strings JsTime
begin

text \<open>
  Errors on their way to the user: the exception filter of the server
  (backend/src/utils/error.ts, the one main.ts installs), the message the browser client takes out
  of a failed request (getApiErrorMessage of frontend/src/lib/apiClient.ts) and the classification
  of frontend/src/lib/hooks/useErrorHandler.ts. The log lines of the filter are left out.
\<close>

subsection \<open>The filter\<close>

text \<open>What a handler may throw: an HttpException with its status, response, message, class and whether
  it is a BadRequestException; a failed query; an ApiError; another error with its message and
  class; anything else.\<close>

datatype thrown =
    Http_Exception int json string string bool
  | Query_Failed string
  | Api_Error int string "string option" "json list"
  | Other_Error string string
  | Not_An_Error json

definition first_value :: "json \<Rightarrow> json option" where \<comment> \<open>\<open>Object.values(x)[0]\<close>\<close>
  "first_value j = (case j of JObj ((_, v) # _) \<Rightarrow> Some v | JArr (v # _) \<Rightarrow> Some v
     | JStr (c # _) \<Rightarrow> Some (JStr [c]) | _ \<Rightarrow> None)"

definition validation_detail :: "json \<Rightarrow> json" where
  "validation_detail msg =
     JObj ((''field'', (if json_truthy (json_field msg ''property'') then the (json_field msg ''property'') else JStr ''unknown'')) #
       (case (if json_truthy (json_field msg ''constraints'') then first_value (the (json_field msg ''constraints'')) else Some msg) of
          Some m \<Rightarrow> [(''message'', m)] | None \<Rightarrow> []))"

record normal_error =
  ne_statusCode :: int
  ne_error :: json
  ne_message :: json
  ne_details :: "json list"

definition or_json :: "json option \<Rightarrow> json \<Rightarrow> json" where \<comment> \<open>\<open>x || d\<close>\<close>
  "or_json x d = (if json_truthy x then the x else d)"

definition normalize_error :: "thrown \<Rightarrow> normal_error" where
  "normalize_error e =
     (case e of
        Http_Exception status response message className isBadRequest \<Rightarrow>
          (case response of
             JStr s \<Rightarrow> \<lparr>ne_statusCode = status, ne_error = JStr className, ne_message = JStr s, ne_details = []\<rparr>
           | JObj _ \<Rightarrow>
             \<lparr>ne_statusCode = status,
              ne_error = or_json (json_field response ''error'') (JStr className),
              ne_message = or_json (json_field response ''message'') (JStr message),
              ne_details = (case json_field response ''message'' of
                 Some (JArr msgs) \<Rightarrow> if isBadRequest then map validation_detail msgs else []
               | _ \<Rightarrow> [])\<rparr>
           | JArr _ \<Rightarrow> \<lparr>ne_statusCode = status, ne_error = JStr className, ne_message = JStr message, ne_details = []\<rparr>
           | _ \<Rightarrow> \<lparr>ne_statusCode = status, ne_error = JStr className, ne_message = JStr message, ne_details = []\<rparr>)
      | Query_Failed message \<Rightarrow>
          \<lparr>ne_statusCode = 400, ne_error = JStr ''QueryFailedError'', ne_message = JStr ''Database query failed'', ne_details = []\<rparr>
      | Api_Error status message err details \<Rightarrow>
          \<lparr>ne_statusCode = status, ne_error = JStr (if truthy err then the err else ''ApiError''),
           ne_message = JStr message, ne_details = details\<rparr>
      | Other_Error message className \<Rightarrow>
          \<lparr>ne_statusCode = 500, ne_error = JStr className, ne_message = JStr ''Internal server error'', ne_details = []\<rparr>
      | Not_An_Error j \<Rightarrow>
          \<lparr>ne_statusCode = 500, ne_error = JStr ''InternalServerError'', ne_message = JStr ''Internal server error'',
           ne_details = []\<rparr>)"

definition error_body :: "instant \<Rightarrow> string option \<Rightarrow> normal_error \<Rightarrow> json" where
  "error_body now requestId e =
     JObj ([(''success'', JBool False), (''statusCode'', JNum (of_int (ne_statusCode e))), (''error'', ne_error e),
            (''message'', ne_message e), (''timestamp'', JStr (to_iso now))] @
           (case requestId of Some i \<Rightarrow> [(''requestId'', JStr i)] | None \<Rightarrow> []) @
           (if ne_statusCode e < 500 \<and> ne_details e \<noteq> [] then [(''details'', JArr (ne_details e))] else []))"

definition catch_exception :: "instant \<Rightarrow> string option \<Rightarrow> thrown \<Rightarrow> int \<times> json" where
  "catch_exception now requestId e = (ne_statusCode (normalize_error e), error_body now requestId (normalize_error e))"

subsection \<open>The browser\<close>

text \<open>What the browser catches: a failed request with its message and, when there was one, the status
  and the body of the response; an Error with its message and, for those of zod, its issues; an
  object; a text; anything else.\<close>

datatype caught =
    Axios_Error string "(int \<times> json) option"
  | Js_Error string "json option"
  | Js_Object "(string \<times> json) list"
  | Js_Text string
  | Js_Other

definition SOMETHING_WRONG :: string where "SOMETHING_WRONG = ''Something went wrong. Please try again.''"

definition get_api_error_message :: "caught \<Rightarrow> string \<Rightarrow> json" where
  "get_api_error_message e fallback =
     (let own = (case e of Axios_Error m _ \<Rightarrow> m | Js_Error m _ \<Rightarrow> m | _ \<Rightarrow> []);
          rest = (if own \<noteq> [] then JStr own else JStr fallback)
      in case e of
           Axios_Error _ (Some (_, data)) \<Rightarrow>
             if json_truthy (json_field data ''message'') then the (json_field data ''message'') else rest
         | _ \<Rightarrow> rest)"

datatype error_type = TApi | TAxios | TNetwork | TValidation | TUnknown

record error_details =
  ed_message :: json
  ed_statusCode :: "json option"
  ed_type :: error_type

definition status_message :: "int \<Rightarrow> string option" where
  "status_message status = map_of
     [(400, ''Invalid request. Please check your input and try again.''),
      (401, ''Authentication required. Please sign in.''),
      (403, ''Access denied. You don'' @ [CHR 0x27] @ ''t have permission to perform this action.''),
      (404, ''The requested resource was not found.''),
      (409, ''Conflict. The resource already exists or is in use.''),
      (422, ''Validation error. Please check your input.''),
      (429, ''Too many requests. Please wait a moment and try again.''),
      (500, ''Server error. Please try again later.''),
      (502, ''Service temporarily unavailable. Please try again later.''),
      (503, ''Service temporarily unavailable. Please try again later.'')] status"

definition first_issue_message :: "json \<Rightarrow> json" where
  "first_issue_message issues =
     (case issues of
        JArr (i # _) \<Rightarrow> or_json (json_field i ''message'') (JStr ''Validation error'')
      | _ \<Rightarrow> JStr ''Validation error'')"

definition handle_error :: "caught \<Rightarrow> error_details" where
  "handle_error e =
     (case e of
        Axios_Error m None \<Rightarrow>
          \<lparr>ed_message = JStr ''Network error. Please check your connection and try again.'', ed_statusCode = None,
           ed_type = TNetwork\<rparr>
      | Axios_Error m (Some (status, data)) \<Rightarrow>
          if json_truthy (json_field data ''message'')
          then \<lparr>ed_message = the (json_field data ''message''), ed_statusCode = Some (JNum (of_int status)), ed_type = TApi\<rparr>
          else \<lparr>ed_message = JStr (if status \<noteq> 0
                    then (case status_message status of Some t \<Rightarrow> t
                          | None \<Rightarrow> ''Request failed with status '' @ int_string status)
                    else ''Request failed''),
                ed_statusCode = Some (JNum (of_int status)), ed_type = TAxios\<rparr>
      | Js_Error m _ \<Rightarrow> \<lparr>ed_message = JStr m, ed_statusCode = None, ed_type = TApi\<rparr>
      | Js_Object fs \<Rightarrow>
          (case map_of fs ''message'' of
             Some m \<Rightarrow> \<lparr>ed_message = m, ed_statusCode = map_of fs ''statusCode'', ed_type = TApi\<rparr>
           | None \<Rightarrow>
             (case map_of fs ''issues'' of
                Some issues \<Rightarrow> \<lparr>ed_message = first_issue_message issues, ed_statusCode = None, ed_type = TValidation\<rparr>
              | None \<Rightarrow> \<lparr>ed_message = JStr ''An unexpected error occurred. Please try again.'', ed_statusCode = None,
                         ed_type = TUnknown\<rparr>))
      | Js_Text t \<Rightarrow> \<lparr>ed_message = JStr t, ed_statusCode = None, ed_type = TUnknown\<rparr>
      | Js_Other \<Rightarrow> \<lparr>ed_message = JStr ''An unexpected error occurred. Please try again.'', ed_statusCode = None,
                      ed_type = TUnknown\<rparr>)"

definition is_network_error :: "caught \<Rightarrow> bool" where "is_network_error e \<longleftrightarrow> ed_type (handle_error e) = TNetwork"

definition is_auth_error :: "caught \<Rightarrow> bool" where
  "is_auth_error e \<longleftrightarrow> ed_statusCode (handle_error e) \<in> {Some (JNum 401), Some (JNum 403)}"

definition is_validation_error :: "caught \<Rightarrow> bool" where
  "is_validation_error e \<longleftrightarrow> ed_type (handle_error e) = TValidation \<or> ed_statusCode (handle_error e) = Some (JNum 422)"

subsection \<open>From the server to the user\<close>

text \<open>A failed request the browser sees for what a handler threw.\<close>

definition failed_request :: "instant \<Rightarrow> string option \<Rightarrow> string \<Rightarrow> thrown \<Rightarrow> caught" where
  "failed_request now requestId m e = Axios_Error m (Some (catch_exception now requestId e))"

lemma body_message: "json_field (error_body now i e) ''message'' = Some (ne_message e)"
  by (simp add: error_body_def)

lemma message_shown:
  "json_truthy (Some (ne_message (normalize_error e))) \<Longrightarrow>
   get_api_error_message (failed_request now i m e) fallback = ne_message (normalize_error e) \<and>
   handle_error (failed_request now i m e) =
     \<lparr>ed_message = ne_message (normalize_error e), ed_statusCode = Some (JNum (of_int (ne_statusCode (normalize_error e)))),
      ed_type = TApi\<rparr>"
  by (simp add: failed_request_def catch_exception_def get_api_error_message_def handle_error_def body_message)

text \<open>What a user is told of a failure. The text a service rejects a request with reaches the user
  unchanged; of a failed query and of an unforeseen error only a fixed sentence does, whatever their
  own messages say; a request that never was answered counts as a network error; and an error of a
  form check is never recognised as one, because every Error has a message and is taken for an
  answer of the server first.\<close>

theorem errors_told:
  "(if s = [] then True
    else get_api_error_message (failed_request now i m (Http_Exception status (JStr s) msg cls bad)) fallback = JStr s) \<and>
   get_api_error_message (failed_request now i m (Query_Failed secret)) fallback = JStr ''Database query failed'' \<and>
   get_api_error_message (failed_request now i m (Other_Error secret cls)) fallback = JStr ''Internal server error'' \<and>
   json_field (snd (catch_exception now i (Other_Error secret cls))) ''details'' = None \<and>
   is_network_error (Axios_Error m response) = (response = None) \<and>
   is_validation_error (Js_Error text issues) = False"
proof -
  have "get_api_error_message (failed_request now i m (Http_Exception status (JStr s) msg cls bad)) fallback = JStr s"
    if "s \<noteq> []"
    using that message_shown [of "Http_Exception status (JStr s) msg cls bad"]
    by (simp add: normalize_error_def json_truthy_def)
  moreover have "get_api_error_message (failed_request now i m (Query_Failed secret)) fallback = JStr ''Database query failed''"
    using message_shown [of "Query_Failed secret"] by (simp add: normalize_error_def json_truthy_def)
  moreover have "get_api_error_message (failed_request now i m (Other_Error secret cls)) fallback = JStr ''Internal server error''"
    using message_shown [of "Other_Error secret cls"] by (simp add: normalize_error_def json_truthy_def)
  moreover have "json_field (snd (catch_exception now i (Other_Error secret cls))) ''details'' = None"
    by (cases i) (simp_all add: catch_exception_def error_body_def normalize_error_def)
  moreover have "is_network_error (Axios_Error m response) = (response = None)"
    by (auto simp: is_network_error_def handle_error_def split: option.splits)
  moreover have "is_validation_error (Js_Error text issues) = False"
    by (simp add: is_validation_error_def handle_error_def)
  ultimately show ?thesis by simp
qed

end
