(* ===== verification/Event_Order.thy ===== *)
theory Event_Order
  imports Conflict_Correct "HOL-Library.Product_Lexorder" "HOL-Library.Multiset"
begin

text \<open>
  The order of the sweep over booking events (backend/src/bookings/conflict-detection.service.ts):
  the kinds of events form a linear order with ends first, so that the comparator of the code sorts
  by the lexicographic order of instant and kind, and its sort is the sort of the library.
\<close>

instantiation event_type :: linorder
begin

definition less_eq_event_type :: "event_type \<Rightarrow> event_type \<Rightarrow> bool" where
  "less_eq_event_type a b \<longleftrightarrow> a = EvEnd \<or> b = EvStart"

definition less_event_type :: "event_type \<Rightarrow> event_type \<Rightarrow> bool" where
  "less_event_type a b \<longleftrightarrow> a = EvEnd \<and> b = EvStart"

instance
proof
  fix x y z :: event_type
  show "(x < y) = (x \<le> y \<and> \<not> y \<le> x)" by (cases x; cases y) (simp_all add: less_eq_event_type_def less_event_type_def)
  show "x \<le> x" by (cases x) (simp_all add: less_eq_event_type_def)
  show "x \<le> y \<Longrightarrow> y \<le> z \<Longrightarrow> x \<le> z" by (cases x; cases y; cases z) (simp_all add: less_eq_event_type_def)
  show "x \<le> y \<Longrightarrow> y \<le> x \<Longrightarrow> x = y" by (cases x; cases y) (simp_all add: less_eq_event_type_def)
  show "x \<le> y \<or> y \<le> x" by (cases x; cases y) (simp_all add: less_eq_event_type_def)
qed

end

lemma event_cmp_less_eq: "event_cmp a b \<le> 0 \<longleftrightarrow> a \<le> b"
  by (cases a; cases b; cases "snd a"; cases "snd b")
    (auto simp: event_cmp_def less_eq_event_type_def less_event_type_def split: if_splits)

lemma mset_insert_by: "mset (insert_by cmp x xs) = add_mset x (mset xs)"
  by (induction xs) auto

lemma mset_sort_by: "mset (sort_by cmp xs) = mset xs"
  by (induction xs) (simp_all add: mset_insert_by)

theorem event_sort_exact: "sort_by event_cmp es = sort es"
proof (rule properties_for_sort [symmetric])
  show "mset (sort_by event_cmp es) = mset es" by (rule mset_sort_by)
  have "sorted_wrt (\<lambda>x y. event_cmp x y \<le> 0) (sort_by event_cmp es)"
    by (rule sorted_sort_by [OF event_comparator])
  then show "sorted (sort_by event_cmp es)" unfolding event_cmp_less_eq .
qed

text \<open>So the peak does not depend on the order in which the database returns the bookings.\<close>

lemma max_concurrent_permuted:
  assumes "mset bs = mset cs"
  shows "max_concurrent s e bs = max_concurrent s e cs"
proof -
  have m: "mset (booking_events s e xs) = (\<Sum>b\<in>#mset xs. mset (booking_events s e [b]))" for xs
    by (induction xs) (simp_all add: Let_def)
  have "mset (booking_events s e bs) = mset (booking_events s e cs)"
    using m [of bs] m [of cs] assms by simp
  then have "sort ([(s, EvStart), (e, EvEnd)] @ booking_events s e bs) =
      sort ([(s, EvStart), (e, EvEnd)] @ booking_events s e cs)"
    by (intro properties_for_sort) (simp, rule sorted_sort)
  then show ?thesis by (simp only: max_concurrent_def event_sort_exact)
qed

end
