(* ===== verification/External_Services.thy ===== *)
theory External_Services
  imports Users Delivery Js_Strings
begin

text \<open>
  The wrappers around Stellar and Cloudinary: reading a contract through the server
  (backend/src/stellar/stellar.service.ts), calling one from the browser with the polling for its
  result (frontend/src/lib/stellar/contractClient.ts, walletClient.ts), profile pictures
  (backend/src/cloudinary, the upload route of backend/src/users/users.controller.ts and
  common/pipes/file-validation.pipe.ts). The Soroban RPC, the wallet extension and the Cloudinary
  client are parameters.
\<close>

subsection \<open>Reading a contract\<close>

text \<open>\<open>BigInt(text)\<close>; None: a syntax error.\<close>

definition hex_digit_value :: "char \<Rightarrow> nat" where
  "hex_digit_value c =
     (let b = (of_char c :: nat)
      in if 48 \<le> b \<and> b \<le> 57 then b - 48 else if 97 \<le> b \<and> b \<le> 102 then b - 87
         else if 65 \<le> b \<and> b \<le> 70 then b - 55 else 99)"

definition based_int :: "nat \<Rightarrow> string \<Rightarrow> int option" where
  "based_int b ds =
     (if ds \<noteq> [] \<and> list_all (\<lambda>c. hex_digit_value c < b) ds
      then Some (int (foldl (\<lambda>acc c. acc * b + hex_digit_value c) 0 ds)) else None)"

definition js_bigint :: "string \<Rightarrow> int option" where
  "js_bigint s =
     (case js_trim s of
        [] \<Rightarrow> Some 0
      | c # r \<Rightarrow>
        if c = CHR ''0'' \<and> r \<noteq> [] \<and> hd r \<in> set ''xX'' then based_int 16 (tl r)
        else if c = CHR ''0'' \<and> r \<noteq> [] \<and> hd r \<in> set ''oO'' then based_int 8 (tl r)
        else if c = CHR ''0'' \<and> r \<noteq> [] \<and> hd r \<in> set ''bB'' then based_int 2 (tl r)
        else if c = CHR ''-'' then map_option uminus (based_int 10 r)
        else if c = CHR ''+'' then based_int 10 r
        else based_int 10 (c # r))"

text \<open>A simulation: its error, or the value returned, if any.\<close>

datatype 'v simulation = Simulation_Error string | Simulated "'v option"

text \<open>\<open>simulate arg attempt\<close> is the reply of the RPC to the attempt of that number.\<close>

record 'v contract_reader =
  cr_bookingContractId :: string
  cr_membershipContractId :: string
  cr_simulate :: "string \<Rightarrow> string \<Rightarrow> int \<Rightarrow> nat \<Rightarrow> string + 'v simulation" \<comment> \<open>contract, method, argument\<close>
  cr_retryPolicy :: retry_policy

definition simulate_contract_call ::
  "'v contract_reader \<Rightarrow> string \<Rightarrow> string \<Rightarrow> int \<Rightarrow> string \<Rightarrow> string + 'v" where
  "simulate_contract_call cr contractId meth arg operationName =
     (let result = (case fst (with_stellar_retry operationName (cr_simulate cr contractId meth arg) (cr_retryPolicy cr)) of
            Inl e \<Rightarrow> Inl e
          | Inr (Simulation_Error e) \<Rightarrow> Inl (''Simulation failed: '' @ e)
          | Inr (Simulated None) \<Rightarrow> Inl ''Simulation returned no result''
          | Inr (Simulated (Some v)) \<Rightarrow> Inr v)
      in (case result of Inl e \<Rightarrow> Inl (''Failed to run '' @ operationName @ '': '' @ e) | Inr v \<Rightarrow> Inr v))"

definition syntax_error :: "string \<Rightarrow> string" where
  "syntax_error s = ''Cannot convert '' @ s @ '' to a BigInt''"

definition get_booking_from_contract :: "'v contract_reader \<Rightarrow> string \<Rightarrow> string + 'v" where
  "get_booking_from_contract cr bookingId =
     (if cr_bookingContractId cr = [] then Inl ''Workspace booking contract ID not configured''
      else (case js_bigint bookingId of
              None \<Rightarrow> Inl (syntax_error bookingId)
            | Some n \<Rightarrow> simulate_contract_call cr (cr_bookingContractId cr) ''get_booking'' n ''getBookingFromContract''))"

definition get_membership_token :: "'v contract_reader \<Rightarrow> string \<Rightarrow> string + 'v" where
  "get_membership_token cr tokenId =
     (if cr_membershipContractId cr = [] then Inl ''Membership token contract ID not configured''
      else (case js_bigint tokenId of
              None \<Rightarrow> Inl (syntax_error tokenId)
            | Some n \<Rightarrow> simulate_contract_call cr (cr_membershipContractId cr) ''get_token'' n ''getMembershipToken''))"

subsection \<open>Calling a contract from the browser\<close>

datatype tx_status = TX_NOT_FOUND | TX_SUCCESS | TX_FAILED

text \<open>The wallet: rejecting access, its address, rejecting a signature.\<close>

record wallet =
  wa_accessError :: "string option"
  wa_address :: "string + string" \<comment> \<open>error or address\<close>
  wa_sign :: "string \<Rightarrow> string + string"

definition connect_wallet :: "wallet \<Rightarrow> string + string" where
  "connect_wallet w =
     (case wa_accessError w of Some e \<Rightarrow> Inl e | None \<Rightarrow> wa_address w)"

definition get_public_key :: "wallet \<Rightarrow> string option" where
  "get_public_key w = (case wa_address w of Inl _ \<Rightarrow> None | Inr a \<Rightarrow> Some a)"

text \<open>The polling loop: \<open>status n\<close> is the answer to the query of the n-th second.\<close>

partial_function (option) poll_transaction :: "(nat \<Rightarrow> tx_status) \<Rightarrow> nat \<Rightarrow> (nat \<times> tx_status) option" where
  [code]: "poll_transaction status n =
     (if status n = TX_NOT_FOUND then poll_transaction status (Suc n) else Some (n, status n))"

text \<open>\<open>prepare\<close> and \<open>send\<close> are those of the RPC: errors end the call, but of what the submission answers only
  the hash is read, not its status.\<close>

record soroban =
  so_prepare :: "string \<Rightarrow> string + string"
  so_send :: "string \<Rightarrow> string + (string \<times> bool)" \<comment> \<open>hash and whether the network accepted it\<close>
  so_status :: "string \<Rightarrow> nat \<Rightarrow> tx_status"

definition invoke_contract :: "soroban \<Rightarrow> wallet \<Rightarrow> string \<Rightarrow> (string + tx_status) option" where
  "invoke_contract rpc w tx =
     (case so_prepare rpc tx of
        Inl e \<Rightarrow> Some (Inl e)
      | Inr prepared \<Rightarrow>
          (case wa_sign w prepared of
             Inl e \<Rightarrow> Some (Inl e)
           | Inr signed \<Rightarrow>
               (case so_send rpc signed of
                  Inl e \<Rightarrow> Some (Inl e)
                | Inr (hash, _) \<Rightarrow> map_option (\<lambda>(_, s). Inr s) (poll_transaction (so_status rpc hash) 1))))"

subsection \<open>Profile pictures\<close>

record uploaded_file =
  fi_size :: nat
  fi_mimetype :: string
  fi_buffer :: string

definition ALLOWED_MIME_TYPES :: "string list" where
  "ALLOWED_MIME_TYPES = [''image/jpeg'', ''image/png'', ''image/webp'']"

definition MAX_FILE_SIZE :: nat where "MAX_FILE_SIZE = 5 * 1024 * 1024"

definition file_validation :: "uploaded_file option \<Rightarrow> uploaded_file result" where
  "file_validation f =
     (case f of
        None \<Rightarrow> Inl (BadRequest ''No file provided'')
      | Some file \<Rightarrow>
          if fi_size file > MAX_FILE_SIZE then Inl (BadRequest ''File size exceeds the 5 MB limit'')
          else if fi_mimetype file \<notin> set ALLOWED_MIME_TYPES
          then Inl (BadRequest ''Invalid file type. Allowed types: image/jpeg, image/png, image/webp'')
          else Inr file)"

record picture_variant =
  pv_width :: nat
  pv_height :: nat
  pv_crop :: string
  pv_gravity :: string

definition thumbnail_variant :: picture_variant where
  "thumbnail_variant = \<lparr>pv_width = 50, pv_height = 50, pv_crop = ''fill'', pv_gravity = ''face''\<rparr>"
definition avatar_variant :: picture_variant where
  "avatar_variant = \<lparr>pv_width = 200, pv_height = 200, pv_crop = ''fill'', pv_gravity = ''face''\<rparr>"
definition full_variant :: picture_variant where
  "full_variant = \<lparr>pv_width = 800, pv_height = 800, pv_crop = ''limit'', pv_gravity = ''auto''\<rparr>"

definition build_variant_url :: "string \<Rightarrow> string \<Rightarrow> picture_variant \<Rightarrow> string" where
  "build_variant_url cloudName publicId v =
     ''https://res.cloudinary.com/'' @ cloudName @ ''/image/upload/'' @
     ''w_'' @ nat_string (pv_width v) @ '',h_'' @ nat_string (pv_height v) @ '',c_'' @ pv_crop v @
     '',g_'' @ pv_gravity v @ '',q_auto,f_auto'' @ ''/'' @ publicId"

text \<open>The assets of the account: \<open>upload\<close> stores a file under a public id or fails, \<open>destroy\<close> answers an error.\<close>

record cloudinary =
  cl_cloudName :: string
  cl_assets :: "string list"

definition upload_profile_picture ::
  "(string \<Rightarrow> string + string) \<Rightarrow> uploaded_file \<Rightarrow> cloudinary \<Rightarrow> (string + upload_result) \<times> cloudinary" where
  "upload_profile_picture upload file c =
     (case upload (fi_buffer file) of
        Inl e \<Rightarrow> (Inl e, c)
      | Inr publicId \<Rightarrow>
          (Inr \<lparr>ur_publicId = publicId,
                ur_thumbnail = build_variant_url (cl_cloudName c) publicId thumbnail_variant,
                ur_avatar = build_variant_url (cl_cloudName c) publicId avatar_variant,
                ur_full = build_variant_url (cl_cloudName c) publicId full_variant\<rparr>,
           c\<lparr>cl_assets := publicId # cl_assets c\<rparr>))"

text \<open>The error that \<open>deleteAsset\<close> throws, if any.\<close>

definition delete_asset :: "(string \<Rightarrow> string option) \<Rightarrow> string \<Rightarrow> string option" where
  "delete_asset destroy publicId =
     (if publicId = [] then None
      else (case destroy publicId of
              None \<Rightarrow> None
            | Some e \<Rightarrow> if contains_text ''not found'' e then None else Some e))"

definition upload_picture_route ::
  "(string \<Rightarrow> string + string) \<Rightarrow> (string \<Rightarrow> string option) \<Rightarrow> uuid \<Rightarrow> uploaded_file option \<Rightarrow> cloudinary \<Rightarrow> account
   \<Rightarrow> (user result \<times> account) \<times> cloudinary" where
  "upload_picture_route upload destroy i file c s =
     (case file_validation file of
        Inl e \<Rightarrow> ((Inl e, s), c)
      | Inr f \<Rightarrow>
          (case upload_profile_picture upload f c of
             (Inl e, c') \<Rightarrow> ((Inl (ServerError e), s), c')
           | (Inr urls, c') \<Rightarrow>
               (case profile_picture_handler (delete_asset destroy) i urls s of
                  (r, s') \<Rightarrow>
                    ((r, s'),
                     (case find_user (ac_db s) i of
                        Some u \<Rightarrow> if truthy (u_profilePicturePublicId u) \<and> destroy (the (u_profilePicturePublicId u)) = None
                                  then c'\<lparr>cl_assets := removeAll (the (u_profilePicturePublicId u)) (cl_assets c')\<rparr> else c'
                      | None \<Rightarrow> c')))))"

subsection \<open>Waiting for a transaction\<close>

definition first_answer :: "(nat \<Rightarrow> tx_status) \<Rightarrow> nat \<Rightarrow> nat \<times> tx_status \<Rightarrow> bool" where
  "first_answer status n r \<longleftrightarrow> n \<le> fst r \<and> status (fst r) = snd r \<and> snd r \<noteq> TX_NOT_FOUND \<and>
     (\<forall>i. n \<le> i \<longrightarrow> i < fst r \<longrightarrow> status i = TX_NOT_FOUND)"

lemma poll_transaction_sound:
  assumes "poll_transaction status n = Some r"
  shows "first_answer status n r"
proof (rule poll_transaction.raw_induct [where P = first_answer, OF _ assms])
  fix poll st m r'
  assume IH: "\<And>n b y. poll n b = Some y \<Longrightarrow> first_answer n b y"
    and r: "(if st m = TX_NOT_FOUND then poll st (Suc m) else Some (m, st m)) = Some r'"
  show "first_answer st m r'"
  proof (cases "st m = TX_NOT_FOUND")
    case True
    then have f: "first_answer st (Suc m) r'" using r by (intro IH) simp
    have "st i = TX_NOT_FOUND" if "m \<le> i" "i < fst r'" for i
      using f True that by (cases "i = m") (auto simp: first_answer_def)
    then show ?thesis using f by (simp add: first_answer_def)
  qed (use r in \<open>auto simp: first_answer_def\<close>)
qed

lemma poll_transaction_complete:
  "status (n + k) \<noteq> TX_NOT_FOUND \<Longrightarrow> \<exists>r. poll_transaction status n = Some r"
proof (induction k arbitrary: n)
  case 0
  then show ?case by (simp add: poll_transaction.simps)
next
  case (Suc k)
  then show ?case by (cases "status n = TX_NOT_FOUND") (simp_all add: poll_transaction.simps [of _ n])
qed

lemma poll_transaction_None: "(poll_transaction status n = None) = (\<forall>k. status (n + k) = TX_NOT_FOUND)"
proof
  assume "poll_transaction status n = None"
  then show "\<forall>k. status (n + k) = TX_NOT_FOUND" using poll_transaction_complete [of status n] by auto
next
  assume a: "\<forall>k. status (n + k) = TX_NOT_FOUND"
  show "poll_transaction status n = None"
  proof (rule ccontr)
    assume "poll_transaction status n \<noteq> None"
    then obtain r where "poll_transaction status n = Some r" by auto
    then have "first_answer status n r" by (rule poll_transaction_sound)
    then show False using a by (metis first_answer_def le_add_diff_inverse)
  qed
qed


subsection \<open>Identifiers on the chain\<close>

lemma based_int_dash: "CHR ''-'' \<in> set ds \<Longrightarrow> b \<le> 16 \<Longrightarrow> based_int b ds = None"
proof -
  assume d: "CHR ''-'' \<in> set ds" and b: "b \<le> 16"
  have "hex_digit_value (CHR ''-'') = 99" by code_simp
  then have "\<not> list_all (\<lambda>c. hex_digit_value c < b) ds" using d b by (auto simp: list_all_iff intro!: bexI [of _ "CHR ''-''"])
  then show ?thesis by (simp add: based_int_def)
qed

lemma js_trim_solid:
  assumes "list_all (\<lambda>c. \<not> js_space c) s"
  shows "js_trim s = s"
proof -
  have d: "dropWhile js_space t = t" if "list_all (\<lambda>c. \<not> js_space c) t" for t
    using that by (cases t) simp_all
  show ?thesis using d [of s] d [of "rev s"] assms by (simp add: js_trim_def)
qed

lemma js_bigint_dash:
  assumes "list_all (\<lambda>c. \<not> js_space c) (c # r)" "CHR ''-'' \<in> set r"
  shows "js_bigint (c # r) = None"
proof (cases r)
  case (Cons d q)
  have "CHR ''-'' \<in> set q" if "d \<in> set ''xX'' \<union> set ''oO'' \<union> set ''bB''" using assms(2) Cons that by auto
  moreover have "CHR ''-'' \<in> set (c # r)" using assms(2) by simp
  ultimately show ?thesis
    using based_int_dash [of r 10] based_int_dash [of "c # r" 10] based_int_dash [of q] assms(2)
    unfolding js_bigint_def js_trim_solid [OF assms(1)] by (auto simp: Cons)
qed (use assms(2) in simp)

text \<open>The server cannot read a booking from the contract: the identifier of a booking has dashes, which BigInt
  refuses, so the call fails before the network is asked, whatever the network would answer.\<close>

theorem booking_unreadable_on_chain:
  assumes "cr_bookingContractId cr \<noteq> []" "list_all (\<lambda>c. \<not> js_space c) (c # r)" "CHR ''-'' \<in> set r"
  shows "get_booking_from_contract cr (c # r) = Inl (syntax_error (c # r))"
  using assms by (simp add: get_booking_from_contract_def js_bigint_dash)

definition sample_reader :: "int contract_reader" where
  "sample_reader = \<lparr>cr_bookingContractId = ''C1'', cr_membershipContractId = ''C2'',
     cr_simulate = (\<lambda>_ _ n _. Inr (Simulated (Some n))), cr_retryPolicy = \<lparr>rp_maxRetries = 3, rp_baseDelayMs = 200\<rparr>\<rparr>"

lemma booking_unreadable_on_chain_witness:
  "get_booking_from_contract sample_reader ''123e4567-e89b-12d3-a456-426614174000'' =
     Inl (syntax_error ''123e4567-e89b-12d3-a456-426614174000'') \<and>
   get_booking_from_contract sample_reader ''0x2A'' = Inr 42"
proof
  have "list_all (\<lambda>c. \<not> js_space c) ''123e4567-e89b-12d3-a456-426614174000''" by code_simp
  then show "get_booking_from_contract sample_reader ''123e4567-e89b-12d3-a456-426614174000'' =
      Inl (syntax_error ''123e4567-e89b-12d3-a456-426614174000'')"
    by (intro booking_unreadable_on_chain) (simp_all add: sample_reader_def)
  show "get_booking_from_contract sample_reader ''0x2A'' = Inr 42" by code_simp
qed

subsection \<open>Replacing a picture\<close>

text \<open>A picture that cannot be replaced is lost in the storage: the new file is uploaded before the old one
  is deleted, and when that fails the account keeps its old picture while the new asset stays, with
  no row that refers to it.\<close>

theorem failed_replacement_orphans_upload:
  assumes "fi_size f \<le> MAX_FILE_SIZE" "fi_mimetype f \<in> set ALLOWED_MIME_TYPES" "upload (fi_buffer f) = Inr p"
    and "find_user (ac_db s) i = Some u" "u_profilePicturePublicId u = Some q" "q \<noteq> []"
    and "destroy q = Some e" "\<not> contains_text ''not found'' e"
  shows "fst (fst (upload_picture_route upload destroy i (Some f) c s)) = Inl (ServerError e) \<and>
    db_users (ac_db (snd (fst (upload_picture_route upload destroy i (Some f) c s)))) = db_users (ac_db s) \<and>
    cl_assets (snd (upload_picture_route upload destroy i (Some f) c s)) = p # cl_assets c"
  using assms
  by (simp add: upload_picture_route_def file_validation_def upload_profile_picture_def profile_picture_handler_def
    update_profile_picture_def delete_asset_def lift_db_def then_uncache_def Let_def)

end
