(* ===== verification/Health.thy ===== *)
theory Health
  imports Json
begin

text \<open>
  The health probes (backend/src/health): the indicators of Redis, SMTP, Cloudinary and the Stellar RPC,
  the controller with its readiness and deep checks, and the part of backend/src/config/app.config.ts
  that chooses the RPC endpoint. What a probed service answers is a parameter; an indicator answers a
  result or throws a \<open>HealthCheckError\<close>. The checker of the library runs all indicators and fails when
  one throws, as its documentation says.
\<close>

subsection \<open>Indicators\<close>

record indicator =
  in_key :: string
  in_up :: bool
  in_detail :: "(string \<times> json) list"

text \<open>Inl: a \<open>HealthCheckError\<close> with its message and the result it carries.\<close>

type_synonym health_result = "(string \<times> indicator) + indicator"

definition get_status :: "string \<Rightarrow> bool \<Rightarrow> (string \<times> json) list \<Rightarrow> indicator" where
  "get_status key up detail = \<lparr>in_key = key, in_up = up, in_detail = detail\<rparr>"

definition skipped :: "string \<Rightarrow> string \<Rightarrow> health_result" where
  "skipped key reason = Inr (get_status key True [(''status'', JStr ''skipped''), (''reason'', JStr reason)])"

text \<open>The answer to a ping, or the message of the error that came instead.\<close>

definition redis_is_healthy :: "string option \<Rightarrow> string + string \<Rightarrow> string \<Rightarrow> health_result" where
  "redis_is_healthy redisUrl ping key =
     (if \<not> truthy redisUrl then skipped key ''REDIS_URL not configured''
      else (case ping of
         Inr pong \<Rightarrow> if pong = ''PONG'' then Inr (get_status key True [(''status'', JStr ''up'')])
           else Inl (''Redis ping did not return PONG'',
                  get_status key False [(''status'', JStr ''down''), (''response'', JStr pong)])
       | Inl m \<Rightarrow> Inl (''Redis health check failed: '' @ m,
                  get_status key False [(''status'', JStr ''down''), (''error'', JStr m)])))"

record smtp_config =
  sm_host :: "string option"
  sm_port :: "int option"
  sm_user :: "string option"
  sm_password :: "string option"

definition smtp_is_healthy :: "smtp_config \<Rightarrow> string + unit \<Rightarrow> string \<Rightarrow> health_result" where
  "smtp_is_healthy cfg verify key =
     (let host = sm_host cfg; port = (case sm_port cfg of None \<Rightarrow> 587 | Some p \<Rightarrow> p)
      in if \<not> truthy host \<or> \<not> truthy (sm_user cfg) \<or> \<not> truthy (sm_password cfg)
         then skipped key ''SMTP credentials not configured''
         else (case verify of
           Inr _ \<Rightarrow> Inr (get_status key True [(''status'', JStr ''up''), (''host'', JStr (the host)), (''port'', JNum (of_int port))])
         | Inl m \<Rightarrow> Inl (''SMTP health check failed: '' @ m,
             get_status key False [(''status'', JStr ''down''), (''host'', JStr (the host)),
               (''port'', JNum (of_int port)), (''error'', JStr m)])))"

definition smtp_secure :: "smtp_config \<Rightarrow> bool" where
  "smtp_secure cfg \<longleftrightarrow> (case sm_port cfg of None \<Rightarrow> 587 | Some p \<Rightarrow> p) = (465 :: int)"

text \<open>A ping that takes more than five seconds loses the race to the timer (None).\<close>

definition cloudinary_is_healthy ::
  "string option \<Rightarrow> string option \<Rightarrow> string option \<Rightarrow> (string + string option) option \<Rightarrow> string \<Rightarrow> health_result" where
  "cloudinary_is_healthy cloudName apiKey apiSecret ping key =
     (if \<not> truthy cloudName \<or> \<not> truthy apiKey \<or> \<not> truthy apiSecret
      then skipped key ''Cloudinary credentials not configured''
      else (let failed = (\<lambda>m. Inl (''Cloudinary health check failed: '' @ m,
               get_status key False [(''status'', JStr ''down''), (''error'', JStr m), (''cloudName'', JStr (the cloudName))]))
            in case ping of
              None \<Rightarrow> failed ''Cloudinary ping timed out after 5s''
            | Some (Inl m) \<Rightarrow> failed m
            | Some (Inr status) \<Rightarrow>
                if status = Some ''ok''
                then Inr (get_status key True [(''status'', JStr ''up''), (''cloudName'', JStr (the cloudName))])
                else Inl (''Cloudinary ping returned unexpected status: '' @ (case status of None \<Rightarrow> ''undefined'' | Some s \<Rightarrow> s),
                       get_status key False [(''status'', JStr ''down''),
                         (''response'', (case status of None \<Rightarrow> JNull | Some s \<Rightarrow> JObj [(''status'', JStr s)]))])))"

subsection \<open>The Stellar endpoint\<close>

definition default_rpc_url :: "string \<Rightarrow> string option" where
  "default_rpc_url network =
     (if network = ''mainnet'' then Some ''https://soroban-rpc.mainnet.stellar.org''
      else if network = ''testnet'' then Some ''https://soroban-testnet.stellar.org'' else None)"

text \<open>The endpoint the application uses, and the one the probe asks.\<close>

definition stellar_rpc_url :: "string option \<Rightarrow> string option \<Rightarrow> string" where
  "stellar_rpc_url network rpcUrl =
     (let stellarNetwork = (if truthy network then the network else ''testnet'')
      in if truthy rpcUrl then the rpcUrl
         else (case default_rpc_url stellarNetwork of Some u \<Rightarrow> u | None \<Rightarrow> the (default_rpc_url ''testnet'')))"

definition probed_rpc_url :: "string option \<Rightarrow> string" where
  "probed_rpc_url network =
     (case default_rpc_url (case network of None \<Rightarrow> ''testnet'' | Some n \<Rightarrow> n) of
        Some u \<Rightarrow> u | None \<Rightarrow> the (default_rpc_url ''testnet''))"

text \<open>The response: its status and body (None: not JSON, with the message of the parser).\<close>

record rpc_response =
  rr_status :: int
  rr_body :: "string + json"

definition rpc_status :: "json \<Rightarrow> json option" where \<comment> \<open>\<open>body?.result?.status\<close>\<close>
  "rpc_status body = (case json_field body ''result'' of None \<Rightarrow> None | Some r \<Rightarrow> json_field r ''status'')"

definition stellar_is_healthy :: "string \<Rightarrow> string + rpc_response \<Rightarrow> string \<Rightarrow> health_result" where
  "stellar_is_healthy url response key =
     (let failed = (\<lambda>m. Inl (''Stellar RPC health check failed: '' @ m,
            get_status key False [(''status'', JStr ''down''), (''error'', JStr m), (''url'', JStr url)]))
      in case response of
         Inl m \<Rightarrow> failed m
       | Inr r \<Rightarrow>
           if \<not> (200 \<le> rr_status r \<and> rr_status r \<le> 299)
           then Inl (''Stellar RPC returned HTTP '' @ int_string (rr_status r),
                  get_status key False [(''status'', JStr ''down''), (''httpStatus'', JNum (of_int (rr_status r))), (''url'', JStr url)])
           else (case rr_body r of
              Inl m \<Rightarrow> failed m
            | Inr body \<Rightarrow> Inr (get_status key True [(''status'', JStr ''up''),
                (''rpcStatus'', (case rpc_status body of None \<Rightarrow> JStr ''unknown'' | Some JNull \<Rightarrow> JStr ''unknown'' | Some s \<Rightarrow> s)),
                (''url'', JStr url)])))"

subsection \<open>The controller\<close>

record health_report =
  hr_httpStatus :: nat
  hr_info :: "indicator list"
  hr_error :: "indicator list"

definition check_health :: "health_result list \<Rightarrow> health_report" where
  "check_health rs =
     (let errors = List.map_filter (\<lambda>r. case r of Inl (_, i) \<Rightarrow> Some i | Inr _ \<Rightarrow> None) rs
      in \<lparr>hr_httpStatus = (if errors = [] then 200 else 503),
          hr_info = List.map_filter (\<lambda>r. case r of Inr i \<Rightarrow> Some i | Inl _ \<Rightarrow> None) rs, hr_error = errors\<rparr>)"

text \<open>The outside world of the probes.\<close>

record probe_world =
  pw_redisUrl :: "string option"
  pw_redisPing :: "string + string"
  pw_smtp :: smtp_config
  pw_smtpVerify :: "string + unit"
  pw_cloudName :: "string option"
  pw_apiKey :: "string option"
  pw_apiSecret :: "string option"
  pw_cloudPing :: "(string + string option) option"
  pw_network :: "string option"
  pw_rpc :: "string \<Rightarrow> string + rpc_response"

definition readiness :: "(string \<Rightarrow> health_result) \<Rightarrow> probe_world \<Rightarrow> health_report" where
  "readiness pingCheck w =
     check_health [pingCheck ''database'', redis_is_healthy (pw_redisUrl w) (pw_redisPing w) ''redis'']"

definition health_alias :: "(string \<Rightarrow> health_result) \<Rightarrow> probe_world \<Rightarrow> health_report" where
  "health_alias = readiness"

definition deep_health :: "(string \<Rightarrow> health_result) \<Rightarrow> probe_world \<Rightarrow> health_report" where
  "deep_health pingCheck w =
     check_health [pingCheck ''database'', redis_is_healthy (pw_redisUrl w) (pw_redisPing w) ''redis'',
       stellar_is_healthy (probed_rpc_url (pw_network w)) (pw_rpc w (probed_rpc_url (pw_network w))) ''stellar_rpc'',
       smtp_is_healthy (pw_smtp w) (pw_smtpVerify w) ''smtp'',
       cloudinary_is_healthy (pw_cloudName w) (pw_apiKey w) (pw_apiSecret w) (pw_cloudPing w) ''cloudinary'']"

subsection \<open>When the probes fail\<close>

definition passes :: "health_result \<Rightarrow> bool" where
  "passes r \<longleftrightarrow> (case r of Inl _ \<Rightarrow> False | Inr _ \<Rightarrow> True)"

lemma check_health_status:
  "hr_httpStatus (check_health rs) = (if list_all passes rs then 200 else 503)"
proof -
  have "List.map_filter (\<lambda>r. case r of Inl (_, i) \<Rightarrow> Some i | Inr _ \<Rightarrow> None) rs = [] \<longleftrightarrow> list_all passes rs"
    by (induction rs) (auto simp: List.map_filter_simps passes_def split: sum.splits option.splits)
  then show ?thesis by (simp add: check_health_def Let_def)
qed

text \<open>Every probe appears once in the report, among the passed or among the failed ones.\<close>

lemma check_health_partition:
  "length (hr_info (check_health rs)) + length (hr_error (check_health rs)) = length rs"
  by (induction rs) (auto simp: check_health_def Let_def List.map_filter_simps split: sum.splits)

lemma redis_passes: "passes (redis_is_healthy url ping key) \<longleftrightarrow> \<not> truthy url \<or> ping = Inr ''PONG''"
  by (auto simp: redis_is_healthy_def passes_def skipped_def split: sum.splits)

lemma smtp_passes: "passes (smtp_is_healthy cfg verify key) \<longleftrightarrow>
    \<not> (truthy (sm_host cfg) \<and> truthy (sm_user cfg) \<and> truthy (sm_password cfg)) \<or> verify = Inr ()"
  by (auto simp: smtp_is_healthy_def passes_def skipped_def Let_def split: sum.splits)

lemma cloudinary_passes: "passes (cloudinary_is_healthy n k s ping key) \<longleftrightarrow>
    \<not> (truthy n \<and> truthy k \<and> truthy s) \<or> ping = Some (Inr (Some ''ok''))"
  by (auto simp: cloudinary_is_healthy_def passes_def skipped_def Let_def split: sum.splits option.splits)

text \<open>The probe looks at the status of the response and whether its body is JSON, not at what it says.\<close>

lemma stellar_passes: "passes (stellar_is_healthy url response key) \<longleftrightarrow>
    (\<exists>r body. response = Inr r \<and> 200 \<le> rr_status r \<and> rr_status r \<le> 299 \<and> rr_body r = Inr body)"
  by (auto simp: stellar_is_healthy_def passes_def Let_def split: sum.splits)

lemmas probe_passes = redis_passes smtp_passes cloudinary_passes stellar_passes

theorem readiness_exact:
  "hr_httpStatus (readiness pingCheck w) =
    (if passes (pingCheck ''database'') \<and> (\<not> truthy (pw_redisUrl w) \<or> pw_redisPing w = Inr ''PONG'') then 200 else 503)"
  by (simp add: readiness_def check_health_status probe_passes)

theorem deep_health_exact:
  "hr_httpStatus (deep_health pingCheck w) = 200 \<longleftrightarrow>
    hr_httpStatus (readiness pingCheck w) = 200 \<and>
    (\<exists>r body. pw_rpc w (probed_rpc_url (pw_network w)) = Inr r \<and> 200 \<le> rr_status r \<and> rr_status r \<le> 299 \<and> rr_body r = Inr body) \<and>
    (\<not> (truthy (sm_host (pw_smtp w)) \<and> truthy (sm_user (pw_smtp w)) \<and> truthy (sm_password (pw_smtp w))) \<or> pw_smtpVerify w = Inr ()) \<and>
    (\<not> (truthy (pw_cloudName w) \<and> truthy (pw_apiKey w) \<and> truthy (pw_apiSecret w)) \<or> pw_cloudPing w = Some (Inr (Some ''ok'')))"
  by (auto simp: readiness_def deep_health_def check_health_status probe_passes)

text \<open>The probe never asks a configured endpoint: it knows the two defaults only, so with an endpoint of its
  own the application may be cut off while the report is 200, or the other way round.\<close>

theorem probe_ignores_configured_endpoint:
  assumes "rpcUrl \<noteq> []" "rpcUrl \<notin> {''https://soroban-rpc.mainnet.stellar.org'', ''https://soroban-testnet.stellar.org''}"
  shows "stellar_rpc_url network (Some rpcUrl) = rpcUrl \<and> probed_rpc_url network \<noteq> rpcUrl"
  using assms by (auto simp: stellar_rpc_url_def probed_rpc_url_def default_rpc_url_def split: option.splits)

theorem default_endpoint_probed:
  "network \<noteq> Some [] \<Longrightarrow> stellar_rpc_url network None = probed_rpc_url network"
  by (cases network) (simp_all add: stellar_rpc_url_def probed_rpc_url_def)

end
