(* ===== verification/Hubs.thy ===== *)
theory Hubs
  imports Api_Routes_Correct Workspaces
begin

text \<open>
  Hubs (backend/src/hubs): creation with a unique slug, the list with the owners, and one hub with
  its workspaces. The lemmas: slugs stay unique and a new hub is found under its slug; the list
  gives away the owner, an administrator, to every account.
\<close>

record hub =
  hub_id :: uuid
  hub_name :: string
  hub_slug :: string
  hub_address :: "string option"
  hub_ownerId :: uuid
  hub_isActive :: bool
  hub_createdAt :: instant

record create_hub_dto =
  chd_name :: string
  chd_slug :: string
  chd_address :: "string option"

definition create_hub ::
  "uuid \<Rightarrow> instant \<Rightarrow> uuid \<Rightarrow> create_hub_dto \<Rightarrow> hub list \<Rightarrow> (hub list, hub) outcome" where
  "create_hub newId now ownerId dto hubs =
     (if find_row (\<lambda>h. hub_slug h = chd_slug dto) hubs \<noteq> None
      then (Inl (Conflict ''Hub slug already in use''), hubs)
      else (let hub = \<lparr>hub_id = newId, hub_name = chd_name dto, hub_slug = chd_slug dto,
                       hub_address = chd_address dto, hub_ownerId = ownerId, hub_isActive = True,
                       hub_createdAt = now\<rparr>
            in (Inr hub, save_row hub_id hub hubs)))"

definition hub_fields :: "db \<Rightarrow> hub \<Rightarrow> (string \<times> json) list" where
  "hub_fields d h =
     [(''id'', JStr (hub_id h)), (''name'', JStr (hub_name h)), (''slug'', JStr (hub_slug h)),
      (''address'', json_of_option (hub_address h)), (''ownerId'', JStr (hub_ownerId h)),
      (''owner'', json_of_option_with user_json (find_user d (hub_ownerId h))),
      (''isActive'', JBool (hub_isActive h)), (''createdAt'', json_date (hub_createdAt h))]"

definition find_all_hubs :: "db \<Rightarrow> hub list \<Rightarrow> json list" where
  "find_all_hubs d hubs = map (\<lambda>h. JObj (hub_fields d h)) hubs"

definition find_hub_by_slug :: "db \<Rightarrow> hub list \<Rightarrow> string \<Rightarrow> json result" where
  "find_hub_by_slug d hubs slug =
     (case find_row (\<lambda>h. hub_slug h = slug) hubs of
        None \<Rightarrow> Inl (NotFound ''Hub not found'')
      | Some hub \<Rightarrow> Inr (JObj (hub_fields d hub @
          [(''workspaces'', JArr (map workspace_json
             (filter (\<lambda>w. w_hubId w = Some (hub_id hub) \<and> w_deletedAt w = None) (db_workspaces d))))])))"

definition create_hub_handler ::
  "uuid \<Rightarrow> instant \<Rightarrow> request_user \<Rightarrow> create_hub_dto \<Rightarrow> hub list \<Rightarrow> (hub list, hub) outcome" where
  "create_hub_handler newId now u dto = create_hub newId now (case ru_id u of Some i \<Rightarrow> i | None \<Rightarrow> []) dto"

definition hubs_handler :: "db \<Rightarrow> hub list \<Rightarrow> json" where
  "hubs_handler d hubs = JArr (find_all_hubs d hubs)"

definition hubs_ok :: "hub list \<Rightarrow> bool" where
  "hubs_ok hubs \<longleftrightarrow> distinct (map hub_id hubs) \<and> distinct (map hub_slug hubs)"

text \<open>Creating hubs keeps ids and slugs unique; a taken slug is refused without a trace, and a new hub
  is found under its slug with the owner of the request.\<close>

theorem create_hub_exact:
  assumes "hubs_ok hubs" "newId \<notin> hub_id ` set hubs"
  shows "hubs_ok (snd (create_hub newId now owner dto hubs)) \<and>
    (if chd_slug dto \<in> hub_slug ` set hubs
     then fst (create_hub newId now owner dto hubs) = Inl (Conflict ''Hub slug already in use'') \<and>
       snd (create_hub newId now owner dto hubs) = hubs
     else \<exists>h fs. fst (create_hub newId now owner dto hubs) = Inr h \<and> hub_ownerId h = owner \<and>
       find_hub_by_slug d (snd (create_hub newId now owner dto hubs)) (chd_slug dto) = Inr (JObj (hub_fields d h @ fs)))"
proof (cases "chd_slug dto \<in> hub_slug ` set hubs")
  case True
  then have "find_row (\<lambda>h. hub_slug h = chd_slug dto) hubs \<noteq> None" unfolding find_row_None_iff by auto
  then show ?thesis using assms(1) True by (simp add: create_hub_def)
next
  case False
  then have no: "find_row (\<lambda>h. hub_slug h = chd_slug dto) hubs = None" unfolding find_row_None_iff by force
  show ?thesis
    using assms no False
    by (auto simp: create_hub_def Let_def save_row_new hubs_ok_def find_hub_by_slug_def find_row_append)
qed

lemma create_hub_exact_witness:
  "fst (create_hub ''2'' 0 ''u'' \<lparr>chd_name = ''B'', chd_slug = ''s'', chd_address = None\<rparr>
     [\<lparr>hub_id = ''1'', hub_name = ''A'', hub_slug = ''s'', hub_address = None, hub_ownerId = ''u'',
       hub_isActive = True, hub_createdAt = 0\<rparr>]) = Inl (Conflict ''Hub slug already in use'')"
  using create_hub_exact [of "[\<lparr>hub_id = ''1'', hub_name = ''A'', hub_slug = ''s'', hub_address = None,
       hub_ownerId = ''u'', hub_isActive = True, hub_createdAt = 0\<rparr>]" "''2''" 0 "''u''"
       "\<lparr>chd_name = ''B'', chd_slug = ''s'', chd_address = None\<rparr>"]
  by (simp add: hubs_ok_def)

subsection \<open>What the list of hubs gives away\<close>

lemma route_hubs:
  "route_request api_routes ''GET'' [''hubs''] = Some (endpoint_at GET [Seg ''hubs''] [] ''findAll'')"
  by (simp add: route_request_def serves_def api_routes_def route_tables Let_def endpoint_at_def opened_def
      for_admin_def of_class_def)

lemma disclosed_owner:
  "find_user d (hub_ownerId h) = Some u \<Longrightarrow>
   disclosed ''owner'' ''otp'' (JObj (hub_fields d h)) = Some (json_of_option (u_otp u))"
  by (simp add: disclosed_def hub_fields_def json_of_option_with_def user_json_def)

text \<open>C8: Any account can become an administrator. Hubs are created by administrators only and belong to
  them; the list of the hubs asks for a login only and carries the whole user row of every owner.
  So after an anonymous reset request for the owner's address, every signed-in account reads the
  hash of the reset code in the list, finds the code among the 2^24 the generator can produce,
  sets the administrator's password and signs in with it.\<close>

theorem hub_list_admin_takeover:
  assumes "users_ok (ac_db s)" "find_user_by_email (ac_db s) victim = Some v"
    and "h \<in> set hubs" "hub_ownerId h = u_id v"
    and "valid_bearer env now' (ac_cache s) req p" "hr_method req = ''GET''"
    and "\<And>salt t. bc_hash (al_bcrypt lib) salt t \<noteq> [] \<and> bc_compare (al_bcrypt lib) t (bc_hash (al_bcrypt lib) salt t)"
    and "ar_otpNumber r < 2 ^ 24" "now' \<le> now + otp_life_ms"
    and "po_valid (validate_password (al_policy lib) newPassword)"
  shows "\<exists>j k c s1.
    s1 = snd (forgot_password lib r now victim s) \<and>
    is_ok (api_guards env now' (ac_cache s1) req [''hubs'']) \<and>
    hubs_handler (ac_db s1) hubs = JArr j \<and>
    (\<exists>x \<in> set j. disclosed ''owner'' ''otp'' x = Some (JStr k)) \<and> crack (al_bcrypt lib) k = Some c \<and>
    fst (reset_password lib r' now' victim c newPassword s1) = Inr ''Password reset successfully''"
proof -
  let ?s1 = "snd (forgot_password lib r now victim s)"
  obtain v' k c where l: "find_user (ac_db ?s1) (u_id v) = Some v'" "u_otp v' = Some k" "crack (al_bcrypt lib) k = Some c"
    "fst (reset_password lib r' now' victim c newPassword ?s1) = Inr ''Password reset successfully''"
    "ac_cache ?s1 = ac_cache s"
    by (rule leaked_hash_resets [OF assms(1,2,7-10), where r' = r'])
  have "disclosed ''owner'' ''otp'' (JObj (hub_fields (ac_db ?s1) h)) = Some (JStr k)"
    using disclosed_owner [of "ac_db ?s1" h v'] l(1,2) assms(4) by (simp add: json_of_option_def)
  then have x: "\<exists>x \<in> set (find_all_hubs (ac_db ?s1) hubs). disclosed ''owner'' ''otp'' x = Some (JStr k)"
    using assms(3) by (auto simp: find_all_hubs_def)
  have "is_ok (api_guards env now' (ac_cache ?s1) req [''hubs''])"
    using bearer_decision [OF assms(5)] assms(6) l(5) api_guards_ok [OF route_hubs [folded assms(6)]]
    by (simp add: guard_metadata_def)
  with x l show ?thesis by (auto simp: hubs_handler_def)
qed

lemma hub_list_admin_takeover_witness:
  "\<exists>c. fst (reset_password acct_lib acct_random 9 ''a@b.c'' c long_password
      (snd (forgot_password acct_lib acct_random 5 ''a@b.c'' (acct_state acct_user))))
    = Inr ''Password reset successfully''"
proof -
  let ?h = "\<lparr>hub_id = ''1'', hub_name = ''A'', hub_slug = ''s'', hub_address = None, hub_ownerId = u_id acct_user,
       hub_isActive = True, hub_createdAt = 0\<rparr>"
  have u: "users_ok (ac_db (acct_state acct_user))"
    "find_user_by_email (ac_db (acct_state acct_user)) ''a@b.c'' = Some acct_user"
    by (simp_all add: acct_state_def users_ok_def find_user_by_email_def live_user_def acct_user_def user_of_def)
  have g: "valid_bearer sample_guard_env 9 (ac_cache (acct_state acct_user)) (member_request\<lparr>hr_method := ''GET''\<rparr>) sample_claims"
    by (simp add: valid_bearer_def sample_guard_env_def member_request_def bare_post_def is_bearer_def
        is_blacklisted_def cache_get_def acct_state_def)
  have h: "bc_hash (al_bcrypt acct_lib) salt t \<noteq> [] \<and> bc_compare (al_bcrypt acct_lib) t (bc_hash (al_bcrypt acct_lib) salt t)"
    for salt t by (simp add: acct_lib_def pad60_def)
  show ?thesis
    using hub_list_admin_takeover [OF u _ _ g _ h, of ?h "[?h]" acct_random 5 long_password acct_random]
    by (auto simp: acct_random_def otp_life_ms_def long_password_ok)
qed

end
