(* ===== verification/Newsletter.thy ===== *)
theory Newsletter
  imports Prelude
begin

text \<open>
  Newsletter subscriptions (backend/src/newsletter/newsletter.service.ts and the check of its
  controller). A query parameter that is missing is None; a condition on an undefined value is no
  condition for the repository, so such a look-up returns the first row of the table. The theorems:
  the life cycle of a subscription, the invariant of the table, and what a missing token does.
\<close>

record newsletter_subscriber =
  ns_id :: uuid
  ns_email :: string
  ns_confirmationToken :: uuid
  ns_isConfirmed :: bool
  ns_unsubscribeToken :: uuid
  ns_ipAddress :: "string option"
  ns_subscribedAt :: instant
  ns_confirmedAt :: "instant option"

type_synonym subscribers = "newsletter_subscriber list"

definition where_eq :: "('r \<Rightarrow> 'v) \<Rightarrow> 'v option \<Rightarrow> 'r \<Rightarrow> bool" where
  "where_eq col v r \<longleftrightarrow> (case v of None \<Rightarrow> True | Some x \<Rightarrow> col r = x)"

definition subscribe ::
  "uuid \<Rightarrow> uuid \<Rightarrow> uuid \<Rightarrow> instant \<Rightarrow> string \<Rightarrow> string option \<Rightarrow> subscribers \<Rightarrow> (subscribers, string) outcome" where
  "subscribe newId confirmToken unsubscribeToken now email ipAddress tbl =
     (case find_row (\<lambda>s. ns_email s = email) tbl of
        Some _ \<Rightarrow> (Inl (BadRequest ''Email already subscribed''), tbl)
      | None \<Rightarrow> (Inr ''Subscription pending confirmation'',
          save_row ns_id \<lparr>ns_id = newId, ns_email = email, ns_confirmationToken = confirmToken,
            ns_isConfirmed = False, ns_unsubscribeToken = unsubscribeToken, ns_ipAddress = ipAddress,
            ns_subscribedAt = now, ns_confirmedAt = None\<rparr> tbl))"

definition confirm_subscription ::
  "instant \<Rightarrow> uuid option \<Rightarrow> subscribers \<Rightarrow> (subscribers, string) outcome" where
  "confirm_subscription now token tbl =
     (case find_row (where_eq ns_confirmationToken token) tbl of
        None \<Rightarrow> (Inl (NotFound ''Invalid confirmation token''), tbl)
      | Some s \<Rightarrow>
          if ns_isConfirmed s then (Inl (BadRequest ''Already confirmed''), tbl)
          else (Inr ''Subscription confirmed'',
                save_row ns_id (s\<lparr>ns_isConfirmed := True, ns_confirmedAt := Some now\<rparr>) tbl))"

definition unsubscribe :: "uuid option \<Rightarrow> subscribers \<Rightarrow> (subscribers, string) outcome" where
  "unsubscribe token tbl =
     (case find_row (where_eq ns_unsubscribeToken token) tbl of
        None \<Rightarrow> (Inl (NotFound ''Invalid unsubscribe token''), tbl)
      | Some s \<Rightarrow> (Inr ''Unsubscribed successfully'', delete_rows (\<lambda>x. ns_id x = ns_id s) tbl))"

record subscriber_page =
  sp_data :: "(uuid \<times> string \<times> instant \<times> instant option) list"
  sp_total :: nat
  sp_page :: nat
  sp_limit :: nat

definition list_subscribers :: "nat \<Rightarrow> nat \<Rightarrow> subscribers \<Rightarrow> subscriber_page" where
  "list_subscribers page limit tbl =
     (let rows = filter ns_isConfirmed tbl
      in \<lparr>sp_data = map (\<lambda>s. (ns_id s, ns_email s, ns_subscribedAt s, ns_confirmedAt s))
                       (take limit (drop ((page - 1) * limit) rows)),
          sp_total = length rows, sp_page = page, sp_limit = limit\<rparr>)"

definition list_subscribers_handler :: "string \<Rightarrow> nat \<Rightarrow> nat \<Rightarrow> subscribers \<Rightarrow> subscriber_page option" where
  "list_subscribers_handler role page limit tbl =
     (if role \<noteq> ''admin'' then None else Some (list_subscribers page limit tbl))"

subsection \<open>The table\<close>

definition subscribers_ok :: "subscribers \<Rightarrow> bool" where
  "subscribers_ok tbl \<longleftrightarrow> distinct (map ns_id tbl) \<and> distinct (map ns_email tbl) \<and>
     (\<forall>s \<in> set tbl. ns_isConfirmed s \<longleftrightarrow> ns_confirmedAt s \<noteq> None)"

inductive newsletter_step :: "subscribers \<Rightarrow> subscribers \<Rightarrow> bool" where
  subscribes: "i \<notin> ns_id ` set tbl \<Longrightarrow> newsletter_step tbl (snd (subscribe i c u now email ip tbl))"
| confirms: "newsletter_step tbl (snd (confirm_subscription now token tbl))"
| unsubscribes: "newsletter_step tbl (snd (unsubscribe token tbl))"

lemma subscribe_ok:
  assumes "subscribers_ok tbl" "i \<notin> ns_id ` set tbl"
  shows "subscribers_ok (snd (subscribe i c u now email ip tbl))"
proof (cases "find_row (\<lambda>s. ns_email s = email) tbl")
  case None
  then have "email \<notin> ns_email ` set tbl" by (auto simp: find_row_None_iff)
  with assms None show ?thesis by (simp add: subscribe_def save_row_new subscribers_ok_def)
qed (use assms in \<open>simp add: subscribe_def\<close>)

lemma confirm_ok:
  assumes "subscribers_ok tbl"
  shows "subscribers_ok (snd (confirm_subscription now token tbl))"
proof (cases "find_row (where_eq ns_confirmationToken token) tbl")
  case (Some s)
  let ?s = "s\<lparr>ns_isConfirmed := True, ns_confirmedAt := Some now\<rparr>"
  have s: "s \<in> set tbl" using find_row_SomeD [OF Some] by simp
  have u: "x = s" if "x \<in> set tbl" "ns_id x = ns_id s" for x
    using that s assms by (auto simp: subscribers_ok_def distinct_map dest: inj_onD)
  have e: "save_row ns_id ?s tbl = update_rows (\<lambda>x. ns_id x = ns_id s) (\<lambda>_. ?s) tbl"
    using s by (subst save_row_existing) auto
  have "map ns_email (save_row ns_id ?s tbl) = map ns_email tbl"
    unfolding e by (auto simp: update_rows_def dest: u)
  moreover have "map ns_id (save_row ns_id ?s tbl) = map ns_id tbl"
    unfolding e by (auto simp: update_rows_def dest: u)
  ultimately show ?thesis
    using assms Some by (auto simp: confirm_subscription_def subscribers_ok_def in_save_row)
qed (use assms in \<open>simp add: confirm_subscription_def\<close>)

lemma unsubscribe_ok: "subscribers_ok tbl \<Longrightarrow> subscribers_ok (snd (unsubscribe token tbl))"
  by (auto simp: unsubscribe_def subscribers_ok_def delete_rows_def distinct_map_filter split: option.split)

lemma subscribers_ok_step: "newsletter_step tbl tbl' \<Longrightarrow> subscribers_ok tbl \<Longrightarrow> subscribers_ok tbl'"
  by (induction rule: newsletter_step.induct) (simp_all add: subscribe_ok confirm_ok unsubscribe_ok)

text \<open>In every reachable subscription table the ids and the addresses are unique, and a subscriber
  has a confirmation time exactly when it is confirmed, whatever subscriptions, confirmations and
  removals were made in whatever order.\<close>

theorem newsletter_invariant:
  assumes "newsletter_step\<^sup>*\<^sup>* [] tbl"
  shows "subscribers_ok tbl"
  using assms
  by (induction rule: rtranclp_induct) (auto simp: subscribers_ok_def [of "[]"] intro: subscribers_ok_step)

lemma newsletter_invariant_witness:
  "subscribers_ok (snd (subscribe ''s1'' ''c1'' ''u1'' 0 ''a@b.c'' None []))"
  by (rule newsletter_invariant) (rule r_into_rtranclp, rule newsletter_step.subscribes, simp)

fun unsubscribe_times :: "nat \<Rightarrow> subscribers \<Rightarrow> subscribers" where
  "unsubscribe_times 0 tbl = tbl"
| "unsubscribe_times (Suc n) tbl = unsubscribe_times n (snd (unsubscribe None tbl))"

lemma unsubscribe_none:
  "distinct (map ns_id (s # tbl)) \<Longrightarrow> unsubscribe None (s # tbl) = (Inr ''Unsubscribed successfully'', tbl)"
  by (auto simp: unsubscribe_def where_eq_def find_row_def delete_rows_def intro!: filter_True dest: rev_image_eqI [of _ _ _ ns_id])

text \<open>A request to unsubscribe that names no token removes a subscriber: the first row of the table,
  whoever it belongs to; repeating it as often as there are rows empties the table.\<close>

theorem missing_token_unsubscribes:
  assumes "distinct (map ns_id tbl)" "n \<le> length tbl"
  shows "unsubscribe_times n tbl = drop n tbl"
  using assms
proof (induction n arbitrary: tbl)
  case (Suc n)
  then obtain s r where "tbl = s # r" by (cases tbl) auto
  with Suc show ?case by (simp add: unsubscribe_none del: distinct.simps list.map) simp
qed simp

lemma missing_token_unsubscribes_witness:
  "unsubscribe_times 1 (snd (subscribe ''s1'' ''c1'' ''u1'' 0 ''a@b.c'' None [])) = []"
  by (subst missing_token_unsubscribes) (simp_all add: subscribe_def save_row_def)

end
