(* ===== verification/Newsletter_Page.thy ===== *)
theory Newsletter_Page
  imports Newsletter Js_Strings
begin

text \<open>
  The newsletter in the browser: the preferences form with its page
  (frontend/src/components/newsletter/NewsletterPreferences.tsx, app/newsletter/preferences/page.tsx and
  the three hooks below lib/react-query/hooks/newsletter), the sign-up form (hooks/useNewsletterForm.ts)
  against the service of the server, and the page behind the confirmation link
  (app/newsletter/confirm/page.tsx). The form library is modelled by its default values: a field is
  dirty when it differs from its default.
\<close>

subsection \<open>The preferences form\<close>

datatype topic = WorkspaceUpdates | Community | Promotions | ProductUpdates

definition topics :: "topic list" where
  "topics = [WorkspaceUpdates, Community, Promotions, ProductUpdates]"

type_synonym preference_data = "topic \<Rightarrow> bool"

record preferences_form =
  pf_defaults :: preference_data
  pf_values :: preference_data
  pf_saveSuccess :: bool

definition open_form :: "preference_data option \<Rightarrow> preferences_form" where
  "open_form initialPreferences =
     (let d = (case initialPreferences of None \<Rightarrow> (\<lambda>_. True) | Some p \<Rightarrow> p)
      in \<lparr>pf_defaults = d, pf_values = d, pf_saveSuccess = False\<rparr>)"

definition refill_form :: "preference_data \<Rightarrow> preferences_form \<Rightarrow> preferences_form" where
  "refill_form p f = f\<lparr>pf_defaults := p, pf_values := p\<rparr>"

definition toggle_topic :: "topic \<Rightarrow> preferences_form \<Rightarrow> preferences_form" where
  "toggle_topic t f = f\<lparr>pf_values := (pf_values f)(t := \<not> pf_values f t)\<rparr>"

definition dirty_fields :: "preferences_form \<Rightarrow> topic list" where
  "dirty_fields f = filter (\<lambda>t. pf_values f t \<noteq> pf_defaults f t) topics"

definition is_dirty :: "preferences_form \<Rightarrow> bool" where
  "is_dirty f \<longleftrightarrow> dirty_fields f \<noteq> []"

definition changed_data :: "preferences_form \<Rightarrow> (topic \<times> bool) list" where
  "changed_data f = map (\<lambda>t. (t, pf_values f t)) (dirty_fields f)"

text \<open>Submitting: the data handed to \<open>onSave\<close>, and the form after it is answered. A rejected promise
  leaves the form as it is.\<close>

definition submit_preferences ::
  "((topic \<times> bool) list \<Rightarrow> bool) \<Rightarrow> preferences_form \<Rightarrow> (topic \<times> bool) list option \<times> preferences_form" where
  "submit_preferences onSave f =
     (let changedData = changed_data f
      in if changedData = [] then (None, f)
         else (Some changedData,
           if onSave changedData then (refill_form (pf_values f) f)\<lparr>pf_saveSuccess := True\<rparr> else f))"

definition clear_success :: "preferences_form \<Rightarrow> preferences_form" where \<comment> \<open>after three seconds\<close>
  "clear_success f = f\<lparr>pf_saveSuccess := False\<rparr>"

definition merge_preferences :: "(topic \<times> bool) list \<Rightarrow> preference_data \<Rightarrow> preference_data" where
  "merge_preferences changed p t = (case map_of changed t of None \<Rightarrow> p t | Some v \<Rightarrow> v)"

subsection \<open>The preferences page\<close>

datatype preferences_view =
    Invalid_Token string | Unsubscribed_View | Loading_View | Form_View "preference_data option"

text \<open>The answer of the query: under way, the status of a failure (None: no response), or the stored
  preferences, in which a topic may be missing.\<close>

datatype preferences_query = Query_Loading | Query_Failed_With "nat option" | Query_Data "topic \<Rightarrow> bool option"

definition initial_preferences :: "(topic \<Rightarrow> bool option) \<Rightarrow> preference_data" where
  "initial_preferences p t = (case p t of None \<Rightarrow> True | Some v \<Rightarrow> v)"

definition preferences_page :: "string option \<Rightarrow> preferences_query \<Rightarrow> bool \<Rightarrow> preferences_view" where
  "preferences_page token q isUnsubscribed =
     (if \<not> truthy token then Invalid_Token ''missing''
      else (case q of
         Query_Failed_With status \<Rightarrow> Invalid_Token (if status = Some 404 then ''expired'' else ''invalid'')
       | _ \<Rightarrow> if isUnsubscribed then Unsubscribed_View
              else (case q of Query_Data p \<Rightarrow> Form_View (Some (initial_preferences p)) | _ \<Rightarrow> Loading_View)))"

subsection \<open>Signing up\<close>

record newsletter_form =
  nf_email :: string
  nf_isSubmitted :: bool
  nf_toasts :: "(string \<times> string) list"

fun http_status :: "http_error \<Rightarrow> nat" where
  "http_status (BadRequest _) = 400"
| "http_status (Unauthorized _) = 401"
| "http_status (Forbidden _) = 403"
| "http_status (NotFound _) = 404"
| "http_status (Conflict _) = 409"
| "http_status (Unprocessable _) = 422"
| "http_status (TooManyRequests _) = 429"
| "http_status (ServerError _) = 500"

definition newsletter_submit :: "newsletter_form \<Rightarrow> string option" where \<comment> \<open>the address sent\<close>
  "newsletter_submit f = (if js_trim (nf_email f) = [] then None else Some (nf_email f))"

definition newsletter_answered :: "'a result \<Rightarrow> newsletter_form \<Rightarrow> newsletter_form" where
  "newsletter_answered r f = (case r of
     Inr _ \<Rightarrow> f\<lparr>nf_isSubmitted := True, nf_email := [],
       nf_toasts := nf_toasts f @ [(''success'', ''Successfully subscribed to the newsletter!'')]\<rparr>
   | Inl e \<Rightarrow> f\<lparr>nf_toasts := nf_toasts f @ [(''error'',
       if http_status e = 409 then ''This email is already subscribed.'' else ''An error occurred while subscribing.'')]\<rparr>)"

subsection \<open>The confirmation page\<close>

text \<open>\<open>fetch\<close> answers with a status, or fails (None); the page asks its own origin.\<close>

definition confirm_page :: "(string \<Rightarrow> nat option) \<Rightarrow> string option \<Rightarrow> string" where
  "confirm_page fetch token =
     (if \<not> truthy token then ''error''
      else (case fetch (the token) of
         None \<Rightarrow> ''error''
       | Some status \<Rightarrow> if 200 \<le> status \<and> status \<le> 299 then ''success'' else ''error''))"

subsection \<open>What the form sends and shows\<close>

lemma in_topics: "t \<in> set topics"
  by (cases t) (simp_all add: topics_def)

lemma map_of_changed: "map_of (changed_data f) t = (if pf_values f t \<noteq> pf_defaults f t then Some (pf_values f t) else None)"
  by (cases t) (auto simp: changed_data_def dirty_fields_def topics_def)

text \<open>The changes sent are the least that make the stored preferences those of the form: merged into the
  defaults they give the values shown, and no topic is sent that did not change. After a saved
  submission nothing is dirty; a second one sends nothing.\<close>

theorem submitted_changes_exact:
  "merge_preferences (changed_data f) (pf_defaults f) = pf_values f"
  "(t, v) \<in> set (changed_data f) \<longleftrightarrow> v = pf_values f t \<and> pf_values f t \<noteq> pf_defaults f t"
  "is_dirty f \<longleftrightarrow> (\<exists>t. pf_values f t \<noteq> pf_defaults f t)"
proof -
  show "merge_preferences (changed_data f) (pf_defaults f) = pf_values f"
    by (simp add: fun_eq_iff merge_preferences_def map_of_changed)
qed (auto simp: changed_data_def dirty_fields_def is_dirty_def filter_empty_conv in_topics)

theorem save_settles:
  assumes "is_dirty f" "onSave (changed_data f)"
  shows "\<not> is_dirty (snd (submit_preferences onSave f))"
    and "fst (submit_preferences onSave' (snd (submit_preferences onSave f))) = None"
    and "pf_values (snd (submit_preferences onSave f)) = pf_values f"
  using assms
  by (simp_all add: submit_preferences_def Let_def changed_data_def is_dirty_def dirty_fields_def refill_form_def)

lemma refused_save_keeps_form:
  "\<not> onSave (changed_data f) \<Longrightarrow> snd (submit_preferences onSave f) = f"
  by (simp add: submit_preferences_def Let_def)

lemma toggled_twice: "toggle_topic t (toggle_topic t f) = f"
  by (simp add: toggle_topic_def)

text \<open>A second sign-up with the same address is answered 400 by the server, which the form does not take
  for a known address: it reports an unknown error.\<close>

theorem known_address_reported_as_error:
  assumes "s \<in> set tbl" "ns_email s = nf_email f"
  shows "nf_toasts (newsletter_answered (fst (subscribe i c u now (nf_email f) ip tbl)) f) =
    nf_toasts f @ [(''error'', ''An error occurred while subscribing.'')]"
proof -
  obtain r where "find_row (\<lambda>s. ns_email s = nf_email f) tbl = Some r"
    using assms by (cases "find_row (\<lambda>s. ns_email s = nf_email f) tbl") (auto simp: find_row_None_iff)
  then show ?thesis by (simp add: subscribe_def newsletter_answered_def)
qed

end
