(* ===== verification/Notification_Center.thy ===== *)
theory Notification_Center
  imports Js_Strings JsTime JsNumber
begin

text \<open>
  The notification centre of the browser: which notifications count as read and for how long
  (frontend/src/hooks/useNotifications.ts), where one leads and how old it is
  (frontend/src/components/dashboard/NotificationCenter.tsx), and the wrapper around the local
  storage (frontend/src/lib/storage.ts, frontend/src/hooks/useLocalStorage.ts).
\<close>

subsection \<open>The wrapper of the local storage\<close>

text \<open>\<open>deserialize\<close> gives None when it throws; \<open>refused\<close> are the writes the browser refuses, by a
  full quota for instance. \<open>isClient\<close> is whether there is a window.\<close>

type_synonym local_storage = "string \<rightharpoonup> string"

definition storage_get :: "bool \<Rightarrow> (string \<Rightarrow> 'v option) \<Rightarrow> 'v option \<Rightarrow> string \<Rightarrow> local_storage \<Rightarrow> 'v option" where
  "storage_get isClient deserialize defaultValue key ls =
     (if \<not> isClient then defaultValue
      else (case ls key of None \<Rightarrow> defaultValue
            | Some item \<Rightarrow> (case deserialize item of Some v \<Rightarrow> Some v | None \<Rightarrow> defaultValue)))"

definition storage_set ::
  "bool \<Rightarrow> (string \<Rightarrow> string \<Rightarrow> bool) \<Rightarrow> ('v \<Rightarrow> string option) \<Rightarrow> string \<Rightarrow> 'v \<Rightarrow> local_storage \<Rightarrow> bool \<times> local_storage" where
  "storage_set isClient refused serialize key v ls =
     (if \<not> isClient then (False, ls)
      else (case serialize v of
              None \<Rightarrow> (False, ls)
            | Some s \<Rightarrow> if refused key s then (False, ls) else (True, ls(key \<mapsto> s))))"

definition storage_remove :: "bool \<Rightarrow> string \<Rightarrow> local_storage \<Rightarrow> bool \<times> local_storage" where
  "storage_remove isClient key ls = (if isClient then (True, ls(key := None)) else (False, ls))"

definition storage_clear :: "bool \<Rightarrow> local_storage \<Rightarrow> bool \<times> local_storage" where
  "storage_clear isClient ls = (if isClient then (True, Map.empty) else (False, ls))"

definition storage_has :: "bool \<Rightarrow> string \<Rightarrow> local_storage \<Rightarrow> bool" where
  "storage_has isClient key ls \<longleftrightarrow> isClient \<and> ls key \<noteq> None"

text \<open>\<open>useLocalStorage\<close>: the value after the mount, and a change of it with what it writes.\<close>

definition hydrate :: "(string \<Rightarrow> 'v option) \<Rightarrow> 'v \<Rightarrow> string \<Rightarrow> local_storage \<Rightarrow> 'v" where
  "hydrate parse initialValue key ls =
     (case ls key of None \<Rightarrow> initialValue
      | Some item \<Rightarrow> (case parse item of Some v \<Rightarrow> v | None \<Rightarrow> initialValue))"

definition set_stored :: "('v \<Rightarrow> string) \<Rightarrow> string \<Rightarrow> ('v \<Rightarrow> 'v) \<Rightarrow> 'v \<Rightarrow> local_storage \<Rightarrow> 'v \<times> local_storage" where
  "set_stored serialize key f prev ls = (f prev, ls(key \<mapsto> serialize (f prev)))"

text \<open>A write that succeeds is read back and leaves the other keys alone; one that fails changes
  nothing.\<close>

lemma storage_roundtrip:
  assumes "\<And>s. serialize v = Some s \<Longrightarrow> deserialize s = Some v"
  shows "(if fst (storage_set c refused serialize key v ls)
      then storage_get c deserialize dflt key (snd (storage_set c refused serialize key v ls)) = Some v
      else snd (storage_set c refused serialize key v ls) = ls) \<and>
    (k \<noteq> key \<longrightarrow> snd (storage_set c refused serialize key v ls) k = ls k)"
  using assms by (auto simp: storage_set_def storage_get_def split: option.splits)

subsection \<open>Which notifications are read\<close>

definition READ_NOTIFICATION_MAX_AGE_MS :: int where "READ_NOTIFICATION_MAX_AGE_MS = 30 * 24 * 60 * 60 * 1000"

text \<open>What the item of the local storage holds: the object of read times (its entries that are numbers;
  the others are dropped when it is read), or the array of ids of earlier versions.\<close>

datatype read_cell = No_Item | Unparsable | Legacy_Ids "string list" | Read_Times "string \<rightharpoonup> int" | Other_Value

definition retained :: "instant \<Rightarrow> (string \<rightharpoonup> int) \<Rightarrow> string \<rightharpoonup> int" where
  "retained now m = (\<lambda>i. case m i of Some t \<Rightarrow> if now - t \<le> READ_NOTIFICATION_MAX_AGE_MS then Some t else None | None \<Rightarrow> None)"

definition read_stored_notification_store :: "instant \<Rightarrow> read_cell \<Rightarrow> (string \<rightharpoonup> int) \<times> read_cell" where
  "read_stored_notification_store now cell =
     (case cell of
        No_Item \<Rightarrow> (Map.empty, cell)
      | Unparsable \<Rightarrow> (Map.empty, cell)
      | Legacy_Ids ids \<Rightarrow> (let r = retained now (\<lambda>i. if i \<in> set ids then Some now else None) in (r, Read_Times r))
      | Read_Times m \<Rightarrow> (let r = retained now m in (r, Read_Times r))
      | Other_Value \<Rightarrow> (Map.empty, Read_Times Map.empty))"

definition persist_read_notification_ids :: "instant \<Rightarrow> (string \<Rightarrow> bool) \<Rightarrow> read_cell \<Rightarrow> read_cell" where
  "persist_read_notification_ids now ids cell =
     (let v = fst (read_stored_notification_store now cell)
      in Read_Times (\<lambda>i. if ids i \<and> v i \<in> {None, Some 0} then Some now else v i))"

record notification_state =
  ns_readIds :: "string \<Rightarrow> bool"
  ns_cell :: read_cell

definition mount_notifications :: "instant \<Rightarrow> notification_state \<Rightarrow> notification_state" where
  "mount_notifications now s =
     (case read_stored_notification_store now (ns_cell s) of (v, cell) \<Rightarrow>
        \<lparr>ns_readIds = (\<lambda>i. v i \<noteq> None), ns_cell = cell\<rparr>)"

definition mark_as_read :: "instant \<Rightarrow> string \<Rightarrow> notification_state \<Rightarrow> notification_state" where
  "mark_as_read now i s =
     (if ns_readIds s i then s
      else (let nxt = (ns_readIds s)(i := True)
            in \<lparr>ns_readIds = nxt, ns_cell = persist_read_notification_ids now nxt (ns_cell s)\<rparr>))"

definition mark_all_as_read :: "instant \<Rightarrow> string list \<Rightarrow> notification_state \<Rightarrow> notification_state" where
  "mark_all_as_read now ids s =
     (let nxt = (\<lambda>i. ns_readIds s i \<or> i \<in> set ids)
      in \<lparr>ns_readIds = nxt, ns_cell = persist_read_notification_ids now nxt (ns_cell s)\<rparr>)"

definition unread_count :: "string list \<Rightarrow> notification_state \<Rightarrow> nat" where
  "unread_count ids s = length (filter (\<lambda>i. \<not> ns_readIds s i) ids)"

datatype notification_op = Mount instant | Mark instant string | Mark_All instant "string list"

fun op_time :: "notification_op \<Rightarrow> instant" where
  "op_time (Mount t) = t" | "op_time (Mark t i) = t" | "op_time (Mark_All t ids) = t"

fun notification_step :: "notification_op \<Rightarrow> notification_state \<Rightarrow> notification_state" where
  "notification_step (Mount t) s = mount_notifications t s"
| "notification_step (Mark t i) s = mark_as_read t i s"
| "notification_step (Mark_All t ids) s = mark_all_as_read t ids s"

text \<open>An id stamped at an instant of the period stays stamped and read.\<close>

definition stamped :: "instant \<Rightarrow> string \<Rightarrow> notification_state \<Rightarrow> bool" where
  "stamped t0 i s \<longleftrightarrow> ns_readIds s i \<and> (\<exists>m t. ns_cell s = Read_Times m \<and> m i = Some t \<and> t0 \<le> t)"

lemma stamped_persist:
  assumes "m i = Some t" "t0 \<le> t" "0 < t0" "now \<le> t0 + READ_NOTIFICATION_MAX_AGE_MS"
  shows "\<exists>m'. persist_read_notification_ids now ids (Read_Times m) = Read_Times m' \<and> m' i = Some t"
  using assms
  by (auto simp: persist_read_notification_ids_def read_stored_notification_store_def retained_def Let_def)

lemma stamped_step:
  assumes "stamped t0 i s" "0 < t0" "op_time p \<le> t0 + READ_NOTIFICATION_MAX_AGE_MS"
  shows "stamped t0 i (notification_step p s)"
proof -
  from assms(1) obtain m t where m: "ns_cell s = Read_Times m" "m i = Some t" "t0 \<le> t" "ns_readIds s i"
    by (auto simp: stamped_def)
  show ?thesis
  proof (cases p)
    case (Mount now)
    then show ?thesis
      using m assms(3)
      by (auto simp: stamped_def mount_notifications_def read_stored_notification_store_def retained_def Let_def)
  next
    case (Mark now j)
    then show ?thesis
      using m assms stamped_persist [of m i t t0 now "(ns_readIds s)(j := True)"]
      by (auto simp: stamped_def mark_as_read_def Let_def)
  next
    case (Mark_All now ids)
    then show ?thesis
      using m assms stamped_persist [of m i t t0 now "\<lambda>i. ns_readIds s i \<or> i \<in> set ids"]
      by (auto simp: stamped_def mark_all_as_read_def Let_def)
  qed
qed

lemma mark_stamps:
  assumes "\<not> ns_readIds s i" "0 < t0" "0 \<le> u" and "\<And>m t. ns_cell s = Read_Times m \<Longrightarrow> m i = Some t \<Longrightarrow> t = 0"
  shows "stamped t0 i (mark_as_read t0 i s)"
proof -
  have "fst (read_stored_notification_store t0 (ns_cell s)) i \<in> {None, Some 0, Some t0}"
    using assms(4) by (cases "ns_cell s") (auto simp: read_stored_notification_store_def retained_def Let_def split: option.splits)
  then show ?thesis
    using assms(1,2) by (auto simp: stamped_def mark_as_read_def persist_read_notification_ids_def Let_def)
qed

text \<open>A notification marked as read stays read for thirty days at least: through any number of page
  loads and further marks within them, whatever else the storage held before. It may stay so longer,
  because a tab that is still open stamps every id it shows as read anew.\<close>

theorem read_for_thirty_days:
  assumes "\<not> ns_readIds s i" "0 < t0" "\<And>m. ns_cell s = Read_Times m \<Longrightarrow> m i = None"
    and "list_all (\<lambda>p. op_time p \<le> t0 + READ_NOTIFICATION_MAX_AGE_MS) ops"
  shows "ns_readIds (fold notification_step ops (mark_as_read t0 i s)) i"
proof -
  have "stamped t0 i (fold notification_step ops x)" if "stamped t0 i x" for x
    using that assms(4) by (induction ops arbitrary: x) (auto intro: stamped_step [OF _ assms(2)])
  moreover have "stamped t0 i (mark_as_read t0 i s)"
    using assms(1-3) by (intro mark_stamps [where u = 0]) auto
  ultimately show ?thesis by (simp add: stamped_def)
qed

lemma read_for_thirty_days_witness:
  "ns_readIds (fold notification_step [Mount 2592000001, Mark 2592000001 ''b'', Mount 2592000001]
     (mark_as_read 1 ''a'' \<lparr>ns_readIds = (\<lambda>_. False), ns_cell = No_Item\<rparr>)) ''a''"
  by (rule read_for_thirty_days) (simp_all add: READ_NOTIFICATION_MAX_AGE_MS_def)

lemma read_forgotten:
  "\<not> ns_readIds (mount_notifications 2592000002 (mark_as_read 1 ''a'' \<lparr>ns_readIds = (\<lambda>_. False), ns_cell = No_Item\<rparr>)) ''a''"
  by (simp add: mount_notifications_def mark_as_read_def persist_read_notification_ids_def
      read_stored_notification_store_def retained_def READ_NOTIFICATION_MAX_AGE_MS_def Let_def)

subsection \<open>Where a notification leads\<close>

record notification_item =
  ni_id :: string
  ni_icon :: "string option"
  ni_description :: string
  ni_timestamp :: string
  ni_type :: "string option"
  ni_contextPath :: "string option"

text \<open>The expression \<open>clock.?in\<close>: at most one character other than a line end between the two parts.\<close>

fun parts_near :: "string \<Rightarrow> string \<Rightarrow> string \<Rightarrow> bool" where
  "parts_near a b [] \<longleftrightarrow> a @ b = []"
| "parts_near a b (c # s) \<longleftrightarrow>
     (starts_with a (c # s) \<and>
      (let r = drop (length a) (c # s)
       in starts_with b r \<or> (r \<noteq> [] \<and> hd r \<notin> {CHR 0x0A, CHR 0x0D} \<and> starts_with b (tl r)))) \<or> parts_near a b s"

definition notification_context_path :: "notification_item \<Rightarrow> string" where
  "notification_context_path n =
     (let text = js_lower (ni_description n)
      in if truthy (ni_contextPath n) then the (ni_contextPath n)
         else if ni_type n = Some ''booking'' \<or> contains_text ''booking'' text then ''/dashboard/bookings''
         else if ni_type n = Some ''attendance'' \<or> contains_text ''attendance'' text
                 \<or> parts_near ''clock'' ''in'' text \<or> parts_near ''clock'' ''out'' text then ''/dashboard/attendance''
         else ''/profile'')"

definition time_ago :: "instant \<Rightarrow> instant \<Rightarrow> string" where
  "time_ago now t =
     (let seconds = max 0 \<lfloor>js_div (js_int (now - t)) 1000\<rfloor>
      in if seconds < 60 then ''Just now''
         else if seconds < 3600 then int_string \<lfloor>js_div (js_int seconds) 60\<rfloor> @ ''m ago''
         else if seconds < 86400 then int_string \<lfloor>js_div (js_int seconds) 3600\<rfloor> @ ''h ago''
         else int_string \<lfloor>js_div (js_int seconds) 86400\<rfloor> @ ''d ago'')"

lemma context_path_known:
  "ni_contextPath n = None \<Longrightarrow>
   notification_context_path n \<in> {''/dashboard/bookings'', ''/dashboard/attendance'', ''/profile''}"
  by (simp add: notification_context_path_def Let_def)

end
