(* ===== verification/Notification_Gateway.thy ===== *)
theory Notification_Gateway
  imports Guards Account_Forms
begin

text \<open>
  The live notifications of the server: the socket gateway and the service that emits through it
  (backend/src/notifications/notifications.gateway.ts, notifications.service.ts). The services leave
  what they emit in the notifications of the database record (Entities.send_to_user and
  send_to_all); here it reaches the sockets. \<open>verify\<close> is the verification of the JWT library. The
  lemmas: who receives what, that a revoked token still opens a socket, and that a registration is
  announced to every socket.
\<close>

subsection \<open>The gateway\<close>

text \<open>A connected socket with the room it joined; a token without a subject joins none that is addressed.\<close>

record socket =
  sk_id :: string
  sk_room :: "uuid option"

type_synonym gateway = "socket list"

record handshake =
  hk_id :: string
  hk_token :: "string option" \<comment> \<open>\<open>handshake.auth.token\<close>\<close>
  hk_authorization :: "string option"

text \<open>\<open>replace('Bearer ', '')\<close>: the first occurrence.\<close>

fun remove_first :: "string \<Rightarrow> string \<Rightarrow> string" where
  "remove_first p [] = []"
| "remove_first p (c # s) = (if starts_with p (c # s) then drop (length p) (c # s) else c # remove_first p s)"

definition handshake_token :: "handshake \<Rightarrow> string option" where
  "handshake_token h =
     (if truthy (hk_token h) then hk_token h else map_option (remove_first ''Bearer '') (hk_authorization h))"

text \<open>A socket that is refused is disconnected before anything is sent to it.\<close>

definition handle_connection ::
  "(instant \<Rightarrow> string \<Rightarrow> claims option) \<Rightarrow> instant \<Rightarrow> handshake \<Rightarrow> gateway \<Rightarrow> gateway" where
  "handle_connection verify now h g =
     (let token = handshake_token h
      in if \<not> truthy token then g
         else (case verify now (the token) of
                 None \<Rightarrow> g
               | Some payload \<Rightarrow> g @ [\<lparr>sk_id = hk_id h, sk_room = cl_sub payload\<rparr>]))"

definition handle_disconnect :: "string \<Rightarrow> gateway \<Rightarrow> gateway" where
  "handle_disconnect i g = filter (\<lambda>k. sk_id k \<noteq> i) g"

text \<open>\<open>sendToUser\<close> and \<open>sendToAll\<close>: the socket, the event and its data, in the order of the sockets.\<close>

definition emit_to :: "gateway \<Rightarrow> notification \<Rightarrow> (string \<times> string \<times> json) list" where
  "emit_to g n =
     map (\<lambda>k. (sk_id k, nt_event n, nt_data n))
       (filter (\<lambda>k. nt_room n = None \<or> sk_room k = nt_room n) g)"

datatype gateway_event = Connects instant handshake | Disconnects string

fun gateway_step :: "(instant \<Rightarrow> string \<Rightarrow> claims option) \<Rightarrow> gateway_event \<Rightarrow> gateway \<Rightarrow> gateway" where
  "gateway_step verify (Connects now h) g = handle_connection verify now h g"
| "gateway_step verify (Disconnects i) g = handle_disconnect i g"

subsection \<open>Who receives a notification\<close>

lemma emit_to_iff:
  "(i, e, x) \<in> set (emit_to g n) \<longleftrightarrow>
     e = nt_event n \<and> x = nt_data n \<and> (\<exists>k \<in> set g. sk_id k = i \<and> (nt_room n = None \<or> sk_room k = nt_room n))"
  by (auto simp: emit_to_def)

lemma gateway_step_keeps:
  "k \<in> set g \<Longrightarrow> ev \<noteq> Disconnects (sk_id k) \<Longrightarrow> k \<in> set (gateway_step verify ev g)"
  by (cases ev) (auto simp: handle_connection_def handle_disconnect_def Let_def split: option.splits)

lemma gateway_steps_keep:
  "k \<in> set g \<Longrightarrow> Disconnects (sk_id k) \<notin> set evs \<Longrightarrow> k \<in> set (fold (gateway_step verify) evs g)"
  by (induction evs arbitrary: g) (simp_all add: gateway_step_keeps eq_commute)

text \<open>Every socket came in with a token that was valid then, and is in the room of its subject.\<close>

definition admitted :: "(instant \<Rightarrow> string \<Rightarrow> claims option) \<Rightarrow> socket \<Rightarrow> bool" where
  "admitted verify k \<longleftrightarrow> (\<exists>now tok p. tok \<noteq> [] \<and> verify now tok = Some p \<and> sk_room k = cl_sub p)"

lemma gateway_admitted:
  "\<forall>k \<in> set g. admitted verify k \<Longrightarrow> \<forall>k \<in> set (fold (gateway_step verify) evs g). admitted verify k"
proof (induction evs arbitrary: g)
  case (Cons ev evs)
  have "\<forall>k \<in> set (gateway_step verify ev g). admitted verify k"
  proof (cases ev)
    case (Connects now h)
    have "admitted verify \<lparr>sk_id = hk_id h, sk_room = cl_sub p\<rparr>"
      if "truthy (handshake_token h)" "verify now (the (handshake_token h)) = Some p" for p
      using that unfolding admitted_def by (cases "handshake_token h") auto
    then show ?thesis using Cons.prems Connects
      by (auto simp: handle_connection_def Let_def split: option.splits)
  next
    case (Disconnects i)
    then show ?thesis using Cons.prems by (simp add: handle_disconnect_def)
  qed
  then show ?case using Cons.IH by simp
qed simp

text \<open>A log-out does not reach the sockets. With a token that is revoked, and that every protected route
  refuses for this reason, a socket still connects, and until it disconnects itself it receives
  everything sent to its user and to all.\<close>

theorem revoked_token_opens_socket:
  assumes "verify now tok = Some p" "tok \<noteq> []" "hk_token h = Some tok"
    and "cl_jti p = Some j" "j \<noteq> []" "is_blacklisted now j c"
    and "ge_verify env now (hr_authorization req) = Some p" "\<not> ro_public ro"
    and "Disconnects (hk_id h) \<notin> set evs" "nt_room n = None \<or> nt_room n = cl_sub p"
  shows "jwt_auth_guard env now c ro req = Inl (Unauthorized ''Token has been revoked'') \<and>
    (hk_id h, nt_event n, nt_data n) \<in>
      set (emit_to (fold (gateway_step verify) evs (handle_connection verify now h g)) n)"
proof
  show "jwt_auth_guard env now c ro req = Inl (Unauthorized ''Token has been revoked'')"
    using assms(4-8) by (simp add: jwt_auth_guard_def jwt_validate_def)
  let ?k = "\<lparr>sk_id = hk_id h, sk_room = cl_sub p\<rparr>"
  have "?k \<in> set (handle_connection verify now h g)"
    using assms(1-3) by (simp add: handle_connection_def handshake_token_def)
  then have "?k \<in> set (fold (gateway_step verify) evs (handle_connection verify now h g))"
    using assms(9) by (intro gateway_steps_keep) simp_all
  then show "(hk_id h, nt_event n, nt_data n) \<in>
      set (emit_to (fold (gateway_step verify) evs (handle_connection verify now h g)) n)"
    using assms(10) unfolding emit_to_iff by force
qed

lemma revoked_token_opens_socket_witness:
  "let p = \<lparr>cl_sub = Some ''u1'', cl_email = None, cl_role = None, cl_jti = Some ''j1'', cl_exp = None, cl_scope = None,
       cl_clientId = None\<rparr>;
       h = \<lparr>hk_id = ''s1'', hk_token = Some ''t'', hk_authorization = None\<rparr>
   in (''s1'', ''booking:cancelled'', JNull) \<in>
     set (emit_to (handle_connection (\<lambda>_ _. Some p) 5 h []) \<lparr>nt_room = Some ''u1'', nt_event = ''booking:cancelled'', nt_data = JNull\<rparr>)"
proof -
  let ?p = "\<lparr>cl_sub = Some ''u1'', cl_email = None, cl_role = None, cl_jti = Some ''j1'', cl_exp = None, cl_scope = None,
    cl_clientId = None\<rparr>"
  have b: "is_blacklisted 5 ''j1'' (blacklist_token 4 ''j1'' 1000 [])" by code_simp
  show ?thesis
    using revoked_token_opens_socket [of "\<lambda>_ _. Some ?p" 5 "''t''" ?p "\<lparr>hk_id = ''s1'', hk_token = Some ''t'', hk_authorization = None\<rparr>"
      "''j1''" "blacklist_token 4 ''j1'' 1000 []" "\<lparr>ge_verify = \<lambda>_ _. Some ?p, ge_throttle = \<lambda>_. True\<rparr>" bearer_patch
      patch_user_route "[]" "\<lparr>nt_room = Some ''u1'', nt_event = ''booking:cancelled'', nt_data = JNull\<rparr>" "[]"] b
    by (simp add: patch_user_route_def plain_route_def)
qed

text \<open>Every registration tells every connected socket the address of the new member.\<close>

theorem registration_announced:
  assumes "register_route lib r now (register_body f) s = (Inr msg, s')"
  shows "\<exists>n. db_notifications (ac_db s') = db_notifications (ac_db s) @ [n] \<and>
    (\<forall>k \<in> set g. (sk_id k, ''member:registered'',
       JObj [(''email'', JStr (sanitize_string_value (rf_email f))), (''userId'', JStr (ar_rowId r))]) \<in> set (emit_to g n))"
  using assms
  by (auto simp: register_body_route register_def Let_def create_user_def save_user_def user_of_def send_mail_def
    send_to_all_def emit_to_iff split: if_splits prod.splits sum.splits)

end
