(* ===== verification/Query_Cache.thy ===== *)
theory Query_Cache
  imports JsNumber "HOL-Library.Sublist" "HOL-Library.DAList"
begin

text \<open>
  The query cache of the browser: the keys of frontend/src/lib/react-query/keys/queryKeys.ts, the
  optimistic updates of useCancelBooking.ts and useConfirmBooking.ts with their roll-back, the
  invalidation of useCreateBooking.ts, the same pattern in
  frontend/src/components/dashboard/AdminUserTable.tsx with its pages, and the dialog of
  frontend/src/components/bookings/BookingActions.tsx. The cache is the query library's: the record
  of its operations is a parameter, \<open>query_client_ok\<close> states what its documentation promises.
\<close>

subsection \<open>Keys and data\<close>

datatype key_part = Key_Text string | Key_Number nat | Key_Null

type_synonym query_key = "key_part list"

definition bookings_all :: query_key where "bookings_all = [Key_Text ''bookings'']"

definition bookings_list :: "string option \<Rightarrow> query_key" where
  "bookings_list tab = (if tab \<noteq> None \<and> tab \<noteq> Some [] then [Key_Text ''bookings'', Key_Text (the tab)] else [Key_Text ''bookings''])"

definition booking_detail :: "string \<Rightarrow> query_key" where
  "booking_detail i = [Key_Text ''booking'', Key_Text i]"

definition newsletter_preferences :: "string option \<Rightarrow> query_key" where
  "newsletter_preferences token = [Key_Text ''newsletter'', Key_Text ''preferences'',
     (case token of None \<Rightarrow> Key_Null | Some t \<Rightarrow> Key_Text t)]"

record shown_booking =
  sb_id :: string
  sb_workspaceName :: string
  sb_memberName :: "string option"
  sb_date :: string
  sb_startTime :: string
  sb_endTime :: string
  sb_amount :: num
  sb_status :: string
  sb_createdAt :: "string option"
  sb_updatedAt :: "string option"
  sb_refundAmount :: "num option"

record shown_user =
  su_id :: string
  su_name :: string
  su_email :: string
  su_role :: string
  su_verified :: bool
  su_active :: bool

record users_response =
  ur_users :: "shown_user list"
  ur_total :: nat
  ur_page :: nat
  ur_totalPages :: nat

datatype cached =
    Booking_List "shown_booking list"
  | One_Booking shown_booking
  | Users_Page users_response

subsection \<open>The query client\<close>

record 'c query_client =
  qc_getQueryData :: "query_key \<Rightarrow> 'c \<Rightarrow> cached option"
  qc_setQueryData :: "query_key \<Rightarrow> (cached option \<Rightarrow> cached option) \<Rightarrow> 'c \<Rightarrow> 'c"
  qc_getQueriesData :: "query_key \<Rightarrow> 'c \<Rightarrow> (query_key \<times> cached option) list"
  qc_setQueriesData :: "query_key \<Rightarrow> (cached option \<Rightarrow> cached option) \<Rightarrow> 'c \<Rightarrow> 'c"
  qc_cancelQueries :: "query_key \<Rightarrow> 'c \<Rightarrow> 'c"
  qc_invalidateQueries :: "query_key \<Rightarrow> 'c \<Rightarrow> 'c"
  qc_isInvalidated :: "query_key \<Rightarrow> 'c \<Rightarrow> bool"

text \<open>An updater that returns nothing leaves the data. A filter selects the queries whose key begins with
  it. Cancelling stops requests under way and changes no data; invalidating marks.\<close>

definition updated :: "(cached option \<Rightarrow> cached option) \<Rightarrow> cached option \<Rightarrow> cached option" where
  "updated f old = (case f old of None \<Rightarrow> old | Some d \<Rightarrow> Some d)"

definition query_client_ok :: "'c query_client \<Rightarrow> bool" where
  "query_client_ok qc \<longleftrightarrow>
     (\<forall>k f c j. qc_getQueryData qc j (qc_setQueryData qc k f c) =
        (if j = k then updated f (qc_getQueryData qc k c) else qc_getQueryData qc j c)) \<and>
     (\<forall>p c. distinct (map fst (qc_getQueriesData qc p c)) \<and>
        (\<forall>(k, d) \<in> set (qc_getQueriesData qc p c). prefix p k \<and> d = qc_getQueryData qc k c) \<and>
        (\<forall>k. prefix p k \<longrightarrow> qc_getQueryData qc k c \<noteq> None \<longrightarrow> k \<in> fst ` set (qc_getQueriesData qc p c))) \<and>
     (\<forall>p f c k. qc_getQueryData qc k (qc_setQueriesData qc p f c) =
        (if k \<in> fst ` set (qc_getQueriesData qc p c) then updated f (qc_getQueryData qc k c) else qc_getQueryData qc k c)) \<and>
     (\<forall>p c k. qc_getQueryData qc k (qc_cancelQueries qc p c) = qc_getQueryData qc k c) \<and>
     (\<forall>p c k. qc_getQueryData qc k (qc_invalidateQueries qc p c) = qc_getQueryData qc k c) \<and>
     (\<forall>p c k. qc_getQueryData qc k c \<noteq> None \<longrightarrow>
        qc_isInvalidated qc k (qc_invalidateQueries qc p c) = (prefix p k \<or> qc_isInvalidated qc k c))"

subsection \<open>Optimistic updates of bookings\<close>

record mutation_context =
  mc_previousBookingsList :: "(query_key \<times> cached option) list"
  mc_previousBooking :: "cached option"

definition with_status :: "string \<Rightarrow> string \<Rightarrow> shown_booking \<Rightarrow> shown_booking" where
  "with_status i status b = (if sb_id b = i then b\<lparr>sb_status := status\<rparr> else b)"

text \<open>Below the key of the lists there are only lists.\<close>

definition list_updater :: "string \<Rightarrow> string \<Rightarrow> cached option \<Rightarrow> cached option" where
  "list_updater i status old = (case old of Some (Booking_List bs) \<Rightarrow> Some (Booking_List (map (with_status i status) bs)) | _ \<Rightarrow> old)"

definition detail_updater :: "string \<Rightarrow> cached option \<Rightarrow> cached option" where
  "detail_updater status old = (case old of Some (One_Booking b) \<Rightarrow> Some (One_Booking (b\<lparr>sb_status := status\<rparr>)) | _ \<Rightarrow> old)"

definition on_mutate :: "'c query_client \<Rightarrow> string \<Rightarrow> string \<Rightarrow> 'c \<Rightarrow> 'c \<times> mutation_context" where
  "on_mutate qc status i c0 =
     (let c1 = qc_cancelQueries qc bookings_all c0;
          c2 = qc_cancelQueries qc (booking_detail i) c1;
          previousBookingsList = qc_getQueriesData qc bookings_all c2;
          previousBooking = qc_getQueryData qc (booking_detail i) c2;
          c3 = qc_setQueriesData qc bookings_all (list_updater i status) c2;
          c4 = qc_setQueryData qc (booking_detail i) (detail_updater status) c3
      in (c4, \<lparr>mc_previousBookingsList = previousBookingsList, mc_previousBooking = previousBooking\<rparr>))"

definition restore_lists :: "'c query_client \<Rightarrow> (query_key \<times> cached option) list \<Rightarrow> 'c \<Rightarrow> 'c" where
  "restore_lists qc = fold (\<lambda>(k, d). qc_setQueryData qc k (\<lambda>_. d))"

definition roll_back :: "'c query_client \<Rightarrow> string \<Rightarrow> mutation_context \<Rightarrow> 'c \<Rightarrow> 'c" where
  "roll_back qc i ctx c =
     (let c1 = restore_lists qc (mc_previousBookingsList ctx) c
      in case mc_previousBooking ctx of None \<Rightarrow> c1
         | Some b \<Rightarrow> qc_setQueryData qc (booking_detail i) (\<lambda>_. Some b) c1)"

definition on_settled :: "'c query_client \<Rightarrow> string \<Rightarrow> 'c \<Rightarrow> 'c" where
  "on_settled qc i c = qc_invalidateQueries qc (booking_detail i) (qc_invalidateQueries qc bookings_all c)"

text \<open>Both hooks: the request is answered with success or not, with nothing in between.\<close>

definition use_cancel_booking :: "'c query_client \<Rightarrow> (string \<Rightarrow> bool) \<Rightarrow> string \<Rightarrow> 'c \<Rightarrow> 'c" where
  "use_cancel_booking qc cancelBooking i c =
     (let (c1, ctx) = on_mutate qc ''cancelled'' i c
      in on_settled qc i (if cancelBooking i then c1 else roll_back qc i ctx c1))"

definition use_confirm_booking :: "'c query_client \<Rightarrow> (string \<Rightarrow> bool) \<Rightarrow> string \<Rightarrow> 'c \<Rightarrow> 'c" where
  "use_confirm_booking qc confirmBooking i c =
     (let (c1, ctx) = on_mutate qc ''confirmed'' i c
      in on_settled qc i (if confirmBooking i then c1 else roll_back qc i ctx c1))"

definition use_create_booking :: "'c query_client \<Rightarrow> bool \<Rightarrow> 'c \<Rightarrow> 'c" where
  "use_create_booking qc created c = (if created then qc_invalidateQueries qc bookings_all c else c)"

subsection \<open>The user table\<close>

record user_filters =
  uf_currentPage :: nat
  uf_search :: string
  uf_roleFilter :: string

definition users_key :: "user_filters \<Rightarrow> query_key" where
  "users_key f = [Key_Text ''users'', Key_Number (uf_currentPage f), Key_Text (uf_search f), Key_Text (uf_roleFilter f)]"

definition users_all :: query_key where "users_all = [Key_Text ''users'']"

definition users_updater :: "string \<Rightarrow> (shown_user \<Rightarrow> shown_user) \<Rightarrow> cached option \<Rightarrow> cached option" where
  "users_updater userId g old = (case old of
     Some (Users_Page r) \<Rightarrow> Some (Users_Page (r\<lparr>ur_users := map (\<lambda>u. if su_id u = userId then g u else u) (ur_users r)\<rparr>))
   | _ \<Rightarrow> old)"

text \<open>The row changes under the key of the page shown when the request is sent; a failure writes the rows
  kept under the key of the page shown when the answer comes, since the callbacks are those of the
  last rendering.\<close>

definition users_on_mutate ::
  "'c query_client \<Rightarrow> user_filters \<Rightarrow> string \<Rightarrow> (shown_user \<Rightarrow> shown_user) \<Rightarrow> 'c \<Rightarrow> 'c \<times> cached option" where
  "users_on_mutate qc filters userId g c0 =
     (let c1 = qc_cancelQueries qc users_all c0;
          previousData = qc_getQueryData qc (users_key filters) c1
      in (qc_setQueryData qc (users_key filters) (users_updater userId g) c1, previousData))"

definition update_role_on_mutate ::
  "'c query_client \<Rightarrow> user_filters \<Rightarrow> string \<Rightarrow> string \<Rightarrow> 'c \<Rightarrow> 'c \<times> cached option" where
  "update_role_on_mutate qc filters userId role = users_on_mutate qc filters userId (\<lambda>u. u\<lparr>su_role := role\<rparr>)"

definition toggle_active_on_mutate ::
  "'c query_client \<Rightarrow> user_filters \<Rightarrow> string \<Rightarrow> bool \<Rightarrow> 'c \<Rightarrow> 'c \<times> cached option" where
  "toggle_active_on_mutate qc filters userId active = users_on_mutate qc filters userId (\<lambda>u. u\<lparr>su_active := active\<rparr>)"

definition users_on_error :: "'c query_client \<Rightarrow> user_filters \<Rightarrow> cached option \<Rightarrow> 'c \<Rightarrow> 'c" where
  "users_on_error qc filters previousData c =
     (case previousData of None \<Rightarrow> c | Some d \<Rightarrow> qc_setQueryData qc (users_key filters) (\<lambda>_. Some d) c)"

definition delete_user_on_success :: "'c query_client \<Rightarrow> 'c \<Rightarrow> 'c" where
  "delete_user_on_success qc = qc_invalidateQueries qc users_all"

definition set_search :: "string \<Rightarrow> user_filters \<Rightarrow> user_filters" where
  "set_search v f = f\<lparr>uf_search := v\<rparr>"

definition set_role_filter :: "string \<Rightarrow> user_filters \<Rightarrow> user_filters" where
  "set_role_filter v f = f\<lparr>uf_roleFilter := v\<rparr>"

definition prev_users_page :: "user_filters \<Rightarrow> user_filters" where
  "prev_users_page f = f\<lparr>uf_currentPage := max 1 (uf_currentPage f - 1)\<rparr>"

definition next_users_page :: "users_response \<Rightarrow> user_filters \<Rightarrow> user_filters" where
  "next_users_page r f = f\<lparr>uf_currentPage := min (ur_totalPages r) (uf_currentPage f + 1)\<rparr>"

record page_controls =
  pg_from :: nat
  pg_to :: nat
  pg_of :: nat
  pg_prevEnabled :: bool
  pg_nextEnabled :: bool

definition user_pagination :: "users_response \<Rightarrow> nat \<Rightarrow> page_controls option" where
  "user_pagination r currentPage =
     (if ur_totalPages r \<le> 1 then None
      else Some \<lparr>pg_from = (currentPage - 1) * 10 + 1, pg_to = min (currentPage * 10) (ur_total r), pg_of = ur_total r,
        pg_prevEnabled = (currentPage \<noteq> 1), pg_nextEnabled = (currentPage \<noteq> ur_totalPages r)\<rparr>)"

subsection \<open>The buttons of a booking\<close>

record booking_actions =
  ba_showCancelModal :: bool
  ba_confirmText :: string
  ba_confirmPending :: bool
  ba_cancelPending :: bool

definition CONFIRM_TEXT :: string where "CONFIRM_TEXT = ''CANCEL''"

definition is_cancellable :: "string \<Rightarrow> bool" where
  "is_cancellable status \<longleftrightarrow> status = ''pending'' \<or> status = ''confirmed''"

definition actions_shown :: "bool \<Rightarrow> string \<Rightarrow> bool" where
  "actions_shown isAdmin status \<longleftrightarrow> isAdmin \<or> is_cancellable status"

definition can_press_confirm :: "bool \<Rightarrow> string \<Rightarrow> booking_actions \<Rightarrow> bool" where
  "can_press_confirm isAdmin status s \<longleftrightarrow> isAdmin \<and> status = ''pending'' \<and> \<not> (ba_confirmPending s \<or> ba_cancelPending s)"

definition can_open_cancel :: "bool \<Rightarrow> string \<Rightarrow> booking_actions \<Rightarrow> bool" where
  "can_open_cancel isAdmin status s \<longleftrightarrow>
     (isAdmin \<or> is_cancellable status) \<and> \<not> (ba_confirmPending s \<or> ba_cancelPending s \<or> \<not> is_cancellable status)"

definition can_confirm_cancel :: "booking_actions \<Rightarrow> bool" where
  "can_confirm_cancel s \<longleftrightarrow> ba_showCancelModal s \<and> \<not> (ba_confirmText s \<noteq> CONFIRM_TEXT \<or> ba_cancelPending s)"

datatype action_event =
    Press_Confirm | Confirm_Settled | Open_Cancel | Keep_Booking | Dismiss_Dialog | Type_Text string
  | Confirm_Cancel | Cancel_Done | Cancel_Failed

text \<open>The second component tells whether a request to cancel is sent.\<close>

definition action_step :: "bool \<Rightarrow> string \<Rightarrow> action_event \<Rightarrow> booking_actions \<Rightarrow> booking_actions \<times> bool" where
  "action_step isAdmin status e s = (case e of
     Press_Confirm \<Rightarrow> (if can_press_confirm isAdmin status s then s\<lparr>ba_confirmPending := True\<rparr> else s, False)
   | Confirm_Settled \<Rightarrow> (s\<lparr>ba_confirmPending := False\<rparr>, False)
   | Open_Cancel \<Rightarrow> (if can_open_cancel isAdmin status s then s\<lparr>ba_showCancelModal := True\<rparr> else s, False)
   | Keep_Booking \<Rightarrow> (if ba_showCancelModal s \<and> \<not> ba_cancelPending s then s\<lparr>ba_showCancelModal := False\<rparr> else s, False)
   | Dismiss_Dialog \<Rightarrow> (s\<lparr>ba_showCancelModal := False\<rparr>, False)
   | Type_Text t \<Rightarrow> (if ba_showCancelModal s then s\<lparr>ba_confirmText := t\<rparr> else s, False)
   | Confirm_Cancel \<Rightarrow> (if can_confirm_cancel s then (s\<lparr>ba_cancelPending := True\<rparr>, True) else (s, False))
   | Cancel_Done \<Rightarrow> (s\<lparr>ba_cancelPending := False, ba_showCancelModal := False, ba_confirmText := []\<rparr>, False)
   | Cancel_Failed \<Rightarrow> (s\<lparr>ba_cancelPending := False\<rparr>, False))"

definition fresh_actions :: booking_actions where
  "fresh_actions = \<lparr>ba_showCancelModal = False, ba_confirmText = [], ba_confirmPending = False, ba_cancelPending = False\<rparr>"

fun requests_sent :: "bool \<Rightarrow> string \<Rightarrow> action_event list \<Rightarrow> booking_actions \<Rightarrow> bool list" where
  "requests_sent isAdmin status [] s = []"
| "requests_sent isAdmin status (e # es) s =
     snd (action_step isAdmin status e s) # requests_sent isAdmin status es (fst (action_step isAdmin status e s))"

section \<open>What the updates do\<close>

text \<open>
  What the optimistic updates do to the query cache: a refused one restores every entry, two refused
  ones that overlap do not, and the user table can write the rows of one page over another. Then the
  page controls of that table and the dialog that asks for the word CANCEL.
\<close>

subsection \<open>The laws of the query client\<close>

lemma query_client_laws:
  assumes "query_client_ok qc"
  shows "qc_getQueryData qc j (qc_setQueryData qc k f c) =
      (if j = k then updated f (qc_getQueryData qc k c) else qc_getQueryData qc j c)"
    and "distinct (map fst (qc_getQueriesData qc p c))"
    and "(k, d) \<in> set (qc_getQueriesData qc p c) \<Longrightarrow> prefix p k \<and> d = qc_getQueryData qc k c"
    and "prefix p k \<Longrightarrow> qc_getQueryData qc k c \<noteq> None \<Longrightarrow> k \<in> fst ` set (qc_getQueriesData qc p c)"
    and "qc_getQueryData qc k (qc_setQueriesData qc p f c) =
      (if k \<in> fst ` set (qc_getQueriesData qc p c) then updated f (qc_getQueryData qc k c) else qc_getQueryData qc k c)"
    and "qc_getQueryData qc k (qc_cancelQueries qc p c) = qc_getQueryData qc k c"
    and "qc_getQueryData qc k (qc_invalidateQueries qc p c) = qc_getQueryData qc k c"
    and "qc_getQueryData qc k c \<noteq> None \<Longrightarrow>
      qc_isInvalidated qc k (qc_invalidateQueries qc p c) = (prefix p k \<or> qc_isInvalidated qc k c)"
proof -
  show "(k, d) \<in> set (qc_getQueriesData qc p c) \<Longrightarrow> prefix p k \<and> d = qc_getQueryData qc k c"
    using assms unfolding query_client_ok_def by blast
  show "prefix p k \<Longrightarrow> qc_getQueryData qc k c \<noteq> None \<Longrightarrow> k \<in> fst ` set (qc_getQueriesData qc p c)"
    using assms unfolding query_client_ok_def by blast
qed (use assms in \<open>simp_all add: query_client_ok_def\<close>)

lemma updater_None [simp]: "updated (list_updater i s) None = None" "updated (detail_updater s) None = None"
  "updated (users_updater u g) None = None" "updated (\<lambda>_. None) d = d" "updated (\<lambda>_. Some x) d = Some x"
  by (simp_all add: updated_def list_updater_def detail_updater_def users_updater_def)

lemma detail_not_listed [simp]: "\<not> prefix bookings_all (booking_detail i)"
  by (simp add: bookings_all_def booking_detail_def)

text \<open>An updater that keeps an absent entry absent acts on exactly the lists that are there.\<close>

lemma get_set_lists:
  assumes "query_client_ok qc"
  shows "qc_getQueryData qc k (qc_setQueriesData qc bookings_all (list_updater i s) c) =
    (if prefix bookings_all k then updated (list_updater i s) (qc_getQueryData qc k c) else qc_getQueryData qc k c)"
proof (cases "k \<in> fst ` set (qc_getQueriesData qc bookings_all c)")
  case True
  then have "prefix bookings_all k" using query_client_laws(3) [OF assms] by fastforce
  then show ?thesis by (simp add: query_client_laws(5) [OF assms] True)
next
  case False
  then show ?thesis
    using query_client_laws(4) [OF assms, of bookings_all k c]
    by (cases "qc_getQueryData qc k c") (auto simp: query_client_laws(5) [OF assms])
qed

lemma get_restore_lists:
  assumes ok: "query_client_ok qc" and "distinct (map fst ps)"
  shows "qc_getQueryData qc k (restore_lists qc ps c) =
    (case map_of ps k of Some (Some d) \<Rightarrow> Some d | _ \<Rightarrow> qc_getQueryData qc k c)"
  using assms(2)
proof (induction ps arbitrary: c)
  case (Cons x ps)
  obtain j d where x: "x = (j, d)" by fastforce
  have "map_of ps j = None" using Cons.prems by (simp add: x map_of_eq_None_iff)
  then show ?case
    using Cons by (cases d)
      (auto simp: restore_lists_def x query_client_laws(1) [OF ok] split: option.splits)
qed (simp add: restore_lists_def)

lemma map_of_lists:
  assumes ok: "query_client_ok qc"
  shows "(case map_of (qc_getQueriesData qc bookings_all c) k of Some (Some d) \<Rightarrow> Some d | _ \<Rightarrow> e) =
    (if prefix bookings_all k \<and> qc_getQueryData qc k c \<noteq> None then qc_getQueryData qc k c else e)"
proof (cases "map_of (qc_getQueriesData qc bookings_all c) k")
  case None
  then have "k \<notin> fst ` set (qc_getQueriesData qc bookings_all c)" by (simp only: map_of_eq_None_iff not_False_eq_True)
  then show ?thesis
    unfolding None using query_client_laws(4) [OF ok, of bookings_all k c] by (auto simp del: image_iff)
next
  case (Some d)
  then have "prefix bookings_all k \<and> d = qc_getQueryData qc k c"
    by (intro query_client_laws(3) [OF ok] map_of_SomeD)
  then show ?thesis using Some by (cases d) auto
qed

text \<open>The cache in the middle and the snapshot.\<close>

lemma get_on_mutate:
  assumes ok: "query_client_ok qc"
  shows "qc_getQueryData qc k (fst (on_mutate qc s i c)) =
      (if k = booking_detail i then updated (detail_updater s) (qc_getQueryData qc k c)
       else if prefix bookings_all k then updated (list_updater i s) (qc_getQueryData qc k c)
       else qc_getQueryData qc k c)"
    and "mc_previousBooking (snd (on_mutate qc s i c)) = qc_getQueryData qc (booking_detail i) c"
    and "distinct (map fst (mc_previousBookingsList (snd (on_mutate qc s i c))))"
    and "(case map_of (mc_previousBookingsList (snd (on_mutate qc s i c))) k of Some (Some d) \<Rightarrow> Some d | _ \<Rightarrow> e) =
      (if prefix bookings_all k \<and> qc_getQueryData qc k c \<noteq> None then qc_getQueryData qc k c else e)"
  using query_client_laws(2) [OF ok]
  by (auto simp: on_mutate_def Let_def query_client_laws(1,6) [OF ok] get_set_lists [OF ok] map_of_lists [OF ok])

lemma get_roll_back:
  assumes ok: "query_client_ok qc"
  shows "qc_getQueryData qc k (roll_back qc i (snd (on_mutate qc s i c)) c') =
    (if k = booking_detail i \<or> prefix bookings_all k
     then (case qc_getQueryData qc k c of None \<Rightarrow> qc_getQueryData qc k c' | Some d \<Rightarrow> Some d)
     else qc_getQueryData qc k c')"
  by (auto simp: roll_back_def Let_def query_client_laws(1) [OF ok] get_restore_lists [OF ok get_on_mutate(3) [OF ok]]
      get_on_mutate(2,4) [OF ok] split: option.splits)

subsection \<open>Bookings\<close>

text \<open>A refused cancellation or confirmation leaves every entry as it was.\<close>

lemma rollback_restores:
  assumes "query_client_ok qc"
  shows "qc_getQueryData qc k (roll_back qc i (snd (on_mutate qc s i c)) (fst (on_mutate qc s i c))) = qc_getQueryData qc k c"
  by (auto simp: get_roll_back [OF assms] get_on_mutate(1) [OF assms] split: option.splits)

lemma settled_data:
  "query_client_ok qc \<Longrightarrow> qc_getQueryData qc k (on_settled qc i c) = qc_getQueryData qc k c"
  by (simp add: on_settled_def query_client_laws(7))

lemma settled_stale:
  assumes ok: "query_client_ok qc" and d: "qc_getQueryData qc k c \<noteq> None"
    and k: "prefix bookings_all k \<or> prefix (booking_detail i) k"
  shows "qc_isInvalidated qc k (on_settled qc i c)"
  using k d by (auto simp: on_settled_def query_client_laws(7,8) [OF ok])

text \<open>A query client that keeps the laws: a map from keys to data and marks.\<close>

type_synonym listed_cache = "(query_key, cached \<times> bool) alist"

definition listed_get :: "query_key \<Rightarrow> listed_cache \<Rightarrow> cached option" where
  "listed_get k c = map_option fst (DAList.lookup c k)"

definition listed_set :: "query_key \<Rightarrow> (cached option \<Rightarrow> cached option) \<Rightarrow> listed_cache \<Rightarrow> listed_cache" where
  "listed_set k f c = (case f (listed_get k c) of None \<Rightarrow> c | Some d \<Rightarrow> DAList.update k (d, False) c)"

definition listed_keys :: "query_key \<Rightarrow> listed_cache \<Rightarrow> query_key list" where
  "listed_keys p c = filter (prefix p) (map fst (DAList.impl_of c))"

definition mark_entry :: "query_key \<Rightarrow> listed_cache \<Rightarrow> listed_cache" where
  "mark_entry k c = (case listed_get k c of None \<Rightarrow> c | Some d \<Rightarrow> DAList.update k (d, True) c)"

definition listed_client :: "listed_cache query_client" where
  "listed_client = \<lparr>qc_getQueryData = listed_get, qc_setQueryData = listed_set,
     qc_getQueriesData = (\<lambda>p c. map (\<lambda>k. (k, listed_get k c)) (listed_keys p c)),
     qc_setQueriesData = (\<lambda>p f c. fold (\<lambda>k. listed_set k f) (listed_keys p c) c),
     qc_cancelQueries = (\<lambda>_ c. c),
     qc_invalidateQueries = (\<lambda>p c. fold mark_entry (listed_keys p c) c),
     qc_isInvalidated = (\<lambda>k c. case DAList.lookup c k of Some (_, b) \<Rightarrow> b | None \<Rightarrow> False)\<rparr>"

lemma listed_get_set: "listed_get j (listed_set k f c) = (if j = k then updated f (listed_get k c) else listed_get j c)"
  by (auto simp: listed_get_def listed_set_def updated_def split: option.splits)

lemma listed_keys_distinct: "distinct (listed_keys p c)"
  by (simp add: listed_keys_def distinct_filter)

lemma listed_key_iff: "k \<in> set (listed_keys p c) \<longleftrightarrow> prefix p k \<and> listed_get k c \<noteq> None"
  by (auto simp: listed_keys_def listed_get_def DAList.lookup_def image_iff map_of_eq_None_iff
      dest: map_of_SomeD split: option.splits)

lemma listed_get_fold: "distinct ks \<Longrightarrow> listed_get k (fold (\<lambda>k. listed_set k f) ks c) =
    (if k \<in> set ks then updated f (listed_get k c) else listed_get k c)"
  by (induction ks arbitrary: c) (auto simp: listed_get_set)

lemma listed_mark: "listed_get j (mark_entry k c) = listed_get j c"
  "DAList.lookup (mark_entry k c) j = (if j = k then map_option (\<lambda>(d, _). (d, True)) (DAList.lookup c j) else DAList.lookup c j)"
  by (cases "j = k"; auto simp: listed_get_def mark_entry_def split: option.splits)+

lemma listed_marks: "listed_get j (fold mark_entry ks c) = listed_get j c"
  "DAList.lookup (fold mark_entry ks c) j =
     (if j \<in> set ks then map_option (\<lambda>(d, _). (d, True)) (DAList.lookup c j) else DAList.lookup c j)"
  by (induction ks arbitrary: c) (auto simp: listed_mark option.map_comp comp_def case_prod_unfold)

lemma listed_marked: "listed_get k c \<noteq> None \<Longrightarrow>
    (case DAList.lookup (fold mark_entry (listed_keys p c) c) k of Some (_, b) \<Rightarrow> b | None \<Rightarrow> False) =
    (prefix p k \<or> (case DAList.lookup c k of Some (_, b) \<Rightarrow> b | None \<Rightarrow> False))"
  by (auto simp: listed_marks listed_key_iff listed_get_def)

lemma listed_client_ok: "query_client_ok listed_client"
proof -
  have m: "map fst (map (\<lambda>k. (k, listed_get k c)) ks) = ks" for c ks by (simp add: comp_def)
  have i: "fst ` set (map (\<lambda>k. (k, listed_get k c)) ks) = set ks" for c ks by force
  show ?thesis
    unfolding query_client_ok_def listed_client_def query_client.simps m i
    by (intro conjI allI)
      (auto simp: listed_get_set listed_keys_distinct listed_key_iff listed_get_fold listed_marks(1) listed_marked)
qed

definition sample_booking :: shown_booking where
  "sample_booking = \<lparr>sb_id = ''b'', sb_workspaceName = ''Desk'', sb_memberName = None, sb_date = ''2026-01-05'',
     sb_startTime = ''09:00'', sb_endTime = ''10:00'', sb_amount = 10, sb_status = ''pending'',
     sb_createdAt = None, sb_updatedAt = None, sb_refundAmount = None\<rparr>"

definition sample_cache :: listed_cache where
  "sample_cache = DAList.update (bookings_list (Some ''all'')) (Booking_List [sample_booking], False) DAList.empty"

text \<open>The optimistic cancellation: between request and answer every list and the page of the booking
  show it cancelled and nothing else changes; a refusal restores every entry of the cache; in both
  cases every list and the page of the booking are fetched anew.\<close>

theorem optimistic_cancel_exact:
  assumes ok: "query_client_ok qc"
  shows "(\<forall>k. qc_getQueryData qc k (use_cancel_booking qc answer i c) =
      (if \<not> answer i then qc_getQueryData qc k c
       else if k = booking_detail i then updated (detail_updater ''cancelled'') (qc_getQueryData qc k c)
       else if prefix bookings_all k then updated (list_updater i ''cancelled'') (qc_getQueryData qc k c)
       else qc_getQueryData qc k c)) \<and>
    (\<forall>k. (prefix bookings_all k \<or> k = booking_detail i) \<longrightarrow>
       qc_getQueryData qc k (use_cancel_booking qc answer i c) \<noteq> None \<longrightarrow>
       qc_isInvalidated qc k (use_cancel_booking qc answer i c))"
proof (intro conjI allI impI)
  obtain c1 ctx where m: "on_mutate qc ''cancelled'' i c = (c1, ctx)" by fastforce
  have u: "use_cancel_booking qc answer i c = on_settled qc i (if answer i then c1 else roll_back qc i ctx c1)"
    by (simp add: use_cancel_booking_def m)
  show "qc_getQueryData qc k (use_cancel_booking qc answer i c) =
      (if \<not> answer i then qc_getQueryData qc k c
       else if k = booking_detail i then updated (detail_updater ''cancelled'') (qc_getQueryData qc k c)
       else if prefix bookings_all k then updated (list_updater i ''cancelled'') (qc_getQueryData qc k c)
       else qc_getQueryData qc k c)" for k
    using get_on_mutate(1) [OF ok, of k "''cancelled''" i c] rollback_restores [OF ok, of k i "''cancelled''" c]
    by (simp add: u settled_data [OF ok] m)
  show "qc_isInvalidated qc k (use_cancel_booking qc answer i c)"
    if "prefix bookings_all k \<or> k = booking_detail i" "qc_getQueryData qc k (use_cancel_booking qc answer i c) \<noteq> None" for k
    using that unfolding u settled_data [OF ok] by (intro settled_stale [OF ok]) auto
qed

theorem optimistic_cancel_exact_witness:
  "listed_get (bookings_list (Some ''all'')) (use_cancel_booking listed_client (\<lambda>_. True) ''b'' sample_cache)
     = Some (Booking_List [sample_booking\<lparr>sb_status := ''cancelled''\<rparr>]) \<and>
   listed_get (bookings_list (Some ''all'')) (use_cancel_booking listed_client (\<lambda>_. False) ''b'' sample_cache)
     = Some (Booking_List [sample_booking])"
proof -
  let ?k = "bookings_list (Some ''all'')"
  have k: "prefix bookings_all ?k" "?k \<noteq> booking_detail ''b''"
    by (simp_all add: bookings_all_def bookings_list_def booking_detail_def)
  have g: "listed_get ?k sample_cache = Some (Booking_List [sample_booking])"
    by (simp add: listed_get_def sample_cache_def)
  have q: "qc_getQueryData listed_client = listed_get" by (simp add: listed_client_def)
  show ?thesis
    using optimistic_cancel_exact [OF listed_client_ok, of "\<lambda>_. True" "''b''" sample_cache]
      optimistic_cancel_exact [OF listed_client_ok, of "\<lambda>_. False" "''b''" sample_cache] k g
    unfolding q by (simp add: updated_def list_updater_def with_status_def sample_booking_def)
qed

text \<open>Two cancellations that overlap and are both refused: the second one's snapshot was taken while the
  first was shown as done, and restoring it shows the first booking cancelled. The entry is marked,
  so it is wrong until the list is fetched again.\<close>

theorem overlapping_refusals_show_cancelled:
  fixes qc :: "'c query_client" and c :: 'c and i j :: string
  assumes ok: "query_client_ok qc" and k: "prefix bookings_all k"
    and d: "qc_getQueryData qc k c = Some (Booking_List bs)"
  defines "c1 \<equiv> fst (on_mutate qc ''cancelled'' i c)"
  defines "c2 \<equiv> fst (on_mutate qc ''cancelled'' j c1)"
  defines "c3 \<equiv> on_settled qc i (roll_back qc i (snd (on_mutate qc ''cancelled'' i c)) c2)"
  defines "c4 \<equiv> on_settled qc j (roll_back qc j (snd (on_mutate qc ''cancelled'' j c1)) c3)"
  shows "qc_getQueryData qc k c4 = Some (Booking_List (map (with_status i ''cancelled'') bs)) \<and> qc_isInvalidated qc k c4"
proof -
  have nd: "k \<noteq> booking_detail x" for x using k by auto
  have 1: "qc_getQueryData qc k c1 = Some (Booking_List (map (with_status i ''cancelled'') bs))"
    by (simp add: c1_def get_on_mutate(1) [OF ok] nd k d updated_def list_updater_def)
  have "qc_getQueryData qc k (roll_back qc j (snd (on_mutate qc ''cancelled'' j c1)) c3) = qc_getQueryData qc k c1"
    by (simp add: get_roll_back [OF ok] k 1)
  then show ?thesis
    using 1 k by (simp add: c4_def settled_data [OF ok] settled_stale [OF ok])
qed

subsection \<open>The user table\<close>

lemma users_row_get:
  assumes ok: "query_client_ok qc"
  shows "qc_getQueryData qc k (fst (users_on_mutate qc f i g c)) =
      (if k = users_key f then updated (users_updater i g) (qc_getQueryData qc k c) else qc_getQueryData qc k c)"
    and "snd (users_on_mutate qc f i g c) = qc_getQueryData qc (users_key f) c"
  by (simp_all add: users_on_mutate_def Let_def query_client_laws(1,6) [OF ok])

text \<open>A refused change of a role, answered while the table shows \<open>g\<close>: on the same page everything is
  restored; on another one the old rows of the first page are written over the rows shown, the first
  page keeps the role that was refused, and no entry is marked.\<close>

theorem refused_role_change_exact:
  assumes ok: "query_client_ok qc" and d: "qc_getQueryData qc (users_key f) c = Some (Users_Page r)"
  shows "qc_getQueryData qc k (users_on_error qc g (snd (update_role_on_mutate qc f i role c))
        (fst (update_role_on_mutate qc f i role c))) =
    (if k = users_key g then Some (Users_Page r)
     else if k = users_key f then updated (users_updater i (\<lambda>u. u\<lparr>su_role := role\<rparr>)) (Some (Users_Page r))
     else qc_getQueryData qc k c)"
  by (simp add: update_role_on_mutate_def users_on_error_def users_row_get [OF ok] d query_client_laws(1) [OF ok])

text \<open>The numbers of the pages are the rows shown; a search keeps the page number, and when its result
  has one page the controls are gone: the table stays on a page that is empty.\<close>

lemma page_text_exact:
  assumes "user_pagination r n = Some p" "1 \<le> n" "n \<le> ur_totalPages r" "ur_totalPages r = (ur_total r + 9) div 10"
  shows "1 \<le> pg_from p" "pg_from p \<le> pg_to p" "pg_to p \<le> ur_total r"
    "pg_to p - pg_from p < 10" "pg_nextEnabled p \<longleftrightarrow> n * 10 < ur_total r"
proof -
  have p: "pg_from p = (n - 1) * 10 + 1" "pg_to p = min (n * 10) (ur_total r)" "pg_nextEnabled p = (n \<noteq> ur_totalPages r)"
    using assms(1) by (auto simp: user_pagination_def split: if_splits)
  have "(n - 1) * 10 < ur_total r" using assms(2-4) by linarith
  then show "1 \<le> pg_from p" "pg_from p \<le> pg_to p" "pg_to p \<le> ur_total r" "pg_to p - pg_from p < 10"
    using assms(2) by (simp_all add: p) 
  show "pg_nextEnabled p \<longleftrightarrow> n * 10 < ur_total r" unfolding p using assms(3,4) by linarith
qed

lemma narrowed_search_strands:
  fixes xs :: "shown_user list"
  assumes "1 < uf_currentPage f" "ur_total r \<le> 10" "ur_totalPages r = (ur_total r + 9) div 10" "length xs = ur_total r"
  shows "user_pagination r (uf_currentPage (set_search v f)) = None \<and>
    take 10 (drop ((uf_currentPage (set_search v f) - 1) * 10) xs) = []"
proof -
  have "(ur_total r + 9) div 10 \<le> 1" using assms(2) by linarith
  moreover have "10 \<le> (uf_currentPage f - 1) * 10" using assms(1) by simp
  ultimately show ?thesis using assms(2-4) by (simp add: user_pagination_def set_search_def)
qed

subsection \<open>The dialog\<close>

text \<open>A request to cancel is sent only while the word stands in the field, at most one at a time, and
  never for a booking that can no longer be cancelled when the dialog was opened.\<close>

lemma cancel_sent_typed:
  "snd (action_step isAdmin status e s) \<Longrightarrow>
    e = Confirm_Cancel \<and> ba_showCancelModal s \<and> ba_confirmText s = CONFIRM_TEXT \<and> \<not> ba_cancelPending s"
  by (cases e) (auto simp: action_step_def can_confirm_cancel_def split: if_splits)

text \<open>Keeping the booking does not clear the word: opened again, the dialog sends at one press.\<close>

lemma kept_booking_stays_armed:
  "requests_sent False ''pending'' [Open_Cancel, Type_Text ''CANCEL'', Keep_Booking, Open_Cancel, Confirm_Cancel] fresh_actions
     = [False, False, False, False, True]"
  by (simp add: action_step_def fresh_actions_def can_open_cancel_def can_confirm_cancel_def is_cancellable_def CONFIRM_TEXT_def)

end
