(* ===== verification/Session_Events.thy ===== *)
theory Session_Events
  imports Prelude
begin

text \<open>
  The stream of session events (backend/src/auth/session-broadcast.service.ts and the handlers
  \<open>logoutAll\<close> and \<open>sessionEvents\<close> of backend/src/auth/auth.controller.ts). The service holds a map from
  users to subjects; a subject is a cell of a store, since a connection keeps its reference after the
  map has dropped it. A subject is a list of its observers and a flag, as rxjs documents it:
  \<open>complete\<close> sets the flag, takes the observers out one by one and completes each, and completing the
  subscriber of a connection runs its teardown at once, which calls the service again. These nested
  calls are the steps of a work list. The theorems: the invariant of the store, whom a broadcast
  reaches, and that one connection that closes ends all the others of its user.
\<close>

subsection \<open>Subjects and connections\<close>

record connection =
  cn_id :: nat
  cn_user :: uuid

record subject =
  sj_observers :: "connection list"
  sj_stopped :: bool

text \<open>What a client receives: the end of the stream, an event, or a heartbeat.\<close>

datatype frame = Session_Revoked uuid instant | Heartbeat instant | Stream_End

record event_hub =
  eh_subjects :: "uuid \<Rightarrow> nat option" \<comment> \<open>\<open>sessionEvents\<close>\<close>
  eh_store :: "subject list"
  eh_sent :: "(nat \<times> frame) list"

definition no_streams :: event_hub where
  "no_streams = \<lparr>eh_subjects = (\<lambda>_. None), eh_store = [], eh_sent = []\<rparr>"

definition send :: "connection list \<Rightarrow> frame \<Rightarrow> event_hub \<Rightarrow> event_hub" where
  "send cs f h = h\<lparr>eh_sent := eh_sent h @ map (\<lambda>c. (cn_id c, f)) cs\<rparr>"

definition running :: "nat \<Rightarrow> event_hub \<Rightarrow> bool" where
  "running r h \<longleftrightarrow> r < length (eh_store h) \<and> \<not> sj_stopped (eh_store h ! r)"

definition stop_subject :: "nat \<Rightarrow> event_hub \<Rightarrow> event_hub" where
  "stop_subject r h = h\<lparr>eh_store := (eh_store h)[r := \<lparr>sj_observers = [], sj_stopped = True\<rparr>]\<rparr>"

definition forget_subject :: "uuid \<Rightarrow> event_hub \<Rightarrow> event_hub" where
  "forget_subject userId h = h\<lparr>eh_subjects := (eh_subjects h)(userId := None)\<rparr>"

subsection \<open>The service\<close>

definition get_session_event_stream :: "uuid \<Rightarrow> event_hub \<Rightarrow> nat \<times> event_hub" where
  "get_session_event_stream userId h =
     (case eh_subjects h userId of
        Some r \<Rightarrow> (r, h)
      | None \<Rightarrow> (let r = length (eh_store h) in
          (r, h\<lparr>eh_store := eh_store h @ [\<lparr>sj_observers = [], sj_stopped = False\<rparr>],
                eh_subjects := (eh_subjects h)(userId \<mapsto> r)\<rparr>)))"

definition broadcast_session_revocation :: "instant \<Rightarrow> uuid \<Rightarrow> event_hub \<Rightarrow> event_hub" where
  "broadcast_session_revocation now userId h =
     (case eh_subjects h userId of
        None \<Rightarrow> h
      | Some r \<Rightarrow> if running r h then send (sj_observers (eh_store h ! r)) (Session_Revoked userId now) h else h)"

text \<open>The calls still to make: clean up for a user, drop the user from the map, complete a connection
  (whose teardown cleans up for its user).\<close>

datatype call = Clean uuid | Drop uuid | Complete connection

definition running_count :: "event_hub \<Rightarrow> nat" where
  "running_count h = length (filter (\<lambda>s. \<not> sj_stopped s) (eh_store h))"

fun call_weight :: "call \<Rightarrow> nat" where
  "call_weight (Complete _) = 3" | "call_weight (Clean _) = 2" | "call_weight (Drop _) = 1"

lemma running_count_stop: "running r h \<Longrightarrow> running_count (stop_subject r h) < running_count h"
proof -
  have "r < length ss \<Longrightarrow> \<not> sj_stopped (ss ! r) \<Longrightarrow>
      length (filter (\<lambda>s. \<not> sj_stopped s) (ss[r := \<lparr>sj_observers = [], sj_stopped = True\<rparr>]))
        < length (filter (\<lambda>s. \<not> sj_stopped s) ss)" for ss :: "subject list"
  proof (induction ss arbitrary: r)
    case (Cons s ss)
    then show ?case by (cases r) auto
  qed simp
  then show "running r h \<Longrightarrow> running_count (stop_subject r h) < running_count h"
    by (simp add: running_count_def stop_subject_def running_def)
qed

lemma running_count_simps [simp]:
  "running_count (send cs f h) = running_count h"
  "running_count (forget_subject u h) = running_count h"
  by (simp_all add: running_count_def send_def forget_subject_def)

function run_calls :: "call list \<Rightarrow> event_hub \<Rightarrow> event_hub" where
  "run_calls [] h = h"
| "run_calls (Clean userId # cs) h =
     (case eh_subjects h userId of
        None \<Rightarrow> run_calls cs h
      | Some r \<Rightarrow>
          if running r h
          then run_calls (map Complete (sj_observers (eh_store h ! r)) @ Drop userId # cs) (stop_subject r h)
          else run_calls (Drop userId # cs) h)"
| "run_calls (Drop userId # cs) h = run_calls cs (forget_subject userId h)"
| "run_calls (Complete c # cs) h = run_calls (Clean (cn_user c) # cs) (send [c] Stream_End h)"
  by pat_completeness auto
termination
  by (relation "measures [\<lambda>(cs, h). running_count h, \<lambda>(cs, h). sum_list (map call_weight cs)]")
    (auto simp: running_count_stop)

definition cleanup_session_stream :: "uuid \<Rightarrow> event_hub \<Rightarrow> event_hub" where
  "cleanup_session_stream userId = run_calls [Clean userId]"

subsection \<open>The handlers\<close>

text \<open>A request first gets the subject, and subscribes when the framework subscribes to the observable
  it returned. A subject that stopped in between completes the subscriber at once.\<close>

definition session_events :: "connection \<Rightarrow> event_hub \<Rightarrow> nat \<times> event_hub" where
  "session_events c h = get_session_event_stream (cn_user c) h"

definition subscribe_events :: "connection \<Rightarrow> nat \<Rightarrow> event_hub \<Rightarrow> event_hub" where
  "subscribe_events c r h =
     (if running r h
      then h\<lparr>eh_store := (eh_store h)[r := (eh_store h ! r)\<lparr>sj_observers := sj_observers (eh_store h ! r) @ [c]\<rparr>]\<rparr>
      else run_calls [Complete c] h)"

definition attached :: "connection \<Rightarrow> event_hub \<Rightarrow> bool" where
  "attached c h \<longleftrightarrow> (\<exists>s \<in> set (eh_store h). c \<in> set (sj_observers s))"

definition heartbeat :: "instant \<Rightarrow> connection \<Rightarrow> event_hub \<Rightarrow> event_hub" where
  "heartbeat now c h = (if attached c h then send [c] (Heartbeat now) h else h)"

text \<open>The client closes an open connection: the teardown of its subscriber.\<close>

definition detach :: "connection \<Rightarrow> event_hub \<Rightarrow> event_hub" where
  "detach c h = h\<lparr>eh_store := map (\<lambda>s. s\<lparr>sj_observers := removeAll c (sj_observers s)\<rparr>) (eh_store h)\<rparr>"

definition close_events :: "connection \<Rightarrow> event_hub \<Rightarrow> event_hub" where
  "close_events c h = (if attached c h then cleanup_session_stream (cn_user c) (detach c h) else h)"

definition logout_all_events :: "instant \<Rightarrow> uuid \<Rightarrow> event_hub \<Rightarrow> event_hub" where
  "logout_all_events now userId h = broadcast_session_revocation now userId h"

text \<open>The hub with the requests that hold a subject and have not subscribed yet.\<close>

type_synonym hub_state = "event_hub \<times> (connection \<times> nat) list"

inductive hub_step :: "hub_state \<Rightarrow> hub_state \<Rightarrow> bool" where
  requests: "\<not> attached c h \<Longrightarrow> c \<notin> fst ` set p \<Longrightarrow>
    hub_step (h, p) (snd (session_events c h), (c, fst (session_events c h)) # p)"
| subscribes: "(c, r) \<in> set p \<Longrightarrow> hub_step (h, p) (subscribe_events c r h, filter (\<lambda>x. fst x \<noteq> c) p)"
| beats: "hub_step (h, p) (heartbeat now c h, p)"
| closes: "hub_step (h, p) (close_events c h, p)"
| revokes: "hub_step (h, p) (logout_all_events now u h, p)"

subsection \<open>The invariant\<close>

text \<open>The map holds running subjects only, each of one user, and a connection observes the subject of its
  user, once.\<close>

definition hub_ok :: "event_hub \<Rightarrow> bool" where
  "hub_ok h \<longleftrightarrow> (\<forall>u r. eh_subjects h u = Some r \<longrightarrow> running r h) \<and>
     (\<forall>u v r. eh_subjects h u = Some r \<longrightarrow> eh_subjects h v = Some r \<longrightarrow> u = v) \<and>
     (\<forall>r < length (eh_store h). distinct (sj_observers (eh_store h ! r)) \<and>
        (\<forall>c \<in> set (sj_observers (eh_store h ! r)). eh_subjects h (cn_user c) = Some r))"

definition pending_ok :: "hub_state \<Rightarrow> bool" where
  "pending_ok s \<longleftrightarrow> (\<forall>(c, r) \<in> set (snd s). \<not> attached c (fst s) \<and> r < length (eh_store (fst s)) \<and>
     (running r (fst s) \<longrightarrow> eh_subjects (fst s) (cn_user c) = Some r))"

lemma hub_okD:
  assumes "hub_ok h"
  shows "eh_subjects h u = Some r \<Longrightarrow> running r h"
    and "r < length (eh_store h) \<Longrightarrow> distinct (sj_observers (eh_store h ! r))"
    and "r < length (eh_store h) \<Longrightarrow> c \<in> set (sj_observers (eh_store h ! r)) \<Longrightarrow> eh_subjects h (cn_user c) = Some r"
    and "eh_subjects h u = Some r \<Longrightarrow> eh_subjects h v = Some r \<Longrightarrow> u = v"
    and "eh_subjects h u = Some r \<Longrightarrow> r < length (eh_store h)"
  using assms by (auto simp: hub_ok_def running_def)

lemma send_fields [simp]:
  "eh_subjects (send cs f h) = eh_subjects h" "eh_store (send cs f h) = eh_store h"
  "eh_sent (send cs f h) = eh_sent h @ map (\<lambda>c. (cn_id c, f)) cs"
  "running r (send cs f h) = running r h" "attached c (send cs f h) = attached c h"
  "hub_ok (send cs f h) = hub_ok h"
  by (simp_all add: send_def running_def attached_def hub_ok_def)

lemma forget_fields [simp]:
  "eh_subjects (forget_subject u h) = (eh_subjects h)(u := None)" "eh_store (forget_subject u h) = eh_store h"
  "eh_sent (forget_subject u h) = eh_sent h" "running r (forget_subject u h) = running r h"
  "attached c (forget_subject u h) = attached c h"
  by (simp_all add: forget_subject_def running_def attached_def)

lemma stop_fields [simp]:
  "eh_subjects (stop_subject r h) = eh_subjects h" "eh_sent (stop_subject r h) = eh_sent h"
  "eh_store (stop_subject r h) = (eh_store h)[r := \<lparr>sj_observers = [], sj_stopped = True\<rparr>]"
  by (simp_all add: stop_subject_def)

lemma running_stop [simp]: "running q (stop_subject r h) \<longleftrightarrow> q \<noteq> r \<and> running q h"
  by (cases "r = q") (auto simp: stop_subject_def running_def)

lemma attached_nth: "attached c h \<longleftrightarrow> (\<exists>r < length (eh_store h). c \<in> set (sj_observers (eh_store h ! r)))"
  by (force simp: attached_def in_set_conv_nth)

text \<open>Under the invariant the connections of a user are the observers of the subject of the map.\<close>

definition observers_of :: "uuid \<Rightarrow> event_hub \<Rightarrow> connection list" where
  "observers_of u h = (case eh_subjects h u of None \<Rightarrow> [] | Some r \<Rightarrow> sj_observers (eh_store h ! r))"

lemma observers_of_iff:
  assumes ok: "hub_ok h"
  shows "c \<in> set (observers_of u h) \<longleftrightarrow> attached c h \<and> cn_user c = u"
proof
  assume c: "c \<in> set (observers_of u h)"
  then obtain r where r: "eh_subjects h u = Some r" "c \<in> set (sj_observers (eh_store h ! r))"
    by (cases "eh_subjects h u") (auto simp: observers_of_def)
  then have "r < length (eh_store h)" by (rule_tac hub_okD(5) [OF ok])
  then show "attached c h \<and> cn_user c = u"
    using r hub_okD(3,4) [OF ok] attached_nth by blast
next
  assume a: "attached c h \<and> cn_user c = u"
  then obtain r where "r < length (eh_store h)" "c \<in> set (sj_observers (eh_store h ! r))"
    by (auto simp: attached_nth)
  then show "c \<in> set (observers_of u h)" using a hub_okD(3) [OF ok, of r c] by (simp add: observers_of_def)
qed

lemma distinct_observers_of: "hub_ok h \<Longrightarrow> distinct (observers_of u h)"
  using hub_okD(2,5) [of h] by (fastforce simp: observers_of_def split: option.splits)

subsection \<open>The nested calls\<close>

lemma forget_forget [simp]: "forget_subject u (forget_subject u h) = forget_subject u h"
  by (simp add: forget_subject_def)

lemma send_forget: "send cs f (forget_subject u h) = forget_subject u (send cs f h)"
  by (simp add: forget_subject_def send_def)

lemma send_send: "send ds f (send cs f h) = send (cs @ ds) f h" "send [] f h = h"
  by (simp_all add: send_def)

lemma run_completes:
  assumes "\<And>c. c \<in> set cs \<Longrightarrow> cn_user c = u" "\<And>r. eh_subjects h u = Some r \<Longrightarrow> \<not> running r h"
  shows "run_calls (map Complete cs @ Drop u # ds) h = run_calls ds (forget_subject u (send cs Stream_End h))"
  using assms
proof (induction cs arbitrary: h)
  case (Cons c cs)
  let ?h = "send [c] Stream_End h"
  have c: "cn_user c = u" by (simp add: Cons.prems)
  have "run_calls (map Complete (c # cs) @ Drop u # ds) h = run_calls (Clean u # map Complete cs @ Drop u # ds) ?h"
    by (simp add: c)
  also have "\<dots> = run_calls ds (forget_subject u (send cs Stream_End ?h))"
  proof (cases "eh_subjects h u")
    case None
    then show ?thesis using Cons.IH [of ?h] Cons.prems(1) by simp
  next
    case (Some r)
    then show ?thesis
      using Cons.IH [of "forget_subject u ?h"] Cons.prems by (simp add: send_forget)
  qed
  finally show ?case by (simp add: send_send)
qed (simp add: send_send)

lemma cleanup_exact:
  assumes "hub_ok h"
  shows "cleanup_session_stream u h =
    (case eh_subjects h u of None \<Rightarrow> h
     | Some r \<Rightarrow> forget_subject u (send (observers_of u h) Stream_End (stop_subject r h)))"
proof (cases "eh_subjects h u")
  case (Some r)
  then have r: "running r h" by (rule hub_okD(1) [OF assms])
  have "run_calls (map Complete (sj_observers (eh_store h ! r)) @ Drop u # []) (stop_subject r h) =
      run_calls [] (forget_subject u (send (sj_observers (eh_store h ! r)) Stream_End (stop_subject r h)))"
  proof (rule run_completes)
    fix c assume "c \<in> set (sj_observers (eh_store h ! r))"
    then have "c \<in> set (observers_of u h)" by (simp add: observers_of_def Some)
    then show "cn_user c = u" by (simp add: observers_of_iff [OF assms])
  next
    fix q assume "eh_subjects (stop_subject r h) u = Some q"
    then show "\<not> running q (stop_subject r h)" by (simp add: Some)
  qed
  then show ?thesis by (simp add: cleanup_session_stream_def Some r observers_of_def)
qed (simp add: cleanup_session_stream_def)

text \<open>What a clean-up leaves: the other users keep their connections, the user has none.\<close>

lemma cleanup_keeps:
  assumes ok: "hub_ok h"
  shows "hub_ok (cleanup_session_stream u h)"
    and "attached c (cleanup_session_stream u h) \<longleftrightarrow> attached c h \<and> cn_user c \<noteq> u"
    and "eh_subjects (cleanup_session_stream u h) = (eh_subjects h)(u := None)"
    and "running r (cleanup_session_stream u h) \<longleftrightarrow> running r h \<and> eh_subjects h u \<noteq> Some r"
    and "length (eh_store (cleanup_session_stream u h)) = length (eh_store h)"
    and "eh_sent (cleanup_session_stream u h) = eh_sent h @ map (\<lambda>c. (cn_id c, Stream_End)) (observers_of u h)"
proof -
  note c = cleanup_exact [OF ok, of u]
  show "eh_subjects (cleanup_session_stream u h) = (eh_subjects h)(u := None)"
    "running r (cleanup_session_stream u h) \<longleftrightarrow> running r h \<and> eh_subjects h u \<noteq> Some r"
    "length (eh_store (cleanup_session_stream u h)) = length (eh_store h)"
    "eh_sent (cleanup_session_stream u h) = eh_sent h @ map (\<lambda>c. (cn_id c, Stream_End)) (observers_of u h)"
    by (auto simp: c fun_upd_idem observers_of_def split: option.splits)
  have stopped: "eh_subjects h u = Some r \<Longrightarrow> q < length (eh_store h) \<Longrightarrow>
      d \<in> set (sj_observers ((eh_store h)[r := \<lparr>sj_observers = [], sj_stopped = True\<rparr>] ! q)) \<longleftrightarrow>
      d \<in> set (sj_observers (eh_store h ! q)) \<and> cn_user d \<noteq> u" for r q d
    using hub_okD(3) [OF ok, of q d] hub_okD(4) [OF ok, of u r "cn_user d"] by (cases "r = q") auto
  show att: "attached c (cleanup_session_stream u h) \<longleftrightarrow> attached c h \<and> cn_user c \<noteq> u"
  proof (cases "eh_subjects h u")
    case None
    then show ?thesis using hub_okD(3) [OF ok] by (auto simp: c attached_nth)
  next
    case (Some r)
    then show ?thesis by (auto simp: c attached_nth stopped)
  qed
  show "hub_ok (cleanup_session_stream u h)"
  proof (cases "eh_subjects h u")
    case None
    then show ?thesis using ok by (simp add: c)
  next
    case (Some r)
    have "distinct (sj_observers ((eh_store h)[r := \<lparr>sj_observers = [], sj_stopped = True\<rparr>] ! q))"
      if "q < length (eh_store h)" for q
      using that hub_okD(2) [OF ok] by (cases "r = q") auto
    then show ?thesis
      using Some hub_okD(1,3,4) [OF ok] by (auto simp: c hub_ok_def stopped [OF Some])
  qed
qed

subsection \<open>Every reachable state\<close>

lemma hub_ok_get:
  assumes ok: "hub_ok h" and g: "get_session_event_stream u h = (r, h')"
  shows "hub_ok h'" and "eh_subjects h' u = Some r" and "attached c h' \<longleftrightarrow> attached c h"
    and "q < length (eh_store h) \<Longrightarrow> running q h' \<longleftrightarrow> running q h"
    and "eh_subjects h v = Some q \<Longrightarrow> eh_subjects h' v = Some q"
    and "length (eh_store h) \<le> length (eh_store h')"
proof -
  let ?new = "h\<lparr>eh_store := eh_store h @ [\<lparr>sj_observers = [], sj_stopped = False\<rparr>],
      eh_subjects := (eh_subjects h)(u \<mapsto> length (eh_store h))\<rparr>"
  have cases: "h' = h \<and> eh_subjects h u = Some r \<or>
      eh_subjects h u = None \<and> r = length (eh_store h) \<and> h' = ?new"
    using g by (auto simp: get_session_event_stream_def Let_def split: option.splits)
  have old: "running q ?new" if "eh_subjects h v = Some q" for v q
    using hub_okD(1) [OF ok that] by (simp add: running_def nth_append)
  have fresh: "eh_subjects h v \<noteq> Some (length (eh_store h))" for v
    using hub_okD(5) [OF ok] by blast
  have obs: "distinct (sj_observers (eh_store ?new ! q)) \<and>
      (\<forall>c \<in> set (sj_observers (eh_store ?new ! q)). eh_subjects h (cn_user c) = Some q)"
    if "q < length (eh_store ?new)" for q
    using that hub_okD(2,3) [OF ok] by (cases "q < length (eh_store h)") (auto simp: nth_append)
  have new: "hub_ok ?new" if u: "eh_subjects h u = None"
    unfolding hub_ok_def
  proof (intro conjI)
    show "\<forall>v q. eh_subjects ?new v = Some q \<longrightarrow> running q ?new"
      using old by (auto simp: running_def)
    show "\<forall>v w q. eh_subjects ?new v = Some q \<longrightarrow> eh_subjects ?new w = Some q \<longrightarrow> v = w"
      using fresh hub_okD(4) [OF ok] by auto
    show "\<forall>q < length (eh_store ?new). distinct (sj_observers (eh_store ?new ! q)) \<and>
        (\<forall>c \<in> set (sj_observers (eh_store ?new ! q)). eh_subjects ?new (cn_user c) = Some q)"
      using obs u by fastforce
  qed
  show "hub_ok h'" using cases ok new by auto
  show "eh_subjects h' u = Some r" "attached c h' \<longleftrightarrow> attached c h" "length (eh_store h) \<le> length (eh_store h')"
    "eh_subjects h v = Some q \<Longrightarrow> eh_subjects h' v = Some q"
    "q < length (eh_store h) \<Longrightarrow> running q h' \<longleftrightarrow> running q h"
    using cases by (auto simp: attached_def running_def nth_append)
qed

lemma attach_keeps:
  fixes h :: event_hub and c :: connection and r :: nat
  defines "h' \<equiv> h\<lparr>eh_store := (eh_store h)[r := (eh_store h ! r)\<lparr>sj_observers := sj_observers (eh_store h ! r) @ [c]\<rparr>]\<rparr>"
  assumes r: "running r h"
  shows "running q h' \<longleftrightarrow> running q h" and "attached d h' \<longleftrightarrow> attached d h \<or> d = c"
    and "hub_ok h \<Longrightarrow> eh_subjects h (cn_user c) = Some r \<Longrightarrow> \<not> attached c h \<Longrightarrow> hub_ok h'"
proof -
  have len: "r < length (eh_store h)" using r by (simp add: running_def)
  have nth: "eh_store h' ! q =
      (if q = r then (eh_store h ! r)\<lparr>sj_observers := sj_observers (eh_store h ! r) @ [c]\<rparr> else eh_store h ! q)" for q
    using len by (simp add: h'_def nth_list_update)
  have other: "eh_subjects h' = eh_subjects h" "length (eh_store h') = length (eh_store h)"
    by (simp_all add: h'_def)
  show run: "running q h' \<longleftrightarrow> running q h" for q by (simp add: running_def nth other)
  show att: "attached d h' \<longleftrightarrow> attached d h \<or> d = c"
    using len by (auto simp: attached_nth nth other)
  assume ok: "hub_ok h" and c: "eh_subjects h (cn_user c) = Some r" "\<not> attached c h"
  have "c \<notin> set (sj_observers (eh_store h ! r))" using c(2) len by (auto simp: attached_nth)
  then show "hub_ok h'"
    using ok c(1) by (auto simp: hub_ok_def run other nth)
qed

lemma detach_keeps:
  "hub_ok h \<Longrightarrow> hub_ok (detach c h)" "running r (detach c h) \<longleftrightarrow> running r h"
  "attached d (detach c h) \<longleftrightarrow> attached d h \<and> d \<noteq> c" "eh_subjects (detach c h) = eh_subjects h"
  "length (eh_store (detach c h)) = length (eh_store h)" "eh_sent (detach c h) = eh_sent h"
  by (auto simp: detach_def hub_ok_def running_def attached_def distinct_removeAll)

lemma broadcast_exact:
  "hub_ok h \<Longrightarrow> broadcast_session_revocation now u h = send (observers_of u h) (Session_Revoked u now) h"
  by (auto simp: broadcast_session_revocation_def observers_of_def send_send dest: hub_okD(1) split: option.splits)

lemma pending_mono:
  assumes "pending_ok (h, p)" "set q \<subseteq> set p"
    "\<And>c r. (c, r) \<in> set q \<Longrightarrow> attached c h' \<Longrightarrow> attached c h" "length (eh_store h) \<le> length (eh_store h')"
    "\<And>c r. (c, r) \<in> set q \<Longrightarrow> running r h' \<Longrightarrow> r < length (eh_store h) \<Longrightarrow>
       running r h \<and> (eh_subjects h (cn_user c) = Some r \<longrightarrow> eh_subjects h' (cn_user c) = Some r)"
  shows "pending_ok (h', q)"
  unfolding pending_ok_def
proof (clarify)
  fix c r assume c: "(c, r) \<in> set (snd (h', q))"
  then have "(c, r) \<in> set p" "(c, r) \<in> set q" using assms(2) by auto
  then have "\<not> attached c h" "r < length (eh_store h)" "running r h \<longrightarrow> eh_subjects h (cn_user c) = Some r"
    using assms(1) by (auto simp: pending_ok_def)
  then show "\<not> attached c (fst (h', q)) \<and> r < length (eh_store (fst (h', q))) \<and>
      (running r (fst (h', q)) \<longrightarrow> eh_subjects (fst (h', q)) (cn_user c) = Some r)"
    using assms(3,5) [OF \<open>(c, r) \<in> set q\<close>] assms(4) by auto
qed

definition state_ok :: "hub_state \<Rightarrow> bool" where
  "state_ok s \<longleftrightarrow> hub_ok (fst s) \<and> pending_ok s"

lemma state_ok_cleanup:
  assumes "hub_ok h" "pending_ok (h, p)" "set q \<subseteq> set p"
  shows "state_ok (cleanup_session_stream u h, q)"
proof -
  note k = cleanup_keeps [OF assms(1), where u = u]
  have "pending_ok (cleanup_session_stream u h, q)"
    by (rule pending_mono [OF assms(2,3)]) (auto simp: k)
  then show ?thesis by (simp add: state_ok_def k)
qed

lemma subscribe_stopped:
  "\<not> running r h \<Longrightarrow> subscribe_events c r h = cleanup_session_stream (cn_user c) (send [c] Stream_End h)"
  by (simp add: subscribe_events_def cleanup_session_stream_def)

lemma state_ok_step: "hub_step s t \<Longrightarrow> state_ok s \<Longrightarrow> state_ok t"
proof (induction rule: hub_step.induct)
  case (requests c h p)
  obtain r h' where g: "get_session_event_stream (cn_user c) h = (r, h')" by fastforce
  have ok: "hub_ok h" "pending_ok (h, p)" using requests.prems by (simp_all add: state_ok_def)
  note k = hub_ok_get [OF ok(1) g]
  have r: "r < length (eh_store h')" by (rule hub_okD(5) [OF k(1,2)])
  have "pending_ok (h', p)"
    by (rule pending_mono [OF ok(2)]) (auto simp: k(3,6) dest: k(4) k(5))
  then have "pending_ok (h', (c, r) # p)"
    using requests.hyps r k(2,3) by (simp add: pending_ok_def)
  then show ?case by (simp add: session_events_def g state_ok_def k(1))
next
  case (subscribes c r p h)
  let ?p = "filter (\<lambda>x. fst x \<noteq> c) p"
  have ok: "hub_ok h" "pending_ok (h, p)" using subscribes.prems by (simp_all add: state_ok_def)
  show ?case
  proof (cases "running r h")
    case False
    have "pending_ok (send [c] Stream_End h, p)" using ok(2) by (simp add: pending_ok_def)
    then show ?thesis
      using ok(1) by (simp add: subscribe_stopped [OF False]) (rule state_ok_cleanup, auto)
  next
    case True
    have c: "\<not> attached c h" "eh_subjects h (cn_user c) = Some r"
      using ok(2) subscribes.hyps True by (auto simp: pending_ok_def)
    note k = attach_keeps [OF True, where c = c]
    have "pending_ok (subscribe_events c r h, ?p)"
      using ok(2) by (auto simp: pending_ok_def subscribe_events_def True k(1,2))
    then show ?thesis
      using k(3) [OF ok(1) c(2,1)] by (simp add: state_ok_def subscribe_events_def True)
  qed
next
  case (beats h p now c)
  then show ?case by (simp add: heartbeat_def state_ok_def pending_ok_def)
next
  case (closes h p c)
  have ok: "hub_ok h" "pending_ok (h, p)" using closes.prems by (simp_all add: state_ok_def)
  have "pending_ok (detach c h, p)" using ok(2) by (auto simp: pending_ok_def detach_keeps)
  then have "state_ok (cleanup_session_stream (cn_user c) (detach c h), p)"
    using detach_keeps(1) [OF ok(1)] by (auto intro: state_ok_cleanup)
  then show ?case using closes.prems by (simp add: close_events_def)
next
  case (revokes h p now u)
  then show ?case
    by (simp add: logout_all_events_def state_ok_def broadcast_exact pending_ok_def)
qed

lemma state_ok_reach: "hub_step\<^sup>*\<^sup>* (no_streams, []) s \<Longrightarrow> state_ok s"
proof (induction rule: rtranclp_induct)
  case base
  show ?case by (simp add: state_ok_def hub_ok_def pending_ok_def no_streams_def)
qed (rule state_ok_step)

subsection \<open>Whom a revocation reaches\<close>

text \<open>A log-out from all devices is told once to every open connection of the user and to nobody
  else, in every state the handlers can reach.\<close>

theorem revocation_reaches_every_connection:
  assumes "hub_step\<^sup>*\<^sup>* (no_streams, []) (h, p)"
  shows "\<exists>cs. distinct cs \<and> set cs = {c. attached c h \<and> cn_user c = u} \<and>
    eh_sent (logout_all_events now u h) = eh_sent h @ map (\<lambda>c. (cn_id c, Session_Revoked u now)) cs"
proof -
  have ok: "hub_ok h" using state_ok_reach [OF assms] by (simp add: state_ok_def)
  show ?thesis
    by (rule exI [of _ "observers_of u h"])
      (auto simp: logout_all_events_def broadcast_exact [OF ok] observers_of_iff [OF ok] distinct_observers_of [OF ok])
qed

text \<open>Two tabs of one user.\<close>

definition first_tab :: connection where "first_tab = \<lparr>cn_id = 1, cn_user = ''u''\<rparr>"
definition second_tab :: connection where "second_tab = \<lparr>cn_id = 2, cn_user = ''u''\<rparr>"

definition two_tabs :: event_hub where
  "two_tabs = \<lparr>eh_subjects = [''u'' \<mapsto> 0],
     eh_store = [\<lparr>sj_observers = [first_tab, second_tab], sj_stopped = False\<rparr>], eh_sent = []\<rparr>"

lemma two_tabs_reach: "hub_step\<^sup>*\<^sup>* (no_streams, []) (two_tabs, [])"
proof -
  let ?h0 = "snd (session_events first_tab no_streams)"
  let ?h1 = "subscribe_events first_tab 0 ?h0"
  have e: "fst (session_events first_tab no_streams) = 0" "session_events second_tab ?h1 = (0, ?h1)"
    "subscribe_events second_tab 0 ?h1 = two_tabs" "\<not> attached second_tab ?h1"
    "\<not> attached first_tab no_streams"
    by (simp_all add: session_events_def get_session_event_stream_def subscribe_events_def running_def
        no_streams_def two_tabs_def first_tab_def second_tab_def attached_def Let_def)
  have "hub_step\<^sup>*\<^sup>* (no_streams, []) (?h0, [(first_tab, 0)])"
    by (rule r_into_rtranclp) (use hub_step.requests [of first_tab no_streams "[]"] in \<open>simp add: e(1,5)\<close>)
  also have "hub_step (?h0, [(first_tab, 0)]) (?h1, [])"
    using hub_step.subscribes [of first_tab 0 "[(first_tab, 0)]" ?h0] by simp
  also (rtranclp.rtrancl_into_rtrancl) have "hub_step (?h1, []) (?h1, [(second_tab, 0)])"
    using hub_step.requests [of second_tab ?h1 "[]"] by (simp add: e(2,4))
  also (rtranclp.rtrancl_into_rtrancl) have "hub_step (?h1, [(second_tab, 0)]) (two_tabs, [])"
    using hub_step.subscribes [of second_tab 0 "[(second_tab, 0)]" ?h1] by (simp add: e(3))
  finally (rtranclp.rtrancl_into_rtrancl) show ?thesis .
qed

lemma two_tabs_attached: "attached first_tab two_tabs" "attached second_tab two_tabs"
  by (simp_all add: attached_def two_tabs_def)

theorem revocation_reaches_every_connection_witness:
  "\<exists>cs. distinct cs \<and> set cs = {c. attached c two_tabs \<and> cn_user c = ''u''} \<and>
    eh_sent (logout_all_events 5 ''u'' two_tabs) =
      eh_sent two_tabs @ map (\<lambda>c. (cn_id c, Session_Revoked ''u'' 5)) cs"
  by (rule revocation_reaches_every_connection [OF two_tabs_reach])

text \<open>C31: A connection that closes ends all others of its user, and only those: its teardown completes the
  subject they share. A log-out from all devices right after it is told to none of them.\<close>

theorem closing_one_ends_all:
  assumes "hub_step\<^sup>*\<^sup>* (no_streams, []) (h, p)" and c: "attached c h"
  shows "(\<exists>cs. set cs = {d. attached d h \<and> cn_user d = cn_user c \<and> d \<noteq> c} \<and>
        eh_sent (close_events c h) = eh_sent h @ map (\<lambda>d. (cn_id d, Stream_End)) cs) \<and>
    (\<forall>d. attached d (close_events c h) \<longleftrightarrow> attached d h \<and> cn_user d \<noteq> cn_user c) \<and>
    logout_all_events now (cn_user c) (close_events c h) = close_events c h"
proof (intro conjI allI)
  have ok: "hub_ok (detach c h)"
    using state_ok_reach [OF assms(1)] by (simp add: state_ok_def detach_keeps)
  note k = cleanup_keeps [OF ok, where u = "cn_user c"]
  have eq: "close_events c h = cleanup_session_stream (cn_user c) (detach c h)"
    using c by (simp add: close_events_def)
  show "\<exists>cs. set cs = {d. attached d h \<and> cn_user d = cn_user c \<and> d \<noteq> c} \<and>
      eh_sent (close_events c h) = eh_sent h @ map (\<lambda>d. (cn_id d, Stream_End)) cs"
    by (rule exI [of _ "observers_of (cn_user c) (detach c h)"])
      (auto simp: eq k(6) observers_of_iff [OF ok] detach_keeps)
  show "attached d (close_events c h) \<longleftrightarrow> attached d h \<and> cn_user d \<noteq> cn_user c" for d
    by (auto simp: eq k(2) detach_keeps)
  show "logout_all_events now (cn_user c) (close_events c h) = close_events c h"
    by (simp add: logout_all_events_def broadcast_session_revocation_def eq k(3))
qed

theorem closing_one_ends_all_witness:
  "attached second_tab two_tabs \<and> \<not> attached second_tab (close_events first_tab two_tabs) \<and>
   logout_all_events 5 ''u'' (close_events first_tab two_tabs) = close_events first_tab two_tabs"
  using closing_one_ends_all [OF two_tabs_reach two_tabs_attached(1), of 5] two_tabs_attached(2)
  by (simp add: first_tab_def second_tab_def)

end
