(* ===== verification/Session_Timeout_Correct.thy ===== *)
theory Session_Timeout_Correct
  imports Session_Timeout
begin

text \<open>
  When the session warning appears and when its countdown logs out, relative to the expiry of the
  token; and the intervals of the adaptive polling.
\<close>

lemma sint_small: "0 \<le> n \<Longrightarrow> n < 2 ^ 31 \<Longrightarrow> sint (word_of_int n :: 32 word) = n"
  by (simp add: sint_sbintrunc' signed_take_bit_int_eq_self)

lemma sint_large:
  assumes "2 ^ 31 \<le> n" "n < 2 ^ 32"
  shows "sint (word_of_int n :: 32 word) = n - 2 ^ 32"
proof -
  have "signed_take_bit 31 n = signed_take_bit 31 (n - 2 ^ 32)"
    by (simp add: signed_take_bit_eq_iff_take_bit_eq take_bit_eq_mod)
  also have "\<dots> = n - 2 ^ 32" using assms by (intro signed_take_bit_int_eq_self) simp_all
  finally show ?thesis by (simp add: sint_sbintrunc')
qed

lemma timer_delay_exact:
  assumes "0 \<le> m" "m < 2 ^ 32"
  shows "timer_delay (of_int m) = (if m < 2 ^ 31 then m else 0)"
  using assms sint_small [of m] sint_large [of m] by (simp add: timer_delay_def)

lemma fl_of_int: "\<bar>m\<bar> \<le> 2 ^ 53 \<Longrightarrow> fl (of_int m) = of_int m"
  by (rule fl_int)

lemma countdown_ticks_nonempty [simp]: "countdown_ticks now n \<noteq> []"
  by (cases n) simp_all

lemma countdown_end: "fst (last (countdown_ticks now n)) = now + 1000 * int n"
  by (induction n arbitrary: now) simp_all

lemma logout_at_eq: "logout_at now st = now + 1000 * int (nat (to_countdownSeconds st))"
  by (simp add: logout_at_def countdown_end)

lemma expiry_of_jwt:
  assumes "CHR ''.'' \<notin> set h" "json_parse c = Some p" "json_field p ''exp'' = Some (JNum (of_int k))"
    and "\<not> url_safe_chars (base64url c)" "\<bar>k * 1000\<bar> \<le> 2 ^ 53"
  shows "get_token_expiry_ms (jwt h c s) = Some (of_int (k * 1000))"
  using assms(1-4) fl_of_int [OF assms(5)]
  by (cases p) (simp_all add: get_token_expiry_ms_def parse_payload_jwt non_null_def js_mul_def)

lemma schedule_of_jwt:
  assumes "get_token_expiry_ms tok = Some (of_int x)" "x \<noteq> 0" "\<bar>x\<bar> \<le> 2 ^ 52" "\<bar>now\<bar> \<le> 2 ^ 52"
    and "0 < x - now - 120000" "x - now - 120000 < 2 ^ 32"
  shows "schedule_warning now tok st = st\<lparr>to_showWarning := False,
    to_warnTimer := Some (now + (if x - now - 120000 < 2 ^ 31 then x - now - 120000 else 0), True)\<rparr>"
proof -
  define m where "m = x - now - 120000"
  have a: "js_int now = of_int now" "js_int (120 * 1000) = of_int 120000"
    unfolding js_int_def using assms(4) fl_of_int [of 120000] by (auto intro: fl_of_int)
  have "\<bar>x - now\<bar> \<le> 2 ^ 53" using assms(3,4) by simp
  then have b: "js_sub (of_int x) (of_int now) = of_int (x - now)"
    unfolding js_sub_def of_int_diff [symmetric] by (rule fl_of_int)
  have "\<bar>m\<bar> \<le> 2 ^ 53" using assms(5,6) by (simp add: m_def)
  then have c: "js_sub (of_int (x - now)) (of_int 120000) = of_int m"
    unfolding js_sub_def of_int_diff [symmetric] m_def by (rule fl_of_int)
  have w: "js_sub (js_sub (of_int x) (js_int now)) (js_int (120 * 1000)) = of_int m"
    by (simp only: a b c)
  have d: "timer_delay (of_int m) = (if m < 2 ^ 31 then m else 0)"
    using assms(5,6) by (intro timer_delay_exact) (simp_all add: m_def)
  have pos: "\<not> (of_int m :: rat) \<le> 0" using assms(5) by (simp add: m_def)
  show ?thesis
    using assms(2) pos unfolding schedule_warning_def Let_def assms(1) WARN_BEFORE_EXPIRY_S_def m_def [symmetric]
    by (simp only: option.case w d of_int_eq_0_iff if_False clear_warn_timer_def) simp
qed

definition fresh_timeout :: timeout_state where
  "fresh_timeout = \<lparr>to_showWarning = False, to_countdownSeconds = 120, to_warnTimer = None, to_lastActivity = 0\<rparr>"

text \<open>When a session ends by itself. For a token whose \<open>exp\<close> claim is \<open>k\<close> seconds, mounted
  at \<open>now\<close> between two minutes and 24 days and 20 hours before the expiry, the timer is due
  two minutes before it; and if the user was last active at \<open>a\<close>, the countdown that appears
  then, or ten seconds after \<open>a\<close> if that is later, logs out at the later one of the expiry
  and 130 seconds after \<open>a\<close>: a user active in the last moments is logged out up to ten
  seconds after the token has expired.\<close>

theorem session_ends_at:
  assumes tok: "CHR ''.'' \<notin> set h" "json_parse c = Some p" "json_field p ''exp'' = Some (JNum (of_int k))"
    "\<not> url_safe_chars (base64url c)"
    and k: "k \<noteq> 0" "\<bar>k * 1000\<bar> \<le> 2 ^ 52" "\<bar>now\<bar> \<le> 2 ^ 52"
    and m: "0 < k * 1000 - now - 120000" "k * 1000 - now - 120000 < 2 ^ 31"
    and a: "a \<le> k * 1000 - 120000"
  shows "\<exists>st' t. to_warnTimer (schedule_warning now (jwt h c s) st) = Some (k * 1000 - 120000, True) \<and>
    st' = timer_fires (k * 1000 - 120000) (handle_activity a (schedule_warning now (jwt h c s) st)) \<and>
    (if a + 10000 \<le> k * 1000 - 120000 then t = k * 1000 - 120000 \<and> to_showWarning st'
     else \<not> to_showWarning st' \<and> to_warnTimer st' = Some (t, False) \<and> t = a + 10000) \<and>
    to_showWarning (timer_fires t st') \<and>
    logout_at t (timer_fires t st') = max (k * 1000) (a + 130000)"
proof -
  let ?x = "k * 1000"
  have e: "get_token_expiry_ms (jwt h c s) = Some (of_int ?x)"
    using tok k(2) by (intro expiry_of_jwt) simp_all
  have sch: "schedule_warning now (jwt h c s) st =
      st\<lparr>to_showWarning := False, to_warnTimer := Some (?x - 120000, True)\<rparr>"
    using schedule_of_jwt [OF e, of now st] k m by simp
  show ?thesis
    by (cases "a + 10000 \<le> ?x - 120000")
       (simp_all add: sch handle_activity_def timer_fires_def Let_def ACTIVITY_DEBOUNCE_MS_def logout_at_eq
         COUNTDOWN_SECONDS_def WARN_BEFORE_EXPIRY_S_def)
qed

lemma session_ends_at_witness:
  "\<exists>st' t. to_warnTimer (schedule_warning (-200000) (jwt ''h'' plain_claim_text ''s'') fresh_timeout) = Some (1 * 1000 - 120000, True) \<and>
    st' = timer_fires (1 * 1000 - 120000) (handle_activity (-125000) (schedule_warning (-200000) (jwt ''h'' plain_claim_text ''s'') fresh_timeout)) \<and>
    (if - 125000 + 10000 \<le> (1 * 1000 - 120000 :: int) then t = 1 * 1000 - 120000 \<and> to_showWarning st'
     else \<not> to_showWarning st' \<and> to_warnTimer st' = Some (t, False) \<and> t = - 125000 + 10000) \<and>
    to_showWarning (timer_fires t st') \<and>
    logout_at t (timer_fires t st') = max (1 * 1000) (- 125000 + 130000)"
  by (rule session_ends_at [OF _ parse_plain_claim_text plain_exp plain_claim_text_chars]) simp_all

text \<open>A token that lives longer: the delay wraps, and the warning comes at once.\<close>

lemma long_session_warned_at_once:
  assumes "get_token_expiry_ms tok = Some (of_int x)" "\<bar>x\<bar> \<le> 2 ^ 52" "\<bar>now\<bar> \<le> 2 ^ 52" "x \<noteq> 0"
    and "2 ^ 31 \<le> x - now - 120000" "x - now - 120000 < 2 ^ 32"
  shows "to_warnTimer (schedule_warning now tok st) = Some (now, True)"
  using schedule_of_jwt [OF assms(1,4,2,3), of st] assms(5,6) by simp

subsection \<open>Polling\<close>

inductive polling_step :: "polling_config \<Rightarrow> polling \<Rightarrow> polling \<Rightarrow> bool" for config where
  "polling_step config p (polling_error config p)"
| "polling_step config p (polling_success config p)"
| "polling_step config p (reconnect config hidden p)"
| "polling_step config p (visibility_change config hidden p)"

definition polling_ok :: "polling_config \<Rightarrow> polling \<Rightarrow> bool" where
  "polling_ok config p \<longleftrightarrow> pl_refetchInterval p = calculate_interval config (pl_errorCount p)"

lemma polling_ok_reach:
  assumes "(polling_step config)\<^sup>*\<^sup>* (start_polling config hidden) p"
  shows "polling_ok config p"
  using assms
proof (induction rule: rtranclp_induct)
  case base
  show ?case by (simp add: polling_ok_def start_polling_def)
next
  case (step p q)
  from step.hyps(2) show ?case using step.IH
    by (cases rule: polling_step.cases) (simp_all add: polling_ok_def polling_error_def polling_success_def reconnect_def
        visibility_change_def set_error_count_def)
qed

text \<open>The dashboard polls every 30, 60 or 120 seconds, according to the number of consecutive
  failures, while its page is visible, and not at all after three of them or when hidden; in
  every reachable state, and the status shown agrees.\<close>

theorem dashboard_polling_exact:
  assumes "(polling_step dashboard_config)\<^sup>*\<^sup>* (start_polling dashboard_config hidden) p"
  shows "effective_interval p =
      (if pl_isVisibilityPaused p \<or> 3 \<le> pl_errorCount p then None
       else Some (of_nat (30000 * 2 ^ pl_errorCount p)))
    \<and> (get_connection_status p = Disconnected \<longleftrightarrow> pl_refetchInterval p = None)"
proof -
  have "n < 3 \<Longrightarrow> js_mul 30000 (js_int (2 ^ n)) = of_nat (30000 * 2 ^ n)" for n
    using fl_int [of 1] fl_int [of 2] fl_int [of 4] fl_int [of 30000] fl_int [of 60000] fl_int [of 120000]
    by (cases "n = 0"; cases "n = 1"; cases "n = 2") (simp_all add: js_mul_def js_int_def)
  then show ?thesis
    using polling_ok_reach [OF assms]
    by (auto simp: polling_ok_def calculate_interval_def effective_interval_def dashboard_config_def
        get_connection_status_def is_disconnected_def)
qed

lemma dashboard_polling_exact_witness:
  "effective_interval (polling_error dashboard_config (start_polling dashboard_config False)) = Some (of_nat 60000)"
proof -
  have "(polling_step dashboard_config)\<^sup>*\<^sup>* (start_polling dashboard_config False)
      (polling_error dashboard_config (start_polling dashboard_config False))"
    by (rule r_into_rtranclp) (rule polling_step.intros)
  from dashboard_polling_exact [OF this] show ?thesis
    by (simp add: polling_error_def set_error_count_def start_polling_def)
qed

end
