(* ===== verification/Totp_Correct.thy ===== *)
theory Totp_Correct
  imports Totp Auth_Correct Iso_Dates
begin

text \<open>
  The base-32 codec is a round trip although its 32-bit accumulator drops the bits it has
  shifted out; a code is at most six digits and is accepted within thirty seconds of the
  instant it was computed for; and enabling the second factor has nothing to do with the
  secret the set-up handed out.
\<close>

subsection \<open>Base 32\<close>

lemma b32_table:
  "list_all (\<lambda>n. b32_index (b32_alphabet ! n) = Some (of_nat n)) [0..<32]"
  by (simp add: b32_alphabet_def b32_index_def is_lower_def char_range_def upt_rec Let_def)

lemma and31: "(x :: int32) AND 31 = take_bit 5 x"
  using take_bit_eq_mask [of 5 x] by (simp add: mask_eq_decr_exp)

lemma and31_less: "unat ((x :: int32) AND 31) < 32"
proof -
  have "unat (take_bit 5 x) = take_bit 5 (unat x)" by (rule unsigned_take_bit_eq)
  then show ?thesis using take_bit_nat_less_exp [of 5 "unat x"] by (simp only: and31) simp
qed

lemma b32_index_char: "b32_index (b32_char (x AND 31)) = Some (x AND 31)"
proof -
  have "b32_index (b32_alphabet ! unat (x AND 31)) = Some (of_nat (unat (x AND 31)))"
    using b32_table and31_less [of x] by (simp add: list_all_iff)
  then show ?thesis by (simp add: b32_char_def)
qed

definition quintets :: "int32 list \<Rightarrow> bool" where
  "quintets is \<longleftrightarrow> (\<forall>i \<in> set is. i = i AND 31)"

lemma b32_indices_chars: "quintets is \<Longrightarrow> b32_indices (map b32_char is) = Some is"
proof (induction "is")
  case (Cons i "is")
  then have "b32_index (b32_char i) = Some i"
    using b32_index_char [of i] by (simp add: quintets_def)
  with Cons show ?case by (simp add: quintets_def)
qed simp

lemma b32_digits_simps:
  "bits < 5 \<Longrightarrow> b32_digits bits v = ([], bits)"
  "b32_digits (bits + 5) v = (case b32_digits bits v of (ds, b) \<Rightarrow> ((drop_bit bits v AND 31) # ds, b))"
  by (subst b32_digits.simps, simp)+

lemma quintets_digits: "quintets (fst (b32_digits bits v))"
proof (induction bits v rule: b32_digits.induct)
  case (1 bits v)
  show ?case
  proof (cases "5 \<le> bits")
    case True
    with 1 show ?thesis
      by (subst b32_digits.simps) (auto simp: quintets_def and.assoc split: prod.split)
  next
    case False
    then show ?thesis by (subst b32_digits.simps) (simp add: quintets_def)
  qed
qed

lemma quintets_encode: "quintets (b32_encode_from bits v bs)"
proof (induction bits v bs rule: b32_encode_from.induct)
  case (1 bits v)
  then show ?case by (simp add: quintets_def and.assoc)
next
  case (2 bits v b bs)
  then show ?case
    using quintets_digits [of "bits + 8" "push_bit 8 v OR ucast b"]
    by (cases "b32_digits (bits + 8) (push_bit 8 v OR ucast b)") (auto simp: quintets_def Let_def)
qed

text \<open>The decoder holds \<open>bd\<close> bits and the encoder \<open>be\<close>; together they are one octet in flight.\<close>

definition in_flight :: "nat \<Rightarrow> int32 \<Rightarrow> nat \<Rightarrow> int32 \<Rightarrow> octet \<Rightarrow> bool" where
  "in_flight be ve bd vd x \<longleftrightarrow> be + bd = 8 \<and>
     (\<forall>n < 8. bit x n = (if n < be then bit ve n else bit vd (n - be)))"

lemma bit_and31: "bit ((x :: int32) AND 31) n \<longleftrightarrow> n < 5 \<and> bit x n"
  by (simp add: and31 bit_take_bit_iff)

lemma bit_and255: "bit ((x :: int32) AND 255) n \<longleftrightarrow> n < 8 \<and> bit x n"
proof -
  have "x AND 255 = take_bit 8 x"
    using take_bit_eq_mask [of 8 x] by (simp add: mask_eq_decr_exp)
  then show ?thesis by (simp add: bit_take_bit_iff)
qed

lemma bit_octet: "bit (ucast (b :: octet) :: int32) n \<longleftrightarrow> n < 8 \<and> bit b n"
  using bit_imp_le_length [of b n] by (auto simp: bit_unsigned_iff)

lemma bit_cut: "bit (ucast (x :: int32) :: octet) n \<longleftrightarrow> n < 8 \<and> bit x n"
  by (auto simp: bit_unsigned_iff)

lemmas octet_bits = bit_and31 bit_and255 bit_octet bit_cut bit_or_iff bit_push_bit_iff bit_drop_bit_eq

lemma less8_cases: "(n::nat) < 8 \<Longrightarrow> n = 0 \<or> n = 1 \<or> n = 2 \<or> n = 3 \<or> n = 4 \<or> n = 5 \<or> n = 6 \<or> n = 7"
  by arith

text \<open>The digit that completes the octet in flight lets the decoder put it out.\<close>

lemma flight_lands:
  assumes "in_flight be ve bd vd x" "0 < be" "be < 5"
    "\<And>n. n < 5 \<Longrightarrow> bit i n = (5 \<le> n + be \<and> bit ve (n + be - 5) \<or> n + be < 5 \<and> W n)"
    "i = i AND 31"
  shows "ucast (drop_bit (bd + 5 - 8) (push_bit 5 vd OR i) AND 255) = x"
proof (rule bit_word_eqI)
  fix n assume "n < LENGTH(8)"
  then have n: "n < 8" by simp
  have bd: "bd = 8 - be" and x: "bit x n = (if n < be then bit ve n else bit vd (n - be))"
    using assms(1) n by (auto simp: in_flight_def)
  have hi: "\<not> bit i m" if "5 \<le> m" for m
    using that by (subst assms(5)) (simp add: bit_and31)
  have lhs: "bit (ucast (drop_bit (bd + 5 - 8) (push_bit 5 vd OR i) AND 255) :: octet) n =
      (5 \<le> bd + 5 - 8 + n \<and> bit vd (bd + 5 - 8 + n - 5) \<or> bit i (bd + 5 - 8 + n))"
    using n bd assms(2,3) by (auto simp: octet_bits)
  show "bit (ucast (drop_bit (bd + 5 - 8) (push_bit 5 vd OR i) AND 255) :: octet) n = bit x n"
  proof (cases "n < be")
    case True
    then have "bd + 5 - 8 + n < 5" "bd + 5 - 8 + n + be - 5 = n" "5 \<le> bd + 5 - 8 + n + be"
      using assms(2,3) by (auto simp: bd)
    with True show ?thesis unfolding lhs x by (simp add: assms(4))
  next
    case False
    then have "5 \<le> bd + 5 - 8 + n" "bd + 5 - 8 + n - 5 = n - be"
      using assms(2,3) by (auto simp: bd)
    with False hi show ?thesis unfolding lhs x by simp
  qed
qed

lemma accumulated: "n < 8 \<Longrightarrow> bit (push_bit 8 (v :: int32) OR ucast (b :: octet)) n = bit b n"
  by (simp add: octet_bits)

lemma first_digit_lands:
  assumes "in_flight be ve bd vd x" "0 < be" "be < 5"
  shows "ucast (drop_bit (bd + 5 - 8) (push_bit 5 vd OR
    (drop_bit (be + 3) (push_bit 8 ve OR ucast (b :: octet)) AND 31)) AND 255) = x"
proof (rule flight_lands [OF assms, where W = "\<lambda>n. bit b (n + be + 3)"])
  fix n :: nat assume "n < 5"
  then show "bit (drop_bit (be + 3) (push_bit 8 ve OR ucast b) AND 31) n =
      (5 \<le> n + be \<and> bit ve (n + be - 5) \<or> n + be < 5 \<and> bit b (n + be + 3))"
    unfolding octet_bits using assms(3) by (auto simp: ac_simps)
qed (simp add: and.assoc)

lemma last_digit_lands:
  assumes "in_flight be ve bd vd x" "0 < be" "be < 5"
  shows "ucast (drop_bit (bd + 5 - 8) (push_bit 5 vd OR (push_bit (5 - be) ve AND 31)) AND 255) = x"
proof (rule flight_lands [OF assms, where W = "\<lambda>_. False"])
  fix n :: nat assume "n < 5"
  then show "bit (push_bit (5 - be) ve AND 31) n =
      (5 \<le> n + be \<and> bit ve (n + be - 5) \<or> n + be < 5 \<and> False)"
    unfolding octet_bits using assms(3) by (auto simp: ac_simps)
qed (simp add: and.assoc)

lemma one_digit_flight:
  assumes "be < 2"
  shows "in_flight (be + 3) (push_bit 8 ve OR ucast b) (5 - be)
    (push_bit 5 vd OR (drop_bit (be + 3) (push_bit 8 ve OR ucast b) AND 31)) b"
proof -
  have "be = 0 \<or> be = 1" using assms by auto
  then show ?thesis
    unfolding in_flight_def octet_bits by (auto dest!: less8_cases)
qed

lemma two_digit_flight:
  assumes "2 < be" "be < 5"
  shows "in_flight (be - 2) (push_bit 8 ve OR ucast b) (10 - be)
    (push_bit 5 (push_bit 5 vd OR (drop_bit (be + 3) (push_bit 8 ve OR ucast b) AND 31)) OR
      (drop_bit (be - 2) (push_bit 8 ve OR ucast b) AND 31)) b"
proof -
  have "be = 3 \<or> be = 4" using assms by auto
  then show ?thesis
    unfolding in_flight_def octet_bits by (auto dest!: less8_cases)
qed

lemma whole_octet_lands:
  "ucast (drop_bit 0 (push_bit 5 (push_bit 5 (vd :: int32) OR (drop_bit 5 (push_bit 8 ve OR ucast b) AND 31)) OR
      (drop_bit 0 (push_bit 8 ve OR ucast b) AND 31)) AND 255) = (b :: octet)"
proof (rule bit_word_eqI)
  fix n assume "n < LENGTH(8)"
  then show "bit (ucast (drop_bit 0 (push_bit 5 (push_bit 5 vd OR (drop_bit 5 (push_bit 8 ve OR ucast b) AND 31)) OR
      (drop_bit 0 (push_bit 8 ve OR ucast b) AND 31)) AND 255) :: octet) n = bit b n"
    unfolding octet_bits by (auto dest!: less8_cases)
qed

lemma b32_digits_cases:
  "b32_digits 8 v = ([drop_bit 3 v AND 31], 3)"
  "b32_digits 9 v = ([drop_bit 4 v AND 31], 4)"
  "b32_digits 10 v = ([drop_bit 5 v AND 31, drop_bit 0 v AND 31], 0)"
  "b32_digits 11 v = ([drop_bit 6 v AND 31, drop_bit 1 v AND 31], 1)"
  "b32_digits 12 v = ([drop_bit 7 v AND 31, drop_bit 2 v AND 31], 2)"
  by (simp_all add: b32_digits.simps)

lemma b32_decode_encode_from:
  "be < 5 \<Longrightarrow> (be = 0 \<and> bd = 0 \<and> xs = []) \<or> (0 < be \<and> (\<exists>x. xs = [x] \<and> in_flight be ve bd vd x)) \<Longrightarrow>
   b32_decode_from bd vd (b32_encode_from be ve bs) = xs @ bs"
proof (induction bs arbitrary: be ve bd vd xs)
  case Nil
  then show ?case
    using last_digit_lands [of be ve bd vd]
    by (auto simp: in_flight_def Let_def)
next
  case (Cons b bs)
  let ?v = "push_bit 8 ve OR ucast b"
  consider "be = 0" | "be = 1" | "be = 2" | "be = 3" | "be = 4" using Cons.prems(1) by linarith
  then show ?case
  proof cases
    case 1
    have "in_flight 3 ?v 5 (push_bit 5 vd OR (drop_bit 3 ?v AND 31)) b"
      using one_digit_flight [of 0 ve b vd] by simp
    with Cons.IH [of 3 5 "[b]" ?v] Cons.prems(2) 1 show ?thesis
      by (simp add: b32_digits_cases Let_def)
  next
    case 2
    then obtain x where x: "xs = [x]" "in_flight 1 ve bd vd x" "bd = 7"
      using Cons.prems(2) by (auto simp: in_flight_def)
    have "in_flight 4 ?v 4 (push_bit 5 vd OR (drop_bit 4 ?v AND 31)) b"
      using one_digit_flight [of 1 ve b vd] by simp
    with Cons.IH [of 4 4 "[b]" ?v] x 2 first_digit_lands [of 1 ve bd vd x b] show ?thesis
      by (simp add: b32_digits_cases Let_def)
  next
    case 3
    then obtain x where x: "xs = [x]" "in_flight 2 ve bd vd x" "bd = 6"
      using Cons.prems(2) by (auto simp: in_flight_def)
    with Cons.IH [of 0 0 "[]" ?v] 3 first_digit_lands [of 2 ve bd vd x b]
      whole_octet_lands [of vd ve b] show ?thesis
      by (simp add: b32_digits_cases Let_def)
  next
    case 4
    then obtain x where x: "xs = [x]" "in_flight 3 ve bd vd x" "bd = 5"
      using Cons.prems(2) by (auto simp: in_flight_def)
    have "in_flight 1 ?v 7 (push_bit 5 (push_bit 5 vd OR (drop_bit 6 ?v AND 31)) OR (drop_bit 1 ?v AND 31)) b"
      using two_digit_flight [of 3 ve b vd] by simp
    with Cons.IH [of 1 7 "[b]" ?v] x 4 first_digit_lands [of 3 ve bd vd x b] show ?thesis
      by (simp add: b32_digits_cases Let_def)
  next
    case 5
    then obtain x where x: "xs = [x]" "in_flight 4 ve bd vd x" "bd = 4"
      using Cons.prems(2) by (auto simp: in_flight_def)
    have "in_flight 2 ?v 6 (push_bit 5 (push_bit 5 vd OR (drop_bit 7 ?v AND 31)) OR (drop_bit 2 ?v AND 31)) b"
      using two_digit_flight [of 4 ve b vd] by simp
    with Cons.IH [of 2 6 "[b]" ?v] x 5 first_digit_lands [of 4 ve bd vd x b] show ?thesis
      by (simp add: b32_digits_cases Let_def)
  qed
qed

text \<open>C24: The base-32 codec of the second factor is a round trip on every secret: decoding the
  encoding of any bytes returns them, although the 32-bit accumulator of both loops
  overflows.\<close>
theorem base32_roundtrip: "base32_decode (base32_encode bs) = Some bs"
  using b32_decode_encode_from [of 0 0 "[]" 0 0 bs]
  by (simp add: base32_decode_def base32_encode_def b32_indices_chars quintets_encode)

subsection \<open>Codes\<close>

text \<open>The leading mask clears the sign bit, so the remainder is the one of natural numbers.\<close>

lemma code_sign:
  "\<not> bit ((push_bit 24 (a AND 0x7F) OR push_bit 16 (b AND 0xFF) OR push_bit 8 (c AND 0xFF)
      OR (d AND 0xFF)) :: int32) 31"
proof -
  have m: "(0x7F :: int32) = mask 7" "(0xFF :: int32) = mask 8" by (simp_all add: mask_eq_decr_exp)
  show ?thesis unfolding m by (simp add: bit_simps)
qed

lemma truncate_digest_bounds: "0 \<le> truncate_digest d \<and> truncate_digest d < 10 ^ DIGITS"
proof -
  define code where "code = (push_bit 24 (octet_at d (unat (octet_at d (length d - 1) AND 0x0F)) AND 0x7F)
      OR push_bit 16 (octet_at d (unat (octet_at d (length d - 1) AND 0x0F) + 1) AND 0xFF)
      OR push_bit 8 (octet_at d (unat (octet_at d (length d - 1) AND 0x0F) + 2) AND 0xFF)
      OR (octet_at d (unat (octet_at d (length d - 1) AND 0x0F) + 3) AND 0xFF))"
  have "\<not> bit code 31" unfolding code_def by (rule code_sign)
  then have "0 \<le> sint code"
    by (simp add: sint_uint bit_unsigned_iff)
  moreover have "truncate_digest d = sint code smod 10 ^ DIGITS"
    by (simp only: truncate_digest_def Let_def code_def)
  ultimately show ?thesis
    by (cases "sint code = 0") (simp_all add: signed_modulo_int_def DIGITS_def)
qed

text \<open>What an authenticator application shows at an instant, as six digits.\<close>

definition authenticator_code :: "hmac \<Rightarrow> octet list \<Rightarrow> instant \<Rightarrow> string" where
  "authenticator_code hmac key t =
     (let ds = nat_string (nat (truncate_digest (hmac key (counter_buffer (t div 1000 div TIME_STEP)))))
      in replicate (DIGITS - length ds) (CHR ''0'') @ ds)"

lemma digit_char_decimal: "d < 10 \<Longrightarrow> is_decimal (digit_char d)"
  by (simp add: is_decimal_def char_range_def digit_char_def)

lemma nat_string_decimal: "list_all is_decimal (nat_string n)"
proof (induction n rule: nat_string.induct)
  case (1 n)
  then show ?case by (subst nat_string.simps) (simp add: digit_char_decimal)
qed

lemma parse_int_digits:
  assumes "list_all is_decimal s" "s \<noteq> []"
  shows "parse_int s = Some (int (nat_of_string s))"
proof -
  obtain c r where s: "s = c # r" using assms(2) by (cases s) auto
  have c: "is_decimal c" using assms(1) s by simp
  then have "c \<notin> {CHR '' '', CHR 0x09, CHR 0x0A, CHR 0x0B, CHR 0x0C, CHR 0x0D, CHR 0xA0}"
    "c \<noteq> CHR ''-''" "c \<noteq> CHR ''+''"
    by (auto simp: is_decimal_def char_range_def)
  moreover have "takeWhile is_decimal s = s"
    using assms(1) by (simp add: takeWhile_eq_all_conv list_all_iff)
  ultimately show ?thesis using s by (simp add: parse_int_def)
qed

lemma authenticator_code_parses:
  "length (authenticator_code hmac key t) = DIGITS"
  "parse_int (authenticator_code hmac key t)
     = Some (truncate_digest (hmac key (counter_buffer (t div 1000 div TIME_STEP))))"
proof -
  let ?n = "truncate_digest (hmac key (counter_buffer (t div 1000 div TIME_STEP)))"
  let ?ds = "nat_string (nat ?n)"
  have n: "0 \<le> ?n" "nat ?n < 10 ^ 6"
    using truncate_digest_bounds [of "hmac key (counter_buffer (t div 1000 div TIME_STEP))"]
    by (simp_all add: DIGITS_def nat_less_iff)
  have "length ?ds \<le> DIGITS" using length_nat_string [OF _ n(2)] by (simp add: DIGITS_def)
  then show "length (authenticator_code hmac key t) = DIGITS"
    by (simp add: authenticator_code_def Let_def)
  have "list_all is_decimal (authenticator_code hmac key t)"
    using nat_string_decimal [of "nat ?n"]
    by (auto simp: authenticator_code_def Let_def list_all_iff is_decimal_def char_range_def)
  then show "parse_int (authenticator_code hmac key t) = Some ?n"
    using n(1) by (simp add: parse_int_digits authenticator_code_def Let_def nat_of_string_zeros)
qed

lemma totp_window_valid:
  assumes "base32_decode secret = Some key"
  shows "totp_window hmac secret n cs =
    Some (\<exists>c \<in> set cs. truncate_digest (hmac key (counter_buffer c)) = n)"
  by (induction cs) (auto simp: generate_hotp_def assms)

text \<open>C25: The second factor tolerates half a minute of clock skew in both directions: the six
  digits an authenticator with the same secret shows at an instant are accepted by the server
  at every instant within thirty seconds of it.\<close>
theorem totp_accepts_within_skew:
  assumes "\<bar>t' - t\<bar> \<le> 30000"
  shows "verify_token hmac t' (base32_encode key) (authenticator_code hmac key t) = Some True"
proof -
  let ?c = "t div 1000 div TIME_STEP" and ?c' = "t' div 1000 div TIME_STEP"
  have "?c = t div 30000" "?c' = t' div 30000"
    by (simp_all add: TIME_STEP_def zdiv_zmult2_eq [symmetric])
  then have "\<bar>?c - ?c'\<bar> \<le> 1" using assms by linarith
  then have "?c - ?c' \<in> {-1, 0, 1}" by auto
  moreover have "set [- TOTP_WINDOW .. TOTP_WINDOW] = {-1, 0, 1}"
    by (auto simp: TOTP_WINDOW_def)
  ultimately have "\<exists>c \<in> set (map (\<lambda>i. ?c' + i) [- TOTP_WINDOW .. TOTP_WINDOW]). c = ?c"
    by (auto intro!: image_eqI [of _ _ "?c - ?c'"])
  then show ?thesis
    by (simp add: verify_token_def authenticator_code_parses Let_def
        totp_window_valid [OF base32_roundtrip])
       (rule bexI [of _ ?c], simp_all)
qed

theorem totp_accepts_within_skew_witness:
  "verify_token (\<lambda>k m. k @ m) 31000 (base32_encode [1, 2, 3]) (authenticator_code (\<lambda>k m. k @ m) [1, 2, 3] 1000)
    = Some True"
  by (rule totp_accepts_within_skew) simp

subsection \<open>Enabling the second factor\<close>

text \<open>Enabling checks the code against a secret drawn in the same request, not against the
  one the set-up returned: set-up stores nothing, the stored secret differs from the one in
  the QR code whenever the two draws differ, and the user, who gets only the backup codes, has
  to guess a code of a secret that is shown to nobody.\<close>
theorem enable_ignores_setup_secret:
  assumes "users_ok d" "setup_totp r1 i d = (Inr ts, d1)"
    "enable_totp hmac now r2 backup i code d1 = (Inr out, d2)" "r1 \<noteq> r2"
  shows "d1 = d \<and> verify_token hmac now (base32_encode r2) code = Some True \<and> out = backup
    \<and> (\<exists>u. find_user d2 i = Some u \<and> u_totpEnabled u \<and> u_totpSecret u = Some (base32_encode r2))
    \<and> ts_secret ts \<noteq> base32_encode r2"
proof -
  obtain u where u: "find_user d i = Some u" "d1 = d" "ts_secret ts = base32_encode r1"
    using assms(2) by (auto simp: setup_totp_def Let_def generate_totp_secret_def
        split: option.splits if_splits)
  have mem: "u \<in> set (db_users d)" "u_id u = i" "live_user u"
    using u(1) assms(1) by (simp_all add: find_id_iff)
  have fe: "find_user_by_email d (u_email u) = Some u"
    using mem assms(1) by (simp add: find_email_iff)
  define p where "p = no_patch\<lparr>up_totpEnabled := Some True,
    up_totpSecret := Some (Some (base32_encode r2)), up_backupCodes := Some (Some backup)\<rparr>"
  have p: "up_email p = None" by (simp add: p_def)
  have upd: "update_user i p d = (Inr (apply_patch p u), patched p u d)"
    using update_user_found [OF assms(1) fe p] mem(2) by simp
  have e: "verify_token hmac now (base32_encode r2) code = Some True" "out = backup"
    "d2 = patched p u d"
    using assms(3) u(1,2) upd
    by (auto simp: enable_totp_def Let_def generate_totp_secret_def p_def [symmetric]
        split: if_splits option.splits bool.splits)
  have ok2: "users_ok d2" unfolding e(3) by (rule patched_ok [OF assms(1) mem(1) p])
  have "apply_patch p u \<in> set (db_users d2)" by (simp add: e(3) patched_def in_save_row)
  then have "find_user d2 i = Some (apply_patch p u)"
    using mem(2,3) by (simp add: find_id_iff [OF ok2] live_user_def)
  moreover have "u_totpEnabled (apply_patch p u)"
    "u_totpSecret (apply_patch p u) = Some (base32_encode r2)" by (simp_all add: p_def)
  moreover have "base32_encode r1 \<noteq> base32_encode r2"
    using assms(4) base32_roundtrip by (metis option.inject)
  ultimately show ?thesis using u(2,3) e(1,2) by auto
qed

definition zero_hmac :: hmac where "zero_hmac = (\<lambda>_ _. replicate 20 0)"

lemma zero_code: "verify_token zero_hmac now (base32_encode key) ''000000'' = Some True"
proof -
  have "truncate_digest (replicate 20 0) = 0"
    by (simp add: truncate_digest_def octet_at_def Let_def)
  moreover have "parse_int ''000000'' = Some 0"
    by (simp add: parse_int_def is_decimal_def char_range_def nat_of_string_def char_digit_def)
  ultimately show ?thesis
    by (simp add: verify_token_def DIGITS_def Let_def totp_window_valid [OF base32_roundtrip]
        zero_hmac_def TOTP_WINDOW_def)
       (rule exI [of _ "now div 1000 div TIME_STEP"], simp)
qed

theorem enable_ignores_setup_secret_witness:
  "\<exists>ts d2 u. setup_totp [1] ''u1'' (ac_db (acct_state acct_user)) = (Inr ts, ac_db (acct_state acct_user))
    \<and> enable_totp zero_hmac 5 [2] [] ''u1'' ''000000'' (ac_db (acct_state acct_user)) = (Inr [], d2)
    \<and> find_user d2 ''u1'' = Some u \<and> u_totpSecret u \<noteq> Some (ts_secret ts)"
proof -
  let ?d = "ac_db (acct_state acct_user)"
  have u: "find_user ?d ''u1'' = Some acct_user"
    by (simp add: find_user_def)
  have off: "\<not> u_totpEnabled acct_user" by (simp add: acct_user_def user_of_def)
  obtain ts where ts: "setup_totp [1] ''u1'' ?d = (Inr ts, ?d)"
    by (simp add: setup_totp_def u off Let_def)
  have "find_user_by_email ?d ''a@b.c'' = Some acct_user" by simp
  from update_user_found [OF acct_users(1) this]
  obtain d2 where en: "enable_totp zero_hmac 5 [2] [] ''u1'' ''000000'' ?d = (Inr [], d2)"
    by (simp add: enable_totp_def u off zero_code generate_totp_secret_def)
  from enable_ignores_setup_secret [OF acct_users(1) ts en] ts en show ?thesis by force
qed

end
