(* ===== verification/User_Search.thy ===== *)
theory User_Search
  imports Auth_Correct "HOL-Library.List_Lexorder" "HOL-Library.Char_ord"
begin

text \<open>
  The search over the accounts (backend/src/users/services/user-search.service.ts,
  backend/src/users/dto/user-search.dto.ts). \<open>rank\<close> is the full-text search of the database: None
  for a row that does not match, otherwise its relevance. Identifiers are compared as their texts.
  The lemmas: what a page holds, what it gives away, and which rows following the cursor loses.
\<close>

record user_search_dto =
  us_q :: "string option"
  us_role :: "user_role option"
  us_verified :: "bool option"
  us_cursor :: "uuid option"
  us_limit :: nat

definition search_limit :: "user_search_dto \<Rightarrow> nat" where
  "search_limit dto = min (if us_limit dto = 0 then 20 else us_limit dto) 100"

definition search_matches :: "(string \<Rightarrow> user \<Rightarrow> rat option) \<Rightarrow> user_search_dto \<Rightarrow> user \<Rightarrow> bool" where
  "search_matches rank dto u \<longleftrightarrow>
     live_user u \<and>
     (if truthy (us_q dto) then rank (the (us_q dto)) u \<noteq> None else True) \<and>
     (case us_role dto of None \<Rightarrow> True | Some r \<Rightarrow> u_role u = r) \<and>
     (case us_verified dto of None \<Rightarrow> True | Some v \<Rightarrow> u_isVerified u = v) \<and>
     (if truthy (us_cursor dto) then the (us_cursor dto) < u_id u else True)"

text \<open>By relevance or by date of creation, the greatest first, then by id.\<close>

definition search_cmp :: "(string \<Rightarrow> user \<Rightarrow> rat option) \<Rightarrow> user_search_dto \<Rightarrow> user \<Rightarrow> user \<Rightarrow> int" where
  "search_cmp rank dto a b =
     (let ka = (if truthy (us_q dto) then the (rank (the (us_q dto)) a) else of_int (u_createdAt a));
          kb = (if truthy (us_q dto) then the (rank (the (us_q dto)) b) else of_int (u_createdAt b))
      in if kb < ka then -1 else if ka < kb then 1
         else if u_id a < u_id b then -1 else if u_id b < u_id a then 1 else 0)"

definition mask_email :: "string \<Rightarrow> string" where
  "mask_email email =
     (let parts = split_on (CHR ''@'') email; localPart = hd parts;
          domain = (case tl parts of [] \<Rightarrow> ''undefined'' | d # _ \<Rightarrow> d)
      in take 2 localPart @ replicate (length localPart - 2) (CHR ''*'') @ ''@'' @ domain)"

record search_page =
  sp_users :: "user list" \<comment> \<open>whole rows with the address replaced\<close>
  sp_hasMore :: bool
  sp_nextCursor :: "uuid option"

definition masked_user :: "user \<Rightarrow> user" where
  "masked_user u = u\<lparr>u_email := (if u_role u = ADMIN then u_email u else mask_email (u_email u))\<rparr>"

definition search_users :: "(string \<Rightarrow> user \<Rightarrow> rat option) \<Rightarrow> user_search_dto \<Rightarrow> db \<Rightarrow> search_page" where
  "search_users rank dto d =
     (let limit = search_limit dto;
          results = take (limit + 1) (sort_by (search_cmp rank dto) (filter (search_matches rank dto) (db_users d)));
          hasMore = length results > limit;
          users = take limit results
      in \<lparr>sp_users = map masked_user users, sp_hasMore = hasMore,
          sp_nextCursor = (if hasMore then Some (u_id (last users)) else None)\<rparr>)"

text \<open>The pages a client sees that follows the cursor, at most n of them.\<close>

fun search_pages :: "nat \<Rightarrow> (string \<Rightarrow> user \<Rightarrow> rat option) \<Rightarrow> user_search_dto \<Rightarrow> db \<Rightarrow> search_page list" where
  "search_pages 0 rank dto d = []"
| "search_pages (Suc n) rank dto d =
     (let page = search_users rank dto d
      in page # (case sp_nextCursor page of
           None \<Rightarrow> []
         | Some c \<Rightarrow> search_pages n rank (dto\<lparr>us_cursor := Some c\<rparr>) d))"

subsection \<open>What a page holds\<close>

lemma masked_fields [simp]:
  "u_id (masked_user u) = u_id u" "u_role (masked_user u) = u_role u" "u_passwordHash (masked_user u) = u_passwordHash u"
  "u_otp (masked_user u) = u_otp u"
  by (simp_all add: masked_user_def)

lemma page_row:
  assumes "x \<in> set (sp_users (search_users rank dto d))"
  shows "\<exists>u \<in> set (db_users d). search_matches rank dto u \<and> x = masked_user u"
  using assms by (auto simp: search_users_def Let_def dest!: in_set_takeD)

lemma page_after_cursor:
  assumes "x \<in> set (sp_users (search_users rank dto d))" "us_cursor dto = Some c" "c \<noteq> []"
  shows "c < u_id x"
  using page_row [OF assms(1)] assms(2,3) by (auto simp: search_matches_def)

lemma search_limit_pos: "0 < search_limit dto"
  by (simp add: search_limit_def)

lemma next_cursor_on_page:
  assumes "sp_nextCursor (search_users rank dto d) = Some c"
  shows "c \<in> u_id ` set (sp_users (search_users rank dto d))"
proof -
  define rows where "rows = sort_by (search_cmp rank dto) (filter (search_matches rank dto) (db_users d))"
  let ?users = "take (search_limit dto) rows"
  have p: "sp_users (search_users rank dto d) = map masked_user ?users"
    "sp_nextCursor (search_users rank dto d) = (if length (take (search_limit dto + 1) rows) > search_limit dto
       then Some (u_id (last ?users)) else None)"
    by (simp_all add: search_users_def Let_def rows_def)
  then have "length (take (search_limit dto + 1) rows) > search_limit dto" "c = u_id (last ?users)"
    using assms by (simp_all only: if_splits option.inject) (auto split: if_splits)
  then have "?users \<noteq> []" using search_limit_pos [of dto] by auto
  then have "last ?users \<in> set ?users" by (rule last_in_set)
  then show ?thesis unfolding p(1) \<open>c = u_id (last ?users)\<close> by (metis image_eqI masked_fields(1) list.set_map)
qed

lemma next_cursor_nonempty:
  assumes "sp_nextCursor (search_users rank dto d) = Some c" "list_all (\<lambda>u. u_id u \<noteq> []) (db_users d)"
  shows "c \<noteq> []"
  using next_cursor_on_page [OF assms(1)] page_row assms(2) by (fastforce simp: list_all_iff)

lemma later_pages_after_cursor:
  assumes "list_all (\<lambda>u. u_id u \<noteq> []) (db_users d)"
  shows "us_cursor dto = Some c \<Longrightarrow> c \<noteq> [] \<Longrightarrow> page \<in> set (search_pages n rank dto d) \<Longrightarrow> x \<in> set (sp_users page) \<Longrightarrow> c < u_id x"
proof (induction n arbitrary: dto c)
  case (Suc n)
  let ?p = "search_users rank dto d"
  consider "page = ?p" | c' where "sp_nextCursor ?p = Some c'" "page \<in> set (search_pages n rank (dto\<lparr>us_cursor := Some c'\<rparr>) d)"
    using Suc.prems(3) by (cases "sp_nextCursor ?p") (auto simp: Let_def)
  then show ?case
  proof cases
    case 1
    then show ?thesis using page_after_cursor [of x rank dto d c] Suc.prems by simp
  next
    case 2
    have "c' < u_id x"
      by (rule Suc.IH [of "dto\<lparr>us_cursor := Some c'\<rparr>" c']) (use 2 Suc.prems(4) next_cursor_nonempty [OF _ assms] in auto)
    moreover have "c < c'"
      using next_cursor_on_page [OF 2(1)] page_after_cursor [of _ rank dto d c] Suc.prems(1,2) by auto
    ultimately show ?thesis by simp
  qed
qed simp

text \<open>Following the cursor loses accounts. The pages are ordered by date or by relevance but continue
  after the id of the last row: an account with a smaller id that is not on the first page is on
  none of the following ones, however many are asked for.\<close>

theorem search_loses_users:
  assumes "list_all (\<lambda>u. u_id u \<noteq> []) (db_users d)" "sp_nextCursor (search_users rank dto d) = Some c"
    and "u_id u \<le> c" "u_id u \<notin> u_id ` set (sp_users (search_users rank dto d))"
  shows "list_all (\<lambda>page. u_id u \<notin> u_id ` set (sp_users page)) (search_pages n rank dto d)"
proof (cases n)
  case (Suc m)
  have "u_id u \<notin> u_id ` set (sp_users page)"
    if "page \<in> set (search_pages m rank (dto\<lparr>us_cursor := Some c\<rparr>) d)" for page
  proof
    assume "u_id u \<in> u_id ` set (sp_users page)"
    then obtain x where "x \<in> set (sp_users page)" "u_id x = u_id u" by auto
    then have "c < u_id u"
      using later_pages_after_cursor [OF assms(1), of "dto\<lparr>us_cursor := Some c\<rparr>" c page m rank x] that
        next_cursor_nonempty [OF assms(2,1)] by simp
    then show False using assms(3) by simp
  qed
  then show ?thesis using assms(2,4) Suc by (simp add: list_all_iff)
qed simp

subsection \<open>What a page gives away\<close>

text \<open>The rows are whole rows: password hashes and reset codes included; the addresses hidden are those of
  everybody but the administrators, whoever asks.\<close>

lemma search_discloses:
  "x \<in> set (sp_users (search_users rank dto d)) \<Longrightarrow>
   \<exists>u \<in> set (db_users d). u_id u = u_id x \<and> u_passwordHash u = u_passwordHash x \<and> u_otp u = u_otp x \<and>
     (u_role u = ADMIN \<longrightarrow> u_email x = u_email u)"
  using page_row [of x rank dto d] by (auto simp: masked_user_def)

definition search_user :: "string \<Rightarrow> instant \<Rightarrow> user" where
  "search_user i t = (user_of i t \<lparr>nu_email = i @ ''@x'', nu_passwordHash = ''h'', nu_otp = None, nu_otpExpiry = None,
     nu_firstName = None, nu_lastName = None\<rparr>)"

definition search_db :: db where
  "search_db = (ac_db (acct_state acct_user))\<lparr>db_users := [search_user ''a'' 1, search_user ''b'' 3]\<rparr>"

definition first_search :: user_search_dto where
  "first_search = \<lparr>us_q = None, us_role = None, us_verified = None, us_cursor = None, us_limit = 1\<rparr>"

lemma first_search_page: "search_users rank first_search search_db =
    \<lparr>sp_users = [masked_user (search_user ''b'' 3)], sp_hasMore = True, sp_nextCursor = Some ''b''\<rparr>"
  by (simp add: search_users_def first_search_def search_db_def search_limit_def search_matches_def live_user_def
      search_user_def user_of_def search_cmp_def Let_def)

lemma search_loses_users_witness:
  "list_all (\<lambda>page. ''a'' \<notin> u_id ` set (sp_users page)) (search_pages 9 (\<lambda>_ _. None) first_search search_db)"
proof -
  have a: "u_id (search_user ''a'' 1) = ''a''" "u_id (search_user ''b'' 3) = ''b''" by (simp_all add: search_user_def user_of_def)
  have "list_all (\<lambda>u. u_id u \<noteq> []) (db_users search_db)" by (simp add: search_db_def a)
  from search_loses_users [OF this, of "\<lambda>_ _. None" first_search "''b''" "search_user ''a'' 1" 9]
  show ?thesis by (simp add: first_search_page a del: search_pages.simps)
qed

end
