(* ===== verification/Workspace_Browser.thy ===== *)
theory Workspace_Browser
  imports Workspaces Number_Text Js_Strings Totp
begin

text \<open>
  The catalogue page of the browser: the codecs of a filter and their synchronisation with the
  query of the URL (frontend/src/lib/filters/codecs.ts, hooks/useFiltersWithUrl.ts), the handlers
  of the page and of its filter bar (app/workspaces/page.tsx,
  components/workspaces/WorkspaceFilters.tsx), the query it sends
  (lib/react-query/hooks/workspaces/useWorkspaces.ts), what the listing of the server makes of it,
  the delay of useDebounce and the highlighting of components/workspaces/HighlightText.tsx.
\<close>

subsection \<open>Number(text)\<close>

text \<open>None stands for NaN and for the infinities.\<close>

definition finite_num :: "rat \<Rightarrow> num option" where
  "finite_num r = (let v = fl r in if \<bar>v\<bar> < 2 ^ 1024 then Some v else None)"

definition digit_value :: "char \<Rightarrow> nat" where "digit_value c = (case hex_value c of Some d \<Rightarrow> d | None \<Rightarrow> 99)"

definition radix_value :: "nat \<Rightarrow> string \<Rightarrow> num option" where
  "radix_value b ds =
     (if ds \<noteq> [] \<and> list_all (\<lambda>c. digit_value c < b) ds
      then finite_num (of_nat (foldl (\<lambda>acc c. acc * b + digit_value c) 0 ds)) else None)"

text \<open>Digits, then an optional fraction, then an optional exponent, and nothing else.\<close>

definition exponent_part :: "string \<Rightarrow> int option" where
  "exponent_part s =
     (case s of
        [] \<Rightarrow> Some 0
      | c # r \<Rightarrow>
        if c \<noteq> CHR ''e'' \<and> c \<noteq> CHR ''E'' then None
        else (let (neg, ds) = (case r of [] \<Rightarrow> (False, []) | d # r' \<Rightarrow>
                if d = CHR ''-'' then (True, r') else if d = CHR ''+'' then (False, r') else (False, r))
              in if ds \<noteq> [] \<and> list_all is_decimal ds
                 then Some (if neg then - int (nat_of_string ds) else int (nat_of_string ds)) else None))"

definition decimal_value :: "string \<Rightarrow> rat option" where
  "decimal_value s =
     (let whole = takeWhile is_decimal s; r = dropWhile is_decimal s;
          (frac, r') = (case r of [] \<Rightarrow> ([], []) | c # r1 \<Rightarrow>
             if c = CHR ''.'' then (takeWhile is_decimal r1, dropWhile is_decimal r1) else ([], r))
      in if whole = [] \<and> frac = [] then None
         else map_option (\<lambda>e. of_nat (nat_of_string (whole @ frac)) * 10 powi (e - int (length frac)))
                (exponent_part r'))"

definition js_number :: "string \<Rightarrow> num option" where
  "js_number s =
     (case js_trim s of
        [] \<Rightarrow> Some 0
      | c # r \<Rightarrow>
        if c = CHR ''0'' \<and> r \<noteq> [] \<and> hd r \<in> set ''xX'' then radix_value 16 (tl r)
        else if c = CHR ''0'' \<and> r \<noteq> [] \<and> hd r \<in> set ''oO'' then radix_value 8 (tl r)
        else if c = CHR ''0'' \<and> r \<noteq> [] \<and> hd r \<in> set ''bB'' then radix_value 2 (tl r)
        else if c = CHR ''-'' then Option.bind (decimal_value r) (\<lambda>v. finite_num (- v))
        else if c = CHR ''+'' then Option.bind (decimal_value r) finite_num
        else Option.bind (decimal_value (c # r)) finite_num)"

subsection \<open>Query strings\<close>

text \<open>The serializer and the parser of application/x-www-form-urlencoded, on bytes.\<close>

definition form_plain :: "char \<Rightarrow> bool" where
  "form_plain c \<longleftrightarrow> is_decimal c \<or> (65 \<le> byte c \<and> byte c \<le> 90) \<or> (97 \<le> byte c \<and> byte c \<le> 122) \<or> c \<in> set ''*-._''"

definition upper_hex :: "nat \<Rightarrow> char" where
  "upper_hex n = (if n < 10 then char_of (48 + n) else char_of (55 + n))"

definition form_encode :: "string \<Rightarrow> string" where
  "form_encode s =
     concat (map (\<lambda>c. if c = CHR '' '' then ''+'' else if form_plain c then [c]
       else [CHR 0x25, upper_hex (byte c div 16), upper_hex (byte c mod 16)]) s)"

fun form_decode :: "string \<Rightarrow> string" where
  "form_decode [] = []"
| "form_decode (c # s) =
     (if c = CHR ''+'' then CHR '' '' # form_decode s
      else if c = CHR 0x25
      then (case s of
              a # b # r \<Rightarrow> (case (hex_value a, hex_value b) of
                 (Some x, Some y) \<Rightarrow> char_of (16 * x + y) # form_decode r
               | _ \<Rightarrow> c # form_decode s)
            | _ \<Rightarrow> c # form_decode s)
      else c # form_decode s)"

type_synonym search_params = "(string \<times> string) list"

definition params_string :: "search_params \<Rightarrow> string" where
  "params_string ps =
     (let pair = (\<lambda>(k, v). form_encode k @ ''='' @ form_encode v)
      in case ps of [] \<Rightarrow> [] | p # r \<Rightarrow> pair p @ concat (map (\<lambda>q. ''&'' @ pair q) r))"

definition parse_params :: "string \<Rightarrow> search_params" where
  "parse_params q =
     map (\<lambda>part. (form_decode (takeWhile (\<lambda>c. c \<noteq> CHR ''='') part),
                 form_decode (drop 1 (dropWhile (\<lambda>c. c \<noteq> CHR ''='') part))))
       (filter (\<lambda>part. part \<noteq> []) (split_on (CHR ''&'') q))"

subsection \<open>Codecs and filters\<close>

definition enum_parse :: "string list \<Rightarrow> string \<Rightarrow> string option" where
  "enum_parse allowed raw = (if raw \<in> set allowed then Some raw else None)"

definition boolean_parse :: "string \<Rightarrow> bool option" where
  "boolean_parse raw = (if raw = ''true'' then Some True else if raw = ''false'' then Some False else None)"

definition boolean_serialize :: "bool \<Rightarrow> string" where
  "boolean_serialize b = (if b then ''true'' else ''false'')"

text \<open>A price of the filters may be NaN, what parseInt makes of a text without digits.\<close>

datatype price = Not_A_Number | Amount num

definition number_parse :: "string \<Rightarrow> price option" where
  "number_parse raw = map_option Amount (js_number raw)"

definition number_serialize :: "price \<Rightarrow> string" where
  "number_serialize p = (case p of Not_A_Number \<Rightarrow> ''NaN'' | Amount x \<Rightarrow> num_string x)"

definition string_parse :: "string \<Rightarrow> string option" where
  "string_parse raw = (if length raw > 0 then Some raw else None)"

record workspace_filters =
  wf_type :: "string option"
  wf_availability :: "bool option"
  wf_minPrice :: "price option"
  wf_maxPrice :: "price option"
  wf_search :: "string option"

definition WORKSPACE_TYPES :: "string list" where
  "WORKSPACE_TYPES = [''office'', ''meeting-room'', ''desk'', ''conference-room'']"

definition DEFAULT_WORKSPACE_FILTERS :: workspace_filters where
  "DEFAULT_WORKSPACE_FILTERS = \<lparr>wf_type = None, wf_availability = None, wf_minPrice = None, wf_maxPrice = None, wf_search = None\<rparr>"

text \<open>\<open>useFiltersWithUrl\<close> on the schema of the page: reading the query, and writing it.\<close>

definition read_param :: "(string \<Rightarrow> 'a option) \<Rightarrow> search_params \<Rightarrow> string \<Rightarrow> 'a option" where
  "read_param parse ps key =
     (case map_of ps key of None \<Rightarrow> None | Some raw \<Rightarrow> if raw = [] then None else parse raw)"

definition read_filters :: "string \<Rightarrow> workspace_filters" where
  "read_filters query =
     (let ps = parse_params query
      in \<lparr>wf_type = read_param (enum_parse WORKSPACE_TYPES) ps ''type'',
          wf_availability = read_param boolean_parse ps ''availability'',
          wf_minPrice = read_param number_parse ps ''minPrice'',
          wf_maxPrice = read_param number_parse ps ''maxPrice'',
          wf_search = read_param string_parse ps ''search''\<rparr>)"

definition set_param :: "string \<Rightarrow> ('a \<Rightarrow> string) \<Rightarrow> 'a option \<Rightarrow> search_params" where
  "set_param key serialize v = (case v of None \<Rightarrow> [] | Some x \<Rightarrow> [(key, serialize x)])"

definition filter_params :: "workspace_filters \<Rightarrow> search_params" where
  "filter_params f =
     set_param ''type'' id (wf_type f) @ set_param ''availability'' boolean_serialize (wf_availability f) @
     set_param ''minPrice'' number_serialize (wf_minPrice f) @ set_param ''maxPrice'' number_serialize (wf_maxPrice f) @
     set_param ''search'' id (wf_search f)"

definition set_filters :: "workspace_filters \<Rightarrow> string" where \<comment> \<open>the query after \<open>router.replace\<close>\<close>
  "set_filters f = params_string (filter_params f)"

subsection \<open>The handlers of the page\<close>

definition handle_search_change :: "workspace_filters \<Rightarrow> string \<Rightarrow> string" where
  "handle_search_change filters v = set_filters (filters\<lparr>wf_search := (if v = [] then None else Some v)\<rparr>)"

definition handle_filters_change :: "workspace_filters \<Rightarrow> workspace_filters \<Rightarrow> string" where
  "handle_filters_change filters nxt = set_filters (nxt\<lparr>wf_search := wf_search filters\<rparr>)"

definition bar_filters :: "workspace_filters \<Rightarrow> workspace_filters" where \<comment> \<open>what the bar is given\<close>
  "bar_filters f = f\<lparr>wf_search := None\<rparr>"

definition type_change :: "workspace_filters \<Rightarrow> string \<Rightarrow> string" where
  "type_change f v = handle_filters_change f ((bar_filters f)\<lparr>wf_type := (if v = [] then None else Some v)\<rparr>)"

definition availability_change :: "workspace_filters \<Rightarrow> string \<Rightarrow> string" where
  "availability_change f v =
     handle_filters_change f ((bar_filters f)\<lparr>wf_availability := (if v = [] then None else Some (v = ''true''))\<rparr>)"

definition max_price_change :: "workspace_filters \<Rightarrow> string \<Rightarrow> string" where
  "max_price_change f v =
     handle_filters_change f ((bar_filters f)\<lparr>wf_maxPrice :=
       (if v = [] then None else Some (case parse_int v of None \<Rightarrow> Not_A_Number | Some n \<Rightarrow> Amount (js_int n)))\<rparr>)"

definition handle_clear_search :: "workspace_filters \<Rightarrow> string" where
  "handle_clear_search f = handle_search_change f []"

text \<open>Two replacements of the URL one after the other, both computed from the filters of the render
  the click was made in; the second one stays.\<close>

definition handle_clear_all :: "workspace_filters \<Rightarrow> string list" where
  "handle_clear_all f = [handle_filters_change f DEFAULT_WORKSPACE_FILTERS, handle_search_change f []]"

subsection \<open>The query and its answer\<close>

definition effective_search :: "string option \<Rightarrow> string option" where
  "effective_search search =
     (case search of None \<Rightarrow> None
      | Some s \<Rightarrow> if s \<noteq> [] \<and> length (js_trim s) \<ge> 2 then Some (js_trim s) else None)"

definition request_params :: "workspace_filters \<Rightarrow> search_params" where \<comment> \<open>axios leaves undefined out\<close>
  "request_params f = filter_params (f\<lparr>wf_search := effective_search (wf_search f)\<rparr>)"

text \<open>The server reads page, limit, type, availability and the amenities; the two enumerations are not
  checked before the database compares them.\<close>

definition workspace_types :: "workspace_type list" where
  "workspace_types = [HOT_DESK, DEDICATED_DESK, PRIVATE_OFFICE, MEETING_ROOM, VIRTUAL, HYBRID]"

definition read_enum :: "('e \<Rightarrow> string) \<Rightarrow> 'e list \<Rightarrow> string option \<Rightarrow> 'e option result" where
  "read_enum name values raw =
     (if \<not> truthy raw then Inr None
      else (case find (\<lambda>v. name v = the raw) values of
              Some v \<Rightarrow> Inr (Some v)
            | None \<Rightarrow> Inl (BadRequest ''Database query failed'')))"

definition get_workspaces_handler ::
  "instant \<Rightarrow> search_params \<Rightarrow> db \<Rightarrow> listing_cache \<Rightarrow> workspace_page result \<times> listing_cache" where
  "get_workspaces_handler now ps d c =
     (case (read_enum workspace_type_name workspace_types (map_of ps ''type''),
            read_enum workspace_availability_name [AVAILABLE, UNAVAILABLE] (map_of ps ''availability'')) of
        (Inr t, Inr a) \<Rightarrow>
          (case listing_handler now \<lparr>wq_page = 1, wq_limit = 10, wq_type = t, wq_availability = a,
                   wq_amenities = [], wq_amenityMatch = MatchAll\<rparr> d c of (page, c') \<Rightarrow> (Inr page, c'))
      | _ \<Rightarrow> (case c of
                Some (page, expires) \<Rightarrow>
                  (if now < expires then Inr page else Inl (BadRequest ''Database query failed''), c)
              | None \<Rightarrow> (Inl (BadRequest ''Database query failed''), c)))"

text \<open>The answer the page reads \<open>workspaces\<close> from, after the envelope is taken off.\<close>

definition page_json :: "(workspace \<Rightarrow> json) \<Rightarrow> workspace_page \<Rightarrow> json" where
  "page_json row p =
     JObj [(''data'', JArr (map row (wp_data p))), (''total'', JNum (of_nat (wp_total p))),
           (''page'', JNum (of_nat (wp_page p))), (''limit'', JNum (of_nat (wp_limit p)))]"

definition shown_workspaces :: "json \<Rightarrow> json list" where
  "shown_workspaces response = (case json_field response ''workspaces'' of Some (JArr ws) \<Rightarrow> ws | _ \<Rightarrow> [])"

subsection \<open>The delay of the search box\<close>

text \<open>\<open>changes\<close> are the values rendered with their instants, in order: the value shown at an instant is
  the last one that stayed for the delay, the initial value before.\<close>

fun debounced :: "int \<Rightarrow> instant \<Rightarrow> 'a \<Rightarrow> (instant \<times> 'a) list \<Rightarrow> 'a" where
  "debounced delay now v [] = v"
| "debounced delay now v [(t, x)] = (if t + delay \<le> now then x else v)"
| "debounced delay now v ((t, x) # (t', y) # r) =
     debounced delay now (if t + delay \<le> t' \<and> t + delay \<le> now then x else v) ((t', y) # r)"

subsection \<open>Highlighting\<close>

text \<open>\<open>text.split(regex)\<close> with one capture group around the escaped query: unmarked and marked parts in
  turn. The fuel is the length of the text.\<close>

fun split_marks :: "nat \<Rightarrow> string \<Rightarrow> string \<Rightarrow> string \<Rightarrow> string list" where
  "split_marks 0 q acc s = [acc @ s]"
| "split_marks (Suc n) q acc s =
     (case s of
        [] \<Rightarrow> [acc]
      | c # r \<Rightarrow>
        if starts_with (js_lower q) (js_lower s)
        then acc # take (length q) s # split_marks n q [] (drop (length q) s)
        else split_marks n q (acc @ [c]) r)"

text \<open>\<open>regex.test\<close> of a global expression starts where the last match ended: the state of the fold.\<close>

definition regex_test :: "string \<Rightarrow> nat \<Rightarrow> string \<Rightarrow> bool \<times> nat" where
  "regex_test q lastIndex part =
     (if lastIndex > length part then (False, 0)
      else (case find (\<lambda>i. starts_with (js_lower q) (js_lower (drop i part))) [lastIndex..<Suc (length part)] of
              Some i \<Rightarrow> (True, i + length q)
            | None \<Rightarrow> (False, 0)))"

fun mark_parts :: "string \<Rightarrow> nat \<Rightarrow> string list \<Rightarrow> (bool \<times> string) list" where
  "mark_parts q lastIndex [] = []"
| "mark_parts q lastIndex (p # ps) =
     (case regex_test q lastIndex p of (marked, i) \<Rightarrow> (marked, p) # mark_parts q i ps)"

definition highlight_text :: "string \<Rightarrow> string \<Rightarrow> (bool \<times> string) list" where
  "highlight_text t query =
     (if query = [] \<or> length (js_trim query) < 2 then [(False, t)]
      else (let q = js_trim query in mark_parts q 0 (split_marks (length t) q [] t)))"

end
