(* ===== verification/Workspace_Browser_Correct.thy ===== *)
theory Workspace_Browser_Correct
  imports Workspace_Browser Conflict_Correct
begin

text \<open>
  What the catalogue page promises: filters read back from the URL they were written to, the
  button that clears them, what becomes of a query on the server, the delay of the search box and
  the marks of the highlighted text.
\<close>

subsection \<open>Query strings\<close>

lemma hex_value_upper: "n < 16 \<Longrightarrow> hex_value (upper_hex n) = Some n"
  by (auto simp: hex_value_def upper_hex_def)

lemma form_plain_special: "\<not> form_plain (CHR ''+'')" "\<not> form_plain (CHR 0x25)" "\<not> form_plain (CHR ''&'')"
  "\<not> form_plain (CHR ''='')" "\<not> form_plain (CHR '' '')"
  by (simp_all add: form_plain_def is_decimal_def char_range_def)

lemma nibbles: "byte c div 16 < 16" "byte c mod 16 < 16"
proof -
  have "byte c < 16 * 16" by simp
  then show "byte c div 16 < 16" by (rule less_mult_imp_div_less)
qed simp

lemma form_decode_encode_append: "form_decode (form_encode s @ r) = s @ form_decode r"
proof (induction s)
  case (Cons c s)
  have c: "char_of (16 * (byte c div 16) + byte c mod 16) = c" by simp
  show ?case
    using Cons form_plain_special nibbles [of c] c
    by (auto simp: form_encode_def hex_value_upper)
qed (simp add: form_encode_def)

lemma form_decode_encode [simp]: "form_decode (form_encode s) = s"
  using form_decode_encode_append [of s "[]"] by simp

lemma upper_hex_plain: "n < 16 \<Longrightarrow> upper_hex n \<noteq> CHR ''&'' \<and> upper_hex n \<noteq> CHR ''=''"
proof -
  assume "n < 16"
  then have "n \<in> set [0..<16]" by simp
  moreover have "list_all (\<lambda>n. upper_hex n \<noteq> CHR ''&'' \<and> upper_hex n \<noteq> CHR ''='') [0..<16]" by code_simp
  ultimately show ?thesis unfolding list_all_iff by blast
qed

lemma form_encode_chars: "CHR ''&'' \<notin> set (form_encode s)" "CHR ''='' \<notin> set (form_encode s)"
proof -
  have "x \<noteq> CHR ''&'' \<and> x \<noteq> CHR ''=''" if "x \<in> set (form_encode s)" for x
  proof -
    from that obtain c where "x \<in> {CHR ''+'', c, CHR 0x25, upper_hex (byte c div 16), upper_hex (byte c mod 16)}"
      "x = c \<Longrightarrow> form_plain c \<or> x = CHR ''+'' \<or> x = CHR 0x25 \<or> x = upper_hex (byte c div 16) \<or> x = upper_hex (byte c mod 16)"
      unfolding form_encode_def by (fastforce split: if_splits)
    then show ?thesis
      using form_plain_special upper_hex_plain [OF nibbles(1), of c] upper_hex_plain [OF nibbles(2), of c] by auto
  qed
  then show "CHR ''&'' \<notin> set (form_encode s)" "CHR ''='' \<notin> set (form_encode s)" by blast+
qed

definition param_text :: "string \<times> string \<Rightarrow> string" where
  "param_text p = form_encode (fst p) @ ''='' @ form_encode (snd p)"

lemma param_text_chars: "CHR ''&'' \<notin> set (param_text p)" "param_text p \<noteq> []"
  using form_encode_chars by (auto simp: param_text_def)

lemma split_params:
  "split_on (CHR ''&'') (param_text p @ concat (map (\<lambda>q. ''&'' @ param_text q) ps)) = map param_text (p # ps)"
proof (induction ps arbitrary: p)
  case Nil
  then show ?case by (simp add: split_on_plain param_text_chars)
next
  case (Cons q ps)
  then show ?case by (simp add: split_on_append param_text_chars)
qed

lemma param_halves:
  "takeWhile (\<lambda>c. c \<noteq> CHR ''='') (param_text p) = form_encode (fst p)"
  "drop 1 (dropWhile (\<lambda>c. c \<noteq> CHR ''='') (param_text p)) = form_encode (snd p)"
proof -
  have "\<And>x. x \<in> set (form_encode (fst p)) \<Longrightarrow> x \<noteq> CHR ''=''" using form_encode_chars by metis
  then show "takeWhile (\<lambda>c. c \<noteq> CHR ''='') (param_text p) = form_encode (fst p)"
    "drop 1 (dropWhile (\<lambda>c. c \<noteq> CHR ''='') (param_text p)) = form_encode (snd p)"
    by (simp_all add: param_text_def takeWhile_append2 dropWhile_append2)
qed

lemma parse_params_string: "parse_params (params_string ps) = ps"
proof (cases ps)
  case Nil
  then show ?thesis by (simp add: parse_params_def params_string_def)
next
  case (Cons p r)
  have "params_string ps = param_text p @ concat (map (\<lambda>q. ''&'' @ param_text q) r)"
    by (simp add: Cons params_string_def param_text_def split_beta)
  then have "split_on (CHR ''&'') (params_string ps) = map param_text ps"
    using split_params [of p r] Cons by simp
  then show ?thesis
    by (simp add: parse_params_def param_text_chars filter_id_conv param_halves map_idI comp_def del: One_nat_def)
qed

subsection \<open>Whole numbers\<close>

text \<open>A whole number below 10^15 is printed as its decimal digits.\<close>

lemma nat_string_times: "0 < d \<Longrightarrow> nat_string (d * 10 ^ j) = nat_string d @ replicate j (CHR ''0'')"
proof (induction j)
  case (Suc j)
  have zero: "digit_char 0 = CHR ''0''" by code_simp
  have "10 \<le> d * 10 ^ Suc j" using Suc.prems by (simp add: Suc_leI)
  then have "nat_string (d * 10 ^ Suc j) = nat_string (d * 10 ^ j) @ [digit_char 0]"
    by (subst nat_string.simps) (simp add: mult.commute mult.left_commute)
  then show ?case using Suc by (simp add: replicate_append_same zero)
qed simp

lemma nat_string_length_pos: "0 < n \<Longrightarrow> 10 ^ (length (nat_string n) - 1) \<le> n \<and> n < 10 ^ length (nat_string n)"
proof (induction n rule: nat_string.induct)
  case (1 n)
  show ?case
  proof (cases "n < 10")
    case True
    then show ?thesis using 1 by (simp add: nat_string.simps [of n])
  next
    case False
    let ?l = "length (nat_string (n div 10))"
    have ih: "10 ^ (?l - 1) \<le> n div 10" "n div 10 < 10 ^ ?l" using 1 False by simp_all
    have l: "0 < ?l" by simp
    have "length (nat_string n) = Suc ?l" using False by (simp add: nat_string.simps [of n])
    moreover have "(10 :: nat) ^ ?l = 10 * 10 ^ (?l - 1)" using l by (metis Suc_diff_1 power_Suc)
    moreover have "10 * 10 ^ (?l - 1) \<le> n" "n < 10 * 10 ^ ?l" using ih by linarith+
    ultimately show ?thesis by simp
  qed
qed

lemma first_found:
  assumes "p k" "a \<le> k" "k < b"
  obtains m where "find p [a..<b] = Some m" "a \<le> m" "m \<le> k" "p m"
proof -
  have "find p [a..<b] \<noteq> None" using assms by (auto simp: find_None_iff)
  then obtain m where m: "find p [a..<b] = Some m" by auto
  then obtain i where i: "i < b - a" "p (a + i)" "m = a + i" "\<forall>j < i. \<not> p (a + j)"
    by (auto simp: find_Some_iff)
  have "m \<le> k"
  proof (rule ccontr)
    assume "\<not> m \<le> k"
    then have "k - a < i" "a + (k - a) = k" using i(3) assms(2) by simp_all
    then show False using i(4) assms(1) by metis
  qed
  with m i show ?thesis by (intro that) simp_all
qed

lemma positive_string_whole:
  assumes "0 < n" "n < 10 ^ 15"
  shows "positive_string (of_nat n) = nat_string n"
proof -
  let ?x = "of_nat n :: num"
  define e where "e = length (nat_string n)"
  have e: "1 \<le> e" "e \<le> 15"
    using length_nat_string [of 15 n] assms by (simp_all add: e_def Suc_leI)
  have pe: "(10 :: nat) ^ (e - 1) \<le> n" using nat_string_length_pos [OF assms(1)] by (simp add: e_def)
  have de: "dec_exp ?x = int e" using assms(1) by (simp add: dec_exp_def e_def)
  have flx: "fl (of_nat m) = of_nat m" if "m < 2 ^ 53" for m
    using fl_int [of "int m"] that by simp
  have "\<lfloor>1 / 2 :: num\<rfloor> = 0" by (rule floor_unique) simp_all
  then have "digits_of ?x e = n" by (simp add: digits_of_def de)
  then have rb: "reads_back ?x e" using flx [of n] assms(2) by (simp add: reads_back_def de)
  have "e < 18" using e by simp
  then obtain k where k: "find (reads_back ?x) [1..<18] = Some k" "1 \<le> k" "k \<le> e" "reads_back ?x k"
    by (rule first_found [where p = "reads_back ?x", OF rb e(1)])
  have sd: "shortest_digits ?x = k" unfolding shortest_digits_def k(1) by simp
  let ?p = "10 ^ (e - k) :: nat"
  have p: "10 powi (int k - int e) = (1 / of_nat ?p :: num)" "10 powi (int e - int k) = (of_nat ?p :: num)"
    using k(3) by (simp_all add: power_int_def nat_diff_distrib' field_simps)
  define d where "d = digits_of ?x k"
  have d: "d = nat \<lfloor>?x / of_nat ?p + 1 / 2\<rfloor>" by (simp add: d_def digits_of_def de p)
  have "of_nat d \<le> ?x / of_nat ?p + 1 / 2" unfolding d by (subst of_nat_nat) (simp_all add: add_nonneg_nonneg)
  then have "(of_nat (d * ?p) :: num) \<le> ?x + of_nat ?p / 2" by (simp add: field_simps)
  moreover have "?p \<le> 10 * n"
  proof -
    have "?p \<le> 10 ^ e" by (rule power_increasing) simp_all
    also have "\<dots> = 10 * 10 ^ (e - 1)" using e by (metis Suc_diff_1 One_nat_def Suc_le_lessD power_Suc)
    finally show ?thesis using pe by simp
  qed
  then have "(of_nat ?p :: num) \<le> of_nat (10 * n)" by (simp only: of_nat_le_iff)
  ultimately have "(of_nat (d * ?p) :: num) \<le> of_nat (6 * n)" by (simp add: field_simps)
  then have "d * ?p \<le> 6 * n" by (simp only: of_nat_le_iff)
  then have "fl (of_nat (d * ?p)) = of_nat (d * ?p)" using assms(2) by (intro flx) simp
  moreover have "fl (of_nat (d * ?p)) = ?x" using k(4) by (simp add: reads_back_def de p d_def)
  ultimately have dn: "d * ?p = n" by (metis of_nat_eq_iff)
  then have "0 < d" using assms(1) by (cases d) simp_all
  then have "nat_string d @ replicate (e - k) (CHR ''0'') = nat_string n" by (metis nat_string_times dn)
  then show ?thesis
    using k(3) e by (simp add: positive_string_def sd de d_def [symmetric] Let_def)
qed

lemma num_string_whole: "\<bar>n\<bar> < 10 ^ 15 \<Longrightarrow> num_string (of_int n) = int_string n"
proof -
  assume n: "\<bar>n\<bar> < 10 ^ 15"
  consider "n = 0" | "0 < n" | "n < 0" by linarith
  then show ?thesis
  proof cases
    case 1
    then show ?thesis by (simp add: num_string_def int_string_def nat_string.simps digit_char_def) code_simp
  next
    case 2
    then have "(of_int n :: num) = of_nat (nat n)" "nat n < 10 ^ 15" using n by simp_all
    then show ?thesis using positive_string_whole [of "nat n"] 2 by (simp add: num_string_def int_string_def)
  next
    case 3
    then have "(- of_int n :: num) = of_nat (nat (- n))" "nat (- n) < 10 ^ 15" using n by simp_all
    then show ?thesis using positive_string_whole [of "nat (- n)"] 3 by (simp add: num_string_def int_string_def)
  qed
qed

lemma decimal_nat_string: "c \<in> set (nat_string n) \<Longrightarrow> is_decimal c"
  using digits_nat_string [of n] by (simp add: digits_def list_all_iff is_decimal_def char_range_def)

lemma nat_string_hd: "0 < n \<Longrightarrow> hd (nat_string n) \<noteq> CHR ''0''"
proof (induction n rule: nat_string.induct)
  case (1 n)
  show ?case
  proof (cases "n < 10")
    case True
    then have "n \<in> set [1..<10]" using 1 by simp
    moreover have "list_all (\<lambda>n. digit_char n \<noteq> CHR ''0'') [1..<10]" by code_simp
    ultimately show ?thesis using True by (simp add: nat_string.simps [of n] list_all_iff del: set_upt)
  next
    case False
    then show ?thesis using 1 by (simp add: nat_string.simps [of n])
  qed
qed

lemma nat_string_ends: "is_decimal (hd (nat_string n))" "is_decimal (last (nat_string n))"
  by (simp_all add: decimal_nat_string [where n = n])

lemma decimal_not_space: "is_decimal c \<Longrightarrow> \<not> js_space c"
  by (auto simp: is_decimal_def char_range_def js_space_def ascii_ws_def)

lemma decimal_value_whole: "decimal_value (nat_string n) = Some (of_nat n)"
proof -
  have "takeWhile is_decimal (nat_string n) = nat_string n" "dropWhile is_decimal (nat_string n) = []"
    by (simp_all add: decimal_nat_string takeWhile_eq_all_conv dropWhile_eq_Nil_conv)
  then show ?thesis unfolding decimal_value_def Let_def by (simp only:) (simp add: exponent_part_def)
qed

lemma finite_whole: "\<bar>n\<bar> < 10 ^ 15 \<Longrightarrow> finite_num (of_int n) = Some (of_int n)"
proof -
  assume n: "\<bar>n\<bar> < 10 ^ 15"
  then have f: "fl (of_int n) = of_int n" by (intro fl_int) simp
  have "\<bar>of_int n :: num\<bar> < 10 ^ 15" using n by (metis of_int_abs of_int_less_iff of_int_numeral of_int_power)
  also have "\<dots> < 2 ^ 1024" by simp
  finally show ?thesis using f by (simp add: finite_num_def)
qed

lemma js_number_whole: "\<bar>n\<bar> < 10 ^ 15 \<Longrightarrow> js_number (int_string n) = Some (of_int n)"
proof -
  assume n: "\<bar>n\<bar> < 10 ^ 15"
  show ?thesis
  proof (cases "n < 0")
    case True
    let ?s = "nat_string (nat (- n))"
    have "js_trim (CHR ''-'' # ?s) = CHR ''-'' # ?s"
      by (rule trim_ends) (simp_all add: decimal_not_space nat_string_ends, simp add: js_space_def ascii_ws_def)
    then show ?thesis
      using True finite_whole [OF n] by (simp add: js_number_def int_string_def decimal_value_whole)
  next
    case False
    let ?s = "nat_string (nat n)"
    obtain c r where s: "?s = c # r" by (cases ?s) (use nat_string_nonempty in auto)
    have t: "js_trim ?s = ?s" by (rule trim_ends) (simp_all add: decimal_not_space nat_string_ends)
    have "c \<noteq> CHR ''-''" "c \<noteq> CHR ''+''"
      using decimal_nat_string [of c "nat n"] s by (auto simp: is_decimal_def char_range_def)
    moreover have "r = [] \<or> c \<noteq> CHR ''0''"
    proof (cases "n = 0")
      case True
      then show ?thesis using s by (simp add: nat_string.simps)
    next
      case n: False
      then show ?thesis using nat_string_hd [of "nat n"] s False by simp
    qed
    ultimately have "js_number ?s = Option.bind (decimal_value ?s) finite_num"
      unfolding js_number_def s t [unfolded s] by auto
    then show ?thesis using False finite_whole [OF n] by (simp add: int_string_def decimal_value_whole)
  qed
qed

subsection \<open>Filters in the URL\<close>

definition whole_price :: "price \<Rightarrow> bool" where
  "whole_price p \<longleftrightarrow> (\<exists>n. p = Amount (of_int n) \<and> \<bar>n\<bar> < 10 ^ 15)"

lemma price_reads_back: "whole_price p \<Longrightarrow> number_parse (number_serialize p) = Some p \<and> number_serialize p \<noteq> []"
proof -
  assume "whole_price p"
  then obtain n where n: "p = Amount (of_int n)" "\<bar>n\<bar> < 10 ^ 15" by (auto simp: whole_price_def)
  have "number_serialize p = int_string n" using n by (simp add: number_serialize_def num_string_whole)
  moreover have "int_string n \<noteq> []" by (simp add: int_string_def)
  ultimately show ?thesis using js_number_whole [OF n(2)] n(1) by (simp add: number_parse_def)
qed

definition filters_ok :: "workspace_filters \<Rightarrow> bool" where
  "filters_ok f \<longleftrightarrow> pred_option (\<lambda>t. t \<in> set WORKSPACE_TYPES) (wf_type f) \<and>
     pred_option whole_price (wf_minPrice f) \<and> pred_option whole_price (wf_maxPrice f) \<and> wf_search f \<noteq> Some []"

lemma read_set_param:
  assumes "key \<notin> fst ` set ps" "key \<notin> fst ` set qs"
    and "\<And>x. v = Some x \<Longrightarrow> parse (serialize x) = Some x \<and> serialize x \<noteq> []"
  shows "read_param parse (ps @ set_param key serialize v @ qs) key = v"
proof -
  have "map_of ps key = None" "map_of qs key = None" using assms(1,2) by (simp_all add: map_of_eq_None_iff)
  then show ?thesis using assms(3) by (cases v) (auto simp: read_param_def set_param_def map_add_def)
qed

lemma set_param_keys: "fst ` set (set_param key serialize v) \<subseteq> {key}"
  by (cases v) (simp_all add: set_param_def)

lemma read_set_filters:
  assumes "filters_ok f"
  shows "read_filters (set_filters f) = f"
proof -
  let ?t = "set_param ''type'' id (wf_type f)" and ?a = "set_param ''availability'' boolean_serialize (wf_availability f)"
    and ?m = "set_param ''minPrice'' number_serialize (wf_minPrice f)"
    and ?x = "set_param ''maxPrice'' number_serialize (wf_maxPrice f)" and ?s = "set_param ''search'' id (wf_search f)"
  have k: "fst ` set ?t \<subseteq> {''type''}" "fst ` set ?a \<subseteq> {''availability''}" "fst ` set ?m \<subseteq> {''minPrice''}"
    "fst ` set ?x \<subseteq> {''maxPrice''}" "fst ` set ?s \<subseteq> {''search''}"
    by (rule set_param_keys)+
  have ok: "pred_option (\<lambda>t. t \<in> set WORKSPACE_TYPES) (wf_type f)" "pred_option whole_price (wf_minPrice f)"
    "pred_option whole_price (wf_maxPrice f)" "wf_search f \<noteq> Some []"
    using assms by (simp_all add: filters_ok_def)
  have "read_param (enum_parse WORKSPACE_TYPES) ([] @ ?t @ (?a @ ?m @ ?x @ ?s)) ''type'' = wf_type f"
    by (rule read_set_param) (use k ok(1) in \<open>auto simp: enum_parse_def WORKSPACE_TYPES_def\<close>)
  moreover have "read_param boolean_parse (?t @ ?a @ (?m @ ?x @ ?s)) ''availability'' = wf_availability f"
    by (rule read_set_param) (use k in \<open>auto simp: boolean_parse_def boolean_serialize_def\<close>)
  moreover have "read_param number_parse ((?t @ ?a) @ ?m @ (?x @ ?s)) ''minPrice'' = wf_minPrice f"
    by (rule read_set_param) (use k ok(2) price_reads_back in auto)
  moreover have "read_param number_parse ((?t @ ?a @ ?m) @ ?x @ ?s) ''maxPrice'' = wf_maxPrice f"
    by (rule read_set_param) (use k ok(3) price_reads_back in auto)
  moreover have "read_param string_parse ((?t @ ?a @ ?m @ ?x) @ ?s @ []) ''search'' = wf_search f"
    by (rule read_set_param) (use k ok(4) in \<open>auto simp: string_parse_def\<close>)
  ultimately show ?thesis
    by (simp add: read_filters_def set_filters_def parse_params_string filter_params_def Let_def)
qed


definition sample_filters :: workspace_filters where
  "sample_filters = \<lparr>wf_type = Some ''desk'', wf_availability = Some False, wf_minPrice = None,
     wf_maxPrice = Some (Amount 50), wf_search = Some ''a&b=c%20''\<rparr>"

lemma sample_filters_ok: "filters_ok sample_filters"
  by (simp add: filters_ok_def sample_filters_def WORKSPACE_TYPES_def whole_price_def exI [of _ "50 :: int"])


text \<open>The button Clear Filters clears the search and nothing else: its second replacement of the address is
  computed from the filters before the first one, so the type, the availability and the price come
  back at once.\<close>

theorem clear_all_clears_search_only:
  assumes "filters_ok f"
  shows "read_filters (last (handle_clear_all f)) = f\<lparr>wf_search := None\<rparr>"
proof -
  have "filters_ok (f\<lparr>wf_search := None\<rparr>)" using assms by (simp add: filters_ok_def)
  then show ?thesis
    using read_set_filters [of "f\<lparr>wf_search := None\<rparr>"] by (simp add: handle_clear_all_def handle_search_change_def)
qed

lemma clear_all_clears_search_only_witness:
  "wf_type (read_filters (last (handle_clear_all sample_filters))) = Some ''desk''"
  using clear_all_clears_search_only [OF sample_filters_ok] by (simp add: sample_filters_def)

subsection \<open>What becomes of a query\<close>

lemma map_of_set_param:
  "map_of (set_param key serialize v) k = (if k = key then map_option serialize v else None)"
  by (cases v) (simp_all add: set_param_def)

lemma request_values:
  "map_of (request_params f) ''type'' = wf_type f"
  "map_of (request_params f) ''availability'' = map_option boolean_serialize (wf_availability f)"
  by (simp_all add: request_params_def filter_params_def map_add_def map_of_set_param option.map_id split: option.split)

lemma read_enum_none: "read_enum name values None = Inr None"
  by (simp add: read_enum_def)

lemma read_enum_other:
  "raw \<noteq> [] \<Longrightarrow> raw \<notin> name ` set values \<Longrightarrow> read_enum name values (Some raw) = Inl (BadRequest ''Database query failed'')"
proof -
  assume a: "raw \<noteq> []" "raw \<notin> name ` set values"
  then have "find (\<lambda>v. name v = raw) values = None" by (auto simp: find_None_iff)
  then show ?thesis using a(1) by (simp add: read_enum_def)
qed

lemma browser_type_unknown: "t \<in> set WORKSPACE_TYPES \<Longrightarrow> t \<noteq> [] \<and> t \<notin> workspace_type_name ` set workspace_types"
  by (auto simp: WORKSPACE_TYPES_def workspace_types_def)

lemma browser_availability_unknown:
  "boolean_serialize b \<noteq> [] \<and> boolean_serialize b \<notin> workspace_availability_name ` set [AVAILABLE, UNAVAILABLE]"
  by (cases b) (auto simp: boolean_serialize_def)

definition whole_listing :: "db \<Rightarrow> workspace_page" where
  "whole_listing d = find_all_workspaces \<lparr>wq_page = 1, wq_limit = 10, wq_type = None, wq_availability = None,
     wq_amenities = [], wq_amenityMatch = MatchAll\<rparr> d"

text \<open>No filter of the catalogue page filters. Prices and searches have no influence on the answer of
  the server; a type or an availability, whichever of those the page offers, makes the database
  refuse the query unless an answer is cached; and the page shows no workspace at all, because it
  looks for the rows under a name the answer does not have.\<close>

theorem catalogue_filters_nothing:
  assumes "filters_ok f"
  shows "fst (get_workspaces_handler now (request_params f) d c) =
      (case c of
         Some (page, expires) \<Rightarrow> if now < expires then Inr page
           else if wf_type f = None \<and> wf_availability f = None then Inr (whole_listing d)
           else Inl (BadRequest ''Database query failed'')
       | None \<Rightarrow> if wf_type f = None \<and> wf_availability f = None then Inr (whole_listing d)
           else Inl (BadRequest ''Database query failed'')) \<and>
    shown_workspaces (page_json row page) = []"
proof -
  have t: "read_enum workspace_type_name workspace_types (map_of (request_params f) ''type'') =
      (if wf_type f = None then Inr None else Inl (BadRequest ''Database query failed''))"
  proof (cases "wf_type f")
    case (Some t)
    then have "t \<in> set WORKSPACE_TYPES" using assms by (simp add: filters_ok_def)
    then show ?thesis
      using read_enum_other [of t workspace_type_name workspace_types] browser_type_unknown [of t] Some
      by (simp only: request_values) simp
  qed (simp add: request_values read_enum_none)
  have a: "read_enum workspace_availability_name [AVAILABLE, UNAVAILABLE] (map_of (request_params f) ''availability'') =
      (if wf_availability f = None then Inr None else Inl (BadRequest ''Database query failed''))"
  proof (cases "wf_availability f")
    case (Some b)
    then show ?thesis
      using read_enum_other [of "boolean_serialize b" workspace_availability_name "[AVAILABLE, UNAVAILABLE]"]
        browser_availability_unknown [of b]
      by (simp only: request_values option.map) simp
  qed (simp add: request_values read_enum_none)
  have "fst (get_workspaces_handler now (request_params f) d c) =
      (case c of
         Some (page, expires) \<Rightarrow> if now < expires then Inr page
           else if wf_type f = None \<and> wf_availability f = None then Inr (whole_listing d)
           else Inl (BadRequest ''Database query failed'')
       | None \<Rightarrow> if wf_type f = None \<and> wf_availability f = None then Inr (whole_listing d)
           else Inl (BadRequest ''Database query failed''))"
    unfolding get_workspaces_handler_def t a
    by (cases "wf_type f = None"; cases "wf_availability f = None"; cases c)
      (auto simp: listing_handler_def whole_listing_def)
  moreover have "shown_workspaces (page_json row page) = []"
    by (simp add: shown_workspaces_def page_json_def)
  ultimately show ?thesis by simp
qed

lemma catalogue_filters_nothing_witness:
  "fst (get_workspaces_handler 0 (request_params sample_filters) (sample_db []) None) = Inl (BadRequest ''Database query failed'')"
  using catalogue_filters_nothing [OF sample_filters_ok, of 0 "sample_db []" None] by (simp add: sample_filters_def)

subsection \<open>The search box\<close>

text \<open>A value that stayed for the delay is shown; as long as the changes follow each other faster than
  that, the old one is.\<close>

lemma debounce_settles: "t + delay \<le> now \<Longrightarrow> debounced delay now v (cs @ [(t, x)]) = x"
  by (induction delay now v cs rule: debounced.induct) auto

lemma debounce_holds_back:
  "successively (\<lambda>c c'. fst c' < fst c + delay) cs \<Longrightarrow> cs \<noteq> [] \<Longrightarrow> now < fst (last cs) + delay \<Longrightarrow>
   debounced delay now v cs = v"
  by (induction delay now v cs rule: debounced.induct) auto

subsection \<open>Highlighting\<close>

text \<open>Parts in turn: unmarked ones without an occurrence, marked ones that are occurrences.\<close>

fun marks_ok :: "string \<Rightarrow> string list \<Rightarrow> bool" where
  "marks_ok q [u] \<longleftrightarrow> \<not> contains_text (js_lower q) (js_lower u)"
| "marks_ok q (u # m # ps) \<longleftrightarrow> \<not> contains_text (js_lower q) (js_lower u) \<and> js_lower m = js_lower q \<and> marks_ok q ps"
| "marks_ok q [] \<longleftrightarrow> False"

definition nothing_before :: "string \<Rightarrow> string \<Rightarrow> string \<Rightarrow> bool" where
  "nothing_before q acc s \<longleftrightarrow>
     (\<forall>i < length acc. \<not> starts_with (js_lower q) (js_lower (drop i acc @ s)))"

lemma nothing_contained:
  assumes "nothing_before q acc s" "q \<noteq> []"
  shows "\<not> contains_text (js_lower q) (js_lower acc)"
proof
  assume "contains_text (js_lower q) (js_lower acc)"
  then obtain x y where xy: "js_lower acc = x @ js_lower q @ y" by (auto simp: contains_text_iff)
  then have "length acc = length x + length q + length y" by (metis length_append length_js_lower add.assoc)
  then have "length x < length acc" using assms(2) by simp
  moreover have "js_lower (drop (length x) acc) = drop (length x) (js_lower acc)"
    by (simp add: js_lower_def drop_map)
  then have "js_lower (drop (length x) acc @ s) = js_lower q @ y @ js_lower s"
    using xy by (simp add: js_lower_append)
  then have "starts_with (js_lower q) (js_lower (drop (length x) acc @ s))" by simp
  ultimately show False using assms(1) by (simp add: nothing_before_def)
qed

lemma split_marks_ok:
  "length s \<le> n \<Longrightarrow> q \<noteq> [] \<Longrightarrow> nothing_before q acc s \<Longrightarrow>
   marks_ok q (split_marks n q acc s) \<and> concat (split_marks n q acc s) = acc @ s"
proof (induction n q acc s rule: split_marks.induct)
  case (1 q acc s)
  then show ?case using nothing_contained by simp
next
  case (2 n q acc s)
  show ?case
  proof (cases s)
    case Nil
    then show ?thesis using 2 nothing_contained by simp
  next
    case (Cons c r)
    show ?thesis
    proof (cases "starts_with (js_lower q) (js_lower s)")
      case True
      have len: "length (drop (length q) s) \<le> n" using "2.prems"(1,2) by (cases q) auto
      have m: "js_lower (take (length q) s) = js_lower q"
        using True by (simp add: starts_with_iff js_lower_def take_map)
      have "marks_ok q (split_marks n q [] (drop (length q) s)) \<and>
          concat (split_marks n q [] (drop (length q) s)) = [] @ drop (length q) s"
        by (rule "2.IH"(1) [OF Cons True]) (use "2.prems" len in \<open>auto simp: nothing_before_def\<close>)
      then show ?thesis
        using True Cons m nothing_contained [OF "2.prems"(3,2)] by simp
    next
      case False
      have "nothing_before q (acc @ [c]) r"
        using "2.prems"(3) False Cons by (auto simp: nothing_before_def less_Suc_eq)
      then have "marks_ok q (split_marks n q (acc @ [c]) r) \<and> concat (split_marks n q (acc @ [c]) r) = (acc @ [c]) @ r"
        using "2.prems" Cons by (intro "2.IH"(2) [OF Cons False]) simp_all
      then show ?thesis using False Cons by simp
    qed
  qed
qed

lemma regex_test_unmarked:
  assumes "\<not> contains_text (js_lower q) (js_lower p)"
  shows "regex_test q i p = (False, 0)"
proof -
  have "\<not> starts_with (js_lower q) (js_lower (drop k p))" for k
  proof
    assume "starts_with (js_lower q) (js_lower (drop k p))"
    then obtain y where "js_lower (drop k p) = js_lower q @ y"
      by (metis append_take_drop_id starts_with_iff)
    then have "js_lower p = js_lower (take k p) @ js_lower q @ y"
      by (metis append_take_drop_id js_lower_append)
    then show False using assms by (auto simp: contains_text_iff)
  qed
  then have "find (\<lambda>k. starts_with (js_lower q) (js_lower (drop k p))) [i..<Suc (length p)] = None"
    unfolding find_None_iff by blast
  then show ?thesis unfolding regex_test_def by (simp del: upt_Suc)
qed

lemma regex_test_marked:
  assumes "js_lower p = js_lower q"
  shows "regex_test q 0 p = (True, length q)"
proof -
  have "starts_with (js_lower q) (js_lower (drop 0 p))" using assms starts_with_append [of "js_lower q" "[]"] by simp
  then show ?thesis unfolding regex_test_def by (simp add: upt_conv_Cons del: upt_Suc)
qed

lemma mark_parts_ok:
  "marks_ok q ps \<Longrightarrow> map snd (mark_parts q i ps) = ps \<and>
   list_all (\<lambda>(m, p). if m then js_lower p = js_lower q else \<not> contains_text (js_lower q) (js_lower p)) (mark_parts q i ps)"
proof (induction q ps arbitrary: i rule: marks_ok.induct)
  case (2 q u m ps)
  then show ?case by (simp add: regex_test_unmarked regex_test_marked)
qed (simp_all add: regex_test_unmarked)

text \<open>The highlighting shows the text as it is and marks exactly what was searched for: every marked
  part is the trimmed query in some case, no unmarked part holds one, and a query of fewer than two
  characters marks nothing. The state the global expression carries from one part to the next is
  harmless, because between two marks there always is an unmarked part that resets it.\<close>

theorem highlight_exact:
  "concat (map snd (highlight_text t query)) = t \<and>
   list_all (\<lambda>(m, p). if m then js_lower p = js_lower (js_trim query)
       else if 2 \<le> length (js_trim query) then \<not> contains_text (js_lower (js_trim query)) (js_lower p) else True)
     (highlight_text t query) \<and>
   (2 \<le> length (js_trim query) \<or> highlight_text t query = [(False, t)])"
proof (cases "2 \<le> length (js_trim query)")
  case True
  let ?q = "js_trim query"
  have "?q \<noteq> []" using True by (cases ?q) simp_all
  moreover from this have "query \<noteq> []" by (auto simp: js_trim_def)
  ultimately have h: "highlight_text t query = mark_parts ?q 0 (split_marks (length t) ?q [] t)"
    using True by (simp add: highlight_text_def Let_def)
  have "?q \<noteq> []" using True by (cases ?q) simp_all
  then have "marks_ok ?q (split_marks (length t) ?q [] t) \<and> concat (split_marks (length t) ?q [] t) = [] @ t"
    by (intro split_marks_ok) (simp_all add: nothing_before_def)
  then show ?thesis
    using mark_parts_ok [of ?q "split_marks (length t) ?q [] t" 0] True by (auto simp: h list_all_iff split: if_splits)
next
  case False
  then have "highlight_text t query = [(False, t)]" by (simp add: highlight_text_def)
  then show ?thesis using False by simp
qed

end
