(* ===== verification/Workspace_Calendar.thy ===== *)
theory Workspace_Calendar
  imports Workspaces Iso_Dates Booking_Client Conflict_Correct Js_Strings
begin

text \<open>
  The page of a workspace in the browser: the dates of the local time zone
  (frontend/src/utils/dateUtils.ts, second half), the weekly calendar
  (components/workspaces/WorkspaceCalendar.tsx and calendar/WorkspaceCalendarGrid.tsx), the booking
  form beside it and the page that connects them (app/workspaces/[id]/page.tsx).

  \<open>off\<close> is the number of milliseconds the clocks of the browser are ahead of UTC, the same at all
  instants considered (no change to or from daylight saving time in between); the server runs in UTC.
\<close>

subsection \<open>Local dates\<close>

definition add_days :: "instant \<Rightarrow> int \<Rightarrow> instant" where
  "add_days date days = date + days * ms_per_day"

definition to_local_date_string :: "int \<Rightarrow> instant \<Rightarrow> string" where
  "to_local_date_string off date = iso_date (date + off)"

definition get_local_week_start :: "int \<Rightarrow> instant \<Rightarrow> instant" where
  "get_local_week_start off date =
     (let dayOfWeek = get_utc_day (date + off);
          distanceToMonday = (dayOfWeek + 6) mod 7;
          d = add_days date (- distanceToMonday)
      in set_utc_hours4 0 0 0 0 (d + off) - off)"

definition get_local_hour :: "int \<Rightarrow> instant \<Rightarrow> int" where
  "get_local_hour off t = get_utc_hours (t + off)"

definition to_datetime_local_value :: "int \<Rightarrow> instant \<Rightarrow> string" where
  "to_datetime_local_value off date =
     (let l = date + off
      in int_string (get_utc_full_year l) @ ''-'' @ pad_number 2 (get_utc_month l + 1) @ ''-'' @
         pad_number 2 (get_utc_date l) @ ''T'' @ pad_number 2 (get_utc_hours l) @ '':'' @
         pad_number 2 (l mod ms_per_hour div ms_per_minute))"

text \<open>The date of a text \<open>YYYY-MM-DDTHH:mm\<close>, which is a local time for the Date constructor.\<close>

definition local_date_parse :: "int \<Rightarrow> string \<Rightarrow> instant option" where
  "local_date_parse off s =
     (case (read_date s, read_field 11 2 s, read_field 14 2 s) of
        (Some n, Some h, Some mi) \<Rightarrow>
          if length s = 16 \<and> take 1 (drop 10 s) = ''T'' \<and> take 1 (drop 13 s) = '':'' \<and> h < 24 \<and> mi < 60
          then Some (n * ms_per_day + h * ms_per_hour + mi * ms_per_minute - off) else None
      | _ \<Rightarrow> None)"

subsection \<open>The calendar\<close>

definition OPERATING_START :: int where "OPERATING_START = 8"
definition OPERATING_END :: int where "OPERATING_END = 20"
definition HOUR_COUNT :: int where "HOUR_COUNT = OPERATING_END - OPERATING_START"

definition week_days :: "instant \<Rightarrow> instant list" where
  "week_days weekStart = map (\<lambda>i. add_days weekStart (int i)) [0..<7]"

type_synonym slot_map = "string \<rightharpoonup> int \<rightharpoonup> availability_slot"

definition hour_map :: "int \<Rightarrow> availability_slot list \<Rightarrow> int \<rightharpoonup> availability_slot" where
  "hour_map off slots = foldl (\<lambda>m slot. m(get_local_hour off (as_hour slot) \<mapsto> slot)) Map.empty slots"

text \<open>\<open>query s\<close> is the answer to the query for the date \<open>s\<close>, None while there is none.\<close>

definition slot_map_of :: "int \<Rightarrow> (string \<Rightarrow> availability_slot list option) \<Rightarrow> instant \<Rightarrow> slot_map" where
  "slot_map_of off query weekStart =
     foldl (\<lambda>m day. let dateStr = to_local_date_string off day
                    in (case query dateStr of None \<Rightarrow> m | Some slots \<Rightarrow> m(dateStr \<mapsto> hour_map off slots)))
       Map.empty (week_days weekStart)"

text \<open>What a cell of the grid shows: an empty block, a block outside the hours, or a button.\<close>

datatype grid_cell = Busy_Cell | Outside_Cell | Slot_Button availability_slot bool bool \<comment> \<open>enabled, pressed\<close>

definition slot_button :: "int \<Rightarrow> string option \<Rightarrow> availability_slot \<Rightarrow> grid_cell" where
  "slot_button off selectedSlotKey slot =
     (if get_local_hour off (as_hour slot) < OPERATING_START \<or> OPERATING_END \<le> get_local_hour off (as_hour slot)
      then Outside_Cell
      else Slot_Button slot (as_available slot > 0) (selectedSlotKey = Some (to_iso (as_hour slot))))"

definition grid_cell_at :: "int \<Rightarrow> slot_map \<Rightarrow> string option \<Rightarrow> string \<Rightarrow> int \<Rightarrow> grid_cell" where
  "grid_cell_at off slotMap selectedSlotKey dateStr localHour =
     (case slotMap dateStr of None \<Rightarrow> Busy_Cell
      | Some m \<Rightarrow> (case m localHour of None \<Rightarrow> Busy_Cell
                   | Some slot \<Rightarrow> slot_button off selectedSlotKey slot))"

definition calendar_grid :: "int \<Rightarrow> slot_map \<Rightarrow> string option \<Rightarrow> instant \<Rightarrow> grid_cell list list" where
  "calendar_grid off slotMap selectedSlotKey weekStart =
     map (\<lambda>rowIdx. map (\<lambda>day. grid_cell_at off slotMap selectedSlotKey (to_local_date_string off day)
       (OPERATING_START + int rowIdx)) (week_days weekStart)) [0..<nat HOUR_COUNT]"

record slot_selection =
  ss_startTime :: string
  ss_endTime :: string
  ss_slot :: availability_slot

record calendar_state =
  ca_weekStart :: instant
  ca_selectedSlotKey :: "string option"

definition open_calendar :: "int \<Rightarrow> instant \<Rightarrow> calendar_state" where
  "open_calendar off now = \<lparr>ca_weekStart = get_local_week_start off now, ca_selectedSlotKey = None\<rparr>"

definition handle_slot_select :: "int \<Rightarrow> availability_slot \<Rightarrow> calendar_state \<Rightarrow> slot_selection \<times> calendar_state" where
  "handle_slot_select off slot s =
     (let key = to_iso (as_hour slot); endDate = as_hour slot + 60 * 60 * 1000
      in (\<lparr>ss_startTime = to_datetime_local_value off (as_hour slot),
           ss_endTime = to_datetime_local_value off endDate, ss_slot = slot\<rparr>,
          s\<lparr>ca_selectedSlotKey := if ca_selectedSlotKey s = Some key then None else Some key\<rparr>))"

definition go_to_prev_week :: "calendar_state \<Rightarrow> calendar_state" where
  "go_to_prev_week s = s\<lparr>ca_weekStart := add_days (ca_weekStart s) (- 7)\<rparr>"

definition go_to_next_week :: "calendar_state \<Rightarrow> calendar_state" where
  "go_to_next_week s = s\<lparr>ca_weekStart := add_days (ca_weekStart s) 7\<rparr>"

definition go_to_current_week :: "int \<Rightarrow> instant \<Rightarrow> calendar_state \<Rightarrow> calendar_state" where
  "go_to_current_week off now s = s\<lparr>ca_weekStart := get_local_week_start off now\<rparr>"

text \<open>The answer of the server to the query of a day.\<close>

definition availability_query :: "db \<Rightarrow> uuid \<Rightarrow> string \<Rightarrow> availability_slot list option" where
  "availability_query d workspaceId date =
     (case workspace_availability_of workspaceId (date_parse date) d of Inl _ \<Rightarrow> None | Inr slots \<Rightarrow> Some slots)"

subsection \<open>The booking form of the page\<close>

text \<open>The state of the page and of the form in it; the prefilled times are props of the form.\<close>

record workspace_page_state =
  wp_prefillStart :: string
  wp_prefillEnd :: string
  wp_startTime :: string
  wp_endTime :: string
  wp_isBooking :: bool

definition open_workspace_page :: workspace_page_state where
  "open_workspace_page = \<lparr>wp_prefillStart = [], wp_prefillEnd = [], wp_startTime = [], wp_endTime = [],
     wp_isBooking = False\<rparr>"

text \<open>Every change of state renders the form, which takes over the prefilled times.\<close>

definition render_form :: "workspace_page_state \<Rightarrow> workspace_page_state" where
  "render_form s =
     (if wp_startTime s \<noteq> wp_prefillStart s \<and> wp_prefillStart s \<noteq> []
      then s\<lparr>wp_startTime := wp_prefillStart s, wp_endTime := wp_prefillEnd s\<rparr> else s)"

definition pick_slot :: "slot_selection \<Rightarrow> workspace_page_state \<Rightarrow> workspace_page_state" where
  "pick_slot selection s =
     render_form (s\<lparr>wp_prefillStart := ss_startTime selection, wp_prefillEnd := ss_endTime selection\<rparr>)"

definition edit_start :: "string \<Rightarrow> workspace_page_state \<Rightarrow> workspace_page_state" where
  "edit_start v s = render_form (s\<lparr>wp_startTime := v\<rparr>)"

definition edit_end :: "string \<Rightarrow> workspace_page_state \<Rightarrow> workspace_page_state" where
  "edit_end v s = render_form (s\<lparr>wp_endTime := v\<rparr>)"

text \<open>Submitting and the settling of the request: the two renders with the body that is sent.\<close>

definition submit_form ::
  "string option \<Rightarrow> uuid \<Rightarrow> workspace_page_state \<Rightarrow> booking_request option \<times> workspace_page_state" where
  "submit_form token workspaceId s =
     (if \<not> truthy token then (None, s)
      else (Some \<lparr>bq_workspaceId = workspaceId, bq_startTime = wp_startTime s, bq_endTime = wp_endTime s\<rparr>,
            render_form (s\<lparr>wp_isBooking := True\<rparr>)))"

definition settle_form :: "bool \<Rightarrow> workspace_page_state \<Rightarrow> workspace_page_state" where
  "settle_form succeeded s =
     render_form ((if succeeded then s\<lparr>wp_startTime := [], wp_endTime := []\<rparr> else s)\<lparr>wp_isBooking := False\<rparr>)"

definition form_total :: "int \<Rightarrow> num \<Rightarrow> workspace_page_state \<Rightarrow> num option" where
  "form_total off pricePerHour s =
     calculate_booking_price (local_date_parse off) pricePerHour (wp_startTime s) (wp_endTime s)"

text \<open>What the server takes the two times of a request for.\<close>

definition server_times :: "booking_request \<Rightarrow> (instant \<times> instant) option" where
  "server_times r =
     (case (local_date_parse 0 (bq_startTime r), local_date_parse 0 (bq_endTime r)) of
        (Some s, Some e) \<Rightarrow> Some (s, e) | _ \<Rightarrow> None)"

text \<open>The workspace the page shows, from the answer of the server (None: Workspace not found).\<close>

definition shown_workspace :: "json \<Rightarrow> json option" where
  "shown_workspace data = (let w = json_field data ''workspace'' in if json_truthy w then w else None)"

lemma page_finds_no_workspace: "shown_workspace (workspace_json w) = None"
  by (simp add: shown_workspace_def workspace_json_def json_truthy_def)

end
