(* ===== verification/Workspace_Calendar_Correct.thy ===== *)
theory Workspace_Calendar_Correct
  imports Workspace_Calendar
begin

text \<open>
  What the calendar of a workspace shows and what the form beside it books: every cell as a
  function of the time zone, the shift between the slot picked and the slot booked, and the start
  time that cannot be changed any more once a slot was picked.
\<close>

subsection \<open>Hours and days of shifted instants\<close>

lemma get_utc_hours_div: "get_utc_hours t = t div ms_per_hour mod 24"
  using zmod_zmult2_eq [of 24 t ms_per_hour] by (simp add: get_utc_hours_def ms_units)

lemma local_hour_of_slot:
  assumes "D mod ms_per_day = 0"
  shows "get_local_hour off (D + i * ms_per_hour) = (i + off div ms_per_hour) mod 24"
proof -
  obtain n where D: "D = n * 24 * ms_per_hour" using assms by (auto simp: mod_eq_0_iff_dvd dvd_def ms_units)
  have "(D + i * ms_per_hour + off) div ms_per_hour = n * 24 + i + off div ms_per_hour"
    using div_mult_self1 [of ms_per_hour off "n * 24 + i"] by (simp add: D algebra_simps ms_units)
  moreover have "(n * 24 + i + off div ms_per_hour) mod 24 = (i + off div ms_per_hour) mod 24"
    using mod_mult_self3 [of n 24 "i + off div ms_per_hour"] by (simp only: add.assoc)
  ultimately show ?thesis by (simp add: get_local_hour_def get_utc_hours_div)
qed

lemma utc_day_start_eq: "utc_day_start t = t div ms_per_day * ms_per_day"
  by (simp add: utc_day_start_def minus_mod_eq_div_mult)

lemma utc_day_start_aligned [simp]: "utc_day_start t mod ms_per_day = 0"
  by (simp add: utc_day_start_eq)

lemma read_date_iso_date:
  assumes "0 \<le> get_utc_full_year t" "get_utc_full_year t \<le> 9999"
  shows "read_date (iso_date t @ r) = Some (t div ms_per_day) \<and> length (iso_date t) = 10"
proof -
  obtain y m d where c: "civil_of_days (t div ms_per_day) = (y, m, d)" by (cases "civil_of_days (t div ms_per_day)")
  note b = civil_of_days_bounds [OF c]
  have y: "0 \<le> y" "y \<le> 9999" using assms c by (simp_all add: get_utc_full_year_def)
  define Y M D where "Y = pad_number 4 y" and "M = pad_number 2 m" and "D = pad_number 2 d"
  have len: "length Y = 4" "length M = 2" "length D = 2"
    unfolding Y_def M_def D_def using y b(1) by (auto intro!: pad_number_ok(1))
  have dig: "digits Y" "digits M" "digits D"
    unfolding Y_def M_def D_def using y b(1) by (auto intro!: pad_number_ok(2))
  have val: "int (nat_of_string Y) = y" "int (nat_of_string M) = m" "int (nat_of_string D) = d"
    unfolding Y_def M_def D_def using y b(1) by (auto intro!: pad_number_ok(3))
  have iso: "iso_date t = Y @ ''-'' @ M @ ''-'' @ D"
    using y c by (simp add: iso_date_def iso_year_def get_utc_full_year_def get_utc_month_def
        get_utc_date_def Y_def M_def D_def)
  show ?thesis
    unfolding iso by (simp add: read_date_def read_field_def len dig val valid_civil_def b)
qed

lemma date_parse_iso_date:
  assumes "0 \<le> get_utc_full_year t" "get_utc_full_year t \<le> 9999"
  shows "date_parse (iso_date t) = Some (utc_day_start t)"
  using read_date_iso_date [OF assms, of "[]"] by (simp add: date_parse_def utc_day_start_eq)

text \<open>A year of four digits is printed without padding.\<close>

lemma pad_number_full: "10 ^ (k - 1) \<le> n \<Longrightarrow> n < 10 ^ k \<Longrightarrow> 0 < k \<Longrightarrow> pad_number k (int n) = nat_string n"
proof (induction k arbitrary: n)
  case (Suc k)
  show ?case
  proof (cases "k = 0")
    case True
    then show ?thesis using Suc.prems by (simp add: pad_number_def pad_start_def int_string_def nat_string.simps [of n])
  next
    case False
    have big: "10 \<le> n" using Suc.prems(1) False power_increasing [of 1 k "10 :: nat"] by simp
    have "10 ^ (k - 1) \<le> n div 10"
      using Suc.prems(1) False by (cases k) (simp_all add: less_eq_div_iff_mult_less_eq mult.commute)
    moreover have "n div 10 < 10 ^ k" using Suc.prems(2) by (simp add: less_mult_imp_div_less mult.commute)
    ultimately have IH: "pad_number k (int (n div 10)) = nat_string (n div 10)" using Suc.IH False by simp
    have "k \<le> length (nat_string (n div 10))"
      using arg_cong [OF IH, of length] by (simp add: pad_number_def pad_start_def int_string_def)
    then show ?thesis using big by (simp add: pad_number_def pad_start_def int_string_def nat_string.simps [of n])
  qed
qed simp

text \<open>The text of a picked time, read in a zone \<open>off'\<close>.\<close>

lemma local_value_parse:
  assumes "1000 \<le> get_utc_full_year (t + off)" "get_utc_full_year (t + off) \<le> 9999"
    and "(t + off) mod ms_per_minute = 0"
  shows "local_date_parse off' (to_datetime_local_value off t) = Some (t + off - off')"
proof -
  define l where "l = t + off"
  define H I where "H = pad_number 2 (get_utc_hours l)" and "I = pad_number 2 (l mod ms_per_hour div ms_per_minute)"
  have hb: "0 \<le> get_utc_hours l" "get_utc_hours l < 24" by (rule get_utc_hours_bounds)+
  have ib: "0 \<le> l mod ms_per_hour div ms_per_minute" "l mod ms_per_hour div ms_per_minute < 60"
    by (simp_all add: ms_units pos_imp_zdiv_nonneg_iff)
  have H: "length H = 2" "digits H" "int (nat_of_string H) = get_utc_hours l"
    unfolding H_def using hb by (auto intro!: pad_number_ok)
  have I: "length I = 2" "digits I" "int (nat_of_string I) = l mod ms_per_hour div ms_per_minute"
    unfolding I_def using ib by (auto intro!: pad_number_ok)
  have y: "0 \<le> get_utc_full_year l" "get_utc_full_year l \<le> 9999" using assms(1,2) by (simp_all add: l_def)
  obtain n where n: "get_utc_full_year l = int n" using y(1) by (metis nonneg_int_cases)
  have "pad_number 4 (int n) = nat_string n"
    using assms(1) y(2) n by (intro pad_number_full) (simp_all add: l_def)
  then have yr: "int_string (get_utc_full_year l) = iso_year (get_utc_full_year l)"
    using y n by (simp add: iso_year_def int_string_def)
  have v: "to_datetime_local_value off t = iso_date l @ (''T'' @ H @ '':'' @ I)"
    by (simp add: to_datetime_local_value_def Let_def l_def [symmetric] yr iso_date_def H_def I_def)
  have len: "length (iso_date l) = 10" using read_date_iso_date [OF y] by simp
  have rd: "read_date (iso_date l @ (''T'' @ H @ '':'' @ I)) = Some (l div ms_per_day)"
    using read_date_iso_date [OF y] by blast
  have fields: "read_field 11 2 (iso_date l @ (''T'' @ H @ '':'' @ I)) = Some (get_utc_hours l)"
    "read_field 14 2 (iso_date l @ (''T'' @ H @ '':'' @ I)) = Some (l mod ms_per_hour div ms_per_minute)"
    by (simp_all add: read_field_def len H I)
  have "l = l div ms_per_day * ms_per_day + l mod ms_per_day" by simp
  also have "l mod ms_per_day = get_utc_hours l * ms_per_hour + l mod ms_per_hour" by (rule hour_split)
  also have "l mod ms_per_hour = l mod ms_per_hour div ms_per_minute * ms_per_minute"
    using div_mult_mod_eq [of "l mod ms_per_hour" ms_per_minute] assms(3)
    by (simp add: l_def ms_units mod_mod_cancel)
  finally have "l = l div ms_per_day * ms_per_day + get_utc_hours l * ms_per_hour +
      l mod ms_per_hour div ms_per_minute * ms_per_minute" by simp
  then show ?thesis
    unfolding v local_date_parse_def rd fields using hb ib
    by (simp add: len H I l_def [symmetric])
qed

subsection \<open>The grid\<close>

lemma foldl_upd_other:
  "(\<And>x. x \<in> set xs \<Longrightarrow> f x \<noteq> k) \<Longrightarrow> foldl (\<lambda>m x. m(f x \<mapsto> g x)) m0 xs k = m0 k"
  by (induction xs arbitrary: m0) auto

lemma foldl_upd_at:
  assumes "i < length xs" "\<And>j. j < length xs \<Longrightarrow> j \<noteq> i \<Longrightarrow> f (xs ! j) \<noteq> f (xs ! i)"
  shows "foldl (\<lambda>m x. m(f x \<mapsto> g x)) m0 xs (f (xs ! i)) = Some (g (xs ! i))"
proof -
  have "xs = take i xs @ xs ! i # drop (Suc i) xs" using assms(1) by (simp add: id_take_nth_drop)
  then have split: "foldl (\<lambda>m x. m(f x \<mapsto> g x)) m0 xs = foldl (\<lambda>m x. m(f x \<mapsto> g x))
      ((foldl (\<lambda>m x. m(f x \<mapsto> g x)) m0 (take i xs))(f (xs ! i) \<mapsto> g (xs ! i))) (drop (Suc i) xs)"
    by (metis (no_types, lifting) foldl_Cons foldl_append)
  have "f x \<noteq> f (xs ! i)" if "x \<in> set (drop (Suc i) xs)" for x
    using that assms by (auto simp: in_set_conv_nth)
  then show ?thesis unfolding split by (subst foldl_upd_other) auto
qed

lemma hour_map_at:
  assumes "D mod ms_per_day = 0" "0 \<le> h" "h < 24"
  shows "hour_map off (map (hourly_slot d w D) [0..<24]) h =
    Some (hourly_slot d w D (nat ((h - off div ms_per_hour) mod 24)))"
proof -
  let ?k = "off div ms_per_hour" and ?xs = "map (hourly_slot d w D) [0..<24]"
  let ?i = "nat ((h - ?k) mod 24)"
  have day: "utc_day_start D = D" using assms(1) by (simp add: utc_day_start_def)
  have hour: "get_local_hour off (as_hour (?xs ! i)) = (int i + ?k) mod 24" if "i < 24" for i
    using that local_hour_of_slot [OF assms(1), of off "int i"]
    by (simp add: hourly_slot_def Let_def set_utc_hours4_def day)
  have i: "?i < 24" by simp
  have at: "get_local_hour off (as_hour (?xs ! ?i)) = h"
    using hour [OF i] assms(2,3) by (simp add: mod_add_left_eq)
  have "foldl (\<lambda>m slot. m(get_local_hour off (as_hour slot) \<mapsto> slot)) Map.empty ?xs
      (get_local_hour off (as_hour (?xs ! ?i))) = Some (?xs ! ?i)"
  proof (rule foldl_upd_at)
    fix j assume j: "j < length ?xs" "j \<noteq> ?i"
    show "get_local_hour off (as_hour (?xs ! j)) \<noteq> get_local_hour off (as_hour (?xs ! ?i))"
    proof
      assume "get_local_hour off (as_hour (?xs ! j)) = get_local_hour off (as_hour (?xs ! ?i))"
      then have "(int j + ?k) mod 24 = h" using hour [of j] j(1) at by simp
      then have "(int j + ?k - ?k) mod 24 = (h - ?k) mod 24" by (metis mod_diff_left_eq)
      then show False using j by simp
    qed
  qed simp
  then show ?thesis using at i by (simp add: hour_map_def)
qed

text \<open>The years in which dates are printed with four digits.\<close>

definition plain_years :: "int \<Rightarrow> instant \<Rightarrow> bool" where
  "plain_years off weekStart \<longleftrightarrow>
     list_all (\<lambda>day. 0 \<le> get_utc_full_year (day + off) \<and> get_utc_full_year (day + off) \<le> 9999) (week_days weekStart)"

lemma week_day_nth: "j < 7 \<Longrightarrow> week_days s ! j = s + int j * ms_per_day" "length (week_days s) = 7"
  by (simp_all add: week_days_def add_days_def)

lemma query_of_day:
  assumes "find_workspace d i = Some w" "0 \<le> get_utc_full_year (day + off)" "get_utc_full_year (day + off) \<le> 9999"
  shows "availability_query d i (to_local_date_string off day) =
    Some (map (hourly_slot d w (utc_day_start (day + off))) [0..<24])"
  using assms by (simp add: availability_query_def to_local_date_string_def date_parse_iso_date
    workspace_availability_of_def get_hourly_availability_def set_utc_hours4_def utc_day_start_def)

lemma slot_map_at:
  assumes "find_workspace d i = Some w" "plain_years off ws" "j < 7"
  shows "slot_map_of off (availability_query d i) ws (to_local_date_string off (week_days ws ! j)) =
    Some (hour_map off (map (hourly_slot d w (utc_day_start (week_days ws ! j + off))) [0..<24]))"
proof -
  let ?key = "to_local_date_string off"
  let ?slots = "\<lambda>day. map (hourly_slot d w (utc_day_start (day + off))) [0..<24]"
  have yr: "0 \<le> get_utc_full_year (day + off) \<and> get_utc_full_year (day + off) \<le> 9999" if "day \<in> set (week_days ws)" for day
    using assms(2) that by (auto simp: plain_years_def list_all_iff)
  then have q: "availability_query d i (?key day) = Some (?slots day)" if "day \<in> set (week_days ws)" for day
    using query_of_day [OF assms(1)] that by blast
  have eq: "slot_map_of off (availability_query d i) ws =
      foldl (\<lambda>m day. m(?key day \<mapsto> hour_map off (?slots day))) Map.empty (week_days ws)"
    unfolding slot_map_of_def by (rule foldl_cong) (simp_all add: q Let_def)
  show ?thesis
    unfolding eq
  proof (rule foldl_upd_at)
    show "j < length (week_days ws)" using assms(3) by (simp add: week_day_nth)
    fix k assume k: "k < length (week_days ws)" "k \<noteq> j"
    show "?key (week_days ws ! k) \<noteq> ?key (week_days ws ! j)"
    proof
      assume "?key (week_days ws ! k) = ?key (week_days ws ! j)"
      then have "utc_day_start (week_days ws ! k + off) = utc_day_start (week_days ws ! j + off)"
        using date_parse_iso_date yr k(1) assms(3) week_day_nth(2) [of ws]
        by (metis nth_mem option.inject to_local_date_string_def)
      then have "(ws + off + int k * ms_per_day) div ms_per_day = (ws + off + int j * ms_per_day) div ms_per_day"
        using k(1) assms(3) by (simp add: utc_day_start_eq week_day_nth algebra_simps ms_units)
      then show False using k(2) by (simp add: ms_units)
    qed
  qed
qed

lemma wrap_hour:
  "- 24 \<le> (x :: int) \<Longrightarrow> x < 48 \<Longrightarrow> x mod 24 = (if x < 0 then x + 24 else if 24 \<le> x then x - 24 else x)"
  using mod_pos_pos_trivial [of "x + 24" 24] mod_pos_pos_trivial [of "x - 24" 24] mod_diff_right_eq [of x 24 24]
  by simp

text \<open>C29: A cell of the calendar is a button for one hour of the workspace: the hour of its row on
  the day of its column when the row is not before the offset of the zone nor 24 hours after it,
  and otherwise that hour one day later (zones ahead of UTC) or earlier (zones behind UTC). The
  button is enabled exactly when the server counts fewer bookings in that hour than the capacity.\<close>

theorem calendar_cell_exact:
  assumes "find_workspace d i = Some w" "plain_years off ws" "- ms_per_day < off" "off < ms_per_day"
    and "j < 7" "OPERATING_START \<le> h" "h < OPERATING_END"
  shows "\<exists>slot. grid_cell_at off (slot_map_of off (availability_query d i) ws) sel
        (to_local_date_string off (week_days ws ! j)) h =
      Slot_Button slot (concurrent_count d i (as_hour slot) (as_hour slot + ms_per_hour) < w_capacity w)
        (sel = Some (to_iso (as_hour slot))) \<and>
    as_hour slot + off = utc_day_start (week_days ws ! j + off) + h * ms_per_hour + off mod ms_per_hour +
      (if h < off div ms_per_hour then ms_per_day
       else if 24 + off div ms_per_hour \<le> h then - ms_per_day else 0)"
proof -
  define D k n where "D = utc_day_start (week_days ws ! j + off)" and "k = off div ms_per_hour"
    and "n = nat ((h - k) mod 24)"
  define slot where "slot = hourly_slot d w D n"
  have h: "0 \<le> h" "h < 24" "8 \<le> h" "h < 20" using assms(6,7) by (simp_all add: OPERATING_START_def OPERATING_END_def)
  have D: "D mod ms_per_day = 0" by (simp add: D_def)
  then have day: "utc_day_start D = D" by (simp add: utc_day_start_def)
  have wid: "w_id w = i" using assms(1) by (auto simp: find_workspace_def dest: find_row_SomeD)
  have cell: "slot_map_of off (availability_query d i) ws (to_local_date_string off (week_days ws ! j)) =
      Some (hour_map off (map (hourly_slot d w D) [0..<24]))"
    unfolding D_def by (rule slot_map_at [OF assms(1,2,5)])
  have at: "hour_map off (map (hourly_slot d w D) [0..<24]) h = Some slot"
    using hour_map_at [OF D h(1,2)] by (simp add: slot_def n_def k_def)
  have hour: "as_hour slot = D + int n * ms_per_hour"
    by (simp add: slot_def hourly_slot_def Let_def set_utc_hours4_def day)
  have n: "n < 24" by (simp add: n_def)
  have "utc_day_start (as_hour slot) = D"
    using D n by (auto simp: hour utc_day_start_def ms_units)
  then have next_hour: "set_utc_hours4 (int n + 1) 0 0 0 (as_hour slot) = as_hour slot + ms_per_hour"
    by (simp add: set_utc_hours4_def hour distrib_right)
  have start: "set_utc_hours4 (int n) 0 0 0 D = as_hour slot" by (simp add: set_utc_hours4_def day hour)
  have av: "as_available slot = max 0 (w_capacity w - concurrent_count d i (as_hour slot) (as_hour slot + ms_per_hour))"
  proof -
    have "as_available slot = max 0 (w_capacity w - concurrent_count d (w_id w) (set_utc_hours4 (int n) 0 0 0 D)
        (set_utc_hours4 (int n + 1) 0 0 0 (set_utc_hours4 (int n) 0 0 0 D)))"
      by (simp add: slot_def hourly_slot_def Let_def)
    then show ?thesis unfolding start next_hour wid .
  qed
  have kb: "- 24 \<le> k" "k < 24" using assms(3,4) by (simp_all add: k_def ms_units)
  have off: "off = k * ms_per_hour + off mod ms_per_hour" by (simp add: k_def)
  have lh: "get_local_hour off (as_hour slot) = h"
    unfolding hour local_hour_of_slot [OF D] n_def using h(1,2)
    by (simp add: k_def [symmetric] mod_add_left_eq)
  have "int n = (if h < k then h - k + 24 else if 24 + k \<le> h then h - k - 24 else h - k)"
  proof -
    have "(h - k) mod 24 = (if h < k then h - k + 24 else if 24 + k \<le> h then h - k - 24 else h - k)"
      using h kb wrap_hour [of "h - k"] by simp
    then show ?thesis using h kb by (simp add: n_def)
  qed
  then have "as_hour slot + off = D + h * ms_per_hour + off mod ms_per_hour +
      (if h < k then ms_per_day else if 24 + k \<le> h then - ms_per_day else 0)"
    unfolding hour by (subst off) (auto simp: ms_units algebra_simps)
  moreover have "grid_cell_at off (slot_map_of off (availability_query d i) ws) sel
      (to_local_date_string off (week_days ws ! j)) h =
      Slot_Button slot (concurrent_count d i (as_hour slot) (as_hour slot + ms_per_hour) < w_capacity w)
        (sel = Some (to_iso (as_hour slot)))"
    using h by (simp add: grid_cell_at_def cell at slot_button_def lh OPERATING_START_def OPERATING_END_def av max_def)
  ultimately show ?thesis unfolding D_def k_def by blast
qed

text \<open>On the east coast of America (UTC-5) the cell of Monday 19:00 books the hour of Sunday 19:00.\<close>

lemma calendar_cell_exact_witness:
  "\<exists>slot. grid_cell_at (- 18000000) (slot_map_of (- 18000000) (availability_query (sample_db []) ''w'') 363600000) None
        (to_local_date_string (- 18000000) (week_days 363600000 ! 0)) 19 =
      Slot_Button slot (concurrent_count (sample_db []) ''w'' (as_hour slot) (as_hour slot + ms_per_hour) < w_capacity sample_workspace)
        False \<and>
    as_hour slot = 363600000 + 19 * ms_per_hour - ms_per_day"
proof -
  have w: "find_workspace (sample_db []) ''w'' = Some sample_workspace" by code_simp
  have y: "plain_years (- 18000000) 363600000" by code_simp
  show ?thesis
    using calendar_cell_exact [OF w y, of 0 19 None]
    by (simp add: ms_units OPERATING_START_def OPERATING_END_def week_day_nth utc_day_start_def)
qed

subsection \<open>The form of the page\<close>

datatype form_op = Edit_Start string | Edit_End string | Submit | Settle bool

fun form_step :: "form_op \<Rightarrow> workspace_page_state \<Rightarrow> workspace_page_state" where
  "form_step (Edit_Start v) s = edit_start v s"
| "form_step (Edit_End v) s = edit_end v s"
| "form_step Submit s = snd (submit_form (Some ''token'') [] s)"
| "form_step (Settle ok) s = settle_form ok s"

definition locked :: "slot_selection \<Rightarrow> workspace_page_state \<Rightarrow> bool" where
  "locked sel s \<longleftrightarrow> ss_startTime sel \<noteq> [] \<and> wp_prefillStart s = ss_startTime sel \<and>
     wp_prefillEnd s = ss_endTime sel \<and> wp_startTime s = ss_startTime sel"

lemma render_locked:
  "ss_startTime sel \<noteq> [] \<Longrightarrow> wp_prefillStart s = ss_startTime sel \<Longrightarrow> wp_prefillEnd s = ss_endTime sel \<Longrightarrow>
   locked sel (render_form s)"
  by (simp add: locked_def render_form_def)

lemma form_step_locked: "locked sel s \<Longrightarrow> locked sel (form_step op s)"
  by (cases op) (auto simp: locked_def edit_start_def edit_end_def submit_form_def settle_form_def render_form_def)

lemma pick_slot_locked: "ss_startTime sel \<noteq> [] \<Longrightarrow> locked sel (pick_slot sel s)"
  unfolding pick_slot_def by (rule render_locked) simp_all

text \<open>The year of a picked slot as the input of the browser prints it.\<close>

definition plain_time :: "int \<Rightarrow> instant \<Rightarrow> bool" where
  "plain_time off t \<longleftrightarrow>
     1000 \<le> get_utc_full_year (t + off) \<and> get_utc_full_year (t + off) \<le> 9999 \<and> (t + off) mod ms_per_minute = 0"

lemma picked_text:
  assumes "plain_time off t"
  shows "local_date_parse off' (to_datetime_local_value off t) = Some (t + off - off')"
  using assms by (intro local_value_parse) (simp_all add: plain_time_def)

lemma picked_text_nonempty: "to_datetime_local_value off t \<noteq> []"
  by (simp add: to_datetime_local_value_def Let_def)

text \<open>C22: A slot picked in the calendar, whatever the user then does to the form before the next pick,
  keeps the start time of the form: every change of it is undone. With the end time untouched the
  form shows the price of one hour, and the request it sends is read by the server as the picked
  hour moved by the offset of the zone of the browser.\<close>

theorem picked_slot_booked_shifted:
  assumes "plain_time off (as_hour slot)" "plain_time off (as_hour slot + ms_per_hour)" "truthy token"
  shows "wp_startTime (fold form_step ops (pick_slot (fst (handle_slot_select off slot c)) s)) =
      to_datetime_local_value off (as_hour slot) \<and>
    form_total off price (pick_slot (fst (handle_slot_select off slot c)) open_workspace_page) =
      Some (max 0 (js_mul (hours_of_ms ms_per_hour) price)) \<and>
    Option.bind (fst (submit_form token wid (pick_slot (fst (handle_slot_select off slot c)) open_workspace_page)))
      server_times = Some (as_hour slot + off, as_hour slot + ms_per_hour + off)"
proof (intro conjI)
  let ?sel = "fst (handle_slot_select off slot c)"
  have sel: "ss_startTime ?sel = to_datetime_local_value off (as_hour slot)"
    "ss_endTime ?sel = to_datetime_local_value off (as_hour slot + ms_per_hour)"
    by (simp_all add: handle_slot_select_def Let_def ms_units)
  have "locked ?sel (fold form_step ops (pick_slot ?sel s))"
    by (rule fold_invariant [where Q = "\<lambda>_. True"])
      (simp_all add: form_step_locked pick_slot_locked sel picked_text_nonempty)
  then show "wp_startTime (fold form_step ops (pick_slot ?sel s)) = to_datetime_local_value off (as_hour slot)"
    by (simp add: locked_def sel)
  have page: "wp_startTime (pick_slot ?sel open_workspace_page) = to_datetime_local_value off (as_hour slot)"
    "wp_endTime (pick_slot ?sel open_workspace_page) = to_datetime_local_value off (as_hour slot + ms_per_hour)"
    by (simp_all add: pick_slot_def render_form_def open_workspace_page_def sel picked_text_nonempty picked_text_nonempty [symmetric])
  show "form_total off price (pick_slot ?sel open_workspace_page) = Some (max 0 (js_mul (hours_of_ms ms_per_hour) price))"
    using picked_text [OF assms(1), of off] picked_text [OF assms(2), of off]
    by (simp add: form_total_def calculate_booking_price_def page picked_text_nonempty)
  show "Option.bind (fst (submit_form token wid (pick_slot ?sel open_workspace_page))) server_times =
      Some (as_hour slot + off, as_hour slot + ms_per_hour + off)"
    using picked_text [OF assms(1), of 0] picked_text [OF assms(2), of 0] assms(3)
    by (simp add: submit_form_def server_times_def page)
qed

text \<open>At UTC-5 the hour of 14:00 UTC, shown as 09:00, is booked at 09:00 UTC.\<close>

lemma picked_slot_booked_shifted_witness:
  "Option.bind (fst (submit_form (Some ''t'') ''w'' (pick_slot (fst (handle_slot_select (- 18000000)
      \<lparr>as_hour = 14 * ms_per_hour, as_available = 1, as_capacity = 1\<rparr> (open_calendar (- 18000000) 0))) open_workspace_page)))
    server_times = Some (9 * ms_per_hour, 10 * ms_per_hour)"
proof -
  have "plain_time (- 18000000) (14 * ms_per_hour)" "plain_time (- 18000000) (14 * ms_per_hour + ms_per_hour)"
    by code_simp+
  then show ?thesis
    using picked_slot_booked_shifted [of "- 18000000" "\<lparr>as_hour = 14 * ms_per_hour, as_available = 1, as_capacity = 1\<rparr>"
      "Some ''t''" "[]" "open_calendar (- 18000000) 0" open_workspace_page 0 "''w''"]
    by (simp add: ms_units)
qed

end
