(* ===== verification/Spec2Isabelle.thy ===== *)
theory Spec2Isabelle
  imports Account_Forms Analytics Analytics_Correct Api_Client Api_Routes Api_Routes_Correct
    Attendance Attendance_Correct Attendance_Report Attendance_Report_Correct Attendance_Summary
    Auth Auth_Correct Auth_Sessions Biometric Booking_Api Booking_Client Booking_Client_Correct
    Booking_Contract Booking_Correct Booking_Service Bookings Cache_Store Client_Session
    Client_Session_Correct Client_Tokens Client_Tokens_Correct Conflict Conflict_Correct Contact
    Contact_Correct Dashboard Dashboard_Correct Dashboard_Shell Delivery Delivery_Correct
    Email_Delivery Entities Error_Responses Event_Order External_Services Guards Guards_Correct
    Health Hubs Iso_Dates JsNumber JsTime Js_Strings Json Newsletter Newsletter_Page
    Notification_Center Notification_Gateway Number_Text Pagination Password_Policy Prelude
    Pricing Pricing_Correct Query_Cache Reports Reports_Correct Sanitizer Session_Events
    Session_Timeout Session_Timeout_Correct Text_Codecs Totp Totp_Correct User_Search Users
    Users_Correct Workspace_Browser Workspace_Browser_Correct Workspace_Calendar
    Workspace_Calendar_Correct Workspaces Workspaces_Correct
begin

text \<open>
  HubAssist is a coworking and workspace manager: a NestJS server (backend/src) over PostgreSQL and a
  Redis cache, a Next.js browser application (frontend/src), and Soroban contracts in Rust
  (contracts). This development models the TypeScript of the server and of the browser, one theory or
  a few per part, and proves what each part does, together where parts meet. Data are records and
  datatypes with the names of the source, a handler is a function from the state and its inputs to
  its result and the new state, an exception is a value of \<open>http_error\<close> (or of an error type of its
  own), a parameter of a definition stands for code outside the repository.

  \<^bold>\<open>How the parts interact.\<close> A request passes the idempotency middleware and the four global guards
  (Guards), is routed to a handler (Api_Routes), has its body sanitized (Sanitizer), and the handler
  works on one \<open>account\<close>: the database record \<open>db\<close> of Entities with bookings, workspaces, users, price
  rules, outbox and webhook rows, the notifications sent and the dashboard cache, and beside it
  refresh tokens, attendance records, OAuth clients, the shared cache and the mails handed over.
  Bookings are checked by the conflict detection (Conflict) under a lock on the workspace row, priced
  by the pricing engine (Pricing), and leave rows for the outbox and the webhooks (Delivery) in the
  same transaction; notifications reach the sockets (Notification_Gateway). A rejection becomes a
  body in Error_Responses. The browser keeps a session (Client_Session, Client_Tokens), sends requests
  (Api_Client) and has its own logic for booking, catalogue, calendar, timeline, forms and
  notifications, which is stated against the models of the server it talks to.

  \<^bold>\<open>Foundations.\<close>
  \<^item> Prelude: results, outcomes and transactions, tables as lists of rows with the locale
    \<open>keyed_table\<close>, the stable comparator sort.
  \<^item> JsNumber, Number_Text: binary64 arithmetic as exact rationals rounded by \<open>fl\<close>, \<open>toFixed\<close>,
    \<open>Math.round\<close>, and the text of a number; nearest, monotone and exact cases are lemmas.
  \<^item> JsTime, Iso_Dates: the Date interface in UTC, calendar dates, \<open>toISOString\<close> and its round trip.
  \<^item> Json, Text_Codecs, Js_Strings: JSON values and their parser, base64, trimming, searching, truthiness
    and object spread. The fuel of the parser is the length of its text.
  \<^item> Cache_Store: the expiring key-value cache, its laws in the locale \<open>ttl_cache\<close>.

  \<^bold>\<open>The server.\<close>
  \<^item> Pricing, Pricing_Correct (backend/src/pricing, bookings/booking-pricing.service.ts): the price rules and
    \<open>calculatePrice\<close>. Its slices tile the booking and carry the rate in force at every moment; whole hours
    cost whole cents; creating a rule keeps the rules of a day disjoint.
  \<^item> Entities (the entity classes): rows and their JSON; sending of notifications.
  \<^item> Conflict, Conflict_Correct, Event_Order (bookings/conflict-detection.service.ts, capacity-check.service.ts):
    maintenance windows, the sweep over events, hourly availability. The sweep computes the exact peak;
    its comparator sorts by the linear order of instant and kind, so the peak does not depend on the
    order of the rows; no conflict is reported exactly when every instant has room.
  \<^item> Bookings, Booking_Service, Booking_Correct, Booking_Contract, Booking_Api (backend/src/bookings): recurrence,
    cancellation policies, the booking and series services and their handlers. Occupancy never exceeds
    capacity in any reachable state; failures leave no trace; what confirmation and cancellation
    change; bounds of refunds.
  \<^item> Delivery, Delivery_Correct (backend/src/outbox, webhooks, stellar, utils/retry-backoff.ts): both queues
    instantiate the locale \<open>retry_queue\<close>; their schedules are exact. Email_Delivery (backend/src/email): the
    circuit breaker and the retry of mails.
  \<^item> Workspaces, Workspaces_Correct (backend/src/workspaces), Hubs (backend/src/hubs): the tables with their
    cached listing; the effect of a deletion row by row; unique slugs.
  \<^item> Attendance, Attendance_Correct, Attendance_Summary (backend/src/attendance): clock-in and
    clock-out as a state machine with at most one open session, the completion job, cursors, the
    summary as a partition.
  \<^item> Users, Users_Correct, User_Search (backend/src/users): the providers; the table is a directory (locale
    \<open>user_directory\<close>); the search with its pages.
  \<^item> Password_Policy, Auth, Auth_Correct, Auth_Sessions (backend/src/auth): registration, one-time codes,
    tokens, password reset. Guess bounds, the resend limiter as a refinement of a sliding window,
    log-out. Totp, Totp_Correct: base 32, truncation on 32-bit words, the window. Biometric: WebAuthn.
    Session_Events: the stream of session events, its nested teardown as a work list.
  \<^item> Guards, Guards_Correct, Api_Routes, Api_Routes_Correct (the guards, strategies, middleware and controllers):
    the decision for a request, at most one run per idempotency key.
  \<^item> Pagination (common/pagination): cursors and offset pages. Sanitizer (common/pipes, transformers).
    Error_Responses (utils/error.ts). Notification_Gateway (backend/src/notifications).
    Health (backend/src/health): when the probes fail.
  \<^item> Contact, Contact_Correct, Newsletter (backend/src/contact, newsletter): the spam score with the regular
    expressions as scanners, the keyword table, the life cycle of a subscription.
  \<^item> Dashboard, Dashboard_Correct, Analytics, Analytics_Correct, Reports, Reports_Correct (backend/src/dashboard,
    audit, analytics, reports): statistics, trend lines, snapshots, the revenue and occupancy
    reports and their CSV text.
  \<^item> External_Services (stellar/stellar.service.ts, cloudinary, and lib/stellar of the browser): reading and
    calling contracts, the polling for a transaction, profile pictures.

  \<^bold>\<open>The browser.\<close>
  \<^item> Client_Tokens, Client_Tokens_Correct, Client_Session, Client_Session_Correct, Session_Timeout,
    Session_Timeout_Correct (lib/auth, middleware.ts, lib/store/authStore.ts, lib/apiClient.ts, lib/hooks): tokens,
    route protection and when its redirects end, the store, the queue of parked requests as a step
    relation, the warning before a session ends, polling.
  \<^item> Api_Client: the calls of lib/apiClient.ts against the routes and guards of the server.
  \<^item> Account_Forms: schemas, registration, log-in, the code page. Dashboard_Shell: links,
    log-out, shortcuts, settings.
  \<^item> Booking_Client, Booking_Client_Correct: the wizard as a step relation, prices and refunds shown.
    Workspace_Browser, Workspace_Browser_Correct: the catalogue with its filters in the URL.
    Query_Cache (lib/react-query, AdminUserTable.tsx): optimistic updates and their roll-back.
    Newsletter_Page: the preferences form and the sign-up.
    Workspace_Calendar, Workspace_Calendar_Correct: the weekly calendar in a time zone and the form beside it.
  \<^item> Attendance_Report, Attendance_Report_Correct: ISO weeks, the timeline, the CSV export.
    Notification_Center: what counts as read, and the local storage.

  \<^bold>\<open>Assumptions and bounds.\<close> Operations run one after the other: the booking operations lock the row of
  the workspace, and where the source leaves a race (the idempotency middleware, two tabs) the steps
  are separate and interleaved explicitly. A handler reads the clock once. Dates of request bodies are
  modelled after their parsing, amounts of decimal columns as numbers. A property that is undefined is
  not written by a save and is no condition in a look-up, as TypeORM documents; query builders leave out
  deleted rows. Texts are lists of bytes or of code units below 256. The server runs in UTC. Loops
  carry their own bound: the retry loops count their attempts, the price walk and the summaries are
  structural or measured, the JSON parser and the highlighting are given the length of the text as
  fuel (each step consumes a character), the shortest text of a number is found within 17 digits. The
  polling for a transaction has no bound in the source and is a partial function; it is shown when it
  returns. JWT signing and verification, bcrypt, digests and ciphers, the WebAuthn ceremonies, rrule,
  luxon, the Stellar RPC, Cloudinary, SMTP, HTTP, the full-text search and the throttler's storage are
  parameters.

  \<^bold>\<open>Not modelled.\<close> The Rust contracts (another language); migrations, seeds, configuration, logging,
  module wiring and API documentation (declarations and pure input and output);
  the texts of mails; the event stream of the occupancy (transport only);
  markup, styling, charts, static pages and user-interface primitives of the browser, and the hooks
  that only name an endpoint for the query library; tests and their fixtures. The filter in
  common/filters is not installed by main.ts and is left out for the one that is.
\<close>

end
